(* ===== verification/Go_Prelude.thy ===== *)
theory Go_Prelude
  imports Main "HOL-Library.List_Lexorder" "HOL-Library.Char_ord" "HOL-Library.Sublist"
begin

text \<open>
  The shared prelude: the parts of Go and of its standard library that the modelled code uses
  (package \<open>strings\<close>, \<open>strconv\<close>, \<open>sort.Strings\<close>, \<open>fmt.Sprintf\<close> of \<open>%s\<close> and \<open>%d\<close>), the result
  types, and the generic lemmas the component theories rely on.

  Conventions. A Go string is a \<^typ>\<open>string\<close> (a list of bytes). A pointer \<open>*T\<close> that the code only
  tests against nil and dereferences is a \<open>T option\<close>. A Go \<open>int\<close>, \<open>int32\<close> or \<open>int64\<close> is an
  \<^typ>\<open>int\<close>; where the code computes with it, the wrap-around is written out (\<open>wrap64\<close>). A function
  that returns \<open>(T, error)\<close> returns \<open>error + T\<close>, with one constructor of an error datatype per
  error the code builds; a function that returns only \<open>error\<close> returns an \<open>error option\<close>.
  String order (\<open>sort.Strings\<close>) is the byte-wise lexicographic order of
  \<open>HOL-Library.List_Lexorder\<close> over \<open>HOL-Library.Char_ord\<close>.
\<close>

named_theorems go_string \<open>characteristic equations of the string functions\<close>
named_theorems go_result \<open>inversion rules for chained error checks\<close>

text \<open>\<open>ptr.Deref\<close>, and the default of an optional setting.\<close>

abbreviation deref :: "'a \<Rightarrow> 'a option \<Rightarrow> 'a" where
  "deref d x \<equiv> (case x of Some v \<Rightarrow> v | None \<Rightarrow> d)"

section \<open>Package strings\<close>

definition HasPrefix :: "string \<Rightarrow> string \<Rightarrow> bool" where
  "HasPrefix s p = (take (length p) s = p)"

definition HasSuffix :: "string \<Rightarrow> string \<Rightarrow> bool" where
  "HasSuffix s p = (length p \<le> length s \<and> drop (length s - length p) s = p)"

definition TrimPrefix :: "string \<Rightarrow> string \<Rightarrow> string" where
  "TrimPrefix s p = (if HasPrefix s p then drop (length p) s else s)"

definition TrimSuffix :: "string \<Rightarrow> string \<Rightarrow> string" where
  "TrimSuffix s p = (if HasSuffix s p then take (length s - length p) s else s)"

text \<open>\<open>strings.CutPrefix\<close> returns the rest and whether the prefix was there.\<close>

definition CutPrefix :: "string \<Rightarrow> string \<Rightarrow> string option" where
  "CutPrefix s p = (if HasPrefix s p then Some (drop (length p) s) else None)"

text \<open>\<open>strings.LastIndex\<close>: the greatest index at which \<open>sub\<close> occurs; Go's \<open>-1\<close> is \<^term>\<open>None\<close>.\<close>

definition LastIndex :: "string \<Rightarrow> string \<Rightarrow> nat option" where
  "LastIndex s sub =
     find (\<lambda>i. HasPrefix (drop i s) sub) (rev [0..<Suc (length s)])"

text \<open>\<open>strings.Join\<close>.\<close>

fun Join :: "string list \<Rightarrow> string \<Rightarrow> string" where
  "Join [] sep = []"
| "Join [x] sep = x"
| "Join (x # y # ys) sep = x @ sep @ Join (y # ys) sep"

text \<open>\<open>strings.Split\<close> by a one-byte separator.\<close>

fun SplitByte :: "string \<Rightarrow> char \<Rightarrow> string list" where
  "SplitByte [] c = [[]]"
| "SplitByte (x # xs) c =
     (if x = c then [] # SplitByte xs c
      else (case SplitByte xs c of [] \<Rightarrow> [[x]] | w # ws \<Rightarrow> (x # w) # ws))"

lemma HasPrefix_iff [go_string]: "HasPrefix s p \<longleftrightarrow> (\<exists>t. s = p @ t)"
proof
  assume "HasPrefix s p"
  then have "s = p @ drop (length p) s"
    by (metis HasPrefix_def append_take_drop_id)
  then show "\<exists>t. s = p @ t" ..
qed (auto simp: HasPrefix_def)

lemma HasSuffix_iff [go_string]: "HasSuffix s p \<longleftrightarrow> (\<exists>t. s = t @ p)"
proof
  assume "HasSuffix s p"
  then have "s = take (length s - length p) s @ p"
    by (metis HasSuffix_def append_take_drop_id)
  then show "\<exists>t. s = t @ p" ..
qed (auto simp: HasSuffix_def)

lemma HasPrefix_append [simp]: "HasPrefix (p @ t) p"
  by (simp add: HasPrefix_def)

lemma HasSuffix_append [simp]: "HasSuffix (t @ p) p"
  by (simp add: HasSuffix_def)

lemma TrimPrefix_append [simp]: "TrimPrefix (p @ t) p = t"
  by (simp add: TrimPrefix_def)

lemma TrimSuffix_append [simp]: "TrimSuffix (t @ p) p = t"
  by (simp add: TrimSuffix_def)

lemma CutPrefix_Some_iff [go_string]: "CutPrefix s p = Some t \<longleftrightarrow> s = p @ t"
  by (auto simp: CutPrefix_def HasPrefix_iff)

lemma LastIndex_SomeD:
  assumes "LastIndex s sub = Some i"
  shows "i \<le> length s \<and> (\<exists>t. drop i s = sub @ t)"
proof -
  from assms obtain k where k: "k < length (rev [0..<Suc (length s)])"
      "HasPrefix (drop (rev [0..<Suc (length s)] ! k) s) sub" "i = rev [0..<Suc (length s)] ! k"
    unfolding LastIndex_def find_Some_iff by blast
  then have "i \<in> set (rev [0..<Suc (length s)])"
    by (metis nth_mem)
  with k show ?thesis by (auto simp: HasPrefix_iff)
qed

text \<open>A one-byte needle: the last occurrence splits the string with no occurrence after it.\<close>

lemma find_rev_upt_eq:
  assumes "i < n" "P i" "\<And>j. i < j \<Longrightarrow> j < n \<Longrightarrow> \<not> P j"
  shows "find P (rev [0..<n]) = Some i"
  using assms
proof (induction n)
  case (Suc n)
  show ?case
  proof (cases "i = n")
    case True
    with Suc.prems show ?thesis by simp
  next
    case False
    with Suc.prems have "\<not> P n" "i < n" by auto
    then show ?thesis using Suc by simp
  qed
qed simp

lemma find_rev_upt_None:
  "(\<And>j. j < n \<Longrightarrow> \<not> P j) \<Longrightarrow> find P (rev [0..<n]) = None"
  by (auto simp: find_None_iff)

lemma HasPrefix_drop_single:
  "i \<le> length s \<Longrightarrow> HasPrefix (drop i s) [c] \<longleftrightarrow> i < length s \<and> s ! i = c"
  by (cases "i < length s") (auto simp: HasPrefix_def Cons_nth_drop_Suc [symmetric])

lemma LastIndex_byte_eq:
  assumes "c \<notin> set t"
  shows "LastIndex (s @ [c] @ t) [c] = Some (length s)"
  unfolding LastIndex_def
proof (rule find_rev_upt_eq)
  fix j assume j: "length s < j" "j < Suc (length (s @ [c] @ t))"
  show "\<not> HasPrefix (drop j (s @ [c] @ t)) [c]"
  proof
    assume "HasPrefix (drop j (s @ [c] @ t)) [c]"
    with j have "j < length (s @ [c] @ t)" "(s @ [c] @ t) ! j = c"
      using HasPrefix_drop_single [of j "s @ [c] @ t" c] by auto
    with j have "t ! (j - Suc (length s)) = c" "j - Suc (length s) < length t"
      by (auto simp: nth_append)
    with assms show False by (metis nth_mem)
  qed
qed (auto simp: HasPrefix_def)

lemma LastIndex_byte_None: "c \<notin> set s \<Longrightarrow> LastIndex s [c] = None"
  unfolding LastIndex_def
  by (rule find_rev_upt_None) (metis HasPrefix_drop_single less_Suc_eq_le nth_mem)

lemma SplitByte_nonempty [simp]: "SplitByte s c \<noteq> []"
  by (induction s) (auto split: list.splits)

lemma SplitByte_nosep: "c \<notin> set s \<Longrightarrow> SplitByte s c = [s]"
  by (induction s) auto

lemma SplitByte_one: "c \<notin> set a \<Longrightarrow> SplitByte (a @ [c] @ b) c = a # SplitByte b c"
  by (induction a) auto

section \<open>Package strconv\<close>

definition digit_char :: "nat \<Rightarrow> char" where
  "digit_char d = char_of (48 + d)"

definition is_digit :: "char \<Rightarrow> bool" where
  "is_digit c = (48 \<le> (of_char c :: nat) \<and> (of_char c :: nat) \<le> 57)"

definition digit_val :: "char \<Rightarrow> nat" where
  "digit_val c = of_char c - 48"

fun nat_digits :: "nat \<Rightarrow> string" where
  "nat_digits n =
     (if n < 10 then [digit_char n] else nat_digits (n div 10) @ [digit_char (n mod 10)])"

declare nat_digits.simps [simp del]

text \<open>\<open>strconv.Itoa\<close>, \<open>strconv.FormatInt(n, 10)\<close> and the verb \<open>%d\<close>.\<close>

definition Itoa :: "int \<Rightarrow> string" where
  "Itoa i = (if i < 0 then CHR ''-'' # nat_digits (nat (- i)) else nat_digits (nat i))"

definition digits_val :: "string \<Rightarrow> nat" where
  "digits_val s = foldl (\<lambda>a c. 10 * a + digit_val c) 0 s"

text \<open>\<open>strconv.ParseInt(s, 10, bits)\<close>: an optional sign, at least one decimal digit and nothing
  else, and the value in the range of a signed integer of that many bits. \<open>strconv.Atoi\<close> is the
  64-bit case.\<close>

definition ParseInt :: "nat \<Rightarrow> string \<Rightarrow> int option" where
  "ParseInt bits s =
     (let (neg, ds) = (case s of [] \<Rightarrow> (False, [])
                        | c # cs \<Rightarrow> if c = CHR ''-'' then (True, cs)
                                   else if c = CHR ''+'' then (False, cs) else (False, s))
      in if ds = [] \<or> \<not> list_all is_digit ds then None
         else let v = (if neg then - int (digits_val ds) else int (digits_val ds))
              in if - (2 ^ (bits - 1)) \<le> v \<and> v < 2 ^ (bits - 1) then Some v else None)"

abbreviation Atoi :: "string \<Rightarrow> int option" where
  "Atoi \<equiv> ParseInt 64"

lemma of_char_digit_char [simp]: "d < 10 \<Longrightarrow> of_char (digit_char d) = 48 + d"
  by (simp add: digit_char_def)

lemma is_digit_digit_char [simp]: "d < 10 \<Longrightarrow> is_digit (digit_char d)"
  by (simp add: is_digit_def)

lemma digit_val_digit_char [simp]: "d < 10 \<Longrightarrow> digit_val (digit_char d) = d"
  by (simp add: digit_val_def)

lemma nat_digits_nonempty [simp]: "nat_digits n \<noteq> []"
  by (subst nat_digits.simps) simp

lemma nat_digits_all_digit: "list_all is_digit (nat_digits n)"
proof (induction n rule: nat_digits.induct)
  case (1 n)
  then show ?case by (subst nat_digits.simps) auto
qed

lemma digits_val_nat_digits [simp]: "digits_val (nat_digits n) = n"
proof (induction n rule: nat_digits.induct)
  case (1 n)
  then show ?case
    by (cases "n < 10") (simp_all add: nat_digits.simps [of n] digits_val_def)
qed

lemma nat_digits_inject [simp]: "nat_digits m = nat_digits n \<longleftrightarrow> m = n"
  by (metis digits_val_nat_digits)

lemma digit_not_special:
  assumes "is_digit c"
  shows "c \<noteq> CHR ''-''" and "c \<noteq> CHR ''+''" and "c \<noteq> CHR 0x00" and "c \<noteq> CHR ''/''" and "c \<noteq> CHR ''.''"
  using assms by (auto simp: is_digit_def)

lemma nat_digits_no_special:
  assumes "\<not> is_digit c"
  shows "c \<notin> set (nat_digits n)"
  using nat_digits_all_digit [of n] assms by (auto simp: list_all_iff)

lemma not_digit_simps [simp]:
  "\<not> is_digit CHR ''-''" "\<not> is_digit CHR ''+''" "\<not> is_digit CHR 0x00" "\<not> is_digit CHR ''/''"
  "\<not> is_digit CHR ''.''"
  by (auto simp: is_digit_def)

lemma Itoa_nonneg: "0 \<le> i \<Longrightarrow> Itoa i = nat_digits (nat i)"
  by (simp add: Itoa_def)

lemma hd_nat_digits_digit: "is_digit (hd (nat_digits n))"
  using nat_digits_all_digit [of n] by (cases "nat_digits n") auto

lemma nat_digits_neq_minus [simp]: "nat_digits n \<noteq> CHR ''-'' # s"
  using hd_nat_digits_digit [of n] by (metis list.sel(1) not_digit_simps(1))

lemma Itoa_inject [simp]: "Itoa i = Itoa j \<longleftrightarrow> i = j"
  by (auto simp: Itoa_def not_sym [OF nat_digits_neq_minus] split: if_splits)

lemma Itoa_nonempty [simp]: "Itoa i \<noteq> []"
  by (simp add: Itoa_def)

lemma Itoa_no_nul [simp]: "CHR 0x00 \<notin> set (Itoa i)"
  by (auto simp: Itoa_def nat_digits_no_special)

lemma Itoa_no_dash: "0 \<le> i \<Longrightarrow> CHR ''-'' \<notin> set (Itoa i)"
  by (simp add: Itoa_nonneg nat_digits_no_special)

text \<open>The round trip: what \<open>Itoa\<close> prints, \<open>ParseInt\<close> reads back, in the width's range.\<close>

lemma ParseInt_Itoa:
  assumes "- (2 ^ (bits - 1)) \<le> i" "i < 2 ^ (bits - 1)"
  shows "ParseInt bits (Itoa i) = Some i"
proof (cases "i < 0")
  case True
  with assms show ?thesis
    by (simp add: ParseInt_def Itoa_def nat_digits_all_digit)
next
  case False
  obtain c cs where cs: "nat_digits (nat i) = c # cs"
    by (metis list.exhaust nat_digits_nonempty)
  have "is_digit c" using hd_nat_digits_digit [of "nat i"] cs by simp
  then have sign: "c \<noteq> CHR ''-''" "c \<noteq> CHR ''+''" using digit_not_special by auto
  have "list_all is_digit (c # cs)" "digits_val (c # cs) = nat i"
    using nat_digits_all_digit [of "nat i"] digits_val_nat_digits [of "nat i"] cs by auto
  with assms False cs sign show ?thesis
    by (simp add: ParseInt_def Itoa_def)
qed

lemma ParseInt_range:
  "ParseInt bits s = Some i \<Longrightarrow> - (2 ^ (bits - 1)) \<le> i \<and> i < 2 ^ (bits - 1)"
  by (auto simp: ParseInt_def Let_def split: if_splits prod.splits list.splits)

text \<open>The canonical-ordinal test the code writes as \<open>n, err := Atoi(s); err == nil && n >= 0 && Itoa(n) == s\<close>.\<close>

definition canonical_ordinal :: "nat \<Rightarrow> string \<Rightarrow> int option" where
  "canonical_ordinal bits s =
     (case ParseInt bits s of None \<Rightarrow> None
      | Some n \<Rightarrow> if n < 0 \<or> Itoa n \<noteq> s then None else Some n)"

lemma canonical_ordinal_iff [go_string]:
  "canonical_ordinal bits s = Some n \<longleftrightarrow> 0 \<le> n \<and> n < 2 ^ (bits - 1) \<and> s = Itoa n"
proof
  assume "canonical_ordinal bits s = Some n"
  then show "0 \<le> n \<and> n < 2 ^ (bits - 1) \<and> s = Itoa n"
    using ParseInt_range [of bits s n]
    by (auto simp: canonical_ordinal_def split: option.splits if_splits)
next
  assume n: "0 \<le> n \<and> n < 2 ^ (bits - 1) \<and> s = Itoa n"
  then have "ParseInt bits (Itoa n) = Some n"
    by (intro ParseInt_Itoa) (auto intro: order_trans [of _ 0])
  with n show "canonical_ordinal bits s = Some n"
    by (simp add: canonical_ordinal_def)
qed

section \<open>NUL-separated fingerprints\<close>

text \<open>Identities and digests are built by joining fields with the byte 0. On fields that hold no
  byte 0 the join determines the fields.\<close>

definition nul :: string where
  "nul = [CHR 0x00]"

definition nul_free :: "string \<Rightarrow> bool" where
  "nul_free s = (CHR 0x00 \<notin> set s)"

lemma nul_free_simps [simp]:
  "nul_free []" "nul_free (x # xs) \<longleftrightarrow> x \<noteq> CHR 0x00 \<and> nul_free xs"
  "nul_free (xs @ ys) \<longleftrightarrow> nul_free xs \<and> nul_free ys" "nul_free (Itoa i)"
  by (auto simp: nul_free_def)

lemma nul_split:
  assumes "nul_free a" "nul_free b"
  shows "a @ nul @ x = b @ nul @ y \<longleftrightarrow> a = b \<and> x = y"
  using assms
proof (induction a arbitrary: b)
  case Nil
  then show ?case by (cases b) (auto simp: nul_def)
next
  case (Cons c a)
  then show ?case by (cases b) (auto simp: nul_def)
qed

lemma nul_split_last:
  assumes "nul_free x" "nul_free y"
  shows "a @ nul @ x = b @ nul @ y \<longleftrightarrow> a = b \<and> x = y"
proof -
  have "a @ nul @ x = b @ nul @ y \<longleftrightarrow> rev x @ nul @ rev a = rev y @ nul @ rev b"
    by (metis append.assoc nul_def rev_append rev_is_rev_conv rev_singleton_conv)
  also have "\<dots> \<longleftrightarrow> x = y \<and> a = b"
    using assms by (subst nul_split) (auto simp: nul_free_def)
  finally show ?thesis by auto
qed

lemma Join_nul_inject:
  assumes "list_all nul_free xs" "list_all nul_free ys" "length xs = length ys"
  shows "Join xs nul = Join ys nul \<longleftrightarrow> xs = ys"
  using assms(3) assms(1,2)
proof (induction xs ys rule: list_induct2)
  case (Cons x xs y ys)
  show ?case
  proof (cases xs)
    case Nil
    with Cons.hyps show ?thesis by simp
  next
    case (Cons x' xs')
    with Cons.hyps obtain y' ys' where "ys = y' # ys'" by (cases ys) auto
    with Cons Cons.IH Cons.prems show ?thesis by (simp add: nul_split)
  qed
qed simp

text \<open>A joined field list of known length followed by a separator is a prefix code.\<close>

lemma Join_nul_prefix:
  assumes "length xs = length ys" "list_all nul_free xs" "list_all nul_free ys" "xs \<noteq> []"
    and "Join xs nul @ nul @ a = Join ys nul @ nul @ b"
  shows "xs = ys \<and> a = b"
  using assms
proof (induction xs ys rule: list_induct2)
  case (Cons x xs y ys)
  show ?case
  proof (cases xs)
    case Nil
    with Cons.hyps Cons.prems show ?thesis by (auto simp: nul_split)
  next
    case (Cons x' xs')
    with Cons.hyps obtain y' ys' where "ys = y' # ys'" by (cases ys) auto
    with Cons Cons.IH Cons.prems show ?thesis by (simp add: nul_split)
  qed
qed simp

section \<open>Signed 64-bit arithmetic\<close>

text \<open>Go's \<open>int64\<close> operations wrap around, and its division truncates towards zero.\<close>

definition wrap64 :: "int \<Rightarrow> int" where
  "wrap64 x = (x + 2 ^ 63) mod 2 ^ 64 - 2 ^ 63"

definition go_div :: "int \<Rightarrow> int \<Rightarrow> int" where
  "go_div a b = sgn a * sgn b * (\<bar>a\<bar> div \<bar>b\<bar>)"

lemma wrap64_id: "- (2 ^ 63) \<le> x \<Longrightarrow> x < 2 ^ 63 \<Longrightarrow> wrap64 x = x"
  by (simp add: wrap64_def)

lemma wrap64_range: "- (2 ^ 63) \<le> wrap64 x" "wrap64 x < 2 ^ 63"
  by (auto simp: wrap64_def pos_mod_bound [of "2 ^ 64"] algebra_simps)

lemma go_div_nonneg: "0 \<le> a \<Longrightarrow> 0 < b \<Longrightarrow> go_div a b = a div b"
  by (cases "a = 0") (auto simp: go_div_def)

section \<open>First-match loops\<close>

text \<open>Many loops return the first element that satisfies a test; \<^const>\<open>find\<close> is that loop.\<close>

lemma find_SomeD: "find P xs = Some x \<Longrightarrow> x \<in> set xs \<and> P x"
  by (metis find_Some_iff nth_mem)

lemma find_ex: "x \<in> set xs \<Longrightarrow> P x \<Longrightarrow> \<exists>y. find P xs = Some y"
  by (metis find_None_iff option.exhaust)

text \<open>A loop that runs a check on every element and stops at the first error.\<close>

fun first_error :: "('a \<Rightarrow> 'e option) \<Rightarrow> 'a list \<Rightarrow> 'e option" where
  "first_error f [] = None"
| "first_error f (x # xs) = (case f x of Some e \<Rightarrow> Some e | None \<Rightarrow> first_error f xs)"

lemma first_error_None_iff [go_result]: "first_error f xs = None \<longleftrightarrow> (\<forall>x \<in> set xs. f x = None)"
  by (induction xs) (auto split: option.splits)

lemma first_error_SomeD [go_result]: "first_error f xs = Some e \<Longrightarrow> \<exists>x \<in> set xs. f x = Some e"
  by (induction xs) (auto split: option.splits)

text \<open>Chained error checks: \<open>if err := f(); err != nil { return err }\<close>.\<close>

definition and_then :: "'e option \<Rightarrow> 'e option \<Rightarrow> 'e option" where
  "and_then e f = (case e of Some x \<Rightarrow> Some x | None \<Rightarrow> f)"

lemma and_then_simps [simp]: "and_then None f = f" "and_then (Some e) f = Some e"
  by (simp_all add: and_then_def)

lemma and_then_None_iff [go_result, simp]: "and_then e f = None \<longleftrightarrow> e = None \<and> f = None"
  by (cases e) auto

text \<open>Checked updates of a local state: a step returns the error it fails with or the new state, and
  the first error ends the sequence.\<close>

type_synonym ('e, 's) checked = "'s \<Rightarrow> 'e + 's"

definition step_then :: "('e, 's) checked \<Rightarrow> ('e, 's) checked \<Rightarrow> ('e, 's) checked" where
  "step_then f g s = (case f s of Inl e \<Rightarrow> Inl e | Inr t \<Rightarrow> g t)"

fun for_each :: "('a \<Rightarrow> ('e, 's) checked) \<Rightarrow> 'a list \<Rightarrow> ('e, 's) checked" where
  "for_each f [] s = Inr s"
| "for_each f (x # xs) s = step_then (f x) (for_each f xs) s"

end
