(* ===== verification/Hash.thy ===== *)
theory Hash
  imports Go_Prelude
begin

text \<open>
  \<open>src/pkg/utils/hash.go\<close>: \<open>Sha256\<close> is the lower-case hexadecimal form of a SHA-256 digest. The
  digest function itself (\<open>crypto/sha256\<close>) is the argument \<open>sum256\<close>. What the rest of the code relies
  on follows from the hexadecimal form alone: a digest string is not empty and holds neither a dot
  nor a NUL byte. Freedom from collisions is never assumed globally; where a statement needs it, it is
  a hypothesis about the finitely many strings the statement is about.
\<close>

definition hex_digit :: "nat \<Rightarrow> char" where
  "hex_digit n = (if n < 10 then char_of (48 + n) else char_of (87 + n))"

definition hexEncode :: "string \<Rightarrow> string" where
  "hexEncode s = concat (map (\<lambda>c. [hex_digit (of_char c div 16), hex_digit (of_char c mod 16)]) s)"

definition Sha256 :: "(string \<Rightarrow> string) \<Rightarrow> string \<Rightarrow> string" where
  "Sha256 sum256 content = hexEncode (sum256 content)"

definition is_hex :: "char \<Rightarrow> bool" where
  "is_hex c \<longleftrightarrow> is_digit c \<or> (97 \<le> (of_char c :: nat) \<and> (of_char c :: nat) \<le> 102)"

lemma hex_digit_is_hex: "n < 16 \<Longrightarrow> is_hex (hex_digit n)"
  by (auto simp: is_hex_def is_digit_def hex_digit_def)

lemma hexEncode_is_hex: "c \<in> set (hexEncode s) \<Longrightarrow> is_hex c"
proof -
  assume "c \<in> set (hexEncode s)"
  then obtain d where "c = hex_digit (of_char d div 16) \<or> c = hex_digit (of_char d mod 16)"
    by (auto simp: hexEncode_def)
  moreover have "(of_char d :: nat) < 256" by simp
  then have "(of_char d :: nat) div 16 < 16" by (simp add: div_less_iff_less_mult)
  ultimately show ?thesis by (auto intro: hex_digit_is_hex)
qed

lemma length_hexEncode [simp]: "length (hexEncode s) = 2 * length s"
  by (induction s) (auto simp: hexEncode_def)

lemma hexEncode_Nil_iff [simp]: "hexEncode s = [] \<longleftrightarrow> s = []"
  by (metis length_hexEncode length_0_conv mult_eq_0_iff zero_neq_numeral)

text \<open>The interface the fingerprints rely on, and its provider.\<close>

locale hex_digest =
  fixes H :: "string \<Rightarrow> string"
  assumes H_hex: "c \<in> set (H x) \<Longrightarrow> is_hex c"
    and H_nonempty: "H x \<noteq> []"
begin

lemma H_no_dot: "CHR ''.'' \<notin> set (H x)"
  using H_hex [of "CHR ''.''" x] by (auto simp: is_hex_def)

text \<open>A digest followed by a dot is a prefix code: the first dot ends the digest.\<close>

lemma H_dot_prefix: "H x @ ''.'' @ a = H y @ ''.'' @ b \<longleftrightarrow> H x = H y \<and> a = b"
proof
  assume eq: "H x @ ''.'' @ a = H y @ ''.'' @ b"
  have tw: "takeWhile (\<lambda>c. c \<noteq> CHR ''.'') (H z @ ''.'' @ w) = H z" for z w
    using H_no_dot [of z] by (subst takeWhile_append2) auto
  from eq have "takeWhile (\<lambda>c. c \<noteq> CHR ''.'') (H x @ ''.'' @ a) =
      takeWhile (\<lambda>c. c \<noteq> CHR ''.'') (H y @ ''.'' @ b)" by simp
  then have "H x = H y" by (simp only: tw)
  with eq show "H x = H y \<and> a = b" by simp
qed simp

end

locale digest_function =
  fixes sum256 :: "string \<Rightarrow> string"
  assumes sum256_nonempty: "sum256 x \<noteq> []"
begin

lemma Sha256_hex: "c \<in> set (Sha256 sum256 x) \<Longrightarrow> is_hex c"
  by (simp add: Sha256_def hexEncode_is_hex)

end

sublocale digest_function \<subseteq> sha: hex_digest "Sha256 sum256"
  by unfold_locales (auto simp: Sha256_def sum256_nonempty intro: hexEncode_is_hex)

text \<open>A concrete digest for closed examples: the message with an end mark, which is injective.\<close>

definition plain_digest :: "string \<Rightarrow> string" where
  "plain_digest x = x @ [CHR 0x80]"

interpretation plain: digest_function plain_digest
  by unfold_locales (simp add: plain_digest_def)

end
