(* ===== verification/Base64.thy ===== *)
theory Base64
  imports Go_Prelude
begin

text \<open>
  The base64 codec of \<open>encoding/base64\<close> (\<open>StdEncoding\<close>, padded) that the canonical public-key
  check uses. A byte slice is a \<^typ>\<open>string\<close>. As in Go, decoding skips carriage returns and line
  feeds, requires padding, and does not insist that the unused low bits of the last symbol are zero;
  re-encoding is what makes the check of \<open>validateCanonicalPublicKey\<close> exact.
\<close>

definition b64_char :: "nat \<Rightarrow> char" where
  "b64_char n =
     (if n < 26 then char_of (65 + n)
      else if n < 52 then char_of (71 + n)
      else if n < 62 then char_of (n - 4)
      else if n = 62 then CHR ''+'' else CHR ''/'')"

definition b64_val :: "char \<Rightarrow> nat option" where
  "b64_val c =
     (let n = (of_char c :: nat) in
      if 65 \<le> n \<and> n \<le> 90 then Some (n - 65)
      else if 97 \<le> n \<and> n \<le> 122 then Some (n - 71)
      else if 48 \<le> n \<and> n \<le> 57 then Some (n + 4)
      else if c = CHR ''+'' then Some 62
      else if c = CHR ''/'' then Some 63 else None)"

definition byte_val :: "char \<Rightarrow> nat" where
  "byte_val c = of_char c"

fun b64_encode :: "string \<Rightarrow> string" where
  "b64_encode [] = []"
| "b64_encode [x] =
     [b64_char (byte_val x div 4), b64_char ((byte_val x mod 4) * 16), CHR ''='', CHR ''='']"
| "b64_encode [x, y] =
     [b64_char (byte_val x div 4), b64_char ((byte_val x mod 4) * 16 + byte_val y div 16),
      b64_char ((byte_val y mod 16) * 4), CHR ''='']"
| "b64_encode (x # y # z # rest) =
     b64_char (byte_val x div 4) # b64_char ((byte_val x mod 4) * 16 + byte_val y div 16)
       # b64_char ((byte_val y mod 16) * 4 + byte_val z div 64) # b64_char (byte_val z mod 64)
       # b64_encode rest"

text \<open>One group of four symbols; \<open>=\<close> pads the last group only.\<close>

fun b64_quanta :: "string \<Rightarrow> string option" where
  "b64_quanta [] = Some []"
| "b64_quanta (a # b # c # d # rest) =
     (if rest = [] \<and> c = CHR ''='' \<and> d = CHR ''='' then
        (case (b64_val a, b64_val b) of
           (Some p, Some q) \<Rightarrow> Some [char_of (p * 4 + q div 16)]
         | _ \<Rightarrow> None)
      else if rest = [] \<and> d = CHR ''='' then
        (case (b64_val a, b64_val b, b64_val c) of
           (Some p, Some q, Some r) \<Rightarrow>
             Some [char_of (p * 4 + q div 16), char_of ((q mod 16) * 16 + r div 4)]
         | _ \<Rightarrow> None)
      else
        (case (b64_val a, b64_val b, b64_val c, b64_val d, b64_quanta rest) of
           (Some p, Some q, Some r, Some t, Some bs) \<Rightarrow>
             Some (char_of (p * 4 + q div 16) # char_of ((q mod 16) * 16 + r div 4)
                     # char_of ((r mod 4) * 64 + t) # bs)
         | _ \<Rightarrow> None))"
| "b64_quanta _ = None"

definition b64_decode :: "string \<Rightarrow> string option" where
  "b64_decode s = b64_quanta (filter (\<lambda>c. c \<noteq> CHR 0x0D \<and> c \<noteq> CHR 0x0A) s)"

section \<open>Round trip\<close>

lemma byte_val_less [simp]: "byte_val c < 256"
  by (simp add: byte_val_def)

lemma char_of_byte_val [simp]: "char_of (byte_val c) = c"
  by (simp add: byte_val_def)

lemma of_char_b64_char:
  "n < 64 \<Longrightarrow> (of_char (b64_char n) :: nat) =
     (if n < 26 then 65 + n else if n < 52 then 71 + n else if n < 62 then n - 4
      else if n = 62 then 43 else 47)"
  by (auto simp: b64_char_def)

lemma b64_val_char [simp]:
  assumes "n < 64"
  shows "b64_val (b64_char n) = Some n"
proof -
  consider "n < 26" | "26 \<le> n \<and> n < 52" | "52 \<le> n \<and> n < 62" | "n = 62" | "n = 63"
    using assms by linarith
  then show ?thesis
    by cases (auto simp: b64_val_def b64_char_def Let_def)
qed

lemma b64_char_neq:
  assumes "n < 64" "\<not> (65 \<le> (of_char c :: nat) \<and> (of_char c :: nat) \<le> 122)"
    "\<not> (43 \<le> (of_char c :: nat) \<and> (of_char c :: nat) \<le> 57)"
  shows "b64_char n \<noteq> c"
  using assms of_char_b64_char [OF assms(1)] by (auto split: if_splits)

lemma b64_char_special [simp]:
  assumes "n < 64"
  shows "b64_char n \<noteq> CHR ''=''" "b64_char n \<noteq> CHR 0x0D" "b64_char n \<noteq> CHR 0x0A"
  by (rule b64_char_neq [OF assms]; simp)+

lemma sextet_bounds [simp]:
  assumes "(x::nat) < 256" "(y::nat) < 256"
  shows "x div 4 < 64" "(x mod 4) * 16 < 64" "(x mod 4) * 16 + y div 16 < 64"
    "(x mod 16) * 4 < 64" "(x mod 16) * 4 + y div 64 < 64"
proof -
  have m: "x mod 4 < 4" "x mod 16 < 16" by simp_all
  from assms have d: "x div 4 < 64" "y div 16 < 16" "y div 64 < 4" by auto
  show "x div 4 < 64" "(x mod 4) * 16 < 64" "(x mod 4) * 16 + y div 16 < 64"
    "(x mod 16) * 4 < 64" "(x mod 16) * 4 + y div 64 < 64"
    using m d by linarith+
qed

text \<open>Regrouping three bytes into four sextets and back.\<close>

lemma regroup [simp]:
  assumes "(y::nat) < 256" "(z::nat) < 256"
  shows "(x div 4) * 4 + ((x mod 4) * 16 + y div 16) div 16 = (x::nat)"
    "((x mod 4) * 16 + y div 16) mod 16 * 16 + ((y mod 16) * 4 + z div 64) div 4 = y"
    "((y mod 16) * 4 + z div 64) mod 4 * 64 + z mod 64 = z"
proof -
  from assms have d: "y div 16 < 16" "z div 64 < 4" by auto
  then show "(x div 4) * 4 + ((x mod 4) * 16 + y div 16) div 16 = x"
    "((x mod 4) * 16 + y div 16) mod 16 * 16 + ((y mod 16) * 4 + z div 64) div 4 = y"
    "((y mod 16) * 4 + z div 64) mod 4 * 64 + z mod 64 = z"
    by simp_all
qed

lemma byte_parts [simp]:
  "byte_val c div 16 div 16 = 0" "byte_val c div 64 div 4 = 0"
  "byte_val c div 16 mod 16 = byte_val c div 16" "byte_val c div 64 mod 4 = byte_val c div 64"
proof -
  have "byte_val c div 16 < 16" "byte_val c div 64 < 4"
    using byte_val_less [of c] by linarith+
  then show "byte_val c div 16 div 16 = 0" "byte_val c div 64 div 4 = 0"
    "byte_val c div 16 mod 16 = byte_val c div 16" "byte_val c div 64 mod 4 = byte_val c div 64"
    by simp_all
qed

lemmas b64_facts = sextet_bounds [OF byte_val_less byte_val_less] regroup [OF byte_val_less byte_val_less]

lemma b64_quanta_encode: "b64_quanta (b64_encode s) = Some s"
proof (induction s rule: b64_encode.induct)
  case (3 x y)
  have "(byte_val x mod 4 * 16 + byte_val y div 16) mod 16 * 16 + byte_val y mod 16 * 4 div 4
      = byte_val y"
    using regroup(2) [OF byte_val_less, where z = 0] by simp
  then show ?case by (simp add: b64_facts del: div_mult_self_is_m)
next
  case (4 x y z rest)
  then show ?case by (simp add: b64_facts)
qed (simp_all add: b64_facts)

lemma b64_encode_no_newline:
  "filter (\<lambda>c. c \<noteq> CHR 0x0D \<and> c \<noteq> CHR 0x0A) (b64_encode s) = b64_encode s"
  by (induction s rule: b64_encode.induct) (simp_all add: b64_facts)

lemma b64_decode_encode [simp]: "b64_decode (b64_encode s) = Some s"
  by (simp add: b64_decode_def b64_encode_no_newline b64_quanta_encode)

lemma b64_encode_inject [simp]: "b64_encode s = b64_encode t \<longleftrightarrow> s = t"
  by (metis b64_decode_encode option.inject)

lemma length_b64_encode: "length (b64_encode s) = 4 * ((length s + 2) div 3)"
proof (induction s rule: b64_encode.induct)
  case (4 x y z rest)
  have "(length (x # y # z # rest) + 2) div 3 = Suc ((length rest + 2) div 3)" by simp
  with 4 show ?case by simp
qed simp_all

end
