(* ===== verification/Api_Types.thy ===== *)
theory Api_Types
  imports Go_Prelude
begin

text \<open>
  The data model: the structs of \<open>src/api/v1/*_types.go\<close> that the modelled operations read or
  write, one record per struct, with the Go field names under a prefix per struct. A field whose
  Go type is a pointer is an option. Fields that no modelled operation reads are left out of the
  large spec and status structs (scheduling, networking and storage settings); the structs of the
  managed signer are complete. \<open>zero_T\<close> is the Go zero value of a struct.

  The Kubernetes metadata the code reads (\<open>metav1.ObjectMeta\<close>, \<open>metav1.OwnerReference\<close>) is
  represented by the fields the code uses. A timestamp is an \<^typ>\<open>int\<close> (a \<open>deletionTimestamp\<close> that
  is zero is \<^term>\<open>None\<close>).
\<close>

type_synonym uid = string
type_synonym labels = "string \<rightharpoonup> string"

text \<open>A \<open>resource.Quantity\<close> is represented by its amount in nano units, the smallest unit a
  quantity can hold; the functions of the package \<open>resource\<close> are arguments where code calls them.
  A \<open>corev1.ResourceList\<close> is an association list, \<^term>\<open>None\<close> the nil map.\<close>

type_synonym quantity = int
type_synonym resource_list = "(string \<times> quantity) list"

record ResourceRequirements =
  rr_Limits :: "resource_list option"
  rr_Requests :: "resource_list option"

record OwnerReference =
  or_APIVersion :: string
  or_Kind :: string
  or_Name :: string
  or_UID :: uid
  or_Controller :: "bool option"

record ObjectMeta =
  m_Name :: string
  m_Namespace :: string
  m_UID :: uid
  m_Labels :: labels
  m_Annotations :: labels
  m_OwnerReferences :: "OwnerReference list"
  m_DeletionTimestamp :: "int option"
  m_Finalizers :: "string list"
  m_CreationTimestamp :: int
  m_Generation :: int

text \<open>A \<open>metav1.Condition\<close> without its transition time, which no modelled code reads.\<close>

record Condition =
  co_Type :: string
  co_Status :: string
  co_ObservedGeneration :: int
  co_Reason :: string
  co_Message :: string

record SecretKeySelector =
  sks_Name :: string
  sks_Key :: string

section \<open>cosmosigner_types.go\<close>

record CosmosignerSoftwareBackend =
  sw_PrivateKeySecret :: "string option"

record CosmosignerVaultBackend =
  vb_Address :: string
  vb_KeyName :: string
  vb_KeyVersion :: "int option"
  vb_Mount :: "string option"
  vb_TokenSecret :: "SecretKeySelector option"
  vb_CertificateSecret :: "SecretKeySelector option"
  vb_Namespace :: "string option"
  vb_UploadGenerated :: bool

record CosmosignerGcpKmsImport =
  gi_Project :: string
  gi_Location :: "string option"
  gi_KeyRing :: string
  gi_Key :: string
  gi_ImportJob :: "string option"
  gi_ProtectionLevel :: "string option"

record CosmosignerGcpKmsBackend =
  gk_KeyVersion :: string
  gk_Import :: "CosmosignerGcpKmsImport option"
  gk_CredentialsSecret :: "SecretKeySelector option"

record CosmosignerBackend =
  be_Software :: "CosmosignerSoftwareBackend option"
  be_Vault :: "CosmosignerVaultBackend option"
  be_GcpKMS :: "CosmosignerGcpKmsBackend option"

record Cosmosigner =
  cs_NodeGroups :: "string list"
  cs_Replicas :: "int option"
  cs_Image :: "string option"
  cs_Backend :: CosmosignerBackend
  cs_StateStorageSize :: "string option"
  cs_StorageClassName :: "string option"
  cs_Resources :: "ResourceRequirements option"
  cs_RaftTLSSecret :: "string option"
  cs_UnsafeAllowInsecureRaft :: bool
  cs_LogLevel :: "string option"
  cs_ServiceAccountName :: "string option"

text \<open>The phase is a Go string; a value outside the declared constants is \<open>MigrationOther\<close>.\<close>

datatype CosmosignerMigrationPhase =
    CosmosignerMigrationQuiescing
  | CosmosignerMigrationDeleting
  | CosmosignerMigrationResettingState
  | CosmosignerMigrationRetargeting
  | CosmosignerMigrationRecreating
  | CosmosignerMigrationRollingOut
  | MigrationOther string

record CosmosignerMigrationStatus =
  ms_DesiredDigest :: string
  ms_DesiredPublicKey :: string
  ms_Phase :: CosmosignerMigrationPhase
  ms_ResetState :: bool
  ms_RolloutObservedAt :: "int option"

record CosmosignerStatus =
  st_Name :: string
  st_ResourceName :: string
  st_AppliedDigest :: string
  st_PublicKey :: string
  st_TargetGroups :: "string list"
  st_Migration :: "CosmosignerMigrationStatus option"
  st_Replicas :: "int option"
  st_StateStorageSize :: string
  st_StateStorageClassName :: "string option"
  st_SigningDigest :: string
  st_AtEstablishment :: "string option"
  st_ServingIdentity :: string
  st_ServingGroup :: string
  st_LocalKeyEverServed :: "bool option"
  st_KeyImported :: string
  st_ImportedKeyVersion :: string

definition zero_CosmosignerStatus :: CosmosignerStatus where
  "zero_CosmosignerStatus =
     \<lparr>st_Name = [], st_ResourceName = [], st_AppliedDigest = [], st_PublicKey = [],
      st_TargetGroups = [], st_Migration = None, st_Replicas = None, st_StateStorageSize = [],
      st_StateStorageClassName = None, st_SigningDigest = [], st_AtEstablishment = None,
      st_ServingIdentity = [], st_ServingGroup = [], st_LocalKeyEverServed = None,
      st_KeyImported = [], st_ImportedKeyVersion = []\<rparr>"

section \<open>common_types.go\<close>

record TmKmsHashicorpProvider =
  hc_Address :: string
  hc_Key :: string
  hc_CertificateSecret :: "SecretKeySelector option"
  hc_TokenSecret :: "SecretKeySelector option"
  hc_UploadGenerated :: bool
  hc_AutoRenewToken :: bool
  hc_SkipCertificateVerify :: bool

record TmKmsProvider =
  tp_Hashicorp :: "TmKmsHashicorpProvider option"

record TmKMS =
  tk_Provider :: TmKmsProvider
  tk_PersistState :: "bool option"

record GenesisValidator =
  gv_PrivKeySecret :: string
  gv_AccountMnemonicSecret :: string
  gv_Moniker :: string
  gv_Assets :: "string list"
  gv_StakeAmount :: string

record GenesisInitConfig =
  gc_ChainID :: string
  gc_Assets :: "string list"
  gc_StakeAmount :: string
  gc_GenesisValidators :: "GenesisValidator list"
  gc_AccountMnemonicSecret :: "string option"

record CreateValidatorConfig =
  cv_AccountMnemonicSecret :: "string option"
  cv_StakeAmount :: string
  cv_GasPrices :: string

datatype UpgradePhase =
    UpgradeImageMissing | UpgradeScheduled | UpgradeOnGoing | UpgradeCompleted | UpgradeSkipped

datatype UpgradeSource = OnChainUpgrade | ManualUpgrade

record UpgradeSpec =
  us_Height :: int
  us_Image :: string
  us_ForceOnChain :: "bool option"

record Upgrade =
  up_Height :: int
  up_Image :: string
  up_Status :: UpgradePhase
  up_Source :: UpgradeSource

record AppSpec =
  app_Image :: string
  app_Version :: "string option"
  app_App :: string
  app_CheckGovUpgrades :: "bool option"
  app_Upgrades :: "UpgradeSpec list"

text \<open>Durations and times are integers, in nanoseconds.\<close>

datatype ScalingDirection = ScaleUp | ScaleDown | DirectionOther string

datatype LimitUpdateStrategy =
    LimitRetain | LimitEqual | LimitVpaMax | LimitPercentage | LimitUnset | StrategyOther string

record VerticalAutoscalingRule =
  vr_Direction :: ScalingDirection
  vr_UsagePercent :: int
  vr_Duration :: "string option"
  vr_StepPercent :: int
  vr_Cooldown :: "string option"

record VerticalAutoscalingMetricConfig =
  vm_Min :: quantity
  vm_Max :: quantity
  vm_Rules :: "VerticalAutoscalingRule list"
  vm_Cooldown :: "string option"
  vm_LimitStrategy :: "LimitUpdateStrategy option"
  vm_LimitPercentage :: "int option"
  vm_SafetyMarginPercent :: "int option"
  vm_HysteresisPercent :: "int option"
  vm_EmergencyScaleUpPercent :: "int option"
  vm_MaxOOMRecoveries :: "int option"
  vm_OOMRecoveryWindow :: "string option"

record VerticalAutoscalingConfig =
  va_Enabled :: bool
  va_ResetVpaAfterNodeUpgrade :: bool
  va_CPU :: "VerticalAutoscalingMetricConfig option"
  va_Memory :: "VerticalAutoscalingMetricConfig option"

record GcsExportConfig =
  gx_Bucket :: string
  gx_CredentialsSecret :: "SecretKeySelector option"
  gx_ServiceAccountName :: "string option"
  gx_SizeLimit :: "string option"
  gx_PartSize :: "string option"
  gx_ChunkSize :: "string option"
  gx_BufferSize :: "string option"
  gx_ConcurrentJobs :: "int option"

record S3ExportConfig =
  sx_Bucket :: string
  sx_Region :: string
  sx_Endpoint :: "string option"
  sx_ForcePathStyle :: "bool option"
  sx_CredentialsSecret :: "string option"
  sx_ServiceAccountName :: "string option"
  sx_SizeLimit :: "string option"
  sx_PartSize :: "string option"
  sx_ChunkSize :: "string option"
  sx_BufferSize :: "string option"
  sx_ConcurrentJobs :: "int option"

text \<open>The secret of an S3 config is a \<open>LocalObjectReference\<close>, that is a name.\<close>

record ExportTarballConfig =
  et_Suffix :: "string option"
  et_DeleteOnExpire :: "bool option"
  et_Compression :: "string option"
  et_GCS :: "GcsExportConfig option"
  et_S3 :: "S3ExportConfig option"

datatype SnapshotExportProvider =
    SnapshotExportProviderS3 | SnapshotExportProviderGCS | SnapshotExportProviderUnknown | ProviderOther string

datatype SnapshotExportPhase =
    SnapshotExportPhaseUploading | SnapshotExportPhaseUploaded | SnapshotExportPhaseDeleting
  | SnapshotExportPhaseCleanupRequired | SnapshotExportPhaseDeleted | SnapshotExportPhaseAcknowledged
  | ExportPhaseOther string

record SnapshotExportSecretReference =
  sr_Name :: string
  sr_Key :: string

record SnapshotExportDestination =
  ds_Provider :: SnapshotExportProvider
  ds_Bucket :: string
  ds_Region :: string
  ds_Endpoint :: string
  ds_ForcePathStyle :: bool
  ds_CredentialsSecret :: "SnapshotExportSecretReference option"
  ds_ServiceAccountName :: string

record SnapshotExportStatus =
  ex_ID :: string
  ex_SnapshotName :: string
  ex_SnapshotUID :: uid
  ex_ObjectName :: string
  ex_Destination :: SnapshotExportDestination
  ex_Phase :: SnapshotExportPhase
  ex_Message :: string
  ex_Compression :: string
  ex_SizeLimit :: string
  ex_PartSize :: string
  ex_ChunkSize :: string
  ex_BufferSize :: string
  ex_ConcurrentJobs :: int
  ex_DeleteOnExpire :: bool
  ex_DeleteAttempts :: int
  ex_DeleteExhausted :: bool
  ex_LastDeleteError :: string
  ex_NextDeleteRetryAt :: "int option"

text \<open>The scheduling fields of the integrity-check job are left out.\<close>

record VolumeSnapshotsConfig =
  vs_Frequency :: string
  vs_Retention :: "string option"
  vs_Retain :: "int option"
  vs_PreserveLastSnapshot :: "bool option"
  vs_SnapshotClassName :: "string option"
  vs_StopNode :: "bool option"
  vs_ExportTarball :: "ExportTarballConfig option"
  vs_Verify :: "bool option"
  vs_DisableWhileSyncing :: "bool option"
  vs_DisableWhileUnhealthy :: "bool option"

record PvcSnapshot =
  ps_Name :: string

record Persistence =
  pe_Size :: "string option"
  pe_AutoResize :: "bool option"
  pe_AutoResizeThreshold :: "int option"
  pe_AutoResizeIncrement :: "string option"
  pe_AutoResizeMaxSize :: "string option"
  pe_Snapshots :: "VolumeSnapshotsConfig option"
  pe_RestoreFromSnapshot :: "PvcSnapshot option"

section \<open>chainnode_types.go\<close>

datatype ChainNodePhase =
    PhaseChainNodeInitData | PhaseChainNodeInitGenesis | PhaseChainNodeStarting
  | PhaseChainNodeRunning | PhaseChainNodeSyncing | PhaseChainNodeStateSyncing
  | PhaseChainNodeRestarting | PhaseChainNodeStopped | PhaseChainNodeError
  | PhaseChainNodeSnapshotting | PhaseChainNodeUpgrading | PhaseChainNodeUnset

record ValidatorConfig =
  vc_PrivateKeySecret :: "string option"
  vc_Init :: "GenesisInitConfig option"
  vc_TmKMS :: "TmKMS option"
  vc_CreateValidator :: "CreateValidatorConfig option"

text \<open>Of \<open>Config\<close> and \<open>SidecarSpec\<close> the fields that the pod reconcile reads.\<close>

record SidecarSpec =
  sc_Name :: string
  sc_RestartPodOnFailure :: "bool option"

record Config =
  cf_Sidecars :: "SidecarSpec list"
  cf_HaltHeight :: "int option"

text \<open>A \<open>DeletionPolicyType\<close> outside the two constants is \<open>DeletionPolicyOther\<close>.\<close>

datatype DeletionPolicyType = DeletionPolicyRetain | DeletionPolicyDelete | DeletionPolicyOther string

record DeletionPolicy =
  dp_DataVolumes :: "DeletionPolicyType option"
  dp_GeneratedKeys :: "DeletionPolicyType option"
  dp_CosmosignerState :: "DeletionPolicyType option"

record ChainNodeSpec =
  cn_App :: AppSpec
  cn_Config :: "Config option"
  cn_Persistence :: "Persistence option"
  cn_Validator :: "ValidatorConfig option"
  cn_Cosmosigner :: "Cosmosigner option"
  cn_RemoteSignerTarget :: bool
  cn_StateSyncRestore :: "bool option"
  cn_StateSyncResources :: ResourceRequirements
  cn_Resources :: ResourceRequirements
  cn_VPA :: "VerticalAutoscalingConfig option"
  cn_OverrideVersion :: "string option"
  cn_IgnoreGroupOnDisruptionChecks :: "bool option"
  cn_DeletionPolicy :: "DeletionPolicy option"

record ChainNodeStatus =
  cns_Phase :: ChainNodePhase
  cns_Conditions :: "Condition list"
  cns_ChainID :: string
  cns_PvcSize :: string
  cns_AppVersion :: string
  cns_LatestHeight :: int
  cns_Upgrades :: "Upgrade list"
  cns_PubKey :: string
  cns_CosmosignerPublicKey :: string
  cns_CosmosignerAtEstablishment :: "string option"
  cns_SnapshotExports :: "SnapshotExportStatus list"
  cns_TmKMSReservationIdentity :: string
  cns_CosmosignerAppliedDigest :: string
  cns_CosmosignerSigningDigest :: string
  cns_CosmosignerMigration :: "CosmosignerMigrationStatus option"
  cns_CosmosignerReplicas :: "int option"
  cns_CosmosignerValidatorTargeted :: "bool option"
  cns_CosmosignerStateStorageSize :: string
  cns_CosmosignerStateStorageClassName :: "string option"
  cns_CosmosignerServingIdentity :: string
  cns_CosmosignerKeyImported :: string
  cns_CosmosignerImportedKeyVersion :: string

record ChainNode =
  cn_Meta :: ObjectMeta
  cn_Spec :: ChainNodeSpec
  cn_Status :: ChainNodeStatus

section \<open>chainnodeset_types.go\<close>

record ChainNodeSetNodeStatus =
  nst_Name :: string
  nst_UID :: uid

record ChainNodeSetValidatorStatus =
  vst_Name :: string
  vst_UID :: uid
  vst_Group :: string
  vst_Address :: string
  vst_Status :: string
  vst_PubKey :: string

record NodeSetValidatorConfig =
  nv_PrivateKeySecret :: "string option"
  nv_Init :: "GenesisInitConfig option"
  nv_TmKMS :: "TmKMS option"
  nv_CreateValidator :: "CreateValidatorConfig option"

record NodeGroupSpec =
  ng_Name :: string
  ng_Instances :: "int option"
  ng_Validator :: "NodeSetValidatorConfig option"
  ng_Cosmosigner :: "Cosmosigner option"

record ChainNodeSetSpec =
  ns_App :: AppSpec
  ns_Validator :: "NodeSetValidatorConfig option"
  ns_Nodes :: "NodeGroupSpec list"
  ns_Cosmosigner :: "Cosmosigner option"
  ns_DeletionPolicy :: "DeletionPolicy option"

record ChainNodeSetStatus =
  nss_ChainID :: string
  nss_Nodes :: "ChainNodeSetNodeStatus list"
  nss_Validators :: "ChainNodeSetValidatorStatus list"
  nss_PubKey :: string
  nss_Upgrades :: "Upgrade list"
  nss_LatestHeight :: int
  nss_Cosmosigners :: "CosmosignerStatus list"

record ChainNodeSet =
  ns_Meta :: ObjectMeta
  ns_Spec :: ChainNodeSetSpec
  ns_Status :: ChainNodeSetStatus

section \<open>consensuskeyreservation_types.go\<close>

record ConsensusKeyReservationSpec =
  rs_ChainID :: string
  rs_PublicKey :: string
  rs_OwnerUID :: uid
  rs_OwnerKind :: string
  rs_Namespace :: string
  rs_OwnerName :: string
  rs_Claim :: string

record ConsensusKeyReservation =
  ckr_Meta :: ObjectMeta
  ckr_Spec :: ConsensusKeyReservationSpec

section \<open>Zero values and accessors\<close>

definition zero_Meta :: ObjectMeta where
  "zero_Meta = \<lparr>m_Name = [], m_Namespace = [], m_UID = [], m_Labels = Map.empty,
     m_Annotations = Map.empty, m_OwnerReferences = [], m_DeletionTimestamp = None,
     m_Finalizers = [], m_CreationTimestamp = 0, m_Generation = 0\<rparr>"

definition zero_Backend :: CosmosignerBackend where
  "zero_Backend = \<lparr>be_Software = None, be_Vault = None, be_GcpKMS = None\<rparr>"

definition zero_Cosmosigner :: Cosmosigner where
  "zero_Cosmosigner = \<lparr>cs_NodeGroups = [], cs_Replicas = None, cs_Image = None,
     cs_Backend = zero_Backend, cs_StateStorageSize = None, cs_StorageClassName = None,
     cs_Resources = None, cs_RaftTLSSecret = None, cs_UnsafeAllowInsecureRaft = False,
     cs_LogLevel = None, cs_ServiceAccountName = None\<rparr>"

definition zero_App :: AppSpec where
  "zero_App = \<lparr>app_Image = [], app_Version = None, app_App = [], app_CheckGovUpgrades = None,
     app_Upgrades = []\<rparr>"

definition zero_Resources :: ResourceRequirements where
  "zero_Resources = \<lparr>rr_Limits = None, rr_Requests = None\<rparr>"

definition zero_ChainNode :: ChainNode where
  "zero_ChainNode = \<lparr>cn_Meta = zero_Meta,
     cn_Spec = \<lparr>cn_App = zero_App, cn_Config = None, cn_Persistence = None, cn_Validator = None, cn_Cosmosigner = None,
       cn_RemoteSignerTarget = False, cn_StateSyncRestore = None, cn_StateSyncResources = zero_Resources,
       cn_Resources = zero_Resources, cn_VPA = None, cn_OverrideVersion = None,
       cn_IgnoreGroupOnDisruptionChecks = None, cn_DeletionPolicy = None\<rparr>,
     cn_Status = \<lparr>cns_Phase = PhaseChainNodeUnset, cns_Conditions = [], cns_ChainID = [], cns_PvcSize = [], cns_AppVersion = [],
       cns_LatestHeight = 0, cns_Upgrades = [], cns_PubKey = [], cns_CosmosignerPublicKey = [],
       cns_CosmosignerAtEstablishment = None, cns_SnapshotExports = [], cns_TmKMSReservationIdentity = [],
       cns_CosmosignerAppliedDigest = [], cns_CosmosignerSigningDigest = [], cns_CosmosignerMigration = None,
       cns_CosmosignerReplicas = None, cns_CosmosignerValidatorTargeted = None, cns_CosmosignerStateStorageSize = [],
       cns_CosmosignerStateStorageClassName = None, cns_CosmosignerServingIdentity = [], cns_CosmosignerKeyImported = [],
       cns_CosmosignerImportedKeyVersion = []\<rparr>\<rparr>"

definition zero_ChainNodeSet :: ChainNodeSet where
  "zero_ChainNodeSet = \<lparr>ns_Meta = zero_Meta,
     ns_Spec = \<lparr>ns_App = zero_App, ns_Validator = None, ns_Nodes = [], ns_Cosmosigner = None,
       ns_DeletionPolicy = None\<rparr>,
     ns_Status = \<lparr>nss_ChainID = [], nss_Nodes = [], nss_Validators = [], nss_PubKey = [],
       nss_Upgrades = [], nss_LatestHeight = 0, nss_Cosmosigners = []\<rparr>\<rparr>"

lemmas zero_defs = zero_Meta_def zero_Resources_def zero_Backend_def zero_Cosmosigner_def zero_App_def
  zero_ChainNode_def zero_ChainNodeSet_def zero_CosmosignerStatus_def

abbreviation cn_name :: "ChainNode \<Rightarrow> string" where "cn_name n \<equiv> m_Name (cn_Meta n)"
abbreviation cn_uid :: "ChainNode \<Rightarrow> uid" where "cn_uid n \<equiv> m_UID (cn_Meta n)"
abbreviation ns_name :: "ChainNodeSet \<Rightarrow> string" where "ns_name s \<equiv> m_Name (ns_Meta s)"
abbreviation ns_uid :: "ChainNodeSet \<Rightarrow> uid" where "ns_uid s \<equiv> m_UID (ns_Meta s)"

end
