(* ===== verification/Derived_Names.thy ===== *)
theory Derived_Names
  imports Api_Types
begin

text \<open>
  \<open>src/api/v1/derived_names.go\<close>: the names cosmopilot derives from the name of a resource, the
  length check of the label-bound ones, and the reserved-name checks that keep two resources from
  fighting over one derived name.
\<close>

section \<open>Lengths\<close>

record nameFeatures =
  nf_cosmosigner :: bool
  nf_cosmoguardNode :: bool
  nf_cosmoguardGroup :: bool

text \<open>The error carries what the message prints: the description and the name.\<close>

datatype NameError =
    NameTooLong string string string
  | ReservedSuffix string string
  | ReservedStatefulChild string

definition derivedNameChecks :: "nameFeatures \<Rightarrow> (bool \<times> string \<times> string) list" where
  "derivedNameChecks f =
     [(True, ''-internal'', ''internal Service''),
      (nf_cosmosigner f, ''-signer-privval'', ''cosmosigner discovery Service''),
      (nf_cosmoguardNode f, ''-cg-peer'', ''CosmoGuard peer Service''),
      (nf_cosmoguardGroup f, ''-cg-upstream'', ''CosmoGuard upstream Service'')]"

definition validateDerivedNameLengths :: "string \<Rightarrow> string \<Rightarrow> nameFeatures \<Rightarrow> NameError option" where
  "validateDerivedNameLengths base subject f =
     first_error (\<lambda>(on, suffix, desc).
        if \<not> on then None
        else if length (base @ suffix) > 63 then Some (NameTooLong desc (base @ suffix) subject)
        else None) (derivedNameChecks f)"

section \<open>Reserved names\<close>

definition reservedNameSuffixes :: "string list" where
  "reservedNameSuffixes =
     [''-internal'', ''-p2p'', ''-grpc'',
      ''-tls'', ''-priv-key'', ''-account'',
      ''-upgrades'', ''-init-data'', ''-config-generator'', ''-genesis-init'', ''-create-validator'',
      ''-tmkms'', ''-tmkms-generate-identity'', ''-tmkms-vault-upload'',
      ''-cg'', ''-cg-peer'', ''-cg-cluster'', ''-cg-dashboard'', ''-cg-upstream'',
      ''-signer'', ''-signer-privval'', ''-signer-import'', ''-signer-pubkey'',
      ''-seed'', ''-seed-headless'', ''-cosmoseed'',
      ''-validator'']"

definition ValidateReservedResourceName :: "string \<Rightarrow> bool \<Rightarrow> NameError option" where
  "ValidateReservedResourceName name isCreate =
     (if \<not> isCreate then None
      else first_error (\<lambda>suffix. if HasSuffix name suffix then Some (ReservedSuffix name suffix) else None)
             reservedNameSuffixes)"

definition ValidateReservedStatefulChildName :: "string \<Rightarrow> bool \<Rightarrow> NameError option" where
  "ValidateReservedStatefulChildName name isCreate =
     (if \<not> isCreate then None
      else case LastIndex name ''-'' of
             None \<Rightarrow> None
           | Some lastDash \<Rightarrow>
               let base = take lastDash name; ordinal = drop (Suc lastDash) name in
               if \<not> HasSuffix base ''-signer'' \<and> \<not> HasSuffix base ''-cg'' \<and> \<not> HasSuffix base ''-seed''
               then None
               else case ParseInt 32 ordinal of
                      None \<Rightarrow> None
                    | Some n \<Rightarrow> if n < 0 \<or> Itoa n \<noteq> ordinal then None
                               else Some (ReservedStatefulChild name))"

definition ValidateReservedResourceNameNoWebhook :: "string \<Rightarrow> bool \<Rightarrow> NameError option" where
  "ValidateReservedResourceNameNoWebhook name isEstablished =
     (if isEstablished then None else ValidateReservedResourceName name True)"

section \<open>What the checks decide\<close>

definition derivedLabelNames :: "string \<Rightarrow> nameFeatures \<Rightarrow> string set" where
  "derivedLabelNames base f =
     {base, base @ ''-internal''}
     \<union> (if nf_cosmosigner f then {base @ ''-signer-privval''} else {})
     \<union> (if nf_cosmoguardNode f then {base @ ''-cg-peer''} else {})
     \<union> (if nf_cosmoguardGroup f then {base @ ''-cg-upstream''} else {})"

text \<open>The length check accepts a base name exactly when every label-bound name
  derived from it for the enabled subsystems, the base name included, has at most 63 characters.\<close>

theorem validateDerivedNameLengths_iff:
  "validateDerivedNameLengths base subject f = None \<longleftrightarrow>
     (\<forall>n \<in> derivedLabelNames base f. length n \<le> 63)"
  by (auto simp: validateDerivedNameLengths_def derivedNameChecks_def derivedLabelNames_def
      split: if_splits)

theorem validateDerivedNameLengths_iff_witness:
  "validateDerivedNameLengths ''osmosis'' ''group''
     \<lparr>nf_cosmosigner = True, nf_cosmoguardNode = False, nf_cosmoguardGroup = False\<rparr> = None \<and>
   validateDerivedNameLengths (replicate 50 CHR ''a'') ''group''
     \<lparr>nf_cosmosigner = True, nf_cosmoguardNode = False, nf_cosmoguardGroup = False\<rparr> \<noteq> None"
  unfolding validateDerivedNameLengths_iff
  by (simp add: derivedLabelNames_def)

lemma LastIndex_dash_split:
  assumes "LastIndex name ''-'' = Some i"
  shows "name = take i name @ ''-'' @ drop (Suc i) name \<and> CHR ''-'' \<notin> set (drop (Suc i) name)"
proof -
  have "CHR ''-'' \<in> set name"
    using assms LastIndex_byte_None by force
  then obtain a b where ab: "name = a @ CHR ''-'' # b" "CHR ''-'' \<notin> set b"
    using split_list_last by metis
  then have "i = length a"
    using assms LastIndex_byte_eq [of "CHR ''-''" b a] by simp
  with ab show ?thesis by simp
qed

lemma ValidateReservedStatefulChildName_rejects:
  "ValidateReservedStatefulChildName name True \<noteq> None \<longleftrightarrow>
     (\<exists>i n. LastIndex name ''-'' = Some i \<and> canonical_ordinal 32 (drop (Suc i) name) = Some n \<and>
        (\<exists>s \<in> {''-signer'', ''-cg'', ''-seed''}. HasSuffix (take i name) s))"
  by (auto simp: ValidateReservedStatefulChildName_def canonical_ordinal_def Let_def
      split: option.splits if_splits)

text \<open>On creation the StatefulSet-child check rejects a name exactly when it is
  \<open><x>-signer-<n>\<close>, \<open><x>-cg-<n>\<close> or \<open><x>-seed-<n>\<close> for an ordinal \<open>n\<close> of 32 bits in canonical decimal
  form.\<close>

theorem ValidateReservedStatefulChildName_iff:
  "ValidateReservedStatefulChildName name True \<noteq> None \<longleftrightarrow>
     (\<exists>x n. \<exists>s \<in> {''-signer'', ''-cg'', ''-seed''}.
        0 \<le> n \<and> n < 2 ^ 31 \<and> name = x @ s @ ''-'' @ Itoa n)"
proof
  assume "ValidateReservedStatefulChildName name True \<noteq> None"
  then obtain i n s where i: "LastIndex name ''-'' = Some i"
    and n: "canonical_ordinal 32 (drop (Suc i) name) = Some n"
    and s: "s \<in> {''-signer'', ''-cg'', ''-seed''}" "HasSuffix (take i name) s"
    unfolding ValidateReservedStatefulChildName_rejects by blast
  from s obtain x where "take i name = x @ s" by (auto simp: HasSuffix_iff)
  with LastIndex_dash_split [OF i] n s
  show "\<exists>x n. \<exists>s \<in> {''-signer'', ''-cg'', ''-seed''}.
      0 \<le> n \<and> n < 2 ^ 31 \<and> name = x @ s @ ''-'' @ Itoa n"
    by (intro exI [of _ x] exI [of _ n] bexI [of _ s]) (auto simp: canonical_ordinal_iff)
next
  assume "\<exists>x n. \<exists>s \<in> {''-signer'', ''-cg'', ''-seed''}.
      0 \<le> n \<and> n < 2 ^ 31 \<and> name = x @ s @ ''-'' @ Itoa n"
  then obtain x n s where s: "s \<in> {''-signer'', ''-cg'', ''-seed''}"
    and n: "0 \<le> n" "n < 2 ^ 31" and name: "name = (x @ s) @ ''-'' @ Itoa n"
    unfolding append_assoc by blast
  have i: "LastIndex name ''-'' = Some (length (x @ s))"
    unfolding name using LastIndex_byte_eq [OF Itoa_no_dash [OF n(1)]] by blast
  have parts: "drop (Suc (length (x @ s))) name = Itoa n" "take (length (x @ s)) name = x @ s"
    unfolding name by simp_all
  have "canonical_ordinal 32 (Itoa n) = Some n" using n by (simp add: canonical_ordinal_iff)
  with i parts s show "ValidateReservedStatefulChildName name True \<noteq> None"
    unfolding ValidateReservedStatefulChildName_rejects by (metis HasSuffix_append)
qed

lemma ValidateReservedResourceName_None_iff:
  "ValidateReservedResourceName name True = None \<longleftrightarrow>
     (\<forall>s \<in> set reservedNameSuffixes. \<nexists>base. name = base @ s)"
  by (simp add: ValidateReservedResourceName_def first_error_None_iff HasSuffix_iff)



end
