(* ===== verification/Cosmosigner_Helper.thy ===== *)
theory Cosmosigner_Helper
  imports Api_Types
begin

text \<open>
  The signer block itself: \<open>src/api/v1/cosmosigner_helper.go\<close> (defaults, backend selection, the
  import fingerprints and the import decision of the Cloud KMS backend, \<open>Validate\<close>, the effective
  signing identity) and the Vault identities of \<open>chainnodeset_webhook.go\<close>.

  Arguments that stand for code outside the repository: \<open>H\<close> is \<open>utils.Sha256\<close> (SHA-256 in
  hexadecimal), \<open>canon\<close> is the JSON canonicalisation (unmarshal, then marshal; \<^term>\<open>None\<close> when the
  bytes are not JSON), \<open>parseQty\<close> is \<open>resource.ParseQuantity\<close>.
\<close>

section \<open>Defaults and backend selection\<close>

definition DefaultCosmosignerReplicas :: int where "DefaultCosmosignerReplicas = 1"
definition DefaultCosmosignerStateStorageSize :: string where "DefaultCosmosignerStateStorageSize = ''1Gi''"
definition DefaultCosmosignerVaultMount :: string where "DefaultCosmosignerVaultMount = ''transit''"
definition DefaultCosmosignerGcpLocation :: string where "DefaultCosmosignerGcpLocation = ''global''"
definition CosmosignerGcpProtectionSoftware :: string where "CosmosignerGcpProtectionSoftware = ''software''"
definition CosmosignerGcpProtectionHSM :: string where "CosmosignerGcpProtectionHSM = ''hsm''"
definition DefaultCosmosignerImage :: string where
  "DefaultCosmosignerImage = ''ghcr.io/voluzi/cosmosigner:0.2.1''"

lemmas signer_defaults = DefaultCosmosignerReplicas_def DefaultCosmosignerStateStorageSize_def
  DefaultCosmosignerVaultMount_def DefaultCosmosignerGcpLocation_def
  CosmosignerGcpProtectionSoftware_def CosmosignerGcpProtectionHSM_def DefaultCosmosignerImage_def

definition GetReplicas :: "Cosmosigner option \<Rightarrow> int" where
  "GetReplicas c =
     (case c of Some s \<Rightarrow> (case cs_Replicas s of Some r \<Rightarrow> r | None \<Rightarrow> DefaultCosmosignerReplicas)
      | None \<Rightarrow> DefaultCosmosignerReplicas)"

definition GetImage :: "Cosmosigner option \<Rightarrow> string \<Rightarrow> string" where
  "GetImage c operatorDefault =
     (case Option.bind c cs_Image of
        Some i \<Rightarrow> if i \<noteq> [] then i
                 else if operatorDefault \<noteq> [] then operatorDefault else DefaultCosmosignerImage
      | None \<Rightarrow> if operatorDefault \<noteq> [] then operatorDefault else DefaultCosmosignerImage)"

definition GetStateStorageSize :: "Cosmosigner option \<Rightarrow> string" where
  "GetStateStorageSize c =
     (case Option.bind c cs_StateStorageSize of Some x \<Rightarrow> x
      | None \<Rightarrow> DefaultCosmosignerStateStorageSize)"

definition UsesSoftwareBackend :: "Cosmosigner option \<Rightarrow> bool" where
  "UsesSoftwareBackend c = (case c of None \<Rightarrow> False | Some s \<Rightarrow> be_Software (cs_Backend s) \<noteq> None)"

definition UsesVaultBackend :: "Cosmosigner option \<Rightarrow> bool" where
  "UsesVaultBackend c = (case c of None \<Rightarrow> False | Some s \<Rightarrow> be_Vault (cs_Backend s) \<noteq> None)"

definition UsesGcpKmsBackend :: "Cosmosigner option \<Rightarrow> bool" where
  "UsesGcpKmsBackend c = (case c of None \<Rightarrow> False | Some s \<Rightarrow> be_GcpKMS (cs_Backend s) \<noteq> None)"

definition VaultUploadsGenerated :: "Cosmosigner option \<Rightarrow> bool \<Rightarrow> bool" where
  "VaultUploadsGenerated c initTarget =
     (case Option.bind c (\<lambda>s. be_Vault (cs_Backend s)) of None \<Rightarrow> False
      | Some v \<Rightarrow> vb_UploadGenerated v \<or> initTarget)"

definition GcpImportsKey :: "Cosmosigner option \<Rightarrow> bool" where
  "GcpImportsKey c =
     (case Option.bind c (\<lambda>s. be_GcpKMS (cs_Backend s)) of None \<Rightarrow> False
      | Some g \<Rightarrow> gk_Import g \<noteq> None)"

definition ImportsGeneratedKey :: "Cosmosigner option \<Rightarrow> bool \<Rightarrow> bool" where
  "ImportsGeneratedKey c initTarget = (VaultUploadsGenerated c initTarget \<or> GcpImportsKey c)"

definition UsesPubkeyPod :: "Cosmosigner option \<Rightarrow> bool \<Rightarrow> bool" where
  "UsesPubkeyPod c initTarget =
     (c \<noteq> None \<and> \<not> UsesSoftwareBackend c \<and> \<not> VaultUploadsGenerated c initTarget)"

definition RequiresLocalPrivKey :: "Cosmosigner option \<Rightarrow> bool" where
  "RequiresLocalPrivKey c =
     (if c = None then False
      else if UsesSoftwareBackend c then True
      else VaultUploadsGenerated c False)"

definition GetVaultMount :: "CosmosignerVaultBackend \<Rightarrow> string" where
  "GetVaultMount b =
     (case vb_Mount b of Some m \<Rightarrow> if m \<noteq> [] then m else DefaultCosmosignerVaultMount
      | None \<Rightarrow> DefaultCosmosignerVaultMount)"

definition GetKeyVersion :: "CosmosignerVaultBackend \<Rightarrow> int" where
  "GetKeyVersion b = (case vb_KeyVersion b of Some v \<Rightarrow> v | None \<Rightarrow> 1)"

definition vaultNamespace :: "CosmosignerVaultBackend \<Rightarrow> string" where
  "vaultNamespace b = (case vb_Namespace b of Some n \<Rightarrow> n | None \<Rightarrow> [])"

section \<open>Import fingerprints\<close>

definition VaultImportTargetFingerprint ::
    "(string \<Rightarrow> string) \<Rightarrow> CosmosignerVaultBackend \<Rightarrow> string \<Rightarrow> string" where
  "VaultImportTargetFingerprint H b sourceSecret =
     H (Join [vb_Address b, vaultNamespace b, GetVaultMount b, vb_KeyName b,
              Itoa (GetKeyVersion b), sourceSecret] nul)"

definition VaultLegacyImportTargetFingerprint ::
    "(string \<Rightarrow> string) \<Rightarrow> CosmosignerVaultBackend \<Rightarrow> string \<Rightarrow> string" where
  "VaultLegacyImportTargetFingerprint H b sourceSecret =
     H (Join [vb_Address b, vaultNamespace b, GetVaultMount b, vb_KeyName b, sourceSecret] nul)"

definition importKeyMaterialHash ::
    "(string \<Rightarrow> string) \<Rightarrow> (string \<Rightarrow> string option) \<Rightarrow> string \<Rightarrow> string" where
  "importKeyMaterialHash H canon keyMaterial =
     (case canon keyMaterial of Some c \<Rightarrow> H c | None \<Rightarrow> H keyMaterial)"

definition VaultImportFingerprint ::
    "(string \<Rightarrow> string) \<Rightarrow> (string \<Rightarrow> string option) \<Rightarrow> CosmosignerVaultBackend \<Rightarrow> string \<Rightarrow> string \<Rightarrow> string"
    where
  "VaultImportFingerprint H canon b sourceSecret keyMaterial =
     VaultImportTargetFingerprint H b sourceSecret @ ''.'' @ importKeyMaterialHash H canon keyMaterial"

definition VaultLegacyImportFingerprint ::
    "(string \<Rightarrow> string) \<Rightarrow> CosmosignerVaultBackend \<Rightarrow> string \<Rightarrow> string \<Rightarrow> string" where
  "VaultLegacyImportFingerprint H b sourceSecret keyMaterial =
     VaultLegacyImportTargetFingerprint H b sourceSecret @ ''.'' @ H keyMaterial"

definition ImportRecordMatchesTarget :: "string \<Rightarrow> string \<Rightarrow> bool" where
  "ImportRecordMatchesTarget record targetFingerprint = HasPrefix record (targetFingerprint @ ''.'')"

definition VaultImportRecordMatchesTarget ::
    "(string \<Rightarrow> string) \<Rightarrow> CosmosignerVaultBackend \<Rightarrow> string \<Rightarrow> string \<Rightarrow> bool" where
  "VaultImportRecordMatchesTarget H b record sourceSecret =
     (ImportRecordMatchesTarget record (VaultImportTargetFingerprint H b sourceSecret) \<or>
      (GetKeyVersion b = 1 \<and>
       ImportRecordMatchesTarget record (VaultLegacyImportTargetFingerprint H b sourceSecret)))"

definition VaultImportRecordMatches ::
    "(string \<Rightarrow> string) \<Rightarrow> (string \<Rightarrow> string option) \<Rightarrow> CosmosignerVaultBackend \<Rightarrow> string \<Rightarrow> string \<Rightarrow> string \<Rightarrow> bool"
    where
  "VaultImportRecordMatches H canon b record sourceSecret keyMaterial =
     (record = VaultImportFingerprint H canon b sourceSecret keyMaterial \<or>
      record = VaultImportTargetFingerprint H b sourceSecret @ ''.'' @ H keyMaterial \<or>
      (GetKeyVersion b = 1 \<and> record = VaultLegacyImportFingerprint H b sourceSecret keyMaterial))"

section \<open>Cloud KMS import\<close>

definition GetLocation :: "CosmosignerGcpKmsImport \<Rightarrow> string" where
  "GetLocation i =
     (case gi_Location i of Some l \<Rightarrow> if l \<noteq> [] then l else DefaultCosmosignerGcpLocation
      | None \<Rightarrow> DefaultCosmosignerGcpLocation)"

definition GetImportJob :: "CosmosignerGcpKmsImport option \<Rightarrow> string" where
  "GetImportJob i =
     (case i of None \<Rightarrow> []
      | Some j \<Rightarrow> (case gi_ImportJob j of
                    Some n \<Rightarrow> if n \<noteq> [] then n else gi_Key j @ ''-import''
                  | None \<Rightarrow> gi_Key j @ ''-import''))"

definition GetProtectionLevel :: "CosmosignerGcpKmsImport \<Rightarrow> string" where
  "GetProtectionLevel i =
     (case gi_ProtectionLevel i of Some l \<Rightarrow> if l \<noteq> [] then l else CosmosignerGcpProtectionSoftware
      | None \<Rightarrow> CosmosignerGcpProtectionSoftware)"

definition CryptoKeyName :: "CosmosignerGcpKmsImport option \<Rightarrow> string" where
  "CryptoKeyName i =
     (case i of None \<Rightarrow> []
      | Some j \<Rightarrow> ''projects/'' @ gi_Project j @ ''/locations/'' @ GetLocation j
                  @ ''/keyRings/'' @ gi_KeyRing j @ ''/cryptoKeys/'' @ gi_Key j)"

text \<open>\<open>strings.Trim(version, "0123456789") == ""\<close> holds exactly when every byte is a digit.\<close>

definition OwnsKeyVersion :: "CosmosignerGcpKmsImport option \<Rightarrow> string \<Rightarrow> bool" where
  "OwnsKeyVersion i keyVersion =
     (let name = CryptoKeyName i in
      if name = [] then False
      else case CutPrefix keyVersion (name @ ''/cryptoKeyVersions/'') of
             None \<Rightarrow> False
           | Some version \<Rightarrow> version \<noteq> [] \<and> list_all is_digit version)"

definition ResolvedKeyVersion :: "CosmosignerGcpKmsBackend option \<Rightarrow> string \<Rightarrow> string" where
  "ResolvedKeyVersion b recorded =
     (case b of None \<Rightarrow> []
      | Some g \<Rightarrow> if gk_Import g = None then gk_KeyVersion g
                 else if OwnsKeyVersion (gk_Import g) recorded then recorded else [])"

definition gcpImportIdentity :: "CosmosignerGcpKmsImport option \<Rightarrow> string" where
  "gcpImportIdentity i =
     (case i of None \<Rightarrow> []
      | Some j \<Rightarrow> Join [gi_Project j, GetLocation j, gi_KeyRing j, gi_Key j] nul)"

definition GcpImportTargetFingerprint ::
    "(string \<Rightarrow> string) \<Rightarrow> CosmosignerGcpKmsBackend option \<Rightarrow> string \<Rightarrow> string" where
  "GcpImportTargetFingerprint H b sourceSecret =
     (case b of None \<Rightarrow> []
      | Some g \<Rightarrow> if gk_Import g = None then []
                 else H (''gcpkms'' @ nul @ gcpImportIdentity (gk_Import g) @ nul @ sourceSecret))"

definition GcpImportFingerprint ::
    "(string \<Rightarrow> string) \<Rightarrow> (string \<Rightarrow> string option) \<Rightarrow> CosmosignerGcpKmsBackend option \<Rightarrow> string \<Rightarrow> string \<Rightarrow> string"
    where
  "GcpImportFingerprint H canon b sourceSecret keyMaterial =
     (let target = GcpImportTargetFingerprint H b sourceSecret in
      if target = [] then [] else target @ ''.'' @ importKeyMaterialHash H canon keyMaterial)"

definition GcpImportRecordMatchesTarget ::
    "(string \<Rightarrow> string) \<Rightarrow> CosmosignerGcpKmsBackend option \<Rightarrow> string \<Rightarrow> string \<Rightarrow> bool" where
  "GcpImportRecordMatchesTarget H b record sourceSecret =
     (let target = GcpImportTargetFingerprint H b sourceSecret in
      target \<noteq> [] \<and> ImportRecordMatchesTarget record target)"

definition GcpImportRecordMatches ::
    "(string \<Rightarrow> string) \<Rightarrow> (string \<Rightarrow> string option) \<Rightarrow> CosmosignerGcpKmsBackend option \<Rightarrow> string \<Rightarrow> string \<Rightarrow> string \<Rightarrow> bool"
    where
  "GcpImportRecordMatches H canon b record sourceSecret keyMaterial =
     (let want = GcpImportFingerprint H canon b sourceSecret keyMaterial in
      if want \<noteq> [] \<and> record = want then True
      else let target = GcpImportTargetFingerprint H b sourceSecret in
           target \<noteq> [] \<and> record = target @ ''.'' @ H keyMaterial)"

datatype GcpImportStep =
    GcpImportRun | GcpImportVerify | GcpImportComplete | GcpImportMismatch | GcpImportSourceMissing

definition NextGcpImportStep ::
    "(string \<Rightarrow> string) \<Rightarrow> (string \<Rightarrow> string option) \<Rightarrow> CosmosignerGcpKmsBackend option
      \<Rightarrow> string \<Rightarrow> string \<Rightarrow> string \<Rightarrow> string \<Rightarrow> GcpImportStep" where
  "NextGcpImportStep H canon b record keyVersion sourceSecret keyMaterial =
     (case b of None \<Rightarrow> GcpImportComplete
      | Some g \<Rightarrow>
        if gk_Import g = None then GcpImportComplete
        else if keyMaterial = [] then
          (if GcpImportRecordMatchesTarget H b record sourceSecret \<and> OwnsKeyVersion (gk_Import g) keyVersion
           then GcpImportComplete else GcpImportSourceMissing)
        else if GcpImportRecordMatches H canon b record sourceSecret keyMaterial then
          (if OwnsKeyVersion (gk_Import g) keyVersion then GcpImportComplete else GcpImportRun)
        else if GcpImportRecordMatchesTarget H b record sourceSecret then GcpImportMismatch
        else if OwnsKeyVersion (gk_Import g) keyVersion then GcpImportVerify
        else GcpImportRun)"

section \<open>Signing identities\<close>

definition normalizedVaultIdentity :: "string \<Rightarrow> string \<Rightarrow> string \<Rightarrow> string \<Rightarrow> int \<Rightarrow> string" where
  "normalizedVaultIdentity address namespace mount key version =
     Join [''vault'', address, namespace, mount, key, Itoa version] nul"

definition tmkmsNormalizedVaultKey :: "TmKMS option \<Rightarrow> string option" where
  "tmkmsNormalizedVaultKey t =
     (case Option.bind t (\<lambda>k. tp_Hashicorp (tk_Provider k)) of None \<Rightarrow> None
      | Some h \<Rightarrow> if hc_Address h = [] \<or> hc_Key h = [] then None
                 else Some (normalizedVaultIdentity (hc_Address h) [] DefaultCosmosignerVaultMount (hc_Key h) 1))"

definition tmKMSSigningKeyIdentity :: "TmKMS option \<Rightarrow> string option" where
  "tmKMSSigningKeyIdentity t =
     (case Option.bind t (\<lambda>k. tp_Hashicorp (tk_Provider k)) of None \<Rightarrow> None
      | Some h \<Rightarrow> if hc_Address h = [] \<or> hc_Key h = [] then None
                 else Some (Join [''hashicorp'', hc_Address h, hc_Key h] nul))"

definition effectiveSigningIdentity :: "Cosmosigner option \<Rightarrow> string \<Rightarrow> string" where
  "effectiveSigningIdentity c softwareKeySecret =
     (case c of None \<Rightarrow> []
      | Some s \<Rightarrow>
        (case be_Vault (cs_Backend s) of
           Some v \<Rightarrow> normalizedVaultIdentity (vb_Address v) (vaultNamespace v) (GetVaultMount v)
                       (vb_KeyName v) (GetKeyVersion v)
         | None \<Rightarrow>
           (case be_GcpKMS (cs_Backend s) of
              Some g \<Rightarrow> if gk_Import g \<noteq> None then ''gcpkms-import'' @ nul @ gcpImportIdentity (gk_Import g)
                       else ''gcpkms'' @ nul @ gk_KeyVersion g
            | None \<Rightarrow> if be_Software (cs_Backend s) \<noteq> None then ''software'' @ nul @ softwareKeySecret
                     else [])))"

definition localKeySigningIdentity :: "string \<Rightarrow> string" where
  "localKeySigningIdentity secret = ''software'' @ nul @ secret"

section \<open>Validate\<close>

datatype SignerError =
    NoBackend | MultipleBackends | ReplicasTooFew | ReplicasEven | BadStateStorageSize
  | VaultAddressRequired | VaultKeyNameRequired | VaultKeyVersionTooSmall
  | VaultUploadNeedsVersionOne | VaultTokenSecretRequired | VaultCertificateSecretIncomplete
  | GcpKeyVersionOrImportRequired | GcpKeyVersionAndImport | GcpProjectRequired
  | GcpKeyRingRequired | GcpKeyRequired | GcpLocationEmpty | GcpImportJobEmpty
  | GcpProtectionLevelInvalid | GcpCredentialsSecretIncomplete
  | NodeGroupsNotAllowed | RaftTLSSecretEmpty | RaftTLSSecretRequired | RaftTLSAndInsecure

definition incompleteSelector :: "SecretKeySelector option \<Rightarrow> bool" where
  "incompleteSelector sel =
     (case sel of None \<Rightarrow> False | Some x \<Rightarrow> sks_Name x = [] \<or> sks_Key x = [])"

definition validateVaultBackend :: "CosmosignerVaultBackend \<Rightarrow> SignerError option" where
  "validateVaultBackend v =
     (if vb_Address v = [] then Some VaultAddressRequired
      else if vb_KeyName v = [] then Some VaultKeyNameRequired
      else if GetKeyVersion v < 1 then Some VaultKeyVersionTooSmall
      else if vb_UploadGenerated v \<and> GetKeyVersion v \<noteq> 1 then Some VaultUploadNeedsVersionOne
      else if vb_TokenSecret v = None \<or> incompleteSelector (vb_TokenSecret v)
      then Some VaultTokenSecretRequired
      else if incompleteSelector (vb_CertificateSecret v) then Some VaultCertificateSecretIncomplete
      else None)"

definition validateGcpImport :: "CosmosignerGcpKmsImport \<Rightarrow> SignerError option" where
  "validateGcpImport i =
     (if gi_Project i = [] then Some GcpProjectRequired
      else if gi_KeyRing i = [] then Some GcpKeyRingRequired
      else if gi_Key i = [] then Some GcpKeyRequired
      else if gi_Location i = Some [] then Some GcpLocationEmpty
      else if gi_ImportJob i = Some [] then Some GcpImportJobEmpty
      else if GetProtectionLevel i \<noteq> CosmosignerGcpProtectionSoftware \<and>
              GetProtectionLevel i \<noteq> CosmosignerGcpProtectionHSM then Some GcpProtectionLevelInvalid
      else None)"

definition validateGcpBackend :: "CosmosignerGcpKmsBackend \<Rightarrow> SignerError option" where
  "validateGcpBackend g =
     (if gk_KeyVersion g = [] \<and> gk_Import g = None then Some GcpKeyVersionOrImportRequired
      else if gk_KeyVersion g \<noteq> [] \<and> gk_Import g \<noteq> None then Some GcpKeyVersionAndImport
      else and_then (case gk_Import g of None \<Rightarrow> None | Some i \<Rightarrow> validateGcpImport i)
             (if incompleteSelector (gk_CredentialsSecret g) then Some GcpCredentialsSecretIncomplete
              else None))"

definition countBackends :: "CosmosignerBackend \<Rightarrow> nat" where
  "countBackends b =
     (if be_Software b \<noteq> None then 1 else 0) + (if be_Vault b \<noteq> None then 1 else 0)
     + (if be_GcpKMS b \<noteq> None then 1 else 0)"

text \<open>The error carries the field path the message starts with.\<close>

definition Validate ::
    "(string \<Rightarrow> quantity option) \<Rightarrow> Cosmosigner option \<Rightarrow> string \<Rightarrow> bool \<Rightarrow> (string \<times> SignerError) option"
    where
  "Validate parseQty c path allowNodeGroups =
     (case c of None \<Rightarrow> None
      | Some s \<Rightarrow> map_option (Pair path)
         (let backends = countBackends (cs_Backend s); replicas = GetReplicas c in
          if backends = 0 then Some NoBackend
          else if backends > 1 then Some MultipleBackends
          else if replicas < 1 then Some ReplicasTooFew
          else if replicas mod 2 = 0 then Some ReplicasEven
          else if (case cs_StateStorageSize s of None \<Rightarrow> False | Some z \<Rightarrow> parseQty z = None)
          then Some BadStateStorageSize
          else and_then
            (case be_Vault (cs_Backend s) of
               Some v \<Rightarrow> validateVaultBackend v
             | None \<Rightarrow> (case be_GcpKMS (cs_Backend s) of Some g \<Rightarrow> validateGcpBackend g | None \<Rightarrow> None))
            (if \<not> allowNodeGroups \<and> cs_NodeGroups s \<noteq> [] then Some NodeGroupsNotAllowed
             else if cs_RaftTLSSecret s = Some [] then Some RaftTLSSecretEmpty
             else if replicas > 1 \<and> cs_RaftTLSSecret s = None \<and> \<not> cs_UnsafeAllowInsecureRaft s
             then Some RaftTLSSecretRequired
             else if cs_RaftTLSSecret s \<noteq> None \<and> cs_UnsafeAllowInsecureRaft s
             then Some RaftTLSAndInsecure
             else None)))"

section \<open>Immutable state storage\<close>

definition CosmosignerStateStorageEqual ::
    "(string \<Rightarrow> quantity option) \<Rightarrow> string \<Rightarrow> string option \<Rightarrow> string \<Rightarrow> string option \<Rightarrow> bool" where
  "CosmosignerStateStorageEqual parseQty sizeA classA sizeB classB =
     (if classA \<noteq> classB then False
      else case (parseQty sizeA, parseQty sizeB) of
             (Some qa, Some qb) \<Rightarrow> qa = qb
           | _ \<Rightarrow> sizeA = sizeB)"

datatype ImmutableError = ReplicasImmutable | StateStorageImmutable

definition validateCosmosignerStateStorageImmutable ::
    "(string \<Rightarrow> quantity option) \<Rightarrow> Cosmosigner option \<Rightarrow> Cosmosigner option \<Rightarrow> ImmutableError option" where
  "validateCosmosignerStateStorageImmutable parseQty oldC newC =
     (case (oldC, newC) of
        (Some old, Some new) \<Rightarrow>
          if \<not> CosmosignerStateStorageEqual parseQty (GetStateStorageSize oldC) (cs_StorageClassName old)
                 (GetStateStorageSize newC) (cs_StorageClassName new)
          then Some StateStorageImmutable else None
      | _ \<Rightarrow> None)"

definition validateCosmosignerReplicasImmutable ::
    "(string \<Rightarrow> quantity option) \<Rightarrow> Cosmosigner option \<Rightarrow> Cosmosigner option \<Rightarrow> ImmutableError option" where
  "validateCosmosignerReplicasImmutable parseQty oldC newC =
     (if oldC = None \<or> newC = None then None
      else if GetReplicas oldC \<noteq> GetReplicas newC then Some ReplicasImmutable
      else validateCosmosignerStateStorageImmutable parseQty oldC newC)"

end
