(* ===== verification/Cosmosigner_Resolve.thy ===== *)
theory Cosmosigner_Resolve
  imports Cosmosigner_Helper
begin

text \<open>
  \<open>src/api/v1/cosmosigner_resolve.go\<close>, the parts of \<open>cosmosigner_helper.go\<close> and
  \<open>chainnodeset_helper.go\<close> it calls, and the establishment of a chain: which managed signers a
  ChainNodeSet runs, which key each one holds, the lifecycle digest of a signer, the status entries
  keyed by signer name, and how a recorded child is matched.

  \<open>ResolvedSigner.Spec\<close> is a pointer, and \<open>signerFieldPath\<close> compares it with
  \<open>&nodeSet.Spec.Cosmosigner\<close> by identity; \<open>rsg_Origin\<close> records which block the pointer was taken from.
\<close>

section \<open>Resolution\<close>

definition ReservedValidatorGroupName :: string where "ReservedValidatorGroupName = ''validator''"
definition DefaultGroupInstances :: int where "DefaultGroupInstances = 1"

datatype signer_origin = NoBlock | TopLevelBlock | GroupBlock

record ResolvedSigner =
  rsg_Name :: string
  rsg_Spec :: "Cosmosigner option"
  rsg_Origin :: signer_origin
  rsg_TargetGroups :: "string list"
  rsg_ValidatorGroup :: string
  rsg_SoftwareKeySecret :: string

definition GetInstances :: "NodeGroupSpec \<Rightarrow> int" where
  "GetInstances g = (case ng_Instances g of Some n \<Rightarrow> n | None \<Rightarrow> DefaultGroupInstances)"

definition explicitSecret :: "string option \<Rightarrow> string option" where
  "explicitSecret s = (case s of Some x \<Rightarrow> if x \<noteq> [] then Some x else None | None \<Rightarrow> None)"

definition validatorKeySecret :: "ChainNodeSet \<Rightarrow> string \<Rightarrow> string" where
  "validatorKeySecret ns grp =
     (if grp = ReservedValidatorGroupName then
        (case Option.bind (ns_Validator (ns_Spec ns)) (\<lambda>v. explicitSecret (nv_PrivateKeySecret v)) of
           Some s \<Rightarrow> s
         | None \<Rightarrow> ns_name ns @ ''-validator-priv-key'')
      else
        (case find (\<lambda>g. ng_Name g = grp \<and> ng_Validator g \<noteq> None) (ns_Nodes (ns_Spec ns)) of
           None \<Rightarrow> []
         | Some g \<Rightarrow>
             (case explicitSecret (nv_PrivateKeySecret (the (ng_Validator g))) of
                Some s \<Rightarrow> s
              | None \<Rightarrow> ns_name ns @ ''-'' @ grp @ ''-0-priv-key'')))"

definition resolveSignerKeySecret :: "ChainNodeSet \<Rightarrow> Cosmosigner \<Rightarrow> string \<Rightarrow> string" where
  "resolveSignerKeySecret ns c validatorGroup =
     (if validatorGroup \<noteq> [] then validatorKeySecret ns validatorGroup
      else case Option.bind (be_Software (cs_Backend c)) sw_PrivateKeySecret of
             Some s \<Rightarrow> s | None \<Rightarrow> [])"

text \<open>One iteration of the loop over \<open>c.NodeGroups\<close>: the validator group found so far.\<close>

definition topLevelValidatorStep :: "ChainNodeSet \<Rightarrow> string \<Rightarrow> string \<Rightarrow> string" where
  "topLevelValidatorStep ns name vg =
     (if name = ReservedValidatorGroupName \<and> ns_Validator (ns_Spec ns) \<noteq> None
      then ReservedValidatorGroupName
      else fold (\<lambda>g vg. if ng_Name g = name \<and> ng_Validator g \<noteq> None then name else vg)
             (ns_Nodes (ns_Spec ns)) vg)"

definition resolveTopLevelSigner :: "ChainNodeSet \<Rightarrow> Cosmosigner \<Rightarrow> ResolvedSigner" where
  "resolveTopLevelSigner ns c =
     (let (targets, vg) =
        (if cs_NodeGroups c = [] then
           (if ns_Validator (ns_Spec ns) \<noteq> None
            then ([ReservedValidatorGroupName], ReservedValidatorGroupName) else ([], []))
         else (cs_NodeGroups c, fold (topLevelValidatorStep ns) (cs_NodeGroups c) []))
      in \<lparr>rsg_Name = ns_name ns @ ''-signer'', rsg_Spec = Some c, rsg_Origin = TopLevelBlock,
          rsg_TargetGroups = targets, rsg_ValidatorGroup = vg,
          rsg_SoftwareKeySecret = resolveSignerKeySecret ns c vg\<rparr>)"

definition resolveGroupSigners :: "ChainNodeSet \<Rightarrow> NodeGroupSpec \<Rightarrow> Cosmosigner \<Rightarrow> ResolvedSigner list" where
  "resolveGroupSigners ns g c =
     (if ng_Validator g = None then
        [\<lparr>rsg_Name = ns_name ns @ ''-'' @ ng_Name g @ ''-signer'', rsg_Spec = Some c,
          rsg_Origin = GroupBlock, rsg_TargetGroups = [ng_Name g], rsg_ValidatorGroup = [],
          rsg_SoftwareKeySecret = resolveSignerKeySecret ns c []\<rparr>]
      else
        [\<lparr>rsg_Name = ns_name ns @ ''-'' @ ng_Name g @ ''-signer'', rsg_Spec = Some c,
          rsg_Origin = GroupBlock, rsg_TargetGroups = [ng_Name g], rsg_ValidatorGroup = ng_Name g,
          rsg_SoftwareKeySecret = resolveSignerKeySecret ns c (ng_Name g)\<rparr>])"

definition ResolveCosmosigners :: "ChainNodeSet \<Rightarrow> ResolvedSigner list" where
  "ResolveCosmosigners ns =
     (case ns_Cosmosigner (ns_Spec ns) of Some c \<Rightarrow> [resolveTopLevelSigner ns c] | None \<Rightarrow> []) @
     concat (map (\<lambda>g. case ng_Cosmosigner g of None \<Rightarrow> [] | Some c \<Rightarrow> resolveGroupSigners ns g c)
       (ns_Nodes (ns_Spec ns)))"

definition groupCosmosigner :: "ChainNodeSet \<Rightarrow> string \<Rightarrow> Cosmosigner option" where
  "groupCosmosigner ns grp =
     (case find (\<lambda>g. ng_Name g = grp \<and> ng_Cosmosigner g \<noteq> None) (ns_Nodes (ns_Spec ns)) of
        Some g \<Rightarrow> ng_Cosmosigner g
      | None \<Rightarrow>
          (case ns_Cosmosigner (ns_Spec ns) of None \<Rightarrow> None
           | Some c \<Rightarrow>
               if cs_NodeGroups c = [] then
                 (if grp = ReservedValidatorGroupName \<and> ns_Validator (ns_Spec ns) \<noteq> None
                  then Some c else None)
               else if grp \<in> set (cs_NodeGroups c) then Some c else None))"

definition IsCosmosignerTargetGroup :: "ChainNodeSet \<Rightarrow> string \<Rightarrow> bool" where
  "IsCosmosignerTargetGroup ns grp =
     list_ex (\<lambda>s. grp \<in> set (rsg_TargetGroups s)) (ResolveCosmosigners ns)"

section \<open>Identity and digest of a resolved signer\<close>

definition Identity :: "ResolvedSigner \<Rightarrow> string" where
  "Identity s = effectiveSigningIdentity (rsg_Spec s) (rsg_SoftwareKeySecret s)"

definition ValidatorTargetedIdentity :: "ResolvedSigner \<Rightarrow> string" where
  "ValidatorTargetedIdentity s = (if rsg_ValidatorGroup s = [] then [] else Identity s)"

definition TargetsValidator :: "ResolvedSigner \<Rightarrow> bool" where
  "TargetsValidator s = (rsg_ValidatorGroup s \<noteq> [])"

definition SignerUsesLocalValidatorKey :: "ChainNodeSet \<Rightarrow> ResolvedSigner \<Rightarrow> bool" where
  "SignerUsesLocalValidatorKey ns s =
     (if \<not> TargetsValidator s \<or> rsg_Spec s = None then False
      else if UsesSoftwareBackend (rsg_Spec s) then True
      else if GcpImportsKey (rsg_Spec s) then True
      else if \<not> UsesVaultBackend (rsg_Spec s) then False
      else VaultUploadsGenerated (rsg_Spec s)
        (if rsg_ValidatorGroup s = ReservedValidatorGroupName
         then (case ns_Validator (ns_Spec ns) of None \<Rightarrow> False | Some v \<Rightarrow> nv_Init v \<noteq> None)
         else case find (\<lambda>g. ng_Name g = rsg_ValidatorGroup s \<and> ng_Validator g \<noteq> None)
                     (ns_Nodes (ns_Spec ns)) of
                None \<Rightarrow> False
              | Some g \<Rightarrow> nv_Init (the (ng_Validator g)) \<noteq> None))"

definition digestPreimage :: "ResolvedSigner \<Rightarrow> string" where
  "digestPreimage s =
     (let groups = sort (rsg_TargetGroups s) in
      Identity s @ nul @ Itoa (GetReplicas (rsg_Spec s)) @ nul @ Itoa (int (length groups)) @ nul @
      Join groups nul @ nul @ rsg_ValidatorGroup s)"

definition Digest :: "(string \<Rightarrow> string) \<Rightarrow> ResolvedSigner \<Rightarrow> string" where
  "Digest H s = H (digestPreimage s)"

fun groupIndex :: "NodeGroupSpec list \<Rightarrow> string \<Rightarrow> nat \<Rightarrow> nat option" where
  "groupIndex [] name i = None"
| "groupIndex (g # gs) name i = (if ng_Name g = name then Some i else groupIndex gs name (Suc i))"

definition signerFieldPath :: "ChainNodeSet \<Rightarrow> ResolvedSigner \<Rightarrow> string" where
  "signerFieldPath ns s =
     (if (rsg_Origin s = TopLevelBlock \<and> ns_Cosmosigner (ns_Spec ns) \<noteq> None) \<or>
         (rsg_Spec s = None \<and> ns_Cosmosigner (ns_Spec ns) = None)
      then ''.spec.cosmosigner''
      else case rsg_TargetGroups s of
             [] \<Rightarrow> ''.spec.cosmosigner''
           | t # _ \<Rightarrow>
               (case groupIndex (ns_Nodes (ns_Spec ns)) t 0 of
                  Some i \<Rightarrow> ''.spec.nodes['' @ Itoa (int i) @ ''].cosmosigner''
                | None \<Rightarrow> ''.spec.cosmosigner''))"

section \<open>Genesis validators\<close>

definition genesisSecretsOf :: "GenesisInitConfig option \<Rightarrow> string list" where
  "genesisSecretsOf i = (case i of None \<Rightarrow> [] | Some c \<Rightarrow> map gv_PrivKeySecret (gc_GenesisValidators c))"

definition genesisValidatorPrivKeySecrets :: "ChainNodeSet \<Rightarrow> string set" where
  "genesisValidatorPrivKeySecrets ns =
     set ((case ns_Validator (ns_Spec ns) of None \<Rightarrow> [] | Some v \<Rightarrow> genesisSecretsOf (nv_Init v)) @
       concat (map (\<lambda>g. case ng_Validator g of None \<Rightarrow> []
                       | Some v \<Rightarrow> if GetInstances g > 0 then genesisSecretsOf (nv_Init v) else [])
         (ns_Nodes (ns_Spec ns))))"

definition genesisSentryEstablishmentIdentity :: "ChainNodeSet \<Rightarrow> ResolvedSigner \<Rightarrow> string" where
  "genesisSentryEstablishmentIdentity ns s =
     (if rsg_ValidatorGroup s \<noteq> [] \<or> rsg_SoftwareKeySecret s = [] then []
      else if rsg_SoftwareKeySecret s \<in> genesisValidatorPrivKeySecrets ns then Identity s
      else [])"

definition GenesisSentryEstablishmentIdentity :: "ChainNodeSet \<Rightarrow> ResolvedSigner \<Rightarrow> string" where
  "GenesisSentryEstablishmentIdentity ns s = genesisSentryEstablishmentIdentity ns s"

section \<open>Status entries\<close>

definition GetCosmosignerStatus :: "ChainNodeSet \<Rightarrow> string \<Rightarrow> CosmosignerStatus option" where
  "GetCosmosignerStatus ns name = find (\<lambda>st. st_Name st = name) (nss_Cosmosigners (ns_Status ns))"

definition setCosmosigners :: "CosmosignerStatus list \<Rightarrow> ChainNodeSet \<Rightarrow> ChainNodeSet" where
  "setCosmosigners xs ns = ns\<lparr>ns_Status := (ns_Status ns)\<lparr>nss_Cosmosigners := xs\<rparr>\<rparr>"

definition EnsureCosmosignerStatus :: "ChainNodeSet \<Rightarrow> string \<Rightarrow> ChainNodeSet" where
  "EnsureCosmosignerStatus ns name =
     (if GetCosmosignerStatus ns name \<noteq> None then ns
      else setCosmosigners
             (nss_Cosmosigners (ns_Status ns) @ [zero_CosmosignerStatus\<lparr>st_Name := name\<rparr>]) ns)"

text \<open>A write through the pointer that \<open>GetCosmosignerStatus\<close> or \<open>EnsureCosmosignerStatus\<close> returns:
  it changes the first entry of that name.\<close>

fun updateFirst :: "('a \<Rightarrow> bool) \<Rightarrow> ('a \<Rightarrow> 'a) \<Rightarrow> 'a list \<Rightarrow> 'a list" where
  "updateFirst P f [] = []"
| "updateFirst P f (x # xs) = (if P x then f x # xs else x # updateFirst P f xs)"

definition updateCosmosignerStatus ::
    "ChainNodeSet \<Rightarrow> string \<Rightarrow> (CosmosignerStatus \<Rightarrow> CosmosignerStatus) \<Rightarrow> ChainNodeSet" where
  "updateCosmosignerStatus ns name f =
     setCosmosigners (updateFirst (\<lambda>st. st_Name st = name) f (nss_Cosmosigners (ns_Status ns))) ns"

definition RemoveCosmosignerStatus :: "ChainNodeSet \<Rightarrow> string \<Rightarrow> ChainNodeSet" where
  "RemoveCosmosignerStatus ns name =
     setCosmosigners (filter (\<lambda>st. st_Name st \<noteq> name) (nss_Cosmosigners (ns_Status ns))) ns"

definition CosmosignerResourceName :: "ChainNodeSet \<Rightarrow> ResolvedSigner \<Rightarrow> string" where
  "CosmosignerResourceName ns s =
     (case GetCosmosignerStatus ns (rsg_Name s) of
        Some st \<Rightarrow> if st_ResourceName st \<noteq> [] then st_ResourceName st else rsg_Name s
      | None \<Rightarrow> rsg_Name s)"

definition CosmosignerStatusResourceName :: "CosmosignerStatus option \<Rightarrow> string" where
  "CosmosignerStatusResourceName st =
     (case st of None \<Rightarrow> []
      | Some x \<Rightarrow> if st_ResourceName x \<noteq> [] then st_ResourceName x else st_Name x)"

section \<open>Establishing a chain\<close>

text \<open>What the loop body of \<open>SetEstablishedChainID\<close> writes into the entry of signer \<open>s\<close>.\<close>

definition establishEntry ::
    "ChainNodeSet \<Rightarrow> bool \<Rightarrow> ResolvedSigner \<Rightarrow> CosmosignerStatus \<Rightarrow> CosmosignerStatus" where
  "establishEntry ns establishing s st =
     (let st1 = (if st_AtEstablishment st = None then
                   (let id0 = ValidatorTargetedIdentity s;
                        idn = (if id0 = [] then genesisSentryEstablishmentIdentity ns s else id0);
                        st' = st\<lparr>st_AtEstablishment := Some idn\<rparr>
                    in if rsg_ValidatorGroup s \<noteq> [] then st'\<lparr>st_ServingGroup := rsg_ValidatorGroup s\<rparr>
                       else st')
                 else st)
      in if establishing \<and> TargetsValidator s \<and> st_LocalKeyEverServed st1 = None
         then st1\<lparr>st_LocalKeyEverServed := Some (SignerUsesLocalValidatorKey ns s)\<rparr> else st1)"

definition SetEstablishedChainID :: "ChainNodeSet \<Rightarrow> string \<Rightarrow> ChainNodeSet" where
  "SetEstablishedChainID ns chainID =
     (if chainID = [] then ns
      else let establishing = (nss_ChainID (ns_Status ns) = []);
               ns1 = ns\<lparr>ns_Status := (ns_Status ns)\<lparr>nss_ChainID := chainID\<rparr>\<rparr>
           in fold (\<lambda>s n. updateCosmosignerStatus (EnsureCosmosignerStatus n (rsg_Name s)) (rsg_Name s)
                            (establishEntry n establishing s))
                (ResolveCosmosigners ns1) ns1)"

section \<open>Replacement of a recorded signer\<close>

text \<open>The counting loop: \<open>counts\<close> is a Go map from names to ints, 0 where absent.\<close>

fun consumeGroups :: "(string \<Rightarrow> int) \<Rightarrow> string list \<Rightarrow> bool" where
  "consumeGroups counts [] = True"
| "consumeGroups counts (g # gs) =
     (if counts g = 0 then False else consumeGroups (counts(g := counts g - 1)) gs)"

definition equalGroupMultiset :: "string list \<Rightarrow> string list \<Rightarrow> bool" where
  "equalGroupMultiset a b =
     (if length a \<noteq> length b then False
      else consumeGroups (fold (\<lambda>g counts. counts(g := counts g + 1)) a (\<lambda>_. 0)) b)"

definition replacesRecorded :: "ChainNodeSet \<Rightarrow> CosmosignerStatus \<Rightarrow> ResolvedSigner \<Rightarrow> bool" where
  "replacesRecorded ns st s =
     (if st_ServingGroup st = [] then
        (case st_AtEstablishment st of
           Some e \<Rightarrow> if e \<noteq> [] then GenesisSentryEstablishmentIdentity ns s = e
                    else equalGroupMultiset (st_TargetGroups st) (rsg_TargetGroups s)
         | None \<Rightarrow> equalGroupMultiset (st_TargetGroups st) (rsg_TargetGroups s))
      else if rsg_ValidatorGroup s \<noteq> st_ServingGroup st then False
      else (st_ServingIdentity st \<noteq> [] \<and> ValidatorTargetedIdentity s = st_ServingIdentity st) \<or>
           (st_ServingIdentity st = [] \<and> st_SigningDigest st = []))"

definition DesiredReplacementSigner ::
    "ChainNodeSet \<Rightarrow> ResolvedSigner list \<Rightarrow> CosmosignerStatus option \<Rightarrow> ResolvedSigner option" where
  "DesiredReplacementSigner ns desired status =
     (case status of None \<Rightarrow> None
      | Some st \<Rightarrow>
          if st_ServingGroup st = [] \<and> (st_ServingIdentity st \<noteq> [] \<or> st_SigningDigest st \<noteq> []) then None
          else find (replacesRecorded ns st) desired)"

section \<open>The validator's own signing path\<close>

definition validatorConfigForGroup :: "ChainNodeSet \<Rightarrow> string \<Rightarrow> NodeSetValidatorConfig option" where
  "validatorConfigForGroup ns grp =
     (if grp = ReservedValidatorGroupName then ns_Validator (ns_Spec ns)
      else case find (\<lambda>g. ng_Name g = grp) (ns_Nodes (ns_Spec ns)) of
             Some g \<Rightarrow> ng_Validator g | None \<Rightarrow> None)"

definition validatorGroupSigningIdentity ::
    "ChainNodeSet \<Rightarrow> string \<Rightarrow> NodeSetValidatorConfig option \<Rightarrow> string" where
  "validatorGroupSigningIdentity ns grp cfg =
     (case cfg of None \<Rightarrow> []
      | Some v \<Rightarrow>
          (case tmkmsNormalizedVaultKey (nv_TmKMS v) of
             Some i \<Rightarrow> i
           | None \<Rightarrow> if nv_TmKMS v \<noteq> None then ''tmkms'' @ nul @ ''unconfigured''
                    else localKeySigningIdentity (validatorKeySecret ns grp)))"

definition ValidatorGroupResolvesSigningIdentity ::
    "ChainNodeSet \<Rightarrow> string \<Rightarrow> NodeSetValidatorConfig option \<Rightarrow> string \<Rightarrow> bool" where
  "ValidatorGroupResolvesSigningIdentity ns grp cfg identity =
     (identity \<noteq> [] \<and> validatorGroupSigningIdentity ns grp cfg = identity)"

definition ServedValidatorResolvesIdentity :: "ChainNodeSet \<Rightarrow> string \<Rightarrow> string \<Rightarrow> bool" where
  "ServedValidatorResolvesIdentity ns grp identity =
     (if identity = [] \<or> grp = [] then False
      else if grp = ReservedValidatorGroupName then
        ns_Validator (ns_Spec ns) \<noteq> None \<and>
        validatorGroupSigningIdentity ns ReservedValidatorGroupName (ns_Validator (ns_Spec ns)) = identity
      else case find (\<lambda>g. ng_Name g = grp) (ns_Nodes (ns_Spec ns)) of
             None \<Rightarrow> False
           | Some g \<Rightarrow> if ng_Validator g = None \<or> GetInstances g = 0 then False
                      else validatorGroupSigningIdentity ns grp (ng_Validator g) = identity)"

definition ServedValidatorHasMultipleInstances :: "ChainNodeSet \<Rightarrow> string \<Rightarrow> bool" where
  "ServedValidatorHasMultipleInstances ns grp =
     (if grp = [] \<or> grp = ReservedValidatorGroupName then False
      else case find (\<lambda>g. ng_Name g = grp) (ns_Nodes (ns_Spec ns)) of
             None \<Rightarrow> False
           | Some g \<Rightarrow> ng_Validator g \<noteq> None \<and> GetInstances g > 1)"

section \<open>Legacy per-instance entries\<close>

definition modernSentries :: "ChainNodeSet \<Rightarrow> string list" where
  "modernSentries ns =
     map rsg_Name (filter (\<lambda>s. \<not> TargetsValidator s \<and>
       (case GetCosmosignerStatus ns (rsg_Name s) of None \<Rightarrow> False
        | Some st \<Rightarrow> st_ServingGroup st = [] \<and> st_AtEstablishment st \<noteq> None)) (ResolveCosmosigners ns))"

definition HasLegacyPerInstanceCosmosignerStatus :: "ChainNodeSet \<Rightarrow> string \<Rightarrow> bool" where
  "HasLegacyPerInstanceCosmosignerStatus ns grp =
     (let pre = ns_name ns @ ''-'' @ grp @ ''-''; modern = modernSentries ns in
      list_ex (\<lambda>st.
        if st_ServingGroup st \<noteq> [] \<and> st_ServingGroup st \<noteq> grp then False
        else if st_ServingGroup st = [] \<and> st_AtEstablishment st = Some [] then False
        else if st_Name st \<in> set modern then False
        else if \<not> HasPrefix (st_Name st) pre \<or> \<not> HasSuffix (st_Name st) ''-signer'' then False
        else case Atoi (TrimSuffix (TrimPrefix (st_Name st) pre) ''-signer'') of
               Some i \<Rightarrow> i \<ge> 0 | None \<Rightarrow> False) (nss_Cosmosigners (ns_Status ns)))"

section \<open>Recorded children\<close>

datatype RecordedChildMatch =
    RecordedChildNone | RecordedChildReplaced | RecordedChildUnverified | RecordedChildExact

text \<open>The constants are declared with \<open>iota\<close>: the order is the declaration order.\<close>

primrec iota_RecordedChildMatch :: "RecordedChildMatch \<Rightarrow> nat" where
  "iota_RecordedChildMatch RecordedChildNone = 0"
| "iota_RecordedChildMatch RecordedChildReplaced = 1"
| "iota_RecordedChildMatch RecordedChildUnverified = 2"
| "iota_RecordedChildMatch RecordedChildExact = 3"

instantiation RecordedChildMatch :: linorder
begin

definition less_eq_RecordedChildMatch :: "RecordedChildMatch \<Rightarrow> RecordedChildMatch \<Rightarrow> bool" where
  "less_eq_RecordedChildMatch a b \<longleftrightarrow> iota_RecordedChildMatch a \<le> iota_RecordedChildMatch b"

definition less_RecordedChildMatch :: "RecordedChildMatch \<Rightarrow> RecordedChildMatch \<Rightarrow> bool" where
  "less_RecordedChildMatch a b \<longleftrightarrow> iota_RecordedChildMatch a < iota_RecordedChildMatch b"

instance
proof
  fix a b :: RecordedChildMatch
  assume "a \<le> b" "b \<le> a"
  then show "a = b" by (cases a; cases b) (simp_all add: less_eq_RecordedChildMatch_def)
qed (auto simp: less_eq_RecordedChildMatch_def less_RecordedChildMatch_def)

end

definition considerRecord ::
    "ChainNode \<Rightarrow> string \<Rightarrow> uid \<Rightarrow> RecordedChildMatch \<Rightarrow> RecordedChildMatch" where
  "considerRecord child name u match =
     (if name \<noteq> cn_name child then match
      else let candidate = (if u = [] then RecordedChildUnverified
                            else if u = cn_uid child then RecordedChildExact
                            else RecordedChildReplaced)
           in if candidate > match then candidate else match)"

definition MatchRecordedChild :: "ChainNodeSet \<Rightarrow> ChainNode \<Rightarrow> RecordedChildMatch" where
  "MatchRecordedChild ns child =
     fold (\<lambda>s. considerRecord child (vst_Name s) (vst_UID s)) (nss_Validators (ns_Status ns))
       (fold (\<lambda>s. considerRecord child (nst_Name s) (nst_UID s)) (nss_Nodes (ns_Status ns))
          RecordedChildNone)"

definition ClaimsChild :: "ChainNodeSet \<Rightarrow> ChainNode \<Rightarrow> bool" where
  "ClaimsChild ns child =
     (case MatchRecordedChild ns child of
        RecordedChildExact \<Rightarrow> True | RecordedChildUnverified \<Rightarrow> True | _ \<Rightarrow> False)"

definition RecordedChildIdentity :: "ChainNodeSet \<Rightarrow> ChainNode \<Rightarrow> bool \<times> bool" where
  "RecordedChildIdentity ns child =
     (let match = MatchRecordedChild ns child in
      (match \<noteq> RecordedChildNone, match = RecordedChildExact))"

definition GeneratedValidatorNodeName :: "ChainNodeSet \<Rightarrow> string \<Rightarrow> int \<Rightarrow> string" where
  "GeneratedValidatorNodeName ns grp index =
     (if grp = ReservedValidatorGroupName then ns_name ns @ ''-validator''
      else ns_name ns @ ''-'' @ grp @ ''-'' @ Itoa index)"

section \<open>Standalone ChainNode\<close>

definition IsValidator :: "ChainNode \<Rightarrow> bool" where
  "IsValidator n = (cn_Validator (cn_Spec n) \<noteq> None)"

definition UsesTmKms :: "ChainNode \<Rightarrow> bool" where
  "UsesTmKms n = (case cn_Validator (cn_Spec n) of None \<Rightarrow> False | Some v \<Rightarrow> vc_TmKMS v \<noteq> None)"

definition GetPrivKeySecretName :: "ValidatorConfig \<Rightarrow> string \<Rightarrow> string" where
  "GetPrivKeySecretName v objName =
     (case vc_PrivateKeySecret v of Some s \<Rightarrow> s | None \<Rightarrow> objName @ ''-priv-key'')"

definition CosmosignerSigningIdentity :: "ChainNode \<Rightarrow> string" where
  "CosmosignerSigningIdentity n =
     (case cn_Cosmosigner (cn_Spec n) of None \<Rightarrow> []
      | Some c \<Rightarrow>
          effectiveSigningIdentity (Some c)
            (case be_Software (cs_Backend c) of
               None \<Rightarrow> []
             | Some sw \<Rightarrow>
                 (case cn_Validator (cn_Spec n) of
                    Some v \<Rightarrow> GetPrivKeySecretName v (cn_name n)
                  | None \<Rightarrow>
                      (case sw_PrivateKeySecret sw of
                         Some s \<Rightarrow> if s \<noteq> [] then s else cn_name n @ ''-priv-key''
                       | None \<Rightarrow> cn_name n @ ''-priv-key''))))"

definition CosmosignerValidatorTargetedIdentity :: "ChainNode \<Rightarrow> string" where
  "CosmosignerValidatorTargetedIdentity n =
     (if cn_Cosmosigner (cn_Spec n) = None \<or> \<not> IsValidator n then []
      else CosmosignerSigningIdentity n)"

definition go_bool :: "bool \<Rightarrow> string" where
  "go_bool b = (if b then ''true'' else ''false'')"

definition CosmosignerSigningDigest :: "(string \<Rightarrow> string) \<Rightarrow> ChainNode \<Rightarrow> string" where
  "CosmosignerSigningDigest H n =
     (if cn_Cosmosigner (cn_Spec n) = None then []
      else H (CosmosignerSigningIdentity n @ nul @ Itoa (GetReplicas (cn_Cosmosigner (cn_Spec n))) @ nul @
              go_bool (IsValidator n)))"

definition EffectiveSigningIdentity :: "ChainNode \<Rightarrow> string" where
  "EffectiveSigningIdentity n =
     (if cn_Cosmosigner (cn_Spec n) \<noteq> None then CosmosignerSigningIdentity n
      else case cn_Validator (cn_Spec n) of
             None \<Rightarrow> []
           | Some v \<Rightarrow>
               if vc_TmKMS v \<noteq> None then
                 (case tmkmsNormalizedVaultKey (vc_TmKMS v) of
                    Some i \<Rightarrow> i | None \<Rightarrow> ''tmkms'' @ nul @ ''unconfigured'')
               else localKeySigningIdentity (GetPrivKeySecretName v (cn_name n)))"

definition ValidatorResolvesSigningIdentity :: "ChainNode \<Rightarrow> string \<Rightarrow> bool" where
  "ValidatorResolvesSigningIdentity n identity =
     (case cn_Validator (cn_Spec n) of
        None \<Rightarrow> False
      | Some v \<Rightarrow>
          if identity = [] then False
          else case tmkmsNormalizedVaultKey (vc_TmKMS v) of
                 Some i \<Rightarrow> i = identity
               | None \<Rightarrow> if UsesTmKms n then identity = ''tmkms'' @ nul @ ''unconfigured''
                        else localKeySigningIdentity (GetPrivKeySecretName v (cn_name n)) = identity)"

definition SetEstablishedChainIDNode :: "ChainNode \<Rightarrow> string \<Rightarrow> ChainNode" where
  "SetEstablishedChainIDNode n chainID =
     (if chainID = [] then n
      else let n1 = n\<lparr>cn_Status := (cn_Status n)\<lparr>cns_ChainID := chainID\<rparr>\<rparr>
           in if cns_CosmosignerAtEstablishment (cn_Status n1) = None
              then n1\<lparr>cn_Status := (cn_Status n1)\<lparr>cns_CosmosignerAtEstablishment :=
                        Some (CosmosignerValidatorTargetedIdentity n1)\<rparr>\<rparr>
              else n1)"

end
