(* ===== verification/Signer_Identity.thy ===== *)
theory Signer_Identity
  imports Cosmosigner_Helper
begin

text \<open>
  What the fingerprints of the signer block mean. The signing identity is a string; the theorems
  here relate it to the key it names, show which import records satisfy which import targets, and
  characterise the import decision of the Cloud KMS backend and the result of \<open>Validate\<close>.
\<close>

section \<open>The key behind an identity\<close>

datatype signing_key =
    VaultTransit string string string string int
  | CloudKmsImport string string string string
  | CloudKmsVersion string
  | LocalSecret string

definition signing_key :: "Cosmosigner \<Rightarrow> string \<Rightarrow> signing_key option" where
  "signing_key s softwareKeySecret =
     (case cs_Backend s of b \<Rightarrow>
        (case (be_Vault b, be_GcpKMS b, be_Software b) of
           (Some v, _, _) \<Rightarrow> Some (VaultTransit (vb_Address v) (vaultNamespace v) (GetVaultMount v)
                                    (vb_KeyName v) (GetKeyVersion v))
         | (None, Some g, _) \<Rightarrow>
             (case gk_Import g of
                Some i \<Rightarrow> Some (CloudKmsImport (gi_Project i) (GetLocation i) (gi_KeyRing i) (gi_Key i))
              | None \<Rightarrow> Some (CloudKmsVersion (gk_KeyVersion g)))
         | (None, None, Some _) \<Rightarrow> Some (LocalSecret softwareKeySecret)
         | (None, None, None) \<Rightarrow> None))"

fun key_identity :: "signing_key \<Rightarrow> string" where
  "key_identity (VaultTransit a n m k v) = normalizedVaultIdentity a n m k v"
| "key_identity (CloudKmsImport p l r k) = ''gcpkms-import'' @ nul @ Join [p, l, r, k] nul"
| "key_identity (CloudKmsVersion v) = ''gcpkms'' @ nul @ v"
| "key_identity (LocalSecret s) = ''software'' @ nul @ s"

fun key_nul_free :: "signing_key \<Rightarrow> bool" where
  "key_nul_free (VaultTransit a n m k v) = list_all nul_free [a, n, m, k]"
| "key_nul_free (CloudKmsImport p l r k) = list_all nul_free [p, l, r, k]"
| "key_nul_free (CloudKmsVersion v) = nul_free v"
| "key_nul_free (LocalSecret s) = nul_free s"

lemma effectiveSigningIdentity_key:
  "effectiveSigningIdentity (Some s) secret =
     (case signing_key s secret of Some k \<Rightarrow> key_identity k | None \<Rightarrow> [])"
  by (simp add: effectiveSigningIdentity_def signing_key_def gcpImportIdentity_def
      split: option.splits)

lemma normalizedVaultIdentity_eq:
  "normalizedVaultIdentity a n m k v = ''vault'' @ nul @ Join [a, n, m, k, Itoa v] nul"
  by (simp add: normalizedVaultIdentity_def)

lemma Join_nul_cong:
  assumes "length xs = length ys" "list_all nul_free xs" "list_all nul_free ys"
    "Join xs nul = Join ys nul"
  shows "xs = ys"
  using assms Join_nul_inject by blast

lemma key_identity_inject:
  assumes "key_nul_free k" "key_nul_free l" "key_identity k = key_identity l"
  shows "k = l"
proof -
  have tag: "nul_free ''vault''" "nul_free ''gcpkms-import''" "nul_free ''gcpkms''" "nul_free ''software''"
    by (simp_all add: nul_free_def)
  show ?thesis
  proof (cases k; cases l)
    fix a n m x v a' n' m' x' v'
    assume kl: "k = VaultTransit a n m x v" "l = VaultTransit a' n' m' x' v'"
    with assms(3) have "Join [a, n, m, x, Itoa v] nul = Join [a', n', m', x', Itoa v'] nul"
      by (simp add: normalizedVaultIdentity_eq)
    then have "[a, n, m, x, Itoa v] = [a', n', m', x', Itoa v']"
      using assms(1,2) kl by (intro Join_nul_cong) auto
    then show ?thesis using kl by simp
  next
    fix p r x y p' r' x' y'
    assume kl: "k = CloudKmsImport p r x y" "l = CloudKmsImport p' r' x' y'"
    with assms(3) have "Join [p, r, x, y] nul = Join [p', r', x', y'] nul" by simp
    then have "[p, r, x, y] = [p', r', x', y']"
      using assms(1,2) kl by (intro Join_nul_cong) auto
    then show ?thesis using kl by simp
  qed (use assms(3) tag in \<open>auto simp: normalizedVaultIdentity_eq nul_split simp del: append_Cons\<close>)
qed

text \<open>C18: Two managed signers have the same effective signing identity exactly when they sign with
  the same consensus key (same Vault Transit key and version, same Cloud KMS key or import
  destination, or same local key secret), for configurations whose fields hold no NUL byte.\<close>

theorem signing_identity_names_key:
  assumes "signing_key s a = Some k" "signing_key t b = Some l" "key_nul_free k" "key_nul_free l"
  shows "effectiveSigningIdentity (Some s) a = effectiveSigningIdentity (Some t) b \<longleftrightarrow>
         signing_key s a = signing_key t b"
  using assms key_identity_inject by (auto simp: effectiveSigningIdentity_key)

definition example_software_signer :: Cosmosigner where
  "example_software_signer = zero_Cosmosigner\<lparr>cs_Backend := zero_Backend\<lparr>be_Software :=
     Some \<lparr>sw_PrivateKeySecret = None\<rparr>\<rparr>\<rparr>"

theorem signing_identity_names_key_witness:
  "effectiveSigningIdentity (Some example_software_signer) ''a'' \<noteq>
   effectiveSigningIdentity (Some example_software_signer) ''b''"
proof -
  have k: "signing_key example_software_signer ''a'' = Some (LocalSecret ''a'')"
    "signing_key example_software_signer ''b'' = Some (LocalSecret ''b'')"
    by (simp_all add: signing_key_def example_software_signer_def zero_defs)
  show ?thesis
    using signing_identity_names_key [OF k] k by simp
qed

section \<open>Validate\<close>

definition one_backend :: "CosmosignerBackend \<Rightarrow> bool" where
  "one_backend b \<longleftrightarrow>
     (be_Software b \<noteq> None \<and> be_Vault b = None \<and> be_GcpKMS b = None) \<or>
     (be_Software b = None \<and> be_Vault b \<noteq> None \<and> be_GcpKMS b = None) \<or>
     (be_Software b = None \<and> be_Vault b = None \<and> be_GcpKMS b \<noteq> None)"

definition complete_selector :: "SecretKeySelector \<Rightarrow> bool" where
  "complete_selector x \<longleftrightarrow> sks_Name x \<noteq> [] \<and> sks_Key x \<noteq> []"

definition vault_ok :: "CosmosignerVaultBackend \<Rightarrow> bool" where
  "vault_ok v \<longleftrightarrow> vb_Address v \<noteq> [] \<and> vb_KeyName v \<noteq> [] \<and> 1 \<le> GetKeyVersion v \<and>
     (vb_UploadGenerated v \<longrightarrow> GetKeyVersion v = 1) \<and>
     (\<exists>x. vb_TokenSecret v = Some x \<and> complete_selector x) \<and>
     (\<forall>x. vb_CertificateSecret v = Some x \<longrightarrow> complete_selector x)"

definition gcp_ok :: "CosmosignerGcpKmsBackend \<Rightarrow> bool" where
  "gcp_ok g \<longleftrightarrow> (gk_KeyVersion g = [] \<longleftrightarrow> gk_Import g \<noteq> None) \<and>
     (\<forall>i. gk_Import g = Some i \<longrightarrow>
        gi_Project i \<noteq> [] \<and> gi_KeyRing i \<noteq> [] \<and> gi_Key i \<noteq> [] \<and> gi_Location i \<noteq> Some [] \<and>
        gi_ImportJob i \<noteq> Some [] \<and> GetProtectionLevel i \<in> {''software'', ''hsm''}) \<and>
     (\<forall>x. gk_CredentialsSecret g = Some x \<longrightarrow> complete_selector x)"

definition raft_transport_ok :: "Cosmosigner \<Rightarrow> bool" where
  "raft_transport_ok s \<longleftrightarrow>
     (case cs_RaftTLSSecret s of
        None \<Rightarrow> GetReplicas (Some s) = 1 \<or> cs_UnsafeAllowInsecureRaft s
      | Some x \<Rightarrow> x \<noteq> [] \<and> \<not> cs_UnsafeAllowInsecureRaft s)"

lemma countBackends_one: "countBackends b = 1 \<longleftrightarrow> one_backend b"
  by (auto simp: countBackends_def one_backend_def)

lemma incompleteSelector_iff:
  "incompleteSelector sel \<longleftrightarrow> (\<exists>x. sel = Some x \<and> \<not> complete_selector x)"
  by (cases sel) (auto simp: incompleteSelector_def complete_selector_def)

lemma validateVaultBackend_None: "validateVaultBackend v = None \<longleftrightarrow> vault_ok v"
  by (auto simp: validateVaultBackend_def vault_ok_def incompleteSelector_iff)

lemma validateGcpBackend_None: "validateGcpBackend g = None \<longleftrightarrow> gcp_ok g"
  by (cases "gk_Import g")
    (auto simp: validateGcpBackend_def validateGcpImport_def gcp_ok_def incompleteSelector_iff
      signer_defaults)

lemma Validate_None_iff:
  "Validate parseQty (Some s) path allowNodeGroups = None \<longleftrightarrow>
     one_backend (cs_Backend s) \<and> 1 \<le> GetReplicas (Some s) \<and> odd (GetReplicas (Some s)) \<and>
     (\<forall>z. cs_StateStorageSize s = Some z \<longrightarrow> parseQty z \<noteq> None) \<and>
     (\<forall>v. be_Vault (cs_Backend s) = Some v \<longrightarrow> vault_ok v) \<and>
     (\<forall>g. be_GcpKMS (cs_Backend s) = Some g \<longrightarrow> gcp_ok g) \<and>
     (allowNodeGroups \<or> cs_NodeGroups s = []) \<and> raft_transport_ok s"
proof (cases "one_backend (cs_Backend s)")
  case False
  then have "countBackends (cs_Backend s) = 0 \<or> countBackends (cs_Backend s) > 1"
    using countBackends_one [of "cs_Backend s"] by linarith
  with False show ?thesis by (auto simp: Validate_def Let_def)
next
  case True
  then have n: "countBackends (cs_Backend s) = 1" by (rule countBackends_one [THEN iffD2])
  have backend: "(case be_Vault (cs_Backend s) of
        Some v \<Rightarrow> validateVaultBackend v
      | None \<Rightarrow> (case be_GcpKMS (cs_Backend s) of Some g \<Rightarrow> validateGcpBackend g | None \<Rightarrow> None)) = None
    \<longleftrightarrow> (\<forall>v. be_Vault (cs_Backend s) = Some v \<longrightarrow> vault_ok v) \<and>
        (\<forall>g. be_GcpKMS (cs_Backend s) = Some g \<longrightarrow> gcp_ok g)"
    using True by (auto simp: one_backend_def validateVaultBackend_None validateGcpBackend_None
        split: option.splits)
  have tls: "(if cs_RaftTLSSecret s = Some [] then Some RaftTLSSecretEmpty
      else if 1 < GetReplicas (Some s) \<and> cs_RaftTLSSecret s = None \<and> \<not> cs_UnsafeAllowInsecureRaft s
      then Some RaftTLSSecretRequired
      else if cs_RaftTLSSecret s \<noteq> None \<and> cs_UnsafeAllowInsecureRaft s then Some RaftTLSAndInsecure
      else None) = None \<longleftrightarrow> raft_transport_ok s" if "1 \<le> GetReplicas (Some s)"
    using that by (auto simp: raft_transport_ok_def split: option.splits)
  have size: "(case cs_StateStorageSize s of None \<Rightarrow> False | Some z \<Rightarrow> parseQty z = None) \<longleftrightarrow>
      \<not> (\<forall>z. cs_StateStorageSize s = Some z \<longrightarrow> parseQty z \<noteq> None)"
    by (auto split: option.splits)
  show ?thesis
  proof (cases "1 \<le> GetReplicas (Some s) \<and> odd (GetReplicas (Some s))")
    case False
    then have "GetReplicas (Some s) < 1 \<or> GetReplicas (Some s) mod 2 = 0"
      by (auto simp: even_iff_mod_2_eq_zero)
    with n False show ?thesis by (auto simp: Validate_def Let_def)
  next
    case replicas: True
    then have "GetReplicas (Some s) mod 2 \<noteq> 0" "\<not> GetReplicas (Some s) < 1"
      by (auto simp: even_iff_mod_2_eq_zero)
    with n True replicas backend tls size show ?thesis
      by (cases "allowNodeGroups \<or> cs_NodeGroups s = []") (auto simp: Validate_def Let_def)
  qed
qed

text \<open>\<open>Cosmosigner.Validate\<close> accepts a signer block exactly when it has one backend, an odd
  positive number of raft replicas, a parseable state size, a complete configuration for the chosen
  backend, no node groups where they are fixed, and either mutual TLS or an explicit opt-out for a
  raft cluster of more than one replica.\<close>

theorem Validate_accepts_iff:
  "Validate parseQty (Some s) path allowNodeGroups = None \<longleftrightarrow>
     one_backend (cs_Backend s) \<and> 1 \<le> GetReplicas (Some s) \<and> odd (GetReplicas (Some s)) \<and>
     (\<forall>z. cs_StateStorageSize s = Some z \<longrightarrow> parseQty z \<noteq> None) \<and>
     (\<forall>v. be_Vault (cs_Backend s) = Some v \<longrightarrow> vault_ok v) \<and>
     (\<forall>g. be_GcpKMS (cs_Backend s) = Some g \<longrightarrow> gcp_ok g) \<and>
     (allowNodeGroups \<or> cs_NodeGroups s = []) \<and> raft_transport_ok s"
  by (rule Validate_None_iff)

theorem Validate_accepts_iff_witness:
  "Validate (\<lambda>_. None) (Some (example_software_signer\<lparr>cs_Replicas := Some 1\<rparr>)) ''.spec'' False = None"
  using Validate_accepts_iff [of "\<lambda>_. None" "example_software_signer\<lparr>cs_Replicas := Some 1\<rparr>" "''.spec''" False]
  by (simp add: example_software_signer_def zero_defs one_backend_def GetReplicas_def raft_transport_ok_def)

end
