(* ===== verification/Signer_Lifecycle.thy ===== *)
theory Signer_Lifecycle
  imports Cosmosigner_Resolve Signer_Identity "HOL-Library.Multiset"
begin

text \<open>
  Properties of the signer resolution and of the status entries: the write-once markers of
  \<open>SetEstablishedChainID\<close> (through the interface \<open>keyed_entries\<close> that the status list implements),
  the replacement of a recorded signer, what the lifecycle digest determines, and the match of
  recorded children.
\<close>

section \<open>Keyed status entries\<close>

text \<open>The contract of a list of entries addressed by name: \<open>ensure\<close> adds a zero entry when the name
  is absent, \<open>upd\<close> writes through the pointer of the entry. A write is admissible when it keeps the
  name. Clients run a sequence of ensure-and-write steps.\<close>

locale keyed_entries =
  fixes get :: "'s \<Rightarrow> 'k \<Rightarrow> 'e option"
    and ensure :: "'s \<Rightarrow> 'k \<Rightarrow> 's"
    and upd :: "'s \<Rightarrow> 'k \<Rightarrow> ('e \<Rightarrow> 'e) \<Rightarrow> 's"
    and zero :: "'k \<Rightarrow> 'e"
    and admissible :: "('e \<Rightarrow> 'e) \<Rightarrow> bool"
  assumes get_ensure: "get (ensure s m) n = (if n = m \<and> get s n = None then Some (zero m) else get s n)"
    and get_upd: "admissible f \<Longrightarrow> get (upd s m f) n = (if n = m then map_option f (get s n) else get s n)"
begin

definition steps :: "('x \<Rightarrow> 'k) \<Rightarrow> ('x \<Rightarrow> 's \<Rightarrow> 'e \<Rightarrow> 'e) \<Rightarrow> 'x list \<Rightarrow> 's \<Rightarrow> 's" where
  "steps key w xs s = fold (\<lambda>x s. upd (ensure s (key x)) (key x) (w x s)) xs s"

lemma steps_simps [simp]:
  "steps key w [] s = s"
  "steps key w (x # xs) s = steps key w xs (upd (ensure s (key x)) (key x) (w x s))"
  by (simp_all add: steps_def)

text \<open>A relation that every write respects relates an entry before and after the steps.\<close>

lemma steps_rel:
  assumes "\<And>x s. admissible (w x s)" "reflp R" "transp R" "\<And>x s e. R e (w x s e)"
    and "get s n = Some e"
  shows "\<exists>e'. get (steps key w xs s) n = Some e' \<and> R e e'"
  using assms(5)
proof (induction xs arbitrary: s e)
  case Nil
  with assms(2) show ?case by (auto dest: reflpD)
next
  case (Cons x xs)
  have "\<exists>e1. get (upd (ensure s (key x)) (key x) (w x s)) n = Some e1 \<and> R e e1"
    using Cons.prems assms(1,2,4) by (auto simp: get_upd get_ensure dest: reflpD)
  then show ?case
    using Cons.IH assms(3) by (fastforce dest: transpD)
qed

text \<open>After the steps every key that was stepped has an entry with what each write guarantees, if
  later writes keep it.\<close>

lemma steps_ensures:
  assumes "\<And>x s. admissible (w x s)" "\<And>x s e. P (w x s e)" "x \<in> set xs"
  shows "\<exists>e. get (steps key w xs s) (key x) = Some e \<and> P e"
  using assms(3)
proof (induction xs arbitrary: s)
  case (Cons y ys)
  let ?s = "upd (ensure s (key y)) (key y) (w y s)"
  show ?case
  proof (cases "x \<in> set ys")
    case True
    then show ?thesis using Cons.IH by simp
  next
    case False
    with Cons.prems have "x = y" by simp
    then obtain e where "get ?s (key x) = Some e" "P e"
      using assms(1,2) by (cases "get s (key x)") (auto simp: get_upd get_ensure)
    then show ?thesis
      using steps_rel [of w "\<lambda>e e'. P e \<longrightarrow> P e'" ?s "key x" e key ys] assms(1,2)
      by (auto simp: reflp_def transp_def)
  qed
qed simp

lemma steps_other:
  assumes "\<And>x s. admissible (w x s)" "n \<notin> key ` set xs"
  shows "get (steps key w xs s) n = get s n"
  using assms(2)
  by (induction xs arbitrary: s) (auto simp: get_upd get_ensure assms(1))

end

definition keepsName :: "(CosmosignerStatus \<Rightarrow> CosmosignerStatus) \<Rightarrow> bool" where
  "keepsName f \<longleftrightarrow> (\<forall>st. st_Name (f st) = st_Name st)"

lemma setCosmosigners_get [simp]: "nss_Cosmosigners (ns_Status (setCosmosigners xs ns)) = xs"
  by (simp add: setCosmosigners_def)

lemma find_append_None: "find P xs = None \<Longrightarrow> find P (xs @ ys) = find P ys"
  by (induction xs) auto

lemma find_append_Some: "find P xs = Some x \<Longrightarrow> find P (xs @ ys) = Some x"
  by (induction xs) (auto split: if_splits)

lemma find_updateFirst_same:
  "(\<And>x. P (f x) = P x) \<Longrightarrow> find P (updateFirst P f xs) = map_option f (find P xs)"
  by (induction xs) auto

lemma find_updateFirst_other:
  "(\<And>x. P x \<Longrightarrow> \<not> Q x) \<Longrightarrow> (\<And>x. Q (f x) = Q x) \<Longrightarrow> find Q (updateFirst P f xs) = find Q xs"
  by (induction xs) auto

interpretation signer_status:
  keyed_entries GetCosmosignerStatus EnsureCosmosignerStatus updateCosmosignerStatus
    "\<lambda>n. zero_CosmosignerStatus\<lparr>st_Name := n\<rparr>" keepsName
proof
  fix ns m n
  show "GetCosmosignerStatus (EnsureCosmosignerStatus ns m) n =
      (if n = m \<and> GetCosmosignerStatus ns n = None
       then Some (zero_CosmosignerStatus\<lparr>st_Name := m\<rparr>) else GetCosmosignerStatus ns n)"
    by (cases "GetCosmosignerStatus ns n")
      (auto simp: GetCosmosignerStatus_def EnsureCosmosignerStatus_def find_append_None find_append_Some)
next
  fix f ns m n
  assume "keepsName f"
  then show "GetCosmosignerStatus (updateCosmosignerStatus ns m f) n =
      (if n = m then map_option f (GetCosmosignerStatus ns n) else GetCosmosignerStatus ns n)"
    by (auto simp: GetCosmosignerStatus_def updateCosmosignerStatus_def keepsName_def
        find_updateFirst_same find_updateFirst_other)
qed

lemma GetCosmosignerStatus_Remove:
  "GetCosmosignerStatus (RemoveCosmosignerStatus ns m) n =
     (if n = m then None else GetCosmosignerStatus ns n)"
proof -
  have eq: "find (\<lambda>st. st_Name st = n) (filter (\<lambda>st. st_Name st \<noteq> m) xs) =
      (if n = m then None else find (\<lambda>st. st_Name st = n) xs)" for xs
    by (induction xs) auto
  show ?thesis
    unfolding GetCosmosignerStatus_def RemoveCosmosignerStatus_def setCosmosigners_get by (rule eq)
qed

section \<open>Establishment\<close>

lemma establishEntry_keepsName [simp]: "keepsName (establishEntry ns b s)"
  by (simp add: keepsName_def establishEntry_def Let_def)

lemma establishEntry_marker: "st_AtEstablishment (establishEntry ns b s st) \<noteq> None"
  by (simp add: establishEntry_def Let_def)

text \<open>The write-once fields of an entry: the marker and the served group once the marker is there,
  and the record whether the local key ever served.\<close>

definition write_once :: "CosmosignerStatus \<Rightarrow> CosmosignerStatus \<Rightarrow> bool" where
  "write_once st st' \<longleftrightarrow>
     (st_AtEstablishment st \<noteq> None \<longrightarrow>
        st_AtEstablishment st' = st_AtEstablishment st \<and> st_ServingGroup st' = st_ServingGroup st) \<and>
     (st_LocalKeyEverServed st \<noteq> None \<longrightarrow> st_LocalKeyEverServed st' = st_LocalKeyEverServed st) \<and>
     st_ServingIdentity st' = st_ServingIdentity st \<and> st_SigningDigest st' = st_SigningDigest st \<and>
     st_KeyImported st' = st_KeyImported st \<and> st_AppliedDigest st' = st_AppliedDigest st"

lemma write_once_refl: "reflp write_once"
  by (simp add: reflp_def write_once_def)

lemma write_once_trans: "transp write_once"
  unfolding transp_def write_once_def by metis

lemma establishEntry_write_once: "write_once st (establishEntry ns b s st)"
  by (auto simp: write_once_def establishEntry_def Let_def)

lemma SetEstablishedChainID_steps:
  "chainID \<noteq> [] \<Longrightarrow> SetEstablishedChainID ns chainID =
     (let ns1 = ns\<lparr>ns_Status := (ns_Status ns)\<lparr>nss_ChainID := chainID\<rparr>\<rparr> in
      signer_status.steps rsg_Name (\<lambda>s n. establishEntry n (nss_ChainID (ns_Status ns) = []) s)
        (ResolveCosmosigners ns1) ns1)"
  by (simp add: SetEstablishedChainID_def signer_status.steps_def Let_def)

lemma resolveSignerKeySecret_spec_only:
  "ns_Spec a = ns_Spec b \<Longrightarrow> ns_name a = ns_name b \<Longrightarrow>
     resolveSignerKeySecret a = resolveSignerKeySecret b"
  by (intro ext) (simp only: resolveSignerKeySecret_def validatorKeySecret_def)

lemma ResolveCosmosigners_spec_only:
  assumes "ns_Spec a = ns_Spec b" "ns_name a = ns_name b"
  shows "ResolveCosmosigners a = ResolveCosmosigners b"
proof -
  have "topLevelValidatorStep a = topLevelValidatorStep b"
    using assms by (intro ext) (simp only: topLevelValidatorStep_def)
  moreover have "resolveGroupSigners a = resolveGroupSigners b"
    using assms resolveSignerKeySecret_spec_only [OF assms]
    by (intro ext) (simp only: resolveGroupSigners_def)
  ultimately show ?thesis
    using assms resolveSignerKeySecret_spec_only [OF assms]
    by (simp only: ResolveCosmosigners_def resolveTopLevelSigner_def)
qed

lemma GetCosmosignerStatus_chainID [simp]:
  "GetCosmosignerStatus (ns\<lparr>ns_Status := (ns_Status ns)\<lparr>nss_ChainID := c\<rparr>\<rparr>) n = GetCosmosignerStatus ns n"
  by (simp add: GetCosmosignerStatus_def)


text \<open>After a chain is established every signer of the set has a status entry that carries
  the at-establishment marker, so no window is left in which a signer of an established chain has no
  marker.\<close>

theorem SetEstablishedChainID_marks_all:
  assumes "chainID \<noteq> []" "s \<in> set (ResolveCosmosigners ns)"
  shows "\<exists>st. GetCosmosignerStatus (SetEstablishedChainID ns chainID) (rsg_Name s) = Some st \<and>
           st_AtEstablishment st \<noteq> None"
proof -
  have "ResolveCosmosigners (ns\<lparr>ns_Status := (ns_Status ns)\<lparr>nss_ChainID := chainID\<rparr>\<rparr>) =
      ResolveCosmosigners ns"
    by (rule ResolveCosmosigners_spec_only) simp_all
  with assms(2) show ?thesis
    unfolding SetEstablishedChainID_steps [OF assms(1)] Let_def
    by (intro signer_status.steps_ensures) (simp_all add: establishEntry_marker)
qed

definition example_set :: ChainNodeSet where
  "example_set = zero_ChainNodeSet\<lparr>
     ns_Meta := zero_Meta\<lparr>m_Name := ''net'', m_UID := ''u1''\<rparr>,
     ns_Spec := \<lparr>ns_App = zero_App,
       ns_Validator = Some \<lparr>nv_PrivateKeySecret = None, nv_Init = None, nv_TmKMS = None,
                            nv_CreateValidator = None\<rparr>,
       ns_Nodes = [], ns_Cosmosigner = Some example_software_signer, ns_DeletionPolicy = None\<rparr>\<rparr>"

lemmas example_set_defs = example_set_def example_software_signer_def zero_defs

lemma example_set_signers:
  "ResolveCosmosigners example_set =
     [\<lparr>rsg_Name = ''net-signer'', rsg_Spec = Some example_software_signer, rsg_Origin = TopLevelBlock,
       rsg_TargetGroups = [''validator''], rsg_ValidatorGroup = ''validator'',
       rsg_SoftwareKeySecret = ''net-validator-priv-key''\<rparr>]"
  by (simp add: ResolveCosmosigners_def resolveTopLevelSigner_def resolveSignerKeySecret_def
      validatorKeySecret_def explicitSecret_def ReservedValidatorGroupName_def example_set_defs)

theorem SetEstablishedChainID_marks_all_witness:
  "\<exists>st. GetCosmosignerStatus (SetEstablishedChainID example_set ''chain-1'') ''net-signer'' = Some st \<and>
     st_AtEstablishment st \<noteq> None"
  using SetEstablishedChainID_marks_all [of "''chain-1''" "hd (ResolveCosmosigners example_set)" example_set]
  by (simp add: example_set_signers)


section \<open>Replacement\<close>

lemma count_groups: "fold (\<lambda>g counts. counts(g := counts g + 1)) a c = (\<lambda>x. c x + int (count (mset a) x))"
  by (induction a arbitrary: c) (auto simp: fun_eq_iff)

lemma consumeGroups_count:
  assumes "\<And>x. 0 \<le> c x"
  shows "consumeGroups c b \<longleftrightarrow> (\<forall>x. int (count (mset b) x) \<le> c x)"
  using assms
proof (induction b arbitrary: c)
  case (Cons g b)
  show ?case
  proof (cases "c g = 0")
    case True
    then show ?thesis by (auto intro: exI [of _ g])
  next
    case False
    then have "\<And>x. 0 \<le> (c(g := c g - 1)) x" using Cons.prems by (auto simp: less_le)
    from Cons.IH [OF this] False show ?thesis by (auto simp: fun_upd_def split: if_splits)
  qed
qed simp

text \<open>The order-independent comparison of target groups decides equality of multisets.\<close>

theorem equalGroupMultiset_iff: "equalGroupMultiset a b \<longleftrightarrow> mset a = mset b"
proof (cases "length a = length b")
  case True
  have "equalGroupMultiset a b \<longleftrightarrow> mset b \<subseteq># mset a"
    using True by (simp add: equalGroupMultiset_def count_groups consumeGroups_count subseteq_mset_def)
  also have "\<dots> \<longleftrightarrow> mset a = mset b"
    using True by (metis mset_subset_size size_mset nat_neq_iff subset_mset.le_neq_trans
        subset_mset.order_refl)
  finally show ?thesis .
next
  case False
  then show ?thesis by (auto simp: equalGroupMultiset_def dest: mset_eq_length)
qed

text \<open>C21: A signer chosen to replace a recorded one is a desired signer that holds what the
  record stands for: the same validator group and, when an identity was recorded as serving, that
  identity; for a sentry, the same genesis-registered identity or the same multiset of groups.\<close>

theorem DesiredReplacementSigner_preserves:
  assumes "DesiredReplacementSigner ns desired (Some st) = Some s"
  shows "s \<in> set desired \<and>
    (if st_ServingGroup st \<noteq> [] then
       rsg_ValidatorGroup s = st_ServingGroup st \<and>
       (st_ServingIdentity st \<noteq> [] \<longrightarrow> Identity s = st_ServingIdentity st) \<and>
       (st_ServingIdentity st = [] \<longrightarrow> st_SigningDigest st = [])
     else
       st_ServingIdentity st = [] \<and> st_SigningDigest st = [] \<and>
       (\<forall>e. st_AtEstablishment st = Some e \<and> e \<noteq> [] \<longrightarrow> Identity s = e \<and> \<not> TargetsValidator s) \<and>
       (st_AtEstablishment st \<in> {None, Some []} \<longrightarrow>
          mset (rsg_TargetGroups s) = mset (st_TargetGroups st)))"
proof -
  from assms have f: "find (replacesRecorded ns st) desired = Some s"
    and guard: "st_ServingGroup st = [] \<longrightarrow> st_ServingIdentity st = [] \<and> st_SigningDigest st = []"
    by (auto simp: DesiredReplacementSigner_def split: if_splits)
  from f have "s \<in> set desired" "replacesRecorded ns st s" by (auto dest: find_SomeD)
  with guard show ?thesis
    by (auto simp: replacesRecorded_def equalGroupMultiset_iff GenesisSentryEstablishmentIdentity_def
        genesisSentryEstablishmentIdentity_def TargetsValidator_def ValidatorTargetedIdentity_def
        split: if_splits option.splits)
qed

theorem DesiredReplacementSigner_preserves_witness:
  "hd (ResolveCosmosigners example_set) \<in> set (ResolveCosmosigners example_set) \<and>
   Identity (hd (ResolveCosmosigners example_set)) = ''software'' @ nul @ ''net-validator-priv-key''"
proof -
  let ?st = "zero_CosmosignerStatus\<lparr>st_ServingGroup := ''validator'',
    st_ServingIdentity := ''software'' @ nul @ ''net-validator-priv-key''\<rparr>"
  have "DesiredReplacementSigner example_set (ResolveCosmosigners example_set) (Some ?st) =
      Some (hd (ResolveCosmosigners example_set))"
    unfolding example_set_signers
    by (simp add: DesiredReplacementSigner_def replacesRecorded_def ValidatorTargetedIdentity_def
        Identity_def effectiveSigningIdentity_def example_set_defs)
  from DesiredReplacementSigner_preserves [OF this] show ?thesis by (simp add: zero_defs)
qed

section \<open>The lifecycle digest\<close>

fun key_fields :: "signing_key \<Rightarrow> string list" where
  "key_fields (VaultTransit a n m k v) = [''vault'', a, n, m, k, Itoa v]"
| "key_fields (CloudKmsImport p l r k) = [''gcpkms-import'', p, l, r, k]"
| "key_fields (CloudKmsVersion v) = [''gcpkms'', v]"
| "key_fields (LocalSecret s) = [''software'', s]"

lemma key_identity_fields: "key_identity k = Join (key_fields k) nul"
  by (cases k) (simp_all add: normalizedVaultIdentity_eq)

lemma key_fields_nul_free: "key_nul_free k \<Longrightarrow> list_all nul_free (key_fields k)"
  by (cases k) auto

lemma key_identity_hd: "\<exists>r. key_identity k @ nul @ x = hd (key_fields k) @ nul @ r"
  by (cases k) (auto simp: key_identity_fields)

lemma key_fields_length:
  "hd (key_fields k) = hd (key_fields l) \<Longrightarrow> length (key_fields k) = length (key_fields l)"
  by (cases k; cases l) auto

lemma key_fields_inject: "key_fields k = key_fields l \<longleftrightarrow> k = l"
  by (cases k; cases l) auto

lemma key_identity_prefix:
  assumes "key_nul_free k" "key_nul_free l" "key_identity k @ nul @ x = key_identity l @ nul @ y"
  shows "k = l \<and> x = y"
proof -
  obtain r r' where "hd (key_fields k) @ nul @ r = hd (key_fields l) @ nul @ r'"
    using assms(3) key_identity_hd [of k x] key_identity_hd [of l y] by metis
  moreover have "nul_free (hd (key_fields z))" for z by (cases z) auto
  ultimately have "hd (key_fields k) = hd (key_fields l)" by (simp add: nul_split)
  then have "length (key_fields k) = length (key_fields l)" by (rule key_fields_length)
  moreover have "key_fields k \<noteq> []" by (cases k) auto
  ultimately show ?thesis
    using Join_nul_prefix [of "key_fields k" "key_fields l" x y] assms
    by (simp add: key_identity_fields key_fields_nul_free key_fields_inject)
qed

definition signer_key :: "ResolvedSigner \<Rightarrow> signing_key option" where
  "signer_key s = Option.bind (rsg_Spec s) (\<lambda>c. signing_key c (rsg_SoftwareKeySecret s))"

lemma Identity_key: "signer_key s = Some k \<Longrightarrow> Identity s = key_identity k"
  by (auto simp: signer_key_def Identity_def effectiveSigningIdentity_key bind_eq_Some_conv)

text \<open>The fields of a signer that its digest covers, for fields without NUL bytes.\<close>

definition nul_free_signer :: "ResolvedSigner \<Rightarrow> bool" where
  "nul_free_signer s \<longleftrightarrow> (\<exists>k. signer_key s = Some k \<and> key_nul_free k) \<and>
     list_all nul_free (rsg_TargetGroups s) \<and> nul_free (rsg_ValidatorGroup s)"

lemma groups_suffix_inject:
  assumes "length xs = length ys" "list_all nul_free xs" "list_all nul_free ys"
    and "Join xs nul @ nul @ a = Join ys nul @ nul @ b"
  shows "xs = ys \<and> a = b"
  using assms Join_nul_prefix [of xs ys a b] by (cases "xs = []") auto

lemma digestPreimage_inject:
  assumes "nul_free_signer s" "nul_free_signer t" "digestPreimage s = digestPreimage t"
  shows "signer_key s = signer_key t \<and> GetReplicas (rsg_Spec s) = GetReplicas (rsg_Spec t) \<and>
    mset (rsg_TargetGroups s) = mset (rsg_TargetGroups t) \<and> rsg_ValidatorGroup s = rsg_ValidatorGroup t"
proof -
  obtain k l where kl: "signer_key s = Some k" "signer_key t = Some l" "key_nul_free k" "key_nul_free l"
    using assms(1,2) by (auto simp: nul_free_signer_def)
  let ?gs = "sort (rsg_TargetGroups s)" and ?gt = "sort (rsg_TargetGroups t)"
  have *: "key_identity k @ nul @ Itoa (GetReplicas (rsg_Spec s)) @ nul @ Itoa (int (length ?gs)) @ nul @
        Join ?gs nul @ nul @ rsg_ValidatorGroup s =
      key_identity l @ nul @ Itoa (GetReplicas (rsg_Spec t)) @ nul @ Itoa (int (length ?gt)) @ nul @
        Join ?gt nul @ nul @ rsg_ValidatorGroup t"
    using assms(3) kl by (simp add: digestPreimage_def Let_def Identity_key)
  from key_identity_prefix [OF kl(3,4) *] have k: "k = l"
    and rest: "GetReplicas (rsg_Spec s) = GetReplicas (rsg_Spec t)" "length ?gs = length ?gt"
      "Join ?gs nul @ nul @ rsg_ValidatorGroup s = Join ?gt nul @ nul @ rsg_ValidatorGroup t"
    by (simp_all add: nul_split)
  have "list_all nul_free ?gs" "list_all nul_free ?gt"
    using assms(1,2) by (simp_all add: nul_free_signer_def list_all_iff)
  from groups_suffix_inject [OF rest(2) this rest(3)]
  have "?gs = ?gt" "rsg_ValidatorGroup s = rsg_ValidatorGroup t" by auto
  with k kl rest show ?thesis by (metis mset_sort)
qed

text \<open>C19: Unless the hash collides on the two preimages at hand, two signers have the same
  lifecycle digest exactly when they sign with the same key, run the same number of replicas, target
  the same multiset of groups and serve the same validator group. So the digest changes with every
  change that the migration has to see, and with no other.\<close>

theorem Digest_eq_iff:
  assumes "nul_free_signer s" "nul_free_signer t"
    and "H (digestPreimage s) = H (digestPreimage t) \<Longrightarrow> digestPreimage s = digestPreimage t"
  shows "Digest H s = Digest H t \<longleftrightarrow>
    signer_key s = signer_key t \<and> GetReplicas (rsg_Spec s) = GetReplicas (rsg_Spec t) \<and>
    mset (rsg_TargetGroups s) = mset (rsg_TargetGroups t) \<and> rsg_ValidatorGroup s = rsg_ValidatorGroup t"
    (is "_ \<longleftrightarrow> ?same")
proof
  assume "Digest H s = Digest H t"
  then have "digestPreimage s = digestPreimage t"
    unfolding Digest_def by (rule assms(3))
  then show ?same by (rule digestPreimage_inject [OF assms(1,2)])
next
  assume same: ?same
  then have "sort (rsg_TargetGroups s) = sort (rsg_TargetGroups t)"
    by (intro properties_for_sort) simp_all
  moreover from same assms(1,2) have "Identity s = Identity t"
    by (auto simp: nul_free_signer_def Identity_key)
  ultimately show "Digest H s = Digest H t"
    using same by (simp add: Digest_def digestPreimage_def)
qed

theorem Digest_eq_iff_witness:
  "Digest id (hd (ResolveCosmosigners example_set)) \<noteq>
   Digest id ((hd (ResolveCosmosigners example_set))\<lparr>rsg_SoftwareKeySecret := ''other-key''\<rparr>)"
proof -
  let ?s = "hd (ResolveCosmosigners example_set)"
  let ?t = "(hd (ResolveCosmosigners example_set))\<lparr>rsg_SoftwareKeySecret := ''other-key''\<rparr>"
  have k: "signer_key ?s = Some (LocalSecret ''net-validator-priv-key'')"
      "signer_key ?t = Some (LocalSecret ''other-key'')"
    unfolding example_set_signers
    by (simp_all add: signer_key_def signing_key_def example_set_defs)
  have "nul_free_signer ?s" "nul_free_signer ?t"
    unfolding nul_free_signer_def k by (simp_all add: example_set_signers)
  from Digest_eq_iff [OF this, of id] k show ?thesis by simp
qed

section \<open>Recorded children\<close>

definition recordedChildren :: "ChainNodeSet \<Rightarrow> (string \<times> uid) list" where
  "recordedChildren ns = map (\<lambda>s. (nst_Name s, nst_UID s)) (nss_Nodes (ns_Status ns)) @
     map (\<lambda>s. (vst_Name s, vst_UID s)) (nss_Validators (ns_Status ns))"

definition recordMatch :: "ChainNode \<Rightarrow> string \<times> uid \<Rightarrow> RecordedChildMatch" where
  "recordMatch child r =
     (if fst r \<noteq> cn_name child then RecordedChildNone
      else if snd r = [] then RecordedChildUnverified
      else if snd r = cn_uid child then RecordedChildExact else RecordedChildReplaced)"

lemma RecordedChildNone_least [simp]: "RecordedChildNone \<le> m"
  by (simp add: less_eq_RecordedChildMatch_def)

lemma considerRecord_max: "considerRecord child n u m = max m (recordMatch child (n, u))"
  by (cases m) (auto simp: considerRecord_def recordMatch_def max_def Let_def
      less_RecordedChildMatch_def less_eq_RecordedChildMatch_def)

lemma MatchRecordedChild_fold:
  "MatchRecordedChild ns child =
     fold (\<lambda>r m. max m (recordMatch child r)) (recordedChildren ns) RecordedChildNone"
proof -
  have "considerRecord child n u = (\<lambda>m. max m (recordMatch child (n, u)))" for n u
    by (simp add: fun_eq_iff considerRecord_max)
  then show ?thesis
    by (simp add: MatchRecordedChild_def recordedChildren_def fold_map comp_def)
qed

lemma fold_max_le_iff:
  fixes m :: "'a :: linorder"
  shows "c \<le> fold (\<lambda>r m. max m (f r)) rs m \<longleftrightarrow> c \<le> m \<or> (\<exists>r \<in> set rs. c \<le> f r)"
  by (induction rs arbitrary: m) (auto simp: le_max_iff_disj)

lemma MatchRecordedChild_ge:
  "c \<noteq> RecordedChildNone \<Longrightarrow>
     c \<le> MatchRecordedChild ns child \<longleftrightarrow> (\<exists>r \<in> set (recordedChildren ns). c \<le> recordMatch child r)"
  unfolding MatchRecordedChild_fold fold_max_le_iff
  by (cases c) (auto simp: less_eq_RecordedChildMatch_def)

lemma claims_ge: "ClaimsChild ns child \<longleftrightarrow> RecordedChildUnverified \<le> MatchRecordedChild ns child"
  by (cases "MatchRecordedChild ns child")
    (auto simp: ClaimsChild_def less_eq_RecordedChildMatch_def)

lemma exact_ge: "m = RecordedChildExact \<longleftrightarrow> RecordedChildExact \<le> m"
  by (cases m) (auto simp: less_eq_RecordedChildMatch_def)

lemma some_ge: "m \<noteq> RecordedChildNone \<longleftrightarrow> RecordedChildReplaced \<le> m"
  by (cases m) (auto simp: less_eq_RecordedChildMatch_def)

text \<open>A set claims a child exactly when some node or validator record of its status has
  the child's name together with the child's UID or with no UID; and the recorded identity is exact
  exactly when a record carries name and UID. A record with another UID never claims the child.\<close>

theorem ClaimsChild_iff:
  assumes "cn_uid child \<noteq> []"
  shows "(ClaimsChild ns child \<longleftrightarrow>
       (cn_name child, cn_uid child) \<in> set (recordedChildren ns) \<or>
       (cn_name child, []) \<in> set (recordedChildren ns)) \<and>
     RecordedChildIdentity ns child =
       (cn_name child \<in> fst ` set (recordedChildren ns),
        (cn_name child, cn_uid child) \<in> set (recordedChildren ns))"
proof -
  have unv: "RecordedChildUnverified \<le> recordMatch child r \<longleftrightarrow>
      r = (cn_name child, cn_uid child) \<or> r = (cn_name child, [])" for r
    by (cases r) (auto simp: recordMatch_def less_eq_RecordedChildMatch_def)
  have rep: "RecordedChildReplaced \<le> recordMatch child r \<longleftrightarrow> fst r = cn_name child" for r
    by (cases r) (auto simp: recordMatch_def less_eq_RecordedChildMatch_def)
  have exa: "RecordedChildExact \<le> recordMatch child r \<longleftrightarrow> r = (cn_name child, cn_uid child)" for r
    using assms by (cases r) (auto simp: recordMatch_def less_eq_RecordedChildMatch_def)
  have "ClaimsChild ns child \<longleftrightarrow>
      (cn_name child, cn_uid child) \<in> set (recordedChildren ns) \<or>
      (cn_name child, []) \<in> set (recordedChildren ns)"
    by (auto simp: claims_ge MatchRecordedChild_ge unv)
  moreover have "MatchRecordedChild ns child \<noteq> RecordedChildNone \<longleftrightarrow>
      cn_name child \<in> fst ` set (recordedChildren ns)"
    unfolding some_ge by (subst MatchRecordedChild_ge) (force simp: rep)+
  moreover have "MatchRecordedChild ns child = RecordedChildExact \<longleftrightarrow>
      (cn_name child, cn_uid child) \<in> set (recordedChildren ns)"
    unfolding exact_ge [of "MatchRecordedChild ns child"]
    by (subst MatchRecordedChild_ge) (auto simp: exa)
  ultimately show ?thesis by (simp add: RecordedChildIdentity_def Let_def)
qed

theorem ClaimsChild_iff_witness:
  "ClaimsChild (example_set\<lparr>ns_Status := (ns_Status example_set)\<lparr>nss_Nodes :=
      [\<lparr>nst_Name = ''net-a-0'', nst_UID = ''u7''\<rparr>]\<rparr>\<rparr>)
    (zero_ChainNode\<lparr>cn_Meta := zero_Meta\<lparr>m_Name := ''net-a-0'', m_UID := ''u7''\<rparr>\<rparr>)"
  by (subst ClaimsChild_iff [THEN conjunct1]) (simp_all add: recordedChildren_def example_set_defs)

section \<open>Names and secrets of resolved signers\<close>

lemma ResolveCosmosigners_group_names:
  "map rsg_Name (concat (map (\<lambda>g. case ng_Cosmosigner g of None \<Rightarrow> [] | Some c \<Rightarrow> resolveGroupSigners ns g c) gs)) =
   map (\<lambda>g. ns_name ns @ ''-'' @ ng_Name g @ ''-signer'') (filter (\<lambda>g. ng_Cosmosigner g \<noteq> None) gs)"
  by (induction gs) (auto simp: resolveGroupSigners_def split: option.splits)

text \<open>In a set whose groups have distinct names, no two managed signers share a
  resource name, so each has its own status entry, StatefulSet and raft state.\<close>

theorem ResolveCosmosigners_distinct_names:
  assumes "distinct (map ng_Name (ns_Nodes (ns_Spec ns)))"
  shows "distinct (map rsg_Name (ResolveCosmosigners ns))"
proof -
  define gs where "gs = filter (\<lambda>g. ng_Cosmosigner g \<noteq> None) (ns_Nodes (ns_Spec ns))"
  define f where "f g = ns_name ns @ ''-'' @ ng_Name g @ ''-signer''" for g :: NodeGroupSpec
  have "distinct (map ng_Name gs)" unfolding gs_def using assms by (rule distinct_map_filter)
  then have d: "distinct (map f gs)"
    by (auto simp: distinct_map inj_on_def f_def)
  have top: "ns_name ns @ ''-signer'' \<noteq> f g" for g
    by (auto simp: f_def dest: arg_cong [where f = length])
  have "map rsg_Name (ResolveCosmosigners ns) =
      (case ns_Cosmosigner (ns_Spec ns) of Some c \<Rightarrow> [ns_name ns @ ''-signer''] | None \<Rightarrow> []) @ map f gs"
    unfolding ResolveCosmosigners_def map_append ResolveCosmosigners_group_names gs_def f_def
    by (simp add: resolveTopLevelSigner_def split: option.splits)
  with d top show ?thesis by (auto split: option.splits)
qed

theorem ResolveCosmosigners_distinct_names_witness:
  "distinct (map rsg_Name (ResolveCosmosigners example_set))"
  by (rule ResolveCosmosigners_distinct_names) (simp add: example_set_defs)

end
