(* ===== verification/Kube_Api.thy ===== *)
theory Kube_Api
  imports Api_Types
begin

text \<open>
  The Kubernetes API as the controllers call it. The API server is not part of the repository: it is
  the argument \<open>K\<close> of every definition that calls it, a record with one operation per call, each a
  function from the state of the outside world to a result and the next state. A read may change the
  state too, so that other clients may act between any two calls of the modelled code.

  What the code relies on is the locale \<open>kube_server\<close>: every call takes effect at one point in time
  on the objects the server stores, before and after it the other clients may act (\<open>rely\<close>), and a
  call may fail for reasons of its own. The server \<open>env_kube\<close> below interprets it.
\<close>

section \<open>Objects\<close>

text \<open>\<open>pvc_Bound\<close> is the test of the phase for \<open>ClaimBound\<close>; \<open>pod_Claims\<close> lists the claims among the volumes of a
  pod; the retention policy of a StatefulSet is the pair (when deleted, when scaled).\<close>

record PersistentVolumeClaim =
  pvc_Meta :: ObjectMeta
  pvc_Bound :: bool
  pvc_VolumeName :: string
  pvc_StorageClass :: "string option"
  pvc_Storage :: "quantity option"

record StatefulSet =
  sts_Meta :: ObjectMeta
  sts_TemplateLabels :: labels
  sts_ClaimTemplates :: "PersistentVolumeClaim list"
  sts_Replicas :: "int option"
  sts_Retention :: "(string \<times> string) option"
  sts_ObservedGeneration :: int
  sts_StatusReplicas :: int
  sts_UpdatedReplicas :: int
  sts_ReadyReplicas :: int

record Job =
  job_Meta :: ObjectMeta

record Pod =
  pod_Meta :: ObjectMeta
  pod_Claims :: "string list"

text \<open>\<open>metav1.GetControllerOf\<close> and \<open>metav1.IsControlledBy\<close>.\<close>

definition GetControllerOf :: "ObjectMeta \<Rightarrow> OwnerReference option" where
  "GetControllerOf m = find (\<lambda>r. or_Controller r = Some True) (m_OwnerReferences m)"

definition controlledByUID :: "ObjectMeta \<Rightarrow> uid \<Rightarrow> bool" where
  "controlledByUID m u = (case GetControllerOf m of None \<Rightarrow> False | Some r \<Rightarrow> or_UID r = u)"

text \<open>A read of a Go map of labels: the empty string where the key is absent.\<close>

definition label :: "labels \<Rightarrow> string \<Rightarrow> string" where
  "label ls k = (case ls k of Some v \<Rightarrow> v | None \<Rightarrow> [])"

section \<open>The API record\<close>

datatype api_error = NotFound | AlreadyExists | Conflict | ApiOther string

record 's kube =
  k_getReservation :: "string \<Rightarrow> 's \<Rightarrow> (api_error + ConsensusKeyReservation) \<times> 's"
  k_listReservations :: "'s \<Rightarrow> (api_error + ConsensusKeyReservation list) \<times> 's"
  k_createReservation :: "ConsensusKeyReservation \<Rightarrow> 's \<Rightarrow> (api_error + unit) \<times> 's"
  k_deleteReservation :: "string \<Rightarrow> uid \<Rightarrow> 's \<Rightarrow> (api_error + unit) \<times> 's"
  k_getChainNode :: "string \<Rightarrow> string \<Rightarrow> 's \<Rightarrow> (api_error + ChainNode) \<times> 's"
  k_listChainNodes :: "string option \<Rightarrow> 's \<Rightarrow> (api_error + ChainNode list) \<times> 's"
  k_getChainNodeSet :: "string \<Rightarrow> string \<Rightarrow> 's \<Rightarrow> (api_error + ChainNodeSet) \<times> 's"
  k_listChainNodeSets :: "string option \<Rightarrow> 's \<Rightarrow> (api_error + ChainNodeSet list) \<times> 's"
  k_getNamespace :: "string \<Rightarrow> 's \<Rightarrow> (api_error + unit) \<times> 's"
  k_listStatefulSets :: "string \<Rightarrow> 's \<Rightarrow> (api_error + StatefulSet list) \<times> 's"
  k_listJobs :: "string \<Rightarrow> 's \<Rightarrow> (api_error + Job list) \<times> 's"
  k_listPods :: "string \<Rightarrow> 's \<Rightarrow> (api_error + Pod list) \<times> 's"

section \<open>Programs over the API\<close>

text \<open>A program reads and writes through the API and returns a value or an error of its own.\<close>

type_synonym ('s, 'e, 'a) prog = "'s \<Rightarrow> ('e + 'a) \<times> 's"

definition ret :: "'a \<Rightarrow> ('s, 'e, 'a) prog" where
  "ret x s = (Inr x, s)"

definition fail :: "'e \<Rightarrow> ('s, 'e, 'a) prog" where
  "fail e s = (Inl e, s)"

text \<open>Sequencing: \<open>x, err := m(); if err != nil { return err }\<close>.\<close>

definition seq :: "('s, 'e, 'a) prog \<Rightarrow> ('a \<Rightarrow> ('s, 'e, 'b) prog) \<Rightarrow> ('s, 'e, 'b) prog" where
  "seq m f s = (case m s of (Inl e, s1) \<Rightarrow> (Inl e, s1) | (Inr x, s1) \<Rightarrow> f x s1)"

text \<open>One API call whose error is passed on.\<close>

definition call :: "(api_error \<Rightarrow> 'e) \<Rightarrow> ('s \<Rightarrow> (api_error + 'a) \<times> 's) \<Rightarrow> ('s, 'e, 'a) prog" where
  "call wrap oper s = (case oper s of (Inl e, s1) \<Rightarrow> (Inl (wrap e), s1) | (Inr x, s1) \<Rightarrow> (Inr x, s1))"

text \<open>\<open>if err := Get(...); err == nil { found } else if IsNotFound(err) { absent } else { return err }\<close>.\<close>

definition get_or ::
    "(api_error \<Rightarrow> 'e) \<Rightarrow> ('s \<Rightarrow> (api_error + 'a) \<times> 's) \<Rightarrow> ('a \<Rightarrow> ('s, 'e, 'b) prog) \<Rightarrow> ('s, 'e, 'b) prog
      \<Rightarrow> ('s, 'e, 'b) prog" where
  "get_or wrap oper found absent s =
     (case oper s of
        (Inr x, s1) \<Rightarrow> found x s1
      | (Inl e, s1) \<Rightarrow> if e = NotFound then absent s1 else (Inl (wrap e), s1))"

text \<open>\<open>if err := op(...); err != nil && !IsX(err) { return err }\<close>.\<close>

definition call_ignoring ::
    "api_error \<Rightarrow> (api_error \<Rightarrow> 'e) \<Rightarrow> ('s \<Rightarrow> (api_error + unit) \<times> 's) \<Rightarrow> ('s, 'e, unit) prog" where
  "call_ignoring ign wrap oper s =
     (case oper s of
        (Inr x, s1) \<Rightarrow> (Inr (), s1)
      | (Inl e, s1) \<Rightarrow> if e = ign then (Inr (), s1) else (Inl (wrap e), s1))"

section \<open>The server's contract\<close>

text \<open>The objects the server stores.\<close>

record cluster =
  c_Reservations :: "ConsensusKeyReservation list"
  c_Nodes :: "ChainNode list"
  c_Sets :: "ChainNodeSet list"
  c_Namespaces :: "string list"
  c_StatefulSets :: "StatefulSet list"
  c_Jobs :: "Job list"
  c_Pods :: "Pod list"

definition find_reservation :: "string \<Rightarrow> cluster \<Rightarrow> ConsensusKeyReservation option" where
  "find_reservation n c = find (\<lambda>r. m_Name (ckr_Meta r) = n) (c_Reservations c)"

definition find_node :: "string \<Rightarrow> string \<Rightarrow> cluster \<Rightarrow> ChainNode option" where
  "find_node ns n c = find (\<lambda>x. m_Namespace (cn_Meta x) = ns \<and> cn_name x = n) (c_Nodes c)"

definition find_set :: "string \<Rightarrow> string \<Rightarrow> cluster \<Rightarrow> ChainNodeSet option" where
  "find_set ns n c = find (\<lambda>x. m_Namespace (ns_Meta x) = ns \<and> ns_name x = n) (c_Sets c)"

definition found :: "'a option \<Rightarrow> api_error + 'a" where
  "found x = (case x of Some y \<Rightarrow> Inr y | None \<Rightarrow> Inl NotFound)"

definition in_namespace :: "('a \<Rightarrow> ObjectMeta) \<Rightarrow> string option \<Rightarrow> 'a list \<Rightarrow> 'a list" where
  "in_namespace meta ns xs =
     (case ns of None \<Rightarrow> xs | Some n \<Rightarrow> filter (\<lambda>x. m_Namespace (meta x) = n) xs)"

definition created :: "ConsensusKeyReservation \<Rightarrow> cluster \<Rightarrow> cluster \<Rightarrow> bool" where
  "created r c c' \<longleftrightarrow> find_reservation (m_Name (ckr_Meta r)) c = None \<and>
     (\<exists>u. u \<noteq> [] \<and> u \<notin> (\<lambda>x. m_UID (ckr_Meta x)) ` set (c_Reservations c) \<and>
        c' = c\<lparr>c_Reservations := c_Reservations c @ [r\<lparr>ckr_Meta := (ckr_Meta r)\<lparr>m_UID := u\<rparr>\<rparr>]\<rparr>)"

text \<open>A delete with a UID precondition removes the object, or marks it while finalizers hold it.\<close>

definition mark_deleted :: "string \<Rightarrow> int \<Rightarrow> ConsensusKeyReservation \<Rightarrow> ConsensusKeyReservation" where
  "mark_deleted n t r =
     (if m_Name (ckr_Meta r) = n then r\<lparr>ckr_Meta := (ckr_Meta r)\<lparr>m_DeletionTimestamp := Some t\<rparr>\<rparr> else r)"

definition removed :: "string \<Rightarrow> uid \<Rightarrow> cluster \<Rightarrow> cluster \<Rightarrow> bool" where
  "removed n u c c' \<longleftrightarrow> (\<exists>r. find_reservation n c = Some r \<and> m_UID (ckr_Meta r) = u) \<and>
     (c' = c\<lparr>c_Reservations := filter (\<lambda>r. m_Name (ckr_Meta r) \<noteq> n) (c_Reservations c)\<rparr> \<or>
      (\<exists>t. c' = c\<lparr>c_Reservations := map (mark_deleted n t) (c_Reservations c)\<rparr>))"

definition create_outcome :: "ConsensusKeyReservation \<Rightarrow> cluster \<Rightarrow> api_error + unit \<Rightarrow> cluster \<Rightarrow> bool" where
  "create_outcome r c res c' \<longleftrightarrow>
     (case res of
        Inr _ \<Rightarrow> created r c c'
      | Inl e \<Rightarrow> if e = AlreadyExists then c' = c \<and> find_reservation (m_Name (ckr_Meta r)) c \<noteq> None
                else c' = c \<or> created r c c')"

definition delete_outcome :: "string \<Rightarrow> uid \<Rightarrow> cluster \<Rightarrow> api_error + unit \<Rightarrow> cluster \<Rightarrow> bool" where
  "delete_outcome n u c res c' \<longleftrightarrow>
     (case res of
        Inr _ \<Rightarrow> removed n u c c'
      | Inl e \<Rightarrow> if e = NotFound then c' = c \<and> find_reservation n c = None
                else c' = c \<or> removed n u c c')"

text \<open>A call reads at one point in time, or fails with an error that says nothing of the objects.\<close>

definition observes ::
    "('s \<Rightarrow> cluster) \<Rightarrow> (cluster \<Rightarrow> cluster \<Rightarrow> bool) \<Rightarrow> ('s \<Rightarrow> (api_error + 'a) \<times> 's)
      \<Rightarrow> (cluster \<Rightarrow> api_error + 'a) \<Rightarrow> bool" where
  "observes view rely oper f \<longleftrightarrow>
     (\<forall>s r s'. oper s = (r, s') \<longrightarrow>
        (\<exists>c. rely (view s) c \<and> rely c (view s') \<and> (r = f c \<or> (\<exists>m. r = Inl (ApiOther m)))))"

definition commits ::
    "('s \<Rightarrow> cluster) \<Rightarrow> (cluster \<Rightarrow> cluster \<Rightarrow> bool) \<Rightarrow> ('s \<Rightarrow> (api_error + unit) \<times> 's)
      \<Rightarrow> (cluster \<Rightarrow> api_error + unit \<Rightarrow> cluster \<Rightarrow> bool) \<Rightarrow> bool" where
  "commits view rely oper W \<longleftrightarrow>
     (\<forall>s r s'. oper s = (r, s') \<longrightarrow> (\<exists>c c'. rely (view s) c \<and> W c r c' \<and> rely c' (view s')))"

text \<open>A predicate on the stored objects is stable when the other clients keep it.\<close>

definition stable_under :: "(cluster \<Rightarrow> cluster \<Rightarrow> bool) \<Rightarrow> (cluster \<Rightarrow> bool) \<Rightarrow> bool" where
  "stable_under rely P \<longleftrightarrow> (\<forall>c c'. P c \<and> rely c c' \<longrightarrow> P c')"

locale kube_server =
  fixes K :: "'s kube" and view :: "'s \<Rightarrow> cluster" and rely :: "cluster \<Rightarrow> cluster \<Rightarrow> bool"
  assumes rely_refl: "rely c c"
    and rely_trans: "rely a b \<Longrightarrow> rely b c \<Longrightarrow> rely a c"
    and getReservation: "observes view rely (k_getReservation K n) (\<lambda>c. found (find_reservation n c))"
    and listReservations: "observes view rely (k_listReservations K) (\<lambda>c. Inr (c_Reservations c))"
    and createReservation: "commits view rely (k_createReservation K r) (create_outcome r)"
    and deleteReservation: "commits view rely (k_deleteReservation K n u) (delete_outcome n u)"
    and getChainNode: "observes view rely (k_getChainNode K ns n) (\<lambda>c. found (find_node ns n c))"
    and listChainNodes: "observes view rely (k_listChainNodes K nso)
          (\<lambda>c. Inr (in_namespace cn_Meta nso (c_Nodes c)))"
    and getChainNodeSet: "observes view rely (k_getChainNodeSet K ns n) (\<lambda>c. found (find_set ns n c))"
    and listChainNodeSets: "observes view rely (k_listChainNodeSets K nso)
          (\<lambda>c. Inr (in_namespace ns_Meta nso (c_Sets c)))"
    and getNamespace: "observes view rely (k_getNamespace K n)
          (\<lambda>c. if n \<in> set (c_Namespaces c) then Inr () else Inl NotFound)"
    and listStatefulSets: "observes view rely (k_listStatefulSets K ns)
          (\<lambda>c. Inr (in_namespace sts_Meta (Some ns) (c_StatefulSets c)))"
    and listJobs: "observes view rely (k_listJobs K ns)
          (\<lambda>c. Inr (in_namespace job_Meta (Some ns) (c_Jobs c)))"
    and listPods: "observes view rely (k_listPods K ns)
          (\<lambda>c. Inr (in_namespace pod_Meta (Some ns) (c_Pods c)))"
begin

abbreviation stable :: "(cluster \<Rightarrow> bool) \<Rightarrow> bool" where
  "stable \<equiv> stable_under rely"

text \<open>A program run from a state with \<open>P\<close> ends with \<open>Q\<close> when it returns a value and with \<open>E\<close> when it
  returns an error.\<close>

definition triple ::
    "(cluster \<Rightarrow> bool) \<Rightarrow> ('s, 'e, 'a) prog \<Rightarrow> ('a \<Rightarrow> cluster \<Rightarrow> bool) \<Rightarrow> ('e \<Rightarrow> cluster \<Rightarrow> bool) \<Rightarrow> bool" where
  "triple P m Q E \<longleftrightarrow>
     (\<forall>s. P (view s) \<longrightarrow> (case m s of (Inr x, s') \<Rightarrow> Q x (view s') | (Inl e, s') \<Rightarrow> E e (view s')))"

lemma stableD: "stable P \<Longrightarrow> P c \<Longrightarrow> rely c c' \<Longrightarrow> P c'"
  unfolding stable_under_def by blast

lemma stable_conj: "stable P \<Longrightarrow> stable Q \<Longrightarrow> stable (\<lambda>c. P c \<and> Q c)"
  unfolding stable_under_def by blast

lemma stable_True: "stable (\<lambda>_. True)"
  by (simp add: stable_under_def)

lemma tripleD: "triple P m Q E \<Longrightarrow> P (view s) \<Longrightarrow>
    (case m s of (Inr x, s') \<Rightarrow> Q x (view s') | (Inl e, s') \<Rightarrow> E e (view s'))"
  unfolding triple_def by (elim allE) (erule mp)

lemma tripleD_ok: "triple P m Q E \<Longrightarrow> P (view s) \<Longrightarrow> m s = (Inr x, s') \<Longrightarrow> Q x (view s')"
  and tripleD_err: "triple P m Q E \<Longrightarrow> P (view s) \<Longrightarrow> m s = (Inl e, s') \<Longrightarrow> E e (view s')"
  using tripleD [of P m Q E s] by simp_all

text \<open>What a read tells: the value is the one stored at a time at which the predicate held.\<close>

lemma observes_at:
  assumes "observes view rely oper f" "stable P" "P (view s)" "oper s = (r, s')"
  obtains c where "P c" "P (view s')" "rely c (view s')" "r = f c \<or> (\<exists>m. r = Inl (ApiOther m))"
  using assms unfolding observes_def stable_under_def by metis

lemma commits_at:
  assumes "commits view rely oper W" "stable P" "P (view s)" "oper s = (r, s')"
  obtains c c' where "P c" "W c r c'" "rely c' (view s')"
  using assms unfolding commits_def stable_under_def by metis

lemma triple_ret [intro]: "(\<And>c. P c \<Longrightarrow> Q x c) \<Longrightarrow> triple P (ret x) Q E"
  by (simp add: triple_def ret_def)

lemma triple_fail [intro]: "(\<And>c. P c \<Longrightarrow> E e c) \<Longrightarrow> triple P (fail e) Q E"
  by (simp add: triple_def fail_def)

lemma triple_seq:
  assumes "triple P m R E" "\<And>x. triple (R x) (f x) Q E"
  shows "triple P (seq m f) Q E"
  using assms unfolding triple_def seq_def by (fastforce split: sum.splits prod.splits)

lemma triple_pre: "triple P m Q E \<Longrightarrow> (\<And>c. P' c \<Longrightarrow> P c) \<Longrightarrow> triple P' m Q E"
  by (auto simp: triple_def)

lemma triple_conseq:
  assumes "triple P m Q E" "\<And>c. P' c \<Longrightarrow> P c" "\<And>x c. Q x c \<Longrightarrow> Q' x c" "\<And>e c. E e c \<Longrightarrow> E' e c"
  shows "triple P' m Q' E'"
  using assms unfolding triple_def by (fastforce split: sum.splits prod.splits)

lemma triple_call:
  assumes "observes view rely oper f" "stable P" "\<And>e c. P c \<Longrightarrow> E e c"
  shows "triple P (call w oper) (\<lambda>x c'. P c' \<and> (\<exists>c. P c \<and> rely c c' \<and> f c = Inr x)) E"
  unfolding triple_def
proof (intro allI impI)
  fix s assume P: "P (view s)"
  obtain r s' where r: "oper s = (r, s')" by (cases "oper s")
  obtain c where c: "P c" "P (view s')" "rely c (view s')" "r = f c \<or> (\<exists>m. r = Inl (ApiOther m))"
    by (rule observes_at [OF assms(1,2) P r])
  show "case call w oper s of
      (Inr x, s') \<Rightarrow> P (view s') \<and> (\<exists>c. P c \<and> rely c (view s') \<and> f c = Inr x)
    | (Inl e, s') \<Rightarrow> E e (view s')"
  proof (cases r)
    case (Inl e)
    with r c(2) assms(3) show ?thesis by (simp add: call_def)
  next
    case (Inr x)
    with c have "f c = Inr x" by auto
    with r Inr c(1-3) show ?thesis by (auto simp: call_def)
  qed
qed

lemma triple_get_or:
  assumes "observes view rely oper f" "stable P"
    and "\<And>x. triple (\<lambda>c'. P c' \<and> (\<exists>c. P c \<and> rely c c' \<and> f c = Inr x)) (g x) Q E"
    and "triple (\<lambda>c'. P c' \<and> (\<exists>c. P c \<and> rely c c' \<and> f c = Inl NotFound)) h Q E"
    and "\<And>e c. P c \<Longrightarrow> E e c"
  shows "triple P (get_or w oper g h) Q E"
  unfolding triple_def
proof (intro allI impI)
  fix s assume P: "P (view s)"
  obtain r s' where r: "oper s = (r, s')" by (cases "oper s")
  obtain c where c: "P c" "P (view s')" "rely c (view s')" "r = f c \<or> (\<exists>m. r = Inl (ApiOther m))"
    by (rule observes_at [OF assms(1,2) P r])
  show "case get_or w oper g h s of (Inr x, s') \<Rightarrow> Q x (view s') | (Inl e, s') \<Rightarrow> E e (view s')"
  proof (cases r)
    case (Inl e)
    show ?thesis
    proof (cases "e = NotFound")
      case True
      with c Inl have "f c = Inl NotFound" by auto
      with c have "case h s' of (Inr x, s') \<Rightarrow> Q x (view s') | (Inl e, s') \<Rightarrow> E e (view s')"
        by (intro tripleD [OF assms(4)]) blast
      with r Inl True show ?thesis by (simp add: get_or_def)
    next
      case False
      with r Inl c assms(5) show ?thesis by (simp add: get_or_def)
    qed
  next
    case (Inr y)
    with c have "f c = Inr y" by auto
    with c have "case g y s' of (Inr x, s') \<Rightarrow> Q x (view s') | (Inl e, s') \<Rightarrow> E e (view s')"
      by (intro tripleD [OF assms(3)]) blast
    with r Inr show ?thesis by (simp add: get_or_def)
  qed
qed

text \<open>The rules the proofs apply: what a read shows becomes a hypothesis of the rest of the program.\<close>

lemma triple_if_known:
  assumes "A \<Longrightarrow> triple P m Q E"
  shows "triple (\<lambda>c. P c \<and> A) m Q E"
  using assms by (cases A) (auto simp: triple_def)

lemma triple_list:
  assumes "observes view rely oper (\<lambda>c. Inr (f c))" "stable P" "\<And>e c. P c \<Longrightarrow> E e c"
    and "\<And>c. P c \<Longrightarrow> triple P (g (f c)) Q E"
  shows "triple P (seq (call w oper) g) Q E"
proof (rule triple_seq [OF triple_call [OF assms(1-3)]])
  fix x
  have "triple (\<lambda>c'. P c' \<and> (\<exists>c. P c \<and> f c = x)) (g x) Q E"
    by (rule triple_if_known) (use assms(4) in auto)
  then show "triple (\<lambda>c'. P c' \<and> (\<exists>c. P c \<and> rely c c' \<and> Inr (f c) = Inr x)) (g x) Q E"
    by (rule triple_pre) auto
qed

lemma triple_get:
  assumes "observes view rely oper f" "stable P" "\<And>e c. P c \<Longrightarrow> E e c"
    and "\<And>x c. P c \<Longrightarrow> f c = Inr x \<Longrightarrow> triple P (g x) Q E"
    and "\<And>c. P c \<Longrightarrow> f c = Inl NotFound \<Longrightarrow> triple P h Q E"
  shows "triple P (get_or w oper g h) Q E"
proof (rule triple_get_or [OF assms(1,2) _ _ assms(3)])
  fix x
  have "triple (\<lambda>c'. P c' \<and> (\<exists>c. P c \<and> f c = Inr x)) (g x) Q E"
    by (rule triple_if_known) (use assms(4) in auto)
  then show "triple (\<lambda>c'. P c' \<and> (\<exists>c. P c \<and> rely c c' \<and> f c = Inr x)) (g x) Q E"
    by (rule triple_pre) auto
next
  have "triple (\<lambda>c'. P c' \<and> (\<exists>c. P c \<and> f c = Inl NotFound)) h Q E"
    by (rule triple_if_known) (use assms(5) in auto)
  then show "triple (\<lambda>c'. P c' \<and> (\<exists>c. P c \<and> rely c c' \<and> f c = Inl NotFound)) h Q E"
    by (rule triple_pre) auto
qed

lemma triple_then:
  assumes "triple P m (\<lambda>x c. P c \<and> A x) E" "\<And>x. A x \<Longrightarrow> triple P (f x) Q E"
  shows "triple P (seq m f) Q E"
  by (rule triple_seq [OF assms(1)]) (rule triple_if_known, rule assms(2))

lemma triple_if:
  "(b \<Longrightarrow> triple P m Q E) \<Longrightarrow> (\<not> b \<Longrightarrow> triple P n Q E) \<Longrightarrow> triple P (if b then m else n) Q E"
  by simp

lemma triple_commit_ignoring:
  assumes "commits view rely oper W" "stable P" "stable R"
    and "\<And>c r c'. P c \<Longrightarrow> W c r c' \<Longrightarrow> R c'" "\<And>e c. R c \<Longrightarrow> E e c"
  shows "triple P (call_ignoring ign w oper) (\<lambda>_. R) E"
  unfolding triple_def
proof (intro allI impI)
  fix s assume P: "P (view s)"
  obtain r s' where r: "oper s = (r, s')" by (cases "oper s")
  obtain c c' where "P c" "W c r c'" "rely c' (view s')"
    by (rule commits_at [OF assms(1,2) P r])
  then have "R (view s')" using assms(3,4) stableD by blast
  with r assms(5) show "case call_ignoring ign w oper s of
      (Inr x, s') \<Rightarrow> R (view s') | (Inl e, s') \<Rightarrow> E e (view s')"
    by (cases r) (auto simp: call_ignoring_def)
qed

end

section \<open>A server with an environment\<close>

text \<open>An in-memory server that lets an environment act before every call: the state carries the
  environment's next actions, and an action outside the relation \<open>G\<close> is skipped. With an empty script
  it is a server with a single client.\<close>

type_synonym scripted = "cluster \<times> (cluster \<Rightarrow> cluster) list"

definition environment :: "(cluster \<Rightarrow> cluster \<Rightarrow> bool) \<Rightarrow> scripted \<Rightarrow> scripted" where
  "environment G s =
     (case snd s of [] \<Rightarrow> s
      | f # fs \<Rightarrow> (if G (fst s) (f (fst s)) then f (fst s) else fst s, fs))"

definition reading :: "(cluster \<Rightarrow> cluster \<Rightarrow> bool) \<Rightarrow> (cluster \<Rightarrow> api_error + 'a) \<Rightarrow> scripted
    \<Rightarrow> (api_error + 'a) \<times> scripted" where
  "reading G f s = (let s1 = environment G s in (f (fst s1), s1))"

definition fresh_uid :: "cluster \<Rightarrow> uid" where
  "fresh_uid c = replicate (Suc (sum_list (map (\<lambda>r. length (m_UID (ckr_Meta r))) (c_Reservations c)))) CHR ''u''"

definition create_step :: "ConsensusKeyReservation \<Rightarrow> cluster \<Rightarrow> (api_error + unit) \<times> cluster" where
  "create_step r c =
     (if find_reservation (m_Name (ckr_Meta r)) c \<noteq> None then (Inl AlreadyExists, c)
      else (Inr (), c\<lparr>c_Reservations :=
              c_Reservations c @ [r\<lparr>ckr_Meta := (ckr_Meta r)\<lparr>m_UID := fresh_uid c\<rparr>\<rparr>]\<rparr>))"

definition delete_step :: "string \<Rightarrow> uid \<Rightarrow> cluster \<Rightarrow> (api_error + unit) \<times> cluster" where
  "delete_step n u c =
     (case find_reservation n c of
        None \<Rightarrow> (Inl NotFound, c)
      | Some r \<Rightarrow>
          if m_UID (ckr_Meta r) \<noteq> u then (Inl Conflict, c)
          else if m_Finalizers (ckr_Meta r) = []
          then (Inr (), c\<lparr>c_Reservations := filter (\<lambda>r. m_Name (ckr_Meta r) \<noteq> n) (c_Reservations c)\<rparr>)
          else (Inr (), c\<lparr>c_Reservations := map (mark_deleted n 1) (c_Reservations c)\<rparr>))"

definition writing :: "(cluster \<Rightarrow> cluster \<Rightarrow> bool) \<Rightarrow> (cluster \<Rightarrow> (api_error + unit) \<times> cluster) \<Rightarrow> scripted
    \<Rightarrow> (api_error + unit) \<times> scripted" where
  "writing G f s = (let s1 = environment G s; (r, c) = f (fst s1) in (r, (c, snd s1)))"

definition env_kube :: "(cluster \<Rightarrow> cluster \<Rightarrow> bool) \<Rightarrow> scripted kube" where
  "env_kube G =
     \<lparr>k_getReservation = \<lambda>n. reading G (\<lambda>c. found (find_reservation n c)),
      k_listReservations = reading G (\<lambda>c. Inr (c_Reservations c)),
      k_createReservation = \<lambda>r. writing G (create_step r),
      k_deleteReservation = \<lambda>n u. writing G (delete_step n u),
      k_getChainNode = \<lambda>ns n. reading G (\<lambda>c. found (find_node ns n c)),
      k_listChainNodes = \<lambda>ns. reading G (\<lambda>c. Inr (in_namespace cn_Meta ns (c_Nodes c))),
      k_getChainNodeSet = \<lambda>ns n. reading G (\<lambda>c. found (find_set ns n c)),
      k_listChainNodeSets = \<lambda>ns. reading G (\<lambda>c. Inr (in_namespace ns_Meta ns (c_Sets c))),
      k_getNamespace = \<lambda>n. reading G (\<lambda>c. if n \<in> set (c_Namespaces c) then Inr () else Inl NotFound),
      k_listStatefulSets = \<lambda>ns. reading G (\<lambda>c. Inr (in_namespace sts_Meta (Some ns) (c_StatefulSets c))),
      k_listJobs = \<lambda>ns. reading G (\<lambda>c. Inr (in_namespace job_Meta (Some ns) (c_Jobs c))),
      k_listPods = \<lambda>ns. reading G (\<lambda>c. Inr (in_namespace pod_Meta (Some ns) (c_Pods c)))\<rparr>"

lemma environment_rely: "G\<^sup>*\<^sup>* (fst s) (fst (environment G s))"
  by (auto simp: environment_def split: list.splits)

lemma reading_observes: "observes fst (G\<^sup>*\<^sup>*) (reading G f) f"
  unfolding observes_def
proof (intro allI impI)
  fix s r s' assume "reading G f s = (r, s')"
  then have "r = f (fst s')" "s' = environment G s" by (auto simp: reading_def Let_def)
  then show "\<exists>c. G\<^sup>*\<^sup>* (fst s) c \<and> G\<^sup>*\<^sup>* c (fst s') \<and> (r = f c \<or> (\<exists>m. r = Inl (ApiOther m)))"
    using environment_rely [of G s] by blast
qed

lemma writing_commits:
  assumes "\<And>c. W c (fst (f c)) (snd (f c))"
  shows "commits fst (G\<^sup>*\<^sup>*) (writing G f) W"
  unfolding commits_def
proof (intro allI impI)
  fix s r s' assume "writing G f s = (r, s')"
  then have "r = fst (f (fst (environment G s)))" "fst s' = snd (f (fst (environment G s)))"
    by (auto simp: writing_def Let_def split: prod.splits)
  with assms [of "fst (environment G s)"] environment_rely [of G s]
  show "\<exists>c c'. G\<^sup>*\<^sup>* (fst s) c \<and> W c r c' \<and> G\<^sup>*\<^sup>* c' (fst s')"
    by (intro exI [of _ "fst (environment G s)"] exI [of _ "fst s'"]) simp
qed

lemma fresh_uid_fresh: "fresh_uid c \<notin> (\<lambda>x. m_UID (ckr_Meta x)) ` set (c_Reservations c)"
proof
  assume "fresh_uid c \<in> (\<lambda>x. m_UID (ckr_Meta x)) ` set (c_Reservations c)"
  then have "length (fresh_uid c) \<in> set (map (\<lambda>r. length (m_UID (ckr_Meta r))) (c_Reservations c))"
    by auto
  then have "length (fresh_uid c) \<le> sum_list (map (\<lambda>r. length (m_UID (ckr_Meta r))) (c_Reservations c))"
    by (intro member_le_sum_list) auto
  then show False by (simp add: fresh_uid_def)
qed

lemma create_step_outcome: "create_outcome r c (fst (create_step r c)) (snd (create_step r c))"
  using fresh_uid_fresh [of c]
  by (auto simp: create_step_def create_outcome_def created_def fresh_uid_def)

lemma delete_step_outcome: "delete_outcome n u c (fst (delete_step n u c)) (snd (delete_step n u c))"
  by (auto simp: delete_step_def delete_outcome_def removed_def split: option.splits)

interpretation env: kube_server "env_kube G" fst "G\<^sup>*\<^sup>*" for G
  by unfold_locales
    (auto simp: env_kube_def reading_observes intro: writing_commits create_step_outcome delete_step_outcome)

end
