(* ===== verification/Reservation_Match.thy ===== *)
theory Reservation_Match
  imports Kube_Api Cosmosigner_Resolve
begin

text \<open>
  The pure part of \<open>src/internal/cosmosigner/reservation_lifecycle.go\<close> and the name parsing of
  \<open>src/internal/cosmosigner/cleanup.go\<close>: which workloads belong to a reservation whose owner is gone,
  which workloads belong to a root, and how the names of StatefulSet claims, replica pods and one-shot
  jobs are read back.
\<close>

section \<open>Owners\<close>

text \<open>A \<open>client.Object\<close> that owns reservations; the type switches of the code know two kinds.\<close>

datatype owner_object = OwnerNode ChainNode | OwnerSet ChainNodeSet | OwnerOther ObjectMeta

fun owner_meta :: "owner_object \<Rightarrow> ObjectMeta" where
  "owner_meta (OwnerNode n) = cn_Meta n"
| "owner_meta (OwnerSet s) = ns_Meta s"
| "owner_meta (OwnerOther m) = m"

abbreviation owner_name :: "owner_object \<Rightarrow> string" where "owner_name ow \<equiv> m_Name (owner_meta ow)"
abbreviation owner_uid :: "owner_object \<Rightarrow> uid" where "owner_uid ow \<equiv> m_UID (owner_meta ow)"

fun reservationOwnerKind :: "owner_object \<Rightarrow> string option" where
  "reservationOwnerKind (OwnerNode n) = Some ''ChainNode''"
| "reservationOwnerKind (OwnerSet s) = Some ''ChainNodeSet''"
| "reservationOwnerKind (OwnerOther m) = None"

definition IsControlledBy :: "ObjectMeta \<Rightarrow> owner_object \<Rightarrow> bool" where
  "IsControlledBy m ow = controlledByUID m (owner_uid ow)"

definition controlledByAnyUID :: "ObjectMeta \<Rightarrow> uid set \<Rightarrow> bool" where
  "controlledByAnyUID m uids = (case GetControllerOf m of None \<Rightarrow> False | Some r \<Rightarrow> or_UID r \<in> uids)"

text \<open>\<open>sortedUnique\<close> drops empty and repeated values and sorts the rest.\<close>

definition sortedUnique :: "string list \<Rightarrow> string list" where
  "sortedUnique values = sort (rev (fold (\<lambda>v acc. if v = [] \<or> v \<in> set acc then acc else v # acc) values []))"

section \<open>One-shot names\<close>

definition oneShotMarkers :: "string list" where
  "oneShotMarkers = [''-tmkms-generate-identity'', ''-tmkms-vault-upload'', ''-import'', ''-pubkey'']"

definition isManagedSigningOneShotName :: "string \<Rightarrow> bool" where
  "isManagedSigningOneShotName name =
     (HasSuffix name ''-tmkms-generate-identity'' \<or> HasSuffix name ''-tmkms-vault-upload'' \<or>
      HasSuffix name ''-import'' \<or> HasSuffix name ''-pubkey'')"

text \<open>\<open>lastIndex\<close> starts at \<open>-1\<close>; it is the first component here.\<close>

definition managedSigningOneShotPodJobName :: "string \<Rightarrow> string option" where
  "managedSigningOneShotPodJobName name =
     (let (lastIndex, jobName) =
        fold (\<lambda>marker (li, jn).
           case LastIndex name (marker @ ''-'') of
             None \<Rightarrow> (li, jn)
           | Some i \<Rightarrow> if int i > li then (int i, take (i + length marker) name) else (li, jn))
          oneShotMarkers (-1, [])
      in if lastIndex \<ge> 0 then Some jobName else None)"

section \<open>Attribution to a stale reservation\<close>

text \<open>The pair is (matches, exact): exact when a label names an owner.\<close>

definition staleReservationSignerLabelAttribution :: "labels \<Rightarrow> ConsensusKeyReservation \<Rightarrow> bool \<times> bool" where
  "staleReservationSignerLabelAttribution ls r =
     (let chainNode = label ls ''chain-node''; nodeSet = label ls ''nodeset'' in
      if rs_OwnerKind (ckr_Spec r) = ''ChainNode'' then
        (if chainNode \<noteq> [] then (chainNode = rs_OwnerName (ckr_Spec r), True)
         else if nodeSet \<noteq> [] then (False, True)
         else (False, False))
      else if nodeSet \<noteq> [] then (nodeSet = rs_OwnerName (ckr_Spec r), True)
      else if chainNode \<noteq> [] then (chainNode = rs_Claim (ckr_Spec r), True)
      else (False, False))"

definition staleReservationJobMatches :: "string \<Rightarrow> labels \<Rightarrow> ConsensusKeyReservation \<Rightarrow> bool" where
  "staleReservationJobMatches name ls r =
     (if \<not> isManagedSigningOneShotName name then False
      else case staleReservationSignerLabelAttribution ls r of (matches, exact) \<Rightarrow>
        if exact then matches
        else if HasPrefix name (rs_Claim (ckr_Spec r) @ ''-'') then True
        else if rs_OwnerKind (ckr_Spec r) = ''ChainNode''
        then HasPrefix name (rs_OwnerName (ckr_Spec r) @ ''-signer-'')
        else HasPrefix name (rs_OwnerName (ckr_Spec r) @ ''-''))"

definition staleReservationStatefulSetMatches :: "StatefulSet \<Rightarrow> ConsensusKeyReservation \<Rightarrow> bool" where
  "staleReservationStatefulSetMatches sts r =
     (case staleReservationSignerLabelAttribution (sts_TemplateLabels sts) r of (m1, e1) \<Rightarrow>
        if e1 then m1
        else case staleReservationSignerLabelAttribution (m_Labels (sts_Meta sts)) r of (m2, e2) \<Rightarrow>
          if e2 then m2
          else if rs_OwnerKind (ckr_Spec r) = ''ChainNode''
          then m_Name (sts_Meta sts) = rs_OwnerName (ckr_Spec r) @ ''-signer''
          else HasPrefix (m_Name (sts_Meta sts)) (rs_OwnerName (ckr_Spec r) @ ''-'') \<and>
               HasSuffix (m_Name (sts_Meta sts)) ''-signer'')"

definition staleReservationSignerReplicaPodMatches :: "string \<Rightarrow> ConsensusKeyReservation \<Rightarrow> bool" where
  "staleReservationSignerReplicaPodMatches name r =
     (case LastIndex name ''-'' of
        None \<Rightarrow> False
      | Some separator \<Rightarrow>
          if Suc separator = length name then False
          else if \<not> list_all is_digit (drop (Suc separator) name) then False
          else let statefulSetName = take separator name in
               if rs_OwnerKind (ckr_Spec r) = ''ChainNode''
               then statefulSetName = rs_OwnerName (ckr_Spec r) @ ''-signer''
               else HasPrefix statefulSetName (rs_OwnerName (ckr_Spec r) @ ''-'') \<and>
                    HasSuffix statefulSetName ''-signer'')"

definition staleReservationOneShotPodMatches :: "string \<Rightarrow> ConsensusKeyReservation \<Rightarrow> bool" where
  "staleReservationOneShotPodMatches name r =
     (if isManagedSigningOneShotName name then staleReservationJobMatches name Map.empty r
      else case managedSigningOneShotPodJobName name of
             None \<Rightarrow> False
           | Some managedJobName \<Rightarrow> staleReservationJobMatches managedJobName Map.empty r)"

definition staleReservationPodMatches :: "Pod \<Rightarrow> ConsensusKeyReservation \<Rightarrow> bool" where
  "staleReservationPodMatches pod r =
     (let name = m_Name (pod_Meta pod); ls = m_Labels (pod_Meta pod) in
      case staleReservationSignerLabelAttribution ls r of (labelsMatch, exactLabels) \<Rightarrow>
        if exactLabels \<and> \<not> labelsMatch then False
        else if name = rs_Claim (ckr_Spec r) \<or>
                (rs_OwnerKind (ckr_Spec r) = ''ChainNode'' \<and> name = rs_OwnerName (ckr_Spec r)) then True
        else if staleReservationOneShotPodMatches name r then True
        else if staleReservationSignerReplicaPodMatches name r then True
        else if label ls ''app.kubernetes.io/name'' \<noteq> ''cosmosigner'' then False
        else if exactLabels then labelsMatch
        else let inst = label ls ''app.kubernetes.io/instance'' in
             if rs_OwnerKind (ckr_Spec r) = ''ChainNode''
             then inst = rs_OwnerName (ckr_Spec r) @ ''-signer''
             else HasPrefix inst (rs_OwnerName (ckr_Spec r) @ ''-''))"

section \<open>Attribution to a root\<close>

definition managedSigningOneShotBelongsToRoot :: "string \<Rightarrow> labels \<Rightarrow> owner_object \<Rightarrow> bool" where
  "managedSigningOneShotBelongsToRoot name ls ow =
     (if \<not> isManagedSigningOneShotName name then False
      else case ow of
        OwnerNode n \<Rightarrow>
          if label ls ''chain-node'' \<noteq> [] then label ls ''chain-node'' = owner_name ow
          else if label ls ''nodeset'' \<noteq> [] then False
          else HasPrefix name (owner_name ow @ ''-'')
      | OwnerSet s \<Rightarrow>
          if label ls ''nodeset'' \<noteq> [] then label ls ''nodeset'' = owner_name ow
          else if label ls ''chain-node'' \<noteq> [] then False
          else HasPrefix name (owner_name ow @ ''-'')
      | OwnerOther m \<Rightarrow> False)"

definition deterministicSignerStatefulSetBelongsToRoot :: "string \<Rightarrow> owner_object \<Rightarrow> bool" where
  "deterministicSignerStatefulSetBelongsToRoot name ow =
     (case ow of
        OwnerNode n \<Rightarrow> name = owner_name ow @ ''-signer''
      | OwnerSet s \<Rightarrow> HasPrefix name (owner_name ow @ ''-'') \<and> HasSuffix name ''-signer''
      | OwnerOther m \<Rightarrow> False)"

definition IsOwnedDeterministicSignerStatefulSet :: "StatefulSet \<Rightarrow> owner_object \<Rightarrow> bool" where
  "IsOwnedDeterministicSignerStatefulSet sts ow =
     (IsControlledBy (sts_Meta sts) ow \<and>
      deterministicSignerStatefulSetBelongsToRoot (m_Name (sts_Meta sts)) ow)"

definition signerPodBelongsToRoot :: "Pod \<Rightarrow> owner_object \<Rightarrow> bool" where
  "signerPodBelongsToRoot pod ow =
     (let ls = m_Labels (pod_Meta pod) in
      if label ls ''app.kubernetes.io/name'' \<noteq> ''cosmosigner'' then False
      else case ow of
        OwnerNode n \<Rightarrow> label ls ''chain-node'' = owner_name ow
      | OwnerSet s \<Rightarrow> label ls ''nodeset'' = owner_name ow
      | OwnerOther m \<Rightarrow> False)"

definition reservationOwnerSignerNames :: "owner_object \<Rightarrow> string list" where
  "reservationOwnerSignerNames ow =
     (case ow of
        OwnerNode n \<Rightarrow> [cn_name n @ ''-signer'']
      | OwnerSet s \<Rightarrow>
          sortedUnique (map (CosmosignerResourceName s) (ResolveCosmosigners s) @
            map (\<lambda>st. CosmosignerStatusResourceName (Some st)) (nss_Cosmosigners (ns_Status s)))
      | OwnerOther m \<Rightarrow> [])"

section \<open>Names of claims, replica pods and key jobs\<close>

definition dataVolumeName :: string where "dataVolumeName = ''data''"
definition importJobSuffix :: string where "importJobSuffix = ''import''"
definition pubkeyJobSuffix :: string where "pubkeyJobSuffix = ''pubkey''"

definition statefulSetDataPVCOrdinal :: "string \<Rightarrow> string \<Rightarrow> int option" where
  "statefulSetDataPVCOrdinal pvcName stsName =
     (let pre = dataVolumeName @ ''-'' @ stsName @ ''-'' in
      if \<not> HasPrefix pvcName pre then None
      else let ordinal = TrimPrefix pvcName pre in
           if ordinal = [] then None
           else case Atoi ordinal of
                  None \<Rightarrow> None
                | Some n \<Rightarrow> if n < 0 \<or> Itoa n \<noteq> ordinal then None else Some n)"

definition isStatefulSetDataPVC :: "string \<Rightarrow> string \<Rightarrow> bool" where
  "isStatefulSetDataPVC pvcName stsName = (statefulSetDataPVCOrdinal pvcName stsName \<noteq> None)"

definition statefulSetNameFromDataPVC :: "string \<Rightarrow> string option" where
  "statefulSetNameFromDataPVC pvcName =
     (let pre = dataVolumeName @ ''-'' in
      if \<not> HasPrefix pvcName pre then None
      else let nameAndOrdinal = TrimPrefix pvcName pre in
           case LastIndex nameAndOrdinal ''-'' of
             None \<Rightarrow> None
           | Some separator \<Rightarrow>
               if separator = 0 then None
               else let name = take separator nameAndOrdinal in
                    if \<not> isStatefulSetDataPVC pvcName name then None else Some name)"

definition isStatefulSetReplicaPodName :: "string \<Rightarrow> string \<Rightarrow> bool" where
  "isStatefulSetReplicaPodName podName stsName =
     (let pre = stsName @ ''-'' in
      if \<not> HasPrefix podName pre then False
      else let ordinal = TrimPrefix podName pre in
           case Atoi ordinal of None \<Rightarrow> False | Some n \<Rightarrow> n \<ge> 0 \<and> Itoa n = ordinal)"

definition podMatchesSignerNames :: "Pod \<Rightarrow> string list \<Rightarrow> bool" where
  "podMatchesSignerNames pod signerNames =
     list_ex (isStatefulSetReplicaPodName (m_Name (pod_Meta pod))) signerNames"

definition keyJobSignerName :: "string \<Rightarrow> string option" where
  "keyJobSignerName name =
     (case find (\<lambda>sfx. HasSuffix name sfx \<and> TrimSuffix name sfx \<noteq> [])
        [''-'' @ importJobSuffix, ''-'' @ pubkeyJobSuffix] of
        None \<Rightarrow> None
      | Some sfx \<Rightarrow> Some (TrimSuffix name sfx))"

definition labelOwnerUID :: string where "labelOwnerUID = ''cosmopilot.voluzi.com/cosmosigner-owner''"

definition isOwnedStatefulSetDataPVC :: "PersistentVolumeClaim \<Rightarrow> uid \<Rightarrow> string \<Rightarrow> bool" where
  "isOwnedStatefulSetDataPVC pvc ownerUID name =
     (if \<not> isStatefulSetDataPVC (m_Name (pvc_Meta pvc)) name then False
      else label (m_Labels (pvc_Meta pvc)) labelOwnerUID = ownerUID)"

definition isAmbiguousLegacyDataPVC :: "PersistentVolumeClaim \<Rightarrow> string \<Rightarrow> bool" where
  "isAmbiguousLegacyDataPVC pvc name =
     (if \<not> isStatefulSetDataPVC (m_Name (pvc_Meta pvc)) name then False
      else m_Labels (pvc_Meta pvc) labelOwnerUID = None)"

end
