(* ===== verification/Reservation.thy ===== *)
theory Reservation
  imports Reservation_Match Base64
begin

text \<open>
  \<open>src/internal/cosmosigner/reservation.go\<close> and the recovery and release operations of
  \<open>reservation_lifecycle.go\<close>: a consensus key is claimed for one controller root by creating a
  cluster-scoped object whose name is derived from the chain and the public key.

  Arguments: \<open>H\<close> is \<open>utils.Sha256\<close>; \<open>jsonKey\<close> unmarshals a Cosmos SDK public key and returns its
  \<open>key\<close> field, \<^term>\<open>None\<close> on malformed JSON; \<open>K\<close> is the Kubernetes API. The reader and the writer of
  the code are two views of one API server. The acquisition loop runs with fuel, \<^term>\<open>None\<close> when it
  has not returned; \<open>Reservation_Safety\<close> shows which fuel is enough.
\<close>

section \<open>Identity of a reservation\<close>

record ReservationHolder =
  h_UID :: uid
  h_Kind :: string
  h_Namespace :: string
  h_Name :: string
  h_Claim :: string
  h_LegacyStatusNames :: "string list"
  h_LegacyNodeNames :: "string list"

definition ConsensusKeyReservationName :: "(string \<Rightarrow> string) \<Rightarrow> string \<Rightarrow> string \<Rightarrow> string" where
  "ConsensusKeyReservationName H chainID publicKey =
     ''consensus-key-'' @ take 48 (H (chainID @ nul @ publicKey))"

datatype block_reason =
    OwnedByStaleUID string string
  | Unattributable string string
  | NotBlocked

datatype ReservationError =
    ApiFailure api_error
  | MissingClaimFields
  | NonCanonicalPublicKey
  | InconsistentIdentity string
  | IndependentClaim ConsensusKeyReservationSpec
  | ReservedByOther ConsensusKeyReservationSpec
  | ClaimReservesOtherKey string
  | RecordedByChainNode string string
  | RecordedByChainNodeSet string string
  | IncompleteStaleMetadata string
  | UnsupportedOwnerKind string
  | UnsupportedOwner
  | RecoveryBlocked string block_reason
  | OwnerMismatch string
  | NoObjectUID string

text \<open>\<open>errors.Is(err, ErrConsensusKeyReservationConflict)\<close>.\<close>

fun isConflict :: "ReservationError \<Rightarrow> bool" where
  "isConflict (InconsistentIdentity n) = True"
| "isConflict (IndependentClaim sp) = True"
| "isConflict (ReservedByOther sp) = True"
| "isConflict (ClaimReservesOtherKey c) = True"
| "isConflict (RecordedByChainNode ns n) = True"
| "isConflict (RecordedByChainNodeSet ns n) = True"
| "isConflict (IncompleteStaleMetadata n) = True"
| "isConflict (UnsupportedOwnerKind n) = True"
| "isConflict (RecoveryBlocked n b) = True"
| "isConflict e = False"

definition validateCanonicalPublicKey :: "string \<Rightarrow> ReservationError option" where
  "validateCanonicalPublicKey publicKey =
     (case b64_decode publicKey of
        None \<Rightarrow> Some NonCanonicalPublicKey
      | Some raw \<Rightarrow> if length raw \<noteq> 32 \<or> b64_encode raw \<noteq> publicKey then Some NonCanonicalPublicKey
                   else None)"

definition canonicalSDKPublicKey :: "(string \<Rightarrow> string option) \<Rightarrow> string \<Rightarrow> string" where
  "canonicalSDKPublicKey jsonKey value =
     (case jsonKey value of
        None \<Rightarrow> []
      | Some key \<Rightarrow> if validateCanonicalPublicKey key \<noteq> None then [] else key)"

definition reservationOwnedBy ::
    "(string \<Rightarrow> string) \<Rightarrow> ConsensusKeyReservation \<Rightarrow> string \<Rightarrow> string \<Rightarrow> ReservationHolder
      \<Rightarrow> ReservationError option" where
  "reservationOwnedBy H r chainID publicKey holder =
     (if rs_ChainID (ckr_Spec r) \<noteq> chainID \<or> rs_PublicKey (ckr_Spec r) \<noteq> publicKey \<or>
         m_Name (ckr_Meta r) \<noteq> ConsensusKeyReservationName H chainID publicKey
      then Some (InconsistentIdentity (m_Name (ckr_Meta r)))
      else if rs_OwnerUID (ckr_Spec r) = h_UID holder \<and> rs_Claim (ckr_Spec r) = h_Claim holder then None
      else if rs_OwnerUID (ckr_Spec r) = h_UID holder then Some (IndependentClaim (ckr_Spec r))
      else Some (ReservedByOther (ckr_Spec r)))"

section \<open>Conflict scans\<close>

definition conflictingClaim ::
    "(string \<Rightarrow> string) \<Rightarrow> string \<Rightarrow> string \<Rightarrow> ReservationHolder \<Rightarrow> ConsensusKeyReservation
      \<Rightarrow> ReservationError option" where
  "conflictingClaim H chainID publicKey holder r =
     (if rs_OwnerUID (ckr_Spec r) \<noteq> h_UID holder \<or> rs_ChainID (ckr_Spec r) \<noteq> chainID \<or>
         rs_Claim (ckr_Spec r) \<noteq> h_Claim holder then None
      else if rs_PublicKey (ckr_Spec r) = publicKey \<and>
              m_Name (ckr_Meta r) = ConsensusKeyReservationName H chainID publicKey then None
      else Some (ClaimReservesOtherKey (h_Claim holder)))"

definition ensureNoConflictingReservationClaim ::
    "(string \<Rightarrow> string) \<Rightarrow> 's kube \<Rightarrow> string \<Rightarrow> string \<Rightarrow> ReservationHolder \<Rightarrow> ('s, ReservationError, unit) prog"
    where
  "ensureNoConflictingReservationClaim H K chainID publicKey holder =
     seq (call ApiFailure (k_listReservations K)) (\<lambda>items.
       case first_error (conflictingClaim H chainID publicKey holder) items of
         Some e \<Rightarrow> fail e | None \<Rightarrow> ret ())"

definition matchesLegacyStatus :: "ReservationHolder \<Rightarrow> string \<Rightarrow> bool" where
  "matchesLegacyStatus holder name = (name \<in> set (h_LegacyStatusNames holder))"

definition matchesLegacyNode :: "ReservationHolder \<Rightarrow> string \<Rightarrow> bool" where
  "matchesLegacyNode holder name = (name \<in> set (h_LegacyNodeNames holder))"

definition belongsToRoot :: "ObjectMeta \<Rightarrow> uid \<Rightarrow> bool" where
  "belongsToRoot m u = (m_UID m = u \<or> list_ex (\<lambda>r. or_UID r = u) (m_OwnerReferences m))"

definition legacyChainNodeMatchesClaim :: "ChainNode \<Rightarrow> ReservationHolder \<Rightarrow> bool" where
  "legacyChainNodeMatchesClaim node holder =
     (if cn_uid node = h_UID holder then True
      else belongsToRoot (cn_Meta node) (h_UID holder) \<and>
           (cn_name node = h_Claim holder \<or> matchesLegacyNode holder (cn_name node)))"

definition legacyCosmosignerStatusMatchesClaim :: "ChainNodeSet \<Rightarrow> string \<Rightarrow> string \<Rightarrow> bool" where
  "legacyCosmosignerStatusMatchesClaim ns servingGroup claim =
     (servingGroup \<noteq> [] \<and> GeneratedValidatorNodeName ns servingGroup 0 = claim)"

definition legacyChainNodeSetAliasMatchesClaim ::
    "(string \<Rightarrow> string option) \<Rightarrow> ChainNodeSet \<Rightarrow> ReservationHolder \<Rightarrow> string \<Rightarrow> bool" where
  "legacyChainNodeSetAliasMatchesClaim jsonKey ns holder publicKey =
     (if ns_uid ns \<noteq> h_UID holder then False
      else if list_ex (\<lambda>v. vst_Name v = h_Claim holder \<and>
                 canonicalSDKPublicKey jsonKey (vst_PubKey v) = publicKey) (nss_Validators (ns_Status ns))
      then True
      else nss_Validators (ns_Status ns) = [] \<and> h_Claim holder = ns_name ns @ ''-validator'')"

definition legacyNodeConflict ::
    "(string \<Rightarrow> string option) \<Rightarrow> string \<Rightarrow> string \<Rightarrow> ReservationHolder \<Rightarrow> ChainNode \<Rightarrow> ReservationError option"
    where
  "legacyNodeConflict jsonKey chainID publicKey holder node =
     (if cns_ChainID (cn_Status node) \<noteq> chainID \<or> legacyChainNodeMatchesClaim node holder then None
      else if cns_CosmosignerPublicKey (cn_Status node) = publicKey \<or>
              canonicalSDKPublicKey jsonKey (cns_PubKey (cn_Status node)) = publicKey
      then Some (RecordedByChainNode (m_Namespace (cn_Meta node)) (cn_name node))
      else None)"

definition legacySetConflict ::
    "(string \<Rightarrow> string option) \<Rightarrow> string \<Rightarrow> string \<Rightarrow> ReservationHolder \<Rightarrow> ChainNodeSet \<Rightarrow> ReservationError option"
    where
  "legacySetConflict jsonKey chainID publicKey holder ns =
     (let conflict = RecordedByChainNodeSet (m_Namespace (ns_Meta ns)) (ns_name ns) in
      if nss_ChainID (ns_Status ns) \<noteq> chainID then None
      else and_then
        (first_error (\<lambda>signer.
           if st_PublicKey signer = publicKey then
             (if ns_uid ns = h_UID holder \<and>
                 (matchesLegacyStatus holder (st_Name signer) \<or>
                  legacyCosmosignerStatusMatchesClaim ns (st_ServingGroup signer) (h_Claim holder))
              then None else Some conflict)
           else None) (nss_Cosmosigners (ns_Status ns)))
        (and_then
          (if canonicalSDKPublicKey jsonKey (nss_PubKey (ns_Status ns)) = publicKey \<and>
              \<not> legacyChainNodeSetAliasMatchesClaim jsonKey ns holder publicKey
           then Some conflict else None)
          (first_error (\<lambda>validator.
             if canonicalSDKPublicKey jsonKey (vst_PubKey validator) = publicKey then
               (if ns_uid ns = h_UID holder \<and>
                   (vst_Name validator = h_Claim holder \<or> matchesLegacyNode holder (vst_Name validator))
                then None else Some conflict)
             else None) (nss_Validators (ns_Status ns)))))"

definition ensureNoLegacyConsensusKeyOwner ::
    "(string \<Rightarrow> string option) \<Rightarrow> 's kube \<Rightarrow> string \<Rightarrow> string \<Rightarrow> ReservationHolder
      \<Rightarrow> ('s, ReservationError, unit) prog" where
  "ensureNoLegacyConsensusKeyOwner jsonKey K chainID publicKey holder =
     seq (call ApiFailure (k_listChainNodes K None)) (\<lambda>nodes.
       case first_error (legacyNodeConflict jsonKey chainID publicKey holder) nodes of
         Some e \<Rightarrow> fail e
       | None \<Rightarrow>
           seq (call ApiFailure (k_listChainNodeSets K None)) (\<lambda>sets.
             case first_error (legacySetConflict jsonKey chainID publicKey holder) sets of
               Some e \<Rightarrow> fail e | None \<Rightarrow> ret ()))"

section \<open>Recovery of a stale reservation\<close>

definition heldByReservationHolder :: "ObjectMeta \<Rightarrow> ReservationHolder \<Rightarrow> bool" where
  "heldByReservationHolder m holder =
     (if h_Kind holder = ''ChainNode'' \<and> m_UID m = h_UID holder \<and>
         m_Namespace m = h_Namespace holder \<and> m_Name m = h_Name holder then True
      else controlledByUID m (h_UID holder))"

definition reservationOwnerIsStale ::
    "'s kube \<Rightarrow> ConsensusKeyReservation \<Rightarrow> ('s, ReservationError, bool) prog" where
  "reservationOwnerIsStale K r =
     (let sp = ckr_Spec r in
      if rs_OwnerKind sp = ''ChainNode'' then
        get_or ApiFailure (k_getChainNode K (rs_Namespace sp) (rs_OwnerName sp))
          (\<lambda>n. ret (cn_uid n \<noteq> rs_OwnerUID sp)) (ret True)
      else if rs_OwnerKind sp = ''ChainNodeSet'' then
        get_or ApiFailure (k_getChainNodeSet K (rs_Namespace sp) (rs_OwnerName sp))
          (\<lambda>n. ret (ns_uid n \<noteq> rs_OwnerUID sp)) (ret True)
      else fail (UnsupportedOwnerKind (m_Name (ckr_Meta r))))"

text \<open>One pass over listed objects: stop at an object of the stale owner or at a matching object that
  the new holder does not hold; collect the UIDs of the matching objects that it does hold.\<close>

fun scanHeld ::
    "('a \<Rightarrow> ObjectMeta) \<Rightarrow> ('a \<Rightarrow> bool) \<Rightarrow> ('a \<Rightarrow> bool) \<Rightarrow> ReservationHolder \<Rightarrow> uid list \<Rightarrow> 'a list
      \<Rightarrow> block_reason + uid list" where
  "scanHeld meta stale matches holder uids [] = Inr uids"
| "scanHeld meta stale matches holder uids (x # xs) =
     (if stale x then Inl (OwnedByStaleUID (m_Namespace (meta x)) (m_Name (meta x)))
      else if matches x then
        (if heldByReservationHolder (meta x) holder then
           scanHeld meta stale matches holder
             (if m_UID (meta x) \<noteq> [] then uids @ [m_UID (meta x)] else uids) xs
         else Inl (Unattributable (m_Namespace (meta x)) (m_Name (meta x))))
      else scanHeld meta stale matches holder uids xs)"

definition podBlocks :: "ConsensusKeyReservation \<Rightarrow> ReservationHolder \<Rightarrow> uid list \<Rightarrow> Pod \<Rightarrow> block_reason option"
    where
  "podBlocks r holder uids pod =
     (let m = pod_Meta pod in
      if controlledByUID m (rs_OwnerUID (ckr_Spec r)) then Some (OwnedByStaleUID (m_Namespace m) (m_Name m))
      else if staleReservationPodMatches pod r then
        (let controllerUID = (case GetControllerOf m of None \<Rightarrow> [] | Some c \<Rightarrow> or_UID c) in
         if heldByReservationHolder m holder \<or> controllerUID \<in> set uids then None
         else Some (Unattributable (m_Namespace m) (m_Name m)))
      else None)"

text \<open>Returns \<open>NotBlocked\<close> for the pair (true, "") of the code, and the reason otherwise.\<close>

definition staleReservationSigningPathsGone ::
    "'s kube \<Rightarrow> ConsensusKeyReservation \<Rightarrow> ReservationHolder \<Rightarrow> ('s, ReservationError, block_reason) prog" where
  "staleReservationSigningPathsGone K r holder =
     (let sp = ckr_Spec r; ns = rs_Namespace sp in
      get_or ApiFailure (k_getNamespace K ns)
        (\<lambda>_. seq (call ApiFailure (k_listChainNodes K (Some ns))) (\<lambda>nodes.
          case scanHeld cn_Meta
                 (\<lambda>n. cn_uid n = rs_OwnerUID sp \<or> controlledByUID (cn_Meta n) (rs_OwnerUID sp))
                 (\<lambda>n. cn_name n = rs_Claim sp \<or>
                       (rs_OwnerKind sp = ''ChainNode'' \<and> cn_name n = rs_OwnerName sp))
                 holder [] nodes of
            Inl b \<Rightarrow> ret b
          | Inr u1 \<Rightarrow>
          seq (call ApiFailure (k_listStatefulSets K ns)) (\<lambda>stss.
          case scanHeld sts_Meta (\<lambda>x. controlledByUID (sts_Meta x) (rs_OwnerUID sp))
                 (\<lambda>x. staleReservationStatefulSetMatches x r) holder u1 stss of
            Inl b \<Rightarrow> ret b
          | Inr u2 \<Rightarrow>
          seq (call ApiFailure (k_listJobs K ns)) (\<lambda>jobs.
          case scanHeld job_Meta (\<lambda>x. controlledByUID (job_Meta x) (rs_OwnerUID sp))
                 (\<lambda>x. staleReservationJobMatches (m_Name (job_Meta x)) (m_Labels (job_Meta x)) r)
                 holder u2 jobs of
            Inl b \<Rightarrow> ret b
          | Inr u3 \<Rightarrow>
          seq (call ApiFailure (k_listPods K ns)) (\<lambda>pods.
          case first_error (podBlocks r holder u3) pods of
            Some b \<Rightarrow> ret b
          | None \<Rightarrow> ret NotBlocked)))))
        (ret NotBlocked))"

definition recoverStaleConsensusKeyReservation ::
    "(string \<Rightarrow> string) \<Rightarrow> (string \<Rightarrow> string option) \<Rightarrow> 's kube \<Rightarrow> ConsensusKeyReservation \<Rightarrow> string \<Rightarrow> string
      \<Rightarrow> ReservationHolder \<Rightarrow> ('s, ReservationError, bool) prog" where
  "recoverStaleConsensusKeyReservation H jsonKey K r chainID publicKey holder =
     (let sp = ckr_Spec r; name = m_Name (ckr_Meta r) in
      if rs_OwnerUID sp = h_UID holder \<or> rs_ChainID sp \<noteq> chainID \<or> rs_PublicKey sp \<noteq> publicKey \<or>
         name \<noteq> ConsensusKeyReservationName H chainID publicKey then ret False
      else if rs_OwnerKind sp \<noteq> h_Kind holder \<or> rs_Namespace sp \<noteq> h_Namespace holder \<or>
              rs_OwnerName sp \<noteq> h_Name holder then ret False
      else if rs_OwnerUID sp = [] \<or> (rs_OwnerKind sp \<noteq> ''ChainNode'' \<and> rs_OwnerKind sp \<noteq> ''ChainNodeSet'') \<or>
              rs_Namespace sp = [] \<or> rs_OwnerName sp = [] \<or> rs_Claim sp = []
      then fail (IncompleteStaleMetadata name)
      else if rs_Claim sp \<noteq> h_Claim holder then ret False
      else seq (reservationOwnerIsStale K r) (\<lambda>stale.
        if \<not> stale then ret False
        else seq (staleReservationSigningPathsGone K r holder) (\<lambda>blocked.
          if blocked \<noteq> NotBlocked then fail (RecoveryBlocked name blocked)
          else seq (ensureNoConflictingReservationClaim H K chainID publicKey holder) (\<lambda>_.
            seq (ensureNoLegacyConsensusKeyOwner jsonKey K chainID publicKey holder) (\<lambda>_.
              if m_UID (ckr_Meta r) = [] then ret False
              else seq (call_ignoring NotFound ApiFailure (k_deleteReservation K name (m_UID (ckr_Meta r))))
                (\<lambda>_. get_or ApiFailure (k_getReservation K name) (\<lambda>_. ret False) (ret True)))))))"

section \<open>Acquisition\<close>

definition newReservation :: "(string \<Rightarrow> string) \<Rightarrow> string \<Rightarrow> string \<Rightarrow> ReservationHolder \<Rightarrow> ConsensusKeyReservation"
    where
  "newReservation H chainID publicKey holder =
     \<lparr>ckr_Meta = zero_Meta\<lparr>m_Name := ConsensusKeyReservationName H chainID publicKey\<rparr>,
      ckr_Spec = \<lparr>rs_ChainID = chainID, rs_PublicKey = publicKey, rs_OwnerUID = h_UID holder,
        rs_OwnerKind = h_Kind holder, rs_Namespace = h_Namespace holder, rs_OwnerName = h_Name holder,
        rs_Claim = h_Claim holder\<rparr>\<rparr>"

definition noConflictNorLegacy ::
    "(string \<Rightarrow> string) \<Rightarrow> (string \<Rightarrow> string option) \<Rightarrow> 's kube \<Rightarrow> string \<Rightarrow> string \<Rightarrow> ReservationHolder
      \<Rightarrow> ('s, ReservationError, unit) prog" where
  "noConflictNorLegacy H jsonKey K chainID publicKey holder =
     seq (ensureNoConflictingReservationClaim H K chainID publicKey holder)
       (\<lambda>_. ensureNoLegacyConsensusKeyOwner jsonKey K chainID publicKey holder)"

text \<open>The result of the loop: the recovered reservation (empty when none) and the error, if any.\<close>

type_synonym 's ensure_result = "((string \<times> ReservationError option) \<times> 's) option"

definition finish :: "string \<Rightarrow> (ReservationError + unit) \<times> 's \<Rightarrow> 's ensure_result" where
  "finish recovered rs =
     (case rs of (Inl e, s) \<Rightarrow> Some ((recovered, Some e), s) | (Inr _, s) \<Rightarrow> Some ((recovered, None), s))"

fun ensureLoop ::
    "nat \<Rightarrow> (string \<Rightarrow> string) \<Rightarrow> (string \<Rightarrow> string option) \<Rightarrow> 's kube \<Rightarrow> string \<Rightarrow> string \<Rightarrow> ReservationHolder
      \<Rightarrow> string \<Rightarrow> 's \<Rightarrow> 's ensure_result" where
  "ensureLoop 0 H jsonKey K chainID publicKey holder recovered s = None"
| "ensureLoop (Suc fuel) H jsonKey K chainID publicKey holder recovered s =
     (case k_getReservation K (ConsensusKeyReservationName H chainID publicKey) s of
        (Inr existing, s1) \<Rightarrow>
          (case reservationOwnedBy H existing chainID publicKey holder of
             Some err \<Rightarrow>
               (case recoverStaleConsensusKeyReservation H jsonKey K existing chainID publicKey holder s1 of
                  (Inl e, s2) \<Rightarrow> Some ((recovered, Some e), s2)
                | (Inr rec, s2) \<Rightarrow>
                    if rec then ensureLoop fuel H jsonKey K chainID publicKey holder
                                  (m_Name (ckr_Meta existing)) s2
                    else Some ((recovered, Some err), s2))
           | None \<Rightarrow> finish recovered (noConflictNorLegacy H jsonKey K chainID publicKey holder s1))
      | (Inl e, s1) \<Rightarrow>
          if e \<noteq> NotFound then Some ((recovered, Some (ApiFailure e)), s1)
          else (case noConflictNorLegacy H jsonKey K chainID publicKey holder s1 of
                  (Inl e2, s2) \<Rightarrow> Some ((recovered, Some e2), s2)
                | (Inr _, s2) \<Rightarrow>
                    (case k_createReservation K (newReservation H chainID publicKey holder) s2 of
                       (Inr _, s3) \<Rightarrow> finish recovered (noConflictNorLegacy H jsonKey K chainID publicKey holder s3)
                     | (Inl e3, s3) \<Rightarrow>
                         if e3 \<noteq> AlreadyExists then Some ((recovered, Some (ApiFailure e3)), s3)
                         else ensureLoop fuel H jsonKey K chainID publicKey holder recovered s3)))"

definition EnsureConsensusKeyReservationWithResult ::
    "nat \<Rightarrow> (string \<Rightarrow> string) \<Rightarrow> (string \<Rightarrow> string option) \<Rightarrow> 's kube \<Rightarrow> string \<Rightarrow> string \<Rightarrow> ReservationHolder
      \<Rightarrow> 's \<Rightarrow> 's ensure_result" where
  "EnsureConsensusKeyReservationWithResult fuel H jsonKey K chainID publicKey holder s =
     (if h_UID holder = [] \<or> chainID = [] \<or> h_Claim holder = [] then Some (([], Some MissingClaimFields), s)
      else case validateCanonicalPublicKey publicKey of
             Some e \<Rightarrow> Some (([], Some e), s)
           | None \<Rightarrow> ensureLoop fuel H jsonKey K chainID publicKey holder [] s)"

section \<open>Release\<close>

definition ReleaseConsensusKeyReservationClaim ::
    "'s kube \<Rightarrow> owner_object \<Rightarrow> ConsensusKeyReservation \<Rightarrow> ('s, ReservationError, bool) prog" where
  "ReleaseConsensusKeyReservationClaim K ow r =
     (case reservationOwnerKind ow of
        None \<Rightarrow> fail UnsupportedOwner
      | Some kind \<Rightarrow>
          let sp = ckr_Spec r; name = m_Name (ckr_Meta r) in
          if rs_OwnerUID sp \<noteq> owner_uid ow \<or> rs_OwnerKind sp \<noteq> kind \<or>
             rs_Namespace sp \<noteq> m_Namespace (owner_meta ow) \<or> rs_OwnerName sp \<noteq> owner_name ow \<or>
             rs_Claim sp = []
          then fail (OwnerMismatch name)
          else if m_UID (ckr_Meta r) = [] then fail (NoObjectUID name)
          else seq (call_ignoring NotFound ApiFailure (k_deleteReservation K name (m_UID (ckr_Meta r))))
            (\<lambda>_. get_or ApiFailure (k_getReservation K name) (\<lambda>_. ret False) (ret True)))"

text \<open>The loop returns the names released so far together with the outcome.\<close>

fun releaseLoop ::
    "'s kube \<Rightarrow> owner_object \<Rightarrow> string \<Rightarrow> string list \<Rightarrow> ConsensusKeyReservation list \<Rightarrow> 's
      \<Rightarrow> (string list \<times> (ReservationError + bool)) \<times> 's" where
  "releaseLoop K ow kind released [] s =
     (case k_listReservations K s of
        (Inl e, s1) \<Rightarrow> ((released, Inl (ApiFailure e)), s1)
      | (Inr confirmed, s1) \<Rightarrow>
          ((released, Inr (\<not> list_ex (\<lambda>r. rs_OwnerUID (ckr_Spec r) = owner_uid ow) confirmed)), s1))"
| "releaseLoop K ow kind released (r # rs) s =
     (if rs_OwnerUID (ckr_Spec r) \<noteq> owner_uid ow then releaseLoop K ow kind released rs s
      else if rs_OwnerKind (ckr_Spec r) \<noteq> kind
      then ((released, Inl (OwnerMismatch (m_Name (ckr_Meta r)))), s)
      else case ReleaseConsensusKeyReservationClaim K ow r s of
             (Inl e, s1) \<Rightarrow> ((released, Inl e), s1)
           | (Inr done, s1) \<Rightarrow>
               if \<not> done then ((released, Inr False), s1)
               else releaseLoop K ow kind (released @ [m_Name (ckr_Meta r)]) rs s1)"

definition ReleaseConsensusKeyReservations ::
    "'s kube \<Rightarrow> owner_object \<Rightarrow> 's \<Rightarrow> (string list \<times> (ReservationError + bool)) \<times> 's" where
  "ReleaseConsensusKeyReservations K ow s =
     (case reservationOwnerKind ow of
        None \<Rightarrow> (([], Inl UnsupportedOwner), s)
      | Some kind \<Rightarrow>
          (case k_listReservations K s of
             (Inl e, s1) \<Rightarrow> (([], Inl (ApiFailure e)), s1)
           | (Inr items, s1) \<Rightarrow> releaseLoop K ow kind [] (sort_key (\<lambda>r. m_Name (ckr_Meta r)) items) s1))"

definition HasConsensusKeyReservationsForOwner ::
    "'s kube \<Rightarrow> owner_object \<Rightarrow> ('s, ReservationError, bool) prog" where
  "HasConsensusKeyReservationsForOwner K ow =
     (case reservationOwnerKind ow of
        None \<Rightarrow> fail UnsupportedOwner
      | Some kind \<Rightarrow>
          seq (call ApiFailure (k_listReservations K)) (\<lambda>items.
            case find (\<lambda>r. rs_OwnerUID (ckr_Spec r) = owner_uid ow) items of
              None \<Rightarrow> ret False
            | Some r \<Rightarrow>
                if rs_OwnerKind (ckr_Spec r) \<noteq> kind \<or>
                   rs_Namespace (ckr_Spec r) \<noteq> m_Namespace (owner_meta ow) \<or>
                   rs_OwnerName (ckr_Spec r) \<noteq> owner_name ow \<or> rs_Claim (ckr_Spec r) = []
                then fail (OwnerMismatch (m_Name (ckr_Meta r))) else ret True))"

end
