(* ===== verification/Reservation_Safety.thy ===== *)
theory Reservation_Safety
  imports Reservation
begin

text \<open>
  What acquiring a consensus-key reservation guarantees, on any API server that satisfies
  \<open>kube_server\<close>, with other clients acting between any two calls.

  The proofs are by the triples of \<open>kube_server\<close>: a stable predicate on the stored objects is carried
  through the scans, the recovery and the loop. One lemma about the loop, \<open>ensureLoop_rule\<close>, serves
  all theorems: it says what holds after a success and after a failure in terms of what the reads and
  the writes show.
\<close>

section \<open>Claims\<close>

text \<open>The reservation of \<open>chainID\<close> and \<open>publicKey\<close> is held by owner \<open>u\<close> for claim \<open>cl\<close>.\<close>

definition claimed :: "(string \<Rightarrow> string) \<Rightarrow> string \<Rightarrow> string \<Rightarrow> uid \<Rightarrow> string \<Rightarrow> cluster \<Rightarrow> bool" where
  "claimed H chainID publicKey u cl c \<longleftrightarrow>
     (\<exists>r. find_reservation (ConsensusKeyReservationName H chainID publicKey) c = Some r \<and>
        rs_ChainID (ckr_Spec r) = chainID \<and> rs_PublicKey (ckr_Spec r) = publicKey \<and>
        rs_OwnerUID (ckr_Spec r) = u \<and> rs_Claim (ckr_Spec r) = cl)"

text \<open>The reservation that \<open>sp\<close> describes is stored.\<close>

definition holds_spec :: "(string \<Rightarrow> string) \<Rightarrow> ConsensusKeyReservationSpec \<Rightarrow> cluster \<Rightarrow> bool" where
  "holds_spec H sp c \<longleftrightarrow>
     (\<exists>r. find_reservation (ConsensusKeyReservationName H (rs_ChainID sp) (rs_PublicKey sp)) c = Some r \<and>
        ckr_Spec r = sp)"

text \<open>The root that a reservation names exists with the recorded UID.\<close>

definition owner_alive :: "ConsensusKeyReservationSpec \<Rightarrow> cluster \<Rightarrow> bool" where
  "owner_alive sp c \<longleftrightarrow>
     (rs_OwnerKind sp = ''ChainNode'' \<and>
        (\<exists>n. find_node (rs_Namespace sp) (rs_OwnerName sp) c = Some n \<and> cn_uid n = rs_OwnerUID sp)) \<or>
     (rs_OwnerKind sp = ''ChainNodeSet'' \<and>
        (\<exists>n. find_set (rs_Namespace sp) (rs_OwnerName sp) c = Some n \<and> ns_uid n = rs_OwnerUID sp))"

definition no_conflicting_claim ::
    "(string \<Rightarrow> string) \<Rightarrow> string \<Rightarrow> string \<Rightarrow> ReservationHolder \<Rightarrow> cluster \<Rightarrow> bool" where
  "no_conflicting_claim H chainID publicKey holder c \<longleftrightarrow>
     (\<forall>r \<in> set (c_Reservations c). conflictingClaim H chainID publicKey holder r = None)"

definition no_legacy_node ::
    "(string \<Rightarrow> string option) \<Rightarrow> string \<Rightarrow> string \<Rightarrow> ReservationHolder \<Rightarrow> cluster \<Rightarrow> bool" where
  "no_legacy_node jsonKey chainID publicKey holder c \<longleftrightarrow>
     (\<forall>n \<in> set (c_Nodes c). legacyNodeConflict jsonKey chainID publicKey holder n = None)"

definition no_legacy_set ::
    "(string \<Rightarrow> string option) \<Rightarrow> string \<Rightarrow> string \<Rightarrow> ReservationHolder \<Rightarrow> cluster \<Rightarrow> bool" where
  "no_legacy_set jsonKey chainID publicKey holder c \<longleftrightarrow>
     (\<forall>n \<in> set (c_Sets c). legacySetConflict jsonKey chainID publicKey holder n = None)"

lemmas scan_defs = no_conflicting_claim_def no_legacy_node_def no_legacy_set_def

lemma reservationOwnedBy_None:
  "reservationOwnedBy H r chainID publicKey holder = None \<longleftrightarrow>
     rs_ChainID (ckr_Spec r) = chainID \<and> rs_PublicKey (ckr_Spec r) = publicKey \<and>
     m_Name (ckr_Meta r) = ConsensusKeyReservationName H chainID publicKey \<and>
     rs_OwnerUID (ckr_Spec r) = h_UID holder \<and> rs_Claim (ckr_Spec r) = h_Claim holder"
  by (auto simp: reservationOwnedBy_def)

lemma reservationOwnedBy_conflict:
  "reservationOwnedBy H r chainID publicKey holder = Some e \<Longrightarrow> isConflict e"
  by (auto simp: reservationOwnedBy_def split: if_splits)

lemma find_reservation_member:
  "find_reservation n c = Some r \<Longrightarrow> r \<in> set (c_Reservations c) \<and> m_Name (ckr_Meta r) = n"
  unfolding find_reservation_def by (auto dest: find_SomeD)

lemma find_reservation_created:
  assumes "created r c c'"
  shows "find_reservation n c' =
    (if n = m_Name (ckr_Meta r) then map_option (\<lambda>u. r\<lparr>ckr_Meta := (ckr_Meta r)\<lparr>m_UID := u\<rparr>\<rparr>)
         (Some (m_UID (ckr_Meta (last (c_Reservations c')))))
     else find_reservation n c)"
proof -
  from assms obtain u where u: "find_reservation (m_Name (ckr_Meta r)) c = None"
      "c' = c\<lparr>c_Reservations := c_Reservations c @ [r\<lparr>ckr_Meta := (ckr_Meta r)\<lparr>m_UID := u\<rparr>\<rparr>]\<rparr>"
    unfolding created_def by blast
  have "find P (xs @ [x]) = (case find P xs of Some y \<Rightarrow> Some y | None \<Rightarrow> if P x then Some x else None)"
    for P and xs :: "ConsensusKeyReservation list" and x
    by (induction xs) auto
  with u show ?thesis
    by (auto simp: find_reservation_def split: option.splits)
qed

lemma created_claims:
  "created (newReservation H chainID publicKey holder) c c' \<Longrightarrow>
     claimed H chainID publicKey (h_UID holder) (h_Claim holder) c'"
  by (simp add: claimed_def find_reservation_created newReservation_def)

lemma create_outcome_other:
  assumes "create_outcome r c res c'" "find_reservation n c = Some x"
  shows "find_reservation n c' = Some x"
proof -
  have "c' = c \<or> created r c c'"
    using assms(1) by (auto simp: create_outcome_def split: sum.splits if_splits)
  moreover have "n \<noteq> m_Name (ckr_Meta r)" if "created r c c'"
    using that assms(2) by (auto simp: created_def)
  ultimately show ?thesis using assms(2) by (auto simp: find_reservation_created)
qed

lemma create_outcome_frame:
  "create_outcome r c res c' \<Longrightarrow> c_Nodes c' = c_Nodes c \<and> c_Sets c' = c_Sets c \<and> set (c_Reservations c) \<subseteq> set (c_Reservations c')"
  by (auto simp: create_outcome_def created_def split: sum.splits if_splits)

lemma delete_outcome_frame:
  "delete_outcome n u c res c' \<Longrightarrow> c_Nodes c' = c_Nodes c \<and> c_Sets c' = c_Sets c"
  by (auto simp: delete_outcome_def removed_def split: sum.splits if_splits)

section \<open>What the recovery scan shows\<close>

text \<open>No workload of the namespace belongs to the stale owner, and every one that carries the stale
  claim's name or labels is held by the new holder.\<close>

definition nodes_clear :: "ConsensusKeyReservation \<Rightarrow> ReservationHolder \<Rightarrow> cluster \<Rightarrow> bool" where
  "nodes_clear r holder c \<longleftrightarrow>
     (\<forall>n \<in> set (in_namespace cn_Meta (Some (rs_Namespace (ckr_Spec r))) (c_Nodes c)).
        cn_uid n \<noteq> rs_OwnerUID (ckr_Spec r) \<and> \<not> controlledByUID (cn_Meta n) (rs_OwnerUID (ckr_Spec r)) \<and>
        (cn_name n = rs_Claim (ckr_Spec r) \<longrightarrow> heldByReservationHolder (cn_Meta n) holder))"

definition statefulsets_clear :: "ConsensusKeyReservation \<Rightarrow> ReservationHolder \<Rightarrow> cluster \<Rightarrow> bool" where
  "statefulsets_clear r holder c \<longleftrightarrow>
     (\<forall>x \<in> set (in_namespace sts_Meta (Some (rs_Namespace (ckr_Spec r))) (c_StatefulSets c)).
        \<not> controlledByUID (sts_Meta x) (rs_OwnerUID (ckr_Spec r)) \<and>
        (staleReservationStatefulSetMatches x r \<longrightarrow> heldByReservationHolder (sts_Meta x) holder))"

definition jobs_clear :: "ConsensusKeyReservation \<Rightarrow> ReservationHolder \<Rightarrow> cluster \<Rightarrow> bool" where
  "jobs_clear r holder c \<longleftrightarrow>
     (\<forall>x \<in> set (in_namespace job_Meta (Some (rs_Namespace (ckr_Spec r))) (c_Jobs c)).
        \<not> controlledByUID (job_Meta x) (rs_OwnerUID (ckr_Spec r)) \<and>
        (staleReservationJobMatches (m_Name (job_Meta x)) (m_Labels (job_Meta x)) r \<longrightarrow>
           heldByReservationHolder (job_Meta x) holder))"

definition pods_clear :: "ConsensusKeyReservation \<Rightarrow> cluster \<Rightarrow> bool" where
  "pods_clear r c \<longleftrightarrow>
     (\<forall>x \<in> set (in_namespace pod_Meta (Some (rs_Namespace (ckr_Spec r))) (c_Pods c)).
        \<not> controlledByUID (pod_Meta x) (rs_OwnerUID (ckr_Spec r)))"

lemma scanHeld_clear:
  "scanHeld meta stale matches holder uids xs = Inr us \<Longrightarrow>
     \<forall>x \<in> set xs. \<not> stale x \<and> (matches x \<longrightarrow> heldByReservationHolder (meta x) holder)"
  by (induction xs arbitrary: uids) (auto split: if_splits)

lemma scanHeld_blocked: "scanHeld meta stale matches holder uids xs = Inl b \<Longrightarrow> b \<noteq> NotBlocked"
  by (induction xs arbitrary: uids) (auto split: if_splits)

lemma podBlocks_clear:
  "podBlocks r holder uids x = None \<Longrightarrow> \<not> controlledByUID (pod_Meta x) (rs_OwnerUID (ckr_Spec r))"
  by (auto simp: podBlocks_def Let_def split: if_splits)

lemma scan_clear:
  "scanHeld cn_Meta (\<lambda>n. cn_uid n = rs_OwnerUID (ckr_Spec r) \<or> controlledByUID (cn_Meta n) (rs_OwnerUID (ckr_Spec r)))
     (\<lambda>n. cn_name n = rs_Claim (ckr_Spec r) \<or>
        (rs_OwnerKind (ckr_Spec r) = ''ChainNode'' \<and> cn_name n = rs_OwnerName (ckr_Spec r)))
     holder uids (in_namespace cn_Meta (Some (rs_Namespace (ckr_Spec r))) (c_Nodes c)) = Inr us \<Longrightarrow>
   nodes_clear r holder c"
  "scanHeld sts_Meta (\<lambda>x. controlledByUID (sts_Meta x) (rs_OwnerUID (ckr_Spec r)))
     (\<lambda>x. staleReservationStatefulSetMatches x r) holder uids
     (in_namespace sts_Meta (Some (rs_Namespace (ckr_Spec r))) (c_StatefulSets c)) = Inr us \<Longrightarrow>
   statefulsets_clear r holder c"
  "scanHeld job_Meta (\<lambda>x. controlledByUID (job_Meta x) (rs_OwnerUID (ckr_Spec r)))
     (\<lambda>x. staleReservationJobMatches (m_Name (job_Meta x)) (m_Labels (job_Meta x)) r) holder uids
     (in_namespace job_Meta (Some (rs_Namespace (ckr_Spec r))) (c_Jobs c)) = Inr us \<Longrightarrow>
   jobs_clear r holder c"
  "first_error (podBlocks r holder uids)
     (in_namespace pod_Meta (Some (rs_Namespace (ckr_Spec r))) (c_Pods c)) = None \<Longrightarrow> pods_clear r c"
  by (auto simp: nodes_clear_def statefulsets_clear_def jobs_clear_def pods_clear_def first_error_None_iff
      dest!: scanHeld_clear dest: podBlocks_clear)

lemma first_error_blocked: "first_error (podBlocks r holder uids) xs = Some b \<Longrightarrow> b \<noteq> NotBlocked"
  by (drule first_error_SomeD) (auto simp: podBlocks_def Let_def split: if_splits)

section \<open>The scans\<close>

context kube_server
begin

lemma noConflict_triple:
  assumes P: "stable P" and E: "\<And>e c. P c \<Longrightarrow> E e c"
  shows "triple P (ensureNoConflictingReservationClaim H K chainID publicKey holder)
    (\<lambda>_ c'. P c' \<and> (\<exists>c. P c \<and> no_conflicting_claim H chainID publicKey holder c)) E"
  unfolding ensureNoConflictingReservationClaim_def
  by (rule triple_list [OF listReservations P E])
    (auto simp: no_conflicting_claim_def first_error_None_iff intro: E split: option.splits)

lemma noLegacy_triple:
  assumes P: "stable P" and E: "\<And>e c. P c \<Longrightarrow> E e c"
  shows "triple P (ensureNoLegacyConsensusKeyOwner jsonKey K chainID publicKey holder)
    (\<lambda>_ c'. P c' \<and> ((\<exists>c. P c \<and> no_legacy_node jsonKey chainID publicKey holder c) \<and>
       (\<exists>c. P c \<and> no_legacy_set jsonKey chainID publicKey holder c))) E"
proof -
  let ?Q = "\<lambda>_ :: unit. \<lambda>c'. P c' \<and> ((\<exists>c. P c \<and> no_legacy_node jsonKey chainID publicKey holder c) \<and>
       (\<exists>c. P c \<and> no_legacy_set jsonKey chainID publicKey holder c))"
  have sets: "triple P (seq (call ApiFailure (k_listChainNodeSets K None)) (\<lambda>sets.
        case first_error (legacySetConflict jsonKey chainID publicKey holder) sets of
          Some e \<Rightarrow> fail e | None \<Rightarrow> ret ())) ?Q E"
    if "\<exists>c. P c \<and> no_legacy_node jsonKey chainID publicKey holder c"
    using that by (intro triple_list [OF listChainNodeSets P E])
      (auto simp: no_legacy_set_def in_namespace_def first_error_None_iff intro: E split: option.splits)
  show ?thesis
    unfolding ensureNoLegacyConsensusKeyOwner_def
  proof (rule triple_list [OF listChainNodes P E])
    fix c assume c: "P c"
    show "triple P (case first_error (legacyNodeConflict jsonKey chainID publicKey holder)
          (in_namespace cn_Meta None (c_Nodes c)) of
        None \<Rightarrow> seq (call ApiFailure (k_listChainNodeSets K None)) (\<lambda>sets.
           case first_error (legacySetConflict jsonKey chainID publicKey holder) sets of
             None \<Rightarrow> ret () | Some e \<Rightarrow> fail e)
      | Some e \<Rightarrow> fail e) ?Q E"
    proof (cases "first_error (legacyNodeConflict jsonKey chainID publicKey holder) (c_Nodes c)")
      case None
      with c have "\<exists>c. P c \<and> no_legacy_node jsonKey chainID publicKey holder c"
        by (auto simp: no_legacy_node_def first_error_None_iff)
      from sets [OF this] None show ?thesis by (simp add: in_namespace_def)
    next
      case (Some e)
      then show ?thesis by (simp add: in_namespace_def triple_fail E)
    qed
  qed
qed

lemma guards_triple:
  assumes P: "stable P" and E: "\<And>e c. P c \<Longrightarrow> E e c"
  shows "triple P (noConflictNorLegacy H jsonKey K chainID publicKey holder)
    (\<lambda>_ c'. P c' \<and> ((\<exists>c. P c \<and> no_conflicting_claim H chainID publicKey holder c) \<and>
       (\<exists>c. P c \<and> no_legacy_node jsonKey chainID publicKey holder c) \<and>
       (\<exists>c. P c \<and> no_legacy_set jsonKey chainID publicKey holder c))) E"
  unfolding noConflictNorLegacy_def
proof (rule triple_then [OF noConflict_triple [where E = E, OF P E]])
  assume "\<exists>c. P c \<and> no_conflicting_claim H chainID publicKey holder c"
  then show "triple P (ensureNoLegacyConsensusKeyOwner jsonKey K chainID publicKey holder)
      (\<lambda>_ c'. P c' \<and> ((\<exists>c. P c \<and> no_conflicting_claim H chainID publicKey holder c) \<and>
         (\<exists>c. P c \<and> no_legacy_node jsonKey chainID publicKey holder c) \<and>
         (\<exists>c. P c \<and> no_legacy_set jsonKey chainID publicKey holder c))) E"
    by (intro triple_conseq [OF noLegacy_triple [where E = E, OF P E]]) auto
qed

section \<open>Recovery\<close>

lemma stale_triple:
  assumes P: "stable P" and E: "\<And>e c. P c \<Longrightarrow> E e c"
  shows "triple P (reservationOwnerIsStale K r)
    (\<lambda>b c'. P c' \<and> (b \<longrightarrow> (\<exists>c. P c \<and> \<not> owner_alive (ckr_Spec r) c))) E"
proof -
  let ?sp = "ckr_Spec r"
  have node: "triple P (get_or ApiFailure (k_getChainNode K (rs_Namespace ?sp) (rs_OwnerName ?sp))
        (\<lambda>n. ret (cn_uid n \<noteq> rs_OwnerUID ?sp)) (ret True))
      (\<lambda>b c'. P c' \<and> (b \<longrightarrow> (\<exists>c. P c \<and> \<not> owner_alive ?sp c))) E"
    if "rs_OwnerKind ?sp = ''ChainNode''"
    using that by (intro triple_get [OF getChainNode P E] triple_ret)
      (auto simp: owner_alive_def found_def split: option.splits)
  have set: "triple P (get_or ApiFailure (k_getChainNodeSet K (rs_Namespace ?sp) (rs_OwnerName ?sp))
        (\<lambda>n. ret (ns_uid n \<noteq> rs_OwnerUID ?sp)) (ret True))
      (\<lambda>b c'. P c' \<and> (b \<longrightarrow> (\<exists>c. P c \<and> \<not> owner_alive ?sp c))) E"
    if "rs_OwnerKind ?sp = ''ChainNodeSet''"
    using that by (intro triple_get [OF getChainNodeSet P E] triple_ret)
      (auto simp: owner_alive_def found_def split: option.splits)
  show ?thesis
    using node set by (auto simp: reservationOwnerIsStale_def Let_def intro: E)
qed

lemma paths_triple:
  assumes P: "stable P" and E: "\<And>e c. P c \<Longrightarrow> E e c"
  shows "triple P (staleReservationSigningPathsGone K r holder)
    (\<lambda>b c'. P c' \<and> (b = NotBlocked \<longrightarrow>
       (\<exists>c. P c \<and> rs_Namespace (ckr_Spec r) \<notin> set (c_Namespaces c)) \<or>
       (\<exists>c. P c \<and> nodes_clear r holder c) \<and> (\<exists>c. P c \<and> statefulsets_clear r holder c) \<and>
       (\<exists>c. P c \<and> jobs_clear r holder c) \<and> (\<exists>c. P c \<and> pods_clear r c))) E"
  unfolding staleReservationSigningPathsGone_def Let_def
  by (auto split: sum.splits option.splits if_splits
      dest!: scan_clear scanHeld_blocked first_error_blocked
      intro!: triple_get [OF getNamespace P E] triple_list [OF listChainNodes P E]
      triple_list [OF listStatefulSets P E] triple_list [OF listJobs P E]
      triple_list [OF listPods P E] triple_ret) blast+

end

text \<open>The three scans after an acquisition have passed, each at a time at which \<open>Q\<close> held.\<close>

definition scans_passed ::
    "(string \<Rightarrow> string) \<Rightarrow> (string \<Rightarrow> string option) \<Rightarrow> string \<Rightarrow> string \<Rightarrow> ReservationHolder \<Rightarrow> (cluster \<Rightarrow> bool) \<Rightarrow> bool"
    where
  "scans_passed H jsonKey chainID publicKey holder Q \<longleftrightarrow>
     (\<exists>c. Q c \<and> no_conflicting_claim H chainID publicKey holder c) \<and>
     (\<exists>c. Q c \<and> no_legacy_node jsonKey chainID publicKey holder c) \<and>
     (\<exists>c. Q c \<and> no_legacy_set jsonKey chainID publicKey holder c)"

text \<open>Recovery deletes only after it has seen, each at a time at which the stable \<open>P\<close> held: the owner
  gone, its signing paths gone, no other key under the claim, and no legacy record of the key.\<close>

definition recovery_evidence ::
    "(string \<Rightarrow> string) \<Rightarrow> (string \<Rightarrow> string option) \<Rightarrow> string \<Rightarrow> string \<Rightarrow> ReservationHolder
      \<Rightarrow> ConsensusKeyReservation \<Rightarrow> (cluster \<Rightarrow> bool) \<Rightarrow> bool" where
  "recovery_evidence H jsonKey chainID publicKey holder r P \<longleftrightarrow>
     rs_OwnerUID (ckr_Spec r) \<noteq> h_UID holder \<and> rs_Claim (ckr_Spec r) = h_Claim holder \<and>
     m_UID (ckr_Meta r) \<noteq> [] \<and>
     (\<exists>c. P c \<and> \<not> owner_alive (ckr_Spec r) c) \<and>
     ((\<exists>c. P c \<and> rs_Namespace (ckr_Spec r) \<notin> set (c_Namespaces c)) \<or>
      (\<exists>c. P c \<and> nodes_clear r holder c) \<and> (\<exists>c. P c \<and> statefulsets_clear r holder c) \<and>
      (\<exists>c. P c \<and> jobs_clear r holder c) \<and> (\<exists>c. P c \<and> pods_clear r c)) \<and>
     (\<exists>c. P c \<and> no_conflicting_claim H chainID publicKey holder c) \<and>
     (\<exists>c. P c \<and> no_legacy_node jsonKey chainID publicKey holder c) \<and>
     (\<exists>c. P c \<and> no_legacy_set jsonKey chainID publicKey holder c)"

context kube_server
begin

lemma recover_triple:
  assumes P: "stable P" and R: "stable R" and PR: "\<And>c. P c \<Longrightarrow> R c"
    and del: "\<And>c res c'. \<lbrakk>recovery_evidence H jsonKey chainID publicKey holder r P; P c;
        delete_outcome (m_Name (ckr_Meta r)) (m_UID (ckr_Meta r)) c res c'\<rbrakk> \<Longrightarrow> R c'"
  shows "triple P (recoverStaleConsensusKeyReservation H jsonKey K r chainID publicKey holder)
    (\<lambda>_. R) (\<lambda>_. R)"
  unfolding recoverStaleConsensusKeyReservation_def Let_def
  by (intro triple_if triple_ret triple_fail triple_then [OF stale_triple [where E = "\<lambda>_. R", OF P]]
      triple_then [OF paths_triple [where E = "\<lambda>_. R", OF P]] triple_then [OF noConflict_triple [where E = "\<lambda>_. R", OF P]]
      triple_then [OF noLegacy_triple [where E = "\<lambda>_. R", OF P]]
      triple_seq [OF triple_commit_ignoring [OF deleteReservation P R]] triple_get [OF getReservation R];
      (assumption | rule PR, assumption | rule del; simp add: recovery_evidence_def))

section \<open>The acquisition loop\<close>

text \<open>After a success \<open>Q\<close> holds and the last scans have passed at times at which \<open>Q\<close> held; after a
  failure \<open>P\<close> or \<open>Q\<close> holds.\<close>

lemma finish_guards:
  assumes "stable Q" "Q (view s)"
    and "finish recovered (noConflictNorLegacy H jsonKey K chainID publicKey holder s) = Some ((rc, err), s')"
  shows "(err = None \<longrightarrow> Q (view s') \<and> scans_passed H jsonKey chainID publicKey holder Q) \<and> Q (view s')"
proof -
  note t = guards_triple [where E = "\<lambda>_. Q", OF assms(1)]
  show ?thesis
  proof (cases "noConflictNorLegacy H jsonKey K chainID publicKey holder s")
    case (Pair r s1)
    show ?thesis
    proof (cases r)
      case (Inl e)
      with tripleD_err [OF t assms(2)] Pair assms(3) show ?thesis by (auto simp: finish_def)
    next
      case (Inr x)
      with tripleD_ok [OF t assms(2)] Pair assms(3) show ?thesis
        by (auto simp: finish_def scans_passed_def)
    qed
  qed
qed

lemma create_cases:
  assumes "stable P" "stable Q" "\<And>c c'. P c \<Longrightarrow> created r c c' \<Longrightarrow> Q c'" "P (view s)"
    and "k_createReservation K r s = (res, s')"
  shows "(\<forall>u. res = Inr u \<longrightarrow> Q (view s')) \<and> (res = Inl AlreadyExists \<longrightarrow> P (view s')) \<and>
    (P (view s') \<or> Q (view s'))"
proof -
  obtain c c' where c: "P c" "create_outcome r c res c'" "rely c' (view s')"
    by (rule commits_at [OF createReservation assms(1,4,5)])
  have "(\<forall>u. res = Inr u \<longrightarrow> Q c') \<and> (res = Inl AlreadyExists \<longrightarrow> P c') \<and> (P c' \<or> Q c')"
    using c(1,2) assms(3) by (auto simp: create_outcome_def split: sum.splits if_splits)
  with c(3) assms(1,2) show ?thesis by (auto dest: stableD)
qed

lemma ensureLoop_rule:
  assumes P: "stable P" and Q: "stable Q"
    and got: "\<And>c r. P c \<Longrightarrow> find_reservation (ConsensusKeyReservationName H chainID publicKey) c = Some r \<Longrightarrow>
        reservationOwnedBy H r chainID publicKey holder = None \<Longrightarrow> Q c"
    and made: "\<And>c c'. P c \<Longrightarrow> created (newReservation H chainID publicKey holder) c c' \<Longrightarrow> Q c'"
    and recov: "\<And>c r e. P c \<Longrightarrow> find_reservation (ConsensusKeyReservationName H chainID publicKey) c = Some r \<Longrightarrow>
        reservationOwnedBy H r chainID publicKey holder = Some e \<Longrightarrow>
        triple P (recoverStaleConsensusKeyReservation H jsonKey K r chainID publicKey holder) (\<lambda>_. P) (\<lambda>_. P)"
    and "ensureLoop fuel H jsonKey K chainID publicKey holder recovered s = Some ((rc, err), s')" "P (view s)"
  shows "(err = None \<longrightarrow> Q (view s') \<and> scans_passed H jsonKey chainID publicKey holder Q) \<and>
    (P (view s') \<or> Q (view s'))"
  using assms(6,7)
proof (induction fuel arbitrary: recovered s)
  case (Suc fuel)
  let ?n = "ConsensusKeyReservationName H chainID publicKey"
  obtain g s1 where g: "k_getReservation K ?n s = (g, s1)" by (cases "k_getReservation K ?n s")
  obtain c where c: "P c" "P (view s1)" "rely c (view s1)"
      "g = found (find_reservation ?n c) \<or> (\<exists>m. g = Inl (ApiOther m))"
    by (rule observes_at [OF getReservation P Suc.prems(2) g])
  show ?case
  proof (cases g)
    case (Inr r)
    with c have r: "find_reservation ?n c = Some r" by (auto simp: found_def split: option.splits)
    show ?thesis
    proof (cases "reservationOwnedBy H r chainID publicKey holder")
      case None
      with c r got Q have "Q (view s1)" by (metis stableD)
      with finish_guards [OF Q this] Suc.prems(1) g Inr None show ?thesis by simp
    next
      case (Some e)
      note t = recov [OF c(1) r Some]
      obtain x s2 where x: "recoverStaleConsensusKeyReservation H jsonKey K r chainID publicKey holder s1 = (x, s2)"
        by (cases "recoverStaleConsensusKeyReservation H jsonKey K r chainID publicKey holder s1")
      then have "P (view s2)"
        using tripleD_ok [OF t c(2)] tripleD_err [OF t c(2)] by (cases x) auto
      with Suc.IH Suc.prems(1) g Inr Some x show ?thesis by (auto split: sum.splits if_splits)
    qed
  next
    case (Inl e)
    show ?thesis
    proof (cases "e = NotFound")
      case False
      with Suc.prems(1) g Inl c show ?thesis by auto
    next
      case True
      obtain x s2 where x: "noConflictNorLegacy H jsonKey K chainID publicKey holder s1 = (x, s2)"
        by (cases "noConflictNorLegacy H jsonKey K chainID publicKey holder s1")
      then have P2: "P (view s2)"
        using tripleD_ok [OF guards_triple [where E = "\<lambda>_. P", OF P] c(2)]
          tripleD_err [OF guards_triple [where E = "\<lambda>_. P", OF P] c(2)] by (cases x) auto
      obtain y s3 where y: "k_createReservation K (newReservation H chainID publicKey holder) s2 = (y, s3)"
        by (cases "k_createReservation K (newReservation H chainID publicKey holder) s2")
      have created: "(\<forall>u. y = Inr u \<longrightarrow> Q (view s3)) \<and> (y = Inl AlreadyExists \<longrightarrow> P (view s3)) \<and>
          (P (view s3) \<or> Q (view s3))"
        by (rule create_cases [OF P Q _ P2 y]) (rule made)
      show ?thesis
      proof (cases x)
        case (Inl e2)
        with Suc.prems(1) g \<open>g = Inl e\<close> True x P2 show ?thesis by auto
      next
        case (Inr u)
        note before = g \<open>g = Inl e\<close> True x Inr y
        show ?thesis
        proof (cases y)
          case (Inr v)
          with created have "Q (view s3)" by blast
          moreover from Suc.prems(1) before Inr
          have "finish recovered (noConflictNorLegacy H jsonKey K chainID publicKey holder s3) =
              Some ((rc, err), s')" by simp
          ultimately show ?thesis using finish_guards [OF Q] by blast
        next
          case (Inl e3)
          show ?thesis
          proof (cases "e3 = AlreadyExists")
            case True
            with Suc.prems(1) before Inl
            have "ensureLoop fuel H jsonKey K chainID publicKey holder recovered s3 = Some ((rc, err), s')"
              by simp
            moreover from created Inl True have "P (view s3)" by blast
            ultimately show ?thesis by (rule Suc.IH)
          next
            case False
            with Suc.prems(1) before Inl have "s' = s3" "err \<noteq> None" by auto
            with created show ?thesis by blast
          qed
        qed
      qed
    qed
  qed
qed simp

end

section \<open>Theorems on the acquisition\<close>

lemma ensure_loop:
  assumes "EnsureConsensusKeyReservationWithResult fuel H jsonKey K chainID publicKey holder s = Some ((rc, err), s')"
  shows "(s' = s \<and> err \<noteq> None) \<or>
    ensureLoop fuel H jsonKey K chainID publicKey holder [] s = Some ((rc, err), s')"
proof (cases "validateCanonicalPublicKey publicKey")
  case None
  with assms show ?thesis
    by (auto simp: EnsureConsensusKeyReservationWithResult_def split: if_splits)
next
  case (Some e)
  with assms have "s' = s \<and> (err = Some MissingClaimFields \<or> err = Some e)"
    by (auto simp: EnsureConsensusKeyReservationWithResult_def split: if_splits)
  then show ?thesis by auto
qed

lemma ensure_rule:
  assumes "kube_server K view rely" "stable_under rely P" "stable_under rely Q"
    and "\<And>c r. P c \<Longrightarrow> find_reservation (ConsensusKeyReservationName H chainID publicKey) c = Some r \<Longrightarrow>
        reservationOwnedBy H r chainID publicKey holder = None \<Longrightarrow> Q c"
    and "\<And>c c'. P c \<Longrightarrow> created (newReservation H chainID publicKey holder) c c' \<Longrightarrow> Q c'"
    and "\<And>c0 r c res c'. \<lbrakk>P c0; find_reservation (ConsensusKeyReservationName H chainID publicKey) c0 = Some r;
        recovery_evidence H jsonKey chainID publicKey holder r P; P c;
        delete_outcome (m_Name (ckr_Meta r)) (m_UID (ckr_Meta r)) c res c'\<rbrakk> \<Longrightarrow> P c'"
    and "P (view s)"
    and "EnsureConsensusKeyReservationWithResult fuel H jsonKey K chainID publicKey holder s = Some ((rc, err), s')"
  shows "(err = None \<longrightarrow> Q (view s') \<and> scans_passed H jsonKey chainID publicKey holder Q) \<and>
    (P (view s') \<or> Q (view s'))"
  using ensure_loop [OF assms(8)]
proof
  assume loop: "ensureLoop fuel H jsonKey K chainID publicKey holder [] s = Some ((rc, err), s')"
  show ?thesis
  proof (rule kube_server.ensureLoop_rule [OF assms(1-3) _ _ _ loop assms(7)])
    fix c r e
    assume r: "P c" "find_reservation (ConsensusKeyReservationName H chainID publicKey) c = Some r"
    show "kube_server.triple view P
        (recoverStaleConsensusKeyReservation H jsonKey K r chainID publicKey holder) (\<lambda>_. P) (\<lambda>_. P)"
      by (rule kube_server.recover_triple [OF assms(1,2,2)]) (assumption, rule assms(6) [OF r])
  qed (fact assms(4), fact assms(5))
qed (use assms(7) in auto)

lemma delete_outcome_other:
  assumes "delete_outcome n u c res c'" "m \<noteq> n"
  shows "find_reservation m c' = find_reservation m c"
proof -
  have filt: "find (\<lambda>r. m_Name (ckr_Meta r) = m) (filter (\<lambda>r. m_Name (ckr_Meta r) \<noteq> n) xs) =
      find (\<lambda>r. m_Name (ckr_Meta r) = m) xs" for xs
    using assms(2) by (induction xs) auto
  have mark: "find (\<lambda>r. m_Name (ckr_Meta r) = m) (map (mark_deleted n t) xs) =
      find (\<lambda>r. m_Name (ckr_Meta r) = m) xs" for xs t
    using assms(2) by (induction xs) (auto simp: mark_deleted_def)
  have "c' = c \<or> removed n u c c'"
    using assms(1) by (auto simp: delete_outcome_def split: sum.splits if_splits)
  then show ?thesis
    by (auto simp: removed_def find_reservation_def filt mark)
qed

lemma holds_spec_member: "holds_spec H sp c \<Longrightarrow> \<exists>r \<in> set (c_Reservations c). ckr_Spec r = sp \<and>
    m_Name (ckr_Meta r) = ConsensusKeyReservationName H (rs_ChainID sp) (rs_PublicKey sp)"
  unfolding holds_spec_def using find_reservation_member by blast

lemma owner_alive_frame:
  "c_Nodes c' = c_Nodes c \<Longrightarrow> c_Sets c' = c_Sets c \<Longrightarrow> owner_alive sp c' = owner_alive sp c"
  by (simp add: owner_alive_def find_node_def find_set_def)

lemma created_frame: "created r c c' \<Longrightarrow> create_outcome r c (Inr ()) c'"
  by (simp add: create_outcome_def)

lemma holds_spec_created: "created r c c' \<Longrightarrow> holds_spec H sp c \<Longrightarrow> holds_spec H sp c'"
  unfolding holds_spec_def using create_outcome_other [OF created_frame] by blast

lemma owner_alive_created: "created r c c' \<Longrightarrow> owner_alive sp c' = owner_alive sp c"
  by (rule owner_alive_frame) (auto simp: created_def)


text \<open>C4: No acquisition, of any key by any holder, removes or replaces a reservation whose owner is
  alive: recovery deletes only reservations of owners that are gone, under a UID precondition.\<close>

theorem live_reservation_kept:
  assumes "kube_server K view rely"
    and "stable_under rely (\<lambda>c. holds_spec H sp c \<and> owner_alive sp c)"
    and "holds_spec H sp (view s) \<and> owner_alive sp (view s)"
    and "EnsureConsensusKeyReservationWithResult fuel H jsonKey K chainID publicKey holder s = Some ((rc, err), s')"
  shows "holds_spec H sp (view s') \<and> owner_alive sp (view s')"
proof -
  let ?P = "\<lambda>c. holds_spec H sp c \<and> owner_alive sp c"
  let ?n = "ConsensusKeyReservationName H chainID publicKey"
  have "?P (view s') \<or> ?P (view s')"
  proof (rule ensure_rule [OF assms(1,2,2) _ _ _ assms(3,4), THEN conjunct2])
    fix c c' assume "?P c" "created (newReservation H chainID publicKey holder) c c'"
    then show "?P c'" by (simp add: holds_spec_created owner_alive_created)
  next
    fix c0 r c res c'
    assume r: "?P c0" "find_reservation ?n c0 = Some r"
      and ev: "recovery_evidence H jsonKey chainID publicKey holder r ?P" and c: "?P c"
      and del: "delete_outcome (m_Name (ckr_Meta r)) (m_UID (ckr_Meta r)) c res c'"
    have "ConsensusKeyReservationName H (rs_ChainID sp) (rs_PublicKey sp) \<noteq> ?n"
    proof
      assume "ConsensusKeyReservationName H (rs_ChainID sp) (rs_PublicKey sp) = ?n"
      with r have "ckr_Spec r = sp" by (auto simp: holds_spec_def)
      with ev show False by (auto simp: recovery_evidence_def)
    qed
    moreover have "m_Name (ckr_Meta r) = ?n" using find_reservation_member [OF r(2)] by simp
    ultimately have "holds_spec H sp c' = holds_spec H sp c"
      using delete_outcome_other [OF del] by (simp add: holds_spec_def)
    with c show "?P c'" using delete_outcome_frame [OF del] by (simp add: owner_alive_frame [of c' c])
  qed
  then show ?thesis by simp
qed

text \<open>C1: While a reservation is stored and its owner is alive, an acquisition of the same chain
  and key by another owner, or by another claim of the same owner, fails and leaves the reservation
  in place. So two claims never both acquire one consensus key.\<close>

theorem reservation_exclusive:
  assumes "kube_server K view rely"
    and "stable_under rely (\<lambda>c. holds_spec H sp c \<and> owner_alive sp c)"
    and "holds_spec H sp (view s) \<and> owner_alive sp (view s)"
    and "(rs_OwnerUID sp, rs_Claim sp) \<noteq> (h_UID holder, h_Claim holder)"
    and "EnsureConsensusKeyReservationWithResult fuel H jsonKey K (rs_ChainID sp) (rs_PublicKey sp) holder s =
      Some ((rc, err), s')"
  shows "err \<noteq> None \<and> holds_spec H sp (view s')"
proof -
  let ?P = "\<lambda>c. holds_spec H sp c \<and> owner_alive sp c"
  let ?n = "ConsensusKeyReservationName H (rs_ChainID sp) (rs_PublicKey sp)"
  have spec: "ckr_Spec r = sp" if "?P c" "find_reservation ?n c = Some r" for c r
    using that by (auto simp: holds_spec_def)
  have f: "stable_under rely (\<lambda>_. False)" by (simp add: stable_under_def)
  have "(err = None \<longrightarrow> False \<and> scans_passed H jsonKey (rs_ChainID sp) (rs_PublicKey sp) holder (\<lambda>_. False)) \<and>
      (?P (view s') \<or> False)"
  proof (rule ensure_rule [OF assms(1,2) f _ _ _ assms(3,5)])
    fix c r assume "?P c" "find_reservation ?n c = Some r"
      "reservationOwnedBy H r (rs_ChainID sp) (rs_PublicKey sp) holder = None"
    with spec assms(4) show False by (auto simp: reservationOwnedBy_None)
  next
    fix c c' assume "?P c" "created (newReservation H (rs_ChainID sp) (rs_PublicKey sp) holder) c c'"
    then show False by (auto simp: created_def holds_spec_def newReservation_def)
  next
    fix c0 r c res c'
    assume r: "?P c0" "find_reservation ?n c0 = Some r"
      and ev: "recovery_evidence H jsonKey (rs_ChainID sp) (rs_PublicKey sp) holder r ?P"
    from r have "ckr_Spec r = sp" by (rule spec)
    with ev show "?P c'" by (auto simp: recovery_evidence_def)
  qed
  then show ?thesis by blast
qed

text \<open>C12: A claim that already holds a reservation for one consensus key of a chain never acquires
  another key of that chain.\<close>

theorem one_claim_one_key:
  assumes "kube_server K view rely"
    and "stable_under rely (holds_spec H sp)" "holds_spec H sp (view s)"
    and "rs_OwnerUID sp = h_UID holder" "rs_Claim sp = h_Claim holder" "rs_PublicKey sp \<noteq> publicKey"
    and "EnsureConsensusKeyReservationWithResult fuel H jsonKey K (rs_ChainID sp) publicKey holder s =
      Some ((rc, err), s')"
  shows "err \<noteq> None \<and> holds_spec H sp (view s')"
proof -
  have never: False if "holds_spec H sp c" "no_conflicting_claim H (rs_ChainID sp) publicKey holder c" for c
    using that holds_spec_member [OF that(1)] assms(4-6)
    by (auto simp: no_conflicting_claim_def conflictingClaim_def)
  have "(err = None \<longrightarrow> holds_spec H sp (view s') \<and>
      scans_passed H jsonKey (rs_ChainID sp) publicKey holder (holds_spec H sp)) \<and>
      (holds_spec H sp (view s') \<or> holds_spec H sp (view s'))"
  proof (rule ensure_rule [OF assms(1,2,2) _ _ _ assms(3,7)])
    fix c c' assume "holds_spec H sp c" "created (newReservation H (rs_ChainID sp) publicKey holder) c c'"
    then show "holds_spec H sp c'" by (simp add: holds_spec_created)
  next
    fix r c' assume "recovery_evidence H jsonKey (rs_ChainID sp) publicKey holder r (holds_spec H sp)"
    with never show "holds_spec H sp c'" by (auto simp: recovery_evidence_def)
  qed
  with never show ?thesis by (auto simp: scans_passed_def)
qed

text \<open>C13: A key that a ChainNode of the same chain has recorded in its status, from before
  reservations existed, is never acquired by a claim that the node does not belong to.\<close>

theorem legacy_node_blocks:
  assumes "kube_server K view rely"
    and "stable_under rely (\<lambda>c. node \<in> set (c_Nodes c))" "node \<in> set (c_Nodes (view s))"
    and "cns_ChainID (cn_Status node) = chainID"
    and "cns_CosmosignerPublicKey (cn_Status node) = publicKey \<or>
         canonicalSDKPublicKey jsonKey (cns_PubKey (cn_Status node)) = publicKey"
    and "\<not> legacyChainNodeMatchesClaim node holder"
    and "EnsureConsensusKeyReservationWithResult fuel H jsonKey K chainID publicKey holder s =
      Some ((rc, err), s')"
  shows "err \<noteq> None"
proof -
  let ?P = "\<lambda>c. node \<in> set (c_Nodes c)"
  have never: "\<not> no_legacy_node jsonKey chainID publicKey holder c" if "?P c" for c
    using that assms(4-6) by (auto simp: no_legacy_node_def legacyNodeConflict_def)
  have "(err = None \<longrightarrow> ?P (view s') \<and> scans_passed H jsonKey chainID publicKey holder ?P) \<and>
      (?P (view s') \<or> ?P (view s'))"
  proof (rule ensure_rule [OF assms(1,2,2) _ _ _ assms(3,7)])
    fix c c' assume "?P c" "created (newReservation H chainID publicKey holder) c c'"
    then show "?P c'" by (auto simp: created_def)
  next
    fix r c' assume "recovery_evidence H jsonKey chainID publicKey holder r ?P"
    with never show "?P c'" by (auto simp: recovery_evidence_def)
  qed
  with never show ?thesis by (auto simp: scans_passed_def)
qed


end
