(* ===== verification/Reservation_Progress.thy ===== *)
theory Reservation_Progress
  imports Reservation_Safety
begin

text \<open>
  Progress of the acquisition, release, and the examples of \<open>Reservation_Safety\<close>. The loop of
  \<open>EnsureConsensusKeyReservationWithResult\<close> repeats after a recovery and after a lost race on the
  create. Without a racing client two rounds are enough; with one it may repeat as long as others
  keep winning.
\<close>

section \<open>Fuel\<close>

context kube_server
begin

lemma recover_true_gone:
  assumes "stable (\<lambda>c. find_reservation (m_Name (ckr_Meta r)) c = None)"
  shows "triple (\<lambda>_. True) (recoverStaleConsensusKeyReservation H jsonKey K r chainID publicKey holder)
    (\<lambda>b c. b \<longrightarrow> find_reservation (m_Name (ckr_Meta r)) c = None) (\<lambda>_ _. True)"
proof -
  note T = stable_True
  have last: "triple (\<lambda>_. True) (get_or ApiFailure (k_getReservation K (m_Name (ckr_Meta r))) (\<lambda>_. ret False) (ret True))
      (\<lambda>b c. b \<longrightarrow> find_reservation (m_Name (ckr_Meta r)) c = None) (\<lambda>_ _. True)"
    by (rule triple_get_or [OF getReservation T]) (auto simp: found_def dest: stableD [OF assms] split: option.splits)
  have del: "triple (\<lambda>_. True) (seq
      (call_ignoring NotFound ApiFailure (k_deleteReservation K (m_Name (ckr_Meta r)) (m_UID (ckr_Meta r))))
      (\<lambda>_. get_or ApiFailure (k_getReservation K (m_Name (ckr_Meta r))) (\<lambda>_. ret False) (ret True)))
      (\<lambda>b c. b \<longrightarrow> find_reservation (m_Name (ckr_Meta r)) c = None) (\<lambda>_ _. True)"
    by (rule triple_seq [OF triple_commit_ignoring [OF deleteReservation T T] last]) simp_all
  show ?thesis
    unfolding recoverStaleConsensusKeyReservation_def Let_def
    by (intro triple_if triple_ret triple_fail
        triple_then [where P = "\<lambda>_. True", OF stale_triple [where P = "\<lambda>_. True" and E = "\<lambda>_ _. True", OF T]]
        triple_then [where P = "\<lambda>_. True", OF paths_triple [where P = "\<lambda>_. True" and E = "\<lambda>_ _. True", OF T]]
        triple_then [where P = "\<lambda>_. True", OF noConflict_triple [where P = "\<lambda>_. True" and E = "\<lambda>_ _. True", OF T]]
        triple_then [where P = "\<lambda>_. True", OF noLegacy_triple [where P = "\<lambda>_. True" and E = "\<lambda>_ _. True", OF T]]
        del) simp_all
qed

lemma get_absent:
  assumes "stable (\<lambda>c. find_reservation n c = None)" "find_reservation n (view s) = None"
    and "k_getReservation K n s = (g, s1)"
  shows "g \<noteq> Inr r \<and> find_reservation n (view s1) = None"
proof -
  obtain c where "find_reservation n c = None" "find_reservation n (view s1) = None"
      "g = found (find_reservation n c) \<or> (\<exists>m. g = Inl (ApiOther m))"
    by (rule observes_at [OF getReservation assms])
  then show ?thesis by (auto simp: found_def)
qed

text \<open>Once the reservation is absent and nobody else creates it, one round returns.\<close>

lemma ensureLoop_absent:
  assumes st: "stable (\<lambda>c. find_reservation (ConsensusKeyReservationName H chainID publicKey) c = None)"
    and none: "find_reservation (ConsensusKeyReservationName H chainID publicKey) (view s) = None"
  shows "ensureLoop (Suc fuel) H jsonKey K chainID publicKey holder recovered s \<noteq> None"
proof -
  let ?n = "ConsensusKeyReservationName H chainID publicKey"
  let ?P = "\<lambda>c. find_reservation ?n c = None"
  obtain g s1 where g: "k_getReservation K ?n s = (g, s1)" by (cases "k_getReservation K ?n s")
  obtain x s2 where x: "noConflictNorLegacy H jsonKey K chainID publicKey holder s1 = (x, s2)"
    by (cases "noConflictNorLegacy H jsonKey K chainID publicKey holder s1")
  obtain y s3 where y: "k_createReservation K (newReservation H chainID publicKey holder) s2 = (y, s3)"
    by (cases "k_createReservation K (newReservation H chainID publicKey holder) s2")
  have P1: "?P (view s1)" and no: "\<And>r. g \<noteq> Inr r"
    using get_absent [OF st none g] by auto
  note t = guards_triple [where E = "\<lambda>_. ?P", OF st]
  have "?P (view s2)"
    using tripleD_ok [OF t P1] tripleD_err [OF t P1] x by (cases x) auto
  then obtain c c' where "?P c" "create_outcome (newReservation H chainID publicKey holder) c y c'"
    using commits_at [OF createReservation st _ y] by metis
  then have "y \<noteq> Inl AlreadyExists"
    by (auto simp: create_outcome_def newReservation_def)
  with g x y no show ?thesis
    by (cases g; cases x; cases y) (auto simp: finish_def split: sum.splits prod.splits)
qed

lemma ensureLoop_two_rounds:
  assumes st: "stable (\<lambda>c. find_reservation (ConsensusKeyReservationName H chainID publicKey) c = None)"
    and st': "stable (\<lambda>c. find_reservation (ConsensusKeyReservationName H chainID publicKey) c \<noteq> None)"
  shows "ensureLoop (Suc (Suc fuel)) H jsonKey K chainID publicKey holder recovered s \<noteq> None"
proof (cases "find_reservation (ConsensusKeyReservationName H chainID publicKey) (view s) = None")
  case True
  then show ?thesis by (rule ensureLoop_absent [OF st])
next
  case False
  let ?n = "ConsensusKeyReservationName H chainID publicKey"
  obtain g s1 where g: "k_getReservation K ?n s = (g, s1)" by (cases "k_getReservation K ?n s")
  obtain c where c: "find_reservation ?n c \<noteq> None" "g = found (find_reservation ?n c) \<or> (\<exists>m. g = Inl (ApiOther m))"
    using observes_at [OF getReservation st' False g] by metis
  show ?thesis
  proof (cases g)
    case (Inl e)
    with c have "e \<noteq> NotFound" by (auto simp: found_def split: option.splits)
    with g Inl show ?thesis by simp
  next
    case (Inr r)
    with c have name: "m_Name (ckr_Meta r) = ?n"
      by (auto simp: found_def dest: find_reservation_member split: option.splits)
    obtain x s2 where x: "recoverStaleConsensusKeyReservation H jsonKey K r chainID publicKey holder s1 = (x, s2)"
      by (cases "recoverStaleConsensusKeyReservation H jsonKey K r chainID publicKey holder s1")
    have "find_reservation ?n (view s2) = None" if "x = Inr True"
      using tripleD_ok [OF recover_true_gone [of r] TrueI, of H jsonKey chainID publicKey holder s1 True s2]
        st x that name by simp
    then have "ensureLoop (Suc fuel) H jsonKey K chainID publicKey holder rec s2 \<noteq> None" if "x = Inr True" for rec
      using that ensureLoop_absent [OF st] by blast
    with g Inr x show ?thesis
      by (cases x) (auto simp: finish_def simp del: ensureLoop.simps(2) split: option.splits sum.splits prod.splits
          simp add: ensureLoop.simps(2) [of "Suc fuel"])
  qed
qed

end

text \<open>C14: When no other client creates or deletes the reservation of this key meanwhile, the
  acquisition returns within two rounds of its loop, whatever the server answers and whoever holds
  the key.\<close>

theorem acquisition_returns:
  assumes "kube_server K view rely"
    and "stable_under rely (\<lambda>c. find_reservation (ConsensusKeyReservationName H chainID publicKey) c = None)"
    and "stable_under rely (\<lambda>c. find_reservation (ConsensusKeyReservationName H chainID publicKey) c \<noteq> None)"
  shows "EnsureConsensusKeyReservationWithResult 2 H jsonKey K chainID publicKey holder s \<noteq> None"
  using kube_server.ensureLoop_two_rounds [OF assms, of 0 jsonKey holder "[]" s]
  by (auto simp: EnsureConsensusKeyReservationWithResult_def numeral_2_eq_2 split: option.splits)

section \<open>Release\<close>

text \<open>The API server keeps object names unique.\<close>

definition unique_names :: "cluster \<Rightarrow> bool" where
  "unique_names c \<longleftrightarrow> distinct (map (\<lambda>r. m_Name (ckr_Meta r)) (c_Reservations c))"

lemma unique_names_delete:
  assumes "delete_outcome n u c res c'" "unique_names c"
  shows "unique_names c'"
proof -
  have "(\<lambda>r. m_Name (ckr_Meta r)) \<circ> mark_deleted n t = (\<lambda>r. m_Name (ckr_Meta r))" for t
    by (auto simp: mark_deleted_def)
  moreover have "c' = c \<or> removed n u c c'"
    using assms(1) by (auto simp: delete_outcome_def split: sum.splits if_splits)
  ultimately show ?thesis
    using assms(2) by (auto simp: removed_def unique_names_def distinct_map_filter)
qed

lemma unique_names_spec:
  assumes "unique_names c" "holds_spec H sp c" "r \<in> set (c_Reservations c)"
    and "m_Name (ckr_Meta r) = ConsensusKeyReservationName H (rs_ChainID sp) (rs_PublicKey sp)"
  shows "ckr_Spec r = sp"
proof -
  obtain q where "q \<in> set (c_Reservations c)" "ckr_Spec q = sp"
      "m_Name (ckr_Meta q) = ConsensusKeyReservationName H (rs_ChainID sp) (rs_PublicKey sp)"
    using holds_spec_member [OF assms(2)] by blast
  with assms(1,3,4) show ?thesis
    by (metis (mono_tags, lifting) distinct_map inj_onD unique_names_def)
qed

context kube_server
begin

lemma release_claim_triple:
  assumes P: "stable P"
    and del: "\<And>c res c'. P c \<Longrightarrow>
      delete_outcome (m_Name (ckr_Meta r)) (m_UID (ckr_Meta r)) c res c' \<Longrightarrow> P c'"
  shows "triple P (ReleaseConsensusKeyReservationClaim K ow r) (\<lambda>_. P) (\<lambda>_. P)"
proof (cases "reservationOwnerKind ow")
  case None
  then show ?thesis by (auto simp: ReleaseConsensusKeyReservationClaim_def)
next
  case (Some kind)
  have "triple P (seq (call_ignoring NotFound ApiFailure
        (k_deleteReservation K (m_Name (ckr_Meta r)) (m_UID (ckr_Meta r))))
      (\<lambda>_. get_or ApiFailure (k_getReservation K (m_Name (ckr_Meta r))) (\<lambda>_. ret False) (ret True)))
      (\<lambda>_. P) (\<lambda>_. P)"
    by (intro triple_seq [OF triple_commit_ignoring [OF deleteReservation P P]]
        triple_get [OF getReservation P] triple_ret; (assumption | rule del; assumption))
  with Some show ?thesis
    by (auto simp: ReleaseConsensusKeyReservationClaim_def Let_def)
qed

lemma releaseLoop_keeps:
  assumes P: "stable P"
    and del: "\<And>r c res c'. r \<in> S \<Longrightarrow> rs_OwnerUID (ckr_Spec r) = owner_uid ow \<Longrightarrow> P c \<Longrightarrow>
      delete_outcome (m_Name (ckr_Meta r)) (m_UID (ckr_Meta r)) c res c' \<Longrightarrow> P c'"
    and "P (view s)" "releaseLoop K ow kind released items s = (out, s')" "set items \<subseteq> S"
  shows "P (view s') \<and> (snd out = Inr True \<longrightarrow>
    (\<exists>c. P c \<and> rely c (view s') \<and> (\<forall>r \<in> set (c_Reservations c). rs_OwnerUID (ckr_Spec r) \<noteq> owner_uid ow)))"
  using assms(3-5)
proof (induction items arbitrary: released s)
  case Nil
  obtain g s1 where g: "k_listReservations K s = (g, s1)" by (cases "k_listReservations K s")
  obtain c where "P c" "P (view s1)" "rely c (view s1)" "g = Inr (c_Reservations c) \<or> (\<exists>m. g = Inl (ApiOther m))"
    by (rule observes_at [OF listReservations P Nil.prems(1) g])
  with Nil.prems(2) g show ?case by (auto simp: list_ex_iff) blast
next
  case (Cons r items)
  then have sub: "set items \<subseteq> S" by simp
  consider "rs_OwnerUID (ckr_Spec r) \<noteq> owner_uid ow"
    | "rs_OwnerUID (ckr_Spec r) = owner_uid ow" "rs_OwnerKind (ckr_Spec r) \<noteq> kind"
    | "rs_OwnerUID (ckr_Spec r) = owner_uid ow" "rs_OwnerKind (ckr_Spec r) = kind" by blast
  then show ?case
  proof cases
    case 1
    then show ?thesis using Cons.IH [OF Cons.prems(1) _ sub] Cons.prems(2) by simp
  next
    case 2
    then show ?thesis using Cons.prems(1,2) by auto
  next
    case 3
    have t: "triple P (ReleaseConsensusKeyReservationClaim K ow r) (\<lambda>_. P) (\<lambda>_. P)"
      by (rule release_claim_triple [OF P]) (rule del [of r], use 3 Cons.prems(3) in auto)
    obtain x s1 where x: "ReleaseConsensusKeyReservationClaim K ow r s = (x, s1)"
      by (cases "ReleaseConsensusKeyReservationClaim K ow r s")
    then have P1: "P (view s1)"
      using tripleD_ok [OF t Cons.prems(1)] tripleD_err [OF t Cons.prems(1)] by (cases x) auto
    show ?thesis
    proof (cases "x = Inr True")
      case True
      then show ?thesis using Cons.IH [OF P1 _ sub] Cons.prems(2) 3 x by simp
    next
      case False
      then show ?thesis using Cons.prems(2) 3 x P1 by (cases x) auto
    qed
  qed
qed

end

text \<open>C16: Releasing the reservations of a root deletes no reservation of another root, and when it
  reports completion, no reservation of the root was left when it looked last.\<close>

theorem release_only_own:
  assumes "kube_server K view rely"
    and "stable_under rely (\<lambda>c. unique_names c \<and> holds_spec H sp c)"
    and "unique_names (view s) \<and> holds_spec H sp (view s)" "rs_OwnerUID sp \<noteq> owner_uid ow"
    and "ReleaseConsensusKeyReservations K ow s = ((released, out), s')"
  shows "holds_spec H sp (view s') \<and> (out = Inr True \<longrightarrow>
    (\<exists>c. rely c (view s') \<and> (\<forall>r \<in> set (c_Reservations c). rs_OwnerUID (ckr_Spec r) \<noteq> owner_uid ow)))"
proof -
  let ?P = "\<lambda>c. unique_names c \<and> holds_spec H sp c"
  show ?thesis
  proof (cases "reservationOwnerKind ow")
    case None
    with assms(3,5) show ?thesis by (auto simp: ReleaseConsensusKeyReservations_def)
  next
    case (Some kind)
    obtain g s1 where g: "k_listReservations K s = (g, s1)" by (cases "k_listReservations K s")
    obtain c where c: "?P c" "?P (view s1)" "g = Inr (c_Reservations c) \<or> (\<exists>m. g = Inl (ApiOther m))"
      by (rule kube_server.observes_at [OF assms(1) kube_server.listReservations [OF assms(1)] assms(2,3) g])
    show ?thesis
    proof (cases g)
      case (Inl e)
      with Some assms(5) g c show ?thesis by (auto simp: ReleaseConsensusKeyReservations_def)
    next
      case (Inr items)
      with Some assms(5) g have loop: "releaseLoop K ow kind [] (sort_key (\<lambda>r. m_Name (ckr_Meta r)) items) s1 =
          ((released, out), s')" by (simp add: ReleaseConsensusKeyReservations_def)
      have del: "?P c'" if "r \<in> set (sort_key (\<lambda>r. m_Name (ckr_Meta r)) items)"
          "rs_OwnerUID (ckr_Spec r) = owner_uid ow" "?P c0"
          "delete_outcome (m_Name (ckr_Meta r)) (m_UID (ckr_Meta r)) c0 res c'" for r c0 res c'
      proof -
        have "r \<in> set (c_Reservations c)" using that(1) Inr c(3) by auto
        then have "m_Name (ckr_Meta r) \<noteq> ConsensusKeyReservationName H (rs_ChainID sp) (rs_PublicKey sp)"
          using unique_names_spec c(1) that(2) assms(4) by blast
        then have "holds_spec H sp c' = holds_spec H sp c0"
          using delete_outcome_other [OF that(4)] by (simp add: holds_spec_def)
        with that(3) unique_names_delete [OF that(4)] show ?thesis by simp
      qed
      have "?P (view s') \<and> (snd (released, out) = Inr True \<longrightarrow> (\<exists>c. ?P c \<and> rely c (view s') \<and>
          (\<forall>r \<in> set (c_Reservations c). rs_OwnerUID (ckr_Spec r) \<noteq> owner_uid ow)))"
        by (rule kube_server.releaseLoop_keeps [OF assms(1,2) _ c(2) loop subset_refl]) (rule del)
      then show ?thesis by auto
    qed
  qed
qed

section \<open>Public keys\<close>

text \<open>The accepted public keys are exactly the canonical base64 forms of 32 bytes, and the
  32 bytes are determined by the key string.\<close>

theorem validateCanonicalPublicKey_iff:
  "validateCanonicalPublicKey publicKey = None \<longleftrightarrow> (\<exists>!raw. length raw = 32 \<and> publicKey = b64_encode raw)"
proof -
  have "validateCanonicalPublicKey publicKey = None \<longleftrightarrow> (\<exists>raw. length raw = 32 \<and> publicKey = b64_encode raw)"
    by (auto simp: validateCanonicalPublicKey_def split: option.splits)
  then show ?thesis by auto
qed

section \<open>Acquiring a free key\<close>

lemma reading_alone [simp]: "reading G f (c, []) = (f c, (c, []))"
  by (simp add: reading_def environment_def)

lemma writing_alone [simp]: "writing G f (c, []) = (fst (f c), (snd (f c), []))"
  by (simp add: writing_def environment_def Let_def split: prod.splits)

lemma env_kube_simps [simp]:
  "k_getReservation (env_kube G) n = reading G (\<lambda>c. found (find_reservation n c))"
  "k_listReservations (env_kube G) = reading G (\<lambda>c. Inr (c_Reservations c))"
  "k_createReservation (env_kube G) r = writing G (create_step r)"
  "k_listChainNodes (env_kube G) ns = reading G (\<lambda>c. Inr (in_namespace cn_Meta ns (c_Nodes c)))"
  "k_listChainNodeSets (env_kube G) ns = reading G (\<lambda>c. Inr (in_namespace ns_Meta ns (c_Sets c)))"
  by (simp_all add: env_kube_def)

lemma guards_alone:
  assumes "no_conflicting_claim H chainID publicKey holder c" "no_legacy_node jsonKey chainID publicKey holder c"
    "no_legacy_set jsonKey chainID publicKey holder c"
  shows "noConflictNorLegacy H jsonKey (env_kube G) chainID publicKey holder (c, []) = (Inr (), (c, []))"
proof -
  have "first_error (conflictingClaim H chainID publicKey holder) (c_Reservations c) = None"
    "first_error (legacyNodeConflict jsonKey chainID publicKey holder) (c_Nodes c) = None"
    "first_error (legacySetConflict jsonKey chainID publicKey holder) (c_Sets c) = None"
    using assms by (simp_all add: scan_defs first_error_None_iff)
  then show ?thesis
    by (simp add: noConflictNorLegacy_def ensureNoConflictingReservationClaim_def
        ensureNoLegacyConsensusKeyOwner_def seq_def call_def in_namespace_def ret_def)
qed

lemma free_loop:
  assumes "find_reservation (ConsensusKeyReservationName H chainID publicKey) c = None"
    and "no_conflicting_claim H chainID publicKey holder c"
    and "no_legacy_node jsonKey chainID publicKey holder c" "no_legacy_set jsonKey chainID publicKey holder c"
  shows "\<exists>c'. ensureLoop (Suc fuel) H jsonKey (env_kube G) chainID publicKey holder recovered (c, []) =
      Some ((recovered, None), (c', [])) \<and> claimed H chainID publicKey (h_UID holder) (h_Claim holder) c'"
proof -
  let ?new = "newReservation H chainID publicKey holder"
  let ?r = "?new\<lparr>ckr_Meta := (ckr_Meta ?new)\<lparr>m_UID := fresh_uid c\<rparr>\<rparr>"
  let ?c = "c\<lparr>c_Reservations := c_Reservations c @ [?r]\<rparr>"
  have name: "m_Name (ckr_Meta ?new) = ConsensusKeyReservationName H chainID publicKey"
    by (simp add: newReservation_def)
  have step: "create_step ?new c = (Inr (), ?c)"
    using assms(1) name by (simp add: create_step_def)
  have scans: "no_conflicting_claim H chainID publicKey holder ?c"
    "no_legacy_node jsonKey chainID publicKey holder ?c" "no_legacy_set jsonKey chainID publicKey holder ?c"
    using assms(2-4) by (auto simp: scan_defs conflictingClaim_def newReservation_def)
  have "created ?new c ?c"
    using create_step_outcome [of ?new c] step by (simp add: create_outcome_def)
  then have "claimed H chainID publicKey (h_UID holder) (h_Claim holder) ?c" by (rule created_claims)
  moreover have "ensureLoop (Suc fuel) H jsonKey (env_kube G) chainID publicKey holder recovered (c, []) =
      Some ((recovered, None), (?c, []))"
    using assms(1) step guards_alone [OF assms(2-4)] guards_alone [OF scans]
    by (simp add: found_def finish_def)
  ultimately show ?thesis by blast
qed

text \<open>C15: With no other client at work, a key that nobody has reserved or recorded is acquired: one
  round of the loop stores the reservation and returns without an error.\<close>

theorem free_key_acquired:
  assumes "h_UID holder \<noteq> []" "chainID \<noteq> []" "h_Claim holder \<noteq> []"
    and "validateCanonicalPublicKey publicKey = None"
    and "find_reservation (ConsensusKeyReservationName H chainID publicKey) c = None"
    and "no_conflicting_claim H chainID publicKey holder c"
    and "no_legacy_node jsonKey chainID publicKey holder c" "no_legacy_set jsonKey chainID publicKey holder c"
  shows "\<exists>c'. EnsureConsensusKeyReservationWithResult (Suc fuel) H jsonKey (env_kube G) chainID publicKey holder (c, []) =
      Some (([], None), (c', [])) \<and> claimed H chainID publicKey (h_UID holder) (h_Claim holder) c'"
  using free_loop [OF assms(5-8), of fuel G "[]"] assms(1-4)
  by (simp add: EnsureConsensusKeyReservationWithResult_def del: ensureLoop.simps)

section \<open>Examples\<close>

text \<open>A cluster with one root, alone and with an environment that only touches workloads.\<close>

definition example_key :: string where
  "example_key = b64_encode (replicate 32 CHR ''k'')"

definition example_root :: ChainNodeSet where
  "example_root = zero_ChainNodeSet\<lparr>ns_Meta := zero_Meta\<lparr>m_Name := ''net'', m_Namespace := ''default'',
     m_UID := ''u1''\<rparr>\<rparr>"

definition example_cluster :: cluster where
  "example_cluster = \<lparr>c_Reservations = [], c_Nodes = [], c_Sets = [example_root],
     c_Namespaces = [''default''], c_StatefulSets = [], c_Jobs = [], c_Pods = []\<rparr>"

definition example_holder :: ReservationHolder where
  "example_holder = \<lparr>h_UID = ''u1'', h_Kind = ''ChainNodeSet'', h_Namespace = ''default'', h_Name = ''net'',
     h_Claim = ''net-validator'', h_LegacyStatusNames = [], h_LegacyNodeNames = []\<rparr>"

definition other_holder :: ReservationHolder where
  "other_holder = example_holder\<lparr>h_UID := ''u2'', h_Name := ''other'', h_Claim := ''other-validator''\<rparr>"

definition example_spec :: ConsensusKeyReservationSpec where
  "example_spec = ckr_Spec (newReservation id ''chain-1'' example_key example_holder)"

definition workloads_only :: "cluster \<Rightarrow> cluster \<Rightarrow> bool" where
  "workloads_only c c' \<longleftrightarrow>
     c_Reservations c' = c_Reservations c \<and> c_Nodes c' = c_Nodes c \<and> c_Sets c' = c_Sets c"

definition reserved_cluster :: cluster where
  "reserved_cluster = example_cluster\<lparr>c_Reservations :=
     [(newReservation id ''chain-1'' example_key example_holder)
        \<lparr>ckr_Meta := zero_Meta\<lparr>m_Name := ConsensusKeyReservationName id ''chain-1'' example_key, m_UID := ''r1''\<rparr>\<rparr>]\<rparr>"

lemmas example_defs = example_root_def example_cluster_def example_holder_def other_holder_def
  example_spec_def reserved_cluster_def newReservation_def zero_defs

lemma workloads_only_rely: "workloads_only\<^sup>*\<^sup>* c c' \<longleftrightarrow> workloads_only c c'"
proof
  show "workloads_only\<^sup>*\<^sup>* c c' \<Longrightarrow> workloads_only c c'"
    by (induction rule: rtranclp_induct) (auto simp: workloads_only_def)
qed auto

lemma workloads_only_stable:
  assumes "\<And>c c'. c_Reservations c' = c_Reservations c \<Longrightarrow> c_Nodes c' = c_Nodes c \<Longrightarrow> c_Sets c' = c_Sets c \<Longrightarrow>
      P c' = P c"
  shows "stable_under (workloads_only\<^sup>*\<^sup>*) P"
  unfolding stable_under_def workloads_only_rely
proof (intro allI impI)
  fix c c' assume "P c \<and> workloads_only c c'"
  then show "P c'" using assms [of c' c] by (simp add: workloads_only_def)
qed

lemma example_stable:
  "stable_under (workloads_only\<^sup>*\<^sup>*) (claimed H chainID publicKey u cl)"
  "stable_under (workloads_only\<^sup>*\<^sup>*) (holds_spec H sp)"
  "stable_under (workloads_only\<^sup>*\<^sup>*) (\<lambda>c. holds_spec H sp c \<and> owner_alive sp c)"
  "stable_under (workloads_only\<^sup>*\<^sup>*) (\<lambda>c. node \<in> set (c_Nodes c))"
  "stable_under (workloads_only\<^sup>*\<^sup>*) (\<lambda>c. unique_names c \<and> holds_spec H sp c)"
  "stable_under (workloads_only\<^sup>*\<^sup>*) (\<lambda>c. find_reservation n c = None)"
  "stable_under (workloads_only\<^sup>*\<^sup>*) (\<lambda>c. find_reservation n c \<noteq> None)"
  by (rule workloads_only_stable;
      simp add: claimed_def holds_spec_def owner_alive_def find_reservation_def find_node_def find_set_def
        unique_names_def)+

lemma example_key_ok: "validateCanonicalPublicKey example_key = None"
  by (simp add: validateCanonicalPublicKey_def example_key_def)

lemma example_scans:
  "find_reservation n example_cluster = None"
  "no_conflicting_claim id ''chain-1'' example_key example_holder example_cluster"
  "no_legacy_node (\<lambda>_. None) ''chain-1'' example_key example_holder example_cluster"
  "no_legacy_set (\<lambda>_. None) ''chain-1'' example_key example_holder example_cluster"
  by (simp_all add: scan_defs find_reservation_def legacySetConflict_def example_defs)

lemma reserved_holds:
  "holds_spec id example_spec reserved_cluster" "owner_alive example_spec reserved_cluster"
  "unique_names reserved_cluster"
  by (simp_all add: holds_spec_def owner_alive_def find_reservation_def find_set_def unique_names_def example_defs)

theorem free_key_acquired_witness:
  "\<exists>c'. EnsureConsensusKeyReservationWithResult 1 id (\<lambda>_. None) (env_kube workloads_only) ''chain-1'' example_key
      example_holder (example_cluster, []) = Some (([], None), (c', [])) \<and>
    claimed id ''chain-1'' example_key ''u1'' ''net-validator'' c'"
proof -
  have h: "h_UID example_holder = ''u1''" "h_Claim example_holder = ''net-validator''"
    by (simp_all add: example_holder_def)
  show ?thesis
    using free_key_acquired [OF _ _ _ example_key_ok example_scans, of 0 workloads_only] h
    by (simp del: env_kube_simps ensureLoop.simps)
qed

abbreviation example_server :: "scripted kube" where
  "example_server \<equiv> env_kube workloads_only"

lemmas example_server_ok = env.kube_server_axioms [of workloads_only]

text \<open>A script with one action of another client: it starts a pod.\<close>

definition example_script :: "(cluster \<Rightarrow> cluster) list" where
  "example_script = [\<lambda>c. c\<lparr>c_Pods := [\<lparr>pod_Meta = zero_Meta, pod_Claims = []\<rparr>]\<rparr>]"

lemma example_returns:
  obtains rc err s' where "EnsureConsensusKeyReservationWithResult 2 H jsonKey example_server chainID publicKey holder s =
    Some ((rc, err), s')"
proof -
  have "EnsureConsensusKeyReservationWithResult 2 H jsonKey example_server chainID publicKey holder s \<noteq> None"
    using kube_server.ensureLoop_two_rounds [where fuel = 0 and H = H and chainID = chainID and
        publicKey = publicKey and s = s and jsonKey = jsonKey and holder = holder and recovered = "[]",
        OF example_server_ok example_stable(6,7)]
    by (auto simp: EnsureConsensusKeyReservationWithResult_def numeral_2_eq_2
        simp del: ensureLoop.simps split: option.splits)
  then show ?thesis using that by (cases "EnsureConsensusKeyReservationWithResult 2 H jsonKey example_server chainID publicKey holder s") auto
qed

theorem acquisition_returns_witness:
  "EnsureConsensusKeyReservationWithResult 2 id (\<lambda>_. None) example_server ''chain-1'' example_key other_holder
     (reserved_cluster, example_script) \<noteq> None"
  by (rule acquisition_returns [OF example_server_ok example_stable(6,7)])


theorem live_reservation_kept_witness:
  "\<exists>rc err s'. EnsureConsensusKeyReservationWithResult 2 id (\<lambda>_. None) example_server ''chain-2'' example_key
      other_holder (reserved_cluster, example_script) = Some ((rc, err), s') \<and>
    holds_spec id example_spec (fst s') \<and> owner_alive example_spec (fst s')"
proof -
  obtain rc err s' where e: "EnsureConsensusKeyReservationWithResult 2 id (\<lambda>_. None) example_server ''chain-2''
      example_key other_holder (reserved_cluster, example_script) = Some ((rc, err), s')"
    by (rule example_returns)
  show ?thesis
    using live_reservation_kept [OF example_server_ok example_stable(3) _ e] reserved_holds e by auto
qed

theorem reservation_exclusive_witness:
  "\<exists>rc err s'. EnsureConsensusKeyReservationWithResult 2 id (\<lambda>_. None) example_server ''chain-1'' example_key
      other_holder (reserved_cluster, example_script) = Some ((rc, err), s') \<and>
    err \<noteq> None \<and> holds_spec id example_spec (fst s')"
proof -
  have sp: "rs_ChainID example_spec = ''chain-1''" "rs_PublicKey example_spec = example_key"
    by (simp_all add: example_defs)
  have ne: "(rs_OwnerUID example_spec, rs_Claim example_spec) \<noteq> (h_UID other_holder, h_Claim other_holder)"
    by (simp add: example_defs)
  obtain rc err s' where e: "EnsureConsensusKeyReservationWithResult 2 id (\<lambda>_. None) example_server
      (rs_ChainID example_spec) (rs_PublicKey example_spec) other_holder (reserved_cluster, example_script) =
      Some ((rc, err), s')"
    by (rule example_returns)
  show ?thesis
    using reservation_exclusive [OF example_server_ok example_stable(3) _ ne e] reserved_holds e sp by auto
qed

theorem one_claim_one_key_witness:
  "\<exists>rc err s'. EnsureConsensusKeyReservationWithResult 2 id (\<lambda>_. None) example_server ''chain-1''
      (b64_encode (replicate 32 CHR ''x'')) example_holder (reserved_cluster, example_script) = Some ((rc, err), s') \<and>
    err \<noteq> None \<and> holds_spec id example_spec (fst s')"
proof -
  let ?k = "b64_encode (replicate 32 CHR ''x'')"
  have sp: "rs_ChainID example_spec = ''chain-1''" "rs_OwnerUID example_spec = h_UID example_holder"
      "rs_Claim example_spec = h_Claim example_holder" "rs_PublicKey example_spec = example_key"
    by (simp_all add: example_defs)
  have k: "rs_PublicKey example_spec \<noteq> ?k"
    unfolding sp example_key_def by (simp add: replicate_eq_replicate)
  obtain rc err s' where e: "EnsureConsensusKeyReservationWithResult 2 id (\<lambda>_. None) example_server
      (rs_ChainID example_spec) ?k example_holder (reserved_cluster, example_script) = Some ((rc, err), s')"
    by (rule example_returns)
  show ?thesis
    using one_claim_one_key [OF example_server_ok example_stable(2) _ sp(2,3) k e] reserved_holds e sp by auto
qed

definition legacy_node :: ChainNode where
  "legacy_node = zero_ChainNode\<lparr>cn_Meta := zero_Meta\<lparr>m_Name := ''old'', m_UID := ''u9''\<rparr>,
     cn_Status := (cn_Status zero_ChainNode)\<lparr>cns_ChainID := ''chain-1'', cns_CosmosignerPublicKey := example_key\<rparr>\<rparr>"

theorem legacy_node_blocks_witness:
  "\<exists>rc err s'. EnsureConsensusKeyReservationWithResult 2 id (\<lambda>_. None) example_server ''chain-1'' example_key
      example_holder (example_cluster\<lparr>c_Nodes := [legacy_node]\<rparr>, example_script) = Some ((rc, err), s') \<and> err \<noteq> None"
proof -
  have n: "cns_ChainID (cn_Status legacy_node) = ''chain-1''"
      "cns_CosmosignerPublicKey (cn_Status legacy_node) = example_key \<or>
       canonicalSDKPublicKey (\<lambda>_. None) (cns_PubKey (cn_Status legacy_node)) = example_key"
      "\<not> legacyChainNodeMatchesClaim legacy_node example_holder"
    by (simp_all add: legacy_node_def legacyChainNodeMatchesClaim_def belongsToRoot_def example_defs)
  obtain rc err s' where e: "EnsureConsensusKeyReservationWithResult 2 id (\<lambda>_. None) example_server ''chain-1''
      example_key example_holder (example_cluster\<lparr>c_Nodes := [legacy_node]\<rparr>, example_script) = Some ((rc, err), s')"
    by (rule example_returns)
  show ?thesis
    using legacy_node_blocks [OF example_server_ok example_stable(4) _ n e] e by simp
qed

theorem release_only_own_witness:
  "\<exists>released out s'. ReleaseConsensusKeyReservations example_server
      (OwnerNode (zero_ChainNode\<lparr>cn_Meta := zero_Meta\<lparr>m_UID := ''u5''\<rparr>\<rparr>)) (reserved_cluster, example_script) =
      ((released, out), s') \<and> holds_spec id example_spec (fst s')"
proof -
  let ?ow = "OwnerNode (zero_ChainNode\<lparr>cn_Meta := zero_Meta\<lparr>m_UID := ''u5''\<rparr>\<rparr>)"
  obtain released out s' where e: "ReleaseConsensusKeyReservations example_server ?ow (reserved_cluster, example_script) =
      ((released, out), s')"
    by (metis prod.collapse)
  have u: "rs_OwnerUID example_spec \<noteq> owner_uid ?ow" by (simp add: example_defs)
  show ?thesis
    using release_only_own [OF example_server_ok example_stable(5) _ u e] reserved_holds e by auto
qed

text \<open>A recovery: the root was deleted and recreated with a new UID, the old reservation is left.\<close>

definition stale_spec :: ConsensusKeyReservationSpec where
  "stale_spec = example_spec\<lparr>rs_OwnerUID := ''u0''\<rparr>"

definition stale_reservation :: ConsensusKeyReservation where
  "stale_reservation = \<lparr>ckr_Meta = zero_Meta\<lparr>m_Name := ConsensusKeyReservationName id ''chain-1'' example_key,
     m_UID := ''r0''\<rparr>, ckr_Spec = stale_spec\<rparr>"

definition stale_cluster :: cluster where
  "stale_cluster = example_cluster\<lparr>c_Reservations := [stale_reservation]\<rparr>"

lemma env_kube_simps_workloads [simp]:
  "k_deleteReservation (env_kube G) n u = writing G (delete_step n u)"
  "k_getChainNodeSet (env_kube G) ns n = reading G (\<lambda>c. found (find_set ns n c))"
  "k_getNamespace (env_kube G) n = reading G (\<lambda>c. if n \<in> set (c_Namespaces c) then Inr () else Inl NotFound)"
  "k_listStatefulSets (env_kube G) ns = reading G (\<lambda>c. Inr (in_namespace sts_Meta (Some ns) (c_StatefulSets c)))"
  "k_listJobs (env_kube G) ns = reading G (\<lambda>c. Inr (in_namespace job_Meta (Some ns) (c_Jobs c)))"
  "k_listPods (env_kube G) ns = reading G (\<lambda>c. Inr (in_namespace pod_Meta (Some ns) (c_Pods c)))"
  by (simp_all add: env_kube_def)

lemma stale_recovered:
  "recoverStaleConsensusKeyReservation id (\<lambda>_. None) example_server stale_reservation ''chain-1'' example_key
     example_holder (stale_cluster, []) = (Inr True, (example_cluster, []))"
  by (simp add: Let_def fail_def recoverStaleConsensusKeyReservation_def reservationOwnerIsStale_def
      staleReservationSigningPathsGone_def ensureNoConflictingReservationClaim_def conflictingClaim_def
      ensureNoLegacyConsensusKeyOwner_def legacySetConflict_def seq_def call_def get_or_def ret_def
      call_ignoring_def in_namespace_def found_def find_set_def find_reservation_def delete_step_def
      stale_cluster_def stale_reservation_def stale_spec_def example_defs)


end
