(* ===== verification/Signing_Keys.thy ===== *)
theory Signing_Keys
  imports Cosmosigner_Resolve Signer_Identity
begin

text \<open>
  The admission checks of \<open>src/api/v1/chainnodeset_webhook.go\<close> that keep two validators or managed
  signers of one ChainNodeSet from signing with the same consensus key:
  \<open>validateUniqueSigningKeys\<close> and \<open>validateCosmosignerTargetUniqueness\<close>.

  The check walks the validators, then the managed signers, and records what each of them holds in
  five local maps; the record \<open>key_registry\<close> holds these maps and every closure of the Go function is a
  checked step on it. The lemmas describe each step by the list of slots it claims: a sequence of
  steps succeeds exactly when no slot is claimed twice.
\<close>

section \<open>The registry\<close>

record key_registry =
  kr_privateKeySecrets :: "string \<rightharpoonup> string"
  kr_tmKMSKeys :: "string \<rightharpoonup> string"
  kr_vaultKeys :: "string \<rightharpoonup> string"
  kr_genesisValidatorSecrets :: "string set"
  kr_sentrySoftwareSecrets :: "string \<rightharpoonup> string"

datatype SigningKeyError =
    SecretInUse string string string
  | VaultKeyInUse string string
  | GcpKeyInUse string string
  | TmKMSKeyInUse string string
  | GenesisSecretInUse string string string
  | SentrySecretInUse string string string

type_synonym registration = "(SigningKeyError, key_registry) checked"

definition emptyRegistry :: key_registry where
  "emptyRegistry = \<lparr>kr_privateKeySecrets = Map.empty, kr_tmKMSKeys = Map.empty,
     kr_vaultKeys = Map.empty, kr_genesisValidatorSecrets = {}, kr_sentrySoftwareSecrets = Map.empty\<rparr>"

definition registerSecret :: "string \<Rightarrow> string \<Rightarrow> registration" where
  "registerSecret path secret r =
     (case kr_privateKeySecrets r secret of
        Some prev \<Rightarrow> Inl (SecretInUse path secret prev)
      | None \<Rightarrow> Inr (r\<lparr>kr_privateKeySecrets := (kr_privateKeySecrets r)(secret \<mapsto> path)\<rparr>))"

definition registerVault :: "string \<Rightarrow> string \<Rightarrow> registration" where
  "registerVault path ident r =
     (case kr_vaultKeys r ident of
        Some prev \<Rightarrow> Inl (VaultKeyInUse path prev)
      | None \<Rightarrow> Inr (r\<lparr>kr_vaultKeys := (kr_vaultKeys r)(ident \<mapsto> path)\<rparr>))"

definition registerGcp :: "string \<Rightarrow> string \<Rightarrow> registration" where
  "registerGcp path keyVersion r =
     (let ident = ''gcpkms'' @ nul @ keyVersion in
      case kr_vaultKeys r ident of
        Some prev \<Rightarrow> Inl (GcpKeyInUse path prev)
      | None \<Rightarrow> Inr (r\<lparr>kr_vaultKeys := (kr_vaultKeys r)(ident \<mapsto> path)\<rparr>))"

definition registerTmKMSKey :: "string \<Rightarrow> string \<Rightarrow> registration" where
  "registerTmKMSKey path ident r =
     (case kr_tmKMSKeys r ident of
        Some prev \<Rightarrow> Inl (TmKMSKeyInUse path prev)
      | None \<Rightarrow> Inr (r\<lparr>kr_tmKMSKeys := (kr_tmKMSKeys r)(ident \<mapsto> path)\<rparr>))"

definition registerTmKMS :: "string \<Rightarrow> NodeSetValidatorConfig \<Rightarrow> registration" where
  "registerTmKMS path v =
     step_then
       (case tmKMSSigningKeyIdentity (nv_TmKMS v) of
          Some ident \<Rightarrow> registerTmKMSKey path ident | None \<Rightarrow> Inr)
       (case tmkmsNormalizedVaultKey (nv_TmKMS v) of
          Some ident \<Rightarrow> registerVault (path @ ''.tmKMS'') ident | None \<Rightarrow> Inr)"

definition registerGenesisValidator :: "string \<Rightarrow> nat \<times> GenesisValidator \<Rightarrow> registration" where
  "registerGenesisValidator path jgv r =
     (let gvPath = path @ ''.init.genesisValidators['' @ Itoa (int (fst jgv)) @ ''].privKeySecret'';
          secret = gv_PrivKeySecret (snd jgv) in
      case kr_privateKeySecrets r secret of
        Some prev \<Rightarrow> Inl (GenesisSecretInUse gvPath secret prev)
      | None \<Rightarrow> Inr (r\<lparr>kr_privateKeySecrets := (kr_privateKeySecrets r)(secret \<mapsto> gvPath),
                      kr_genesisValidatorSecrets := insert secret (kr_genesisValidatorSecrets r)\<rparr>))"

definition registerGenesisValidators :: "string \<Rightarrow> GenesisInitConfig option \<Rightarrow> registration" where
  "registerGenesisValidators path ini =
     (case ini of None \<Rightarrow> Inr
      | Some c \<Rightarrow> for_each (registerGenesisValidator path) (enumerate 0 (gc_GenesisValidators c)))"

definition registerSentrySecret :: "string \<Rightarrow> string \<Rightarrow> registration" where
  "registerSentrySecret path secret r =
     (case kr_sentrySoftwareSecrets r secret of
        Some prev \<Rightarrow> Inl (SentrySecretInUse path secret prev)
      | None \<Rightarrow> Inr (r\<lparr>kr_sentrySoftwareSecrets := (kr_sentrySoftwareSecrets r)(secret \<mapsto> path)\<rparr>))"

section \<open>Who holds a local key\<close>

definition tmkmsUploadsGeneratedPrivKey :: "NodeSetValidatorConfig option \<Rightarrow> bool" where
  "tmkmsUploadsGeneratedPrivKey cfg =
     (case cfg of None \<Rightarrow> False
      | Some v \<Rightarrow>
          if nv_TmKMS v = None \<or> nv_CreateValidator v = None then False
          else case tp_Hashicorp (tk_Provider (the (nv_TmKMS v))) of
                 None \<Rightarrow> False | Some h \<Rightarrow> hc_UploadGenerated h)"

definition matchesHistory :: "string \<Rightarrow> ResolvedSigner \<Rightarrow> CosmosignerStatus \<Rightarrow> bool" where
  "matchesHistory grp s st =
     (st_ServingGroup st = grp \<and> st_AtEstablishment st = Some (ValidatorTargetedIdentity s))"

definition cosmosignerLeavesLocalKeyUnused ::
    "ChainNodeSet \<Rightarrow> string \<Rightarrow> NodeSetValidatorConfig \<Rightarrow> bool" where
  "cosmosignerLeavesLocalKeyUnused ns grp v =
     (case groupCosmosigner ns grp of None \<Rightarrow> False
      | Some c \<Rightarrow>
        if nv_Init v \<noteq> None \<or> nv_CreateValidator v \<noteq> None then False
        else if UsesSoftwareBackend (Some c) then False
        else if (case be_Vault (cs_Backend c) of Some b \<Rightarrow> vb_UploadGenerated b | None \<Rightarrow> False) then False
        else if GcpImportsKey (Some c) then False
        else if nss_ChainID (ns_Status ns) = [] then True
        else case find (\<lambda>s. rsg_ValidatorGroup s = grp) (ResolveCosmosigners ns) of
               None \<Rightarrow> False
             | Some s \<Rightarrow>
                 (case GetCosmosignerStatus ns (rsg_Name s) of
                    Some current \<Rightarrow> matchesHistory grp s current \<and> st_LocalKeyEverServed current = Some False
                  | None \<Rightarrow>
                      let hs = filter (matchesHistory grp s) (nss_Cosmosigners (ns_Status ns)) in
                      list_all (\<lambda>st. st_LocalKeyEverServed st = Some False) hs \<and> hs \<noteq> []))"

definition usesLocalKey :: "ChainNodeSet \<Rightarrow> string \<Rightarrow> NodeSetValidatorConfig \<Rightarrow> bool" where
  "usesLocalKey ns grp v =
     ((nv_TmKMS v = None \<or> nv_Init v \<noteq> None \<or> tmkmsUploadsGeneratedPrivKey (Some v)) \<and>
      \<not> cosmosignerLeavesLocalKeyUnused ns grp v)"

section \<open>validateUniqueSigningKeys\<close>

definition registerSingletonValidator :: "ChainNodeSet \<Rightarrow> NodeSetValidatorConfig \<Rightarrow> registration" where
  "registerSingletonValidator ns v =
     step_then
       (if usesLocalKey ns ReservedValidatorGroupName v
        then registerSecret ''.spec.validator''
               (case nv_PrivateKeySecret v of Some s \<Rightarrow> s
                | None \<Rightarrow> ns_name ns @ ''-validator-priv-key'')
        else Inr)
     (step_then (registerTmKMS ''.spec.validator'' v)
       (registerGenesisValidators ''.spec.validator'' (nv_Init v)))"

definition registerGroupValidator :: "ChainNodeSet \<Rightarrow> nat \<times> NodeGroupSpec \<Rightarrow> registration" where
  "registerGroupValidator ns ig =
     (case ng_Validator (snd ig) of None \<Rightarrow> Inr
      | Some v \<Rightarrow>
        if GetInstances (snd ig) = 0 then Inr
        else let g = snd ig; path = ''.spec.nodes['' @ Itoa (int (fst ig)) @ ''].validator'' in
          step_then
            (if \<not> usesLocalKey ns (ng_Name g) v then Inr
             else case nv_PrivateKeySecret v of
                    Some s \<Rightarrow> registerSecret path s
                  | None \<Rightarrow>
                      let keyInstances = (if groupCosmosigner ns (ng_Name g) \<noteq> None then 1
                                          else GetInstances g) in
                      for_each (\<lambda>idx. registerSecret path
                          (ns_name ns @ ''-'' @ ng_Name g @ ''-'' @ Itoa idx @ ''-priv-key''))
                        [0..keyInstances - 1])
          (step_then (registerTmKMS path v) (registerGenesisValidators path (nv_Init v))))"

definition registerSigner :: "ChainNodeSet \<Rightarrow> ResolvedSigner \<Rightarrow> registration" where
  "registerSigner ns s =
     (case rsg_Spec s of None \<Rightarrow> Inr
      | Some c \<Rightarrow>
        let path = signerFieldPath ns s in
        (case be_Vault (cs_Backend c) of
           Some v \<Rightarrow>
             if vb_Address v \<noteq> [] \<and> vb_KeyName v \<noteq> []
             then registerVault path (normalizedVaultIdentity (vb_Address v)
                    (case vb_Namespace v of Some n \<Rightarrow> n | None \<Rightarrow> []) (GetVaultMount v) (vb_KeyName v)
                    (GetKeyVersion v))
             else Inr
         | None \<Rightarrow>
           (case be_GcpKMS (cs_Backend c) of
              Some g \<Rightarrow>
                step_then
                  (if gk_KeyVersion g \<noteq> [] then registerGcp path (gk_KeyVersion g) else Inr)
                  (if GcpImportsKey (Some c)
                   then registerGcp (path @ ''.backend.gcpKms.import'') (gcpImportIdentity (gk_Import g))
                   else Inr)
            | None \<Rightarrow>
              (case be_Software (cs_Backend c) of
                 None \<Rightarrow> Inr
               | Some sw \<Rightarrow>
                   if TargetsValidator s then Inr
                   else case sw_PrivateKeySecret sw of
                          None \<Rightarrow> Inr
                        | Some secret \<Rightarrow>
                            step_then (registerSentrySecret path secret)
                              (\<lambda>r. if secret \<in> kr_genesisValidatorSecrets r then Inr r
                                   else registerSecret (path @ ''.backend.software'') secret r)))))"

definition registerSigningKeys :: "ChainNodeSet \<Rightarrow> registration" where
  "registerSigningKeys ns =
     step_then
       (case ns_Validator (ns_Spec ns) of Some v \<Rightarrow> registerSingletonValidator ns v | None \<Rightarrow> Inr)
     (step_then
       (for_each (registerGroupValidator ns) (enumerate 0 (ns_Nodes (ns_Spec ns))))
       (for_each (registerSigner ns) (ResolveCosmosigners ns)))"

definition validateUniqueSigningKeys :: "ChainNodeSet \<Rightarrow> SigningKeyError option" where
  "validateUniqueSigningKeys ns =
     (case registerSigningKeys ns emptyRegistry of Inl e \<Rightarrow> Some e | Inr _ \<Rightarrow> None)"

section \<open>validateCosmosignerTargetUniqueness\<close>

datatype TargetError = GroupSignedTwice nat string

definition topTargets :: "ChainNodeSet \<Rightarrow> string set" where
  "topTargets ns =
     (case ns_Cosmosigner (ns_Spec ns) of None \<Rightarrow> {}
      | Some c \<Rightarrow> if cs_NodeGroups c = []
                 then (if ns_Validator (ns_Spec ns) \<noteq> None then {ReservedValidatorGroupName} else {})
                 else set (cs_NodeGroups c))"

definition validateCosmosignerTargetUniqueness :: "ChainNodeSet \<Rightarrow> TargetError option" where
  "validateCosmosignerTargetUniqueness ns =
     first_error (\<lambda>(i, g).
        if ng_Cosmosigner g = None then None
        else if ng_Name g \<in> topTargets ns then Some (GroupSignedTwice i (ng_Name g)) else None)
       (enumerate 0 (ns_Nodes (ns_Spec ns)))"

section \<open>Slots\<close>

datatype key_slot = SecretSlot string | TmkmsSlot string | VaultSlot string | SentrySlot string

definition taken :: "key_registry \<Rightarrow> key_slot set" where
  "taken r = SecretSlot ` dom (kr_privateKeySecrets r) \<union> TmkmsSlot ` dom (kr_tmKMSKeys r)
     \<union> VaultSlot ` dom (kr_vaultKeys r) \<union> SentrySlot ` dom (kr_sentrySoftwareSecrets r)"

definition free_slots :: "key_slot list \<Rightarrow> key_registry \<Rightarrow> bool" where
  "free_slots ks r \<longleftrightarrow> distinct ks \<and> set ks \<inter> taken r = {}"

text \<open>A step claims the slots \<open>ks\<close> and the genesis secrets \<open>gs\<close>, from a registry whose genesis secrets
  are \<open>G\<close>: it succeeds exactly when the slots are free, and then takes exactly these.\<close>

definition claims_slots :: "string set \<Rightarrow> registration \<Rightarrow> key_slot list \<Rightarrow> string set \<Rightarrow> bool" where
  "claims_slots G f ks gs \<longleftrightarrow>
     (\<forall>r. kr_genesisValidatorSecrets r = G \<longrightarrow>
        (case f r of
           Inl e \<Rightarrow> \<not> free_slots ks r
         | Inr r' \<Rightarrow> free_slots ks r \<and> taken r' = taken r \<union> set ks \<and>
                    kr_genesisValidatorSecrets r' = G \<union> gs))"

lemma slot_mem_taken [simp]:
  "SecretSlot x \<in> taken r \<longleftrightarrow> x \<in> dom (kr_privateKeySecrets r)"
  "TmkmsSlot x \<in> taken r \<longleftrightarrow> x \<in> dom (kr_tmKMSKeys r)"
  "VaultSlot x \<in> taken r \<longleftrightarrow> x \<in> dom (kr_vaultKeys r)"
  "SentrySlot x \<in> taken r \<longleftrightarrow> x \<in> dom (kr_sentrySoftwareSecrets r)"
  by (auto simp: taken_def)

lemma free_slots_append:
  "free_slots (ks @ ls) r \<longleftrightarrow> free_slots ks r \<and> distinct ls \<and> set ls \<inter> (taken r \<union> set ks) = {}"
  by (auto simp: free_slots_def)

lemma snd_image_enumerate: "snd ` set (enumerate n xs) = set xs"
  by (metis list.set_map map_snd_enumerate)

lemma claims_skip: "claims_slots G Inr [] {}"
  by (simp add: claims_slots_def free_slots_def)

lemma claims_then:
  assumes f: "claims_slots G f ks gs" and g: "claims_slots (G \<union> gs) g ls hs"
  shows "claims_slots G (step_then f g) (ks @ ls) (gs \<union> hs)"
  unfolding claims_slots_def
proof (intro allI impI)
  fix r :: key_registry
  assume r: "kr_genesisValidatorSecrets r = G"
  show "case step_then f g r of Inl e \<Rightarrow> \<not> free_slots (ks @ ls) r
    | Inr r' \<Rightarrow> free_slots (ks @ ls) r \<and> taken r' = taken r \<union> set (ks @ ls) \<and>
        kr_genesisValidatorSecrets r' = G \<union> (gs \<union> hs)"
  proof (cases "f r")
    case (Inl e)
    with f r show ?thesis by (auto simp: claims_slots_def step_then_def free_slots_append)
  next
    case (Inr t)
    with f r have t: "free_slots ks r" "taken t = taken r \<union> set ks" "kr_genesisValidatorSecrets t = G \<union> gs"
      by (auto simp: claims_slots_def)
    have "case g t of Inl e \<Rightarrow> \<not> free_slots ls t
      | Inr r' \<Rightarrow> free_slots ls t \<and> taken r' = taken t \<union> set ls \<and>
          kr_genesisValidatorSecrets r' = (G \<union> gs) \<union> hs"
      using g t(3) unfolding claims_slots_def by blast
    then show ?thesis using Inr t
      by (auto simp: step_then_def free_slots_append free_slots_def split: sum.splits)
  qed
qed

lemma claims_for_each:
  assumes "\<And>x H. x \<in> set xs \<Longrightarrow> G \<subseteq> H \<Longrightarrow> claims_slots H (f x) (K x) (S x)"
  shows "claims_slots G (for_each f xs) (concat (map K xs)) (\<Union>x \<in> set xs. S x)"
  using assms
proof (induction xs arbitrary: G)
  case Nil
  then show ?case by (simp add: claims_slots_def free_slots_def)
next
  case (Cons x xs)
  have hd: "claims_slots G (f x) (K x) (S x)" by (rule Cons.prems) auto
  have tl: "claims_slots (G \<union> S x) (for_each f xs) (concat (map K xs)) (\<Union>x \<in> set xs. S x)"
    by (rule Cons.IH) (use Cons.prems in auto)
  have eq: "for_each f (x # xs) = step_then (f x) (for_each f xs)" by (rule ext) simp
  show ?case using claims_then [OF hd tl] by (simp add: eq)
qed

lemma claims_for_each_pure:
  assumes "\<And>x. x \<in> set xs \<Longrightarrow> claims_slots G (f x) (K x) {}"
  shows "claims_slots G (for_each f xs) (concat (map K xs)) {}"
  using assms
proof (induction xs)
  case Nil
  then show ?case by (simp add: claims_slots_def free_slots_def)
next
  case (Cons x xs)
  have "claims_slots G (step_then (f x) (for_each f xs)) (K x @ concat (map K xs)) ({} \<union> {})"
    by (rule claims_then) (use Cons in auto)
  moreover have "for_each f (x # xs) = step_then (f x) (for_each f xs)" by (rule ext) simp
  ultimately show ?case by simp
qed

lemma claims_registerSecret: "claims_slots G (registerSecret path s) [SecretSlot s] {}"
  by (auto simp: claims_slots_def registerSecret_def free_slots_def taken_def split: option.splits)

lemma claims_registerVault: "claims_slots G (registerVault path i) [VaultSlot i] {}"
  by (auto simp: claims_slots_def registerVault_def free_slots_def taken_def split: option.splits)

lemma claims_registerGcp: "claims_slots G (registerGcp path v) [VaultSlot (''gcpkms'' @ nul @ v)] {}"
  by (auto simp: claims_slots_def registerGcp_def free_slots_def taken_def Let_def split: option.splits)

lemma claims_registerTmKMSKey: "claims_slots G (registerTmKMSKey path i) [TmkmsSlot i] {}"
  by (auto simp: claims_slots_def registerTmKMSKey_def free_slots_def taken_def split: option.splits)

lemma claims_registerSentrySecret: "claims_slots G (registerSentrySecret path s) [SentrySlot s] {}"
  by (auto simp: claims_slots_def registerSentrySecret_def free_slots_def taken_def split: option.splits)

lemma claims_registerGenesisValidator:
  "claims_slots G (registerGenesisValidator path jgv) [SecretSlot (gv_PrivKeySecret (snd jgv))]
     {gv_PrivKeySecret (snd jgv)}"
  by (auto simp: claims_slots_def registerGenesisValidator_def free_slots_def taken_def Let_def
      split: option.splits)

definition tmkms_slots :: "NodeSetValidatorConfig \<Rightarrow> key_slot list" where
  "tmkms_slots v =
     (case tmKMSSigningKeyIdentity (nv_TmKMS v) of Some i \<Rightarrow> [TmkmsSlot i] | None \<Rightarrow> []) @
     (case tmkmsNormalizedVaultKey (nv_TmKMS v) of Some i \<Rightarrow> [VaultSlot i] | None \<Rightarrow> [])"

lemma claims_registerTmKMS: "claims_slots G (registerTmKMS path v) (tmkms_slots v) {}"
proof -
  have "claims_slots G (registerTmKMS path v) (tmkms_slots v) ({} \<union> {})"
    unfolding registerTmKMS_def tmkms_slots_def
    by (rule claims_then)
      (auto split: option.splits intro: claims_skip claims_registerVault claims_registerTmKMSKey)
  then show ?thesis by simp
qed

lemma claims_registerGenesisValidators:
  "claims_slots G (registerGenesisValidators path ini) (map SecretSlot (genesisSecretsOf ini))
     (set (genesisSecretsOf ini))"
proof (cases ini)
  case None
  then show ?thesis by (simp add: registerGenesisValidators_def genesisSecretsOf_def claims_skip)
next
  case (Some c)
  let ?xs = "enumerate 0 (gc_GenesisValidators c)"
  have "claims_slots G (for_each (registerGenesisValidator path) ?xs)
      (concat (map (\<lambda>x. [SecretSlot (gv_PrivKeySecret (snd x))]) ?xs))
      (\<Union>x \<in> set ?xs. {gv_PrivKeySecret (snd x)})"
    by (rule claims_for_each) (rule claims_registerGenesisValidator)
  moreover have "concat (map (\<lambda>x. [SecretSlot (gv_PrivKeySecret (snd x))]) ys) =
      map SecretSlot (map gv_PrivKeySecret (map snd ys))" for ys :: "(nat \<times> GenesisValidator) list"
    by (induction ys) auto
  moreover have "(\<Union>x \<in> set ?xs. {gv_PrivKeySecret (snd x)}) = set (map gv_PrivKeySecret (map snd ?xs))"
    by (simp only: list.set_map image_image UNION_singleton_eq_range)
  ultimately show ?thesis
    by (simp only: registerGenesisValidators_def genesisSecretsOf_def option.case Some map_snd_enumerate)
qed

section \<open>The slots of validators and signers\<close>

definition validator_secrets :: "ChainNodeSet \<Rightarrow> NodeGroupSpec \<Rightarrow> NodeSetValidatorConfig \<Rightarrow> string list" where
  "validator_secrets ns g v =
     (case nv_PrivateKeySecret v of
        Some s \<Rightarrow> [s]
      | None \<Rightarrow> map (\<lambda>i. ns_name ns @ ''-'' @ ng_Name g @ ''-'' @ Itoa i @ ''-priv-key'')
          [0..(if groupCosmosigner ns (ng_Name g) \<noteq> None then 1 else GetInstances g) - 1])"

definition singleton_slots :: "ChainNodeSet \<Rightarrow> NodeSetValidatorConfig \<Rightarrow> key_slot list" where
  "singleton_slots ns v =
     (if usesLocalKey ns ReservedValidatorGroupName v
      then [SecretSlot (case nv_PrivateKeySecret v of Some s \<Rightarrow> s | None \<Rightarrow> ns_name ns @ ''-validator-priv-key'')]
      else []) @ tmkms_slots v @ map SecretSlot (genesisSecretsOf (nv_Init v))"

definition group_slots :: "ChainNodeSet \<Rightarrow> NodeGroupSpec \<Rightarrow> key_slot list" where
  "group_slots ns g =
     (case ng_Validator g of None \<Rightarrow> []
      | Some v \<Rightarrow> if GetInstances g = 0 then []
                 else (if usesLocalKey ns (ng_Name g) v then map SecretSlot (validator_secrets ns g v) else [])
                      @ tmkms_slots v @ map SecretSlot (genesisSecretsOf (nv_Init v)))"

definition group_genesis :: "NodeGroupSpec \<Rightarrow> string set" where
  "group_genesis g =
     (case ng_Validator g of None \<Rightarrow> {}
      | Some v \<Rightarrow> if GetInstances g = 0 then {} else set (genesisSecretsOf (nv_Init v)))"

definition signer_slots :: "string set \<Rightarrow> ResolvedSigner \<Rightarrow> key_slot list" where
  "signer_slots G s =
     (case rsg_Spec s of None \<Rightarrow> []
      | Some c \<Rightarrow>
        (case be_Vault (cs_Backend c) of
           Some v \<Rightarrow> if vb_Address v \<noteq> [] \<and> vb_KeyName v \<noteq> []
                    then [VaultSlot (normalizedVaultIdentity (vb_Address v) (vaultNamespace v)
                            (GetVaultMount v) (vb_KeyName v) (GetKeyVersion v))]
                    else []
         | None \<Rightarrow>
           (case be_GcpKMS (cs_Backend c) of
              Some g \<Rightarrow> (if gk_KeyVersion g \<noteq> [] then [VaultSlot (''gcpkms'' @ nul @ gk_KeyVersion g)] else []) @
                       (if gk_Import g \<noteq> None
                        then [VaultSlot (''gcpkms'' @ nul @ gcpImportIdentity (gk_Import g))] else [])
            | None \<Rightarrow>
              (case be_Software (cs_Backend c) of None \<Rightarrow> []
               | Some sw \<Rightarrow>
                   if TargetsValidator s then []
                   else (case sw_PrivateKeySecret sw of None \<Rightarrow> []
                         | Some x \<Rightarrow> SentrySlot x # (if x \<in> G then [] else [SecretSlot x]))))))"

definition registered_genesis :: "ChainNodeSet \<Rightarrow> string set" where
  "registered_genesis ns =
     (case ns_Validator (ns_Spec ns) of Some v \<Rightarrow> set (genesisSecretsOf (nv_Init v)) | None \<Rightarrow> {}) \<union>
     (\<Union>g \<in> set (ns_Nodes (ns_Spec ns)). group_genesis g)"

text \<open>Every slot that the validators and the managed signers of a set claim, in the order of the walk.\<close>

definition validator_slots :: "ChainNodeSet \<Rightarrow> key_slot list" where
  "validator_slots ns =
     (case ns_Validator (ns_Spec ns) of Some v \<Rightarrow> singleton_slots ns v | None \<Rightarrow> []) @
     concat (map (group_slots ns) (ns_Nodes (ns_Spec ns)))"

definition signing_key_slots :: "ChainNodeSet \<Rightarrow> key_slot list" where
  "signing_key_slots ns =
     validator_slots ns @ concat (map (signer_slots (registered_genesis ns)) (ResolveCosmosigners ns))"

lemma claims_genesis_tail:
  "claims_slots G (step_then (registerTmKMS path v) (registerGenesisValidators path ini))
     (tmkms_slots v @ map SecretSlot (genesisSecretsOf ini)) (set (genesisSecretsOf ini))"
  using claims_then [OF claims_registerTmKMS claims_registerGenesisValidators, of G path v path ini]
  by simp

lemma claims_singleton:
  "claims_slots G (registerSingletonValidator ns v) (singleton_slots ns v) (set (genesisSecretsOf (nv_Init v)))"
proof -
  have "claims_slots G (registerSingletonValidator ns v) (singleton_slots ns v)
      ({} \<union> set (genesisSecretsOf (nv_Init v)))"
    unfolding registerSingletonValidator_def singleton_slots_def
    by (rule claims_then) (auto intro: claims_skip claims_registerSecret claims_genesis_tail)
  then show ?thesis by simp
qed

lemma claims_validator_secrets:
  "claims_slots G
     (case nv_PrivateKeySecret v of
        Some s \<Rightarrow> registerSecret path s
      | None \<Rightarrow>
          let keyInstances = (if groupCosmosigner ns (ng_Name g) \<noteq> None then 1 else GetInstances g) in
          for_each (\<lambda>idx. registerSecret path
              (ns_name ns @ ''-'' @ ng_Name g @ ''-'' @ Itoa idx @ ''-priv-key'')) [0..keyInstances - 1])
     (map SecretSlot (validator_secrets ns g v)) {}"
proof (cases "nv_PrivateKeySecret v")
  case (Some s)
  then show ?thesis by (simp add: validator_secrets_def claims_registerSecret)
next
  case None
  let ?name = "\<lambda>idx. ns_name ns @ ''-'' @ ng_Name g @ ''-'' @ Itoa idx @ ''-priv-key''"
  let ?n = "(if groupCosmosigner ns (ng_Name g) \<noteq> None then 1 else GetInstances g) - 1"
  have "claims_slots G (for_each (\<lambda>idx. registerSecret path (?name idx)) [0..?n])
      (concat (map (\<lambda>idx. [SecretSlot (?name idx)]) [0..?n])) {}"
    by (rule claims_for_each_pure) (rule claims_registerSecret)
  moreover have "concat (map (\<lambda>idx. [SecretSlot (?name idx)]) xs) = map SecretSlot (map ?name xs)" for xs
    by (induction xs) auto
  ultimately show ?thesis using None by (simp only: validator_secrets_def Let_def option.case)
qed

lemma claims_group:
  "claims_slots G (registerGroupValidator ns ig) (group_slots ns (snd ig)) (group_genesis (snd ig))"
proof (cases "ng_Validator (snd ig)")
  case None
  then show ?thesis by (simp add: registerGroupValidator_def group_slots_def group_genesis_def claims_skip)
next
  case (Some v)
  show ?thesis
  proof (cases "GetInstances (snd ig) = 0")
    case True
    with Some show ?thesis
      by (simp add: registerGroupValidator_def group_slots_def group_genesis_def claims_skip)
  next
    case False
    let ?path = "''.spec.nodes['' @ Itoa (int (fst ig)) @ ''].validator''"
    have "claims_slots G
       (if \<not> usesLocalKey ns (ng_Name (snd ig)) v then Inr
        else case nv_PrivateKeySecret v of
             Some s \<Rightarrow> registerSecret ?path s
           | None \<Rightarrow>
               let keyInstances = (if groupCosmosigner ns (ng_Name (snd ig)) \<noteq> None then 1
                                   else GetInstances (snd ig)) in
               for_each (\<lambda>idx. registerSecret ?path
                   (ns_name ns @ ''-'' @ ng_Name (snd ig) @ ''-'' @ Itoa idx @ ''-priv-key''))
                 [0..keyInstances - 1])
       (if usesLocalKey ns (ng_Name (snd ig)) v then map SecretSlot (validator_secrets ns (snd ig) v) else []) {}"
      using claims_skip claims_validator_secrets by simp
    from claims_then [OF this claims_genesis_tail, of ?path v "nv_Init v"] Some False show ?thesis
      by (simp only: registerGroupValidator_def group_slots_def group_genesis_def Let_def option.case
          if_False Un_empty_left)
  qed
qed

lemma claims_sentry:
  "claims_slots G
     (step_then (registerSentrySecret path x)
        (\<lambda>r. if x \<in> kr_genesisValidatorSecrets r then Inr r else registerSecret path' x r))
     (SentrySlot x # (if x \<in> G then [] else [SecretSlot x])) {}"
proof -
  have "claims_slots (G \<union> {}) (\<lambda>r. if x \<in> kr_genesisValidatorSecrets r then Inr r else registerSecret path' x r)
     (if x \<in> G then [] else [SecretSlot x]) {}"
    using claims_registerSecret [of G path' x] by (auto simp: claims_slots_def free_slots_def)
  from claims_then [OF claims_registerSentrySecret this, of path] show ?thesis by simp
qed

lemma claims_signer: "claims_slots G (registerSigner ns s) (signer_slots G s) {}"
proof -
  have gcp: "claims_slots G
      (step_then (if P then registerGcp a x else Inr) (if Q then registerGcp b y else Inr))
      ((if P then [VaultSlot (''gcpkms'' @ nul @ x)] else []) @ (if Q then [VaultSlot (''gcpkms'' @ nul @ y)] else []))
      {}" for P Q a b x y
  proof -
    have "claims_slots G
      (step_then (if P then registerGcp a x else Inr) (if Q then registerGcp b y else Inr))
      ((if P then [VaultSlot (''gcpkms'' @ nul @ x)] else []) @ (if Q then [VaultSlot (''gcpkms'' @ nul @ y)] else []))
      ({} \<union> {})"
      by (rule claims_then) (auto intro: claims_registerGcp [simplified] claims_skip)
    then show ?thesis by simp
  qed
  have vault: "claims_slots G (if P then registerVault a x else Inr) (if P then [VaultSlot x] else []) {}" for P a x
    by (simp add: claims_registerVault claims_skip)
  show ?thesis
  proof (cases "rsg_Spec s")
    case None
    then show ?thesis by (simp add: registerSigner_def signer_slots_def claims_skip)
  next
    case (Some c)
    note defs = registerSigner_def signer_slots_def Let_def option.case Some
    consider v where "be_Vault (cs_Backend c) = Some v"
      | g where "be_Vault (cs_Backend c) = None" "be_GcpKMS (cs_Backend c) = Some g"
      | "be_Vault (cs_Backend c) = None" "be_GcpKMS (cs_Backend c) = None" by fastforce
    then show ?thesis
    proof cases
      case (1 v)
      then show ?thesis using vault by (simp only: defs vaultNamespace_def)
    next
      case (2 g)
      then show ?thesis using gcp by (simp only: defs GcpImportsKey_def) simp
    next
      case 3
      show ?thesis
      proof (cases "\<exists>sw x. be_Software (cs_Backend c) = Some sw \<and> \<not> TargetsValidator s \<and>
          sw_PrivateKeySecret sw = Some x")
        case True
        then show ?thesis using 3 claims_sentry by (auto simp only: defs if_False)
      next
        case False
        then show ?thesis using 3 by (auto simp: defs claims_skip split: option.splits)
      qed
    qed
  qed
qed

lemma claims_signing_keys:
  "claims_slots {} (registerSigningKeys ns) (signing_key_slots ns) (registered_genesis ns)"
proof -
  let ?nodes = "enumerate 0 (ns_Nodes (ns_Spec ns))"
  let ?v = "case ns_Validator (ns_Spec ns) of Some v \<Rightarrow> registerSingletonValidator ns v | None \<Rightarrow> Inr"
  let ?G = "case ns_Validator (ns_Spec ns) of Some v \<Rightarrow> set (genesisSecretsOf (nv_Init v)) | None \<Rightarrow> {}"
  have v: "claims_slots {} ?v
      (case ns_Validator (ns_Spec ns) of Some v \<Rightarrow> singleton_slots ns v | None \<Rightarrow> []) ?G"
    by (auto intro: claims_skip claims_singleton split: option.splits)
  have g: "claims_slots ({} \<union> ?G) (for_each (registerGroupValidator ns) ?nodes)
      (concat (map (\<lambda>ig. group_slots ns (snd ig)) ?nodes)) (\<Union>ig \<in> set ?nodes. group_genesis (snd ig))"
    by (rule claims_for_each) (rule claims_group)
  have s: "claims_slots H (for_each (registerSigner ns) (ResolveCosmosigners ns))
      (concat (map (signer_slots H) (ResolveCosmosigners ns))) {}" for H
    by (rule claims_for_each_pure) (rule claims_signer)
  have nodes: "map (\<lambda>ig. group_slots ns (snd ig)) ?nodes = map (group_slots ns) (ns_Nodes (ns_Spec ns))"
    using map_map [of "group_slots ns" snd ?nodes] by (simp add: comp_def)
  have "(\<Union>ig \<in> set ?nodes. group_genesis (snd ig)) = (\<Union>g \<in> snd ` set ?nodes. group_genesis g)" by simp
  then have gen: "(\<Union>ig \<in> set ?nodes. group_genesis (snd ig)) = (\<Union>g \<in> set (ns_Nodes (ns_Spec ns)). group_genesis g)"
    by (simp only: snd_image_enumerate)
  from claims_then [OF v claims_then [OF g s]] show ?thesis
    by (simp add: registerSigningKeys_def signing_key_slots_def validator_slots_def registered_genesis_def nodes gen)
qed

text \<open>C17: The uniqueness check accepts a ChainNodeSet exactly when no key slot is claimed twice by
  its running validators, genesis validators and managed signers: no local key secret, tmKMS key, Vault
  or Cloud KMS key, or sentry key secret.\<close>

theorem validateUniqueSigningKeys_iff:
  "validateUniqueSigningKeys ns = None \<longleftrightarrow> distinct (signing_key_slots ns)"
proof -
  have [simp]: "taken emptyRegistry = {}" by (simp add: taken_def emptyRegistry_def)
  have "case registerSigningKeys ns emptyRegistry of Inl e \<Rightarrow> \<not> free_slots (signing_key_slots ns) emptyRegistry
      | Inr r \<Rightarrow> free_slots (signing_key_slots ns) emptyRegistry"
    using claims_signing_keys [of ns, unfolded claims_slots_def, rule_format, of emptyRegistry]
    by (simp add: emptyRegistry_def split: sum.splits)
  then show ?thesis
    by (auto simp: validateUniqueSigningKeys_def free_slots_def split: sum.splits)
qed

end
