(* ===== verification/Signer_Admission.thy ===== *)
theory Signer_Admission
  imports Signing_Keys
begin

text \<open>
  The admission rules for managed signers in \<open>src/api/v1/chainnodeset_webhook.go\<close>: the names of node
  groups, the shape of the top-level and of the per-group signer blocks
  (\<open>validateTopLevelCosmosigner\<close>, \<open>validateGroupCosmosigner\<close>), the backend and target rules of a resolved
  signer (\<open>validateResolvedSigner\<close>) and the part of \<open>validateCosmosigner\<close> that composes them.

  \<open>old\<close> is the previous revision, absent on create and where webhooks are disabled. A nil dereference of
  the source is the error \<open>NilDereference\<close>.
\<close>

datatype AdmissionError =
    GroupNameEmpty nat
  | GroupNameReserved nat
  | GroupNameDuplicate nat nat
  | SignerNameDuplicate string string string
  | GroupServiceCollision nat string
  | InvalidSigner string SignerError
  | NodeGroupsRequired
  | SignerAndTmKMS string
  | NodeGroupListedTwice nat string
  | NoSingletonValidator nat string
  | NoSuchGroup nat string
  | GroupWithoutInstances string string
  | MoreThanOneValidator
  | SentryNeedsSecret string
  | SentryCannotImport string
  | UploadNeedsVersionOne string
  | ValidatorSignerHasSecret string
  | SignerMustUseRegisteredKey string
  | ImportNeedsSource string
  | SoftwareNeedsSecret string
  | TargetSignedTwice TargetError
  | NilDereference

section \<open>Group names\<close>

type_synonym group_index = "string \<rightharpoonup> nat"

definition checkGroupName :: "nat \<times> NodeGroupSpec \<Rightarrow> (AdmissionError, group_index) checked" where
  "checkGroupName ig seen =
     (if ng_Name (snd ig) = [] then Inl (GroupNameEmpty (fst ig))
      else if ng_Name (snd ig) = ReservedValidatorGroupName then Inl (GroupNameReserved (fst ig))
      else case seen (ng_Name (snd ig)) of
             Some prev \<Rightarrow> Inl (GroupNameDuplicate (fst ig) prev)
           | None \<Rightarrow> Inr (seen(ng_Name (snd ig) \<mapsto> fst ig)))"

definition validateGroupNames :: "ChainNodeSet \<Rightarrow> AdmissionError option" where
  "validateGroupNames ns =
     (case for_each checkGroupName (enumerate 0 (ns_Nodes (ns_Spec ns))) Map.empty of
        Inl e \<Rightarrow> Some e | Inr _ \<Rightarrow> None)"

section \<open>Signer names\<close>

definition registerSignerName ::
    "ChainNodeSet \<Rightarrow> ResolvedSigner \<Rightarrow> (AdmissionError, string \<rightharpoonup> string) checked" where
  "registerSignerName ns s names =
     (case names (rsg_Name s) of
        Some prev \<Rightarrow> Inl (SignerNameDuplicate (signerFieldPath ns s) (rsg_Name s) prev)
      | None \<Rightarrow> Inr (names(rsg_Name s \<mapsto> signerFieldPath ns s)))"

definition checkGroupService ::
    "ChainNodeSet \<Rightarrow> nat \<times> NodeGroupSpec \<Rightarrow> (AdmissionError, string \<rightharpoonup> string) checked" where
  "checkGroupService ns ig names =
     (let groupService = ns_name ns @ ''-'' @ ng_Name (snd ig) in
      if names groupService \<noteq> None then Inl (GroupServiceCollision (fst ig) groupService)
      else if HasSuffix groupService ''-privval'' \<and> names (TrimSuffix groupService ''-privval'') \<noteq> None
      then Inl (GroupServiceCollision (fst ig) groupService)
      else Inr names)"

definition validateSignerNames :: "ChainNodeSet \<Rightarrow> AdmissionError option" where
  "validateSignerNames ns =
     (case step_then (for_each (registerSignerName ns) (ResolveCosmosigners ns))
             (for_each (checkGroupService ns) (enumerate 0 (ns_Nodes (ns_Spec ns)))) Map.empty of
        Inl e \<Rightarrow> Some e | Inr _ \<Rightarrow> None)"

section \<open>Shape of the signer blocks\<close>

text \<open>The loop over \<open>nodeGroups\<close> keeps the names it has seen and the number of validator targets.\<close>

record target_scan =
  ts_seen :: "string set"
  ts_validatorTargets :: nat

definition scanTarget ::
    "ChainNodeSet \<Rightarrow> (string \<rightharpoonup> NodeGroupSpec) \<Rightarrow> nat \<times> string \<Rightarrow> (AdmissionError, target_scan) checked" where
  "scanTarget ns groups iname t =
     (let i = fst iname; name = snd iname;
          t' = t\<lparr>ts_seen := insert name (ts_seen t)\<rparr>;
          counted = t'\<lparr>ts_validatorTargets := Suc (ts_validatorTargets t)\<rparr> in
      if name \<in> ts_seen t then Inl (NodeGroupListedTwice i name)
      else if name = ReservedValidatorGroupName then
        (case ns_Validator (ns_Spec ns) of
           None \<Rightarrow> Inl (NoSingletonValidator i name)
         | Some v \<Rightarrow> if nv_TmKMS v \<noteq> None then Inl (SignerAndTmKMS ''.spec.validator'') else Inr counted)
      else
        (case groups name of
           None \<Rightarrow> Inl (NoSuchGroup i name)
         | Some g \<Rightarrow>
             if GetInstances g = 0 then Inl (GroupWithoutInstances ''.spec.cosmosigner'' name)
             else case ng_Validator g of
                    None \<Rightarrow> Inr t'
                  | Some v \<Rightarrow> if nv_TmKMS v \<noteq> None then Inl (SignerAndTmKMS name) else Inr counted))"

definition validateTopLevelCosmosigner ::
    "(string \<Rightarrow> quantity option) \<Rightarrow> ChainNodeSet \<Rightarrow> Cosmosigner \<Rightarrow> AdmissionError option" where
  "validateTopLevelCosmosigner parseQty ns c =
     and_then (map_option (\<lambda>(p, e). InvalidSigner p e) (Validate parseQty (Some c) ''.spec.cosmosigner'' True))
     (if cs_NodeGroups c = [] then
        (case ns_Validator (ns_Spec ns) of
           None \<Rightarrow> Some NodeGroupsRequired
         | Some v \<Rightarrow> if nv_TmKMS v \<noteq> None then Some (SignerAndTmKMS ''.spec.validator'') else None)
      else
        (case for_each (scanTarget ns (fold (\<lambda>g m. m(ng_Name g \<mapsto> g)) (ns_Nodes (ns_Spec ns)) Map.empty))
                (enumerate 0 (cs_NodeGroups c)) \<lparr>ts_seen = {}, ts_validatorTargets = 0\<rparr> of
           Inl e \<Rightarrow> Some e
         | Inr t \<Rightarrow> if ts_validatorTargets t > 1 then Some MoreThanOneValidator else None))"

definition validateGroupCosmosigner ::
    "(string \<Rightarrow> quantity option) \<Rightarrow> nat \<Rightarrow> NodeGroupSpec \<Rightarrow> AdmissionError option" where
  "validateGroupCosmosigner parseQty i g =
     (let path = ''.spec.nodes['' @ Itoa (int i) @ ''].cosmosigner'' in
      and_then (map_option (\<lambda>(p, e). InvalidSigner p e) (Validate parseQty (ng_Cosmosigner g) path False))
      (if GetInstances g = 0 then Some (GroupWithoutInstances path (ng_Name g))
       else case ng_Validator g of
              None \<Rightarrow> None
            | Some v \<Rightarrow> if nv_TmKMS v \<noteq> None then Some (SignerAndTmKMS path) else None))"

section \<open>Rules of a resolved signer\<close>

definition registrationRecorded :: "ResolvedSigner \<Rightarrow> ChainNodeSet \<Rightarrow> bool" where
  "registrationRecorded s candidate =
     list_ex (\<lambda>v. vst_Group v = rsg_ValidatorGroup s \<and> vst_Address v \<noteq> [] \<and> vst_PubKey v \<noteq> [] \<and>
        vst_Status v \<noteq> []) (nss_Validators (ns_Status candidate))"

definition migrationWaiver ::
    "(string \<Rightarrow> string) \<Rightarrow> ChainNodeSet option \<Rightarrow> ChainNodeSet \<Rightarrow> ResolvedSigner \<Rightarrow> bool" where
  "migrationWaiver H old ns s =
     (case old of
        Some o' \<Rightarrow> if nss_ChainID (ns_Status o') \<noteq> [] then registrationRecorded s o' else False
      | None \<Rightarrow>
          if nss_ChainID (ns_Status ns) \<noteq> [] then
            registrationRecorded s ns \<and>
            (case GetCosmosignerStatus ns (rsg_Name s) of None \<Rightarrow> False
             | Some st \<Rightarrow> st_SigningDigest st \<noteq> [] \<and> st_SigningDigest st = Digest H s)
          else False)"

definition explicit :: "string option \<Rightarrow> bool" where
  "explicit s = (case s of None \<Rightarrow> False | Some x \<Rightarrow> x \<noteq> [])"

definition softwareSecret :: "Cosmosigner option \<Rightarrow> string option" where
  "softwareSecret c = Option.bind c (\<lambda>s. Option.bind (be_Software (cs_Backend s)) sw_PrivateKeySecret)"

definition vaultUpload :: "Cosmosigner option \<Rightarrow> bool" where
  "vaultUpload c = (case Option.bind c (\<lambda>s. be_Vault (cs_Backend s)) of None \<Rightarrow> False
      | Some v \<Rightarrow> vb_UploadGenerated v)"

definition vaultKeyVersion :: "Cosmosigner option \<Rightarrow> int" where
  "vaultKeyVersion c = (case Option.bind c (\<lambda>s. be_Vault (cs_Backend s)) of None \<Rightarrow> 0
      | Some v \<Rightarrow> GetKeyVersion v)"

definition validateResolvedSigner ::
    "(string \<Rightarrow> string) \<Rightarrow> ChainNodeSet option \<Rightarrow> ChainNodeSet \<Rightarrow> ResolvedSigner \<Rightarrow> AdmissionError option" where
  "validateResolvedSigner H old ns s =
     (let c = rsg_Spec s; path = signerFieldPath ns s in
      if rsg_ValidatorGroup s = [] then
        (if UsesSoftwareBackend c \<and> \<not> explicit (softwareSecret c) then Some (SentryNeedsSecret path)
         else if UsesVaultBackend c \<and> vaultUpload c then Some (SentryCannotImport path)
         else if GcpImportsKey c then Some (SentryCannotImport path)
         else None)
      else case validatorConfigForGroup ns (rsg_ValidatorGroup s) of
        None \<Rightarrow>
          if \<not> UsesVaultBackend c \<and> UsesSoftwareBackend c \<and> explicit (softwareSecret c)
          then Some (ValidatorSignerHasSecret path) else Some NilDereference
      | Some v \<Rightarrow>
          let registers = (nv_Init v \<noteq> None \<or> nv_CreateValidator v \<noteq> None);
              hasExplicitKey = explicit (nv_PrivateKeySecret v) in
          if UsesVaultBackend c \<and> VaultUploadsGenerated c (nv_Init v \<noteq> None) \<and> vaultKeyVersion c \<noteq> 1
          then Some (UploadNeedsVersionOne path)
          else if UsesSoftwareBackend c \<and> explicit (softwareSecret c)
          then Some (ValidatorSignerHasSecret path)
          else if registers \<and> \<not> migrationWaiver H old ns s \<and>
             \<not> (UsesSoftwareBackend c \<or> ImportsGeneratedKey c (nv_Init v \<noteq> None))
          then Some (SignerMustUseRegisteredKey path)
          else if UsesVaultBackend c \<and> vaultUpload c \<and> \<not> registers \<and> \<not> hasExplicitKey
          then Some (ImportNeedsSource path)
          else if GcpImportsKey c \<and> \<not> registers \<and> \<not> hasExplicitKey then Some (ImportNeedsSource path)
          else if UsesSoftwareBackend c \<and> \<not> registers \<and> \<not> hasExplicitKey
          then Some (SoftwareNeedsSecret path)
          else None)"

section \<open>Composition\<close>

definition validateSignerShapes :: "(string \<Rightarrow> quantity option) \<Rightarrow> ChainNodeSet \<Rightarrow> AdmissionError option" where
  "validateSignerShapes parseQty ns =
     and_then
       (case ns_Cosmosigner (ns_Spec ns) of None \<Rightarrow> None
        | Some c \<Rightarrow> validateTopLevelCosmosigner parseQty ns c)
       (first_error (\<lambda>(i, g). if ng_Cosmosigner g = None then None
                              else validateGroupCosmosigner parseQty i g)
         (enumerate 0 (ns_Nodes (ns_Spec ns))))"

definition validateSignerRules ::
    "(string \<Rightarrow> string) \<Rightarrow> (string \<Rightarrow> quantity option) \<Rightarrow> ChainNodeSet option \<Rightarrow> ChainNodeSet \<Rightarrow> AdmissionError option"
    where
  "validateSignerRules H parseQty old ns =
     and_then (validateSignerShapes parseQty ns)
     (and_then (first_error (validateResolvedSigner H old ns) (ResolveCosmosigners ns))
       (map_option TargetSignedTwice (validateCosmosignerTargetUniqueness ns)))"

end
