(* ===== verification/Signing_Safety.thy ===== *)
theory Signing_Safety
  imports Signer_Admission
begin

text \<open>
  What the admission rules guarantee together: in an admitted ChainNodeSet no node group is dialled by
  two managed signers, and no two managed signers sign with the same consensus key.
\<close>

section \<open>Group names\<close>

lemma checkGroupNames_ok:
  "(\<exists>t. for_each checkGroupName (enumerate n gs) seen = Inr t) \<longleftrightarrow>
     distinct (map ng_Name gs) \<and> set (map ng_Name gs) \<inter> (dom seen \<union> {[], ReservedValidatorGroupName}) = {}"
proof (induction gs arbitrary: n seen)
  case Nil
  then show ?case by simp
next
  case (Cons g gs)
  show ?case
  proof (cases "ng_Name g = [] \<or> ng_Name g = ReservedValidatorGroupName \<or> ng_Name g \<in> dom seen")
    case True
    then show ?thesis by (auto simp: step_then_def checkGroupName_def)
  next
    case False
    then have "checkGroupName (n, g) seen = Inr (seen(ng_Name g \<mapsto> n))"
      by (auto simp: checkGroupName_def split: option.splits)
    then have "for_each checkGroupName (enumerate n (g # gs)) seen =
        for_each checkGroupName (enumerate (Suc n) gs) (seen(ng_Name g \<mapsto> n))"
      by (simp add: step_then_def)
    moreover have "dom (seen(ng_Name g \<mapsto> n)) = insert (ng_Name g) (dom seen)" by simp
    ultimately show ?thesis using False by (simp only: Cons.IH) auto
  qed
qed

lemma validateGroupNames_iff:
  "validateGroupNames ns = None \<longleftrightarrow>
     distinct (map ng_Name (ns_Nodes (ns_Spec ns))) \<and>
     (\<forall>g \<in> set (ns_Nodes (ns_Spec ns)). ng_Name g \<noteq> [] \<and> ng_Name g \<noteq> ReservedValidatorGroupName)"
proof -
  have "validateGroupNames ns = None \<longleftrightarrow>
      (\<exists>t. for_each checkGroupName (enumerate 0 (ns_Nodes (ns_Spec ns))) Map.empty = Inr t)"
    by (auto simp: validateGroupNames_def split: sum.splits)
  then show ?thesis unfolding checkGroupNames_ok by (force simp: disjoint_iff)
qed

lemma distinct_names_unique:
  assumes "distinct (map f xs)" "x \<in> set xs" "y \<in> set xs" "f x = f y"
  shows "x = y"
  using assms by (auto simp: distinct_map inj_on_def)

lemma find_distinct_name:
  assumes "distinct (map f xs)" "x \<in> set xs" "P x"
  shows "find (\<lambda>y. f y = f x \<and> P y) xs = Some x"
  using assms by (induction xs) (auto simp: image_iff)

lemma Itoa_0: "Itoa 0 = ''0''"
  by code_simp

section \<open>Signer targets\<close>

definition disjoint_targets :: "ResolvedSigner \<Rightarrow> ResolvedSigner \<Rightarrow> bool" where
  "disjoint_targets s t \<longleftrightarrow> set (rsg_TargetGroups s) \<inter> set (rsg_TargetGroups t) = {}"

definition groupSigners :: "ChainNodeSet \<Rightarrow> NodeGroupSpec list \<Rightarrow> ResolvedSigner list" where
  "groupSigners ns gs =
     concat (map (\<lambda>g. case ng_Cosmosigner g of None \<Rightarrow> [] | Some c \<Rightarrow> resolveGroupSigners ns g c) gs)"

definition groupSigner :: "ChainNodeSet \<Rightarrow> NodeGroupSpec \<Rightarrow> Cosmosigner \<Rightarrow> ResolvedSigner" where
  "groupSigner ns g c =
     (let vg = (if ng_Validator g = None then [] else ng_Name g) in
      \<lparr>rsg_Name = ns_name ns @ ''-'' @ ng_Name g @ ''-signer'', rsg_Spec = Some c,
       rsg_Origin = GroupBlock, rsg_TargetGroups = [ng_Name g], rsg_ValidatorGroup = vg,
       rsg_SoftwareKeySecret = resolveSignerKeySecret ns c vg\<rparr>)"

lemma resolveGroupSigners_eq: "resolveGroupSigners ns g c = [groupSigner ns g c]"
  by (simp add: resolveGroupSigners_def groupSigner_def Let_def)

lemma groupSigner_simps [simp]:
  "rsg_Spec (groupSigner ns g c) = Some c"
  "rsg_TargetGroups (groupSigner ns g c) = [ng_Name g]"
  "rsg_ValidatorGroup (groupSigner ns g c) = (if ng_Validator g = None then [] else ng_Name g)"
  "rsg_SoftwareKeySecret (groupSigner ns g c) =
     resolveSignerKeySecret ns c (if ng_Validator g = None then [] else ng_Name g)"
  by (simp_all add: groupSigner_def Let_def)

lemma groupSigners_simps [simp]:
  "groupSigners ns [] = []"
  "groupSigners ns (g # gs) =
     (case ng_Cosmosigner g of None \<Rightarrow> [] | Some c \<Rightarrow> [groupSigner ns g c]) @ groupSigners ns gs"
  by (simp_all add: groupSigners_def resolveGroupSigners_eq split: option.split)

lemma groupSigners_mem:
  "s \<in> set (groupSigners ns gs) \<longleftrightarrow> (\<exists>g \<in> set gs. \<exists>c. ng_Cosmosigner g = Some c \<and> s = groupSigner ns g c)"
proof (induction gs)
  case (Cons g gs)
  then show ?case by (cases "ng_Cosmosigner g") auto
qed simp

lemma groupSigners_all:
  "(\<forall>t \<in> set (groupSigners ns gs). P t) \<longleftrightarrow>
     (\<forall>g \<in> set gs. \<forall>c. ng_Cosmosigner g = Some c \<longrightarrow> P (groupSigner ns g c))"
  by (induction gs) (auto split: option.splits)

lemma ResolveCosmosigners_eq:
  "ResolveCosmosigners ns =
     (case ns_Cosmosigner (ns_Spec ns) of Some c \<Rightarrow> [resolveTopLevelSigner ns c] | None \<Rightarrow> []) @
     groupSigners ns (ns_Nodes (ns_Spec ns))"
  by (simp add: ResolveCosmosigners_def groupSigners_def)

lemma ResolveCosmosigners_mem:
  "s \<in> set (ResolveCosmosigners ns) \<longleftrightarrow>
     (\<exists>c. ns_Cosmosigner (ns_Spec ns) = Some c \<and> s = resolveTopLevelSigner ns c) \<or>
     (\<exists>g \<in> set (ns_Nodes (ns_Spec ns)). \<exists>c. ng_Cosmosigner g = Some c \<and> s = groupSigner ns g c)"
  by (cases "ns_Cosmosigner (ns_Spec ns)") (auto simp: ResolveCosmosigners_eq groupSigners_mem)

lemma groupSigners_disjoint:
  "distinct (map ng_Name gs) \<Longrightarrow> sorted_wrt disjoint_targets (groupSigners ns gs)"
proof (induction gs)
  case (Cons g gs)
  then show ?case
    by (auto simp: sorted_wrt_append groupSigners_mem disjoint_targets_def split: option.split)
qed simp

lemma topLevel_targets:
  assumes "ns_Cosmosigner (ns_Spec ns) = Some c"
  shows "set (rsg_TargetGroups (resolveTopLevelSigner ns c)) = topTargets ns"
  using assms by (simp add: resolveTopLevelSigner_def topTargets_def Let_def)

lemma targetUniqueness_iff:
  "validateCosmosignerTargetUniqueness ns = None \<longleftrightarrow>
     (\<forall>g \<in> set (ns_Nodes (ns_Spec ns)). ng_Cosmosigner g \<noteq> None \<longrightarrow> ng_Name g \<notin> topTargets ns)"
proof -
  have "validateCosmosignerTargetUniqueness ns = None \<longleftrightarrow>
     (\<forall>g \<in> snd ` set (enumerate 0 (ns_Nodes (ns_Spec ns))). ng_Cosmosigner g \<noteq> None \<longrightarrow> ng_Name g \<notin> topTargets ns)"
    by (auto simp: validateCosmosignerTargetUniqueness_def first_error_None_iff split: if_splits)
  then show ?thesis by (simp only: snd_image_enumerate)
qed

lemma signer_targets_iff:
  assumes "distinct (map ng_Name (ns_Nodes (ns_Spec ns)))"
  shows "validateCosmosignerTargetUniqueness ns = None \<longleftrightarrow> sorted_wrt disjoint_targets (ResolveCosmosigners ns)"
proof -
  have gs: "sorted_wrt disjoint_targets (groupSigners ns (ns_Nodes (ns_Spec ns)))"
    using assms by (rule groupSigners_disjoint)
  show ?thesis
  proof (cases "ns_Cosmosigner (ns_Spec ns)")
    case None
    then show ?thesis using gs by (auto simp: targetUniqueness_iff topTargets_def ResolveCosmosigners_eq)
  next
    case (Some c)
    have "(\<forall>t \<in> set (groupSigners ns (ns_Nodes (ns_Spec ns))). disjoint_targets (resolveTopLevelSigner ns c) t)
      \<longleftrightarrow> (\<forall>g \<in> set (ns_Nodes (ns_Spec ns)). ng_Cosmosigner g \<noteq> None \<longrightarrow> ng_Name g \<notin> topTargets ns)"
      by (auto simp: groupSigners_all disjoint_targets_def topLevel_targets [OF Some])
    then show ?thesis using gs Some by (simp add: targetUniqueness_iff ResolveCosmosigners_eq)
  qed
qed

lemma signer_targets_disjoint:
  assumes "distinct (map ng_Name (ns_Nodes (ns_Spec ns)))" "validateCosmosignerTargetUniqueness ns = None"
  shows "sorted_wrt disjoint_targets (ResolveCosmosigners ns)"
  using assms signer_targets_iff by blast

text \<open>With distinct group names, the target check accepts a set exactly when no node group is
  dialled by two of its managed signers.\<close>

theorem validateCosmosignerTargetUniqueness_iff:
  assumes "distinct (map ng_Name (ns_Nodes (ns_Spec ns)))"
  shows "validateCosmosignerTargetUniqueness ns = None \<longleftrightarrow>
    sorted_wrt (\<lambda>s t. set (rsg_TargetGroups s) \<inter> set (rsg_TargetGroups t) = {}) (ResolveCosmosigners ns)"
  using signer_targets_iff [OF assms] unfolding disjoint_targets_def .

section \<open>Validators as units\<close>

text \<open>The validators of a set: the singleton \<open>.spec.validator\<close> and every node group.\<close>

type_synonym validator_unit = "NodeSetValidatorConfig + NodeGroupSpec"

definition units :: "ChainNodeSet \<Rightarrow> validator_unit list" where
  "units ns = (case ns_Validator (ns_Spec ns) of Some v \<Rightarrow> [Inl v] | None \<Rightarrow> []) @
     map Inr (ns_Nodes (ns_Spec ns))"

fun unit_name :: "validator_unit \<Rightarrow> string" where
  "unit_name (Inl v) = ReservedValidatorGroupName"
| "unit_name (Inr g) = ng_Name g"

fun unit_keys :: "ChainNodeSet \<Rightarrow> validator_unit \<Rightarrow> string list" where
  "unit_keys ns (Inl v) =
     (if usesLocalKey ns ReservedValidatorGroupName v
      then [case nv_PrivateKeySecret v of Some s \<Rightarrow> s | None \<Rightarrow> ns_name ns @ ''-validator-priv-key''] else [])"
| "unit_keys ns (Inr g) =
     (case ng_Validator g of None \<Rightarrow> []
      | Some v \<Rightarrow> if GetInstances g \<noteq> 0 \<and> usesLocalKey ns (ng_Name g) v then validator_secrets ns g v else [])"

fun unit_genesis :: "validator_unit \<Rightarrow> string list" where
  "unit_genesis (Inl v) = genesisSecretsOf (nv_Init v)"
| "unit_genesis (Inr g) =
     (case ng_Validator g of None \<Rightarrow> []
      | Some v \<Rightarrow> if GetInstances g = 0 then [] else genesisSecretsOf (nv_Init v))"

fun unit_slots :: "ChainNodeSet \<Rightarrow> validator_unit \<Rightarrow> key_slot list" where
  "unit_slots ns (Inl v) = singleton_slots ns v"
| "unit_slots ns (Inr g) = group_slots ns g"

lemma validator_slots_units: "validator_slots ns = concat (map (unit_slots ns) (units ns))"
  by (auto simp: validator_slots_def units_def comp_def split: option.split)

lemma registered_genesis_units: "registered_genesis ns = (\<Union>u \<in> set (units ns). set (unit_genesis u))"
proof -
  have "group_genesis g = set (unit_genesis (Inr g))" for g
    by (simp add: group_genesis_def split: option.split)
  then show ?thesis by (cases "ns_Validator (ns_Spec ns)") (auto simp: registered_genesis_def units_def)
qed

lemma unit_slots_split:
  "\<exists>T. unit_slots ns u = map SecretSlot (unit_keys ns u) @ T @ map SecretSlot (unit_genesis u)"
  by (cases u) (auto simp: singleton_slots_def group_slots_def split: option.split)

lemma distinct_concat_map_disjoint:
  assumes "distinct (concat (map f xs))" "x \<in> set xs" "y \<in> set xs" "x \<noteq> y"
  shows "set (f x) \<inter> set (f y) = {}"
  using assms by (induction xs) (auto simp: disjoint_iff)

lemma distinct_concat_map_mem:
  assumes "distinct (concat (map f xs))" "x \<in> set xs"
  shows "distinct (f x)"
  using assms by (induction xs) auto

lemma unit_key_unique:
  assumes d: "distinct (validator_slots ns)" and u: "u \<in> set (units ns)" "x \<in> set (unit_keys ns u)"
  shows "w \<in> set (units ns) \<Longrightarrow> x \<in> set (unit_keys ns w) \<Longrightarrow> u = w" "x \<notin> registered_genesis ns"
proof -
  have dis: "u' = w'" if "u' \<in> set (units ns)" "w' \<in> set (units ns)"
      "SecretSlot x \<in> set (unit_slots ns u')" "SecretSlot x \<in> set (unit_slots ns w')" for u' w'
    using d that distinct_concat_map_disjoint [of "unit_slots ns" "units ns" u' w']
    unfolding validator_slots_units by blast
  have key: "SecretSlot x \<in> set (unit_slots ns w')" if "x \<in> set (unit_keys ns w') \<or> x \<in> set (unit_genesis w')" for w'
    using that unit_slots_split [of ns w'] by auto
  show "u = w" if "w \<in> set (units ns)" "x \<in> set (unit_keys ns w)"
    using dis key u that by blast
  show "x \<notin> registered_genesis ns"
  proof
    assume "x \<in> registered_genesis ns"
    then obtain w where w: "w \<in> set (units ns)" "x \<in> set (unit_genesis w)"
      unfolding registered_genesis_units by auto
    then have "u = w" using dis key u by blast
    obtain T where T: "unit_slots ns u = map SecretSlot (unit_keys ns u) @ T @ map SecretSlot (unit_genesis u)"
      using unit_slots_split by blast
    have "distinct (unit_slots ns u)"
      using d u(1) unfolding validator_slots_units by (rule distinct_concat_map_mem)
    moreover have "SecretSlot x \<in> set (map SecretSlot (unit_keys ns u))" using u(2) by simp
    moreover have "SecretSlot x \<in> set (T @ map SecretSlot (unit_genesis u))"
      using w(2) \<open>u = w\<close> by simp
    ultimately show False unfolding T distinct_append by blast
  qed
qed

section \<open>The validator a signer serves\<close>

lemma for_each_ok:
  "for_each f xs s = Inr t \<Longrightarrow> x \<in> set xs \<Longrightarrow> \<exists>u u'. f x u = Inr u'"
  by (induction xs arbitrary: s) (auto simp: step_then_def split: sum.splits)

definition has_validator :: "ChainNodeSet \<Rightarrow> string \<Rightarrow> bool" where
  "has_validator ns n \<longleftrightarrow> (n = ReservedValidatorGroupName \<and> ns_Validator (ns_Spec ns) \<noteq> None) \<or>
     (\<exists>g \<in> set (ns_Nodes (ns_Spec ns)). ng_Name g = n \<and> ng_Validator g \<noteq> None)"

lemma topLevelValidatorStep_cases:
  "topLevelValidatorStep ns n vg = vg \<or> topLevelValidatorStep ns n vg = n \<and> has_validator ns n"
proof -
  have "fold (\<lambda>g vg. if ng_Name g = n \<and> ng_Validator g \<noteq> None then n else vg) gs vg = vg \<or>
      fold (\<lambda>g vg. if ng_Name g = n \<and> ng_Validator g \<noteq> None then n else vg) gs vg = n \<and>
      (\<exists>g \<in> set gs. ng_Name g = n \<and> ng_Validator g \<noteq> None)" for gs
    by (induction gs arbitrary: vg) auto
  then show ?thesis unfolding topLevelValidatorStep_def has_validator_def by auto
qed

lemma topLevel_fold_cases:
  "fold (topLevelValidatorStep ns) names vg = vg \<or>
   fold (topLevelValidatorStep ns) names vg \<in> set names \<and>
   has_validator ns (fold (topLevelValidatorStep ns) names vg)"
proof (induction names arbitrary: vg)
  case (Cons n names)
  show ?case
    using Cons.IH [of "topLevelValidatorStep ns n vg"] topLevelValidatorStep_cases [of ns n vg] by auto
qed simp

lemma topLevel_validator_group:
  assumes "rsg_ValidatorGroup (resolveTopLevelSigner ns c) \<noteq> []"
  shows "rsg_ValidatorGroup (resolveTopLevelSigner ns c) \<in> set (rsg_TargetGroups (resolveTopLevelSigner ns c))"
    and "has_validator ns (rsg_ValidatorGroup (resolveTopLevelSigner ns c))"
  using assms topLevel_fold_cases [of ns "cs_NodeGroups c" "[]"]
  by (auto simp: resolveTopLevelSigner_def Let_def has_validator_def split: if_splits)

lemma signer_serves_target:
  assumes "s \<in> set (ResolveCosmosigners ns)" "rsg_ValidatorGroup s \<noteq> []"
  shows "rsg_ValidatorGroup s \<in> set (rsg_TargetGroups s)"
  using assms topLevel_validator_group
  by (auto simp: ResolveCosmosigners_mem split: if_splits)

section \<open>Admitted sets\<close>

definition admitted ::
    "(string \<Rightarrow> string) \<Rightarrow> (string \<Rightarrow> quantity option) \<Rightarrow> ChainNodeSet option \<Rightarrow> ChainNodeSet \<Rightarrow> bool" where
  "admitted H parseQty old ns \<longleftrightarrow>
     validateGroupNames ns = None \<and> validateSignerRules H parseQty old ns = None \<and>
     validateUniqueSigningKeys ns = None"

text \<open>No validator sets its private key secret to the empty string.\<close>

definition no_blank_secret :: "ChainNodeSet \<Rightarrow> bool" where
  "no_blank_secret ns \<longleftrightarrow>
     (\<forall>v. ns_Validator (ns_Spec ns) = Some v \<longrightarrow> nv_PrivateKeySecret v \<noteq> Some []) \<and>
     (\<forall>g \<in> set (ns_Nodes (ns_Spec ns)). \<forall>v. ng_Validator g = Some v \<longrightarrow> nv_PrivateKeySecret v \<noteq> Some [])"

lemma admittedD:
  assumes "admitted H parseQty old ns"
  shows "distinct (map ng_Name (ns_Nodes (ns_Spec ns)))"
    "g \<in> set (ns_Nodes (ns_Spec ns)) \<Longrightarrow> ng_Name g \<noteq> [] \<and> ng_Name g \<noteq> ReservedValidatorGroupName"
    "distinct (signing_key_slots ns)"
    "validateSignerShapes parseQty ns = None"
    "s \<in> set (ResolveCosmosigners ns) \<Longrightarrow> validateResolvedSigner H old ns s = None"
    "validateCosmosignerTargetUniqueness ns = None"
  using assms
  by (auto simp: admitted_def validateGroupNames_iff validateUniqueSigningKeys_iff validateSignerRules_def
      first_error_None_iff)

lemma shapes_group:
  assumes "validateSignerShapes parseQty ns = None" "g \<in> set (ns_Nodes (ns_Spec ns))"
    "ng_Cosmosigner g \<noteq> None"
  shows "\<exists>i. validateGroupCosmosigner parseQty i g = None"
proof -
  have "g \<in> snd ` set (enumerate 0 (ns_Nodes (ns_Spec ns)))"
    using assms(2) by (simp only: snd_image_enumerate)
  then obtain i where "(i, g) \<in> set (enumerate 0 (ns_Nodes (ns_Spec ns)))" by auto
  moreover have "\<forall>x \<in> set (enumerate 0 (ns_Nodes (ns_Spec ns))).
      (case x of (i, g) \<Rightarrow> if ng_Cosmosigner g = None then None else validateGroupCosmosigner parseQty i g) = None"
    using assms(1) by (simp add: validateSignerShapes_def first_error_None_iff)
  ultimately show ?thesis using assms(3) by force
qed

lemma groups_lookup:
  "fold (\<lambda>g m. m(ng_Name g \<mapsto> g)) gs m n = Some g \<Longrightarrow> (g \<in> set gs \<and> ng_Name g = n) \<or> m n = Some g"
proof (induction gs arbitrary: m)
  case (Cons a gs)
  from Cons.prems have "fold (\<lambda>g m. m(ng_Name g \<mapsto> g)) gs (m(ng_Name a \<mapsto> a)) n = Some g"
    by (simp only: fold_simps)
  then have "g \<in> set gs \<and> ng_Name g = n \<or> (m(ng_Name a \<mapsto> a)) n = Some g" by (rule Cons.IH)
  then show ?case by (cases "ng_Name a = n") auto
qed simp

definition serves_local :: "validator_unit \<Rightarrow> bool" where
  "serves_local u =
     (case u of Inl v \<Rightarrow> nv_TmKMS v = None
      | Inr g \<Rightarrow> GetInstances g \<noteq> 0 \<and> (case ng_Validator g of None \<Rightarrow> False | Some v \<Rightarrow> nv_TmKMS v = None))"

lemma topLevel_scanned:
  assumes c: "ns_Cosmosigner (ns_Spec ns) = Some c" and n: "n \<in> set (cs_NodeGroups c)"
    and ok: "validateTopLevelCosmosigner parseQty ns c = None"
    and names: "distinct (map ng_Name (ns_Nodes (ns_Spec ns)))"
    and v: "has_validator ns n"
    and reserved: "\<And>g. g \<in> set (ns_Nodes (ns_Spec ns)) \<Longrightarrow> ng_Name g \<noteq> ReservedValidatorGroupName"
  shows "\<exists>u \<in> set (units ns). unit_name u = n \<and> serves_local u"
proof -
  let ?groups = "fold (\<lambda>g m. m(ng_Name g \<mapsto> g)) (ns_Nodes (ns_Spec ns)) Map.empty"
  have "n \<in> snd ` set (enumerate 0 (cs_NodeGroups c))" using n by (simp only: snd_image_enumerate)
  then obtain i where i: "(i, n) \<in> set (enumerate 0 (cs_NodeGroups c))" by auto
  obtain t where walk: "for_each (scanTarget ns ?groups) (enumerate 0 (cs_NodeGroups c))
      \<lparr>ts_seen = {}, ts_validatorTargets = 0\<rparr> = Inr t"
    using ok n by (cases "cs_NodeGroups c") (auto simp: validateTopLevelCosmosigner_def split: sum.splits)
  obtain a b where "scanTarget ns ?groups (i, n) a = Inr b" using for_each_ok [OF walk i] by blast
  then have scan: "n = ReservedValidatorGroupName \<and> (\<exists>v. ns_Validator (ns_Spec ns) = Some v \<and> nv_TmKMS v = None) \<or>
      n \<noteq> ReservedValidatorGroupName \<and> (\<exists>g. ?groups n = Some g \<and> GetInstances g \<noteq> 0 \<and>
        (\<forall>v. ng_Validator g = Some v \<longrightarrow> nv_TmKMS v = None))"
    by (auto simp: scanTarget_def Let_def split: if_splits option.splits)
  show ?thesis
  proof (cases "n = ReservedValidatorGroupName")
    case True
    with scan show ?thesis by (auto simp: units_def serves_local_def)
  next
    case False
    with scan obtain g where g: "?groups n = Some g" "GetInstances g \<noteq> 0"
      "\<And>v. ng_Validator g = Some v \<Longrightarrow> nv_TmKMS v = None" by auto
    from groups_lookup [OF g(1)] have gn: "g \<in> set (ns_Nodes (ns_Spec ns))" "ng_Name g = n" by auto
    from v False obtain g' where "g' \<in> set (ns_Nodes (ns_Spec ns))" "ng_Name g' = n" "ng_Validator g' \<noteq> None"
      by (auto simp: has_validator_def)
    with gn names have "ng_Validator g \<noteq> None" using distinct_names_unique [of ng_Name _ g g'] by auto
    with g gn show ?thesis by (intro bexI [of _ "Inr g"]) (auto simp: units_def serves_local_def)
  qed
qed

lemma served_unit:
  assumes a: "admitted H parseQty old ns" and s: "s \<in> set (ResolveCosmosigners ns)" "rsg_ValidatorGroup s \<noteq> []"
  shows "\<exists>u \<in> set (units ns). unit_name u = rsg_ValidatorGroup s \<and> serves_local u"
proof -
  from s consider c where "ns_Cosmosigner (ns_Spec ns) = Some c" "s = resolveTopLevelSigner ns c"
    | g c where "g \<in> set (ns_Nodes (ns_Spec ns))" "ng_Cosmosigner g = Some c" "s = groupSigner ns g c"
    by (auto simp: ResolveCosmosigners_mem)
  then show ?thesis
  proof cases
    case (1 c)
    then have ok: "validateTopLevelCosmosigner parseQty ns c = None"
      using admittedD(4) [OF a] by (simp add: validateSignerShapes_def)
    note vg = topLevel_validator_group [of ns c, folded 1(2), OF s(2)]
    show ?thesis
    proof (cases "cs_NodeGroups c = []")
      case True
      with 1 ok s(2) show ?thesis
        by (auto simp: validateTopLevelCosmosigner_def resolveTopLevelSigner_def units_def serves_local_def
            split: option.splits if_splits)
    next
      case False
      then have "rsg_ValidatorGroup s \<in> set (cs_NodeGroups c)"
        using vg(1) 1(2) by (simp add: resolveTopLevelSigner_def)
      then show ?thesis
        using topLevel_scanned [OF 1(1) _ ok admittedD(1) [OF a] vg(2)] admittedD(2) [OF a] by blast
    qed
  next
    case (2 g c)
    then obtain i where "validateGroupCosmosigner parseQty i g = None"
      using shapes_group [OF admittedD(4) [OF a]] by blast
    with 2 s(2) show ?thesis
      by (intro bexI [of _ "Inr g"])
        (auto simp: validateGroupCosmosigner_def units_def serves_local_def Let_def split: option.splits if_splits)
  qed
qed

lemma signer_of_its_group:
  assumes a: "admitted H parseQty old ns" and s: "s \<in> set (ResolveCosmosigners ns)" "rsg_ValidatorGroup s \<noteq> []"
  shows "groupCosmosigner ns (rsg_ValidatorGroup s) = rsg_Spec s"
proof -
  from s(1) consider c where "ns_Cosmosigner (ns_Spec ns) = Some c" "s = resolveTopLevelSigner ns c"
    | g c where "g \<in> set (ns_Nodes (ns_Spec ns))" "ng_Cosmosigner g = Some c" "s = groupSigner ns g c"
    by (auto simp: ResolveCosmosigners_mem)
  then show ?thesis
  proof cases
    case (1 c)
    then have "rsg_ValidatorGroup s \<in> topTargets ns"
      using topLevel_validator_group(1) [of ns c] topLevel_targets [OF 1(1)] s(2) by simp
    then have "find (\<lambda>g. ng_Name g = rsg_ValidatorGroup s \<and> ng_Cosmosigner g \<noteq> None) (ns_Nodes (ns_Spec ns)) = None"
      using admittedD(6) [OF a] unfolding targetUniqueness_iff find_None_iff by metis
    with 1 \<open>rsg_ValidatorGroup s \<in> topTargets ns\<close> show ?thesis
      by (auto simp: groupCosmosigner_def topTargets_def resolveTopLevelSigner_def Let_def split: if_splits)
  next
    case (2 g c)
    then show ?thesis
      using find_distinct_name [OF admittedD(1) [OF a] 2(1), of "\<lambda>g. ng_Cosmosigner g \<noteq> None"] s(2)
      by (auto simp: groupCosmosigner_def split: if_splits)
  qed
qed

text \<open>The key secret of a software signer that serves a validator is one of the keys reserved for that
  validator.\<close>

lemma served_key:
  assumes a: "admitted H parseQty old ns" and b: "no_blank_secret ns"
    and s: "s \<in> set (ResolveCosmosigners ns)" "rsg_ValidatorGroup s \<noteq> []" "UsesSoftwareBackend (rsg_Spec s)"
  shows "\<exists>u \<in> set (units ns). unit_name u = rsg_ValidatorGroup s \<and>
    validatorKeySecret ns (rsg_ValidatorGroup s) \<in> set (unit_keys ns u)"
proof -
  obtain c where c: "groupCosmosigner ns (rsg_ValidatorGroup s) = Some c" "be_Software (cs_Backend c) \<noteq> None"
    using signer_of_its_group [OF a s(1,2)] s(3) by (auto simp: UsesSoftwareBackend_def split: option.splits)
  then have used: "\<not> cosmosignerLeavesLocalKeyUnused ns (rsg_ValidatorGroup s) v" for v
    by (auto simp: cosmosignerLeavesLocalKeyUnused_def UsesSoftwareBackend_def)
  obtain u where u: "u \<in> set (units ns)" "unit_name u = rsg_ValidatorGroup s" "serves_local u"
    using served_unit [OF a s(1,2)] by blast
  have "validatorKeySecret ns (unit_name u) \<in> set (unit_keys ns u)"
  proof (cases u)
    case (Inl v)
    then have v: "ns_Validator (ns_Spec ns) = Some v" using u(1) by (auto simp: units_def split: option.splits)
    have "usesLocalKey ns ReservedValidatorGroupName v"
      using used [of v] u Inl by (auto simp: usesLocalKey_def serves_local_def)
    moreover have "nv_PrivateKeySecret v \<noteq> Some []" using b v by (simp add: no_blank_secret_def)
    ultimately show ?thesis
      using Inl v by (auto simp: validatorKeySecret_def explicitSecret_def split: option.splits)
  next
    case (Inr g)
    then have g: "g \<in> set (ns_Nodes (ns_Spec ns))" using u(1) by (auto simp: units_def split: option.splits)
    obtain v where v: "ng_Validator g = Some v" "GetInstances g \<noteq> 0" "nv_TmKMS v = None"
      using u(3) Inr by (auto simp: serves_local_def split: option.splits)
    have "usesLocalKey ns (ng_Name g) v" using used [of v] u(2) Inr v by (auto simp: usesLocalKey_def)
    moreover have "nv_PrivateKeySecret v \<noteq> Some []" using b v g by (auto simp: no_blank_secret_def)
    moreover have "ng_Name g \<noteq> ReservedValidatorGroupName" using admittedD(2) [OF a g] by simp
    moreover have "find (\<lambda>y. ng_Name y = ng_Name g \<and> ng_Validator y \<noteq> None) (ns_Nodes (ns_Spec ns)) = Some g"
      using find_distinct_name [OF admittedD(1) [OF a] g, of "\<lambda>g. ng_Validator g \<noteq> None"] v(1) by simp
    moreover have "groupCosmosigner ns (ng_Name g) = Some c" using c(1) u(2) Inr by simp
    ultimately show ?thesis
      using Inr v by (auto simp: validatorKeySecret_def explicitSecret_def validator_secrets_def
          upto.simps Itoa_0 split: option.splits)
  qed
  with u show ?thesis by auto
qed

section \<open>Distinct keys\<close>

definition valid_spec :: "Cosmosigner \<Rightarrow> bool" where
  "valid_spec c \<longleftrightarrow> one_backend (cs_Backend c) \<and>
     (\<forall>v. be_Vault (cs_Backend c) = Some v \<longrightarrow> vb_Address v \<noteq> [] \<and> vb_KeyName v \<noteq> []) \<and>
     (\<forall>g. be_GcpKMS (cs_Backend c) = Some g \<longrightarrow> (gk_KeyVersion g = [] \<longleftrightarrow> gk_Import g \<noteq> None))"

lemma Validate_valid_spec: "Validate parseQty (Some c) path b = None \<Longrightarrow> valid_spec c"
  unfolding Validate_None_iff valid_spec_def by (auto simp: vault_ok_def gcp_ok_def)

lemma admitted_spec:
  assumes a: "admitted H parseQty old ns" and s: "s \<in> set (ResolveCosmosigners ns)"
  obtains c where "rsg_Spec s = Some c" "valid_spec c"
    "rsg_SoftwareKeySecret s = resolveSignerKeySecret ns c (rsg_ValidatorGroup s)"
proof -
  from s consider c where "ns_Cosmosigner (ns_Spec ns) = Some c" "s = resolveTopLevelSigner ns c"
    | g c where "g \<in> set (ns_Nodes (ns_Spec ns))" "ng_Cosmosigner g = Some c" "s = groupSigner ns g c"
    by (auto simp: ResolveCosmosigners_mem)
  then show ?thesis
  proof cases
    case (1 c)
    then have "Validate parseQty (Some c) ''.spec.cosmosigner'' True = None"
      using admittedD(4) [OF a] by (simp add: validateSignerShapes_def validateTopLevelCosmosigner_def)
    with 1 show ?thesis
      by (intro that [of c] Validate_valid_spec) (auto simp: resolveTopLevelSigner_def Let_def split: prod.splits)
  next
    case (2 g c)
    then obtain i where "validateGroupCosmosigner parseQty i g = None"
      using shapes_group [OF admittedD(4) [OF a]] by blast
    with 2 have "valid_spec c"
      by (auto simp: validateGroupCosmosigner_def Let_def intro: Validate_valid_spec)
    with 2 show ?thesis by (intro that [of c]) auto
  qed
qed

text \<open>The slot that stands for the key of a signer; a local key is told apart by its secret.\<close>

definition backend_slot :: "ResolvedSigner \<Rightarrow> key_slot" where
  "backend_slot s =
     (case rsg_Spec s of None \<Rightarrow> SentrySlot []
      | Some c \<Rightarrow>
        if be_Vault (cs_Backend c) \<noteq> None then VaultSlot (Identity s)
        else case be_GcpKMS (cs_Backend c) of
               Some g \<Rightarrow> if gk_Import g \<noteq> None then VaultSlot (''gcpkms'' @ nul @ gcpImportIdentity (gk_Import g))
                        else VaultSlot (Identity s)
             | None \<Rightarrow> SentrySlot (rsg_SoftwareKeySecret s))"

lemma same_identity_same_slot:
  assumes "rsg_Spec s = Some c" "valid_spec c" "rsg_Spec t = Some d" "valid_spec d" "Identity s = Identity t"
  shows "backend_slot s = backend_slot t"
    and "UsesSoftwareBackend (rsg_Spec s) \<longleftrightarrow> UsesSoftwareBackend (rsg_Spec t)"
    and "UsesSoftwareBackend (rsg_Spec s) \<Longrightarrow> rsg_SoftwareKeySecret s = rsg_SoftwareKeySecret t"
  using assms
  by (auto simp: backend_slot_def Identity_def effectiveSigningIdentity_def valid_spec_def one_backend_def
      UsesSoftwareBackend_def normalizedVaultIdentity_eq nul_def split: option.splits if_splits)

lemma backend_slot_claimed:
  assumes "rsg_Spec s = Some c" "valid_spec c" "\<not> UsesSoftwareBackend (rsg_Spec s)"
  shows "backend_slot s \<in> set (signer_slots G s)"
  using assms
  by (auto simp: backend_slot_def signer_slots_def Identity_def effectiveSigningIdentity_def valid_spec_def
      one_backend_def UsesSoftwareBackend_def split: option.splits if_splits)

lemma sentry_slots:
  assumes a: "admitted H parseQty old ns" and s: "s \<in> set (ResolveCosmosigners ns)"
    "rsg_ValidatorGroup s = []" "UsesSoftwareBackend (rsg_Spec s)"
  shows "SentrySlot (rsg_SoftwareKeySecret s) \<in> set (signer_slots G s)"
    and "rsg_SoftwareKeySecret s \<in> G \<or> SecretSlot (rsg_SoftwareKeySecret s) \<in> set (signer_slots G s)"
proof -
  obtain c where c: "rsg_Spec s = Some c" "valid_spec c"
    "rsg_SoftwareKeySecret s = resolveSignerKeySecret ns c (rsg_ValidatorGroup s)"
    using admitted_spec [OF a s(1)] .
  with s(3) obtain sw where sw: "be_Software (cs_Backend c) = Some sw" "be_Vault (cs_Backend c) = None"
    "be_GcpKMS (cs_Backend c) = None"
    by (auto simp: UsesSoftwareBackend_def valid_spec_def one_backend_def)
  have "explicit (softwareSecret (rsg_Spec s))"
    using admittedD(5) [OF a s(1)] s(2,3) by (auto simp: validateResolvedSigner_def Let_def split: if_splits)
  then obtain x where "sw_PrivateKeySecret sw = Some x"
    using c sw by (auto simp: explicit_def softwareSecret_def split: option.splits)
  with c sw s(2) show "SentrySlot (rsg_SoftwareKeySecret s) \<in> set (signer_slots G s)"
    "rsg_SoftwareKeySecret s \<in> G \<or> SecretSlot (rsg_SoftwareKeySecret s) \<in> set (signer_slots G s)"
    by (auto simp: signer_slots_def resolveSignerKeySecret_def TargetsValidator_def)
qed

lemma served_secret:
  assumes "admitted H parseQty old ns" "no_blank_secret ns" "s \<in> set (ResolveCosmosigners ns)"
    "rsg_ValidatorGroup s \<noteq> []" "UsesSoftwareBackend (rsg_Spec s)"
  obtains u where "u \<in> set (units ns)" "unit_name u = rsg_ValidatorGroup s"
    "rsg_SoftwareKeySecret s \<in> set (unit_keys ns u)"
proof -
  obtain c where "rsg_SoftwareKeySecret s = resolveSignerKeySecret ns c (rsg_ValidatorGroup s)"
    using admitted_spec [OF assms(1,3)] by blast
  then have "rsg_SoftwareKeySecret s = validatorKeySecret ns (rsg_ValidatorGroup s)"
    using assms(4) by (simp add: resolveSignerKeySecret_def)
  then show ?thesis using served_key [OF assms] that by auto
qed

lemma sentry_and_served_differ:
  assumes a: "admitted H parseQty old ns" "no_blank_secret ns"
    and s: "s \<in> set (ResolveCosmosigners ns)" "rsg_ValidatorGroup s \<noteq> []" "UsesSoftwareBackend (rsg_Spec s)"
    and t: "t \<in> set (ResolveCosmosigners ns)" "rsg_ValidatorGroup t = []" "UsesSoftwareBackend (rsg_Spec t)"
  shows "rsg_SoftwareKeySecret s \<noteq> rsg_SoftwareKeySecret t"
proof
  let ?x = "rsg_SoftwareKeySecret s"
  assume eq: "?x = rsg_SoftwareKeySecret t"
  note d = admittedD(3) [OF a(1), unfolded signing_key_slots_def]
  then have dv: "distinct (validator_slots ns)" by simp
  obtain u where u: "u \<in> set (units ns)" "?x \<in> set (unit_keys ns u)"
    using served_secret [OF a s] by blast
  then have "?x \<notin> registered_genesis ns" by (rule unit_key_unique(2) [OF dv])
  then have "SecretSlot ?x \<in> set (signer_slots (registered_genesis ns) t)"
    using sentry_slots(2) [OF a(1) t, of "registered_genesis ns"] eq by simp
  moreover have "SecretSlot ?x \<in> set (validator_slots ns)"
    unfolding validator_slots_units using u unit_slots_split [of ns u] by force
  ultimately show False using d t(1) by auto
qed

lemma same_key_impossible:
  assumes a: "admitted H parseQty old ns" "no_blank_secret ns"
    and s: "s \<in> set (ResolveCosmosigners ns)" and t: "t \<in> set (ResolveCosmosigners ns)"
    and slots: "set (signer_slots (registered_genesis ns) s) \<inter> set (signer_slots (registered_genesis ns) t) = {}"
    and targets: "set (rsg_TargetGroups s) \<inter> set (rsg_TargetGroups t) = {}"
  shows "Identity s \<noteq> Identity t"
proof
  assume eq: "Identity s = Identity t"
  obtain c where c: "rsg_Spec s = Some c" "valid_spec c" using admitted_spec [OF a(1) s] by blast
  obtain d where d: "rsg_Spec t = Some d" "valid_spec d" using admitted_spec [OF a(1) t] by blast
  note same = same_identity_same_slot [OF c d eq]
  show False
  proof (cases "UsesSoftwareBackend (rsg_Spec s)")
    case False
    then show False
      using backend_slot_claimed [OF c] backend_slot_claimed [OF d] same(1,2) slots by fastforce
  next
    case soft: True
    then have soft': "UsesSoftwareBackend (rsg_Spec t)" and sec: "rsg_SoftwareKeySecret s = rsg_SoftwareKeySecret t"
      using same by simp_all
    consider "rsg_ValidatorGroup s = []" "rsg_ValidatorGroup t = []"
      | "rsg_ValidatorGroup s \<noteq> []" "rsg_ValidatorGroup t = []"
      | "rsg_ValidatorGroup s = []" "rsg_ValidatorGroup t \<noteq> []"
      | "rsg_ValidatorGroup s \<noteq> []" "rsg_ValidatorGroup t \<noteq> []" by blast
    then show False
    proof cases
      case 1
      have "SentrySlot (rsg_SoftwareKeySecret s) \<in> set (signer_slots (registered_genesis ns) s)"
        using sentry_slots(1) [OF a(1) s 1(1) soft] .
      moreover have "SentrySlot (rsg_SoftwareKeySecret s) \<in> set (signer_slots (registered_genesis ns) t)"
        using sentry_slots(1) [OF a(1) t 1(2) soft'] sec by simp
      ultimately show False using slots by blast
    next
      case 2
      then show False using sentry_and_served_differ [OF a s _ soft t _ soft'] sec by blast
    next
      case 3
      then show False using sentry_and_served_differ [OF a t _ soft' s _ soft] sec by force
    next
      case 4
      have dv: "distinct (validator_slots ns)"
        using admittedD(3) [OF a(1)] by (simp add: signing_key_slots_def)
      obtain u where u: "u \<in> set (units ns)" "unit_name u = rsg_ValidatorGroup s"
        "rsg_SoftwareKeySecret s \<in> set (unit_keys ns u)"
        using served_secret [OF a s 4(1) soft] .
      obtain w where w: "w \<in> set (units ns)" "unit_name w = rsg_ValidatorGroup t"
        "rsg_SoftwareKeySecret t \<in> set (unit_keys ns w)"
        using served_secret [OF a t 4(2) soft'] .
      have "u = w" using unit_key_unique(1) [OF dv u(1,3) w(1)] w(3) sec by simp
      then show False
        using u(2) w(2) signer_serves_target [OF s 4(1)] signer_serves_target [OF t 4(2)] targets by auto
    qed
  qed
qed

lemma sorted_wrt_slots_disjoint:
  "distinct (concat (map f xs)) \<Longrightarrow> sorted_wrt (\<lambda>x y. set (f x) \<inter> set (f y) = {}) xs"
  by (induction xs) auto


section \<open>Examples\<close>

definition software_signer :: "string option \<Rightarrow> Cosmosigner" where
  "software_signer secret =
     zero_Cosmosigner\<lparr>cs_Backend := zero_Backend\<lparr>be_Software := Some \<lparr>sw_PrivateKeySecret = secret\<rparr>\<rparr>\<rparr>"

definition new_validator :: "string option \<Rightarrow> NodeSetValidatorConfig" where
  "new_validator secret = \<lparr>nv_PrivateKeySecret = secret, nv_Init = None, nv_TmKMS = None,
     nv_CreateValidator = Some \<lparr>cv_AccountMnemonicSecret = None, cv_StakeAmount = ''1stake'', cv_GasPrices = []\<rparr>\<rparr>"

text \<open>A validator group and a sentry group, each with its own software signer.\<close>

definition two_signers :: ChainNodeSet where
  "two_signers = zero_ChainNodeSet\<lparr>ns_Meta := zero_Meta\<lparr>m_Name := ''cosmos''\<rparr>,
     ns_Spec := \<lparr>ns_App = zero_App, ns_Validator = None,
       ns_Nodes = [\<lparr>ng_Name = ''val'', ng_Instances = None, ng_Validator = Some (new_validator None),
                     ng_Cosmosigner = Some (software_signer None)\<rparr>,
                   \<lparr>ng_Name = ''sentry'', ng_Instances = Some 3, ng_Validator = None,
                     ng_Cosmosigner = Some (software_signer (Some ''sentry-key''))\<rparr>],
       ns_Cosmosigner = None, ns_DeletionPolicy = None\<rparr>\<rparr>"

lemma two_signers_admitted: "admitted (\<lambda>x. x) (\<lambda>_. None) None two_signers"
  unfolding admitted_def by code_simp

lemma two_signers_no_blank: "no_blank_secret two_signers"
  by (auto simp: no_blank_secret_def two_signers_def new_validator_def zero_defs)


theorem validateCosmosignerTargetUniqueness_iff_witness:
  "sorted_wrt (\<lambda>s t. set (rsg_TargetGroups s) \<inter> set (rsg_TargetGroups t) = {}) (ResolveCosmosigners two_signers)"
proof -
  have "distinct (map ng_Name (ns_Nodes (ns_Spec two_signers)))" by (simp add: two_signers_def zero_defs)
  from validateCosmosignerTargetUniqueness_iff [OF this] show ?thesis
    using admittedD(6) [OF two_signers_admitted] by simp
qed

text \<open>The hypothesis on blank secrets is needed. With \<open>privateKeySecret: ""\<close> the uniqueness check reserves
  the empty name, while the signer resolution falls back to the default secret, so a second validator may
  name that default secret and both signers hold one key.\<close>

definition blank_secret :: ChainNodeSet where
  "blank_secret = zero_ChainNodeSet\<lparr>ns_Meta := zero_Meta\<lparr>m_Name := ''cosmos''\<rparr>,
     ns_Spec := \<lparr>ns_App = zero_App, ns_Validator = Some (new_validator (Some [])),
       ns_Nodes = [\<lparr>ng_Name = ''val'', ng_Instances = None,
                     ng_Validator = Some (new_validator (Some ''cosmos-validator-priv-key'')),
                     ng_Cosmosigner = Some (software_signer None)\<rparr>],
       ns_Cosmosigner = Some (software_signer None), ns_DeletionPolicy = None\<rparr>\<rparr>"

theorem blank_secret_shares_key:
  "admitted (\<lambda>x. x) (\<lambda>_. None) None blank_secret \<and>
   map Identity (ResolveCosmosigners blank_secret) =
     [''software'' @ nul @ ''cosmos-validator-priv-key'', ''software'' @ nul @ ''cosmos-validator-priv-key'']"
  unfolding admitted_def by code_simp

end
