(* ===== verification/Go_Float.thy ===== *)
theory Go_Float
  imports Complex_Main "HOL-Library.Log_Nat" Go_Prelude
begin

text \<open>
  Go's \<open>float64\<close>, as far as the autoscaler uses it: a value is the rational number it denotes, and an
  operation is the exact operation followed by \<open>fl64\<close>, the rounding to 53 significant bits, ties to
  even. Infinities, NaN and subnormal numbers are not represented: the operands are \<open>int64\<close> values,
  percentages and usage averages, and a subnormal result is read as 0 by the conversions to \<open>int\<close> either
  way. A conversion out of range is implementation-dependent in Go and is an argument.
\<close>

definition flog2 :: "rat \<Rightarrow> int" where
  "flog2 x =
     (let (p, q) = quotient_of x; d = bitlen p - bitlen q in if x < 2 powi d then d - 1 else d)"

definition round_half_even :: "rat \<Rightarrow> int" where
  "round_half_even r =
     (let f = \<lfloor>r\<rfloor>; d = r - of_int f in
      if d < 1 / 2 then f else if d > 1 / 2 then f + 1 else if even f then f else f + 1)"

definition fl64 :: "rat \<Rightarrow> rat" where
  "fl64 x =
     (if x = 0 then 0
      else let u = 2 powi (flog2 \<bar>x\<bar> - 52) in of_int (round_half_even (x / u)) * u)"

definition rat_trunc :: "rat \<Rightarrow> int" where
  "rat_trunc x = (if x < 0 then \<lceil>x\<rceil> else \<lfloor>x\<rfloor>)"

text \<open>The conversion \<open>int64(x)\<close>; \<open>oor\<close> is its value out of range.\<close>

definition to_int64 :: "(rat \<Rightarrow> int) \<Rightarrow> rat \<Rightarrow> int" where
  "to_int64 oor x =
     (if - (2 ^ 63) \<le> rat_trunc x \<and> rat_trunc x < 2 ^ 63 then rat_trunc x else oor x)"

section \<open>Rounding\<close>

lemma bitlen_powi:
  assumes "0 < p"
  shows "2 powi (bitlen p - 1) \<le> (of_int p :: rat) \<and> (of_int p :: rat) < 2 powi (bitlen p)"
proof -
  have ge: "bitlen p \<ge> 1" using assms by (simp add: bitlen_ge_iff_power)
  have lo: "2 ^ nat (bitlen p - 1) \<le> p" and hi: "p < 2 ^ nat (bitlen p)"
    using bitlen_bounds [OF assms] by auto
  have "of_int (2 ^ nat (bitlen p - 1)) \<le> (of_int p :: rat)" "(of_int p :: rat) < of_int (2 ^ nat (bitlen p))"
    using lo hi by (simp_all only: of_int_le_iff of_int_less_iff)
  moreover have "2 powi (bitlen p - 1) = (2 ^ nat (bitlen p - 1) :: rat)" "2 powi (bitlen p) = (2 ^ nat (bitlen p) :: rat)"
    using ge by (simp_all add: power_int_def)
  ultimately show ?thesis by simp
qed

lemma powi_double: "2 * (2 powi k) = (2 powi (k + 1) :: rat)"
  by (simp add: power_int_add)

lemma flog2_bounds:
  assumes "0 < x"
  shows "2 powi (flog2 x) \<le> x \<and> x < 2 powi (flog2 x + 1)"
proof -
  obtain p q where pq: "quotient_of x = (p, q)" by (cases "quotient_of x")
  have q: "q > 0" and x: "x = of_int p / of_int q"
    using quotient_of_denom_pos [OF pq] quotient_of_div [OF pq] by auto
  have p: "p > 0" using assms q x by (simp add: zero_less_divide_iff)
  define d where "d = bitlen p - bitlen q"
  have split: "(2 powi (a - b) :: rat) = 2 powi a / 2 powi b" for a b :: int
    by (simp add: power_int_diff)
  have "2 powi (d - 1) \<le> x"
  proof -
    have "(2 powi (d - 1) :: rat) = 2 powi (bitlen p - 1) / 2 powi (bitlen q)"
      unfolding d_def by (simp add: split [symmetric] algebra_simps)
    also have "\<dots> \<le> of_int p / of_int q"
      using bitlen_powi [OF p] bitlen_powi [OF q] q p by (intro frac_le) auto
    finally show ?thesis using x by simp
  qed
  moreover have "x < 2 powi (d + 1)"
  proof -
    have "of_int p / of_int q < (2 powi (bitlen p) / 2 powi (bitlen q - 1) :: rat)"
      using bitlen_powi [OF p] bitlen_powi [OF q] q p by (intro frac_less) auto
    also have "\<dots> = 2 powi (d + 1)" unfolding d_def by (simp add: split [symmetric] algebra_simps)
    finally show ?thesis using x by simp
  qed
  ultimately show ?thesis by (auto simp: flog2_def pq d_def [symmetric])
qed

lemma round_half_even_nonneg: "0 \<le> r \<Longrightarrow> 0 \<le> round_half_even r"
  by (auto simp: round_half_even_def Let_def)

lemma fl64_nonneg: "0 \<le> x \<Longrightarrow> 0 \<le> fl64 x"
  by (auto simp: fl64_def Let_def intro!: mult_nonneg_nonneg round_half_even_nonneg divide_nonneg_nonneg)

lemma round_half_even_of_int [simp]: "round_half_even (of_int n) = n"
  by (simp add: round_half_even_def)

lemma round_half_even_error: "\<bar>of_int (round_half_even r) - r\<bar> \<le> 1 / 2"
proof -
  have "of_int \<lfloor>r\<rfloor> \<le> r" "r < of_int \<lfloor>r\<rfloor> + 1" by linarith+
  then show ?thesis unfolding round_half_even_def Let_def by (auto simp: abs_if not_less) linarith+
qed

text \<open>The spacing of the numbers around \<open>x\<close>, the error of a rounding and exactness on small integers.\<close>

definition ulp :: "rat \<Rightarrow> rat" where
  "ulp x = 2 powi (flog2 \<bar>x\<bar> - 52)"

lemma ulp_pos [simp]: "0 < ulp x"
  by (simp add: ulp_def)

lemma fl64_error:
  assumes "x \<noteq> 0"
  shows "\<bar>fl64 x - x\<bar> \<le> ulp x / 2"
proof -
  have "fl64 x - x = (of_int (round_half_even (x / ulp x)) - x / ulp x) * ulp x"
    using assms by (simp add: fl64_def ulp_def Let_def left_diff_distrib)
  then have "\<bar>fl64 x - x\<bar> = \<bar>of_int (round_half_even (x / ulp x)) - x / ulp x\<bar> * ulp x"
    by (simp add: abs_mult abs_of_pos)
  also have "\<dots> \<le> 1 / 2 * ulp x"
    by (rule mult_right_mono [OF round_half_even_error]) (simp add: less_imp_le)
  finally show ?thesis by simp
qed

lemma ulp_le:
  assumes "0 < x" "x < 2 powi k"
  shows "ulp x \<le> 2 powi (k - 53)"
proof -
  have "(2 powi (flog2 x) :: rat) < 2 powi k"
    using flog2_bounds [OF assms(1)] assms(2) by (meson le_less_trans)
  then have "flog2 x < k" using power_int_increasing [of k "flog2 x" "2 :: rat"] by fastforce
  then show ?thesis using assms(1) by (simp add: ulp_def power_int_increasing)
qed

lemma fl64_ulp: "x \<noteq> 0 \<Longrightarrow> fl64 x = of_int (round_half_even (x / ulp x)) * ulp x"
  by (simp add: fl64_def ulp_def Let_def)

lemma ulp_fraction:
  assumes "0 < x" "x < 2 powi 53"
  obtains j where "ulp x = 1 / 2 ^ j"
proof -
  have "(2 powi (flog2 \<bar>x\<bar> - 52) :: rat) \<le> 2 powi 0" using ulp_le [OF assms] by (simp add: ulp_def)
  then have "flog2 \<bar>x\<bar> - 52 \<le> 0"
    using power_int_strict_increasing [of 0 "flog2 \<bar>x\<bar> - 52" "2 :: rat"] by fastforce
  then have "flog2 \<bar>x\<bar> - 52 = - int (nat (52 - flog2 \<bar>x\<bar>))" by simp
  then have "ulp x = 1 / 2 ^ nat (52 - flog2 \<bar>x\<bar>)"
    unfolding ulp_def by (metis power_int_minus_divide power_int_of_nat)
  then show thesis by (rule that)
qed

lemma round_half_even_ge: "of_int m \<le> r \<Longrightarrow> m \<le> round_half_even r"
  using le_floor_iff [of m r] by (auto simp: round_half_even_def Let_def)

lemma int_below_powi: "n < 2 ^ k \<Longrightarrow> (of_int n :: rat) < 2 powi (int k)"
  by (metis of_int_less_iff of_int_numeral of_int_power power_int_of_nat)

lemma fl64_of_int:
  assumes "0 \<le> n" "n < 2 ^ 53"
  shows "fl64 (of_int n) = of_int n"
proof (cases "n = 0")
  case False
  then obtain j where u: "ulp (of_int n) = 1 / 2 ^ j"
    using assms ulp_fraction [of "of_int n"] int_below_powi [of n 53] by auto
  have "of_int n / ulp (of_int n) = (of_int (n * 2 ^ j) :: rat)" by (simp add: u)
  then have "fl64 (of_int n) = of_int (n * 2 ^ j) * ulp (of_int n)"
    using False fl64_ulp [of "of_int n"] by (metis of_int_eq_0_iff round_half_even_of_int)
  then show ?thesis by (simp add: u)
qed (simp add: fl64_def)

lemma fl64_ge_int:
  assumes "of_int k \<le> x" "0 < x" "x < 2 powi 53"
  shows "of_int k \<le> fl64 x"
proof -
  obtain j where u: "ulp x = 1 / 2 ^ j" by (rule ulp_fraction [OF assms(2,3)])
  have "of_int (k * 2 ^ j) \<le> x / ulp x" using assms(1) by (simp add: u)
  then have "k * 2 ^ j \<le> round_half_even (x / ulp x)" by (rule round_half_even_ge)
  then have "of_int (k * 2 ^ j) \<le> (of_int (round_half_even (x / ulp x)) :: rat)" by (simp only: of_int_le_iff)
  then have "of_int (k * 2 ^ j) * ulp x \<le> fl64 x"
    using assms(2) mult_right_mono [of _ _ "ulp x"] by (simp only: fl64_ulp less_irrefl) (auto simp: less_imp_le)
  then show ?thesis by (simp add: u)
qed

text \<open>A percentage computed in \<open>float64\<close> is the exact one below two to the 52nd.\<close>

lemma fl64_percent:
  assumes "0 \<le> n" "n < 2 ^ 52"
  shows "rat_trunc (fl64 (of_int n / 100)) = n div 100"
proof (cases "n = 0")
  case False
  then have n: "0 < n" using assms(1) by simp
  let ?x = "of_int n / 100 :: rat"
  have "(of_int n :: rat) < of_int (2 ^ 52)" using assms(2) by (simp only: of_int_less_iff)
  then have "?x < 2 powi 46" by (simp add: power_int_def)
  then have "ulp ?x \<le> 2 powi (46 - 53)" using n by (intro ulp_le) simp_all
  then have "ulp ?x / 2 \<le> 1 / 256" by (simp add: power_int_def power_one_over)
  then have err: "\<bar>fl64 ?x - ?x\<bar> \<le> 1 / 256" using fl64_error [of ?x] n by linarith
  define k where "k = n div 100"
  have k: "100 * k \<le> n" "n \<le> 100 * k + 99" "0 \<le> k" using n by (auto simp: k_def)
  then have "of_int (100 * k) \<le> (of_int n :: rat)" "(of_int n :: rat) \<le> of_int (100 * k + 99)"
    by (simp_all only: of_int_le_iff)
  then have hi: "fl64 ?x < of_int k + 1"
    using err unfolding abs_le_iff of_int_mult of_int_add of_int_numeral by linarith
  have lo: "of_int k \<le> fl64 ?x"
    using k(1) n \<open>?x < 2 powi 46\<close> power_int_increasing [of 46 53 "2 :: rat"]
      \<open>of_int (100 * k) \<le> of_int n\<close> by (intro fl64_ge_int) auto
  show ?thesis using lo hi k(3) by (simp add: rat_trunc_def k_def [symmetric] floor_eq_iff)
qed (simp add: fl64_def rat_trunc_def)

end
