(* ===== verification/Vpa.thy ===== *)
theory Vpa
  imports Go_Float Kube_Api "HOL-Library.AList"
begin

text \<open>
  Vertical autoscaling of a node: \<open>src/internal/controllers/chainnode/vpa.go\<close> and the getters of
  \<open>src/api/v1/common_helper.go\<close>.

  The maps of a Go struct are shared by its copies. The resources that \<open>vpa.go\<close> starts from are a copy
  of a field of the node's spec, so its maps are those of the spec: the record \<open>vpa_view\<close> holds the
  node, the copy and, for each of the two maps, whether it is still the spec's own map. A write to a shared
  map changes the node too.

  Arguments: \<open>E\<close> holds the functions of packages outside the repository (quantities, durations) and of
  the JSON and time packages; \<open>VP\<close> is the clock, the node-utils statistics, the pod and the API server.
  Log messages and events are left out.
\<close>

section \<open>Arguments\<close>

record vpa_env =
  ve_ParseDuration :: "string \<Rightarrow> int option"
  ve_Value :: "quantity \<Rightarrow> int"
  ve_MilliValue :: "quantity \<Rightarrow> int"
  ve_NewQuantity :: "int \<Rightarrow> quantity"
  ve_NewMilliQuantity :: "int \<Rightarrow> quantity"
  ve_Marshal :: "ResourceRequirements \<Rightarrow> string"
  ve_Unmarshal :: "string \<Rightarrow> ResourceRequirements option"
  ve_Format :: "int \<Rightarrow> string"
  ve_Parse :: "string \<Rightarrow> int option"
  ve_MarshalTimes :: "string list \<Rightarrow> string"
  ve_UnmarshalTimes :: "string \<Rightarrow> string list option"
  ve_OutOfRange :: "rat \<Rightarrow> int"

record ContainerStatus =
  cst_Name :: string
  cst_LastTerminationReason :: "string option"

record 's vpa_api =
  vp_now :: "'s \<Rightarrow> int \<times> 's"
  vp_cpuStats :: "int \<Rightarrow> 's \<Rightarrow> (string + rat) \<times> 's"
  vp_memStats :: "int \<Rightarrow> 's \<Rightarrow> (string + int) \<times> 's"
  vp_getPod :: "'s \<Rightarrow> (api_error + ContainerStatus list) \<times> 's"
  vp_update :: "ChainNode \<Rightarrow> 's \<Rightarrow> (api_error + unit) \<times> 's"

datatype VpaError =
    VpaStats string
  | VpaApi api_error
  | NoRequest string
  | ZeroRequest string

definition ResourceCPU :: string where "ResourceCPU = ''cpu''"
definition ResourceMemory :: string where "ResourceMemory = ''memory''"
definition OneMiB :: int where "OneMiB = 1024 * 1024"

definition AnnotationVPAResources :: string where
  "AnnotationVPAResources = ''cosmopilot.voluzi.com/vpa-resources''"
definition AnnotationVPALastCPUScale :: string where
  "AnnotationVPALastCPUScale = ''cosmopilot.voluzi.com/last-cpu-scale''"
definition AnnotationVPALastMemoryScale :: string where
  "AnnotationVPALastMemoryScale = ''cosmopilot.voluzi.com/last-memory-scale''"
definition AnnotationVPAOOMRecoveryHistory :: string where
  "AnnotationVPAOOMRecoveryHistory = ''cosmopilot.voluzi.com/oom-recovery-history''"

lemmas vpa_names = ResourceCPU_def ResourceMemory_def AnnotationVPAResources_def AnnotationVPALastCPUScale_def
  AnnotationVPALastMemoryScale_def AnnotationVPAOOMRecoveryHistory_def

section \<open>Settings\<close>

definition minutes :: "int \<Rightarrow> int" where "minutes k = k * 60 * 1000000000"

definition DefaultVpaCooldown :: int where "DefaultVpaCooldown = minutes 5"
definition DefaultOOMRecoveryWindow :: int where "DefaultOOMRecoveryWindow = minutes 60"

definition IsEnabled :: "VerticalAutoscalingConfig option \<Rightarrow> bool" where
  "IsEnabled vpa = (case vpa of None \<Rightarrow> False | Some c \<Rightarrow> va_Enabled c)"

text \<open>A duration setting: the parsed text, or the default when absent or malformed.\<close>

definition durationOr :: "vpa_env \<Rightarrow> string option \<Rightarrow> int \<Rightarrow> int" where
  "durationOr E s def =
     (case s of None \<Rightarrow> def | Some t \<Rightarrow> (case ve_ParseDuration E t of Some d \<Rightarrow> d | None \<Rightarrow> def))"

definition GetMetricCooldown :: "vpa_env \<Rightarrow> VerticalAutoscalingMetricConfig \<Rightarrow> int" where
  "GetMetricCooldown E cfg = durationOr E (vm_Cooldown cfg) DefaultVpaCooldown"

definition GetLimitUpdateStrategy :: "VerticalAutoscalingMetricConfig \<Rightarrow> LimitUpdateStrategy" where
  "GetLimitUpdateStrategy cfg = (case vm_LimitStrategy cfg of Some st \<Rightarrow> st | None \<Rightarrow> LimitRetain)"

definition GetLimitPercentage :: "VerticalAutoscalingMetricConfig \<Rightarrow> int" where
  "GetLimitPercentage cfg = (case vm_LimitPercentage cfg of Some k \<Rightarrow> k | None \<Rightarrow> 150)"

definition GetSafetyMarginPercent :: "VerticalAutoscalingMetricConfig \<Rightarrow> int" where
  "GetSafetyMarginPercent cfg = (case vm_SafetyMarginPercent cfg of Some k \<Rightarrow> k | None \<Rightarrow> 15)"

definition GetHysteresisPercent :: "VerticalAutoscalingMetricConfig \<Rightarrow> int" where
  "GetHysteresisPercent cfg = (case vm_HysteresisPercent cfg of Some k \<Rightarrow> k | None \<Rightarrow> 5)"

definition GetEmergencyScaleUpPercent :: "VerticalAutoscalingMetricConfig \<Rightarrow> int" where
  "GetEmergencyScaleUpPercent cfg = (case vm_EmergencyScaleUpPercent cfg of Some k \<Rightarrow> k | None \<Rightarrow> 25)"

definition GetMaxOOMRecoveries :: "VerticalAutoscalingMetricConfig \<Rightarrow> int" where
  "GetMaxOOMRecoveries cfg = (case vm_MaxOOMRecoveries cfg of Some k \<Rightarrow> k | None \<Rightarrow> 3)"

definition GetOOMRecoveryWindow :: "vpa_env \<Rightarrow> VerticalAutoscalingMetricConfig \<Rightarrow> int" where
  "GetOOMRecoveryWindow E cfg = durationOr E (vm_OOMRecoveryWindow cfg) DefaultOOMRecoveryWindow"

definition GetDuration :: "vpa_env \<Rightarrow> VerticalAutoscalingRule \<Rightarrow> int" where
  "GetDuration E rule = durationOr E (vr_Duration rule) DefaultVpaCooldown"

definition GetRuleCooldown :: "vpa_env \<Rightarrow> VerticalAutoscalingRule \<Rightarrow> int \<Rightarrow> int" where
  "GetRuleCooldown E rule metricCooldown = durationOr E (vr_Cooldown rule) metricCooldown"

section \<open>Resources and the maps they share\<close>

definition isEmptyList :: "resource_list option \<Rightarrow> bool" where
  "isEmptyList l = (case l of None \<Rightarrow> True | Some xs \<Rightarrow> xs = [])"

definition StateSyncRestoreEnabled :: "ChainNode \<Rightarrow> bool" where
  "StateSyncRestoreEnabled n = (case cn_StateSyncRestore (cn_Spec n) of Some b \<Rightarrow> b | None \<Rightarrow> False)"

definition ShouldRestoreFromSnapshot :: "ChainNode \<Rightarrow> bool" where
  "ShouldRestoreFromSnapshot n =
     (case cn_Persistence (cn_Spec n) of None \<Rightarrow> False | Some pe \<Rightarrow> pe_RestoreFromSnapshot pe \<noteq> None)"

datatype resources_field = FieldResources | FieldStateSync

definition resourcesField :: "ChainNode \<Rightarrow> resources_field" where
  "resourcesField n =
     (let sy = cn_StateSyncResources (cn_Spec n) in
      if isEmptyList (rr_Limits sy) \<and> isEmptyList (rr_Requests sy) then FieldResources
      else if StateSyncRestoreEnabled n \<and> \<not> ShouldRestoreFromSnapshot n \<and>
              cns_Phase (cn_Status n) \<in>
                {PhaseChainNodeInitData, PhaseChainNodeStarting, PhaseChainNodeStateSyncing}
      then FieldStateSync else FieldResources)"

definition fieldResources :: "resources_field \<Rightarrow> ChainNode \<Rightarrow> ResourceRequirements" where
  "fieldResources f n =
     (case f of FieldResources \<Rightarrow> cn_Resources (cn_Spec n) | FieldStateSync \<Rightarrow> cn_StateSyncResources (cn_Spec n))"

definition setFieldResources :: "resources_field \<Rightarrow> ResourceRequirements \<Rightarrow> ChainNode \<Rightarrow> ChainNode" where
  "setFieldResources f r n =
     (case f of
        FieldResources \<Rightarrow> n\<lparr>cn_Spec := (cn_Spec n)\<lparr>cn_Resources := r\<rparr>\<rparr>
      | FieldStateSync \<Rightarrow> n\<lparr>cn_Spec := (cn_Spec n)\<lparr>cn_StateSyncResources := r\<rparr>\<rparr>)"

definition GetResources :: "ChainNode \<Rightarrow> ResourceRequirements" where
  "GetResources n = fieldResources (resourcesField n) n"

text \<open>Map reads and writes; a \<open>delete\<close> on a nil map does nothing.\<close>

definition lookup :: "resource_list option \<Rightarrow> string \<Rightarrow> quantity option" where
  "lookup l k = (case l of None \<Rightarrow> None | Some xs \<Rightarrow> map_of xs k)"

definition put :: "string \<Rightarrow> quantity \<Rightarrow> resource_list \<Rightarrow> resource_list" where
  "put k q xs = AList.update k q xs"

record vpa_view =
  vv_Node :: ChainNode
  vv_Field :: resources_field
  vv_Res :: ResourceRequirements
  vv_RequestsShared :: bool
  vv_LimitsShared :: bool

definition resourcesView :: "ChainNode \<Rightarrow> vpa_view" where
  "resourcesView n =
     \<lparr>vv_Node = n, vv_Field = resourcesField n, vv_Res = GetResources n,
      vv_RequestsShared = True, vv_LimitsShared = True\<rparr>"

definition writeRequests :: "resource_list \<Rightarrow> vpa_view \<Rightarrow> vpa_view" where
  "writeRequests xs v =
     v\<lparr>vv_Res := (vv_Res v)\<lparr>rr_Requests := Some xs\<rparr>,
       vv_Node := (if vv_RequestsShared v
         then setFieldResources (vv_Field v) ((fieldResources (vv_Field v) (vv_Node v))\<lparr>rr_Requests := Some xs\<rparr>) (vv_Node v)
         else vv_Node v)\<rparr>"

definition writeLimits :: "resource_list \<Rightarrow> vpa_view \<Rightarrow> vpa_view" where
  "writeLimits xs v =
     v\<lparr>vv_Res := (vv_Res v)\<lparr>rr_Limits := Some xs\<rparr>,
       vv_Node := (if vv_LimitsShared v
         then setFieldResources (vv_Field v) ((fieldResources (vv_Field v) (vv_Node v))\<lparr>rr_Limits := Some xs\<rparr>) (vv_Node v)
         else vv_Node v)\<rparr>"

text \<open>A write allocates a map of its own where the map is nil.\<close>

definition setRequest :: "string \<Rightarrow> quantity \<Rightarrow> vpa_view \<Rightarrow> vpa_view" where
  "setRequest k q v =
     (case rr_Requests (vv_Res v) of
        None \<Rightarrow> writeRequests [(k, q)] (v\<lparr>vv_RequestsShared := False\<rparr>)
      | Some xs \<Rightarrow> writeRequests (put k q xs) v)"

definition setLimit :: "string \<Rightarrow> quantity \<Rightarrow> vpa_view \<Rightarrow> vpa_view" where
  "setLimit k q v =
     (case rr_Limits (vv_Res v) of
        None \<Rightarrow> writeLimits [(k, q)] (v\<lparr>vv_LimitsShared := False\<rparr>)
      | Some xs \<Rightarrow> writeLimits (put k q xs) v)"

definition deleteLimit :: "string \<Rightarrow> vpa_view \<Rightarrow> vpa_view" where
  "deleteLimit k v =
     (case rr_Limits (vv_Res v) of None \<Rightarrow> v | Some xs \<Rightarrow> writeLimits (AList.delete k xs) v)"

definition copyOver :: "(string \<Rightarrow> quantity \<Rightarrow> vpa_view \<Rightarrow> vpa_view) \<Rightarrow> string \<Rightarrow> resource_list option \<Rightarrow> vpa_view \<Rightarrow> vpa_view" where
  "copyOver setter k src v = (case lookup src k of Some q \<Rightarrow> setter k q v | None \<Rightarrow> v)"

definition getVpaLastAppliedResourcesOrFallback :: "vpa_env \<Rightarrow> ChainNode \<Rightarrow> vpa_view" where
  "getVpaLastAppliedResourcesOrFallback E n =
     (case m_Annotations (cn_Meta n) AnnotationVPAResources of
        None \<Rightarrow> resourcesView n
      | Some dat \<Rightarrow>
        (case ve_Unmarshal E dat of
           None \<Rightarrow> resourcesView n
         | Some vr \<Rightarrow>
             copyOver setLimit ResourceMemory (rr_Limits vr)
               (copyOver setLimit ResourceCPU (rr_Limits vr)
                 (copyOver setRequest ResourceMemory (rr_Requests vr)
                   (copyOver setRequest ResourceCPU (rr_Requests vr) (resourcesView n))))))"

section \<open>Rules\<close>

definition clamp :: "int \<Rightarrow> int \<Rightarrow> int \<Rightarrow> int" where
  "clamp val lo hi = (if val < lo then lo else if val > hi then hi else val)"

definition effectiveThreshold :: "VerticalAutoscalingMetricConfig \<Rightarrow> VerticalAutoscalingRule \<Rightarrow> int" where
  "effectiveThreshold cfg rule =
     (if vr_Direction rule = ScaleDown
      then (let t = wrap64 (vr_UsagePercent rule - GetHysteresisPercent cfg) in if t < 0 then 0 else t)
      else vr_UsagePercent rule)"

definition ruleFires :: "VerticalAutoscalingMetricConfig \<Rightarrow> VerticalAutoscalingRule \<Rightarrow> int \<Rightarrow> bool" where
  "ruleFires cfg rule usedPercent \<longleftrightarrow>
     (vr_Direction rule = ScaleUp \<and> usedPercent \<ge> effectiveThreshold cfg rule) \<or>
     (vr_Direction rule = ScaleDown \<and> usedPercent \<le> effectiveThreshold cfg rule)"

definition roundUpMiB :: "int \<Rightarrow> int" where
  "roundUpMiB val = wrap64 (go_div (wrap64 (wrap64 (val + OneMiB) - 1)) OneMiB * OneMiB)"

definition cpuUsedPercent :: "vpa_env \<Rightarrow> rat \<Rightarrow> int \<Rightarrow> int" where
  "cpuUsedPercent E avg requestMillicores =
     to_int64 (ve_OutOfRange E) (fl64 (fl64 (fl64 (avg * 1000) / fl64 (of_int requestMillicores)) * 100))"

definition cpuNewValue ::
    "vpa_env \<Rightarrow> VerticalAutoscalingMetricConfig \<Rightarrow> VerticalAutoscalingRule \<Rightarrow> int \<Rightarrow> rat \<Rightarrow> int" where
  "cpuNewValue E cfg rule requestMillicores avg =
     (let step = go_div (wrap64 (requestMillicores * vr_StepPercent rule)) 100;
          newVal = (if vr_Direction rule = ScaleUp then wrap64 (requestMillicores + step)
            else let down = wrap64 (requestMillicores - step);
                     avgMillicores = to_int64 (ve_OutOfRange E) (fl64 (avg * 1000));
                     minSafeVal = go_div (wrap64 (avgMillicores * wrap64 (100 + GetSafetyMarginPercent cfg))) 100
                 in if down < minSafeVal then minSafeVal else down)
      in clamp newVal (ve_MilliValue E (vm_Min cfg)) (ve_MilliValue E (vm_Max cfg)))"

definition evaluateCpuRule ::
    "vpa_env \<Rightarrow> 's vpa_api \<Rightarrow> VerticalAutoscalingMetricConfig \<Rightarrow> ResourceRequirements \<Rightarrow> VerticalAutoscalingRule
      \<Rightarrow> ('s, VpaError, quantity option) prog" where
  "evaluateCpuRule E VP cfg current rule s =
     (case vp_cpuStats VP (GetDuration E rule) s of
        (Inl e, s1) \<Rightarrow> (Inl (VpaStats e), s1)
      | (Inr avg, s1) \<Rightarrow>
        (if avg = 0 then (Inr None, s1)
         else case lookup (rr_Requests current) ResourceCPU of
           None \<Rightarrow> (Inl (NoRequest ResourceCPU), s1)
         | Some q \<Rightarrow>
           (let requestMillicores = ve_MilliValue E q in
            if requestMillicores = 0 then (Inl (ZeroRequest ResourceCPU), s1)
            else if ruleFires cfg rule (cpuUsedPercent E avg requestMillicores)
            then (Inr (Some (ve_NewMilliQuantity E (cpuNewValue E cfg rule requestMillicores avg))), s1)
            else (Inr None, s1))))"

definition floatPercent :: "vpa_env \<Rightarrow> int \<Rightarrow> int \<Rightarrow> int" where
  "floatPercent E val percent =
     to_int64 (ve_OutOfRange E) (fl64 (fl64 (fl64 (of_int val) * fl64 (of_int percent)) / 100))"

definition memoryUsedPercent :: "vpa_env \<Rightarrow> int \<Rightarrow> int \<Rightarrow> int" where
  "memoryUsedPercent E avg requestBytes =
     to_int64 (ve_OutOfRange E) (fl64 (fl64 (fl64 (of_int avg) / fl64 (of_int requestBytes)) * 100))"

definition memoryNewValue ::
    "vpa_env \<Rightarrow> VerticalAutoscalingMetricConfig \<Rightarrow> VerticalAutoscalingRule \<Rightarrow> int \<Rightarrow> int \<Rightarrow> int" where
  "memoryNewValue E cfg rule requestBytes avg =
     (let step = floatPercent E requestBytes (vr_StepPercent rule);
          newVal = (if vr_Direction rule = ScaleUp then wrap64 (requestBytes + step)
            else let down = wrap64 (requestBytes - step);
                     minSafeVal = floatPercent E avg (wrap64 (100 + GetSafetyMarginPercent cfg))
                 in if down < minSafeVal then minSafeVal else down)
      in roundUpMiB (clamp newVal (ve_Value E (vm_Min cfg)) (ve_Value E (vm_Max cfg))))"

definition evaluateMemoryRule ::
    "vpa_env \<Rightarrow> 's vpa_api \<Rightarrow> VerticalAutoscalingMetricConfig \<Rightarrow> ResourceRequirements \<Rightarrow> VerticalAutoscalingRule
      \<Rightarrow> ('s, VpaError, quantity option) prog" where
  "evaluateMemoryRule E VP cfg current rule s =
     (case vp_memStats VP (GetDuration E rule) s of
        (Inl e, s1) \<Rightarrow> (Inl (VpaStats e), s1)
      | (Inr avg, s1) \<Rightarrow>
        (if avg = 0 then (Inr None, s1)
         else case lookup (rr_Requests current) ResourceMemory of
           None \<Rightarrow> (Inl (NoRequest ResourceMemory), s1)
         | Some q \<Rightarrow>
           (let requestBytes = ve_Value E q in
            if requestBytes = 0 then (Inl (ZeroRequest ResourceMemory), s1)
            else if ruleFires cfg rule (memoryUsedPercent E avg requestBytes)
            then (Inr (Some (ve_NewQuantity E (memoryNewValue E cfg rule requestBytes avg))), s1)
            else (Inr None, s1))))"

definition calculateLimitFromRequest ::
    "vpa_env \<Rightarrow> ChainNode \<Rightarrow> quantity \<Rightarrow> VerticalAutoscalingMetricConfig \<Rightarrow> string \<Rightarrow> quantity option" where
  "calculateLimitFromRequest E n request cfg resourceName =
     (case GetLimitUpdateStrategy cfg of
        LimitEqual \<Rightarrow> Some request
      | LimitVpaMax \<Rightarrow> Some (vm_Max cfg)
      | LimitPercentage \<Rightarrow>
          (if resourceName = ResourceCPU
           then Some (ve_NewMilliQuantity E (go_div (wrap64 (ve_MilliValue E request * GetLimitPercentage cfg)) 100))
           else Some (ve_NewQuantity E
                  (roundUpMiB (go_div (wrap64 (ve_Value E request * GetLimitPercentage cfg)) 100))))
      | LimitUnset \<Rightarrow> None
      | LimitRetain \<Rightarrow> lookup (rr_Limits (GetResources n)) resourceName
      | StrategyOther _ \<Rightarrow> None)"

text \<open>\<open>time.Since\<close> saturates at the range of a duration.\<close>

definition withinCooldown :: "int \<Rightarrow> int \<Rightarrow> int \<Rightarrow> bool" where
  "withinCooldown now lastTs cooldown \<longleftrightarrow> max (- (2 ^ 63)) (min (2 ^ 63 - 1) (now - lastTs)) < cooldown"

definition annotationTime :: "vpa_env \<Rightarrow> string \<Rightarrow> ChainNode \<Rightarrow> int" where
  "annotationTime E key n =
     (case m_Annotations (cn_Meta n) key of
        Some t \<Rightarrow> (case ve_Parse E t of Some ts \<Rightarrow> ts | None \<Rightarrow> m_CreationTimestamp (cn_Meta n))
      | None \<Rightarrow> m_CreationTimestamp (cn_Meta n))"

definition getLastCpuScaleTime :: "vpa_env \<Rightarrow> ChainNode \<Rightarrow> int" where
  "getLastCpuScaleTime E n = annotationTime E AnnotationVPALastCPUScale n"

definition getLastMemoryScaleTime :: "vpa_env \<Rightarrow> ChainNode \<Rightarrow> int" where
  "getLastMemoryScaleTime E n = annotationTime E AnnotationVPALastMemoryScale n"

text \<open>What a scaling decision writes: the request and the limit of its strategy.\<close>

definition applyRequest :: "vpa_env \<Rightarrow> VerticalAutoscalingMetricConfig \<Rightarrow> string \<Rightarrow> quantity \<Rightarrow> vpa_view \<Rightarrow> vpa_view" where
  "applyRequest E cfg name q v =
     (let v1 = setRequest name q v in
      case calculateLimitFromRequest E (vv_Node v1) q cfg name of
        Some l \<Rightarrow> setLimit name l v1
      | None \<Rightarrow> deleteLimit name v1)"

text \<open>The loop over the rules of one metric: the first rule that scales ends it. \<open>eval\<close> is the
  evaluation of a rule on the current resources.\<close>

fun scaleRules ::
    "vpa_env \<Rightarrow> 's vpa_api \<Rightarrow> VerticalAutoscalingMetricConfig \<Rightarrow> string \<Rightarrow> int
      \<Rightarrow> (ResourceRequirements \<Rightarrow> VerticalAutoscalingRule \<Rightarrow> ('s, VpaError, quantity option) prog)
      \<Rightarrow> VerticalAutoscalingRule list \<Rightarrow> vpa_view \<Rightarrow> ('s, VpaError, vpa_view \<times> int option) prog" where
  "scaleRules E VP cfg name lastTs eval [] v s = (Inr (v, None), s)"
| "scaleRules E VP cfg name lastTs eval (rule # rules) v s =
     (case vp_now VP s of (now, s1) \<Rightarrow>
        if withinCooldown now lastTs (GetRuleCooldown E rule (GetMetricCooldown E cfg))
        then scaleRules E VP cfg name lastTs eval rules v s1
        else case eval (vv_Res v) rule s1 of
          (Inl e, s2) \<Rightarrow> (Inl e, s2)
        | (Inr None, s2) \<Rightarrow> scaleRules E VP cfg name lastTs eval rules v s2
        | (Inr (Some q), s2) \<Rightarrow>
          (case vp_now VP s2 of (ts, s3) \<Rightarrow> (Inr (applyRequest E cfg name q v, Some ts), s3)))"

definition scaleCpu :: "vpa_env \<Rightarrow> 's vpa_api \<Rightarrow> VerticalAutoscalingConfig \<Rightarrow> vpa_view \<Rightarrow> ('s, VpaError, vpa_view \<times> int option) prog" where
  "scaleCpu E VP vpa v =
     (case va_CPU vpa of
        None \<Rightarrow> ret (v, None)
      | Some cfg \<Rightarrow>
          scaleRules E VP cfg ResourceCPU (getLastCpuScaleTime E (vv_Node v)) (evaluateCpuRule E VP cfg) (vm_Rules cfg) v)"

definition scaleMemory :: "vpa_env \<Rightarrow> 's vpa_api \<Rightarrow> VerticalAutoscalingConfig \<Rightarrow> vpa_view \<Rightarrow> ('s, VpaError, vpa_view \<times> int option) prog" where
  "scaleMemory E VP vpa v =
     (case va_Memory vpa of
        None \<Rightarrow> ret (v, None)
      | Some cfg \<Rightarrow>
          scaleRules E VP cfg ResourceMemory (getLastMemoryScaleTime E (vv_Node v)) (evaluateMemoryRule E VP cfg)
            (vm_Rules cfg) v)"

section \<open>Annotations\<close>

definition annotate :: "string \<Rightarrow> string \<Rightarrow> ChainNode \<Rightarrow> ChainNode" where
  "annotate k t n = n\<lparr>cn_Meta := (cn_Meta n)\<lparr>m_Annotations := (m_Annotations (cn_Meta n))(k \<mapsto> t)\<rparr>\<rparr>"

definition unannotate :: "string \<Rightarrow> ChainNode \<Rightarrow> ChainNode" where
  "unannotate k n = n\<lparr>cn_Meta := (cn_Meta n)\<lparr>m_Annotations := (m_Annotations (cn_Meta n))(k := None)\<rparr>\<rparr>"

text \<open>\<open>if annotations[k] != t { annotations[k] = t; changed = true }\<close>.\<close>

definition syncAnnotation :: "string \<Rightarrow> string \<Rightarrow> ChainNode \<times> bool \<Rightarrow> ChainNode \<times> bool" where
  "syncAnnotation k t nc =
     (if label (m_Annotations (cn_Meta (fst nc))) k \<noteq> t then (annotate k t (fst nc), True) else nc)"

definition syncTime :: "vpa_env \<Rightarrow> string \<Rightarrow> int option \<Rightarrow> ChainNode \<times> bool \<Rightarrow> ChainNode \<times> bool" where
  "syncTime E k ts nc = (case ts of None \<Rightarrow> nc | Some t \<Rightarrow> syncAnnotation k (ve_Format E t) nc)"

definition updateNode :: "'s vpa_api \<Rightarrow> ChainNode \<Rightarrow> 's \<Rightarrow> VpaError option \<times> 's" where
  "updateNode VP n s = (case vp_update VP n s of (Inl e, s1) \<Rightarrow> (Some (VpaApi e), s1) | (Inr _, s1) \<Rightarrow> (None, s1))"

definition updateIfChanged :: "'s vpa_api \<Rightarrow> ChainNode \<times> bool \<Rightarrow> 's \<Rightarrow> (ChainNode \<times> VpaError option) \<times> 's" where
  "updateIfChanged VP nc s =
     (if snd nc then (case updateNode VP (fst nc) s of (e, s1) \<Rightarrow> ((fst nc, e), s1)) else ((fst nc, None), s))"

definition storeVpaLastAppliedResources ::
    "vpa_env \<Rightarrow> 's vpa_api \<Rightarrow> ChainNode \<Rightarrow> ResourceRequirements \<Rightarrow> int option \<Rightarrow> int option \<Rightarrow> 's
      \<Rightarrow> (ChainNode \<times> VpaError option) \<times> 's" where
  "storeVpaLastAppliedResources E VP n resources cpuScaleTs memScaleTs =
     updateIfChanged VP
       (syncTime E AnnotationVPALastMemoryScale memScaleTs
         (syncTime E AnnotationVPALastCPUScale cpuScaleTs
           (syncAnnotation AnnotationVPAResources (ve_Marshal E resources) (n, False))))"

definition clearVpaLastAppliedResources ::
    "'s vpa_api \<Rightarrow> ChainNode \<Rightarrow> 's \<Rightarrow> (ChainNode \<times> VpaError option) \<times> 's" where
  "clearVpaLastAppliedResources VP n s =
     (if m_Annotations (cn_Meta n) AnnotationVPAResources = None then ((n, None), s)
      else updateIfChanged VP (unannotate AnnotationVPAResources n, True) s)"

definition resetVpaAfterUpgrade ::
    "vpa_env \<Rightarrow> 's vpa_api \<Rightarrow> ChainNode \<Rightarrow> 's \<Rightarrow> (ChainNode \<times> VpaError option) \<times> 's" where
  "resetVpaAfterUpgrade E VP n s =
     (if \<not> IsEnabled (cn_VPA (cn_Spec n)) \<or> \<not> va_ResetVpaAfterNodeUpgrade (the (cn_VPA (cn_Spec n)))
      then ((n, None), s)
      else case vp_now VP s of (now, s1) \<Rightarrow>
        (let nc = (if m_Annotations (cn_Meta n) AnnotationVPAResources \<noteq> None
                   then (unannotate AnnotationVPAResources n, True) else (n, False));
             t = ve_Format E now
         in updateIfChanged VP (syncAnnotation AnnotationVPALastMemoryScale t
              (syncAnnotation AnnotationVPALastCPUScale t nc)) s1))"

section \<open>Recovery from out-of-memory kills\<close>

definition isOOMKilled :: "ContainerStatus list \<Rightarrow> string \<Rightarrow> bool" where
  "isOOMKilled statuses containerName =
     list_ex (\<lambda>cs. cst_Name cs = containerName \<and> cst_LastTerminationReason cs = Some ''OOMKilled'') statuses"

definition getOOMRecoveryHistory :: "vpa_env \<Rightarrow> ChainNode \<Rightarrow> int list" where
  "getOOMRecoveryHistory E n =
     (let dat = label (m_Annotations (cn_Meta n)) AnnotationVPAOOMRecoveryHistory in
      if dat = [] then []
      else case ve_UnmarshalTimes E dat of None \<Rightarrow> [] | Some ts \<Rightarrow> List.map_filter (ve_Parse E) ts)"

definition appendOOMRecoveryHistory ::
    "vpa_env \<Rightarrow> 's vpa_api \<Rightarrow> VerticalAutoscalingMetricConfig \<Rightarrow> ChainNode \<Rightarrow> 's \<Rightarrow> (ChainNode \<times> VpaError option) \<times> 's" where
  "appendOOMRecoveryHistory E VP cfg n s =
     (case vp_now VP s of (now, s1) \<Rightarrow>
        (let cutoff = now - GetOOMRecoveryWindow E cfg;
             recent = map (ve_Format E) (filter (\<lambda>ts. ts > cutoff) (getOOMRecoveryHistory E n))
         in case vp_now VP s1 of (stamp, s2) \<Rightarrow>
              updateIfChanged VP
                (annotate AnnotationVPAOOMRecoveryHistory (ve_MarshalTimes E (recent @ [ve_Format E stamp])) n, True) s2))"

definition emergencyValue :: "vpa_env \<Rightarrow> VerticalAutoscalingMetricConfig \<Rightarrow> int \<Rightarrow> int" where
  "emergencyValue E cfg currentBytes =
     (let step = floatPercent E currentBytes (GetEmergencyScaleUpPercent cfg)
      in roundUpMiB (clamp (wrap64 (currentBytes + step)) (ve_Value E (vm_Min cfg)) (ve_Value E (vm_Max cfg))))"

definition recentRecoveries :: "vpa_env \<Rightarrow> ChainNode \<Rightarrow> int \<Rightarrow> int" where
  "recentRecoveries E n cutoff = int (length (filter (\<lambda>ts. ts > cutoff) (getOOMRecoveryHistory E n)))"

definition handleOOMRecovery ::
    "vpa_env \<Rightarrow> 's vpa_api \<Rightarrow> VerticalAutoscalingMetricConfig \<Rightarrow> ChainNode \<Rightarrow> ResourceRequirements \<Rightarrow> 's
      \<Rightarrow> (ChainNode \<times> (VpaError + quantity option)) \<times> 's" where
  "handleOOMRecovery E VP cfg n current s =
     (case lookup (rr_Requests current) ResourceMemory of
        None \<Rightarrow> ((n, Inl (NoRequest ResourceMemory)), s)
      | Some q \<Rightarrow>
        (case vp_now VP s of (now, s1) \<Rightarrow>
           if recentRecoveries E n (now - GetOOMRecoveryWindow E cfg) \<ge> GetMaxOOMRecoveries cfg
           then ((n, Inr None), s1)
           else case appendOOMRecoveryHistory E VP cfg n s1 of
             ((n', Some e), s2) \<Rightarrow> ((n', Inl e), s2)
           | ((n', None), s2) \<Rightarrow> ((n', Inr (Some (ve_NewQuantity E (emergencyValue E cfg (ve_Value E q))))), s2)))"

section \<open>The resources of a node\<close>

text \<open>The emergency branch: the scaled resources, or the node (with its history) that the rules go on with.\<close>

definition oomRecovery ::
    "vpa_env \<Rightarrow> 's vpa_api \<Rightarrow> VerticalAutoscalingConfig \<Rightarrow> vpa_view \<Rightarrow> 's \<Rightarrow> ((vpa_view \<times> int) + vpa_view) \<times> 's" where
  "oomRecovery E VP vpa v s =
     (case va_Memory vpa of
        None \<Rightarrow> (Inr v, s)
      | Some cfg \<Rightarrow>
        (case vp_getPod VP s of
           (Inl _, s1) \<Rightarrow> (Inr v, s1)
         | (Inr statuses, s1) \<Rightarrow>
             if isOOMKilled statuses (app_App (cn_App (cn_Spec (vv_Node v)))) then
               (case handleOOMRecovery E VP cfg (vv_Node v) (vv_Res v) s1 of
                  ((n', Inr (Some q)), s2) \<Rightarrow>
                    (case vp_now VP s2 of (ts, s3) \<Rightarrow>
                       (Inl (applyRequest E cfg ResourceMemory q (v\<lparr>vv_Node := n'\<rparr>), ts), s3))
                | ((n', _), s2) \<Rightarrow> (Inr (v\<lparr>vv_Node := n'\<rparr>), s2))
             else (Inr v, s1)))"

type_synonym vpa_result = "ChainNode \<times> ResourceRequirements \<times> VpaError option"

definition storeView ::
    "vpa_env \<Rightarrow> 's vpa_api \<Rightarrow> vpa_view \<Rightarrow> int option \<Rightarrow> int option \<Rightarrow> 's \<Rightarrow> vpa_result \<times> 's" where
  "storeView E VP v cpuTs memTs s =
     (case storeVpaLastAppliedResources E VP (vv_Node v) (vv_Res v) cpuTs memTs s of
        ((n', e), s1) \<Rightarrow> ((n', vv_Res v, e), s1))"

definition vpaFallback :: "vpa_env \<Rightarrow> ChainNode \<Rightarrow> VpaError \<Rightarrow> vpa_result" where
  "vpaFallback E n e =
     (let w = getVpaLastAppliedResourcesOrFallback E n in (vv_Node w, vv_Res w, Some e))"

definition runRules ::
    "vpa_env \<Rightarrow> 's vpa_api \<Rightarrow> VerticalAutoscalingConfig \<Rightarrow> vpa_view \<Rightarrow> 's \<Rightarrow> vpa_result \<times> 's" where
  "runRules E VP vpa v s =
     (case scaleCpu E VP vpa v s of
        (Inl e, s1) \<Rightarrow> (vpaFallback E (vv_Node v) e, s1)
      | (Inr (v1, cpuTs), s1) \<Rightarrow>
        (case scaleMemory E VP vpa v1 s1 of
           (Inl e, s2) \<Rightarrow> (vpaFallback E (vv_Node v1) e, s2)
         | (Inr (v2, memTs), s2) \<Rightarrow> storeView E VP v2 cpuTs memTs s2))"

definition maybeGetVpaResources :: "vpa_env \<Rightarrow> 's vpa_api \<Rightarrow> ChainNode \<Rightarrow> 's \<Rightarrow> vpa_result \<times> 's" where
  "maybeGetVpaResources E VP n s =
     (case cn_VPA (cn_Spec n) of
        None \<Rightarrow> (case clearVpaLastAppliedResources VP n s of ((n', e), s1) \<Rightarrow> ((n', GetResources n, e), s1))
      | Some vpa \<Rightarrow>
        if \<not> va_Enabled vpa
        then (case clearVpaLastAppliedResources VP n s of ((n', e), s1) \<Rightarrow> ((n', GetResources n, e), s1))
        else if cns_Phase (cn_Status n) = PhaseChainNodeStateSyncing then ((n, GetResources n, None), s)
        else
          case oomRecovery E VP vpa (getVpaLastAppliedResourcesOrFallback E n) s of
            (Inl (v, ts), s1) \<Rightarrow> storeView E VP v None (Some ts) s1
          | (Inr v, s1) \<Rightarrow> runRules E VP vpa v s1)"

end
