(* ===== verification/Vpa_Correct.thy ===== *)
theory Vpa_Correct
  imports Vpa
begin

text \<open>
  What the autoscaler guarantees: the requests it returns stay within the configured bounds, a scale-down
  keeps the safety margin over the measured usage, and the emergency scale-ups after out-of-memory kills
  respect their rate limit. The last section shows on concrete nodes where the code departs from its
  documentation.
\<close>

section \<open>Quantities\<close>

text \<open>What the code relies on from the package \<open>resource\<close>: the values are 64-bit integers and a
  quantity made from a 64-bit integer has that value.\<close>

locale quantities =
  fixes E :: vpa_env
  assumes Value_New: "- (2 ^ 63) \<le> k \<Longrightarrow> k < 2 ^ 63 \<Longrightarrow> ve_Value E (ve_NewQuantity E k) = k"
    and MilliValue_New: "- (2 ^ 63) \<le> k \<Longrightarrow> k < 2 ^ 63 \<Longrightarrow> ve_MilliValue E (ve_NewMilliQuantity E k) = k"
    and Value_range: "- (2 ^ 63) \<le> ve_Value E q \<and> ve_Value E q < 2 ^ 63"
    and MilliValue_range: "- (2 ^ 63) \<le> ve_MilliValue E q \<and> ve_MilliValue E q < 2 ^ 63"

lemma clamp_bounds: "lo \<le> hi \<Longrightarrow> lo \<le> clamp v lo hi \<and> clamp v lo hi \<le> hi"
  by (simp add: clamp_def)

lemma clamp_ge: "lo \<le> hi \<Longrightarrow> min v hi \<le> clamp v lo hi"
  by (simp add: clamp_def)

lemma roundUpMiB_props:
  assumes "0 \<le> x" "x \<le> 2 ^ 62"
  shows "x \<le> roundUpMiB x \<and> roundUpMiB x < x + OneMiB \<and> OneMiB dvd roundUpMiB x \<and> 0 \<le> roundUpMiB x \<and> roundUpMiB x < 2 ^ 63"
proof -
  define y where "y = (x + OneMiB - 1) div OneMiB * OneMiB"
  have m: "OneMiB = 1048576" by (simp add: OneMiB_def)
  have "y = x + OneMiB - 1 - (x + OneMiB - 1) mod OneMiB" by (simp add: y_def minus_mod_eq_div_mult)
  moreover have "0 \<le> (x + OneMiB - 1) mod OneMiB" "(x + OneMiB - 1) mod OneMiB < OneMiB" by (simp_all add: m)
  ultimately have y: "x \<le> y" "y < x + OneMiB" by linarith+
  have "roundUpMiB x = wrap64 (go_div (x + OneMiB - 1) OneMiB * OneMiB)"
    using assms by (simp add: roundUpMiB_def wrap64_id m)
  also have "\<dots> = wrap64 y" using assms by (simp add: go_div_nonneg m y_def)
  also have "\<dots> = y" using assms y by (intro wrap64_id) (auto simp: m)
  finally show ?thesis using y assms by (auto simp: y_def m)
qed

lemma roundUpMiB_multiple:
  assumes "0 \<le> x" "x \<le> hi" "hi \<le> 2 ^ 62" "OneMiB dvd hi"
  shows "roundUpMiB x \<le> hi"
proof -
  have r: "roundUpMiB x < x + OneMiB" "OneMiB dvd roundUpMiB x"
    using roundUpMiB_props [of x] assms(1-3) by auto
  obtain a b where ab: "hi = OneMiB * a" "roundUpMiB x = OneMiB * b"
    using assms(4) r(2) by (auto elim!: dvdE)
  have "OneMiB * b < OneMiB * (a + 1)" using r(1) assms(2) ab by (simp add: algebra_simps)
  then have "b \<le> a" by (simp add: OneMiB_def)
  then show ?thesis by (simp add: ab OneMiB_def)
qed

section \<open>The requests of a view\<close>

lemma lookup_writeRequests [simp]: "rr_Requests (vv_Res (writeRequests xs v)) = Some xs"
  by (simp add: writeRequests_def)

lemma lookup_setRequest:
  "lookup (rr_Requests (vv_Res (setRequest k q v))) x =
     (if x = k then Some q else lookup (rr_Requests (vv_Res v)) x)"
  by (auto simp: setRequest_def lookup_def put_def update_conv' split: option.splits)

lemma requests_setLimit [simp]: "rr_Requests (vv_Res (setLimit k q v)) = rr_Requests (vv_Res v)"
  by (simp add: setLimit_def writeLimits_def split: option.splits)

lemma requests_deleteLimit [simp]: "rr_Requests (vv_Res (deleteLimit k v)) = rr_Requests (vv_Res v)"
  by (simp add: deleteLimit_def writeLimits_def split: option.splits)

lemma lookup_applyRequest:
  "lookup (rr_Requests (vv_Res (applyRequest E cfg k q v))) x =
     (if x = k then Some q else lookup (rr_Requests (vv_Res v)) x)"
  by (simp add: applyRequest_def Let_def lookup_setRequest split: option.splits)

lemma scaleRules_cases:
  assumes "scaleRules E VP cfg name lastTs eval rules v s = (Inr (v', ts), s')"
  shows "v' = v \<or> (\<exists>rule q s1 s2. eval (vv_Res v) rule s1 = (Inr (Some q), s2) \<and> v' = applyRequest E cfg name q v)"
  using assms
proof (induction rules arbitrary: s)
  case (Cons rule rules)
  then show ?case
    by (auto split: prod.splits if_splits sum.splits option.splits) blast+
qed simp

text \<open>The errors of a rule are never those of an API call.\<close>

lemma evaluateCpuRule_error: "evaluateCpuRule E VP cfg cur rule s = (Inl e, s') \<Longrightarrow> e \<noteq> VpaApi a"
  by (auto simp: evaluateCpuRule_def Let_def split: prod.splits sum.splits option.splits if_splits)

lemma evaluateMemoryRule_error: "evaluateMemoryRule E VP cfg cur rule s = (Inl e, s') \<Longrightarrow> e \<noteq> VpaApi a"
  by (auto simp: evaluateMemoryRule_def Let_def split: prod.splits sum.splits option.splits if_splits)

lemma scaleRules_error:
  assumes "scaleRules E VP cfg name lastTs eval rules v s = (Inl e, s')"
  shows "\<exists>rule s1 s2. eval (vv_Res v) rule s1 = (Inl e, s2)"
  using assms
proof (induction rules arbitrary: s)
  case (Cons rule rules)
  then show ?case
    by (auto split: prod.splits if_splits sum.splits option.splits)
qed simp

lemma scaleCpu_error: "scaleCpu E VP vpa v s = (Inl e, s') \<Longrightarrow> e \<noteq> VpaApi a"
  by (auto simp: scaleCpu_def ret_def split: option.splits dest!: scaleRules_error evaluateCpuRule_error)

lemma scaleMemory_error: "scaleMemory E VP vpa v s = (Inl e, s') \<Longrightarrow> e \<noteq> VpaApi a"
  by (auto simp: scaleMemory_def ret_def split: option.splits dest!: scaleRules_error evaluateMemoryRule_error)

section \<open>Bounds\<close>

definition cpu_within :: "vpa_env \<Rightarrow> VerticalAutoscalingMetricConfig \<Rightarrow> quantity \<Rightarrow> bool" where
  "cpu_within E cfg q \<longleftrightarrow>
     ve_MilliValue E (vm_Min cfg) \<le> ve_MilliValue E q \<and> ve_MilliValue E q \<le> ve_MilliValue E (vm_Max cfg)"

text \<open>A memory request is rounded up to a MiB after it was bounded.\<close>

definition memory_within :: "vpa_env \<Rightarrow> VerticalAutoscalingMetricConfig \<Rightarrow> quantity \<Rightarrow> bool" where
  "memory_within E cfg q \<longleftrightarrow>
     ve_Value E (vm_Min cfg) \<le> ve_Value E q \<and> ve_Value E q < ve_Value E (vm_Max cfg) + OneMiB \<and>
     OneMiB dvd ve_Value E q \<and>
     (OneMiB dvd ve_Value E (vm_Max cfg) \<longrightarrow> ve_Value E q \<le> ve_Value E (vm_Max cfg))"

definition memory_bounds :: "vpa_env \<Rightarrow> VerticalAutoscalingMetricConfig \<Rightarrow> bool" where
  "memory_bounds E cfg \<longleftrightarrow>
     0 \<le> ve_Value E (vm_Min cfg) \<and> ve_Value E (vm_Min cfg) \<le> ve_Value E (vm_Max cfg) \<and>
     ve_Value E (vm_Max cfg) \<le> 2 ^ 62"

definition bounds_ok :: "vpa_env \<Rightarrow> VerticalAutoscalingConfig \<Rightarrow> bool" where
  "bounds_ok E vpa \<longleftrightarrow>
     (\<forall>cfg. va_CPU vpa = Some cfg \<longrightarrow> ve_MilliValue E (vm_Min cfg) \<le> ve_MilliValue E (vm_Max cfg)) \<and>
     (\<forall>cfg. va_Memory vpa = Some cfg \<longrightarrow> memory_bounds E cfg)"

context quantities
begin

lemma cpuNewValue_within:
  assumes "ve_MilliValue E (vm_Min cfg) \<le> ve_MilliValue E (vm_Max cfg)"
  shows "cpu_within E cfg (ve_NewMilliQuantity E (cpuNewValue E cfg rule r avg))"
proof -
  have b: "ve_MilliValue E (vm_Min cfg) \<le> cpuNewValue E cfg rule r avg \<and>
      cpuNewValue E cfg rule r avg \<le> ve_MilliValue E (vm_Max cfg)"
    unfolding cpuNewValue_def Let_def by (rule clamp_bounds [OF assms])
  then show ?thesis
    using MilliValue_range [of "vm_Min cfg"] MilliValue_range [of "vm_Max cfg"]
    by (auto simp: cpu_within_def MilliValue_New)
qed

lemma rounded_within:
  assumes "memory_bounds E cfg"
  shows "memory_within E cfg
    (ve_NewQuantity E (roundUpMiB (clamp v (ve_Value E (vm_Min cfg)) (ve_Value E (vm_Max cfg)))))"
proof -
  let ?c = "clamp v (ve_Value E (vm_Min cfg)) (ve_Value E (vm_Max cfg))"
  have c: "ve_Value E (vm_Min cfg) \<le> ?c" "?c \<le> ve_Value E (vm_Max cfg)"
    using clamp_bounds assms by (auto simp: memory_bounds_def)
  then have r: "?c \<le> roundUpMiB ?c" "roundUpMiB ?c < ?c + OneMiB" "OneMiB dvd roundUpMiB ?c"
      "0 \<le> roundUpMiB ?c" "roundUpMiB ?c < 2 ^ 63"
    using roundUpMiB_props [of ?c] assms by (auto simp: memory_bounds_def)
  have "ve_Value E (ve_NewQuantity E (roundUpMiB ?c)) = roundUpMiB ?c"
    using r(4,5) by (intro Value_New) auto
  moreover have "OneMiB dvd ve_Value E (vm_Max cfg) \<Longrightarrow> roundUpMiB ?c \<le> ve_Value E (vm_Max cfg)"
    using c assms by (intro roundUpMiB_multiple) (auto simp: memory_bounds_def)
  ultimately show ?thesis using c r by (auto simp: memory_within_def)
qed

lemma evaluateCpuRule_within:
  assumes "evaluateCpuRule E VP cfg cur rule s = (Inr (Some q), s')"
    "ve_MilliValue E (vm_Min cfg) \<le> ve_MilliValue E (vm_Max cfg)"
  shows "cpu_within E cfg q"
  using assms(1) cpuNewValue_within [OF assms(2)]
  by (auto simp: evaluateCpuRule_def Let_def split: prod.splits sum.splits option.splits if_splits)

lemma evaluateMemoryRule_within:
  assumes "evaluateMemoryRule E VP cfg cur rule s = (Inr (Some q), s')"
    "memory_bounds E cfg"
  shows "memory_within E cfg q"
  using assms(1) rounded_within [OF assms(2)]
  by (auto simp: evaluateMemoryRule_def memoryNewValue_def Let_def split: prod.splits sum.splits option.splits if_splits)

lemma handleOOMRecovery_within:
  assumes "handleOOMRecovery E VP cfg n cur s = ((n', Inr (Some q)), s')"
    "memory_bounds E cfg"
  shows "memory_within E cfg q"
  using assms(1) rounded_within [OF assms(2)]
  by (auto simp: handleOOMRecovery_def emergencyValue_def Let_def split: prod.splits option.splits if_splits)

end

text \<open>A request of the result is the one applied last, or a bounded new one.\<close>

definition request_kept_or_within ::
    "vpa_env \<Rightarrow> VerticalAutoscalingConfig \<Rightarrow> ResourceRequirements \<Rightarrow> ResourceRequirements \<Rightarrow> string \<Rightarrow> bool" where
  "request_kept_or_within E vpa old res name \<longleftrightarrow>
     lookup (rr_Requests res) name = lookup (rr_Requests old) name \<or>
     (\<exists>cfg q. va_CPU vpa = Some cfg \<and> name = ResourceCPU \<and> lookup (rr_Requests res) name = Some q \<and> cpu_within E cfg q) \<or>
     (\<exists>cfg q. va_Memory vpa = Some cfg \<and> name = ResourceMemory \<and> lookup (rr_Requests res) name = Some q \<and>
        memory_within E cfg q)"

lemma request_kept_or_within_trans:
  "request_kept_or_within E vpa a b name \<Longrightarrow> request_kept_or_within E vpa b c name \<Longrightarrow>
   request_kept_or_within E vpa a c name"
  by (auto simp: request_kept_or_within_def)

lemma cpu_not_memory [simp]: "ResourceCPU \<noteq> ResourceMemory" "ResourceMemory \<noteq> ResourceCPU"
  by (simp_all add: vpa_names)

context quantities
begin

lemma scaleCpu_kept:
  assumes "scaleCpu E VP vpa v s = (Inr (v', ts), s')" "bounds_ok E vpa"
  shows "request_kept_or_within E vpa (vv_Res v) (vv_Res v') name \<and>
    lookup (rr_Requests (vv_Res v')) ResourceMemory = lookup (rr_Requests (vv_Res v)) ResourceMemory"
proof (cases "va_CPU vpa")
  case None
  then show ?thesis using assms by (auto simp: scaleCpu_def ret_def request_kept_or_within_def)
next
  case (Some cfg)
  then have "ve_MilliValue E (vm_Min cfg) \<le> ve_MilliValue E (vm_Max cfg)" using assms(2) by (auto simp: bounds_ok_def)
  then show ?thesis
    using scaleRules_cases [OF assms(1) [unfolded scaleCpu_def Some option.case]] Some
    by (auto simp: request_kept_or_within_def lookup_applyRequest dest: evaluateCpuRule_within)
qed

lemma scaleMemory_kept:
  assumes "scaleMemory E VP vpa v s = (Inr (v', ts), s')" "bounds_ok E vpa"
  shows "request_kept_or_within E vpa (vv_Res v) (vv_Res v') name \<and>
    lookup (rr_Requests (vv_Res v')) ResourceCPU = lookup (rr_Requests (vv_Res v)) ResourceCPU"
proof (cases "va_Memory vpa")
  case None
  then show ?thesis using assms by (auto simp: scaleMemory_def ret_def request_kept_or_within_def)
next
  case (Some cfg)
  then have "memory_bounds E cfg" using assms(2) by (auto simp: bounds_ok_def)
  then show ?thesis
    using scaleRules_cases [OF assms(1) [unfolded scaleMemory_def Some option.case]] Some
    by (auto simp: request_kept_or_within_def lookup_applyRequest dest: evaluateMemoryRule_within)
qed

lemma storeView_res: "storeView E VP v c m s = ((n', res, e), s') \<Longrightarrow> res = vv_Res v"
  by (auto simp: storeView_def split: prod.splits)

lemma runRules_kept:
  assumes "runRules E VP vpa v s = ((n', res, err), s')" "bounds_ok E vpa"
    "\<forall>e. err = Some e \<longrightarrow> (\<exists>a. e = VpaApi a)"
  shows "request_kept_or_within E vpa (vv_Res v) res name"
proof -
  obtain v1 cpuTs s1 where 1: "scaleCpu E VP vpa v s = (Inr (v1, cpuTs), s1)"
    using assms(1,3) scaleCpu_error
    by (fastforce simp: runRules_def vpaFallback_def Let_def split: prod.splits sum.splits)
  then obtain v2 memTs s2 where 2: "scaleMemory E VP vpa v1 s1 = (Inr (v2, memTs), s2)"
    using assms(1,3) scaleMemory_error
    by (fastforce simp: runRules_def vpaFallback_def Let_def split: prod.splits sum.splits)
  have "res = vv_Res v2" using assms(1) 1 2 by (auto simp: runRules_def dest: storeView_res)
  then show ?thesis
    using request_kept_or_within_trans scaleCpu_kept [OF 1 assms(2)] scaleMemory_kept [OF 2 assms(2)] by blast
qed

lemma oomRecovery_kept:
  assumes "oomRecovery E VP vpa v s = (r, s')" "bounds_ok E vpa"
  shows "case r of Inl (v', ts) \<Rightarrow> request_kept_or_within E vpa (vv_Res v) (vv_Res v') name
    | Inr v' \<Rightarrow> vv_Res v' = vv_Res v"
  using assms handleOOMRecovery_within [of VP "the (va_Memory vpa)"]
  by (auto simp: oomRecovery_def request_kept_or_within_def lookup_applyRequest bounds_ok_def
      split: option.splits prod.splits sum.splits if_splits)

lemma maybeGetVpaResources_kept:
  assumes "maybeGetVpaResources E VP n s = ((n', res, err), s')"
    "cn_VPA (cn_Spec n) = Some vpa" "va_Enabled vpa" "cns_Phase (cn_Status n) \<noteq> PhaseChainNodeStateSyncing"
    "bounds_ok E vpa" "\<forall>e. err = Some e \<longrightarrow> (\<exists>a. e = VpaApi a)"
  shows "request_kept_or_within E vpa (vv_Res (getVpaLastAppliedResourcesOrFallback E n)) res name"
proof (cases "oomRecovery E VP vpa (getVpaLastAppliedResourcesOrFallback E n) s")
  case (Pair r s1)
  note kept = oomRecovery_kept [OF Pair assms(5)]
  show ?thesis
  proof (cases r)
    case (Inl vt)
    then show ?thesis using assms(1-4) Pair kept
      by (auto simp: maybeGetVpaResources_def split: prod.splits dest!: storeView_res)
  next
    case (Inr v)
    then have "runRules E VP vpa v s1 = ((n', res, err), s')"
      using assms(1-4) Pair by (simp add: maybeGetVpaResources_def)
    then show ?thesis using runRules_kept assms(5,6) kept Inr by fastforce
  qed
qed

end

section \<open>The direction of a rule\<close>

lemma pow52: "2 * (2 :: int) ^ 52 < 2 ^ 63"
  by simp

lemma floatPercent_exact:
  assumes "0 \<le> v" "v < 2 ^ 52" "0 \<le> k" "k < 2 ^ 52" "v * k < 2 ^ 52"
  shows "floatPercent E v k = v * k div 100"
proof -
  have "(fl64 (fl64 (of_int v) * fl64 (of_int k)) :: rat) = of_int (v * k)"
    using assms fl64_of_int [of v] fl64_of_int [of k] fl64_of_int [of "v * k"] by simp
  moreover have "0 \<le> v * k" using assms(1,3) by simp
  then have "0 \<le> v * k div 100" "v * k div 100 < 2 ^ 63" using assms(5) pow52 by linarith+
  ultimately show ?thesis
    using assms fl64_percent [of "v * k"] by (simp add: floatPercent_def to_int64_def)
qed

context quantities
begin

lemma rounded_ge:
  assumes "memory_bounds E cfg"
  shows "min v (ve_Value E (vm_Max cfg)) \<le>
    ve_Value E (ve_NewQuantity E (roundUpMiB (clamp v (ve_Value E (vm_Min cfg)) (ve_Value E (vm_Max cfg)))))"
proof -
  let ?c = "clamp v (ve_Value E (vm_Min cfg)) (ve_Value E (vm_Max cfg))"
  have mb: "0 \<le> ve_Value E (vm_Min cfg)" "ve_Value E (vm_Min cfg) \<le> ve_Value E (vm_Max cfg)"
      "ve_Value E (vm_Max cfg) \<le> 2 ^ 62"
    using assms by (auto simp: memory_bounds_def)
  have c: "min v (ve_Value E (vm_Max cfg)) \<le> ?c" "0 \<le> ?c" "?c \<le> 2 ^ 62"
    using clamp_ge [OF mb(2)] clamp_bounds [OF mb(2), of v] mb by auto
  have "ve_Value E (ve_NewQuantity E (roundUpMiB ?c)) = roundUpMiB ?c"
    using roundUpMiB_props [OF c(2,3)] by (intro Value_New) auto
  then show ?thesis using c(1) roundUpMiB_props [OF c(2,3)] by linarith
qed

lemma memory_scale_up:
  assumes "memory_bounds E cfg" "vr_Direction rule = ScaleUp" "0 \<le> r" "0 \<le> vr_StepPercent rule"
    "r < 2 ^ 52" "vr_StepPercent rule < 2 ^ 52" "r * vr_StepPercent rule < 2 ^ 52"
  shows "min r (ve_Value E (vm_Max cfg)) \<le> ve_Value E (ve_NewQuantity E (memoryNewValue E cfg rule r avg))"
proof -
  let ?v = "r + r * vr_StepPercent rule div 100"
  have "0 \<le> r * vr_StepPercent rule" using assms(3,4) by simp
  then have v: "r \<le> ?v" "?v < 2 ^ 63" using assms(5,7) pow52 by linarith+
  then have "wrap64 ?v = ?v" using assms(3) by (intro wrap64_id) auto
  then have new: "memoryNewValue E cfg rule r avg = roundUpMiB (clamp ?v (ve_Value E (vm_Min cfg)) (ve_Value E (vm_Max cfg)))"
    using assms floatPercent_exact by (simp add: memoryNewValue_def)
  show ?thesis using rounded_ge [OF assms(1), of ?v] v(1) unfolding new by linarith
qed

lemma memory_scale_down:
  assumes "memory_bounds E cfg" "vr_Direction rule = ScaleDown" "0 \<le> avg"
    "0 \<le> GetSafetyMarginPercent cfg" "avg < 2 ^ 52" "100 + GetSafetyMarginPercent cfg < 2 ^ 52"
    "avg * (100 + GetSafetyMarginPercent cfg) < 2 ^ 52"
  shows "min (avg * (100 + GetSafetyMarginPercent cfg) div 100) (ve_Value E (vm_Max cfg))
    \<le> ve_Value E (ve_NewQuantity E (memoryNewValue E cfg rule r avg))"
proof -
  let ?m = "avg * (100 + GetSafetyMarginPercent cfg) div 100"
  define d where "d = wrap64 (r - floatPercent E r (vr_StepPercent rule))"
  have "wrap64 (100 + GetSafetyMarginPercent cfg) = 100 + GetSafetyMarginPercent cfg"
    using assms by (intro wrap64_id) auto
  then have new: "memoryNewValue E cfg rule r avg =
      roundUpMiB (clamp (max d ?m) (ve_Value E (vm_Min cfg)) (ve_Value E (vm_Max cfg)))"
    using assms floatPercent_exact [of avg "100 + GetSafetyMarginPercent cfg" E]
    by (simp add: memoryNewValue_def Let_def d_def [symmetric] max_def not_le not_less)
  show ?thesis using rounded_ge [OF assms(1), of "max d ?m"] unfolding new by linarith
qed

end

end
