(* ===== verification/Vpa_Safety.thy ===== *)
theory Vpa_Safety
  imports Vpa_Correct
begin

text \<open>
  The rate limit of the emergency scale-ups over whole runs, a concrete environment and clock that
  interpret the contracts, the properties of the autoscaler and what happens to the node's own resources.
\<close>

section \<open>Runs of emergency scale-ups\<close>

definition second :: "int \<Rightarrow> int" where
  "second t = t div 1000000000 * 1000000000"

lemma second_le: "second t \<le> t"
  by (simp add: second_def minus_mod_eq_div_mult [symmetric])

lemma second_mono: "t \<le> u \<Longrightarrow> second t \<le> second u"
  by (simp add: second_def zdiv_mono1)

text \<open>What the code relies on: the clock does not go back, the time layout has whole seconds and reads back,
  a JSON list of formatted times reads back.\<close>

locale oom_world =
  fixes E :: vpa_env and VP :: "'s vpa_api" and clock :: "'s \<Rightarrow> int"
  assumes now: "vp_now VP s = (t, s') \<Longrightarrow> clock s \<le> t \<and> t \<le> clock s'"
    and update_clock: "vp_update VP n s = (r, s') \<Longrightarrow> clock s \<le> clock s'"
    and Parse_Format: "ve_Parse E (ve_Format E t) = Some (second t)"
    and Parse_second: "ve_Parse E x = Some t \<Longrightarrow> second t = t"
    and Marshal_nonempty: "ve_MarshalTimes E (map (ve_Format E) ts) \<noteq> []"
    and Unmarshal: "ve_UnmarshalTimes E (ve_MarshalTimes E (map (ve_Format E) ts)) = Some (map (ve_Format E) ts)"

text \<open>\<open>oom_run n s ups\<close>: starting with no recorded recovery, the emergency scale-ups so far were at the
  times \<open>ups\<close> (the time each read first). Between two of them the node may change, but not its record.\<close>

inductive oom_run :: "vpa_env \<Rightarrow> 's vpa_api \<Rightarrow> ('s \<Rightarrow> int) \<Rightarrow> VerticalAutoscalingMetricConfig \<Rightarrow> ChainNode \<Rightarrow> 's \<Rightarrow> int list \<Rightarrow> bool"
  for E VP clock cfg where
  start: "getOOMRecoveryHistory E n = [] \<Longrightarrow> oom_run E VP clock cfg n s []"
| recovered: "oom_run E VP clock cfg n s ups \<Longrightarrow>
    handleOOMRecovery E VP cfg n cur s = ((n', Inr (Some q)), s') \<Longrightarrow>
    oom_run E VP clock cfg n' s' (ups @ [fst (vp_now VP s)])"
| refused: "oom_run E VP clock cfg n s ups \<Longrightarrow>
    handleOOMRecovery E VP cfg n cur s = ((n', r), s') \<Longrightarrow> (\<forall>q. r \<noteq> Inr (Some q)) \<Longrightarrow>
    oom_run E VP clock cfg n' s' ups"
| other: "oom_run E VP clock cfg n s ups \<Longrightarrow> clock s \<le> clock s' \<Longrightarrow>
    m_Annotations (cn_Meta n') AnnotationVPAOOMRecoveryHistory =
      m_Annotations (cn_Meta n) AnnotationVPAOOMRecoveryHistory \<Longrightarrow>
    oom_run E VP clock cfg n' s' ups"

text \<open>The record covers the log as far back as the window reaches.\<close>

definition record_covers :: "vpa_env \<Rightarrow> ChainNode \<Rightarrow> int \<Rightarrow> int list \<Rightarrow> bool" where
  "record_covers E n from_time ups \<longleftrightarrow>
     (\<forall>c \<ge> from_time. int (length (filter (\<lambda>t. c < second t) ups)) \<le> recentRecoveries E n c)"

definition rate_limited :: "int \<Rightarrow> int \<Rightarrow> int list \<Rightarrow> bool" where
  "rate_limited window most ups \<longleftrightarrow>
     (\<forall>a. int (length (filter (\<lambda>t. a < second t \<and> t \<le> a + window) ups)) \<le> most)"

lemma label_annotate: "label (m_Annotations (cn_Meta (annotate k t n))) k = t"
  by (simp add: annotate_def label_def)

lemma fst_updateIfChanged: "updateIfChanged VP nc s = ((n', e), s') \<Longrightarrow> n' = fst nc"
  by (auto simp: updateIfChanged_def split: prod.splits if_splits)

lemma length_filter_mono:
  "(\<And>x. P x \<Longrightarrow> Q x) \<Longrightarrow> length (filter P xs) \<le> length (filter Q xs)"
  by (induction xs) (simp_all add: le_SucI)

lemma rate_limited_snoc:
  assumes "rate_limited window most ups" "int (length (filter (\<lambda>t. now - window < second t) ups)) < most"
  shows "rate_limited window most (ups @ [now])"
  unfolding rate_limited_def
proof
  fix a
  let ?in = "\<lambda>t. a < second t \<and> t \<le> a + window"
  show "int (length (filter ?in (ups @ [now]))) \<le> most"
  proof (cases "?in now")
    case True
    then have "length (filter ?in ups) \<le> length (filter (\<lambda>t. now - window < second t) ups)"
      by (intro length_filter_mono) auto
    then show ?thesis using assms(2) True by simp
  next
    case False
    then show ?thesis using assms(1) by (auto simp: rate_limited_def)
  qed
qed

context oom_world
begin

lemma history_parsed: "t \<in> set (getOOMRecoveryHistory E n) \<Longrightarrow> second t = t"
  by (auto simp: getOOMRecoveryHistory_def Let_def map_filter_def dest: Parse_second split: if_splits option.splits)

lemma map_filter_Format: "List.map_filter (ve_Parse E) (map (ve_Format E) ts) = map second ts"
  by (induction ts) (simp_all add: map_filter_simps Parse_Format)

lemma append_history:
  assumes "appendOOMRecoveryHistory E VP cfg n s = ((n', e), s')"
  obtains now stamp where "clock s \<le> now" "now \<le> stamp" "stamp \<le> clock s'"
    "getOOMRecoveryHistory E n' =
       filter (\<lambda>ts. ts > now - GetOOMRecoveryWindow E cfg) (getOOMRecoveryHistory E n) @ [second stamp]"
proof -
  obtain now s1 where 1: "vp_now VP s = (now, s1)" by (cases "vp_now VP s")
  obtain stamp s2 where 2: "vp_now VP s1 = (stamp, s2)" by (cases "vp_now VP s1")
  define recent where "recent = filter (\<lambda>ts. ts > now - GetOOMRecoveryWindow E cfg) (getOOMRecoveryHistory E n)"
  define data where "data = ve_MarshalTimes E (map (ve_Format E) (recent @ [stamp]))"
  have upd: "updateIfChanged VP (annotate AnnotationVPAOOMRecoveryHistory data n, True) s2 = ((n', e), s')"
    using assms by (simp add: appendOOMRecoveryHistory_def 1 2 Let_def recent_def data_def)
  then have n': "n' = annotate AnnotationVPAOOMRecoveryHistory data n" by (auto dest: fst_updateIfChanged)
  have "clock s2 \<le> clock s'" using upd
    by (auto simp: updateIfChanged_def updateNode_def dest: update_clock split: prod.splits sum.splits)
  then have times: "clock s \<le> now" "now \<le> stamp" "stamp \<le> clock s'" using now [OF 1] now [OF 2] by auto
  have "map second recent = recent"
    by (rule map_idI) (auto simp: recent_def dest: history_parsed)
  then have "getOOMRecoveryHistory E n' = recent @ [second stamp]"
    using map_filter_Format [of "recent @ [stamp]"] Unmarshal [of "recent @ [stamp]"] Marshal_nonempty [of "recent @ [stamp]"]
    by (simp add: getOOMRecoveryHistory_def n' label_annotate data_def)
  then show thesis using that times by (simp add: recent_def)
qed

lemma append_covers:
  assumes "appendOOMRecoveryHistory E VP cfg n s = ((n', e), s')"
    "record_covers E n (clock s - GetOOMRecoveryWindow E cfg) ups"
    "ups' = ups \<or> ups' = ups @ [t]" "t \<le> clock s"
  shows "record_covers E n' (clock s' - GetOOMRecoveryWindow E cfg) ups' \<and> clock s \<le> clock s'"
proof -
  obtain now stamp where st: "clock s \<le> now" "now \<le> stamp" "stamp \<le> clock s'"
    and h: "getOOMRecoveryHistory E n' =
       filter (\<lambda>ts. ts > now - GetOOMRecoveryWindow E cfg) (getOOMRecoveryHistory E n) @ [second stamp]"
    by (rule append_history [OF assms(1)])
  have "int (length (filter (\<lambda>t. c < second t) ups')) \<le> recentRecoveries E n' c"
    if c: "clock s' - GetOOMRecoveryWindow E cfg \<le> c" for c
  proof -
    have "filter (\<lambda>ts. c < ts) (filter (\<lambda>ts. ts > now - GetOOMRecoveryWindow E cfg) (getOOMRecoveryHistory E n)) =
        filter (\<lambda>ts. c < ts) (getOOMRecoveryHistory E n)"
      using c st unfolding filter_filter by (intro filter_cong) auto
    then have r: "recentRecoveries E n' c = recentRecoveries E n c + (if c < second stamp then 1 else 0)"
      by (simp add: recentRecoveries_def h)
    have "int (length (filter (\<lambda>t. c < second t) ups)) \<le> recentRecoveries E n c"
      using assms(2) c st by (simp add: record_covers_def)
    moreover have "c < second t \<Longrightarrow> c < second stamp"
      using second_mono [of t stamp] assms(4) st by linarith
    ultimately show ?thesis using assms(3) r by auto
  qed
  then show ?thesis using st by (simp add: record_covers_def)
qed

lemma oom_run_invariant:
  assumes "oom_run E VP clock cfg n s ups" "0 \<le> GetMaxOOMRecoveries cfg"
  shows "record_covers E n (clock s - GetOOMRecoveryWindow E cfg) ups \<and>
    rate_limited (GetOOMRecoveryWindow E cfg) (GetMaxOOMRecoveries cfg) ups"
  using assms(1)
proof (induction rule: oom_run.induct)
  case (start n s)
  then show ?case using assms(2) by (simp add: record_covers_def rate_limited_def recentRecoveries_def)
next
  case (recovered n s ups cur n' q s')
  obtain t s1 where t: "vp_now VP s = (t, s1)" by (cases "vp_now VP s")
  have few: "recentRecoveries E n (t - GetOOMRecoveryWindow E cfg) < GetMaxOOMRecoveries cfg"
    and app: "appendOOMRecoveryHistory E VP cfg n s1 = ((n', None), s')"
    using recovered.hyps(2) t by (auto simp: handleOOMRecovery_def split: option.splits if_splits prod.splits)
  note cl = now [OF t]
  have cov: "record_covers E n (clock s1 - GetOOMRecoveryWindow E cfg) ups"
    using recovered.IH cl by (auto simp: record_covers_def)
  have "int (length (filter (\<lambda>u. t - GetOOMRecoveryWindow E cfg < second u) ups)) < GetMaxOOMRecoveries cfg"
    using recovered.IH few cl unfolding record_covers_def
    by (meson diff_right_mono le_less_trans)
  then show ?case
    using append_covers [OF app cov, of "ups @ [t]" t] cl recovered.IH by (simp add: t rate_limited_snoc)
next
  case (refused n s ups cur n' r s')
  have later: ?case if "n' = n" "clock s \<le> clock s'"
    using refused.IH that by (auto simp: record_covers_def)
  obtain t s1 where t: "vp_now VP s = (t, s1)" by (cases "vp_now VP s")
  note cl = now [OF t]
  consider "n' = n" "s' = s" | "n' = n" "s' = s1" | e where "appendOOMRecoveryHistory E VP cfg n s1 = ((n', Some e), s')"
    using refused.hyps(2,3) t
    by (auto simp: handleOOMRecovery_def split: option.splits if_splits prod.splits)
  then show ?case
  proof cases
    case 3
    have "record_covers E n (clock s1 - GetOOMRecoveryWindow E cfg) ups"
      using refused.IH cl by (auto simp: record_covers_def)
    then show ?thesis using append_covers [OF 3, of ups ups t] refused.IH cl by simp
  qed (use later cl in auto)
next
  case (other n s ups s' n')
  then show ?case
    by (auto simp: record_covers_def recentRecoveries_def getOOMRecoveryHistory_def label_def)
qed

end

section \<open>A concrete environment\<close>

text \<open>Quantities in nano units, times in whole seconds written in unary, and a world whose clock ticks by a
  second at each reading and whose API server fails the updates its script marks.\<close>

definition unary :: "int \<Rightarrow> string" where
  "unary k = (if k < 0 then CHR ''-'' # replicate (nat (- k)) (CHR ''1'') else replicate (nat k) (CHR ''1''))"

definition ununary :: "string \<Rightarrow> int" where
  "ununary t = (if t \<noteq> [] \<and> hd t = CHR ''-'' then - int (length t - 1) else int (length t))"

lemma ununary_unary: "ununary (unary k) = k"
  by (cases "nat k") (auto simp: ununary_def unary_def)

fun commaList :: "string list \<Rightarrow> string" where
  "commaList [] = '']''"
| "commaList (t # ts) = t @ [CHR '',''] @ commaList ts"

function bits :: "int \<Rightarrow> string" where
  "bits k = (if k \<le> 0 then [] else (if k mod 2 = 0 then CHR ''0'' else CHR ''1'') # bits (k div 2))"
  by auto
termination by (relation "measure nat") auto

declare bits.simps [simp del]

definition saturate :: "int \<Rightarrow> int" where
  "saturate k = max (- (2 ^ 63)) (min (2 ^ 63 - 1) k)"

definition nano_env :: vpa_env where
  "nano_env =
     \<lparr>ve_ParseDuration = (\<lambda>t. Some (int (length t) * 1000000000)),
      ve_Value = (\<lambda>q. saturate (- ((- q) div 1000000000))),
      ve_MilliValue = (\<lambda>q. saturate (- ((- q) div 1000000))),
      ve_NewQuantity = (\<lambda>k. k * 1000000000),
      ve_NewMilliQuantity = (\<lambda>k. k * 1000000),
      ve_Marshal = (\<lambda>r. concat (map (\<lambda>p. fst p @ ''='' @ bits (snd p) @ '','')
        (case rr_Requests r of None \<Rightarrow> [] | Some l \<Rightarrow> l))),
      ve_Unmarshal = (\<lambda>t. None),
      ve_Format = (\<lambda>t. unary (t div 1000000000)),
      ve_Parse = (\<lambda>t. Some (ununary t * 1000000000)),
      ve_MarshalTimes = commaList,
      ve_UnmarshalTimes = (\<lambda>t. Some (butlast (SplitByte t (CHR '','')))),
      ve_OutOfRange = (\<lambda>x. - (2 ^ 63))\<rparr>"

interpretation nano: quantities nano_env
  by unfold_locales (auto simp: nano_env_def saturate_def)

record vpa_world =
  vw_clock :: int
  vw_stored :: "ChainNode option"
  vw_cpu :: rat
  vw_mem :: int
  vw_pod :: "ContainerStatus list option"
  vw_fails :: "bool list"

definition world_api :: "vpa_world vpa_api" where
  "world_api =
     \<lparr>vp_now = (\<lambda>w. (vw_clock w, w\<lparr>vw_clock := vw_clock w + 1000000000\<rparr>)),
      vp_cpuStats = (\<lambda>d w. (Inr (vw_cpu w), w)),
      vp_memStats = (\<lambda>d w. (Inr (vw_mem w), w)),
      vp_getPod = (\<lambda>w. (case vw_pod w of None \<Rightarrow> Inl NotFound | Some p \<Rightarrow> Inr p, w)),
      vp_update = (\<lambda>n w. (case vw_fails w of
          True # fs \<Rightarrow> (Inl Conflict, w\<lparr>vw_fails := fs\<rparr>)
        | False # fs \<Rightarrow> (Inr (), w\<lparr>vw_fails := fs, vw_stored := Some n\<rparr>)
        | [] \<Rightarrow> (Inr (), w\<lparr>vw_stored := Some n\<rparr>)))\<rparr>"

lemma SplitByte_commaList:
  "(\<And>t. t \<in> set ts \<Longrightarrow> CHR '','' \<notin> set t) \<Longrightarrow> SplitByte (commaList ts) (CHR '','') = ts @ ['']'']"
proof (induction ts)
  case (Cons t ts)
  then show ?case using SplitByte_one [of "CHR '',''" t "commaList ts"] by simp
qed simp

interpretation nano_oom: oom_world nano_env world_api vw_clock
proof unfold_locales
  fix ts
  have "CHR '','' \<notin> set t" if "t \<in> set (map (ve_Format nano_env) ts)" for t
    using that by (auto simp: nano_env_def unary_def split: if_splits)
  then show "ve_UnmarshalTimes nano_env (ve_MarshalTimes nano_env (map (ve_Format nano_env) ts)) =
      Some (map (ve_Format nano_env) ts)"
    using SplitByte_commaList [of "map (ve_Format nano_env) ts"] by (simp add: nano_env_def)
next
  show "ve_MarshalTimes nano_env (map (ve_Format nano_env) ts) \<noteq> []" for ts
    by (cases ts) (simp_all add: nano_env_def)
qed (auto simp: nano_env_def world_api_def second_def ununary_unary split: list.splits if_splits bool.splits)

section \<open>Properties\<close>

text \<open>C24: When the autoscaler returns without a failed rule, every resource request is the one applied last,
  or it is the CPU request within the configured minimum and maximum, or the memory request, a whole number of
  MiB, not below the minimum and above the maximum by less than a MiB (not at all when the maximum is a whole
  number of MiB).\<close>

theorem vpa_requests_bounded:
  assumes "quantities E" "maybeGetVpaResources E VP n s = ((n', res, err), s')"
    "cn_VPA (cn_Spec n) = Some vpa" "va_Enabled vpa" "cns_Phase (cn_Status n) \<noteq> PhaseChainNodeStateSyncing"
    "bounds_ok E vpa" "\<forall>e. err = Some e \<longrightarrow> (\<exists>a. e = VpaApi a)"
  shows "request_kept_or_within E vpa (vv_Res (getVpaLastAppliedResourcesOrFallback E n)) res name"
  using quantities.maybeGetVpaResources_kept [OF assms] .

text \<open>C25: A memory rule never works against its purpose: a request it lowers keeps the measured usage plus
  the safety margin, a request it raises is not lowered, both up to the configured maximum, for amounts on which
  the \<open>float64\<close> arithmetic of the code is exact.\<close>

theorem memory_rule_safe:
  assumes "quantities E" "evaluateMemoryRule E VP cfg cur rule s = (Inr (Some q), s')"
    "vp_memStats VP (GetDuration E rule) s = (Inr avg, s')" "lookup (rr_Requests cur) ResourceMemory = Some r"
    "memory_bounds E cfg" "0 \<le> ve_Value E r" "0 \<le> avg" "0 \<le> GetSafetyMarginPercent cfg" "0 \<le> vr_StepPercent rule"
    "ve_Value E r * vr_StepPercent rule < 2 ^ 52" "ve_Value E r < 2 ^ 52" "vr_StepPercent rule < 2 ^ 52"
    "avg < 2 ^ 52" "100 + GetSafetyMarginPercent cfg < 2 ^ 52" "avg * (100 + GetSafetyMarginPercent cfg) < 2 ^ 52"
  shows "(vr_Direction rule = ScaleDown \<and>
      min (avg * (100 + GetSafetyMarginPercent cfg) div 100) (ve_Value E (vm_Max cfg)) \<le> ve_Value E q) \<or>
    (vr_Direction rule = ScaleUp \<and> min (ve_Value E r) (ve_Value E (vm_Max cfg)) \<le> ve_Value E q)"
proof -
  have q: "q = ve_NewQuantity E (memoryNewValue E cfg rule (ve_Value E r) avg)"
    and fires: "ruleFires cfg rule (memoryUsedPercent E avg (ve_Value E r))"
    using assms(2-4) by (auto simp: evaluateMemoryRule_def Let_def split: if_splits)
  then consider "vr_Direction rule = ScaleUp" | "vr_Direction rule = ScaleDown" by (auto simp: ruleFires_def)
  then show ?thesis
  proof cases
    case 1
    then show ?thesis unfolding q using quantities.memory_scale_up assms by blast
  next
    case 2
    then show ?thesis unfolding q using quantities.memory_scale_down assms by blast
  qed
qed


section \<open>Examples\<close>

definition mebi :: "int \<Rightarrow> quantity" where "mebi k = k * OneMiB * 1000000000"

definition scale_up :: VerticalAutoscalingRule where
  "scale_up = \<lparr>vr_Direction = ScaleUp, vr_UsagePercent = 80, vr_Duration = None, vr_StepPercent = 50, vr_Cooldown = Some []\<rparr>"

definition scale_down :: VerticalAutoscalingRule where
  "scale_down = scale_up\<lparr>vr_Direction := ScaleDown, vr_UsagePercent := 40, vr_StepPercent := 60\<rparr>"

definition metric :: "quantity \<Rightarrow> quantity \<Rightarrow> VerticalAutoscalingMetricConfig" where
  "metric lo hi =
     \<lparr>vm_Min = lo, vm_Max = hi, vm_Rules = [scale_up, scale_down], vm_Cooldown = None, vm_LimitStrategy = None,
      vm_LimitPercentage = None, vm_SafetyMarginPercent = None, vm_HysteresisPercent = None,
      vm_EmergencyScaleUpPercent = None, vm_MaxOOMRecoveries = Some 1, vm_OOMRecoveryWindow = None\<rparr>"

definition scaled_vpa :: VerticalAutoscalingConfig where
  "scaled_vpa = \<lparr>va_Enabled = True, va_ResetVpaAfterNodeUpgrade = True, va_CPU = None,
     va_Memory = Some (metric (mebi 128) (mebi 2048))\<rparr>"

definition scaled_node :: ChainNode where
  "scaled_node = zero_ChainNode\<lparr>cn_Spec := (cn_Spec zero_ChainNode)
     \<lparr>cn_Resources := \<lparr>rr_Limits = None, rr_Requests = Some [(ResourceMemory, mebi 1024)]\<rparr>,
      cn_VPA := Some scaled_vpa\<rparr>\<rparr>"

text \<open>A world in which the node uses \<open>mem\<close> bytes.\<close>

definition world :: "int \<Rightarrow> vpa_world" where
  "world mem = \<lparr>vw_clock = 0, vw_stored = None, vw_cpu = 0, vw_mem = mem, vw_pod = None, vw_fails = []\<rparr>"

lemma nano_bounds: "memory_bounds nano_env (metric (mebi 128) (mebi 2048))"
  by code_simp

lemma scaled_bounds: "bounds_ok nano_env scaled_vpa"
  using nano_bounds by (simp add: bounds_ok_def scaled_vpa_def)

lemma scaled_request:
  "lookup (rr_Requests (fst (snd (fst (maybeGetVpaResources nano_env world_api scaled_node (world (1000 * OneMiB))))))) ResourceMemory
     = Some (mebi 1536)"
  by code_simp

theorem vpa_requests_bounded_witness:
  "request_kept_or_within nano_env scaled_vpa (vv_Res (getVpaLastAppliedResourcesOrFallback nano_env scaled_node))
     (fst (snd (fst (maybeGetVpaResources nano_env world_api scaled_node (world (1000 * OneMiB)))))) ResourceMemory"
proof -
  let ?out = "maybeGetVpaResources nano_env world_api scaled_node (world (1000 * OneMiB))"
  have "maybeGetVpaResources nano_env world_api scaled_node (world (1000 * OneMiB)) =
      ((fst (fst ?out), fst (snd (fst ?out)), snd (snd (fst ?out))), snd ?out)" by simp
  moreover have "cn_VPA (cn_Spec scaled_node) = Some scaled_vpa" "va_Enabled scaled_vpa"
    "cns_Phase (cn_Status scaled_node) \<noteq> PhaseChainNodeStateSyncing" "snd (snd (fst ?out)) = None"
    by code_simp+
  ultimately show ?thesis
    using vpa_requests_bounded [OF nano.quantities_axioms, of world_api scaled_node _ _ _ _ _ scaled_vpa ResourceMemory]
      scaled_bounds by auto
qed

theorem memory_rule_safe_witness:
  "\<exists>q. fst (evaluateMemoryRule nano_env world_api (metric (mebi 128) (mebi 2048)) (cn_Resources (cn_Spec scaled_node))
        scale_down (world (300 * OneMiB))) = Inr (Some q) \<and> 300 * OneMiB * 115 div 100 \<le> ve_Value nano_env q"
proof -
  let ?cfg = "metric (mebi 128) (mebi 2048)"
  let ?out = "evaluateMemoryRule nano_env world_api ?cfg (cn_Resources (cn_Spec scaled_node)) scale_down (world (300 * OneMiB))"
  have "snd ?out = world (300 * OneMiB)"
    by (simp add: evaluateMemoryRule_def world_api_def Let_def world_def split: option.splits)
  moreover have "fst ?out = Inr (Some (mebi 410))" by code_simp
  ultimately have out: "?out = (Inr (Some (mebi 410)), world (300 * OneMiB))" by (simp add: prod_eq_iff)
  have "vp_memStats world_api (GetDuration nano_env scale_down) (world (300 * OneMiB)) =
      (Inr (300 * OneMiB), world (300 * OneMiB))"
    by (simp add: world_api_def world_def)
  note stats = this
  have r: "lookup (rr_Requests (cn_Resources (cn_Spec scaled_node))) ResourceMemory = Some (mebi 1024)"
    "0 \<le> ve_Value nano_env (mebi 1024)" "0 \<le> 300 * OneMiB" "0 \<le> GetSafetyMarginPercent ?cfg"
    "0 \<le> vr_StepPercent scale_down" "ve_Value nano_env (mebi 1024) * vr_StepPercent scale_down < 2 ^ 52"
    "ve_Value nano_env (mebi 1024) < 2 ^ 52" "vr_StepPercent scale_down < 2 ^ 52" "300 * OneMiB < 2 ^ 52"
    "100 + GetSafetyMarginPercent ?cfg < 2 ^ 52" "300 * OneMiB * (100 + GetSafetyMarginPercent ?cfg) < 2 ^ 52"
    by code_simp+
  have d: "vr_Direction scale_down = ScaleDown" "GetSafetyMarginPercent ?cfg = 15"
      "300 * OneMiB * 115 div 100 \<le> ve_Value nano_env (vm_Max ?cfg)"
    by code_simp+
  show ?thesis
    using memory_rule_safe [OF nano.quantities_axioms out stats r(1) nano_bounds r(2-11)] out d by auto
qed

definition oom_cfg :: VerticalAutoscalingMetricConfig where
  "oom_cfg = metric (mebi 128) (mebi 2048)"


section \<open>The resources of the spec\<close>

text \<open>Scaling writes into the maps of the node's spec, and the update that stores the annotation stores the
  changed spec: the resources the user specified are gone.\<close>

theorem vpa_overwrites_spec:
  "lookup (rr_Requests (cn_Resources (cn_Spec scaled_node))) ResourceMemory = Some (mebi 1024) \<and>
   map_option (\<lambda>n. lookup (rr_Requests (cn_Resources (cn_Spec n))) ResourceMemory)
     (vw_stored (snd (maybeGetVpaResources nano_env world_api scaled_node (world (1000 * OneMiB))))) = Some (Some (mebi 1536))"
  by code_simp

text \<open>The maximum is applied before the rounding to a MiB: a request may exceed a maximum that is not a whole
  number of MiB.\<close>

theorem memory_request_above_max:
  "\<exists>q. fst (evaluateMemoryRule nano_env world_api (metric (mebi 128) (mebi 1100 + 1000000000))
        (cn_Resources (cn_Spec scaled_node)) scale_up (world (1000 * OneMiB))) = Inr (Some q) \<and>
     ve_Value nano_env (mebi 1100 + 1000000000) < ve_Value nano_env q"
proof -
  have "fst (evaluateMemoryRule nano_env world_api (metric (mebi 128) (mebi 1100 + 1000000000))
      (cn_Resources (cn_Spec scaled_node)) scale_up (world (1000 * OneMiB))) = Inr (Some (mebi 1101))"
    by code_simp
  moreover have "ve_Value nano_env (mebi 1100 + 1000000000) < ve_Value nano_env (mebi 1101)" by code_simp
  ultimately show ?thesis by blast
qed

text \<open>A usage of exactly 29 percent is read as 28: the quotient 0.29 is rounded down in \<open>float64\<close>, and the
  conversion truncates.\<close>

theorem memory_usage_truncated: "memoryUsedPercent nano_env 29 100 = 28"
  by code_simp

end
