(* ===== verification/Upgrades.thy ===== *)
theory Upgrades
  imports Cosmosigner_Resolve Kube_Api
begin

text \<open>
  Chain upgrades: \<open>src/internal/controllers/chainnode/upgrades.go\<close>,
  \<open>src/internal/controllers/chainnodeset/upgrades.go\<close> and the helpers of \<open>src/api/v1\<close> that pick the
  image of a node from its recorded upgrades.

  Arguments: \<open>docker\<close> unmarshals the \<open>info\<close> of an upgrade plan and returns its \<open>binaries.docker\<close> field
  (\<^term>\<open>None\<close> on malformed JSON); \<open>marshal\<close> is the JSON form of the upgrades file. The API and the node's
  RPC endpoint are the record \<open>upgrade_api\<close>. \<open>sort.Slice\<close> is not stable; \<open>sort_key\<close> models it where
  the heights are distinct, which the lemmas below show.
\<close>

section \<open>Versions\<close>

definition DefaultImageVersion :: string where "DefaultImageVersion = ''latest''"

definition GetImageVersion :: "AppSpec \<Rightarrow> string" where
  "GetImageVersion app = (case app_Version app of Some v \<Rightarrow> v | None \<Rightarrow> DefaultImageVersion)"

definition GetVersion :: "Upgrade \<Rightarrow> string" where
  "GetVersion u =
     (let parts = SplitByte (up_Image u) (CHR '':'') in
      if length parts = 2 then parts ! 1 else DefaultImageVersion)"

definition ForceGovUpgrade :: "UpgradeSpec \<Rightarrow> bool" where
  "ForceGovUpgrade u = (case us_ForceOnChain u of Some b \<Rightarrow> b | None \<Rightarrow> False)"

definition ShouldQueryGovUpgrades :: "AppSpec \<Rightarrow> bool" where
  "ShouldQueryGovUpgrades app = (case app_CheckGovUpgrades app of Some b \<Rightarrow> b | None \<Rightarrow> True)"

text \<open>The loop that keeps the version of the highest upgrade so far; \<open>ok\<close> is its condition.\<close>

fun pickVersion :: "(Upgrade \<Rightarrow> bool) \<Rightarrow> Upgrade list \<Rightarrow> int \<times> string \<Rightarrow> int \<times> string" where
  "pickVersion ok [] hv = hv"
| "pickVersion ok (u # us) hv =
     pickVersion ok us (if ok u \<and> up_Height u > fst hv then (up_Height u, GetVersion u) else hv)"

definition GetAppVersion :: "ChainNode \<Rightarrow> string" where
  "GetAppVersion n =
     (case cn_OverrideVersion (cn_Spec n) of Some v \<Rightarrow> v
      | None \<Rightarrow>
        snd (pickVersion
          (\<lambda>u. up_Status u \<in> {UpgradeCompleted, UpgradeSkipped, UpgradeOnGoing} \<and>
               up_Height u \<le> cns_LatestHeight (cn_Status n))
          (cns_Upgrades (cn_Status n)) (0, GetImageVersion (cn_App (cn_Spec n)))))"

definition GetLatestVersion :: "ChainNode \<Rightarrow> string" where
  "GetLatestVersion n =
     (case cn_OverrideVersion (cn_Spec n) of Some v \<Rightarrow> v
      | None \<Rightarrow>
        snd (pickVersion (\<lambda>u. up_Status u \<in> {UpgradeCompleted, UpgradeSkipped})
          (cns_Upgrades (cn_Status n)) (0, GetImageVersion (cn_App (cn_Spec n)))))"

definition GetLastUpgradeHeight :: "ChainNode \<Rightarrow> int" where
  "GetLastUpgradeHeight n =
     fold (\<lambda>u h. if up_Status u \<in> {UpgradeCompleted, UpgradeSkipped} \<and> up_Height u > h
                 then up_Height u else h) (cns_Upgrades (cn_Status n)) 0"

definition GetAppImageWithVersion :: "ChainNode \<Rightarrow> string \<Rightarrow> string" where
  "GetAppImageWithVersion n version = app_Image (cn_App (cn_Spec n)) @ '':'' @ version"

definition GetAppImage :: "ChainNode \<Rightarrow> string" where
  "GetAppImage n = GetAppImageWithVersion n (GetAppVersion n)"

definition GetLatestAppImage :: "ChainNode \<Rightarrow> string" where
  "GetLatestAppImage n = GetAppImageWithVersion n (GetLatestVersion n)"

section \<open>The upgrades of a node\<close>

definition mergeUpgrade :: "Upgrade \<Rightarrow> Upgrade \<Rightarrow> int \<Rightarrow> Upgrade" where
  "mergeUpgrade u upgrade currentHeight =
     (let u1 = (if up_Status u = UpgradeImageMissing \<and> up_Image upgrade \<noteq> []
                then u\<lparr>up_Image := up_Image upgrade, up_Source := up_Source upgrade,
                       up_Status := UpgradeScheduled\<rparr> else u);
          u2 = (if up_Status u \<noteq> UpgradeCompleted \<and> up_Height u < currentHeight
                then u1\<lparr>up_Status := UpgradeSkipped\<rparr> else u1)
      in u2\<lparr>up_Source := up_Source upgrade\<rparr>)"

fun AddOrUpdateUpgrade :: "Upgrade list \<Rightarrow> Upgrade \<Rightarrow> int \<Rightarrow> Upgrade list" where
  "AddOrUpdateUpgrade [] upgrade currentHeight = [upgrade]"
| "AddOrUpdateUpgrade (u # us) upgrade currentHeight =
     (if up_Height u = up_Height upgrade then mergeUpgrade u upgrade currentHeight # us
      else u # AddOrUpdateUpgrade us upgrade currentHeight)"

record UpgradePlan =
  pl_Height :: int
  pl_Info :: string

definition planUpgrade :: "(string \<Rightarrow> string option) \<Rightarrow> UpgradePlan \<Rightarrow> Upgrade" where
  "planUpgrade docker plan =
     (case docker (pl_Info plan) of
        Some img \<Rightarrow>
          if img \<noteq> [] then \<lparr>up_Height = pl_Height plan, up_Image = img, up_Status = UpgradeScheduled,
                             up_Source = OnChainUpgrade\<rparr>
          else \<lparr>up_Height = pl_Height plan, up_Image = [], up_Status = UpgradeImageMissing,
                up_Source = OnChainUpgrade\<rparr>
      | None \<Rightarrow> \<lparr>up_Height = pl_Height plan, up_Image = [], up_Status = UpgradeImageMissing,
                up_Source = OnChainUpgrade\<rparr>)"

definition manualUpgrade :: "int \<Rightarrow> UpgradeSpec \<Rightarrow> Upgrade" where
  "manualUpgrade latestHeight us =
     \<lparr>up_Height = us_Height us, up_Image = us_Image us,
      up_Status = (if latestHeight > us_Height us then UpgradeSkipped else UpgradeScheduled),
      up_Source = (if ForceGovUpgrade us then OnChainUpgrade else ManualUpgrade)\<rparr>"

definition mergedUpgrades :: "ChainNode \<Rightarrow> Upgrade list \<Rightarrow> Upgrade list" where
  "mergedUpgrades n govUpgrades =
     (let h = cns_LatestHeight (cn_Status n);
          withGov = fold (\<lambda>u us. AddOrUpdateUpgrade us u h) govUpgrades (cns_Upgrades (cn_Status n))
      in sort_key up_Height
           (fold (\<lambda>sp us. AddOrUpdateUpgrade us (manualUpgrade h sp) h) (app_Upgrades (cn_App (cn_Spec n)))
              withGov))"

section \<open>Effects\<close>

text \<open>\<open>ua_getConfig\<close> returns the data of the ConfigMap, \<^term>\<open>None\<close> for a nil map.\<close>

record 's upgrade_api =
  ua_nextUpgrade :: "'s \<Rightarrow> (string + UpgradePlan option) \<times> 's"
  ua_getConfig :: "'s \<Rightarrow> (api_error + labels option) \<times> 's"
  ua_createConfig :: "labels \<Rightarrow> 's \<Rightarrow> (api_error + unit) \<times> 's"
  ua_updateConfig :: "labels \<Rightarrow> 's \<Rightarrow> (api_error + unit) \<times> 's"
  ua_updateStatus :: "ChainNode \<Rightarrow> 's \<Rightarrow> (api_error + unit) \<times> 's"

datatype UpgradeError =
    UpgradeApi api_error
  | UpgradeQuery string
  | NilMapWrite
  | UpgradeNotFound
  | MissingUpgradeOrImage int
  | UpgradePod string

definition upgradesConfigFile :: string where "upgradesConfigFile = ''upgrades.json''"

definition setUpgrades :: "Upgrade list \<Rightarrow> ChainNode \<Rightarrow> ChainNode" where
  "setUpgrades us n = n\<lparr>cn_Status := (cn_Status n)\<lparr>cns_Upgrades := us\<rparr>\<rparr>"

definition ensureUpgradesConfig ::
    "(Upgrade list \<Rightarrow> string) \<Rightarrow> 's upgrade_api \<Rightarrow> ChainNode \<Rightarrow> ('s, UpgradeError, unit) prog" where
  "ensureUpgradesConfig marshal UA n =
     (let b = marshal (cns_Upgrades (cn_Status n)) in
      get_or UpgradeApi (ua_getConfig UA)
        (\<lambda>dat.
           if (case dat of None \<Rightarrow> [] | Some m \<Rightarrow> label m upgradesConfigFile) \<noteq> b then
             (case dat of
                None \<Rightarrow> fail NilMapWrite
              | Some m \<Rightarrow> call UpgradeApi (ua_updateConfig UA (m(upgradesConfigFile \<mapsto> b))))
           else ret ())
        (call UpgradeApi (ua_createConfig UA [upgradesConfigFile \<mapsto> b])))"

definition getGovUpgrades ::
    "(string \<Rightarrow> string option) \<Rightarrow> 's upgrade_api \<Rightarrow> ('s, UpgradeError, Upgrade list) prog" where
  "getGovUpgrades docker UA s =
     (case ua_nextUpgrade UA s of
        (Inl e, s1) \<Rightarrow> (Inl (UpgradeQuery e), s1)
      | (Inr None, s1) \<Rightarrow> (Inr [], s1)
      | (Inr (Some plan), s1) \<Rightarrow> (Inr [planUpgrade docker plan], s1))"

text \<open>A failed query is logged and the manual upgrades are still processed.\<close>

definition queryGovUpgrades ::
    "(string \<Rightarrow> string option) \<Rightarrow> 's upgrade_api \<Rightarrow> ChainNode \<Rightarrow> bool \<Rightarrow> ('s, UpgradeError, Upgrade list) prog" where
  "queryGovUpgrades docker UA n nodePodRunning s =
     (if cns_Phase (cn_Status n) = PhaseChainNodeRunning \<and> nodePodRunning \<and>
         ShouldQueryGovUpgrades (cn_App (cn_Spec n))
      then (case getGovUpgrades docker UA s of (Inl e, s1) \<Rightarrow> (Inr [], s1) | (Inr us, s1) \<Rightarrow> (Inr us, s1))
      else (Inr [], s))"

definition ensureUpgrades ::
    "(string \<Rightarrow> string option) \<Rightarrow> (Upgrade list \<Rightarrow> string) \<Rightarrow> 's upgrade_api \<Rightarrow> ChainNode \<Rightarrow> bool
      \<Rightarrow> ('s, UpgradeError, ChainNode) prog" where
  "ensureUpgrades docker marshal UA n nodePodRunning =
     seq (queryGovUpgrades docker UA n nodePodRunning) (\<lambda>gov.
       let n' = setUpgrades (mergedUpgrades n gov) n in
       seq (ensureUpgradesConfig marshal UA n') (\<lambda>_.
         if cns_Upgrades (cn_Status n') \<noteq> cns_Upgrades (cn_Status n)
         then seq (call UpgradeApi (ua_updateStatus UA n')) (\<lambda>_. ret n')
         else ret n'))"

definition getUpgrade :: "ChainNode \<Rightarrow> int \<Rightarrow> Upgrade option" where
  "getUpgrade n height =
     find (\<lambda>u. up_Height u = height \<and> up_Status u = UpgradeScheduled) (cns_Upgrades (cn_Status n))"

definition addUpgradeStatusCondition :: "ChainNode \<Rightarrow> Upgrade \<Rightarrow> ChainNode" where
  "addUpgradeStatusCondition n u =
     n\<lparr>cn_Status := (cn_Status n)\<lparr>cns_Conditions := cns_Conditions (cn_Status n) @
         [\<lparr>co_Type = ''Upgrade'', co_Status = ''True'', co_ObservedGeneration = 0, co_Reason = ''UpgradeSuccessful'',
           co_Message = ''Successfully upgraded node to image '' @ up_Image u\<rparr>]\<rparr>\<rparr>"

definition withUpgradeStatus :: "ChainNode \<Rightarrow> Upgrade \<Rightarrow> UpgradePhase \<Rightarrow> ChainNode" where
  "withUpgradeStatus n u status =
     (let n1 = setUpgrades (updateFirst (\<lambda>x. up_Height x = up_Height u) (\<lambda>x. x\<lparr>up_Status := status\<rparr>)
                 (cns_Upgrades (cn_Status n))) n
      in if status = UpgradeCompleted then addUpgradeStatusCondition n1 u else n1)"

definition setUpgradeStatus ::
    "(Upgrade list \<Rightarrow> string) \<Rightarrow> 's upgrade_api \<Rightarrow> ChainNode \<Rightarrow> Upgrade \<Rightarrow> UpgradePhase
      \<Rightarrow> ('s, UpgradeError, ChainNode) prog" where
  "setUpgradeStatus marshal UA n u status =
     (if up_Height u \<in> up_Height ` set (cns_Upgrades (cn_Status n)) then
        (let n' = withUpgradeStatus n u status in
         seq (call UpgradeApi (ua_updateStatus UA n')) (\<lambda>_.
           seq (ensureUpgradesConfig marshal UA n') (\<lambda>_. ret n')))
      else fail UpgradeNotFound)"

section \<open>The upgrades of a set\<close>

definition mergeSetUpgrade :: "Upgrade \<Rightarrow> Upgrade \<Rightarrow> Upgrade" where
  "mergeSetUpgrade u upgrade =
     (if up_Status u = UpgradeSkipped \<or> up_Status upgrade = UpgradeCompleted \<or> up_Status upgrade = UpgradeSkipped
      then u\<lparr>up_Status := UpgradeCompleted\<rparr> else u)"

fun AddOrUpdateSetUpgrade :: "Upgrade list \<Rightarrow> Upgrade \<Rightarrow> Upgrade list" where
  "AddOrUpdateSetUpgrade [] upgrade = [upgrade]"
| "AddOrUpdateSetUpgrade (u # us) upgrade =
     (if up_Height u = up_Height upgrade then mergeSetUpgrade u upgrade # us
      else u # AddOrUpdateSetUpgrade us upgrade)"

text \<open>One node of the loop: its upgrades and its height.\<close>

definition collectNode :: "ChainNode \<Rightarrow> Upgrade list \<times> int \<Rightarrow> Upgrade list \<times> int" where
  "collectNode node acc =
     (fold (\<lambda>u us. AddOrUpdateSetUpgrade us u) (cns_Upgrades (cn_Status node)) (fst acc),
      if cns_LatestHeight (cn_Status node) > snd acc then cns_LatestHeight (cn_Status node) else snd acc)"

definition collectUpgrades :: "ChainNodeSet \<Rightarrow> ChainNode list \<Rightarrow> ChainNodeSet" where
  "collectUpgrades ns nodes =
     (let (us, h) = fold collectNode nodes (nss_Upgrades (ns_Status ns), nss_LatestHeight (ns_Status ns))
      in ns\<lparr>ns_Status := (ns_Status ns)\<lparr>nss_Upgrades := sort_key up_Height us, nss_LatestHeight := h\<rparr>\<rparr>)"

record 's set_upgrade_api =
  sa_listNodes :: "string \<Rightarrow> 's \<Rightarrow> (api_error + ChainNode list) \<times> 's"
  sa_updateStatus :: "ChainNodeSet \<Rightarrow> 's \<Rightarrow> (api_error + unit) \<times> 's"

definition ensureSetUpgrades ::
    "'s set_upgrade_api \<Rightarrow> ChainNodeSet \<Rightarrow> ('s, UpgradeError, ChainNodeSet) prog" where
  "ensureSetUpgrades SA ns =
     seq (call UpgradeApi (sa_listNodes SA (ns_name ns))) (\<lambda>nodes.
       let ns' = collectUpgrades ns nodes in
       if nss_LatestHeight (ns_Status ns') \<noteq> nss_LatestHeight (ns_Status ns) \<or>
          nss_Upgrades (ns_Status ns') \<noteq> nss_Upgrades (ns_Status ns)
       then seq (call UpgradeApi (sa_updateStatus SA ns')) (\<lambda>_. ret ns')
       else ret ns')"

definition GetLastUpgradeVersion :: "ChainNodeSet \<Rightarrow> string" where
  "GetLastUpgradeVersion ns =
     snd (pickVersion (\<lambda>u. up_Status u \<in> {UpgradeCompleted, UpgradeSkipped} \<and>
            up_Height u \<le> nss_LatestHeight (ns_Status ns))
       (nss_Upgrades (ns_Status ns)) (0, GetImageVersion (ns_App (ns_Spec ns))))"

definition statusUpgradeSpec :: "Upgrade \<Rightarrow> UpgradeSpec" where
  "statusUpgradeSpec u =
     \<lparr>us_Height = up_Height u, us_Image = up_Image u,
      us_ForceOnChain = (if up_Source u = OnChainUpgrade then Some True else None)\<rparr>"

definition addSpecUpgrade :: "Upgrade \<Rightarrow> UpgradeSpec list \<Rightarrow> UpgradeSpec list" where
  "addSpecUpgrade u specs =
     (if list_ex (\<lambda>x. us_Height x = up_Height u) specs then specs else specs @ [statusUpgradeSpec u])"

definition GetAppSpecWithUpgrades :: "ChainNodeSet \<Rightarrow> AppSpec" where
  "GetAppSpecWithUpgrades ns =
     (let app = ns_App (ns_Spec ns) in
      app\<lparr>app_Upgrades := sort_key us_Height
            (fold addSpecUpgrade (nss_Upgrades (ns_Status ns)) (app_Upgrades app))\<rparr>)"

end
