(* ===== verification/Pod_Lifecycle.thy ===== *)
theory Pod_Lifecycle
  imports Upgrades Vpa
begin

text \<open>
  The pod of a node: \<open>ensurePod\<close>, \<open>recreatePod\<close>, \<open>upgradePod\<close>, \<open>createPod\<close> and the phase
  updates of \<open>src/internal/controllers/chainnode/pod.go\<close> and \<open>controller.go\<close>, and the
  disruption check of \<open>disruption.go\<close>.

  A handler changes the node it is given, in memory, and returns an error or nil: a \<open>node_act\<close> returns
  the node after it in both cases. Arguments, in the record \<open>pod_api\<close>: the calls to the API server, to
  node-utils and to the node's RPC endpoint, and two builders of the controller that are not modelled, the
  pod spec (\<open>getPodSpec\<close>) and the forced config update of an upgrade (\<open>newApp\<close>, \<open>ensureConfigs\<close>),
  which may change the node. Events, log messages and the mutex around a recreation are left out.
\<close>

section \<open>Pods\<close>

record ContainerStat =
  ct_Name :: string
  ct_Ready :: bool
  ct_Running :: bool
  ct_TerminatedExit :: "int option"
  ct_WaitingReason :: "string option"

record NodePod =
  np_Labels :: labels
  np_Annotations :: labels
  np_Deleting :: bool
  np_Image :: string
  np_Phase :: string
  np_Conditions :: "(string \<times> string) list"
  np_Containers :: "ContainerStat list"
  np_InitContainers :: "ContainerStat list"

definition nodeUtilsContainerName :: string where "nodeUtilsContainerName = ''node-utils''"
definition CosmosignerDiscoveryWaitContainerName :: string where
  "CosmosignerDiscoveryWaitContainerName = ''wait-cosmosigner-discovery''"
definition AnnotationPodSpecHash :: string where "AnnotationPodSpecHash = ''cosmopilot.voluzi.com/pod-spec-hash''"
definition AnnotationConfigHash :: string where "AnnotationConfigHash = ''cosmopilot.voluzi.com/config-hash''"
definition AnnotationChainNodeGeneration :: string where
  "AnnotationChainNodeGeneration = ''cosmopilot.voluzi.com/chainnode-generation''"
definition AnnotationCosmosignerRollout :: string where
  "AnnotationCosmosignerRollout = ''cosmopilot.voluzi.com/cosmosigner-rollout''"
definition AnnotationPvcSnapshotInProgress :: string where
  "AnnotationPvcSnapshotInProgress = ''cosmopilot.voluzi.com/snapshotting-pvc''"
definition LabelUpgrading :: string where "LabelUpgrading = ''upgrading''"
definition LabelChainID :: string where "LabelChainID = ''chain-id''"
definition LabelValidator :: string where "LabelValidator = ''validator''"
definition LabelChainNodeSetGroup :: string where "LabelChainNodeSetGroup = ''group''"

definition isImagePullFailure :: "string option \<Rightarrow> bool" where
  "isImagePullFailure waiting \<longleftrightarrow> waiting = Some ''ImagePullBackOff'' \<or> waiting = Some ''ErrImagePull''"

definition ShouldRestartPodOnFailure :: "SidecarSpec \<Rightarrow> bool" where
  "ShouldRestartPodOnFailure sc = (case sc_RestartPodOnFailure sc of Some b \<Rightarrow> b | None \<Rightarrow> False)"

definition podInFailedState :: "ChainNode \<Rightarrow> NodePod \<Rightarrow> bool" where
  "podInFailedState n pod \<longleftrightarrow>
     np_Phase pod = ''Failed'' \<or> np_Phase pod = ''Succeeded'' \<or>
     list_ex (\<lambda>c. (\<not> ct_Ready c \<and> ct_TerminatedExit c \<noteq> None) \<or> isImagePullFailure (ct_WaitingReason c))
       (np_Containers pod) \<or>
     list_ex (\<lambda>c. (\<not> ct_Ready c \<and> (case ct_TerminatedExit c of None \<Rightarrow> False | Some e \<Rightarrow> e \<noteq> 0) \<and>
                    (case cn_Config (cn_Spec n) of None \<Rightarrow> False
                     | Some cf \<Rightarrow> list_ex (\<lambda>sc. sc_Name sc = ct_Name c \<and> ShouldRestartPodOnFailure sc) (cf_Sidecars cf)))
                  \<or> isImagePullFailure (ct_WaitingReason c))
       (np_InitContainers pod)"

definition nodeUtilsIsRunning :: "NodePod \<Rightarrow> bool" where
  "nodeUtilsIsRunning pod =
     (case find (\<lambda>c. ct_Name c = nodeUtilsContainerName) (np_InitContainers pod) of
        Some c \<Rightarrow> ct_Running c | None \<Rightarrow> False)"

definition failedPodRequiresEarlyRecreation :: "ChainNode \<Rightarrow> NodePod \<Rightarrow> bool" where
  "failedPodRequiresEarlyRecreation n pod \<longleftrightarrow> podInFailedState n pod \<and> \<not> nodeUtilsIsRunning pod"

definition failedExit :: "ContainerStat \<Rightarrow> bool" where
  "failedExit c = (case ct_TerminatedExit c of None \<Rightarrow> False | Some e \<Rightarrow> e \<noteq> 0)"

definition nodeUtilsIsInFailedState :: "NodePod \<Rightarrow> bool" where
  "nodeUtilsIsInFailedState pod \<longleftrightarrow>
     \<not> list_ex (\<lambda>c. ct_Name c = CosmosignerDiscoveryWaitContainerName \<and> failedExit c) (np_InitContainers pod) \<and>
     list_ex (\<lambda>c. ct_Name c = nodeUtilsContainerName \<and> \<not> ct_Ready c \<and> failedExit c) (np_InitContainers pod)"

definition podSpecChanged :: "NodePod \<Rightarrow> NodePod \<Rightarrow> bool" where
  "podSpecChanged existing new =
     (case np_Annotations existing AnnotationPodSpecHash of
        None \<Rightarrow> True
      | Some oldSpecHash \<Rightarrow> label (np_Annotations new) AnnotationPodSpecHash \<noteq> oldSpecHash)"

definition isPodRunningAndReady :: "NodePod \<Rightarrow> bool" where
  "isPodRunningAndReady pod \<longleftrightarrow>
     np_Phase pod = ''Running'' \<and> (''Ready'', ''True'') \<in> set (np_Conditions pod) \<and>
     list_all (\<lambda>c. ct_Ready c \<and> ct_Running c) (np_Containers pod) \<and>
     list_all (\<lambda>c. ct_Name c = nodeUtilsContainerName \<longrightarrow> ct_Ready c \<and> ct_Running c) (np_InitContainers pod)"

definition unavailablePodCount :: "NodePod list \<Rightarrow> int" where
  "unavailablePodCount pods = int (length (filter (\<lambda>pod. \<not> isPodRunningAndReady pod) pods))"

section \<open>Arguments\<close>

datatype PodError =
    PodApi api_error
  | PodCall string
  | PodUpgrade UpgradeError
  | PodVpa VpaError
  | PodMissingUpgrade int

record 's pod_api =
  po_getPodSpec :: "ChainNode \<Rightarrow> string \<Rightarrow> 's \<Rightarrow> (ChainNode \<times> (string + NodePod)) \<times> 's"
  po_forceConfigs :: "ChainNode \<Rightarrow> 's \<Rightarrow> (ChainNode \<times> (string + string)) \<times> 's"
  po_getPod :: "'s \<Rightarrow> (api_error + NodePod) \<times> 's"
  po_patchPod :: "NodePod \<Rightarrow> NodePod \<Rightarrow> 's \<Rightarrow> (string + NodePod) \<times> 's"
  po_createPod :: "NodePod \<Rightarrow> 's \<Rightarrow> (string + unit) \<times> 's"
  po_deletePod :: "'s \<Rightarrow> (string + unit) \<times> 's"
  po_waitDeleted :: "'s \<Rightarrow> (string + unit) \<times> 's"
  po_waitStarted :: "'s \<Rightarrow> (string + unit) \<times> 's"
  po_listPods :: "labels \<Rightarrow> 's \<Rightarrow> (api_error + NodePod list) \<times> 's"
  po_latestHeight :: "'s \<Rightarrow> (string + int) \<times> 's"
  po_requiresUpgrade :: "'s \<Rightarrow> (string + bool) \<times> 's"
  po_shutdownNodeUtils :: "'s \<Rightarrow> (string + unit) \<times> 's"
  po_chainClient :: "'s \<Rightarrow> (string + unit) \<times> 's"
  po_stateSyncing :: "'s \<Rightarrow> (string + bool) \<times> 's"
  po_nodeSyncing :: "'s \<Rightarrow> (string + bool) \<times> 's"

text \<open>All the arguments of the pod reconcile.\<close>

record 's pod_world =
  pw_pod :: "'s pod_api"
  pw_upgrades :: "'s upgrade_api"
  pw_marshal :: "Upgrade list \<Rightarrow> string"
  pw_env :: vpa_env
  pw_vpa :: "'s vpa_api"
  pw_DisruptionCheckEnabled :: bool
  pw_DisruptionMaxUnavailable :: int
  pw_nodeLabels :: "ChainNode \<Rightarrow> labels"

section \<open>Handlers\<close>

type_synonym 's node_act = "ChainNode \<Rightarrow> 's \<Rightarrow> (ChainNode \<times> PodError option) \<times> 's"

definition act_return :: "'s node_act" where
  "act_return n s = ((n, None), s)"

definition act_fail :: "PodError \<Rightarrow> 's node_act" where
  "act_fail e n s = ((n, Some e), s)"

text \<open>\<open>if err := f(node); err != nil { return err }\<close> and then \<open>g\<close>.\<close>

definition act_then :: "'s node_act \<Rightarrow> 's node_act \<Rightarrow> 's node_act" where
  "act_then f g n s =
     (case f n s of ((n1, Some e), s1) \<Rightarrow> ((n1, Some e), s1) | ((n1, None), s1) \<Rightarrow> g n1 s1)"

text \<open>A call whose error ends the handler, and one whose error is only logged.\<close>

definition act_call :: "('e \<Rightarrow> PodError) \<Rightarrow> ('s \<Rightarrow> ('e + 'a) \<times> 's) \<Rightarrow> ('a \<Rightarrow> 's node_act) \<Rightarrow> 's node_act" where
  "act_call wrap oper k n s =
     (case oper s of (Inl e, s1) \<Rightarrow> ((n, Some (wrap e)), s1) | (Inr x, s1) \<Rightarrow> k x n s1)"

definition act_ignore :: "('s \<Rightarrow> ('e + 'a) \<times> 's) \<Rightarrow> 's node_act \<Rightarrow> 's node_act" where
  "act_ignore oper k n s = k n (snd (oper s))"

definition setPhase :: "ChainNodePhase \<Rightarrow> ChainNode \<Rightarrow> ChainNode" where
  "setPhase phase n = n\<lparr>cn_Status := (cn_Status n)\<lparr>cns_Phase := phase\<rparr>\<rparr>"

definition setAppVersion :: "string \<Rightarrow> ChainNode \<Rightarrow> ChainNode" where
  "setAppVersion v n = n\<lparr>cn_Status := (cn_Status n)\<lparr>cns_AppVersion := v\<rparr>\<rparr>"

definition writeStatus :: "'s pod_world \<Rightarrow> 's node_act" where
  "writeStatus W n s =
     (case ua_updateStatus (pw_upgrades W) n s of
        (Inl e, s1) \<Rightarrow> ((n, Some (PodApi e)), s1) | (Inr _, s1) \<Rightarrow> ((n, None), s1))"

definition updatePhase :: "'s pod_world \<Rightarrow> ChainNodePhase \<Rightarrow> 's node_act" where
  "updatePhase W phase n =
     (if cns_Phase (cn_Status n) = phase then act_return n else writeStatus W (setPhase phase n))"

definition MustStop :: "ChainNode \<Rightarrow> bool" where
  "MustStop n =
     (case cn_Config (cn_Spec n) of
        None \<Rightarrow> False
      | Some cf \<Rightarrow> (case cf_HaltHeight cf of None \<Rightarrow> False | Some h \<Rightarrow> h = cns_LatestHeight (cn_Status n)))"

definition volumeSnapshotInProgress :: "ChainNode \<Rightarrow> bool" where
  "volumeSnapshotInProgress n \<longleftrightarrow> m_Annotations (cn_Meta n) AnnotationPvcSnapshotInProgress = Some ''true''"

text \<open>The version is recorded with the phase, and only when the phase changes.\<close>

definition enterPhase :: "'s pod_world \<Rightarrow> ChainNodePhase \<Rightarrow> 's node_act" where
  "enterPhase W phase n =
     (if cns_Phase (cn_Status n) = phase then act_return n
      else updatePhase W phase (setAppVersion (GetAppVersion n) n))"

definition setNodePhase :: "'s pod_world \<Rightarrow> 's node_act" where
  "setNodePhase W n =
     (if MustStop n then updatePhase W PhaseChainNodeStopped n
      else if volumeSnapshotInProgress n then updatePhase W PhaseChainNodeSnapshotting n
      else
        act_call PodCall (po_chainClient (pw_pod W)) (\<lambda>_.
          act_call PodCall (po_stateSyncing (pw_pod W)) (\<lambda>stateSyncing.
            if stateSyncing then enterPhase W PhaseChainNodeStateSyncing
            else act_call PodCall (po_nodeSyncing (pw_pod W)) (\<lambda>syncing.
              enterPhase W (if syncing then PhaseChainNodeSyncing else PhaseChainNodeRunning)))) n)"

definition setLatestHeight :: "int \<Rightarrow> ChainNode \<Rightarrow> ChainNode" where
  "setLatestHeight h n = n\<lparr>cn_Status := (cn_Status n)\<lparr>cns_LatestHeight := h\<rparr>\<rparr>"

definition updateLatestHeight :: "'s pod_world \<Rightarrow> 's node_act" where
  "updateLatestHeight W =
     act_call PodCall (po_latestHeight (pw_pod W)) (\<lambda>height n.
       if height = 0 \<or> height = cns_LatestHeight (cn_Status n) then act_return n
       else writeStatus W (setLatestHeight height n))"

definition createPod :: "'s pod_world \<Rightarrow> NodePod \<Rightarrow> 's node_act" where
  "createPod W pod n =
     (if MustStop n then setNodePhase W n
      else act_then
        (updatePhase W (if cns_LatestHeight (cn_Status n) > 0 then PhaseChainNodeRestarting else PhaseChainNodeStarting))
        (act_call PodCall (po_createPod (pw_pod W) pod) (\<lambda>_.
           act_call PodCall (po_waitStarted (pw_pod W)) (\<lambda>_. setNodePhase W))) n)"

section \<open>Recreation and disruption\<close>

definition checkDisruptionAllowance :: "'s pod_world \<Rightarrow> labels \<Rightarrow> 's \<Rightarrow> (PodError + unit) \<times> 's" where
  "checkDisruptionAllowance W l s =
     (case po_listPods (pw_pod W) l s of
        (Inl e, s1) \<Rightarrow> (Inl (PodApi e), s1)
      | (Inr pods, s1) \<Rightarrow>
          if unavailablePodCount pods \<ge> pw_DisruptionMaxUnavailable W
          then (Inl (PodCall ''pods are unavailable''), s1) else (Inr (), s1))"

definition ShouldIgnoreGroupOnDisruption :: "ChainNode \<Rightarrow> bool" where
  "ShouldIgnoreGroupOnDisruption n = (cn_IgnoreGroupOnDisruptionChecks (cn_Spec n) = Some True)"

definition disruptionLabels :: "'s pod_world \<Rightarrow> ChainNode \<Rightarrow> labels" where
  "disruptionLabels W n =
     (if cn_Validator (cn_Spec n) \<noteq> None
      then [LabelChainID \<mapsto> cns_ChainID (cn_Status n), LabelValidator \<mapsto> ''true'']
      else let l = pw_nodeLabels W n in if ShouldIgnoreGroupOnDisruption n then l(LabelChainNodeSetGroup := None) else l)"

text \<open>A start that fails is recorded in the phase, whether or not that can be written.\<close>

definition startFailed :: "'s pod_world \<Rightarrow> PodError \<Rightarrow> 's node_act" where
  "startFailed W e n s =
     (case updatePhase W PhaseChainNodeError n s of ((n1, _), s1) \<Rightarrow> ((n1, Some e), s1))"

definition waitStarted :: "'s pod_world \<Rightarrow> 's node_act \<Rightarrow> 's node_act" where
  "waitStarted W k n s =
     (case po_waitStarted (pw_pod W) s of
        (Inl e, s1) \<Rightarrow> startFailed W (PodCall e) n s1 | (Inr _, s1) \<Rightarrow> k n s1)"

definition replacePod :: "'s pod_world \<Rightarrow> NodePod \<Rightarrow> 's node_act" where
  "replacePod W pod =
     act_then (updatePhase W PhaseChainNodeRestarting)
       (act_call PodCall (po_deletePod (pw_pod W)) (\<lambda>_ n.
          if MustStop n then act_ignore (po_shutdownNodeUtils (pw_pod W)) (setNodePhase W) n
          else act_call PodCall (po_waitDeleted (pw_pod W)) (\<lambda>_.
                 act_call PodCall (po_createPod (pw_pod W) pod) (\<lambda>_. waitStarted W (setNodePhase W))) n))"

definition recreatePod :: "'s pod_world \<Rightarrow> NodePod \<Rightarrow> bool \<Rightarrow> 's node_act" where
  "recreatePod W pod preventDisruption n s =
     (if preventDisruption \<and> isPodRunningAndReady pod then
        (case checkDisruptionAllowance W (disruptionLabels W n) s of
           (Inl _, s1) \<Rightarrow> ((n, None), s1)
         | (Inr _, s1) \<Rightarrow> replacePod W pod n s1)
      else replacePod W pod n s)"

section \<open>Upgrades\<close>

text \<open>\<open>upgradePod\<close> returns whether the pod with the new image was created, the node and an error.\<close>

definition upgradePod :: "'s pod_world \<Rightarrow> NodePod \<Rightarrow> string \<Rightarrow> ChainNode \<Rightarrow> 's \<Rightarrow> (bool \<times> ChainNode \<times> PodError option) \<times> 's" where
  "upgradePod W pod img n s =
     (case act_then (updatePhase W PhaseChainNodeUpgrading)
         (act_ignore (po_shutdownNodeUtils (pw_pod W))
            (act_call PodCall (po_deletePod (pw_pod W)) (\<lambda>_.
               act_call PodCall (po_waitDeleted (pw_pod W)) (\<lambda>_.
                 act_call PodCall (po_createPod (pw_pod W) (pod\<lparr>np_Image := img\<rparr>)) (\<lambda>_. act_return))))) n s of
        ((n1, Some e), s1) \<Rightarrow> ((False, n1, Some e), s1)
      | ((n1, None), s1) \<Rightarrow>
          (case waitStarted W (setNodePhase W) n1 s1 of ((n2, e), s2) \<Rightarrow> ((True, n2, e), s2)))"

definition markUpgrade :: "'s pod_world \<Rightarrow> Upgrade \<Rightarrow> UpgradePhase \<Rightarrow> 's node_act" where
  "markUpgrade W u status n s =
     (case setUpgradeStatus (pw_marshal W) (pw_upgrades W) n u status s of
        (Inl e, s1) \<Rightarrow> ((n, Some (PodUpgrade e)), s1)
      | (Inr n1, s1) \<Rightarrow> ((n1, None), s1))"

definition resetVpa :: "'s pod_world \<Rightarrow> 's node_act" where
  "resetVpa W n s =
     (case resetVpaAfterUpgrade (pw_env W) (pw_vpa W) n s of
        ((n1, e), s1) \<Rightarrow> ((n1, map_option PodVpa e), s1))"

definition completeUpgrade :: "'s pod_world \<Rightarrow> Upgrade \<Rightarrow> 's node_act" where
  "completeUpgrade W u n =
     act_then (resetVpa W) (markUpgrade W u UpgradeCompleted) (setAppVersion (GetVersion u) n)"

text \<open>After \<open>upgradePod\<close>: the upgrade is complete once the image was swapped, whatever failed later.\<close>

definition finishUpgrade :: "'s pod_world \<Rightarrow> Upgrade \<Rightarrow> bool \<times> ChainNode \<times> PodError option \<Rightarrow> 's \<Rightarrow> (ChainNode \<times> PodError option) \<times> 's" where
  "finishUpgrade W u r =
     (case r of
        (upgraded, n, Some _) \<Rightarrow> if upgraded then completeUpgrade W u n else markUpgrade W u UpgradeScheduled n
      | (_, n, None) \<Rightarrow> completeUpgrade W u n)"

definition withUpgradingLabel :: "NodePod \<Rightarrow> NodePod" where
  "withUpgradingLabel pod = pod\<lparr>np_Labels := (np_Labels pod)(LabelUpgrading \<mapsto> ''true'')\<rparr>"

text \<open>The upgrade branch of \<open>ensurePod\<close>.\<close>

definition runUpgrade :: "'s pod_world \<Rightarrow> NodePod \<Rightarrow> 's node_act" where
  "runUpgrade W currentPod n s =
     (case getUpgrade n (cns_LatestHeight (cn_Status n)) of
        None \<Rightarrow> ((n, Some (PodMissingUpgrade (cns_LatestHeight (cn_Status n)))), s)
      | Some u \<Rightarrow>
        if up_Status u = UpgradeImageMissing
        then ((n, Some (PodMissingUpgrade (cns_LatestHeight (cn_Status n)))), s)
        else
          act_then (markUpgrade W u UpgradeOnGoing)
            (act_call PodCall (po_patchPod (pw_pod W) currentPod (withUpgradingLabel currentPod)) (\<lambda>_ n1 s1.
               case po_forceConfigs (pw_pod W) n1 s1 of
                 ((n2, Inl e), s2) \<Rightarrow> ((n2, Some (PodCall e)), s2)
               | ((n2, Inr configHash), s2) \<Rightarrow>
                 (case po_getPodSpec (pw_pod W) n2 configHash s2 of
                    ((n3, Inl e), s3) \<Rightarrow> ((n3, Some (PodCall e)), s3)
                  | ((n3, Inr pod), s3) \<Rightarrow>
                    (case upgradePod W pod (up_Image u) n3 s3 of (r, s4) \<Rightarrow> finishUpgrade W u r s4)))) n s)"

section \<open>The reconcile of the pod\<close>

definition attestPodHealth :: "'s pod_world \<Rightarrow> NodePod \<Rightarrow> 's node_act" where
  "attestPodHealth W pod n =
     (let rollout = label (m_Annotations (cn_Meta n)) AnnotationCosmosignerRollout in
      if rollout = [] \<or> label (np_Annotations pod) AnnotationCosmosignerRollout = rollout then act_return n
      else act_call PodCall (po_patchPod (pw_pod W) pod
             (pod\<lparr>np_Annotations := (np_Annotations pod)(AnnotationCosmosignerRollout \<mapsto> rollout)\<rparr>)) (\<lambda>_. act_return) n)"

text \<open>The metadata patch: labels and the generation, only on a pod whose spec and config are current.\<close>

definition patchedPod :: "NodePod \<Rightarrow> NodePod \<Rightarrow> NodePod" where
  "patchedPod cur pod =
     (let generation = label (np_Annotations pod) AnnotationChainNodeGeneration;
          p1 = (if np_Labels cur \<noteq> np_Labels pod then cur\<lparr>np_Labels := np_Labels pod\<rparr> else cur)
      in if label (np_Annotations cur) AnnotationChainNodeGeneration \<noteq> generation
         then p1\<lparr>np_Annotations := (np_Annotations p1)(AnnotationChainNodeGeneration \<mapsto> generation)\<rparr> else p1)"

definition needsMetadataPatch :: "string \<Rightarrow> NodePod \<Rightarrow> NodePod \<Rightarrow> bool" where
  "needsMetadataPatch configHash cur pod \<longleftrightarrow>
     \<not> podSpecChanged cur pod \<and> label (np_Annotations cur) AnnotationConfigHash = configHash \<and>
     (np_Labels cur \<noteq> np_Labels pod \<or>
      label (np_Annotations cur) AnnotationChainNodeGeneration \<noteq> label (np_Annotations pod) AnnotationChainNodeGeneration)"

text \<open>What follows the metadata patch; \<open>podSpecCurrent\<close> was computed before it.\<close>

definition reconcileLivePod :: "'s pod_world \<Rightarrow> string \<Rightarrow> bool \<Rightarrow> NodePod \<Rightarrow> NodePod \<Rightarrow> 's node_act" where
  "reconcileLivePod W configHash podSpecCurrent pod cur n =
     (if nodeUtilsIsInFailedState cur then recreatePod W pod False n
      else if failedPodRequiresEarlyRecreation n cur then recreatePod W pod False n
      else act_then (updateLatestHeight W)
        (act_call PodCall (po_requiresUpgrade (pw_pod W)) (\<lambda>requiresUpgrade n1.
           if requiresUpgrade then runUpgrade W cur n1
           else if podInFailedState n1 cur then recreatePod W pod False n1
           else if \<not> podSpecCurrent then recreatePod W pod (pw_DisruptionCheckEnabled W) n1
           else if label (np_Annotations cur) AnnotationConfigHash \<noteq> configHash
           then recreatePod W pod (pw_DisruptionCheckEnabled W) n1
           else act_then (setNodePhase W) (attestPodHealth W cur) n1)) n)"

definition ensurePod :: "'s pod_world \<Rightarrow> string \<Rightarrow> 's node_act" where
  "ensurePod W configHash n s =
     (case po_getPodSpec (pw_pod W) n configHash s of
        ((n1, Inl e), s1) \<Rightarrow> ((n1, Some (PodCall e)), s1)
      | ((n1, Inr pod), s1) \<Rightarrow>
        (case po_getPod (pw_pod W) s1 of
           (Inl e, s2) \<Rightarrow> if e = NotFound then createPod W pod n1 s2 else ((n1, Some (PodApi e)), s2)
         | (Inr cur, s2) \<Rightarrow>
             if np_Deleting cur
             then act_call PodCall (po_waitDeleted (pw_pod W)) (\<lambda>_. createPod W pod) n1 s2
             else if needsMetadataPatch configHash cur pod
             then act_call PodCall (po_patchPod (pw_pod W) cur (patchedPod cur pod)) (\<lambda>cur'.
                    reconcileLivePod W configHash (\<not> podSpecChanged cur pod) pod cur') n1 s2
             else reconcileLivePod W configHash (\<not> podSpecChanged cur pod) pod cur n1 s2))"

end
