(* ===== verification/Upgrades_Correct.thy ===== *)
theory Upgrades_Correct
  imports Upgrades
begin

text \<open>
  What the upgrade bookkeeping guarantees. The heights of a node's upgrades stay distinct and sorted; a
  completed upgrade stays completed and a known image is never replaced, in every run of reconciles and
  upgrade attempts; the image a node runs is that of the highest upgrade it has passed; and a successful
  reconcile leaves the upgrades file and the recorded status in agreement.
\<close>

section \<open>Entries by height\<close>

definition entry :: "Upgrade list \<Rightarrow> int \<Rightarrow> Upgrade option" where
  "entry us h = find (\<lambda>u. up_Height u = h) us"

abbreviation heights :: "Upgrade list \<Rightarrow> int list" where
  "heights us \<equiv> map up_Height us"

lemma mergeUpgrade_height [simp]: "up_Height (mergeUpgrade u x h) = up_Height u"
  by (simp add: mergeUpgrade_def Let_def)

lemma heights_AddOrUpdateUpgrade:
  "heights (AddOrUpdateUpgrade us u h) =
     (if up_Height u \<in> set (heights us) then heights us else heights us @ [up_Height u])"
  by (induction us) auto

lemma distinct_heights_AddOrUpdateUpgrade:
  "distinct (heights us) \<Longrightarrow> distinct (heights (AddOrUpdateUpgrade us u h))"
  by (auto simp: heights_AddOrUpdateUpgrade)

lemma fold_keeps: "(\<And>x s. P s \<Longrightarrow> P (f x s)) \<Longrightarrow> P s \<Longrightarrow> P (fold f xs s)"
  by (induction xs arbitrary: s) auto

lemma distinct_heights_merged:
  assumes "distinct (heights (cns_Upgrades (cn_Status n)))"
  shows "distinct (heights (mergedUpgrades n gov))"
proof -
  let ?h = "cns_LatestHeight (cn_Status n)"
  let ?step = "\<lambda>f x us. AddOrUpdateUpgrade us (f x) ?h"
  have "distinct (heights (fold (?step (\<lambda>u. u)) gov (cns_Upgrades (cn_Status n))))"
    by (rule fold_keeps [where P = "\<lambda>us. distinct (heights us)"])
      (use assms distinct_heights_AddOrUpdateUpgrade in auto)
  then have "distinct (heights (fold (?step (manualUpgrade ?h)) (app_Upgrades (cn_App (cn_Spec n)))
      (fold (?step (\<lambda>u. u)) gov (cns_Upgrades (cn_Status n)))))"
    by (rule fold_keeps [where P = "\<lambda>us. distinct (heights us)", rotated]) (rule distinct_heights_AddOrUpdateUpgrade)
  then show ?thesis by (simp add: mergedUpgrades_def Let_def distinct_map)
qed

lemma strictly_sorted_merged:
  assumes "distinct (heights (cns_Upgrades (cn_Status n)))"
  shows "sorted_wrt (<) (heights (mergedUpgrades n gov))"
proof -
  have "sorted (heights (mergedUpgrades n gov))" by (simp add: mergedUpgrades_def Let_def)
  then show ?thesis using distinct_heights_merged [OF assms] by (simp add: strict_sorted_iff)
qed

lemma entry_Cons: "entry (u # us) h = (if up_Height u = h then Some u else entry us h)"
  by (simp add: entry_def)

lemma entry_AddOrUpdateUpgrade:
  "entry (AddOrUpdateUpgrade us x cur) h =
     (if h = up_Height x then Some (case entry us h of Some u \<Rightarrow> mergeUpgrade u x cur | None \<Rightarrow> x)
      else entry us h)"
  by (induction us) (auto simp: entry_def)

lemma entry_sort_key:
  assumes "distinct (heights us)"
  shows "entry (sort_key up_Height us) h = entry us h"
proof -
  have key: "entry ys h = Some u \<longleftrightarrow> u \<in> set ys \<and> up_Height u = h" if "distinct (heights ys)" for ys u
    using that by (induction ys) (auto simp: entry_Cons entry_def)
  have d: "distinct (heights (sort_key up_Height us))" using assms by (simp add: distinct_map)
  show ?thesis
  proof (cases "entry us h")
    case None
    then have "\<nexists>u. entry (sort_key up_Height us) h = Some u" using key [OF d] key [OF assms] by auto
    then show ?thesis using None by simp
  next
    case (Some u)
    then show ?thesis using key [OF d, of u] key [OF assms, of u] by simp
  qed
qed

section \<open>Runs\<close>

text \<open>The steps of a node's upgrade state: a reconcile merges planned and manual upgrades, the controller
  changes the status of a scheduled upgrade that it attempts (to ongoing, and from there to completed or
  back to scheduled, in one reconcile), the height and the desired spec change.\<close>

inductive upgrade_step :: "ChainNode \<Rightarrow> ChainNode \<Rightarrow> bool" where
  reconcile: "upgrade_step n (setUpgrades (mergedUpgrades n gov) n)"
| attempt: "getUpgrade n h = Some u \<Longrightarrow> status \<in> {UpgradeOnGoing, UpgradeCompleted, UpgradeScheduled} \<Longrightarrow>
    upgrade_step n (withUpgradeStatus n u status)"
| resume: "entry (cns_Upgrades (cn_Status n)) (up_Height u) = Some v \<Longrightarrow> up_Status v = UpgradeOnGoing \<Longrightarrow>
    status \<in> {UpgradeCompleted, UpgradeScheduled} \<Longrightarrow> upgrade_step n (withUpgradeStatus n u status)"
| observe: "upgrade_step n (n\<lparr>cn_Status := (cn_Status n)\<lparr>cns_LatestHeight := h, cns_Phase := p\<rparr>\<rparr>)"
| respec: "upgrade_step n (n\<lparr>cn_Spec := sp\<rparr>)"

definition upgrades_ok :: "ChainNode \<Rightarrow> bool" where
  "upgrades_ok n \<longleftrightarrow> distinct (heights (cns_Upgrades (cn_Status n)))"

lemma cns_Upgrades_setUpgrades [simp]: "cns_Upgrades (cn_Status (setUpgrades us n)) = us"
  by (simp add: setUpgrades_def)

lemma cns_Upgrades_withUpgradeStatus:
  "cns_Upgrades (cn_Status (withUpgradeStatus n u status)) =
     updateFirst (\<lambda>x. up_Height x = up_Height u) (\<lambda>x. x\<lparr>up_Status := status\<rparr>) (cns_Upgrades (cn_Status n))"
  by (simp add: withUpgradeStatus_def addUpgradeStatusCondition_def Let_def)

lemma heights_updateFirst: "heights (updateFirst P (\<lambda>x. x\<lparr>up_Status := s\<rparr>) us) = heights us"
  by (induction us) auto

lemma entry_updateFirst:
  "entry (updateFirst (\<lambda>x. up_Height x = k) (\<lambda>x. x\<lparr>up_Status := s\<rparr>) us) h =
     (if h = k then map_option (\<lambda>x. x\<lparr>up_Status := s\<rparr>) (entry us h) else entry us h)"
  by (induction us) (auto simp: entry_def)

lemma upgrade_step_ok: "upgrade_step n n' \<Longrightarrow> upgrades_ok n \<Longrightarrow> upgrades_ok n'"
  by (induction rule: upgrade_step.induct)
    (auto simp: upgrades_ok_def distinct_heights_merged cns_Upgrades_withUpgradeStatus heights_updateFirst
      simp del: distinct_map)

text \<open>What an entry keeps: its image, once it is not missing, and completion.\<close>

definition keeps_entry :: "Upgrade \<Rightarrow> Upgrade \<Rightarrow> bool" where
  "keeps_entry u v \<longleftrightarrow> up_Height v = up_Height u \<and>
     (up_Status u \<noteq> UpgradeImageMissing \<longrightarrow> up_Image v = up_Image u \<and> up_Status v \<noteq> UpgradeImageMissing) \<and>
     (up_Status u = UpgradeCompleted \<longrightarrow> up_Status v = UpgradeCompleted)"

definition keeps_entries :: "Upgrade list \<Rightarrow> Upgrade list \<Rightarrow> bool" where
  "keeps_entries us vs \<longleftrightarrow> (\<forall>h u. entry us h = Some u \<longrightarrow> (\<exists>v. entry vs h = Some v \<and> keeps_entry u v))"

lemma keeps_entry_refl: "keeps_entry u u"
  by (simp add: keeps_entry_def)

lemma keeps_entry_trans: "keeps_entry u v \<Longrightarrow> keeps_entry v w \<Longrightarrow> keeps_entry u w"
  by (auto simp: keeps_entry_def)

lemma keeps_entries_refl: "keeps_entries us us"
  by (auto simp: keeps_entries_def keeps_entry_refl)

lemma keeps_entries_trans: "keeps_entries us vs \<Longrightarrow> keeps_entries vs ws \<Longrightarrow> keeps_entries us ws"
  unfolding keeps_entries_def using keeps_entry_trans by meson

lemma keeps_mergeUpgrade: "keeps_entry u (mergeUpgrade u x h)"
  by (auto simp: keeps_entry_def mergeUpgrade_def Let_def)

lemma keeps_AddOrUpdateUpgrade: "keeps_entries us (AddOrUpdateUpgrade us x h)"
  by (auto simp: keeps_entries_def entry_AddOrUpdateUpgrade keeps_mergeUpgrade keeps_entry_refl)

lemma keeps_fold:
  "keeps_entries us (fold (\<lambda>x us. AddOrUpdateUpgrade us (f x) h) xs us)"
proof (induction xs arbitrary: us)
  case (Cons x xs)
  show ?case using keeps_entries_trans [OF keeps_AddOrUpdateUpgrade Cons.IH] by simp
qed (simp add: keeps_entries_refl)

lemma keeps_merged:
  assumes "upgrades_ok n"
  shows "keeps_entries (cns_Upgrades (cn_Status n)) (mergedUpgrades n gov)"
proof -
  let ?us = "fold (\<lambda>x us. AddOrUpdateUpgrade us (manualUpgrade (cns_LatestHeight (cn_Status n)) x)
      (cns_LatestHeight (cn_Status n))) (app_Upgrades (cn_App (cn_Spec n)))
      (fold (\<lambda>u us. AddOrUpdateUpgrade us u (cns_LatestHeight (cn_Status n))) gov (cns_Upgrades (cn_Status n)))"
  have eq: "mergedUpgrades n gov = sort_key up_Height ?us" by (simp add: mergedUpgrades_def Let_def)
  have "distinct (heights (sort_key up_Height ?us))"
    using distinct_heights_merged [of n gov] assms unfolding eq upgrades_ok_def by blast
  then have d: "distinct (heights ?us)" by (simp add: distinct_map)
  have "keeps_entries (cns_Upgrades (cn_Status n)) ?us"
    using keeps_fold [where f = "\<lambda>u. u"] keeps_fold keeps_entries_trans by blast
  then show ?thesis unfolding eq keeps_entries_def entry_sort_key [OF d] .
qed

lemma upgrade_step_keeps:
  assumes "upgrade_step n n'" "upgrades_ok n"
  shows "keeps_entries (cns_Upgrades (cn_Status n)) (cns_Upgrades (cn_Status n'))"
  using assms
proof (induction rule: upgrade_step.induct)
  case (reconcile n gov)
  then show ?case by (simp add: keeps_merged)
next
  case (attempt n h u status)
  have "entry (cns_Upgrades (cn_Status n)) (up_Height u) = Some w \<Longrightarrow> up_Status w = UpgradeScheduled" for w
  proof -
    assume w: "entry (cns_Upgrades (cn_Status n)) (up_Height u) = Some w"
    from attempt.hyps have u: "u \<in> set (cns_Upgrades (cn_Status n))" "up_Status u = UpgradeScheduled"
      by (auto simp: getUpgrade_def find_Some_iff)
    from w have "w \<in> set (cns_Upgrades (cn_Status n))" "up_Height w = up_Height u"
      by (auto simp: entry_def find_Some_iff)
    with u attempt.prems have "w = u" by (auto simp: upgrades_ok_def distinct_map inj_on_def)
    with u show ?thesis by simp
  qed
  then show ?case
    using attempt.hyps(2)
    by (auto simp: keeps_entries_def cns_Upgrades_withUpgradeStatus entry_updateFirst keeps_entry_def)
next
  case (resume n u v status)
  then show ?case
    by (auto simp: keeps_entries_def cns_Upgrades_withUpgradeStatus entry_updateFirst keeps_entry_def)
qed (auto simp: keeps_entries_refl)

text \<open>C23: In every run of reconciles, upgrade attempts, new heights and new specs, the heights of the
  recorded upgrades stay distinct, no recorded upgrade disappears, a completed upgrade stays completed,
  and an upgrade whose image is known keeps that image.\<close>

theorem upgrade_run_keeps:
  assumes "upgrade_step\<^sup>*\<^sup>* n n'" "distinct (heights (cns_Upgrades (cn_Status n)))"
    "entry (cns_Upgrades (cn_Status n)) h = Some u"
  shows "distinct (heights (cns_Upgrades (cn_Status n'))) \<and>
    (\<exists>v. entry (cns_Upgrades (cn_Status n')) h = Some v \<and>
       (up_Status u \<noteq> UpgradeImageMissing \<longrightarrow> up_Image v = up_Image u) \<and>
       (up_Status u = UpgradeCompleted \<longrightarrow> up_Status v = UpgradeCompleted))"
proof -
  have "upgrades_ok n' \<and> keeps_entries (cns_Upgrades (cn_Status n)) (cns_Upgrades (cn_Status n'))"
    using assms(1)
  proof (induction rule: rtranclp_induct)
    case base
    then show ?case using assms(2) by (simp add: upgrades_ok_def keeps_entries_refl)
  next
    case (step y z)
    then show ?case using upgrade_step_ok upgrade_step_keeps keeps_entries_trans by blast
  qed
  then show ?thesis using assms(3) by (auto simp: upgrades_ok_def keeps_entries_def keeps_entry_def)
qed

section \<open>The image of a node\<close>

lemma pickVersion_none:
  "\<forall>u \<in> set us. ok u \<longrightarrow> up_Height u \<le> fst hv \<Longrightarrow> pickVersion ok us hv = hv"
  by (induction us) auto

lemma pickVersion_max:
  assumes "distinct (heights us)" "u \<in> set us" "ok u" "up_Height u > fst hv"
    "\<forall>w \<in> set us. ok w \<longrightarrow> up_Height w \<le> up_Height u"
  shows "pickVersion ok us hv = (up_Height u, GetVersion u)"
  using assms
proof (induction us arbitrary: hv)
  case (Cons w us)
  show ?case
  proof (cases "w = u")
    case True
    then show ?thesis using Cons.prems by (simp add: pickVersion_none)
  next
    case False
    then have u: "u \<in> set us" using Cons.prems(2) by simp
    then have "up_Height w \<noteq> up_Height u" using Cons.prems(1) by (metis distinct.simps(2) imageI list.set_map list.simps(9))
    then have "ok w \<Longrightarrow> up_Height w < up_Height u" using Cons.prems(5) by fastforce
    then show ?thesis using Cons.prems u by (auto intro!: Cons.IH)
  qed
qed simp

definition passed :: "ChainNode \<Rightarrow> Upgrade \<Rightarrow> bool" where
  "passed n u \<longleftrightarrow> up_Status u \<in> {UpgradeCompleted, UpgradeSkipped, UpgradeOnGoing} \<and>
     0 < up_Height u \<and> up_Height u \<le> cns_LatestHeight (cn_Status n)"

text \<open>A node without a version override runs the version of the highest upgrade among those at or
  below its height that are completed, skipped or under way, and the version of its spec when there is
  none.\<close>

theorem GetAppVersion_spec:
  assumes "distinct (heights (cns_Upgrades (cn_Status n)))" "cn_OverrideVersion (cn_Spec n) = None"
  shows "(\<forall>u \<in> set (cns_Upgrades (cn_Status n)). passed n u \<longrightarrow>
            (\<forall>w \<in> set (cns_Upgrades (cn_Status n)). passed n w \<longrightarrow> up_Height w \<le> up_Height u) \<longrightarrow>
            GetAppVersion n = GetVersion u) \<and>
         ((\<forall>u \<in> set (cns_Upgrades (cn_Status n)). \<not> passed n u) \<longrightarrow>
            GetAppVersion n = GetImageVersion (cn_App (cn_Spec n)))"
proof -
  let ?us = "cns_Upgrades (cn_Status n)"
  let ?hv = "(0, GetImageVersion (cn_App (cn_Spec n))) :: int \<times> string"
  let ?ok = "\<lambda>u. up_Status u \<in> {UpgradeCompleted, UpgradeSkipped, UpgradeOnGoing} \<and>
    up_Height u \<le> cns_LatestHeight (cn_Status n)"
  have ok: "?ok u \<and> up_Height u > 0 \<longleftrightarrow> passed n u" for u by (auto simp: passed_def)
  have v: "GetAppVersion n = snd (pickVersion ?ok ?us ?hv)" using assms(2) by (simp add: GetAppVersion_def)
  have "GetAppVersion n = GetVersion u"
    if u: "u \<in> set ?us" "passed n u" "\<forall>w \<in> set ?us. passed n w \<longrightarrow> up_Height w \<le> up_Height u" for u
  proof -
    have "up_Height w \<le> up_Height u" if "w \<in> set ?us" "?ok w" for w
      using that u ok [of w] ok [of u] by (cases "up_Height w > 0") auto
    then have "pickVersion ?ok ?us ?hv = (up_Height u, GetVersion u)"
      using u ok [of u] by (intro pickVersion_max [OF assms(1)]) auto
    then show ?thesis unfolding v by simp
  qed
  moreover have "GetAppVersion n = GetImageVersion (cn_App (cn_Spec n))" if "\<forall>u \<in> set ?us. \<not> passed n u"
  proof -
    have "pickVersion ?ok ?us ?hv = ?hv"
      using that ok by (intro pickVersion_none) (force simp: not_less)
    then show ?thesis unfolding v by simp
  qed
  ultimately show ?thesis by blast
qed

section \<open>Publishing\<close>

text \<open>The upgrades file in the data of the ConfigMap.\<close>

definition configFile :: "labels option \<Rightarrow> string" where
  "configFile d = (case d of None \<Rightarrow> [] | Some m \<Rightarrow> label m upgradesConfigFile)"

text \<open>What the code relies on from the API server and the RPC endpoint: a successful read returns what is
  stored, a successful write stores what is written, and no call touches the other object. The controller
  is the only writer of both.\<close>

locale upgrade_store =
  fixes UA :: "'s upgrade_api"
    and config :: "'s \<Rightarrow> labels option option"
    and stored :: "'s \<Rightarrow> ChainNode option"
  assumes next_frame: "ua_nextUpgrade UA s = (r, s') \<Longrightarrow> config s' = config s \<and> stored s' = stored s"
    and get_frame: "ua_getConfig UA s = (rc, s') \<Longrightarrow> config s' = config s \<and> stored s' = stored s"
    and get_value: "ua_getConfig UA s = (Inr d, s') \<Longrightarrow> config s' = Some d"
    and create_config: "ua_createConfig UA m s = (Inr (), s') \<Longrightarrow> config s' = Some (Some m) \<and> stored s' = stored s"
    and update_config: "ua_updateConfig UA m s = (Inr (), s') \<Longrightarrow> config s' = Some (Some m) \<and> stored s' = stored s"
    and update_status: "ua_updateStatus UA n s = (Inr (), s') \<Longrightarrow> stored s' = Some n \<and> config s' = config s"
begin

definition published :: "(Upgrade list \<Rightarrow> string) \<Rightarrow> ChainNode \<Rightarrow> 's \<Rightarrow> bool" where
  "published marshal n s \<longleftrightarrow>
     map_option configFile (config s) = Some (marshal (cns_Upgrades (cn_Status n)))"

lemma published_cong:
  "config s' = config s \<Longrightarrow> cns_Upgrades (cn_Status n') = cns_Upgrades (cn_Status n) \<Longrightarrow>
   published marshal n' s' = published marshal n s"
  by (simp add: published_def)

lemma ensureUpgradesConfig_publishes:
  assumes "ensureUpgradesConfig marshal UA n s = (Inr x, s')"
  shows "published marshal n s' \<and> stored s' = stored s"
proof (cases "ua_getConfig UA s")
  case (Pair r s1)
  note fr = get_frame [OF Pair]
  show ?thesis
  proof (cases r)
    case (Inl e)
    with Pair assms have "ua_createConfig UA [upgradesConfigFile \<mapsto> marshal (cns_Upgrades (cn_Status n))] s1 = (Inr (), s')"
      by (auto simp: ensureUpgradesConfig_def get_or_def call_def Let_def split: if_splits prod.splits sum.splits)
    then show ?thesis using create_config fr by (auto simp: published_def configFile_def label_def)
  next
    case (Inr d)
    show ?thesis
    proof (cases d)
      case None
      with Inr Pair assms have "s' = s1" "marshal (cns_Upgrades (cn_Status n)) = []"
        by (auto simp: ensureUpgradesConfig_def get_or_def ret_def fail_def Let_def split: if_splits)
      then show ?thesis using None get_value [OF Pair [unfolded Inr]] fr by (simp add: published_def configFile_def)
    next
      case (Some m)
      show ?thesis
      proof (cases "label m upgradesConfigFile = marshal (cns_Upgrades (cn_Status n))")
        case True
        with Some Inr Pair assms have "s' = s1"
          by (auto simp: ensureUpgradesConfig_def get_or_def ret_def Let_def)
        then show ?thesis using True Some get_value [OF Pair [unfolded Inr]] fr
          by (simp add: published_def configFile_def)
      next
        case False
        with Some Inr Pair assms
        have "ua_updateConfig UA (m(upgradesConfigFile \<mapsto> marshal (cns_Upgrades (cn_Status n)))) s1 = (Inr (), s')"
          by (auto simp: ensureUpgradesConfig_def get_or_def call_def Let_def split: prod.splits sum.splits)
        then show ?thesis using update_config fr by (auto simp: published_def configFile_def label_def)
      qed
    qed
  qed
qed

lemma updateStatus_stores:
  assumes "call UpgradeApi (ua_updateStatus UA n) s = (Inr x, s')"
  shows "stored s' = Some n \<and> config s' = config s"
  using assms update_status by (auto simp: call_def split: prod.splits sum.splits)

lemma queryGovUpgrades_frame:
  assumes "queryGovUpgrades docker UA n b s = (r, s')"
  shows "config s' = config s \<and> stored s' = stored s"
  using assms next_frame
  by (auto simp: queryGovUpgrades_def getGovUpgrades_def split: if_splits prod.splits sum.splits option.splits)

lemma ensureUpgrades_publishes:
  assumes run: "ensureUpgrades docker marshal UA n b s = (Inr n', s')"
  shows "published marshal n' s' \<and>
    (if cns_Upgrades (cn_Status n') = cns_Upgrades (cn_Status n) then stored s' = stored s else stored s' = Some n') \<and>
    (\<exists>gov. n' = setUpgrades (mergedUpgrades n gov) n)"
proof -
  obtain gov s1 where q: "queryGovUpgrades docker UA n b s = (Inr gov, s1)"
    using run by (auto simp: ensureUpgrades_def seq_def split: prod.splits sum.splits)
  let ?n = "setUpgrades (mergedUpgrades n gov) n"
  obtain s2 where c: "ensureUpgradesConfig marshal UA ?n s1 = (Inr (), s2)"
    using run q by (auto simp: ensureUpgrades_def seq_def Let_def split: prod.splits sum.splits)
  note pub = ensureUpgradesConfig_publishes [OF c]
  show ?thesis
  proof (cases "cns_Upgrades (cn_Status ?n) = cns_Upgrades (cn_Status n)")
    case True
    with run q c have "n' = ?n" "s' = s2" by (auto simp: ensureUpgrades_def seq_def ret_def Let_def)
    then show ?thesis using pub queryGovUpgrades_frame [OF q] True by metis
  next
    case False
    with run q c have "n' = ?n" and u: "call UpgradeApi (ua_updateStatus UA ?n) s2 = (Inr (), s')"
      by (auto simp: ensureUpgrades_def seq_def ret_def Let_def split: prod.splits sum.splits)
    then show ?thesis using pub updateStatus_stores [OF u] False published_cong by metis
  qed
qed

lemma setUpgradeStatus_publishes:
  assumes run: "setUpgradeStatus marshal UA n u status s = (Inr n', s')"
  shows "n' = withUpgradeStatus n u status \<and> published marshal n' s' \<and> stored s' = Some n'"
proof -
  let ?n = "withUpgradeStatus n u status"
  obtain s1 where u: "call UpgradeApi (ua_updateStatus UA ?n) s = (Inr (), s1)"
    using run by (auto simp: setUpgradeStatus_def seq_def fail_def Let_def split: if_splits prod.splits sum.splits)
  then have c: "ensureUpgradesConfig marshal UA ?n s1 = (Inr (), s')" "n' = ?n"
    using run by (auto simp: setUpgradeStatus_def seq_def fail_def ret_def Let_def split: if_splits prod.splits sum.splits)
  then show ?thesis using updateStatus_stores [OF u] ensureUpgradesConfig_publishes [OF c(1)] by auto
qed

end

text \<open>A server that holds the ConfigMap and the node, and fails the calls that its script marks.\<close>

record upgrade_mem =
  um_config :: "labels option option"
  um_node :: "ChainNode option"
  um_plan :: "string + UpgradePlan option"
  um_script :: "bool list"

definition um_try :: "(upgrade_mem \<Rightarrow> (api_error + 'a) \<times> upgrade_mem) \<Rightarrow> upgrade_mem \<Rightarrow> (api_error + 'a) \<times> upgrade_mem"
    where
  "um_try f s = (case um_script s of
     [] \<Rightarrow> f s
   | b # bs \<Rightarrow> if b then (Inl Conflict, s\<lparr>um_script := bs\<rparr>) else f (s\<lparr>um_script := bs\<rparr>))"

definition mem_api :: "upgrade_mem upgrade_api" where
  "mem_api =
     \<lparr>ua_nextUpgrade = (\<lambda>s. (um_plan s, s)),
      ua_getConfig = um_try (\<lambda>s. (found (um_config s), s)),
      ua_createConfig = (\<lambda>m. um_try (\<lambda>s.
        if um_config s = None then (Inr (), s\<lparr>um_config := Some (Some m)\<rparr>) else (Inl AlreadyExists, s))),
      ua_updateConfig = (\<lambda>m. um_try (\<lambda>s.
        if um_config s = None then (Inl NotFound, s) else (Inr (), s\<lparr>um_config := Some (Some m)\<rparr>))),
      ua_updateStatus = (\<lambda>n. um_try (\<lambda>s. (Inr (), s\<lparr>um_node := Some n\<rparr>)))\<rparr>"

interpretation um: upgrade_store mem_api um_config um_node
  by unfold_locales (auto simp: mem_api_def um_try_def found_def split: list.splits if_splits option.splits)

text \<open>When \<open>ensureUpgrades\<close> returns without an error, the upgrades file that node-utils reads is
  the JSON form of the recorded upgrades, the recorded upgrades are strictly sorted by height, and the
  status is stored whenever they changed, whatever calls failed and were retried before.\<close>

theorem ensureUpgrades_published:
  assumes "upgrade_store UA config stored" "ensureUpgrades docker marshal UA n running s = (Inr n', s')"
    "distinct (heights (cns_Upgrades (cn_Status n)))"
  shows "map_option configFile (config s') = Some (marshal (cns_Upgrades (cn_Status n'))) \<and>
    sorted_wrt (<) (heights (cns_Upgrades (cn_Status n'))) \<and>
    (cns_Upgrades (cn_Status n') \<noteq> cns_Upgrades (cn_Status n) \<longrightarrow> stored s' = Some n')"
  using upgrade_store.ensureUpgrades_publishes [OF assms(1,2)] strictly_sorted_merged [OF assms(3)]
  by (auto simp: upgrade_store.published_def [OF assms(1)])

section \<open>Sets\<close>

lemma mergeSetUpgrade_simps [simp]:
  "up_Height (mergeSetUpgrade u x) = up_Height u" "up_Image (mergeSetUpgrade u x) = up_Image u"
  by (simp_all add: mergeSetUpgrade_def)

lemma entry_AddOrUpdateSetUpgrade:
  "entry (AddOrUpdateSetUpgrade us x) h =
     (if h = up_Height x then Some (case entry us h of Some u \<Rightarrow> mergeSetUpgrade u x | None \<Rightarrow> x)
      else entry us h)"
  by (induction us) (auto simp: entry_def)

lemma heights_AddOrUpdateSetUpgrade:
  "heights (AddOrUpdateSetUpgrade us u) =
     (if up_Height u \<in> set (heights us) then heights us else heights us @ [up_Height u])"
  by (induction us) auto

text \<open>What a set entry keeps of an earlier one.\<close>

definition keeps_set_entry :: "Upgrade \<Rightarrow> Upgrade \<Rightarrow> bool" where
  "keeps_set_entry u v \<longleftrightarrow> up_Image v = up_Image u \<and>
     (up_Status u = UpgradeCompleted \<longrightarrow> up_Status v = UpgradeCompleted)"

definition covers :: "Upgrade list \<Rightarrow> Upgrade list \<Rightarrow> bool" where
  "covers us vs \<longleftrightarrow> (\<forall>h u. entry us h = Some u \<longrightarrow> (\<exists>v. entry vs h = Some v \<and> keeps_set_entry u v))"

lemma covers_trans: "covers us vs \<Longrightarrow> covers vs ws \<Longrightarrow> covers us ws"
  unfolding covers_def keeps_set_entry_def by metis

lemma covers_refl: "covers us us"
  by (simp add: covers_def keeps_set_entry_def)

lemma covers_AddOrUpdateSetUpgrade: "covers us (AddOrUpdateSetUpgrade us x)"
  by (auto simp: covers_def entry_AddOrUpdateSetUpgrade keeps_set_entry_def mergeSetUpgrade_def)

lemma fold_covers: "covers us (fold (\<lambda>u us. AddOrUpdateSetUpgrade us u) xs us)"
  by (induction xs arbitrary: us) (auto intro: covers_refl covers_trans [OF covers_AddOrUpdateSetUpgrade])

lemma entry_completed:
  assumes "covers us vs" "entry us h \<noteq> None"
  shows "entry vs h \<noteq> None"
  using assms by (auto simp: covers_def)

lemma fold_has_entry:
  assumes "x \<in> set xs"
  shows "\<exists>v. entry (fold (\<lambda>u us. AddOrUpdateSetUpgrade us u) xs us) (up_Height x) = Some v \<and>
    (up_Status x = UpgradeCompleted \<longrightarrow> up_Status v = UpgradeCompleted)"
proof -
  obtain a b where ab: "xs = a @ x # b" using assms split_list by metis
  let ?us = "fold (\<lambda>u us. AddOrUpdateSetUpgrade us u) a us"
  have "\<exists>v. entry (AddOrUpdateSetUpgrade ?us x) (up_Height x) = Some v \<and>
      (up_Status x = UpgradeCompleted \<longrightarrow> up_Status v = UpgradeCompleted)"
    by (auto simp: entry_AddOrUpdateSetUpgrade mergeSetUpgrade_def split: option.split)
  then show ?thesis
    using fold_covers [of "AddOrUpdateSetUpgrade ?us x" b] unfolding ab covers_def keeps_set_entry_def
    by fastforce
qed

lemma distinct_heights_set_fold:
  "distinct (heights us) \<Longrightarrow> distinct (heights (fold (\<lambda>u us. AddOrUpdateSetUpgrade us u) xs us))"
  by (rule fold_keeps [where P = "\<lambda>us. distinct (heights us)"]) (auto simp: heights_AddOrUpdateSetUpgrade)

lemma collectNode_invariant:
  "distinct (heights (fst acc)) \<Longrightarrow>
   distinct (heights (fst (fold collectNode nodes acc))) \<and> covers (fst acc) (fst (fold collectNode nodes acc)) \<and>
   snd acc \<le> snd (fold collectNode nodes acc)"
proof (induction nodes arbitrary: acc)
  case (Cons n nodes)
  let ?acc = "collectNode n acc"
  have "distinct (heights (fst ?acc))" "covers (fst acc) (fst ?acc)" "snd acc \<le> snd ?acc"
    using Cons.prems by (auto simp: collectNode_def distinct_heights_set_fold fold_covers simp del: distinct_map)
  then show ?case using Cons.IH [of ?acc] covers_trans by (auto simp del: distinct_map)
qed (simp add: covers_refl)

lemma collectNode_node:
  assumes "n \<in> set nodes" "distinct (heights (fst acc))"
  shows "cns_LatestHeight (cn_Status n) \<le> snd (fold collectNode nodes acc)"
    and "x \<in> set (cns_Upgrades (cn_Status n)) \<Longrightarrow>
      \<exists>v. entry (fst (fold collectNode nodes acc)) (up_Height x) = Some v \<and>
        (up_Status x = UpgradeCompleted \<longrightarrow> up_Status v = UpgradeCompleted)"
proof -
  obtain a b where ab: "nodes = a @ n # b" using assms(1) split_list by metis
  let ?acc = "fold collectNode a acc"
  have "distinct (heights (fst ?acc))" using collectNode_invariant [OF assms(2)] by blast
  then have d: "distinct (heights (fst (collectNode n ?acc)))"
    by (simp add: collectNode_def distinct_heights_set_fold del: distinct_map)
  note inv = collectNode_invariant [OF d, of b]
  show "cns_LatestHeight (cn_Status n) \<le> snd (fold collectNode nodes acc)"
    using inv unfolding ab by (simp add: collectNode_def split: if_splits)
  show "\<exists>v. entry (fst (fold collectNode nodes acc)) (up_Height x) = Some v \<and>
        (up_Status x = UpgradeCompleted \<longrightarrow> up_Status v = UpgradeCompleted)"
    if "x \<in> set (cns_Upgrades (cn_Status n))"
    using fold_has_entry [OF that, of "fst ?acc"] inv unfolding ab covers_def keeps_set_entry_def
    by (fastforce simp: collectNode_def)
qed

lemma collectUpgrades_facts:
  assumes "distinct (heights (nss_Upgrades (ns_Status ns)))"
  shows "sorted_wrt (<) (heights (nss_Upgrades (ns_Status (collectUpgrades ns nodes))))"
    and "\<lbrakk>entry (nss_Upgrades (ns_Status ns)) h = Some u\<rbrakk> \<Longrightarrow>
      \<exists>v. entry (nss_Upgrades (ns_Status (collectUpgrades ns nodes))) h = Some v \<and> up_Image v = up_Image u \<and>
        (up_Status u = UpgradeCompleted \<longrightarrow> up_Status v = UpgradeCompleted)"
    and "\<lbrakk>n \<in> set nodes; x \<in> set (cns_Upgrades (cn_Status n))\<rbrakk> \<Longrightarrow>
      \<exists>v. entry (nss_Upgrades (ns_Status (collectUpgrades ns nodes))) (up_Height x) = Some v \<and>
        (up_Status x = UpgradeCompleted \<longrightarrow> up_Status v = UpgradeCompleted)"
    and "n \<in> set nodes \<Longrightarrow> cns_LatestHeight (cn_Status n) \<le> nss_LatestHeight (ns_Status (collectUpgrades ns nodes))"
proof -
  let ?acc = "fold collectNode nodes (nss_Upgrades (ns_Status ns), nss_LatestHeight (ns_Status ns))"
  have inv: "distinct (heights (fst ?acc))" "covers (nss_Upgrades (ns_Status ns)) (fst ?acc)"
    using collectNode_invariant [of "(nss_Upgrades (ns_Status ns), nss_LatestHeight (ns_Status ns))" nodes] assms
    by auto
  have ups: "nss_Upgrades (ns_Status (collectUpgrades ns nodes)) = sort_key up_Height (fst ?acc)"
    and lh: "nss_LatestHeight (ns_Status (collectUpgrades ns nodes)) = snd ?acc"
    by (simp_all add: collectUpgrades_def case_prod_beta)
  note e = entry_sort_key [OF inv(1)]
  show "sorted_wrt (<) (heights (nss_Upgrades (ns_Status (collectUpgrades ns nodes))))"
    using inv(1) unfolding ups strict_sorted_iff by (simp add: distinct_map)
  show "\<exists>v. entry (nss_Upgrades (ns_Status (collectUpgrades ns nodes))) h = Some v \<and> up_Image v = up_Image u \<and>
        (up_Status u = UpgradeCompleted \<longrightarrow> up_Status v = UpgradeCompleted)"
    if "entry (nss_Upgrades (ns_Status ns)) h = Some u"
    using inv(2) that unfolding ups e covers_def keeps_set_entry_def by blast
  show "\<exists>v. entry (nss_Upgrades (ns_Status (collectUpgrades ns nodes))) (up_Height x) = Some v \<and>
        (up_Status x = UpgradeCompleted \<longrightarrow> up_Status v = UpgradeCompleted)"
    if "n \<in> set nodes" "x \<in> set (cns_Upgrades (cn_Status n))"
    using collectNode_node(2) [OF that(1), of "(nss_Upgrades (ns_Status ns), nss_LatestHeight (ns_Status ns))"]
      that(2) assms unfolding ups e by auto
  show "cns_LatestHeight (cn_Status n) \<le> nss_LatestHeight (ns_Status (collectUpgrades ns nodes))"
    if "n \<in> set nodes"
    using collectNode_node(1) [OF that, of "(nss_Upgrades (ns_Status ns), nss_LatestHeight (ns_Status ns))"]
      assms unfolding lh by simp
qed

text \<open>Collecting the upgrades of the nodes of a set keeps every recorded upgrade with its image, keeps
  completion, records every upgrade of every node, as completed when a node completed it, and raises the
  recorded height to at least the height of every node.\<close>

theorem collectUpgrades_complete:
  assumes "distinct (heights (nss_Upgrades (ns_Status ns)))"
  shows "sorted_wrt (<) (heights (nss_Upgrades (ns_Status (collectUpgrades ns nodes)))) \<and>
    (\<forall>h u. entry (nss_Upgrades (ns_Status ns)) h = Some u \<longrightarrow>
      (\<exists>v. entry (nss_Upgrades (ns_Status (collectUpgrades ns nodes))) h = Some v \<and> up_Image v = up_Image u \<and>
        (up_Status u = UpgradeCompleted \<longrightarrow> up_Status v = UpgradeCompleted))) \<and>
    (\<forall>n \<in> set nodes. cns_LatestHeight (cn_Status n) \<le> nss_LatestHeight (ns_Status (collectUpgrades ns nodes)) \<and>
      (\<forall>x \<in> set (cns_Upgrades (cn_Status n)).
        \<exists>v. entry (nss_Upgrades (ns_Status (collectUpgrades ns nodes))) (up_Height x) = Some v \<and>
          (up_Status x = UpgradeCompleted \<longrightarrow> up_Status v = UpgradeCompleted)))"
  using collectUpgrades_facts [OF assms] by blast

section \<open>From a set to its nodes\<close>

lemma addSpecUpgrade_heights:
  "map us_Height (addSpecUpgrade u specs) =
     (if up_Height u \<in> set (map us_Height specs) then map us_Height specs else map us_Height specs @ [up_Height u])"
  by (force simp: addSpecUpgrade_def list_ex_iff statusUpgradeSpec_def)

lemma addSpecUpgrade_mono: "set specs \<subseteq> set (addSpecUpgrade u specs)"
  by (auto simp: addSpecUpgrade_def)

lemma fold_addSpecUpgrade_mono: "set specs \<subseteq> set (fold addSpecUpgrade us specs)"
  by (induction us arbitrary: specs) (auto dest: addSpecUpgrade_mono [THEN subsetD])

lemma fold_addSpecUpgrade_distinct:
  "distinct (map us_Height specs) \<Longrightarrow> distinct (map us_Height (fold addSpecUpgrade us specs))"
  by (rule fold_keeps [where P = "\<lambda>sp. distinct (map us_Height sp)"]) (auto simp: addSpecUpgrade_heights)

lemma fold_addSpecUpgrade_new:
  assumes "distinct (heights us)" "u \<in> set us" "up_Height u \<notin> us_Height ` set specs"
  shows "statusUpgradeSpec u \<in> set (fold addSpecUpgrade us specs)"
  using assms
proof (induction us arbitrary: specs)
  case (Cons w us)
  show ?case
  proof (cases "w = u")
    case True
    then have "statusUpgradeSpec u \<in> set (addSpecUpgrade w specs)"
      using Cons.prems(3) by (force simp: addSpecUpgrade_def list_ex_iff)
    then show ?thesis using fold_addSpecUpgrade_mono by auto
  next
    case False
    then have u: "u \<in> set us" "up_Height w \<noteq> up_Height u"
      using Cons.prems(1,2) by (auto simp: distinct_map image_iff)
    then have "up_Height u \<notin> us_Height ` set (addSpecUpgrade w specs)"
      using Cons.prems(3) by (auto simp: addSpecUpgrade_def statusUpgradeSpec_def)
    then show ?thesis using Cons.IH Cons.prems(1) u(1) by simp
  qed
qed simp

text \<open>The app spec a set hands to its nodes lists every upgrade the user specified, unchanged, and every
  other upgrade recorded for the set with its height, image and source, sorted and without duplicates.\<close>

theorem GetAppSpecWithUpgrades_complete:
  assumes "distinct (heights (nss_Upgrades (ns_Status ns)))"
    "distinct (map us_Height (app_Upgrades (ns_App (ns_Spec ns))))"
  shows "sorted_wrt (<) (map us_Height (app_Upgrades (GetAppSpecWithUpgrades ns))) \<and>
    set (app_Upgrades (ns_App (ns_Spec ns))) \<subseteq> set (app_Upgrades (GetAppSpecWithUpgrades ns)) \<and>
    (\<forall>u \<in> set (nss_Upgrades (ns_Status ns)).
       up_Height u \<notin> us_Height ` set (app_Upgrades (ns_App (ns_Spec ns))) \<longrightarrow>
       statusUpgradeSpec u \<in> set (app_Upgrades (GetAppSpecWithUpgrades ns)))"
proof -
  let ?specs = "fold addSpecUpgrade (nss_Upgrades (ns_Status ns)) (app_Upgrades (ns_App (ns_Spec ns)))"
  have eq: "app_Upgrades (GetAppSpecWithUpgrades ns) = sort_key us_Height ?specs"
    by (simp add: GetAppSpecWithUpgrades_def Let_def)
  have "distinct (map us_Height (sort_key us_Height ?specs))"
    using fold_addSpecUpgrade_distinct [OF assms(2), of "nss_Upgrades (ns_Status ns)"] by (simp add: distinct_map)
  then have "sorted_wrt (<) (map us_Height (sort_key us_Height ?specs))" unfolding strict_sorted_iff by simp
  then show ?thesis
    using fold_addSpecUpgrade_mono fold_addSpecUpgrade_new [OF assms(1)] unfolding eq by auto
qed

section \<open>Examples\<close>

definition sched :: "int \<Rightarrow> UpgradePhase \<Rightarrow> Upgrade" where
  "sched h st = \<lparr>up_Height = h, up_Image = ''app:v2'', up_Status = st, up_Source = OnChainUpgrade\<rparr>"

definition upgrading_node :: ChainNode where
  "upgrading_node = zero_ChainNode\<lparr>cn_Status := (cn_Status zero_ChainNode)\<lparr>cns_LatestHeight := 120,
     cns_Upgrades := [sched 100 UpgradeCompleted, sched 200 UpgradeScheduled]\<rparr>\<rparr>"

definition upgraded_set :: ChainNodeSet where
  "upgraded_set = zero_ChainNodeSet\<lparr>ns_Status := (ns_Status zero_ChainNodeSet)\<lparr>
     nss_Upgrades := [sched 100 UpgradeScheduled]\<rparr>\<rparr>"

lemmas upgrade_examples = upgrading_node_def upgraded_set_def sched_def zero_defs

theorem upgrade_run_keeps_witness:
  "\<exists>v. entry (cns_Upgrades (cn_Status (setUpgrades (mergedUpgrades upgrading_node [sched 100 UpgradeScheduled])
      upgrading_node))) 100 = Some v \<and> up_Status v = UpgradeCompleted"
proof -
  have r: "upgrade_step\<^sup>*\<^sup>* upgrading_node
      (setUpgrades (mergedUpgrades upgrading_node [sched 100 UpgradeScheduled]) upgrading_node)"
    using upgrade_step.reconcile by blast
  have d: "distinct (heights (cns_Upgrades (cn_Status upgrading_node)))" by (simp add: upgrade_examples)
  have e: "entry (cns_Upgrades (cn_Status upgrading_node)) 100 = Some (sched 100 UpgradeCompleted)"
    by (simp add: upgrade_examples entry_def)
  show ?thesis using upgrade_run_keeps [OF r d e] by (auto simp: sched_def)
qed

theorem GetAppVersion_spec_witness: "GetAppVersion upgrading_node = ''v2''"
proof -
  have "GetAppVersion upgrading_node = GetVersion (sched 100 UpgradeCompleted)"
    using GetAppVersion_spec [of upgrading_node] by (auto simp: upgrade_examples passed_def)
  also have "\<dots> = ''v2''" by (simp add: GetVersion_def sched_def)
  finally show ?thesis .
qed

definition example_mem :: upgrade_mem where
  "example_mem = \<lparr>um_config = None, um_node = None, um_plan = Inr None, um_script = []\<rparr>"

theorem ensureUpgrades_published_witness:
  "\<exists>n' s'. ensureUpgrades (\<lambda>_. None) (\<lambda>us. concat (map up_Image us)) mem_api upgrading_node True example_mem = (Inr n', s') \<and>
     map_option configFile (um_config s') = Some ''app:v2app:v2''"
proof -
  obtain n' s' where run:
    "ensureUpgrades (\<lambda>_. None) (\<lambda>us. concat (map up_Image us)) mem_api upgrading_node True example_mem = (Inr n', s')"
    and ups: "cns_Upgrades (cn_Status n') = [sched 100 UpgradeCompleted, sched 200 UpgradeScheduled]"
    by (simp add: ensureUpgrades_def queryGovUpgrades_def seq_def ensureUpgradesConfig_def get_or_def call_def ret_def
        mem_api_def um_try_def example_mem_def found_def mergedUpgrades_def Let_def setUpgrades_def upgrade_examples)
  have d: "distinct (heights (cns_Upgrades (cn_Status upgrading_node)))" by (simp add: upgrade_examples)
  show ?thesis
    using ensureUpgrades_published [OF um.upgrade_store_axioms run d] run ups by (auto simp: sched_def)
qed

theorem collectUpgrades_complete_witness:
  "\<exists>v. entry (nss_Upgrades (ns_Status (collectUpgrades upgraded_set [upgrading_node]))) 100 = Some v \<and>
     up_Status v = UpgradeCompleted"
proof -
  have "distinct (heights (nss_Upgrades (ns_Status upgraded_set)))" by (simp add: upgrade_examples)
  from collectUpgrades_complete [OF this, of "[upgrading_node]"] show ?thesis
    by (auto simp: upgrading_node_def sched_def zero_defs)
qed

theorem GetAppSpecWithUpgrades_complete_witness:
  "statusUpgradeSpec (sched 100 UpgradeScheduled) \<in> set (app_Upgrades (GetAppSpecWithUpgrades upgraded_set))"
  using GetAppSpecWithUpgrades_complete [of upgraded_set] by (simp add: upgrade_examples)

text \<open>A node that skipped an upgrade: the first collection records it as skipped, the second one, with
  nothing changed, as completed.\<close>

theorem skipped_upgrade_becomes_completed:
  "nss_Upgrades (ns_Status (collectUpgrades zero_ChainNodeSet
      [upgrading_node\<lparr>cn_Status := (cn_Status upgrading_node)\<lparr>cns_Upgrades := [sched 100 UpgradeSkipped]\<rparr>\<rparr>])) =
     [sched 100 UpgradeSkipped] \<and>
   nss_Upgrades (ns_Status (collectUpgrades (collectUpgrades zero_ChainNodeSet
      [upgrading_node\<lparr>cn_Status := (cn_Status upgrading_node)\<lparr>cns_Upgrades := [sched 100 UpgradeSkipped]\<rparr>\<rparr>])
      [upgrading_node\<lparr>cn_Status := (cn_Status upgrading_node)\<lparr>cns_Upgrades := [sched 100 UpgradeSkipped]\<rparr>\<rparr>])) =
     [sched 100 UpgradeCompleted]"
  by (simp add: collectUpgrades_def collectNode_def mergeSetUpgrade_def upgrade_examples)

end
