(* ===== verification/Pod_Correct.thy ===== *)
theory Pod_Correct
  imports Pod_Lifecycle Upgrades_Correct
begin

text \<open>
  What the upgrade of a pod guarantees: an upgrade is recorded as completed only after the pod with the new
  image was created, and a handler that reports success leaves the upgrade completed or scheduled again.
  The last sections state what the code does on an interrupted upgrade and with the disruption check.
\<close>

section \<open>Handlers that keep a property\<close>

definition keeps :: "(ChainNode \<Rightarrow> 's \<Rightarrow> bool) \<Rightarrow> 's node_act \<Rightarrow> bool" where
  "keeps P act \<longleftrightarrow> (\<forall>n s n' e s'. P n s \<longrightarrow> act n s = ((n', e), s') \<longrightarrow> P n' s')"

lemma keepsD: "keeps P act \<Longrightarrow> P n s \<Longrightarrow> act n s = ((n', e), s') \<Longrightarrow> P n' s'"
  by (auto simp: keeps_def)

lemma keeps_return: "keeps P act_return"
  by (simp add: keeps_def act_return_def)

lemma keepsI: "(\<And>n s n' e s'. P n s \<Longrightarrow> act n s = ((n', e), s') \<Longrightarrow> P n' s') \<Longrightarrow> keeps P act"
  by (auto simp: keeps_def)

lemma keeps_then:
  assumes "keeps P f" "keeps P g"
  shows "keeps P (act_then f g)"
proof (rule keepsI)
  fix n s n' e s'
  assume P: "P n s" and run: "act_then f g n s = ((n', e), s')"
  obtain n1 e1 s1 where f: "f n s = ((n1, e1), s1)" by (metis prod.collapse)
  then have "P n1 s1" by (rule keepsD [OF assms(1) P])
  then show "P n' s'" using run f keepsD [OF assms(2)] by (cases e1) (auto simp: act_then_def)
qed

lemma keeps_call:
  assumes "\<And>n s r s'. P n s \<Longrightarrow> oper s = (r, s') \<Longrightarrow> P n s'" "\<And>x. keeps P (k x)"
  shows "keeps P (act_call wrap oper k)"
proof (rule keepsI)
  fix n s n' e s'
  assume P: "P n s" and run: "act_call wrap oper k n s = ((n', e), s')"
  obtain r s1 where r: "oper s = (r, s1)" by (cases "oper s")
  then have "P n s1" by (rule assms(1) [OF P])
  then show "P n' s'" using run r keepsD [OF assms(2)] by (cases r) (auto simp: act_call_def)
qed

lemma keeps_ignore:
  assumes "\<And>n s r s'. P n s \<Longrightarrow> oper s = (r, s') \<Longrightarrow> P n s'" "keeps P k"
  shows "keeps P (act_ignore oper k)"
  using assms unfolding keeps_def act_ignore_def by (metis prod.collapse)

lemma keeps_split: "(\<And>n. keeps P (act n)) \<Longrightarrow> keeps P (\<lambda>n. act n n)"
  by (auto simp: keeps_def)

section \<open>The contract of the environment\<close>

text \<open>\<open>status s\<close> is the status the API server stores for the node, \<open>created s\<close> the images of the pods
  created for it, the latest first. A status update stores what is written; one that fails may have taken
  effect or not. A create that fails may have created the pod. No other call changes either, and the two
  builders keep the node's upgrades.\<close>

locale pod_env =
  fixes W :: "'s pod_world" and status :: "'s \<Rightarrow> ChainNodeStatus" and created :: "'s \<Rightarrow> string list"
  assumes frame:
      "po_patchPod (pw_pod W) p q s = (r1, s') \<Longrightarrow> status s' = status s \<and> created s' = created s"
      "po_deletePod (pw_pod W) s = (r2, s') \<Longrightarrow> status s' = status s \<and> created s' = created s"
      "po_waitDeleted (pw_pod W) s = (r2, s') \<Longrightarrow> status s' = status s \<and> created s' = created s"
      "po_waitStarted (pw_pod W) s = (r2, s') \<Longrightarrow> status s' = status s \<and> created s' = created s"
      "po_shutdownNodeUtils (pw_pod W) s = (r2, s') \<Longrightarrow> status s' = status s \<and> created s' = created s"
      "po_chainClient (pw_pod W) s = (r2, s') \<Longrightarrow> status s' = status s \<and> created s' = created s"
      "po_stateSyncing (pw_pod W) s = (r3, s') \<Longrightarrow> status s' = status s \<and> created s' = created s"
      "po_nodeSyncing (pw_pod W) s = (r3, s') \<Longrightarrow> status s' = status s \<and> created s' = created s"
      "ua_getConfig (pw_upgrades W) s = (r4, s') \<Longrightarrow> status s' = status s \<and> created s' = created s"
      "ua_createConfig (pw_upgrades W) m s = (r5, s') \<Longrightarrow> status s' = status s \<and> created s' = created s"
      "ua_updateConfig (pw_upgrades W) m s = (r5, s') \<Longrightarrow> status s' = status s \<and> created s' = created s"
      "vp_now (pw_vpa W) s = (r6, s') \<Longrightarrow> status s' = status s \<and> created s' = created s"
      "vp_update (pw_vpa W) n s = (r5, s') \<Longrightarrow> status s' = status s \<and> created s' = created s"
    and builders:
      "po_forceConfigs (pw_pod W) n s = ((n', r7), s') \<Longrightarrow>
         status s' = status s \<and> created s' = created s \<and> cns_Upgrades (cn_Status n') = cns_Upgrades (cn_Status n)"
      "po_getPodSpec (pw_pod W) n c s = ((n', r8), s') \<Longrightarrow>
         status s' = status s \<and> created s' = created s \<and> cns_Upgrades (cn_Status n') = cns_Upgrades (cn_Status n)"
    and update_status:
      "ua_updateStatus (pw_upgrades W) n s = (Inr (), s') \<Longrightarrow> status s' = cn_Status n"
      "ua_updateStatus (pw_upgrades W) n s = (r5, s') \<Longrightarrow>
         (status s' = status s \<or> status s' = cn_Status n) \<and> created s' = created s"
    and create_pod:
      "po_createPod (pw_pod W) p s = (Inr (), s') \<Longrightarrow> created s' = np_Image p # created s"
      "po_createPod (pw_pod W) p s = (r2, s') \<Longrightarrow> status s' = status s"

definition status_at :: "int \<Rightarrow> Upgrade list \<Rightarrow> UpgradePhase option" where
  "status_at h us = map_option up_Status (entry us h)"

lemma upgrades_setPhase [simp]: "cns_Upgrades (cn_Status (setPhase p n)) = cns_Upgrades (cn_Status n)"
  by (simp add: setPhase_def)

lemma upgrades_setAppVersion [simp]: "cns_Upgrades (cn_Status (setAppVersion v n)) = cns_Upgrades (cn_Status n)"
  by (simp add: setAppVersion_def)

lemma getUpgrade_entry:
  assumes "getUpgrade n h = Some u" "distinct (heights (cns_Upgrades (cn_Status n)))"
  shows "entry (cns_Upgrades (cn_Status n)) h = Some u \<and> up_Height u = h \<and> up_Status u = UpgradeScheduled"
proof -
  have u: "u \<in> set (cns_Upgrades (cn_Status n))" "up_Height u = h" "up_Status u = UpgradeScheduled"
    using assms(1) find_SomeD [of _ _ u] unfolding getUpgrade_def by fastforce+
  obtain v where v: "entry (cns_Upgrades (cn_Status n)) h = Some v"
    using u find_ex [of u "cns_Upgrades (cn_Status n)" "\<lambda>x. up_Height x = h"] by (auto simp: entry_def)
  then have "v \<in> set (cns_Upgrades (cn_Status n))" "up_Height v = h"
    using find_SomeD unfolding entry_def by fastforce+
  then have "v = u" using u assms(2) by (auto simp: distinct_map dest: inj_onD)
  then show ?thesis using v u by simp
qed

lemma status_at_withUpgradeStatus:
  "status_at h (cns_Upgrades (cn_Status (withUpgradeStatus n u ph))) =
     (if h = up_Height u then map_option (\<lambda>_. ph) (status_at h (cns_Upgrades (cn_Status n)))
      else status_at h (cns_Upgrades (cn_Status n)))"
  by (simp add: cns_Upgrades_withUpgradeStatus entry_updateFirst status_at_def option.map_comp comp_def)

lemma status_resetVpaAfterUpgrade:
  "resetVpaAfterUpgrade E VP n s = ((n', e), s') \<Longrightarrow> cn_Status n' = cn_Status n"
  by (auto simp: resetVpaAfterUpgrade_def updateIfChanged_def syncAnnotation_def annotate_def unannotate_def Let_def
      split: if_splits prod.splits)

context pod_env
begin

text \<open>Neither the node nor the stored status has the upgrade at \<open>h\<close> completed.\<close>

definition not_completed :: "int \<Rightarrow> ChainNode \<Rightarrow> 's \<Rightarrow> bool" where
  "not_completed h n s \<longleftrightarrow>
     status_at h (cns_Upgrades (cn_Status n)) \<noteq> Some UpgradeCompleted \<and>
     status_at h (cns_Upgrades (status s)) \<noteq> Some UpgradeCompleted"

definition created_is :: "string list \<Rightarrow> ChainNode \<Rightarrow> 's \<Rightarrow> bool" where
  "created_is c n s \<longleftrightarrow> created s = c"

text \<open>Both are properties of the upgrades, the stored status and the pods alone.\<close>

definition tracked :: "(ChainNode \<Rightarrow> 's \<Rightarrow> bool) \<Rightarrow> bool" where
  "tracked P \<longleftrightarrow>
     (\<forall>n n' s s'. cns_Upgrades (cn_Status n') = cns_Upgrades (cn_Status n) \<longrightarrow> status s' = status s \<longrightarrow>
        created s' = created s \<longrightarrow> P n s \<longrightarrow> P n' s') \<and>
     (\<forall>n s s'. status s' = cn_Status n \<longrightarrow> created s' = created s \<longrightarrow> P n s \<longrightarrow> P n s')"

lemma tracked_not_completed: "tracked (not_completed h)"
  by (auto simp: tracked_def not_completed_def)

lemma tracked_created: "tracked (created_is c)"
  by (auto simp: tracked_def created_is_def)

lemma tracked_frame:
  "tracked P \<Longrightarrow> status s' = status s \<and> created s' = created s \<Longrightarrow> P n s \<Longrightarrow> P n s'"
  unfolding tracked_def by blast

lemma tracked_node:
  "tracked P \<Longrightarrow> cns_Upgrades (cn_Status n') = cns_Upgrades (cn_Status n) \<Longrightarrow> P n s \<Longrightarrow> P n' s"
  unfolding tracked_def by blast

lemma tracked_update:
  assumes "tracked P" "ua_updateStatus (pw_upgrades W) n s = (r, s')" "P n s"
  shows "P n s'"
  using assms update_status(2) [OF assms(2)] unfolding tracked_def by blast

lemma keeps_frame:
  "tracked P \<Longrightarrow> (\<And>s r s'. oper s = (r, s') \<Longrightarrow> status s' = status s \<and> created s' = created s) \<Longrightarrow>
   (\<And>x. keeps P (k x)) \<Longrightarrow> keeps P (act_call wrap oper k)"
  by (rule keeps_call) (auto intro: tracked_frame)

lemma keeps_frame_ignore:
  "tracked P \<Longrightarrow> (\<And>s r s'. oper s = (r, s') \<Longrightarrow> status s' = status s \<and> created s' = created s) \<Longrightarrow>
   keeps P k \<Longrightarrow> keeps P (act_ignore oper k)"
  by (rule keeps_ignore) (auto intro: tracked_frame)

lemma keeps_node:
  assumes "tracked P" "\<And>n. cns_Upgrades (cn_Status (f n)) = cns_Upgrades (cn_Status n)" "keeps P act"
  shows "keeps P (\<lambda>n. act (f n))"
  using assms tracked_node [OF assms(1,2)] unfolding keeps_def by blast

lemma keeps_writeStatus:
  assumes "tracked P"
  shows "keeps P (writeStatus W)"
  unfolding keeps_def writeStatus_def
  using tracked_update [OF assms] by (auto split: prod.splits sum.splits)

lemma keeps_updatePhase:
  assumes "tracked P"
  shows "keeps P (updatePhase W ph)"
  using keepsD [OF keeps_node [OF assms _ keeps_writeStatus [OF assms], where f = "setPhase ph"]] keeps_return
  by (auto simp: keeps_def updatePhase_def act_return_def split: if_splits)

lemma keeps_enterPhase:
  assumes "tracked P"
  shows "keeps P (enterPhase W ph)"
  unfolding keeps_def
proof (intro allI impI)
  fix n s n' e s'
  assume P: "P n s" and run: "enterPhase W ph n s = ((n', e), s')"
  show "P n' s'"
  proof (cases "cns_Phase (cn_Status n) = ph")
    case True
    then show ?thesis using P run by (simp add: enterPhase_def act_return_def)
  next
    case False
    then show ?thesis
      using run keepsD [OF keeps_updatePhase [OF assms], of "setAppVersion (GetAppVersion n) n" s ph n' e s']
        tracked_node [OF assms _ P, of "setAppVersion (GetAppVersion n) n"]
      by (simp add: enterPhase_def)
  qed
qed

lemma keeps_setNodePhase:
  assumes "tracked P"
  shows "keeps P (setNodePhase W)"
proof -
  have "keeps P (\<lambda>m. if c1 then updatePhase W p1 m else if c2 then updatePhase W p2 m else
      act_call PodCall (po_chainClient (pw_pod W)) (\<lambda>_.
          act_call PodCall (po_stateSyncing (pw_pod W)) (\<lambda>stateSyncing.
            if stateSyncing then enterPhase W PhaseChainNodeStateSyncing
            else act_call PodCall (po_nodeSyncing (pw_pod W)) (\<lambda>syncing.
              enterPhase W (if syncing then PhaseChainNodeSyncing else PhaseChainNodeRunning)))) m)" for c1 c2 p1 p2
    using assms
    by (cases c1; cases c2) (auto intro!: keeps_frame keeps_updatePhase keeps_enterPhase dest: frame)
  from keeps_split [OF this] show ?thesis unfolding setNodePhase_def by simp
qed

lemma keeps_waitStarted:
  assumes "tracked P" "keeps P k"
  shows "keeps P (waitStarted W k)"
  unfolding keeps_def
proof (intro allI impI)
  fix n s n' e s'
  assume P: "P n s" and run: "waitStarted W k n s = ((n', e), s')"
  obtain r s1 where r: "po_waitStarted (pw_pod W) s = (r, s1)" by (cases "po_waitStarted (pw_pod W) s")
  have P1: "P n s1" by (rule tracked_frame [OF assms(1) frame(4) [OF r] P])
  show "P n' s'"
  proof (cases r)
    case (Inl x)
    then show ?thesis using run r keepsD [OF keeps_updatePhase [OF assms(1)] P1]
      by (auto simp: waitStarted_def startFailed_def split: prod.splits)
  next
    case (Inr x)
    then show ?thesis using run r keepsD [OF assms(2) P1] by (simp add: waitStarted_def)
  qed
qed

lemma config_frame:
  assumes "ensureUpgradesConfig marshal (pw_upgrades W) n s = (r, s')"
  shows "status s' = status s \<and> created s' = created s"
proof (cases "ua_getConfig (pw_upgrades W) s")
  case (Pair g s1)
  have 1: "status s1 = status s \<and> created s1 = created s" by (rule frame(9) [OF Pair])
  have "s' = s1 \<or> (\<exists>m r. ua_createConfig (pw_upgrades W) m s1 = (r, s')) \<or>
      (\<exists>m r. ua_updateConfig (pw_upgrades W) m s1 = (r, s'))"
    using assms Pair
    by (auto simp: ensureUpgradesConfig_def get_or_def call_def ret_def fail_def Let_def
        split: sum.splits prod.splits if_splits option.splits)
  then show ?thesis using 1 frame(10) [of _ s1 _ s'] frame(11) [of _ s1 _ s'] by auto
qed

lemma markUpgrade_cases:
  assumes "markUpgrade W u ph n s = ((n', e), s')"
  shows "(n' = n \<and> s' = s \<and> e \<noteq> None) \<or>
    (\<exists>s1 r. ua_updateStatus (pw_upgrades W) (withUpgradeStatus n u ph) s = (r, s1) \<and>
       up_Height u \<in> up_Height ` set (cns_Upgrades (cn_Status n)) \<and>
       status s' = status s1 \<and> created s' = created s1 \<and> n' \<in> {n, withUpgradeStatus n u ph} \<and>
       (e = None \<longrightarrow> r = Inr () \<and> n' = withUpgradeStatus n u ph))"
  using assms config_frame
  by (auto simp: markUpgrade_def setUpgradeStatus_def fail_def seq_def call_def ret_def Let_def
      split: if_splits prod.splits sum.splits) (metis+)?

lemma markUpgrade_done:
  assumes "markUpgrade W u ph n s = ((n', None), s')"
  shows "n' = withUpgradeStatus n u ph \<and> status s' = cn_Status n'"
  using markUpgrade_cases [OF assms] update_status(1) by auto

lemma keeps_markUpgrade:
  assumes "ph \<noteq> UpgradeCompleted"
  shows "keeps (not_completed h) (markUpgrade W u ph)"
proof (rule keepsI)
  fix n s n' e s'
  assume P: "not_completed h n s" and run: "markUpgrade W u ph n s = ((n', e), s')"
  have w: "status_at h (cns_Upgrades (cn_Status (withUpgradeStatus n u ph))) \<noteq> Some UpgradeCompleted"
    using P assms by (auto simp: not_completed_def status_at_withUpgradeStatus)
  from markUpgrade_cases [OF run] show "not_completed h n' s'"
    using P w by (auto simp: not_completed_def dest: update_status(2))
qed

lemma keeps_created_markUpgrade: "keeps (created_is c) (markUpgrade W u ph)"
proof (rule keepsI)
  fix n s n' e s'
  assume "created_is c n s" and run: "markUpgrade W u ph n s = ((n', e), s')"
  with markUpgrade_cases [OF run] show "created_is c n' s'"
    by (auto simp: created_is_def dest: update_status(2))
qed

lemma keeps_resetVpa:
  assumes "tracked P"
  shows "keeps P (resetVpa W)"
proof (rule keepsI)
  fix n s n' e s'
  assume P: "P n s" and run: "resetVpa W n s = ((n', e), s')"
  then obtain e' where r: "resetVpaAfterUpgrade (pw_env W) (pw_vpa W) n s = ((n', e'), s')"
    by (auto simp: resetVpa_def split: prod.splits)
  have "status s' = status s \<and> created s' = created s"
    using r frame(12,13)
    by (auto simp: resetVpaAfterUpgrade_def updateIfChanged_def updateNode_def Let_def
        split: if_splits prod.splits sum.splits)
  then show "P n' s'"
    using tracked_frame [OF assms] tracked_node [OF assms] status_resetVpaAfterUpgrade [OF r] P by metis
qed

lemma keeps_created_complete: "keeps (created_is c) (completeUpgrade W u)"
proof -
  have "keeps (created_is c) (\<lambda>n. act_then (resetVpa W) (markUpgrade W u UpgradeCompleted) (setAppVersion (GetVersion u) n))"
    by (rule keeps_node [OF tracked_created])
      (auto intro: keeps_then keeps_resetVpa [OF tracked_created] keeps_created_markUpgrade)
  then show ?thesis by (simp add: completeUpgrade_def [abs_def])
qed

section \<open>The swap of the pod\<close>

text \<open>The steps of \<open>upgradePod\<close> up to the creation of the new pod.\<close>

definition swapPod :: "NodePod \<Rightarrow> 's node_act" where
  "swapPod p =
     act_then (updatePhase W PhaseChainNodeUpgrading)
       (act_ignore (po_shutdownNodeUtils (pw_pod W))
          (act_call PodCall (po_deletePod (pw_pod W)) (\<lambda>_.
             act_call PodCall (po_waitDeleted (pw_pod W)) (\<lambda>_.
               act_call PodCall (po_createPod (pw_pod W) p) (\<lambda>_. act_return)))))"

lemma keeps_swapPod:
  assumes "tracked P" "\<And>n s r s'. P n s \<Longrightarrow> po_createPod (pw_pod W) p s = (r, s') \<Longrightarrow> P n s'"
  shows "keeps P (swapPod p)"
proof -
  have 1: "keeps P (act_call PodCall (po_createPod (pw_pod W) p) (\<lambda>_. act_return))"
    by (rule keeps_call [OF assms(2) keeps_return])
  have 2: "keeps P (act_call PodCall (po_waitDeleted (pw_pod W))
      (\<lambda>_. act_call PodCall (po_createPod (pw_pod W) p) (\<lambda>_. act_return)))"
    by (rule keeps_frame [OF assms(1) frame(3) 1])
  have 3: "keeps P (act_call PodCall (po_deletePod (pw_pod W)) (\<lambda>_. act_call PodCall (po_waitDeleted (pw_pod W))
      (\<lambda>_. act_call PodCall (po_createPod (pw_pod W) p) (\<lambda>_. act_return))))"
    by (rule keeps_frame [OF assms(1) frame(2) 2])
  show ?thesis unfolding swapPod_def
    by (rule keeps_then [OF keeps_updatePhase [OF assms(1)] keeps_frame_ignore [OF assms(1) frame(5) 3]])
qed

lemma swapPod_created:
  assumes "swapPod p n s = ((n', None), s')"
  shows "created s' = np_Image p # created s"
proof -
  obtain n1 s1 where 1: "updatePhase W PhaseChainNodeUpgrading n s = ((n1, None), s1)"
    and r1: "act_ignore (po_shutdownNodeUtils (pw_pod W))
          (act_call PodCall (po_deletePod (pw_pod W)) (\<lambda>_.
             act_call PodCall (po_waitDeleted (pw_pod W)) (\<lambda>_.
               act_call PodCall (po_createPod (pw_pod W) p) (\<lambda>_. act_return)))) n1 s1 = ((n', None), s')"
    using assms by (auto simp: swapPod_def act_then_def split: prod.splits option.splits)
  obtain r s2 where 2: "po_shutdownNodeUtils (pw_pod W) s1 = (r, s2)" by (cases "po_shutdownNodeUtils (pw_pod W) s1")
  obtain x3 s3 where 3: "po_deletePod (pw_pod W) s2 = (Inr x3, s3)"
    using r1 2 by (auto simp: act_ignore_def act_call_def split: prod.splits sum.splits)
  obtain x4 s4 where 4: "po_waitDeleted (pw_pod W) s3 = (Inr x4, s4)"
    using r1 2 3 by (auto simp: act_ignore_def act_call_def split: prod.splits sum.splits)
  have 5: "po_createPod (pw_pod W) p s4 = (Inr (), s')"
    using r1 2 3 4 by (auto simp: act_ignore_def act_call_def act_return_def split: prod.splits sum.splits)
  have "created s1 = created s"
    using keepsD [OF keeps_updatePhase [OF tracked_created] _ 1] by (auto simp: created_is_def)
  then show ?thesis using frame(5) [OF 2] frame(2) [OF 3] frame(3) [OF 4] create_pod(1) [OF 5] by simp
qed

lemma upgradePod_swapPod:
  "upgradePod W pod img n s =
     (case swapPod (pod\<lparr>np_Image := img\<rparr>) n s of
        ((n1, Some e), s1) \<Rightarrow> ((False, n1, Some e), s1)
      | ((n1, None), s1) \<Rightarrow>
          (case waitStarted W (setNodePhase W) n1 s1 of ((n2, e), s2) \<Rightarrow> ((True, n2, e), s2)))"
  by (simp add: upgradePod_def swapPod_def)

lemma upgradePod_true:
  assumes "upgradePod W pod img n s = ((True, n', e), s')"
  shows "created s' = img # created s"
proof -
  obtain n1 s1 where 1: "swapPod (pod\<lparr>np_Image := img\<rparr>) n s = ((n1, None), s1)"
    and 2: "waitStarted W (setNodePhase W) n1 s1 = ((n', e), s')"
    using assms by (auto simp: upgradePod_swapPod split: prod.splits option.splits)
  have "created s' = created s1"
    using keepsD [OF keeps_waitStarted [OF tracked_created keeps_setNodePhase [OF tracked_created]] _ 2]
    by (auto simp: created_is_def)
  then show ?thesis using swapPod_created [OF 1] by simp
qed

lemma upgradePod_false:
  assumes "upgradePod W pod img n s = ((False, n', e), s')" "not_completed h n s"
  shows "not_completed h n' s' \<and> e \<noteq> None"
proof -
  have 1: "swapPod (pod\<lparr>np_Image := img\<rparr>) n s = ((n', e), s')" "e \<noteq> None"
    using assms(1) by (auto simp: upgradePod_swapPod split: prod.splits option.splits)
  then show ?thesis
    using keepsD [OF keeps_swapPod [OF tracked_not_completed] assms(2) 1(1)] create_pod(2)
    by (auto simp: not_completed_def)
qed

definition upgrades_are :: "Upgrade list \<Rightarrow> ChainNode \<Rightarrow> 's \<Rightarrow> bool" where
  "upgrades_are us n s \<longleftrightarrow> cns_Upgrades (cn_Status n) = us"

lemma tracked_upgrades: "tracked (upgrades_are us)"
  by (auto simp: tracked_def upgrades_are_def)

lemma upgradePod_upgrades:
  assumes "upgradePod W pod img n s = ((b, n', e), s')"
  shows "cns_Upgrades (cn_Status n') = cns_Upgrades (cn_Status n)"
proof -
  let ?P = "upgrades_are (cns_Upgrades (cn_Status n))"
  obtain n1 e1 s1 where 1: "swapPod (pod\<lparr>np_Image := img\<rparr>) n s = ((n1, e1), s1)" by (metis prod.collapse)
  have P1: "?P n1 s1"
    by (rule keepsD [OF keeps_swapPod [OF tracked_upgrades] _ 1]) (auto simp: upgrades_are_def)
  show ?thesis
  proof (cases e1)
    case None
    then have "waitStarted W (setNodePhase W) n1 s1 = ((n', e), s')"
      using assms 1 by (auto simp: upgradePod_swapPod split: prod.splits)
    then show ?thesis
      using keepsD [OF keeps_waitStarted [OF tracked_upgrades keeps_setNodePhase [OF tracked_upgrades]] P1]
      by (auto simp: upgrades_are_def)
  next
    case (Some x)
    then show ?thesis using assms 1 P1 by (auto simp: upgradePod_swapPod upgrades_are_def)
  qed
qed

section \<open>The upgrade branch\<close>

text \<open>What \<open>runUpgrade\<close> reaches: the swap of the pod, with the node's upgrades those of the first mark.\<close>

lemma runUpgrade_stages:
  assumes "runUpgrade W cur n s = ((n', e), s')" "getUpgrade n (cns_LatestHeight (cn_Status n)) = Some u"
    "up_Status u = UpgradeScheduled" "not_completed h n s"
  shows "(e \<noteq> None \<and> not_completed h n' s') \<or>
    (\<exists>pod n3 s3 r s4. cns_Upgrades (cn_Status n3) = cns_Upgrades (cn_Status (withUpgradeStatus n u UpgradeOnGoing)) \<and>
       created s3 = created s \<and> not_completed h n3 s3 \<and>
       upgradePod W pod (up_Image u) n3 s3 = (r, s4) \<and> finishUpgrade W u r s4 = ((n', e), s'))"
proof -
  obtain n1 e1 s1 where 1: "markUpgrade W u UpgradeOnGoing n s = ((n1, e1), s1)" by (metis prod.collapse)
  have c1: "created s1 = created s"
    using keepsD [OF keeps_created_markUpgrade _ 1] by (auto simp: created_is_def)
  have nc1: "not_completed h n1 s1" by (rule keepsD [OF keeps_markUpgrade assms(4) 1]) simp
  obtain r2 s2 where 2: "po_patchPod (pw_pod W) cur (withUpgradingLabel cur) s1 = (r2, s2)" by (metis prod.collapse)
  obtain n3 r3 s3 where 3: "po_forceConfigs (pw_pod W) n1 s2 = ((n3, r3), s3)" by (metis prod.collapse)
  note run = assms(1) [unfolded runUpgrade_def assms(2) option.case act_then_def 1 act_call_def]
  consider (mark) x where "e1 = Some x" | (patch) x where "e1 = None" "r2 = Inl x"
    | (config) x y where "e1 = None" "r2 = Inr y" "r3 = Inl x"
    | (spec) y hash where "e1 = None" "r2 = Inr y" "r3 = Inr hash"
    by (cases e1; cases r2; cases r3) auto
  then show ?thesis
  proof cases
    case mark
    then show ?thesis using run assms(3) nc1 by auto
  next
    case patch
    then show ?thesis using run assms(3) 2 nc1 frame(1) [OF 2] by (auto simp: not_completed_def)
  next
    case config
    then show ?thesis using run assms(3) 2 3 nc1 frame(1) [OF 2] builders(1) [OF 3] by (auto simp: not_completed_def)
  next
    case spec
    obtain n4 r4 s4 where 4: "po_getPodSpec (pw_pod W) n3 hash s3 = ((n4, r4), s4)" by (metis prod.collapse)
    have keep: "not_completed h n4 s4" "created s4 = created s" "cns_Upgrades (cn_Status n4) = cns_Upgrades (cn_Status n1)"
      using nc1 c1 frame(1) [OF 2] builders(1) [OF 3] builders(2) [OF 4] by (auto simp: not_completed_def)
    have up: "cns_Upgrades (cn_Status n1) = cns_Upgrades (cn_Status (withUpgradeStatus n u UpgradeOnGoing))"
      using markUpgrade_done [of u UpgradeOnGoing n s n1 s1] 1 spec(1) by simp
    show ?thesis
    proof (cases r4)
      case (Inl x)
      then show ?thesis using run assms(3) spec 2 3 4 keep by auto
    next
      case (Inr pod)
      obtain r s5 where 5: "upgradePod W pod (up_Image u) n4 s4 = (r, s5)" by (metis prod.collapse)
      have "finishUpgrade W u r s5 = ((n', e), s')" using run assms(3) spec 2 3 4 5 Inr by simp
      then show ?thesis using keep up 5 by metis
    qed
  qed
qed

lemma completed_needs_pod:
  assumes "runUpgrade W cur n s = ((n', e), s')" "getUpgrade n (cns_LatestHeight (cn_Status n)) = Some u"
    "up_Status u = UpgradeScheduled" "not_completed h n s"
    "status_at h (cns_Upgrades (status s')) = Some UpgradeCompleted"
  shows "created s' = up_Image u # created s"
proof -
  have "\<not> not_completed h n' s'" using assms(5) by (simp add: not_completed_def)
  then obtain pod n3 s3 r s4 where c: "created s3 = created s" and nc: "not_completed h n3 s3"
      and up': "upgradePod W pod (up_Image u) n3 s3 = (r, s4)" and fin': "finishUpgrade W u r s4 = ((n', e), s')"
    using runUpgrade_stages [OF assms(1-4)] by blast
  obtain b n4 e4 where "r = (b, n4, e4)" by (cases r)
  with up' fin' have up: "upgradePod W pod (up_Image u) n3 s3 = ((b, n4, e4), s4)"
      and fin: "finishUpgrade W u (b, n4, e4) s4 = ((n', e), s')" by simp_all
  show ?thesis
  proof (cases b)
    case True
    then have "completeUpgrade W u n4 s4 = ((n', e), s')" using fin by (auto simp: finishUpgrade_def split: option.splits)
    from keepsD [OF keeps_created_complete _ this, of "created s4"] have "created s' = created s4"
      by (simp add: created_is_def)
    then show ?thesis using upgradePod_true up True c by simp
  next
    case False
    with up have "upgradePod W pod (up_Image u) n3 s3 = ((False, n4, e4), s4)" by simp
    from upgradePod_false [OF this nc] have "not_completed h n4 s4" "e4 \<noteq> None" by auto
    then have "not_completed h n' s'"
      using fin False keepsD [OF keeps_markUpgrade, of UpgradeScheduled h n4 s4]
      by (auto simp: finishUpgrade_def split: option.splits)
    then show ?thesis using assms(5) by (simp add: not_completed_def)
  qed
qed

lemma completeUpgrade_done:
  assumes "completeUpgrade W u n s = ((n', None), s')" "status_at h (cns_Upgrades (cn_Status n)) = Some ph" "h = up_Height u"
  shows "status_at h (cns_Upgrades (status s')) = Some UpgradeCompleted"
proof -
  obtain n1 s1 where 1: "resetVpa W (setAppVersion (GetVersion u) n) s = ((n1, None), s1)"
    and 2: "markUpgrade W u UpgradeCompleted n1 s1 = ((n', None), s')"
    using assms(1) by (auto simp: completeUpgrade_def act_then_def split: prod.splits option.splits)
  have "upgrades_are (cns_Upgrades (cn_Status n)) n1 s1"
    by (rule keepsD [OF keeps_resetVpa [OF tracked_upgrades] _ 1]) (simp add: upgrades_are_def)
  then show ?thesis
    using markUpgrade_done [OF 2] assms(2,3) by (auto simp: upgrades_are_def status_at_withUpgradeStatus)
qed

lemma success_settles:
  assumes "runUpgrade W cur n s = ((n', None), s')" "getUpgrade n (cns_LatestHeight (cn_Status n)) = Some u"
    "up_Status u = UpgradeScheduled" "not_completed (up_Height u) n s"
    "status_at (up_Height u) (cns_Upgrades (cn_Status n)) = Some UpgradeScheduled"
  shows "status_at (up_Height u) (cns_Upgrades (status s')) \<in> {Some UpgradeCompleted, Some UpgradeScheduled}"
proof -
  obtain pod n3 s3 b n4 e4 s4 where
      up3: "cns_Upgrades (cn_Status n3) = cns_Upgrades (cn_Status (withUpgradeStatus n u UpgradeOnGoing))"
      and up: "upgradePod W pod (up_Image u) n3 s3 = ((b, n4, e4), s4)"
      and fin: "finishUpgrade W u (b, n4, e4) s4 = ((n', None), s')"
    using runUpgrade_stages [OF assms(1-4)] by (metis prod.collapse)
  have st: "status_at (up_Height u) (cns_Upgrades (cn_Status n4)) = Some UpgradeOnGoing"
    using upgradePod_upgrades [OF up] up3 assms(5) by (simp add: status_at_withUpgradeStatus)
  consider "completeUpgrade W u n4 s4 = ((n', None), s')" | "markUpgrade W u UpgradeScheduled n4 s4 = ((n', None), s')"
    using fin by (auto simp: finishUpgrade_def split: option.splits if_splits)
  then show ?thesis
  proof cases
    case 1
    then show ?thesis using completeUpgrade_done st by simp
  next
    case 2
    then show ?thesis using markUpgrade_done [OF 2] st by (simp add: status_at_withUpgradeStatus)
  qed
qed

end

section \<open>A server with a script of failures\<close>

record pod_mem =
  pm_status :: ChainNodeStatus
  pm_created :: "string list"
  pm_config :: "labels option option"
  pm_fails :: "bool list"

definition pm_do :: "'e \<Rightarrow> (pod_mem \<Rightarrow> ('e + 'a) \<times> pod_mem) \<Rightarrow> pod_mem \<Rightarrow> ('e + 'a) \<times> pod_mem" where
  "pm_do e oper s =
     (case pm_fails s of
        [] \<Rightarrow> oper s
      | True # fs \<Rightarrow> (Inl e, s\<lparr>pm_fails := fs\<rparr>)
      | False # fs \<Rightarrow> oper (s\<lparr>pm_fails := fs\<rparr>))"

definition pm_get :: "'a \<Rightarrow> pod_mem \<Rightarrow> (string + 'a) \<times> pod_mem" where
  "pm_get x = pm_do ''unavailable'' (\<lambda>s. (Inr x, s))"

definition new_pod :: NodePod where
  "new_pod = \<lparr>np_Labels = Map.empty, np_Annotations = Map.empty, np_Deleting = False, np_Image = ''app:v1'', np_Phase = [],
     np_Conditions = [], np_Containers = [], np_InitContainers = []\<rparr>"

definition mem_world :: "vpa_env \<Rightarrow> pod_mem pod_world" where
  "mem_world E =
     \<lparr>pw_pod =
        \<lparr>po_getPodSpec = (\<lambda>n c s. case pm_get new_pod s of (r, s1) \<Rightarrow> ((n, r), s1)),
         po_forceConfigs = (\<lambda>n s. case pm_get ''hash'' s of (r, s1) \<Rightarrow> ((n, r), s1)),
         po_getPod = pm_do Conflict (\<lambda>s. (Inl NotFound, s)),
         po_patchPod = (\<lambda>p q. pm_get q),
         po_createPod = (\<lambda>p. pm_do ''create'' (\<lambda>s. (Inr (), s\<lparr>pm_created := np_Image p # pm_created s\<rparr>))),
         po_deletePod = pm_get (), po_waitDeleted = pm_get (), po_waitStarted = pm_get (),
         po_listPods = (\<lambda>l. pm_do Conflict (\<lambda>s. (Inr [], s))),
         po_latestHeight = pm_get 0, po_requiresUpgrade = pm_get True, po_shutdownNodeUtils = pm_get (),
         po_chainClient = pm_get (), po_stateSyncing = pm_get False, po_nodeSyncing = pm_get False\<rparr>,
      pw_upgrades =
        \<lparr>ua_nextUpgrade = (\<lambda>s. (Inr None, s)),
         ua_getConfig = pm_do Conflict (\<lambda>s. (case pm_config s of None \<Rightarrow> Inl NotFound | Some d \<Rightarrow> Inr d, s)),
         ua_createConfig = (\<lambda>m. pm_do Conflict (\<lambda>s. (Inr (), s\<lparr>pm_config := Some (Some m)\<rparr>))),
         ua_updateConfig = (\<lambda>m. pm_do Conflict (\<lambda>s. (Inr (), s\<lparr>pm_config := Some (Some m)\<rparr>))),
         ua_updateStatus = (\<lambda>n. pm_do Conflict (\<lambda>s. (Inr (), s\<lparr>pm_status := cn_Status n\<rparr>)))\<rparr>,
      pw_marshal = (\<lambda>us. concat (map up_Image us)),
      pw_env = E,
      pw_vpa =
        \<lparr>vp_now = (\<lambda>s. (0, s)), vp_cpuStats = (\<lambda>d. pm_get 0), vp_memStats = (\<lambda>d. pm_get 0),
         vp_getPod = (\<lambda>s. (Inl NotFound, s)), vp_update = (\<lambda>n. pm_do Conflict (\<lambda>s. (Inr (), s)))\<rparr>,
      pw_DisruptionCheckEnabled = True, pw_DisruptionMaxUnavailable = 1, pw_nodeLabels = (\<lambda>n. Map.empty)\<rparr>"

lemma pm_do_frame:
  assumes "pm_do e oper s = (r, s')" "\<And>t r t'. oper t = (r, t') \<Longrightarrow> pm_status t' = pm_status t \<and> pm_created t' = pm_created t"
  shows "pm_status s' = pm_status s \<and> pm_created s' = pm_created s"
  using assms by (fastforce simp: pm_do_def split: list.splits bool.splits)

lemma pm_get_frame: "pm_get x s = (r, s') \<Longrightarrow> pm_status s' = pm_status s \<and> pm_created s' = pm_created s"
  unfolding pm_get_def by (erule pm_do_frame) auto

interpretation pm: pod_env "mem_world E" pm_status pm_created for E
proof unfold_locales
qed (auto simp: mem_world_def pm_do_def dest!: pm_get_frame split: list.splits bool.splits prod.splits option.splits)

section \<open>Properties\<close>

text \<open>C27: Whatever calls fail during the upgrade of a pod, the stored status has the upgrade completed only if
  the pod with the image of the upgrade was created, exactly once; and when the handler reports success the
  stored status has it completed or scheduled again, never ongoing.\<close>

theorem upgrade_branch_safe:
  assumes "pod_env W status pods" "runUpgrade W cur n s = ((n', e), s')"
    "getUpgrade n (cns_LatestHeight (cn_Status n)) = Some u" "distinct (heights (cns_Upgrades (cn_Status n)))"
    "status s = cn_Status n"
  shows "(status_at (up_Height u) (cns_Upgrades (status s')) = Some UpgradeCompleted \<longrightarrow>
      pods s' = up_Image u # pods s) \<and>
    (e = None \<longrightarrow> status_at (up_Height u) (cns_Upgrades (status s')) \<in> {Some UpgradeCompleted, Some UpgradeScheduled})"
proof -
  have u: "status_at (up_Height u) (cns_Upgrades (cn_Status n)) = Some UpgradeScheduled" "up_Status u = UpgradeScheduled"
    using getUpgrade_entry [OF assms(3,4)] by (auto simp: status_at_def)
  then have "pod_env.not_completed status (up_Height u) n s"
    by (simp add: pod_env.not_completed_def [OF assms(1)] assms(5))
  then show ?thesis
    using pod_env.completed_needs_pod [OF assms(1-3) u(2)] pod_env.success_settles [OF assms(1) _ assms(3) u(2) _ u(1)] assms(2)
    by blast
qed

definition waiting_node :: ChainNode where
  "waiting_node = upgrading_node\<lparr>cn_Status := (cn_Status upgrading_node)\<lparr>cns_LatestHeight := 200\<rparr>\<rparr>"

definition pod_start :: "bool list \<Rightarrow> pod_mem" where
  "pod_start fails = \<lparr>pm_status = cn_Status waiting_node, pm_created = [], pm_config = None, pm_fails = fails\<rparr>"

definition plain_env :: vpa_env where
  "plain_env = \<lparr>ve_ParseDuration = (\<lambda>t. None), ve_Value = (\<lambda>q. 0), ve_MilliValue = (\<lambda>q. 0), ve_NewQuantity = (\<lambda>k. 0),
     ve_NewMilliQuantity = (\<lambda>k. 0), ve_Marshal = (\<lambda>r. []), ve_Unmarshal = (\<lambda>t. None), ve_Format = (\<lambda>t. []),
     ve_Parse = (\<lambda>t. None), ve_MarshalTimes = (\<lambda>t. []), ve_UnmarshalTimes = (\<lambda>t. None), ve_OutOfRange = (\<lambda>x. 0)\<rparr>"

lemma waiting_upgrade: "getUpgrade waiting_node (cns_LatestHeight (cn_Status waiting_node)) = Some (sched 200 UpgradeScheduled)"
  by (simp add: getUpgrade_def waiting_node_def upgrade_examples)

theorem upgrade_branch_safe_witness:
  "pm_created (snd (runUpgrade (mem_world plain_env) new_pod waiting_node (pod_start []))) = [''app:v2''] \<and>
   status_at 200 (cns_Upgrades (pm_status (snd (runUpgrade (mem_world plain_env) new_pod waiting_node
     (pod_start [False, False, False, False, False, False, False, True]))))) \<in> {Some UpgradeCompleted, Some UpgradeScheduled}"
proof -
  let ?W = "mem_world plain_env"
  let ?ok = "runUpgrade ?W new_pod waiting_node (pod_start [])"
  let ?bad = "runUpgrade ?W new_pod waiting_node (pod_start [False, False, False, False, False, False, False, True])"
  have d: "distinct (heights (cns_Upgrades (cn_Status waiting_node)))" by (simp add: waiting_node_def upgrade_examples)
  have pr: "x = ((fst (fst x), snd (fst x)), snd x)" for x :: "(ChainNode \<times> PodError option) \<times> pod_mem" by simp
  have "status_at 200 (cns_Upgrades (pm_status (snd ?ok))) = Some UpgradeCompleted" by code_simp
  moreover have "snd (fst ?bad) = None" by code_simp
  ultimately show ?thesis
    using upgrade_branch_safe [OF pm.pod_env_axioms pr [of ?ok] waiting_upgrade d]
      upgrade_branch_safe [OF pm.pod_env_axioms pr [of ?bad] waiting_upgrade d]
    by (simp add: pod_start_def sched_def)
qed

section \<open>An interrupted upgrade\<close>

text \<open>When the first call after the upgrade was marked as ongoing fails, the upgrade stays ongoing, and every
  later reconcile at that height finds no scheduled upgrade and fails, although node-utils still reports that
  one is required.\<close>

theorem interrupted_upgrade_stuck:
  assumes "getUpgrade n (cns_LatestHeight (cn_Status n)) = Some u" "distinct (heights (cns_Upgrades (cn_Status n)))"
    "markUpgrade W u UpgradeOnGoing n s = ((n1, None), s1)" "n1 = withUpgradeStatus n u UpgradeOnGoing"
    "po_patchPod (pw_pod W) cur (withUpgradingLabel cur) s1 = (Inl x, s2)"
  shows "runUpgrade W cur n s = ((n1, Some (PodCall x)), s2) \<and>
    (\<forall>cur' s3. runUpgrade W cur' n1 s3 = ((n1, Some (PodMissingUpgrade (cns_LatestHeight (cn_Status n)))), s3))"
proof -
  note g = getUpgrade_entry [OF assms(1,2)]
  have h: "cns_LatestHeight (cn_Status n1) = cns_LatestHeight (cn_Status n)"
    by (simp add: assms(4) withUpgradeStatus_def setUpgrades_def Let_def)
  have d: "distinct (heights (cns_Upgrades (cn_Status n1)))"
    using assms(2) by (simp add: assms(4) cns_Upgrades_withUpgradeStatus heights_updateFirst)
  have "getUpgrade n1 (cns_LatestHeight (cn_Status n1)) = None"
  proof (rule ccontr)
    assume "getUpgrade n1 (cns_LatestHeight (cn_Status n1)) \<noteq> None"
    then obtain v where v: "getUpgrade n1 (cns_LatestHeight (cn_Status n1)) = Some v" by blast
    from getUpgrade_entry [OF v d] show False
      using g by (auto simp: assms(4) cns_Upgrades_withUpgradeStatus entry_updateFirst h [unfolded assms(4)])
  qed
  then show ?thesis
    using assms(1,3,5) g by (simp add: runUpgrade_def act_then_def act_call_def h)
qed

section \<open>The disruption check\<close>

lemma world_flag [simp]:
  "writeStatus (W\<lparr>pw_DisruptionCheckEnabled := b\<rparr>) = writeStatus W"
  "resetVpa (W\<lparr>pw_DisruptionCheckEnabled := b\<rparr>) = resetVpa W"
  "markUpgrade (W\<lparr>pw_DisruptionCheckEnabled := b\<rparr>) = markUpgrade W"
  "attestPodHealth (W\<lparr>pw_DisruptionCheckEnabled := b\<rparr>) = attestPodHealth W"
  by (simp_all add: fun_eq_iff Let_def writeStatus_def resetVpa_def markUpgrade_def attestPodHealth_def cong: if_cong option.case_cong sum.case_cong prod.case_cong)

lemma world_flag_phase [simp]:
  "updatePhase (W\<lparr>pw_DisruptionCheckEnabled := b\<rparr>) = updatePhase W"
  by (simp add: fun_eq_iff Let_def updatePhase_def cong: if_cong option.case_cong sum.case_cong prod.case_cong)

lemma world_flag_node [simp]:
  "enterPhase (W\<lparr>pw_DisruptionCheckEnabled := b\<rparr>) = enterPhase W"
  "startFailed (W\<lparr>pw_DisruptionCheckEnabled := b\<rparr>) = startFailed W"
  "completeUpgrade (W\<lparr>pw_DisruptionCheckEnabled := b\<rparr>) = completeUpgrade W"
  "updateLatestHeight (W\<lparr>pw_DisruptionCheckEnabled := b\<rparr>) = updateLatestHeight W"
  by (simp_all add: fun_eq_iff Let_def enterPhase_def startFailed_def completeUpgrade_def updateLatestHeight_def cong: if_cong option.case_cong sum.case_cong prod.case_cong)

lemma world_flag_pod [simp]:
  "setNodePhase (W\<lparr>pw_DisruptionCheckEnabled := b\<rparr>) = setNodePhase W"
  "waitStarted (W\<lparr>pw_DisruptionCheckEnabled := b\<rparr>) = waitStarted W"
  "finishUpgrade (W\<lparr>pw_DisruptionCheckEnabled := b\<rparr>) = finishUpgrade W"
  by (simp_all add: fun_eq_iff Let_def setNodePhase_def waitStarted_def finishUpgrade_def cong: if_cong option.case_cong sum.case_cong prod.case_cong)

lemma world_flag_run [simp]:
  "createPod (W\<lparr>pw_DisruptionCheckEnabled := b\<rparr>) = createPod W"
  "replacePod (W\<lparr>pw_DisruptionCheckEnabled := b\<rparr>) = replacePod W"
  "upgradePod (W\<lparr>pw_DisruptionCheckEnabled := b\<rparr>) = upgradePod W"
  by (simp_all add: fun_eq_iff Let_def createPod_def replacePod_def upgradePod_def cong: if_cong option.case_cong sum.case_cong prod.case_cong)

lemma world_flag_upgrade [simp]: "runUpgrade (W\<lparr>pw_DisruptionCheckEnabled := b\<rparr>) = runUpgrade W"
  by (simp add: fun_eq_iff Let_def runUpgrade_def cong: if_cong option.case_cong sum.case_cong prod.case_cong)

lemma recreatePod_no_status:
  "np_Phase pod = [] \<Longrightarrow> recreatePod W pod b = replacePod W pod"
  by (simp add: fun_eq_iff recreatePod_def isPodRunningAndReady_def)

text \<open>The pod handed to \<open>recreatePod\<close> is the desired pod, which has no status: it never counts as running and
  ready, so \<open>ensurePod\<close> behaves the same with the disruption check enabled and disabled.\<close>

theorem disruption_check_skipped:
  assumes "\<And>n c s n' pod s'. po_getPodSpec (pw_pod W) n c s = ((n', Inr pod), s') \<Longrightarrow> np_Phase pod = []"
  shows "ensurePod W configHash n s = ensurePod (W\<lparr>pw_DisruptionCheckEnabled := False\<rparr>) configHash n s"
proof -
  obtain n1 r s1 where g: "po_getPodSpec (pw_pod W) n configHash s = ((n1, r), s1)" by (metis prod.collapse)
  show ?thesis
  proof (cases r)
    case (Inl e)
    then show ?thesis using g by (simp add: ensurePod_def)
  next
    case (Inr pod)
    then have "np_Phase pod = []" using assms g by blast
    then have "reconcileLivePod W configHash b pod = reconcileLivePod (W\<lparr>pw_DisruptionCheckEnabled := False\<rparr>) configHash b pod" for b
      by (simp add: fun_eq_iff reconcileLivePod_def recreatePod_no_status cong: if_cong option.case_cong sum.case_cong prod.case_cong)
    then show ?thesis using g Inr by (simp add: ensurePod_def cong: if_cong option.case_cong sum.case_cong prod.case_cong)
  qed
qed

end
