(* ===== verification/Stats_Collector.thy ===== *)
theory Stats_Collector
  imports Go_Float
begin

text \<open>
  The sample store of node-utils: \<open>src/pkg/statscollector\<close>. A collector keeps the last
  \<open>maxSamples\<close> samples (the constructor is called with positive sizes); each operation holds the lock
  for its whole body, so an operation is one step. The current time is an argument.

  The abstract specification is the whole history of samples; the collector refines it as long as the
  averaging window holds at most \<open>maxSamples\<close> samples.
\<close>

record Sample =
  sm_Timestamp :: int
  sm_CPUTimeSec :: rat
  sm_MemoryRSS :: int

record Collector =
  sc_samples :: "Sample list"
  sc_maxSamples :: nat

definition NewCollector :: "nat \<Rightarrow> Collector" where
  "NewCollector k = \<lparr>sc_samples = [], sc_maxSamples = k\<rparr>"

definition AddSample :: "Sample \<Rightarrow> Collector \<Rightarrow> Collector" where
  "AddSample sm sc =
     (let xs = sc_samples sc @ [sm] in
      sc\<lparr>sc_samples := (if length xs > sc_maxSamples sc then drop (length xs - sc_maxSamples sc) xs else xs)\<rparr>)"

definition GetSamples :: "int \<Rightarrow> int \<Rightarrow> Collector \<Rightarrow> Sample list" where
  "GetSamples now since sc = filter (\<lambda>sm. sm_Timestamp sm > now - since) (sc_samples sc)"

definition wrapU64 :: "int \<Rightarrow> int" where
  "wrapU64 x = x mod 2 ^ 64"

definition AverageMemoryUsage :: "int \<Rightarrow> int \<Rightarrow> Collector \<Rightarrow> int" where
  "AverageMemoryUsage now since sc =
     (let samples = GetSamples now since sc in
      if samples = [] then 0
      else fold (\<lambda>sm total. wrapU64 (total + sm_MemoryRSS sm)) samples 0 div int (length samples))"

text \<open>\<open>t.Sub(u).Seconds()\<close>: the difference saturates; whole seconds and the rest are converted apart.\<close>

definition subSeconds :: "int \<Rightarrow> int \<Rightarrow> rat" where
  "subSeconds t u =
     (let d = max (- (2 ^ 63)) (min (2 ^ 63 - 1) (t - u));
          sec = sgn d * (\<bar>d\<bar> div 1000000000);
          nsec = d - sec * 1000000000
      in fl64 (fl64 (of_int sec) + fl64 (fl64 (of_int nsec) / 1000000000)))"

fun cpuUtil :: "Sample list \<Rightarrow> rat \<times> int \<Rightarrow> rat \<times> int" where
  "cpuUtil (a # b # xs) acc =
     (let deltaCPU = fl64 (sm_CPUTimeSec b - sm_CPUTimeSec a);
          deltaTime = subSeconds (sm_Timestamp b) (sm_Timestamp a)
      in cpuUtil (b # xs)
           (if deltaTime > 0 then (fl64 (fst acc + fl64 (deltaCPU / deltaTime)), snd acc + 1) else acc))"
| "cpuUtil _ acc = acc"

definition AverageCPUUsage :: "int \<Rightarrow> int \<Rightarrow> Collector \<Rightarrow> rat" where
  "AverageCPUUsage now since sc =
     (let samples = GetSamples now since sc in
      if length samples < 2 then 0
      else let (totalUtil, count) = cpuUtil samples (0, 0) in
           if count = 0 then 0 else fl64 (totalUtil / fl64 (of_int count)))"

section \<open>Refinement of the history\<close>

definition lastn :: "nat \<Rightarrow> 'a list \<Rightarrow> 'a list" where
  "lastn k xs = drop (length xs - k) xs"

lemma lastn_snoc: "lastn k (lastn k xs @ [x]) = lastn k (xs @ [x])"
  by (cases "k \<le> length xs") (auto simp: lastn_def not_le Suc_diff_le)

lemma AddSample_samples: "sc_samples (AddSample sm sc) = lastn (sc_maxSamples sc) (sc_samples sc @ [sm])"
  by (simp add: AddSample_def lastn_def Let_def)

lemma AddSample_max [simp]: "sc_maxSamples (AddSample sm sc) = sc_maxSamples sc"
  by (simp add: AddSample_def Let_def)

lemma fold_AddSample:
  "sc_maxSamples (fold AddSample h (NewCollector k)) = k \<and> sc_samples (fold AddSample h (NewCollector k)) = lastn k h"
proof (induction h rule: rev_induct)
  case Nil
  then show ?case by (simp add: NewCollector_def lastn_def)
next
  case (snoc x h)
  then show ?case by (simp add: AddSample_samples lastn_snoc)
qed

text \<open>In a history in the order of time, the samples of a window are at its end.\<close>

lemma filter_window_suffix:
  assumes "sorted (map sm_Timestamp h)" "length (filter (\<lambda>sm. sm_Timestamp sm > c) h) \<le> k"
  shows "filter (\<lambda>sm. sm_Timestamp sm > c) (lastn k h) = filter (\<lambda>sm. sm_Timestamp sm > c) h"
  using assms
proof (induction h)
  case (Cons x h)
  let ?P = "\<lambda>sm. sm_Timestamp sm > c"
  show ?case
  proof (cases "?P x")
    case True
    then have "\<forall>y \<in> set h. ?P y" using Cons.prems(1) by force
    then have "length (x # h) \<le> k" using Cons.prems(2) True by simp
    then show ?thesis by (simp add: lastn_def)
  next
    case False
    show ?thesis
    proof (cases "k \<le> length h")
      case True
      then show ?thesis using Cons False by (simp add: lastn_def Suc_diff_le)
    qed (simp add: lastn_def)
  qed
qed (simp add: lastn_def)

definition window :: "int \<Rightarrow> int \<Rightarrow> Sample list \<Rightarrow> Sample list" where
  "window now since h = filter (\<lambda>sm. sm_Timestamp sm > now - since) h"

lemma fold_wrapU64:
  assumes "\<forall>sm \<in> set xs. 0 \<le> sm_MemoryRSS sm" "0 \<le> t" "t + sum_list (map sm_MemoryRSS xs) < 2 ^ 64"
  shows "fold (\<lambda>sm total. wrapU64 (total + sm_MemoryRSS sm)) xs t = t + sum_list (map sm_MemoryRSS xs)"
  using assms
proof (induction xs arbitrary: t)
  case (Cons x xs)
  have "0 \<le> sum_list (map sm_MemoryRSS xs)" using Cons.prems(1) by (intro sum_list_nonneg) auto
  then have "wrapU64 (t + sm_MemoryRSS x) = t + sm_MemoryRSS x"
    using Cons.prems unfolding wrapU64_def by (intro mod_pos_pos_trivial) auto
  then show ?case using Cons by (simp add: add.assoc)
qed simp

text \<open>C30: A collector that was fed a history of samples in the order of time refines that history: it
  holds at most \<open>maxSamples\<close> samples, and while the window holds no more than that, the samples of the
  window and both averages are those of the whole history, the memory average being the exact mean rounded
  down.\<close>

theorem collector_refines_history:
  assumes "sorted (map sm_Timestamp h)" "length (window now since h) \<le> k"
    "\<forall>sm \<in> set h. 0 \<le> sm_MemoryRSS sm" "sum_list (map sm_MemoryRSS (window now since h)) < 2 ^ 64"
  shows "length (sc_samples (fold AddSample h (NewCollector k))) \<le> k \<and>
    GetSamples now since (fold AddSample h (NewCollector k)) = window now since h \<and>
    AverageMemoryUsage now since (fold AddSample h (NewCollector k)) =
      sum_list (map sm_MemoryRSS (window now since h)) div int (length (window now since h)) \<and>
    AverageCPUUsage now since (fold AddSample h (NewCollector k)) =
      AverageCPUUsage now since \<lparr>sc_samples = h, sc_maxSamples = length h\<rparr>"
proof -
  have g: "GetSamples now since (fold AddSample h (NewCollector k)) = window now since h"
    using filter_window_suffix [OF assms(1), of "now - since" k] assms(2)
    by (simp add: GetSamples_def window_def fold_AddSample)
  have "\<forall>sm \<in> set (window now since h). 0 \<le> sm_MemoryRSS sm" using assms(3) by (simp add: window_def)
  then have "AverageMemoryUsage now since (fold AddSample h (NewCollector k)) =
      sum_list (map sm_MemoryRSS (window now since h)) div int (length (window now since h))"
    using fold_wrapU64 [of "window now since h" 0] assms(4) by (simp add: AverageMemoryUsage_def g Let_def)
  moreover have "GetSamples now since \<lparr>sc_samples = h, sc_maxSamples = length h\<rparr> = window now since h"
    by (simp add: GetSamples_def window_def)
  moreover have "length (sc_samples (fold AddSample h (NewCollector k))) \<le> k"
    by (simp add: fold_AddSample lastn_def)
  ultimately show ?thesis using g by (simp add: AverageCPUUsage_def)
qed

definition sample :: "int \<Rightarrow> rat \<Rightarrow> int \<Rightarrow> Sample" where
  "sample t cpu mem = \<lparr>sm_Timestamp = t, sm_CPUTimeSec = cpu, sm_MemoryRSS = mem\<rparr>"

theorem collector_refines_history_witness:
  "AverageMemoryUsage 40 25 (fold AddSample [sample 10 1 500, sample 20 2 1000, sample 30 3 1500] (NewCollector 2)) = 1250"
proof -
  let ?h = "[sample 10 1 500, sample 20 2 1000, sample 30 3 1500]"
  have w: "window 40 25 ?h = [sample 20 2 1000, sample 30 3 1500]" by (simp add: window_def sample_def)
  have "sorted (map sm_Timestamp ?h)" "length (window 40 25 ?h) \<le> 2" "\<forall>sm \<in> set ?h. 0 \<le> sm_MemoryRSS sm"
    "sum_list (map sm_MemoryRSS (window 40 25 ?h)) < 2 ^ 64"
    unfolding w by (simp_all add: sample_def)
  from collector_refines_history [OF this]
  have "AverageMemoryUsage 40 25 (fold AddSample ?h (NewCollector 2)) =
      sum_list (map sm_MemoryRSS (window 40 25 ?h)) div int (length (window 40 25 ?h))"
    by blast
  then show ?thesis unfolding w by (simp add: sample_def)
qed

end
