(* ===== verification/Node_Utils.thy ===== *)
theory Node_Utils
  imports Stats_Collector
begin

text \<open>
  The node-utils sidecar: \<open>src/pkg/nodeutils\<close> (\<open>upgrades.go\<close>, \<open>node.go\<close>, the handlers of
  \<open>http.go\<close> the controller calls, and \<open>client.go\<close>).

  The goroutines share atomics and the upgrade list. A trace is handled by one goroutine, which reads the
  upgrade list twice; the watcher may reload the list between the two reads, so the list of the second
  read is an argument of the handler. Signals, connections, reloads and DNS answers are events, and
  \<open>nuEvent\<close> is the effect of one event.

  Arguments: \<open>Atoi\<close>-like conversions are modelled; the text form of durations is an argument. A failing
  terminate signal is an argument of the events that send one.
\<close>

section \<open>Upgrades\<close>

record NuUpgrade =
  nuu_Height :: int
  nuu_Status :: string
  nuu_Image :: string
  nuu_Source :: string

definition NuUpgradeScheduled :: string where "NuUpgradeScheduled = ''scheduled''"
definition NuOnChainUpgrade :: string where "NuOnChainUpgrade = ''on-chain''"

definition GetUpgrade :: "NuUpgrade list \<Rightarrow> int \<Rightarrow> NuUpgrade option" where
  "GetUpgrade upgrades height =
     find (\<lambda>u. height \<ge> nuu_Height u \<and> nuu_Status u = NuUpgradeScheduled) upgrades"

definition ShouldUpgrade :: "NuUpgrade list \<Rightarrow> int \<Rightarrow> bool" where
  "ShouldUpgrade upgrades height \<longleftrightarrow> GetUpgrade upgrades height \<noteq> None"

section \<open>State\<close>

datatype ServerState = ServerNotStarted | ServerListening | ServerShutDown

record NodeUtils =
  nu_config :: "NuUpgrade list"
  nu_latestBlockHeight :: int
  nu_requiresUpgrade :: bool
  nu_tracing :: bool
  nu_watching :: bool
  nu_nodeTerminated :: bool
  nu_server :: ServerState
  nu_HaltHeight :: int
  nu_tmkmsActive :: bool
  nu_signerDiscovered :: bool
  nu_trustedSignerAddresses :: "string list option"
  nu_signerPeerLookupActive :: bool
  nu_fineStats :: Collector
  nu_coarseStats :: Collector

text \<open>\<open>atomic.CompareAndSwap\<close>: whether it swapped, and the value after it.\<close>

definition CompareAndSwap :: "'a \<Rightarrow> 'a \<Rightarrow> 'a \<Rightarrow> bool \<times> 'a" where
  "CompareAndSwap cur old new = (if cur = old then (True, new) else (False, cur))"

text \<open>\<open>StopNode\<close> sends a terminate signal; \<open>ok\<close> tells whether the process was found and signalled.\<close>

definition StopNode :: "bool \<Rightarrow> NodeUtils \<Rightarrow> bool \<times> NodeUtils" where
  "StopNode ok st = (if ok then (True, st\<lparr>nu_nodeTerminated := True\<rparr>) else (False, st))"

datatype Trace = TraceErr string | TraceOp "int option"

definition stopForUpgrade :: "bool \<Rightarrow> NuUpgrade \<Rightarrow> bool \<Rightarrow> NodeUtils \<Rightarrow> NodeUtils" where
  "stopForUpgrade ok upgrade heightUpdated st =
     (if nuu_Source upgrade = NuOnChainUpgrade then st\<lparr>nu_requiresUpgrade := True\<rparr>
      else if heightUpdated then
        (case StopNode ok (st\<lparr>nu_requiresUpgrade := True\<rparr>) of
           (True, st1) \<Rightarrow> st1\<lparr>nu_tracing := False\<rparr>
         | (False, st1) \<Rightarrow> st1)
      else st)"

text \<open>The goroutine that follows the traces; \<open>config2\<close> is the upgrade list at its second read.\<close>

definition onTrace :: "NuUpgrade list \<Rightarrow> bool \<Rightarrow> Trace \<Rightarrow> NodeUtils \<Rightarrow> NodeUtils" where
  "onTrace config2 ok trace st =
     (if \<not> nu_tracing st then st
      else case trace of
        TraceErr _ \<Rightarrow> st
      | TraceOp None \<Rightarrow> st
      | TraceOp (Some blockHeight) \<Rightarrow>
          (case CompareAndSwap (nu_latestBlockHeight st) (nu_latestBlockHeight st) blockHeight of
             (heightUpdated, height) \<Rightarrow>
               (let st1 = st\<lparr>nu_latestBlockHeight := height\<rparr> in
                if ShouldUpgrade (nu_config st) height then
                  (case GetUpgrade config2 height of
                     None \<Rightarrow> st1
                   | Some upgrade \<Rightarrow> stopForUpgrade ok upgrade heightUpdated st1)
                else st1)))"

datatype StopError = ServerWasNotStarted

definition Stop :: "bool \<Rightarrow> bool \<Rightarrow> NodeUtils \<Rightarrow> StopError option \<times> NodeUtils" where
  "Stop ok force st =
     (if \<not> force \<and> (nu_requiresUpgrade st \<or> (nu_HaltHeight st > 0 \<and> nu_HaltHeight st = nu_latestBlockHeight st))
      then (None, st)
      else if nu_server st = ServerNotStarted then (Some ServerWasNotStarted, st)
      else (None, (snd (StopNode ok st))\<lparr>nu_server := ServerShutDown\<rparr>))"

section \<open>Signer peers\<close>

text \<open>IP addresses are in their 16-byte form, on which \<open>IP.Equal\<close> is equality.\<close>

definition trustedSignerPeer :: "string \<Rightarrow> string list \<Rightarrow> bool" where
  "trustedSignerPeer peer addresses = list_ex (\<lambda>a. a = peer) addresses"

definition refreshTrustedSignerPeers :: "NodeUtils \<Rightarrow> NodeUtils" where
  "refreshTrustedSignerPeers st =
     st\<lparr>nu_signerPeerLookupActive := snd (CompareAndSwap (nu_signerPeerLookupActive st) False True)\<rparr>"

text \<open>The answer of the lookup a refresh started.\<close>

definition signerPeersResolved :: "string list option \<Rightarrow> NodeUtils \<Rightarrow> NodeUtils" where
  "signerPeersResolved answer st =
     (if \<not> nu_signerPeerLookupActive st then st
      else (case answer of None \<Rightarrow> st | Some addresses \<Rightarrow> st\<lparr>nu_trustedSignerAddresses := Some addresses\<rparr>)
             \<lparr>nu_signerPeerLookupActive := False\<rparr>)"

definition acceptTrustedSignerIP :: "string option \<Rightarrow> NodeUtils \<Rightarrow> bool \<times> NodeUtils" where
  "acceptTrustedSignerIP peer st =
     (case peer of
        None \<Rightarrow> (False, st)
      | Some ip \<Rightarrow>
          (case nu_trustedSignerAddresses st of
             Some addresses \<Rightarrow>
               if trustedSignerPeer ip addresses then (True, st\<lparr>nu_signerDiscovered := True\<rparr>)
               else (False, refreshTrustedSignerPeers st)
           | None \<Rightarrow> (False, refreshTrustedSignerPeers st)))"

section \<open>Events\<close>

datatype nu_event =
    EvTrace "NuUpgrade list" bool Trace
  | EvReload "NuUpgrade list option"
  | EvStop bool bool
  | EvConnect "string option"
  | EvResolved "string list option"

text \<open>A reload that fails to read or parse the file ends the watcher.\<close>

definition onReload :: "NuUpgrade list option \<Rightarrow> NodeUtils \<Rightarrow> NodeUtils" where
  "onReload config st =
     (if \<not> nu_watching st then st
      else case config of Some c \<Rightarrow> st\<lparr>nu_config := c\<rparr> | None \<Rightarrow> st\<lparr>nu_watching := False\<rparr>)"

text \<open>A trace during which the list changes leaves the new list in place.\<close>

definition nuEvent :: "nu_event \<Rightarrow> NodeUtils \<Rightarrow> NodeUtils" where
  "nuEvent ev st =
     (case ev of
        EvTrace config2 ok trace \<Rightarrow>
          (let c = (if nu_watching st then config2 else nu_config st)
           in (onTrace c ok trace st)\<lparr>nu_config := c\<rparr>)
      | EvReload config \<Rightarrow> onReload config st
      | EvStop ok force \<Rightarrow> snd (Stop ok force st)
      | EvConnect peer \<Rightarrow> snd (acceptTrustedSignerIP peer st)
      | EvResolved answer \<Rightarrow> signerPeersResolved answer st)"

section \<open>The HTTP interface\<close>

text \<open>A response is its status and body.\<close>

type_synonym response = "int \<times> string"

definition FormatBool :: "bool \<Rightarrow> string" where
  "FormatBool b = (if b then ''true'' else ''false'')"

definition ParseBool :: "string \<Rightarrow> bool option" where
  "ParseBool t =
     (if t \<in> {''1'', ''t'', ''T'', ''true'', ''TRUE'', ''True''} then Some True
      else if t \<in> {''0'', ''f'', ''F'', ''false'', ''FALSE'', ''False''} then Some False else None)"

definition ParseUint64 :: "string \<Rightarrow> int option" where
  "ParseUint64 t =
     (if t \<noteq> [] \<and> list_all is_digit t \<and> int (digits_val t) < 2 ^ 64 then Some (int (digits_val t)) else None)"

definition latestHeight :: "NodeUtils \<Rightarrow> response" where
  "latestHeight st = (200, Itoa (nu_latestBlockHeight st))"

definition mustUpgrade :: "NodeUtils \<Rightarrow> response" where
  "mustUpgrade st = (if nu_requiresUpgrade st then 426 else 200, FormatBool (nu_requiresUpgrade st))"

definition tmkmsConnectionActive :: "NodeUtils \<Rightarrow> response" where
  "tmkmsConnectionActive st = (if nu_tmkmsActive st then 200 else 406, FormatBool (nu_tmkmsActive st))"

definition signerDiscoveredStatus :: "NodeUtils \<Rightarrow> response" where
  "signerDiscoveredStatus st = (if nu_signerDiscovered st then 200 else 406, FormatBool (nu_signerDiscovered st))"

definition hours :: "int \<Rightarrow> int" where "hours k = k * 3600 * 1000000000"

definition selectCollector :: "NodeUtils \<Rightarrow> int \<Rightarrow> Collector" where
  "selectCollector st duration = (if duration \<le> hours 1 then nu_fineStats st else nu_coarseStats st)"

text \<open>\<open>live\<close> is the reading of the process, used when no average is asked for.\<close>

definition statsMemory ::
    "(string \<Rightarrow> int option) \<Rightarrow> int \<Rightarrow> (string + int) \<Rightarrow> string option \<Rightarrow> NodeUtils \<Rightarrow> response" where
  "statsMemory parseDuration now live average st =
     (case average of
        None \<Rightarrow> (case live of Inl e \<Rightarrow> (500, e) | Inr rss \<Rightarrow> (200, Itoa rss))
      | Some query \<Rightarrow>
          if query = [] then (case live of Inl e \<Rightarrow> (500, e) | Inr rss \<Rightarrow> (200, Itoa rss))
          else (case parseDuration query of
             None \<Rightarrow> (400, ''invalid duration format'')
           | Some dur \<Rightarrow>
               if dur \<le> 0 \<or> dur > hours 24 then (400, ''duration must be between 0 and 24h'')
               else (200, Itoa (AverageMemoryUsage now dur (selectCollector st dur)))))"

text \<open>A request fails in transport (\<^term>\<open>Inl\<close>) or returns a response.\<close>

datatype ClientError = Transport string | HttpStatus int string | BadBody string

definition httpGetWithStatus :: "int list \<Rightarrow> (string + response) \<Rightarrow> ClientError + string" where
  "httpGetWithStatus validStatuses reply =
     (case reply of
        Inl e \<Rightarrow> Inl (Transport e)
      | Inr (status, body) \<Rightarrow>
          if status \<in> set validStatuses then Inr body else Inl (HttpStatus status body))"

definition httpGet :: "(string + response) \<Rightarrow> ClientError + string" where
  "httpGet reply = httpGetWithStatus [200] reply"

definition parsed :: "(string \<Rightarrow> 'a option) \<Rightarrow> ClientError + string \<Rightarrow> ClientError + 'a" where
  "parsed parse reply =
     (case reply of
        Inl e \<Rightarrow> Inl e
      | Inr body \<Rightarrow> (case parse body of Some x \<Rightarrow> Inr x | None \<Rightarrow> Inl (BadBody body)))"

definition GetLatestHeight :: "(string + response) \<Rightarrow> ClientError + int" where
  "GetLatestHeight reply = parsed (ParseInt 64) (httpGet reply)"

definition GetDataSize :: "(string + response) \<Rightarrow> ClientError + int" where
  "GetDataSize reply = parsed (ParseInt 64) (httpGet reply)"

definition RequiresUpgrade :: "(string + response) \<Rightarrow> ClientError + bool" where
  "RequiresUpgrade reply = parsed ParseBool (httpGetWithStatus [200, 426] reply)"

definition IsStateSyncing :: "(string + response) \<Rightarrow> ClientError + bool" where
  "IsStateSyncing reply = parsed ParseBool (httpGet reply)"

text \<open>The query of a statistics request: the averaging duration when positive.\<close>

definition statsQuery :: "(int \<Rightarrow> string) \<Rightarrow> int \<Rightarrow> string option" where
  "statsQuery durationString since = (if since > 0 then Some (durationString since) else None)"

definition GetMemoryStats :: "(int \<Rightarrow> string) \<Rightarrow> (string option \<Rightarrow> string + response) \<Rightarrow> int \<Rightarrow> ClientError + int" where
  "GetMemoryStats durationString request since =
     parsed ParseUint64 (httpGet (request (statsQuery durationString since)))"

end
