(* ===== verification/Node_Utils_Correct.thy ===== *)
theory Node_Utils_Correct
  imports Node_Utils Upgrades_Correct
begin

text \<open>
  What node-utils guarantees to the controller: the values it serves are the values the client reads, an
  upgrade it asks for is one the controller finds, and the request stands until a forced shutdown. The last
  section shows an upgrade on which the two disagree.
\<close>

section \<open>Requests that stand\<close>

lemma stopForUpgrade_requires: "nu_requiresUpgrade st \<Longrightarrow> nu_requiresUpgrade (stopForUpgrade ok u b st)"
  by (auto simp: stopForUpgrade_def StopNode_def)

lemma onTrace_requires: "nu_requiresUpgrade st \<Longrightarrow> nu_requiresUpgrade (onTrace c ok t st)"
  by (auto simp: onTrace_def CompareAndSwap_def stopForUpgrade_def StopNode_def Let_def split: Trace.splits option.splits)

lemma server_stopForUpgrade [simp]: "nu_server (stopForUpgrade ok u b st) = nu_server st"
  by (auto simp: stopForUpgrade_def StopNode_def)

lemma onTrace_server [simp]: "nu_server (onTrace c ok t st) = nu_server st"
  by (auto simp: onTrace_def CompareAndSwap_def Let_def split: Trace.splits option.splits)

definition asks_upgrade :: "NodeUtils \<Rightarrow> bool" where
  "asks_upgrade st \<longleftrightarrow> nu_requiresUpgrade st \<and> nu_server st = ServerListening"

definition forced :: "nu_event \<Rightarrow> bool" where
  "forced ev = (case ev of EvStop ok force \<Rightarrow> force | _ \<Rightarrow> False)"

lemma nuEvent_asks: "asks_upgrade st \<Longrightarrow> \<not> forced ev \<Longrightarrow> asks_upgrade (nuEvent ev st)"
  by (cases ev)
    (auto simp: asks_upgrade_def forced_def nuEvent_def onTrace_requires onReload_def Stop_def acceptTrustedSignerIP_def
      refreshTrustedSignerPeers_def signerPeersResolved_def Let_def split: option.splits)

lemma RequiresUpgrade_mustUpgrade: "RequiresUpgrade (Inr (mustUpgrade st)) = Inr (nu_requiresUpgrade st)"
  by (simp add: RequiresUpgrade_def mustUpgrade_def httpGetWithStatus_def parsed_def ParseBool_def FormatBool_def)

text \<open>C29: Once node-utils asks for an upgrade it keeps its server up and answers the controller's question with
  yes, through any traces, reloads, signals, connections and DNS answers, until a forced shutdown.\<close>

theorem upgrade_request_stands:
  assumes "nu_requiresUpgrade st" "nu_server st = ServerListening" "\<forall>ev \<in> set evs. \<not> forced ev"
  shows "nu_server (fold nuEvent evs st) = ServerListening \<and>
    RequiresUpgrade (Inr (mustUpgrade (fold nuEvent evs st))) = Inr True"
proof -
  have "asks_upgrade st \<Longrightarrow> \<forall>ev \<in> set evs. \<not> forced ev \<Longrightarrow> asks_upgrade (fold nuEvent evs st)"
    by (induction evs arbitrary: st) (auto intro: nuEvent_asks)
  then show ?thesis using assms by (auto simp: asks_upgrade_def RequiresUpgrade_mustUpgrade)
qed

section \<open>Round trips\<close>

lemma ParseUint64_Itoa: "0 \<le> k \<Longrightarrow> k < 2 ^ 64 \<Longrightarrow> ParseUint64 (Itoa k) = Some k"
  by (simp add: ParseUint64_def Itoa_nonneg nat_digits_all_digit)


text \<open>A statistics request for an average over more than a day is answered with an error, so that an autoscaling
  rule with such a duration never scales.\<close>

theorem long_average_refused:
  assumes "parseDuration (durationString since) = Some since" "durationString since \<noteq> []" "hours 24 < since"
  shows "GetMemoryStats durationString (\<lambda>q. Inr (statsMemory parseDuration now live q st)) since =
    Inl (HttpStatus 400 ''duration must be between 0 and 24h'')"
  using assms
  by (simp add: GetMemoryStats_def statsMemory_def statsQuery_def httpGet_def httpGetWithStatus_def parsed_def hours_def)

section \<open>Agreement on the upgrade\<close>

text \<open>The JSON form the controller writes and node-utils reads.\<close>

definition phaseText :: "UpgradePhase \<Rightarrow> string" where
  "phaseText p = (case p of UpgradeImageMissing \<Rightarrow> ''image-missing'' | UpgradeScheduled \<Rightarrow> ''scheduled''
     | UpgradeOnGoing \<Rightarrow> ''ongoing'' | UpgradeCompleted \<Rightarrow> ''completed'' | UpgradeSkipped \<Rightarrow> ''skipped'')"

definition sourceText :: "UpgradeSource \<Rightarrow> string" where
  "sourceText src = (case src of OnChainUpgrade \<Rightarrow> ''on-chain'' | ManualUpgrade \<Rightarrow> ''manual'')"

definition wireUpgrade :: "Upgrade \<Rightarrow> NuUpgrade" where
  "wireUpgrade u = \<lparr>nuu_Height = up_Height u, nuu_Status = phaseText (up_Status u), nuu_Image = up_Image u,
     nuu_Source = sourceText (up_Source u)\<rparr>"

lemma phaseText_scheduled [simp]: "phaseText p = NuUpgradeScheduled \<longleftrightarrow> p = UpgradeScheduled"
  by (cases p) (simp_all add: phaseText_def NuUpgradeScheduled_def)

text \<open>No scheduled upgrade is due at \<open>height\<close>.\<close>

definition none_due :: "int \<Rightarrow> NuUpgrade list \<Rightarrow> bool" where
  "none_due height upgrades \<longleftrightarrow> (\<forall>u \<in> set upgrades. nuu_Status u = NuUpgradeScheduled \<longrightarrow> height < nuu_Height u)"

text \<open>A timely run: a trace is at most one height ahead of the last one, and a list that is loaded while no
  upgrade is required has no upgrade that is due already.\<close>

inductive timely_run :: "NodeUtils \<Rightarrow> bool" where
  start: "\<not> nu_requiresUpgrade st \<Longrightarrow> none_due (nu_latestBlockHeight st) (nu_config st) \<Longrightarrow> timely_run st"
| trace: "timely_run st \<Longrightarrow> h \<le> nu_latestBlockHeight st + 1 \<Longrightarrow>
    c = nu_config st \<or> (none_due (nu_latestBlockHeight st) c \<and> none_due h c) \<Longrightarrow>
    timely_run (nuEvent (EvTrace c ok (TraceOp (Some h))) st)"
| bad_trace: "timely_run st \<Longrightarrow> t = TraceErr e \<or> t = TraceOp None \<Longrightarrow>
    c = nu_config st \<or> none_due (nu_latestBlockHeight st) c \<Longrightarrow> timely_run (nuEvent (EvTrace c ok t) st)"
| reload: "timely_run st \<Longrightarrow> nu_requiresUpgrade st \<or> (\<forall>c. cfg = Some c \<longrightarrow> none_due (nu_latestBlockHeight st) c) \<Longrightarrow>
    timely_run (nuEvent (EvReload cfg) st)"
| other: "timely_run st \<Longrightarrow> ev = EvStop ok force \<or> ev = EvConnect peer \<or> ev = EvResolved ans \<Longrightarrow>
    timely_run (nuEvent ev st)"

lemma GetUpgrade_None_iff: "GetUpgrade us h = None \<longleftrightarrow> none_due h us"
  by (auto simp: GetUpgrade_def find_None_iff none_due_def not_le [symmetric])

lemma stopForUpgrade_height [simp]: "nu_latestBlockHeight (stopForUpgrade ok u b st) = nu_latestBlockHeight st"
  by (auto simp: stopForUpgrade_def StopNode_def)

lemma stopForUpgrade_sets: "nu_requiresUpgrade (stopForUpgrade ok u True st)"
  by (auto simp: stopForUpgrade_def StopNode_def)

lemma onTrace_not_due:
  assumes "\<not> nu_requiresUpgrade (onTrace c ok (TraceOp (Some h)) st)" "nu_tracing st"
  shows "nu_latestBlockHeight (onTrace c ok (TraceOp (Some h)) st) = h \<and>
    (none_due h (nu_config st) \<or> none_due h c)"
  using assms stopForUpgrade_sets
  by (auto simp: onTrace_def CompareAndSwap_def ShouldUpgrade_def GetUpgrade_None_iff Let_def split: option.splits if_splits)

text \<open>The trace that makes node-utils ask for an upgrade: the list has one scheduled for exactly its height.\<close>

lemma onTrace_asks:
  assumes "\<not> nu_requiresUpgrade st" "nu_requiresUpgrade (onTrace c ok (TraceOp (Some h)) st)"
    "none_due (nu_latestBlockHeight st) c" "h \<le> nu_latestBlockHeight st + 1"
  shows "\<exists>u \<in> set c. nuu_Height u = h \<and> nuu_Status u = NuUpgradeScheduled"
proof -
  obtain u where "GetUpgrade c h = Some u"
    using assms(1,2)
    by (auto simp: onTrace_def CompareAndSwap_def Let_def split: option.splits if_splits)
  then have u: "u \<in> set c" "nuu_Height u \<le> h" "nuu_Status u = NuUpgradeScheduled"
    using find_SomeD unfolding GetUpgrade_def by fastforce+
  then have "nu_latestBlockHeight st < nuu_Height u" using assms(3) by (auto simp: none_due_def)
  then show ?thesis using u assms(4) by force
qed

lemma nuEvent_trace_config [simp]:
  "nu_config (nuEvent (EvTrace c ok t) st) = (if nu_watching st then c else nu_config st)"
  by (simp add: nuEvent_def Let_def)

lemma Stop_fields [simp]:
  "nu_config (snd (Stop ok force st)) = nu_config st"
  "nu_latestBlockHeight (snd (Stop ok force st)) = nu_latestBlockHeight st"
  "nu_requiresUpgrade (snd (Stop ok force st)) = nu_requiresUpgrade st"
  by (simp_all add: Stop_def StopNode_def)

lemma timely_none_due: "timely_run st \<Longrightarrow> nu_requiresUpgrade st \<or> none_due (nu_latestBlockHeight st) (nu_config st)"
proof (induction rule: timely_run.induct)
  case (trace st h c ok)
  let ?c = "if nu_watching st then c else nu_config st"
  show ?case
  proof (cases "nu_requiresUpgrade st \<or> nu_requiresUpgrade (onTrace ?c ok (TraceOp (Some h)) st)")
    case True
    then show ?thesis using onTrace_requires by (auto simp: nuEvent_def Let_def)
  next
    case False
    then have nd: "none_due (nu_latestBlockHeight st) (nu_config st)" using trace.IH by simp
    show ?thesis
    proof (cases "nu_tracing st")
      case True
      have "?c = nu_config st \<or> none_due h ?c" using trace.hyps(3) by auto
      then show ?thesis
        using onTrace_not_due [of ?c ok h st] False True by (auto simp: nuEvent_def Let_def split: if_splits)
    next
      case notr: False
      then show ?thesis using nd trace.hyps(3) by (auto simp: nuEvent_def onTrace_def Let_def)
    qed
  qed
next
  case (bad_trace st t e c ok)
  then show ?case by (auto simp: nuEvent_def onTrace_def Let_def)
next
  case (reload st cfg)
  then show ?case by (auto simp: nuEvent_def onReload_def split: option.splits)
next
  case (other st ev ok force peer ans)
  then show ?case
    by (auto simp: nuEvent_def acceptTrustedSignerIP_def refreshTrustedSignerPeers_def
        signerPeersResolved_def split: option.splits if_splits)
qed simp

text \<open>C28: In a timely run, the trace at which node-utils starts to ask for an upgrade is at the height of a
  scheduled upgrade of the list it holds; a controller with the same list that has read the same height finds
  a scheduled upgrade for it.\<close>

theorem upgrade_agreed:
  assumes "timely_run st" "\<not> nu_requiresUpgrade st" "h \<le> nu_latestBlockHeight st + 1"
    "c = nu_config st \<or> none_due (nu_latestBlockHeight st) c"
    "nu_requiresUpgrade (nuEvent (EvTrace c ok (TraceOp (Some h))) st)"
    "nu_config (nuEvent (EvTrace c ok (TraceOp (Some h))) st) = map wireUpgrade (cns_Upgrades (cn_Status n))"
    "cns_LatestHeight (cn_Status n) = h"
  shows "\<exists>u. getUpgrade n (cns_LatestHeight (cn_Status n)) = Some u \<and> up_Height u = h \<and> up_Status u = UpgradeScheduled"
proof -
  let ?c = "if nu_watching st then c else nu_config st"
  have "none_due (nu_latestBlockHeight st) ?c"
    using timely_none_due [OF assms(1)] assms(2,4) by auto
  moreover have "nu_requiresUpgrade (onTrace ?c ok (TraceOp (Some h)) st)"
    using assms(5) by (simp add: nuEvent_def Let_def)
  ultimately obtain w where "w \<in> set ?c" "nuu_Height w = h" "nuu_Status w = NuUpgradeScheduled"
    using onTrace_asks [OF assms(2) _ _ assms(3)] by blast
  then obtain u where u: "u \<in> set (cns_Upgrades (cn_Status n))" "up_Height u = h" "up_Status u = UpgradeScheduled"
    using assms(6) by (auto simp: wireUpgrade_def split: if_splits)
  then obtain v where v: "getUpgrade n h = Some v"
    using find_ex [of u "cns_Upgrades (cn_Status n)" "\<lambda>u. up_Height u = h \<and> up_Status u = UpgradeScheduled"]
    by (auto simp: getUpgrade_def)
  then have "up_Height v = h" "up_Status v = UpgradeScheduled"
    using find_SomeD unfolding getUpgrade_def by fastforce+
  then show ?thesis using v assms(7) by simp
qed

section \<open>Examples\<close>

definition quiet_nu :: "int \<Rightarrow> NuUpgrade list \<Rightarrow> NodeUtils" where
  "quiet_nu h us = \<lparr>nu_config = us, nu_latestBlockHeight = h, nu_requiresUpgrade = False, nu_tracing = True, nu_watching = True,
     nu_nodeTerminated = False, nu_server = ServerListening, nu_HaltHeight = 0, nu_tmkmsActive = False,
     nu_signerDiscovered = False, nu_trustedSignerAddresses = None, nu_signerPeerLookupActive = False,
     nu_fineStats = fold AddSample [sample 10 1 500, sample 20 2 1000] (NewCollector 360), nu_coarseStats = NewCollector 288\<rparr>"

definition due_node :: ChainNode where
  "due_node = upgrading_node\<lparr>cn_Status := (cn_Status upgrading_node)\<lparr>cns_LatestHeight := 200\<rparr>\<rparr>"

definition wired :: "NuUpgrade list" where
  "wired = map wireUpgrade (cns_Upgrades (cn_Status due_node))"

lemma wired_none_due: "none_due 199 wired"
  by (simp add: wired_def none_due_def due_node_def upgrading_node_def sched_def wireUpgrade_def)

theorem upgrade_agreed_witness:
  "\<exists>u. getUpgrade due_node (cns_LatestHeight (cn_Status due_node)) = Some u \<and> up_Height u = 200 \<and> up_Status u = UpgradeScheduled"
proof (rule upgrade_agreed [where st = "quiet_nu 199 wired" and h = 200 and c = wired and ok = True and n = due_node])
  show "timely_run (quiet_nu 199 wired)"
    by (rule timely_run.start) (use wired_none_due in \<open>simp_all add: quiet_nu_def\<close>)
  show "nu_requiresUpgrade (nuEvent (EvTrace wired True (TraceOp (Some 200))) (quiet_nu 199 wired))" by code_simp
qed (use wired_none_due in \<open>simp_all add: quiet_nu_def wired_def due_node_def upgrading_node_def\<close>)

theorem upgrade_request_stands_witness:
  "RequiresUpgrade (Inr (mustUpgrade (fold nuEvent [EvStop True False, EvReload (Some []), EvTrace [] True (TraceOp (Some 5))]
     ((quiet_nu 4 [])\<lparr>nu_requiresUpgrade := True\<rparr>)))) = Inr True"
  using upgrade_request_stands [of "(quiet_nu 4 [])\<lparr>nu_requiresUpgrade := True\<rparr>"
      "[EvStop True False, EvReload (Some []), EvTrace [] True (TraceOp (Some 5))]"]
  by (simp add: quiet_nu_def forced_def)

text \<open>A duration in unary seconds, for the examples.\<close>

definition durationText :: "int \<Rightarrow> string" where
  "durationText d = (if d < 0 then CHR ''-'' # replicate (nat (- d)) (CHR ''1'') else CHR ''+'' # replicate (nat d) (CHR ''1''))"

definition readDuration :: "string \<Rightarrow> int option" where
  "readDuration t = (case t of [] \<Rightarrow> None | c # r \<Rightarrow> Some (if c = CHR ''-'' then - int (length r) else int (length r)))"

lemma readDuration_durationText: "readDuration (durationText d) = Some d \<and> durationText d \<noteq> []"
  by (simp add: readDuration_def durationText_def)


theorem long_average_refused_witness:
  "GetMemoryStats durationText (\<lambda>q. Inr (statsMemory readDuration 30 (Inl []) q (quiet_nu 7 []))) (hours 24 + 1) =
     Inl (HttpStatus 400 ''duration must be between 0 and 24h'')"
  using long_average_refused [of readDuration durationText "hours 24 + 1" 30 "Inl []" "quiet_nu 7 []"]
    readDuration_durationText [of "hours 24 + 1"] by simp

text \<open>A list that schedules an upgrade for a height that has passed makes node-utils ask for it, at a later height,
  where the controller finds nothing: it looks for an upgrade at exactly its height.\<close>

definition late_node :: ChainNode where
  "late_node = upgrading_node\<lparr>cn_Status := (cn_Status upgrading_node)\<lparr>cns_LatestHeight := 206\<rparr>\<rparr>"

theorem late_upgrade_disagrees:
  "nu_requiresUpgrade (nuEvent (EvTrace wired True (TraceOp (Some 206))) (quiet_nu 205 wired)) \<and>
   getUpgrade late_node (cns_LatestHeight (cn_Status late_node)) = None \<and>
   map wireUpgrade (cns_Upgrades (cn_Status late_node)) = wired"
proof -
  have "nu_requiresUpgrade (nuEvent (EvTrace wired True (TraceOp (Some 206))) (quiet_nu 205 wired))" by code_simp
  then show ?thesis by (simp add: late_node_def getUpgrade_def upgrading_node_def sched_def wired_def due_node_def)
qed

text \<open>A manual upgrade stops the node at the first trace of its own height: the swap of the height always
  succeeds, so the test for a new height never holds the stop back.\<close>

theorem manual_stop_at_first_trace:
  assumes "nu_tracing st" "GetUpgrade (nu_config st) h = Some u" "nuu_Source u \<noteq> NuOnChainUpgrade"
  shows "nu_nodeTerminated (onTrace (nu_config st) True (TraceOp (Some h)) st)"
  using assms by (simp add: onTrace_def CompareAndSwap_def ShouldUpgrade_def stopForUpgrade_def StopNode_def Let_def)

end
