(* ===== verification/Disruption_Locks.thy ===== *)
theory Disruption_Locks
  imports Go_Prelude "HOL-Library.List_Lexorder" "HOL-Library.Char_ord"
begin

text \<open>
  The lock manager of \<open>src/internal/controllers/chainnode/disruption.go\<close>: one mutex per label set, at
  most \<open>maxLocks\<close> of them. A mutex is its number in the order of creation. A Go map is an association list
  with distinct keys, in the order of its iteration; which lock the iteration at capacity meets first is not
  determined and is the argument \<open>pick\<close>. Every call holds the manager's own mutex, so it is one step.
\<close>

definition maxLocks :: nat where "maxLocks = 500"

record lockManager =
  lm_locks :: "(string \<times> nat) list"
  lm_next :: nat

definition newLockManager :: lockManager where
  "newLockManager = \<lparr>lm_locks = [], lm_next = 0\<rparr>"

definition generateLockKey :: "(string \<times> string) list \<Rightarrow> string" where
  "generateLockKey l =
     concat (map (\<lambda>k. k @ ''='' @ (case map_of l k of Some v \<Rightarrow> v | None \<Rightarrow> []) @ '','') (sort (map fst l)))"

definition getLockForLabels :: "(nat \<Rightarrow> nat) \<Rightarrow> (string \<times> string) list \<Rightarrow> lockManager \<Rightarrow> nat \<times> lockManager" where
  "getLockForLabels pick l lm =
     (let lockKey = generateLockKey l in
      case map_of (lm_locks lm) lockKey of
        Some lock \<Rightarrow> (lock, lm)
      | None \<Rightarrow>
          if length (lm_locks lm) \<ge> maxLocks
          then (snd (lm_locks lm ! (pick (length (lm_locks lm)) mod length (lm_locks lm))), lm)
          else (lm_next lm, lm\<lparr>lm_locks := (lockKey, lm_next lm) # lm_locks lm, lm_next := Suc (lm_next lm)\<rparr>))"

section \<open>Lock keys\<close>

text \<open>Label keys and values, as the API server admits them, hold neither separator.\<close>

definition plain :: "string \<Rightarrow> bool" where
  "plain t \<longleftrightarrow> CHR ''='' \<notin> set t \<and> CHR '','' \<notin> set t"

definition label_map :: "(string \<times> string) list \<Rightarrow> bool" where
  "label_map l \<longleftrightarrow> distinct (map fst l) \<and> (\<forall>p \<in> set l. plain (fst p) \<and> plain (snd p))"

lemma split_at:
  assumes "c \<notin> set a" "c \<notin> set b" "a @ [c] @ x = b @ [c] @ y"
  shows "a = b \<and> x = y"
  using assms
proof (induction a arbitrary: b)
  case Nil
  then show ?case by (cases b) auto
next
  case (Cons d a)
  then show ?case by (cases b) auto
qed

definition entries :: "(string \<times> string) list \<Rightarrow> string" where
  "entries ps = concat (map (\<lambda>p. fst p @ ''='' @ snd p @ '','') ps)"

lemma entries_inject:
  assumes "\<forall>p \<in> set ps. plain (fst p) \<and> plain (snd p)" "\<forall>p \<in> set qs. plain (fst p) \<and> plain (snd p)"
    "entries ps = entries qs"
  shows "ps = qs"
  using assms
proof (induction ps arbitrary: qs)
  case Nil
  then show ?case by (cases qs) (auto simp: entries_def)
next
  case (Cons p ps)
  then obtain q qs' where qs: "qs = q # qs'" by (cases qs) (auto simp: entries_def)
  have e: "fst p @ [CHR ''=''] @ snd p @ [CHR '',''] @ entries ps = fst q @ [CHR ''=''] @ snd q @ [CHR '',''] @ entries qs'"
    using Cons.prems(3) qs by (simp add: entries_def)
  have pl: "CHR ''='' \<notin> set (fst p)" "CHR ''='' \<notin> set (fst q)" "CHR '','' \<notin> set (snd p)" "CHR '','' \<notin> set (snd q)"
    using Cons.prems(1,2) qs by (simp_all add: plain_def)
  from split_at [OF pl(1,2) e]
  have 1: "fst p = fst q" and e': "snd p @ [CHR '',''] @ entries ps = snd q @ [CHR '',''] @ entries qs'" by auto
  from split_at [OF pl(3,4) e'] have "snd p = snd q" "entries ps = entries qs'" by auto
  then show ?case using 1 Cons.IH [of qs'] Cons.prems(1,2) qs by (simp add: prod_eq_iff)
qed

definition sorted_entries :: "(string \<times> string) list \<Rightarrow> (string \<times> string) list" where
  "sorted_entries l = map (\<lambda>k. (k, the (map_of l k))) (sort (map fst l))"

lemma generateLockKey_entries: "generateLockKey l = entries (sorted_entries l)"
proof -
  have "k \<in> set (sort (map fst l)) \<Longrightarrow> (case map_of l k of Some v \<Rightarrow> v | None \<Rightarrow> []) = the (map_of l k)" for k
    by (cases "map_of l k") (auto simp: map_of_eq_None_iff)
  then show ?thesis
    unfolding generateLockKey_def entries_def sorted_entries_def by (intro arg_cong [of _ _ concat]) simp
qed

lemma map_of_sorted_entries: "map_of (sorted_entries l) = map_of l"
proof
  fix k
  show "map_of (sorted_entries l) k = map_of l k"
  proof (cases "k \<in> fst ` set l")
    case True
    then obtain v where "map_of l k = Some v" by (cases "map_of l k") (auto simp: map_of_eq_None_iff)
    then show ?thesis
      using True by (auto simp: sorted_entries_def map_of_map_restrict comp_def restrict_map_def map_of_map_keys)
  next
    case False
    then have "map_of l k = None" by (simp add: map_of_eq_None_iff)
    moreover have "fst ` set (sorted_entries l) = fst ` set l" by (simp add: sorted_entries_def image_image)
    then have "map_of (sorted_entries l) k = None" using False by (simp add: map_of_eq_None_iff)
    ultimately show ?thesis by simp
  qed
qed

lemma sorted_entries_plain:
  assumes "label_map l" "p \<in> set (sorted_entries l)"
  shows "plain (fst p) \<and> plain (snd p)"
proof -
  obtain k where k: "k \<in> fst ` set l" "p = (k, the (map_of l k))" using assms(2) by (auto simp: sorted_entries_def)
  then obtain v where "map_of l k = Some v" by (cases "map_of l k") (auto simp: map_of_eq_None_iff)
  then have "p \<in> set l" using k by (simp add: map_of_SomeD)
  then show ?thesis using assms(1) by (simp add: label_map_def)
qed

lemma sorted_entries_eq_iff:
  assumes "label_map l" "label_map l'"
  shows "sorted_entries l = sorted_entries l' \<longleftrightarrow> map_of l = map_of l'"
proof
  assume "sorted_entries l = sorted_entries l'"
  then show "map_of l = map_of l'" by (metis map_of_sorted_entries)
next
  assume eq: "map_of l = map_of l'"
  then have "set (map fst l) = set (map fst l')" by (metis dom_map_of_conv_image_fst set_map)
  moreover have "distinct (map fst l)" "distinct (map fst l')" using assms by (simp_all add: label_map_def)
  ultimately have "sort (map fst l) = sort (map fst l')"
    by (intro sorted_distinct_set_unique) simp_all
  then show "sorted_entries l = sorted_entries l'" by (simp add: sorted_entries_def eq)
qed

lemma generateLockKey_eq_iff:
  assumes "label_map l" "label_map l'"
  shows "generateLockKey l = generateLockKey l' \<longleftrightarrow> map_of l = map_of l'"
  using entries_inject [of "sorted_entries l" "sorted_entries l'"] sorted_entries_plain assms
    sorted_entries_eq_iff [OF assms]
  by (auto simp: generateLockKey_entries)

section \<open>The manager\<close>

definition lm_ok :: "lockManager \<Rightarrow> bool" where
  "lm_ok lm \<longleftrightarrow> distinct (map fst (lm_locks lm)) \<and> distinct (map snd (lm_locks lm)) \<and>
     (\<forall>p \<in> set (lm_locks lm). snd p < lm_next lm) \<and> length (lm_locks lm) \<le> maxLocks"

lemma lm_ok_new: "lm_ok newLockManager"
  by (simp add: lm_ok_def newLockManager_def)

lemma getLock_ok: "lm_ok lm \<Longrightarrow> lm_ok (snd (getLockForLabels pick l lm))"
  by (auto simp: lm_ok_def getLockForLabels_def Let_def map_of_eq_None_iff less_SucI split: option.splits)

text \<open>The states reached by requests for locks.\<close>

inductive lm_reach :: "lockManager \<Rightarrow> lockManager \<Rightarrow> bool" where
  refl: "lm_reach lm lm"
| step: "lm_reach lm lm' \<Longrightarrow> lm_reach lm (snd (getLockForLabels pick l lm'))"

lemma lm_reach_ok: "lm_reach lm lm' \<Longrightarrow> lm_ok lm \<Longrightarrow> lm_ok lm'"
  by (induction rule: lm_reach.induct) (auto intro: getLock_ok)

lemma getLock_keeps:
  "lm_ok lm \<Longrightarrow> map_of (lm_locks lm) k = Some a \<Longrightarrow> map_of (lm_locks (snd (getLockForLabels pick l lm))) k = Some a"
  by (auto simp: getLockForLabels_def Let_def split: option.splits)

lemma lm_reach_keeps: "lm_reach lm lm' \<Longrightarrow> lm_ok lm \<Longrightarrow> map_of (lm_locks lm) k = Some a \<Longrightarrow> map_of (lm_locks lm') k = Some a"
  by (induction rule: lm_reach.induct) (auto intro: getLock_keeps lm_reach_ok)

lemma getLock_below:
  assumes "length (lm_locks lm) < maxLocks" "getLockForLabels pick l lm = (a, lm')"
  shows "map_of (lm_locks lm') (generateLockKey l) = Some a"
  using assms by (auto simp: getLockForLabels_def Let_def split: option.splits)

lemma lock_ids_inject:
  "lm_ok lm \<Longrightarrow> map_of (lm_locks lm) k = Some a \<Longrightarrow> map_of (lm_locks lm) k' = Some a \<Longrightarrow> k = k'"
  by (auto simp: lm_ok_def distinct_map dest!: map_of_SomeD dest: inj_onD [where x = "(k, a)" and y = "(k', a)"])

text \<open>C32: The lock manager never holds more than its maximum of locks, and below the maximum two requests get the
  same mutex exactly when they name the same label set, whatever requests come in between.\<close>

theorem lock_per_label_set:
  assumes "lm_reach newLockManager lm" "length (lm_locks lm) < maxLocks" "getLockForLabels pick l lm = (a, lm1)"
    "lm_reach lm1 lm2" "length (lm_locks lm2) < maxLocks" "getLockForLabels pick' l' lm2 = (b, lm3)"
    "label_map l" "label_map l'"
  shows "lm_ok lm3 \<and> (a = b \<longleftrightarrow> map_of l = map_of l')"
proof -
  have ok1: "lm_ok lm1" using lm_reach_ok [OF assms(1) lm_ok_new] getLock_ok [of lm pick l] assms(3) by simp
  have ok2: "lm_ok lm2" by (rule lm_reach_ok [OF assms(4) ok1])
  have ok3: "lm_ok lm3" using getLock_ok [OF ok2, of pick' l'] assms(6) by simp
  have b: "map_of (lm_locks lm3) (generateLockKey l') = Some b" by (rule getLock_below [OF assms(5,6)])
  have "map_of (lm_locks lm2) (generateLockKey l) = Some a"
    by (rule lm_reach_keeps [OF assms(4) ok1 getLock_below [OF assms(2,3)]])
  then have a: "map_of (lm_locks lm3) (generateLockKey l) = Some a"
    using getLock_keeps [OF ok2, of _ a pick' l'] assms(6) by simp
  have "a = b \<longleftrightarrow> generateLockKey l = generateLockKey l'"
    using a b lock_ids_inject [OF ok3] by auto
  then show ?thesis using ok3 generateLockKey_eq_iff [OF assms(7,8)] by simp
qed

theorem lock_per_label_set_witness:
  "fst (getLockForLabels (\<lambda>_. 0) [(''b'', ''2''), (''a'', ''1'')]
     (snd (getLockForLabels (\<lambda>_. 0) [(''a'', ''1''), (''b'', ''2'')] newLockManager))) = 0"
proof -
  let ?l = "[(''a'', ''1''), (''b'', ''2'')]" and ?l' = "[(''b'', ''2''), (''a'', ''1'')]"
  let ?r = "getLockForLabels (\<lambda>_. 0) ?l newLockManager"
  let ?r' = "getLockForLabels (\<lambda>_. 0) ?l' (snd ?r)"
  have "label_map ?l" "label_map ?l'" by (simp_all add: label_map_def plain_def)
  moreover have "map_of ?l = map_of ?l'" by (auto simp: fun_eq_iff)
  moreover have "length (lm_locks newLockManager) < maxLocks" "length (lm_locks (snd ?r)) < maxLocks" "fst ?r = 0"
    by (simp_all add: newLockManager_def maxLocks_def getLockForLabels_def Let_def)
  moreover have "?r = (fst ?r, snd ?r)" "?r' = (fst ?r', snd ?r')" by simp_all
  ultimately show ?thesis
    using lock_per_label_set [OF lm_reach.refl _ _ lm_reach.refl, of "\<lambda>_. 0" ?l "fst ?r" "snd ?r" "\<lambda>_. 0" ?l' "fst ?r'" "snd ?r'"]
    by metis
qed

text \<open>At the maximum a label set without a lock of its own gets whichever lock the map iteration meets first: two
  requests for the same label set may hold two different locks.\<close>

theorem capacity_splits_label_set:
  assumes "lm_ok lm" "length (lm_locks lm) = maxLocks" "map_of (lm_locks lm) (generateLockKey l) = None"
  shows "fst (getLockForLabels (\<lambda>_. 0) l lm) \<noteq> fst (getLockForLabels (\<lambda>_. 1) l lm) \<and>
    snd (getLockForLabels (\<lambda>_. 0) l lm) = lm \<and> snd (getLockForLabels (\<lambda>_. 1) l lm) = lm"
proof -
  have "map snd (lm_locks lm) ! 0 \<noteq> map snd (lm_locks lm) ! 1"
    using assms(1,2) by (simp add: lm_ok_def nth_eq_iff_index_eq maxLocks_def del: nth_map)
  then show ?thesis using assms(2,3) by (simp add: getLockForLabels_def Let_def maxLocks_def)
qed

end
