(* ===== verification/Snapshot_Exports.thy ===== *)
theory Snapshot_Exports
  imports Kube_Api Hash
begin

text \<open>
  The records of exported snapshots: \<open>src/internal/controllers/chainnode/snapshot_exports.go\<close>, the export
  settings of \<open>src/api/v1/common_helper.go\<close> and the deletion of an exported object,
  \<open>reconcileSnapshotExportDeletion\<close> of \<open>snapshots.go\<close>. A record is stored in the status of the node before
  the upload starts and kept until the remote object is proven deleted or an operator acknowledges it.

  Arguments. \<open>snap_env\<close> holds the functions of libraries: the SHA-256 digest, quoting and time formats, the
  condition helpers of apimachinery, \<open>sort.Slice\<close> by creation time, and how often \<open>retry.RetryOnConflict\<close> repeats. \<open>snap_api\<close> holds the
  calls to the API server, \<open>export_api\<close> the operations of \<open>datasnapshot.SnapshotProvider\<close> (an interface of
  the code) and of the package \<open>datasnapshot\<close> on the jobs of a node. Resource versions are not represented:
  whether a write conflicts is up to the API server. A time is the number of nanoseconds since the zero time
  of Go. \<open>se_WithLabels\<close> is \<open>WithChainNodeLabels\<close>. Events and log messages are left out.
\<close>

section \<open>Objects\<close>

record VolumeSnapshotStatus =
  vss_ReadyToUse :: "bool option"
  vss_RestoreSize :: "quantity option"

text \<open>The annotations are \<^term>\<open>None\<close> for the nil map: writing into it panics.\<close>

record VolumeSnapshot =
  vsn_Name :: string
  vsn_UID :: uid
  vsn_Labels :: labels
  vsn_Annotations :: "labels option"
  vsn_CreationTimestamp :: int
  vsn_DeletionTimestamp :: "int option"
  vsn_SourcePVC :: string
  vsn_ClassName :: "string option"
  vsn_Status :: "VolumeSnapshotStatus option"

text \<open>The value of a status or purpose outside the declared constants is \<open>...Other\<close>; the empty status is
  \<open>StatusOther []\<close>.\<close>

datatype SnapshotStatus =
    SnapshotSucceeded | SnapshotFailed | SnapshotActive | SnapshotNotFound | StatusOther string

datatype SnapshotJobPurpose = SnapshotJobUpload | SnapshotJobDelete | PurposeOther string

text \<open>Of a listed job the fields the controller reads; \<open>sj_Handle\<close> is the rest of it.\<close>

record SnapshotJob =
  sj_Name :: string
  sj_Purpose :: SnapshotJobPurpose
  sj_Exporter :: string
  sj_Failure :: string
  sj_RequireDestinationIdentity :: bool
  sj_Handle :: string

datatype ExportError = ErrStaleJobReplaced | ErrStaleJobTerminating | ExportOther string

datatype SnapError =
    SnapApi api_error
  | SnapExport ExportError
  | SnapPod string
  | SnapPanic
  | StatusUnavailable
  | ExportNotConfigured
  | NoUploadTarget
  | NotPersisted
  | BadTransition string SnapshotExportPhase SnapshotExportPhase
  | UnknownProvider string
  | NoExportDestination string
  | BadDuration
  | RestoreSizeMissing

record snap_env =
  se_Sum256 :: "string \<Rightarrow> string"
  se_Quote :: "string \<Rightarrow> string"
  se_RFC3339 :: "int \<Rightarrow> string"
  se_FormatTime :: "int \<Rightarrow> string"
  se_ParseTime :: "string \<Rightarrow> int option"
  se_ParseDuration :: "string \<Rightarrow> int option"
  se_ErrorText :: "ExportError \<Rightarrow> string"
  se_SetCondition :: "Condition \<Rightarrow> Condition list \<Rightarrow> Condition list"
  se_RemoveCondition :: "string \<Rightarrow> Condition list \<Rightarrow> Condition list"
  se_FindCondition :: "Condition list \<Rightarrow> string \<Rightarrow> Condition option"
  se_SortSnapshots :: "VolumeSnapshot list \<Rightarrow> VolumeSnapshot list"
  se_WithLabels :: "ChainNode \<Rightarrow> labels \<Rightarrow> labels"
  se_Retries :: nat
  se_HasClient :: bool
  se_HasClientSet :: bool

text \<open>A provider is built from a configuration; the first configured store wins.\<close>

datatype provider = GcsProvider ExportTarballConfig | S3Provider ExportTarballConfig

record 's export_api =
  xp_CreateSnapshot :: "provider \<Rightarrow> string \<Rightarrow> VolumeSnapshot \<Rightarrow> 's \<Rightarrow> (ExportError + unit) \<times> 's"
  xp_GetSnapshotStatus :: "provider \<Rightarrow> string \<Rightarrow> 's \<Rightarrow> (ExportError + SnapshotStatus) \<times> 's"
  xp_GetSnapshotDeletionStatus :: "provider \<Rightarrow> SnapshotJob \<Rightarrow> 's \<Rightarrow> (ExportError + SnapshotStatus) \<times> 's"
  xp_CleanupSnapshot :: "provider \<Rightarrow> string \<Rightarrow> 's \<Rightarrow> (ExportError + unit) \<times> 's"
  xp_DeleteSnapshot :: "provider \<Rightarrow> string \<Rightarrow> 's \<Rightarrow> (ExportError + SnapshotStatus) \<times> 's"
  xp_DeleteSnapshotBounded :: "provider \<Rightarrow> string \<Rightarrow> 's \<Rightarrow> (ExportError + SnapshotStatus) \<times> 's"
  xp_DeleteSnapshotForUpload :: "provider \<Rightarrow> SnapshotJob \<Rightarrow> 's \<Rightarrow> (ExportError + (SnapshotJob \<times> SnapshotStatus)) \<times> 's"
  xp_CleanupSnapshotDeletion :: "provider \<Rightarrow> SnapshotJob \<Rightarrow> 's \<Rightarrow> (ExportError + unit) \<times> 's"
  xp_ListSnapshots :: "provider \<Rightarrow> 's \<Rightarrow> (ExportError + SnapshotJob list) \<times> 's"
  xp_ListSnapshotDeletionJobs :: "'s \<Rightarrow> (ExportError + SnapshotJob list) \<times> 's"
  xp_ReconcileSnapshotDeletionJob :: "SnapshotJob \<Rightarrow> 's \<Rightarrow> (ExportError + SnapshotStatus) \<times> 's"
  xp_CleanupSnapshotDeletionResources :: "SnapshotJob \<Rightarrow> 's \<Rightarrow> (ExportError + unit) \<times> 's"
  xp_DeletePreviousUpload :: "SnapshotJob \<Rightarrow> 's \<Rightarrow> (ExportError + (SnapshotJob \<times> SnapshotStatus)) \<times> 's"

record 's snap_api =
  sn_getNode :: "'s \<Rightarrow> (api_error + ChainNode) \<times> 's"
  sn_updateNode :: "ChainNode \<Rightarrow> 's \<Rightarrow> (api_error + ChainNode) \<times> 's"
  sn_updateStatus :: "ChainNode \<Rightarrow> 's \<Rightarrow> (api_error + ChainNode) \<times> 's"
  sn_patchNode :: "ChainNode \<Rightarrow> ChainNode \<Rightarrow> 's \<Rightarrow> (api_error + unit) \<times> 's"
  sn_listSnapshots :: "'s \<Rightarrow> (api_error + VolumeSnapshot list) \<times> 's"
  sn_getSnapshot :: "string \<Rightarrow> 's \<Rightarrow> (api_error + VolumeSnapshot) \<times> 's"
  sn_createSnapshot :: "VolumeSnapshot \<Rightarrow> 's \<Rightarrow> (api_error + unit) \<times> 's"
  sn_updateSnapshot :: "VolumeSnapshot \<Rightarrow> 's \<Rightarrow> (api_error + VolumeSnapshot) \<times> 's"
  sn_deleteSnapshot :: "string \<Rightarrow> uid option \<Rightarrow> 's \<Rightarrow> (api_error + unit) \<times> 's"
  sn_getSecret :: "string \<Rightarrow> 's \<Rightarrow> (api_error + labels) \<times> 's"
  sn_getServiceAccount :: "string \<Rightarrow> 's \<Rightarrow> (api_error + unit) \<times> 's"
  sn_createCheckJob :: "VolumeSnapshot \<Rightarrow> 's \<Rightarrow> (api_error + unit) \<times> 's"
  sn_createCheckPVC :: "VolumeSnapshot \<Rightarrow> quantity \<Rightarrow> 's \<Rightarrow> (api_error + unit) \<times> 's"
  sn_deleteCheckJob :: "string \<Rightarrow> 's \<Rightarrow> (api_error + unit) \<times> 's"
  sn_deleteCheckPVC :: "string \<Rightarrow> 's \<Rightarrow> (api_error + unit) \<times> 's"
  sn_listCheckJobs :: "string \<Rightarrow> 's \<Rightarrow> (api_error + (int \<times> int) list) \<times> 's"
  sn_deletePod :: "'s \<Rightarrow> (api_error + unit) \<times> 's"
  sn_now :: "'s \<Rightarrow> int \<times> 's"
  sn_exports :: "'s export_api"

text \<open>The handlers work on the node in memory and on the outside world.\<close>

type_synonym ('s, 'a) snap = "(ChainNode \<times> 's, SnapError, 'a) prog"

definition outside :: "('e \<Rightarrow> SnapError) \<Rightarrow> ('s \<Rightarrow> ('e + 'a) \<times> 's) \<Rightarrow> ('s, 'a) snap" where
  "outside wrap oper ns =
     (case oper (snd ns) of
        (Inl e, s1) \<Rightarrow> (Inl (wrap e), (fst ns, s1)) | (Inr x, s1) \<Rightarrow> (Inr x, (fst ns, s1)))"

definition clock :: "'s snap_api \<Rightarrow> ('s, int) snap" where
  "clock A ns = (case sn_now A (snd ns) of (t, s1) \<Rightarrow> (Inr t, (fst ns, s1)))"

definition theNode :: "('s, ChainNode) snap" where
  "theNode ns = (Inr (fst ns), ns)"

definition modifyNode :: "(ChainNode \<Rightarrow> ChainNode) \<Rightarrow> ('s, unit) snap" where
  "modifyNode f ns = (Inr (), (f (fst ns), snd ns))"

definition onlyIf :: "bool \<Rightarrow> ('s, unit) snap \<Rightarrow> ('s, unit) snap" where
  "onlyIf b m = (if b then m else ret ())"

fun eachOf :: "('a \<Rightarrow> ('s, unit) snap) \<Rightarrow> 'a list \<Rightarrow> ('s, unit) snap" where
  "eachOf f [] = ret ()"
| "eachOf f (x # xs) = seq (f x) (\<lambda>_. eachOf f xs)"

section \<open>Export settings\<close>

definition AnnotationSnapshotExportCleanupAcknowledgement :: string where
  "AnnotationSnapshotExportCleanupAcknowledgement = ''cosmopilot.voluzi.com/acknowledge-snapshot-export-cleanup''"
definition ConditionSnapshotExportCleanup :: string where "ConditionSnapshotExportCleanup = ''SnapshotExportCleanup''"
definition ReasonTarballCleanupRequired :: string where "ReasonTarballCleanupRequired = ''TarballCleanupRequired''"
definition ReasonTarballDeleteAttemptsExhausted :: string where
  "ReasonTarballDeleteAttemptsExhausted = ''TarballDeleteAttemptsExhausted''"
definition tarballDeleteMaxAttempts :: int where "tarballDeleteMaxAttempts = 3"
definition tarballDeleteRetryBaseDelay :: int where "tarballDeleteRetryBaseDelay = 60 * 10 ^ 9"

definition DefaultSizeLimit :: string where "DefaultSizeLimit = ''5TB''"
definition DefaultPartSize :: string where "DefaultPartSize = ''500GB''"
definition DefaultChunkSize :: string where "DefaultChunkSize = ''250MB''"
definition DefaultS3ChunkSize :: string where "DefaultS3ChunkSize = ''64MB''"
definition DefaultBufferSize :: string where "DefaultBufferSize = ''32MB''"
definition DefaultConcurrentJobs :: int where "DefaultConcurrentJobs = 10"
definition CompressionGzip :: string where "CompressionGzip = ''gzip''"

definition GetCompression :: "ExportTarballConfig \<Rightarrow> string" where
  "GetCompression e = deref CompressionGzip (et_Compression e)"

definition DeleteWhenExpired :: "ExportTarballConfig \<Rightarrow> bool" where
  "DeleteWhenExpired e = deref False (et_DeleteOnExpire e)"

definition GcsGetSizeLimit :: "GcsExportConfig \<Rightarrow> string" where
  "GcsGetSizeLimit g = deref DefaultSizeLimit (gx_SizeLimit g)"
definition GcsGetPartSize :: "GcsExportConfig \<Rightarrow> string" where
  "GcsGetPartSize g = deref DefaultPartSize (gx_PartSize g)"
definition GcsGetChunkSize :: "GcsExportConfig \<Rightarrow> string" where
  "GcsGetChunkSize g = deref DefaultChunkSize (gx_ChunkSize g)"
definition GcsGetBufferSize :: "GcsExportConfig \<Rightarrow> string" where
  "GcsGetBufferSize g = deref DefaultBufferSize (gx_BufferSize g)"
definition GcsGetConcurrentJobs :: "GcsExportConfig \<Rightarrow> int" where
  "GcsGetConcurrentJobs g = deref DefaultConcurrentJobs (gx_ConcurrentJobs g)"

definition GetEndpoint :: "S3ExportConfig \<Rightarrow> string" where
  "GetEndpoint x = deref [] (sx_Endpoint x)"
definition ShouldForcePathStyle :: "S3ExportConfig \<Rightarrow> bool" where
  "ShouldForcePathStyle x = deref False (sx_ForcePathStyle x)"
definition S3GetSizeLimit :: "S3ExportConfig \<Rightarrow> string" where
  "S3GetSizeLimit x = deref DefaultSizeLimit (sx_SizeLimit x)"
definition S3GetPartSize :: "S3ExportConfig \<Rightarrow> string" where
  "S3GetPartSize x = deref DefaultPartSize (sx_PartSize x)"
definition S3GetChunkSize :: "S3ExportConfig \<Rightarrow> string" where
  "S3GetChunkSize x = deref DefaultS3ChunkSize (sx_ChunkSize x)"
definition S3GetBufferSize :: "S3ExportConfig \<Rightarrow> string" where
  "S3GetBufferSize x = deref DefaultBufferSize (sx_BufferSize x)"
definition S3GetConcurrentJobs :: "S3ExportConfig \<Rightarrow> int" where
  "S3GetConcurrentJobs x = deref DefaultConcurrentJobs (sx_ConcurrentJobs x)"

definition snapshotsConfig :: "ChainNode \<Rightarrow> VolumeSnapshotsConfig option" where
  "snapshotsConfig n = (case cn_Persistence (cn_Spec n) of None \<Rightarrow> None | Some p \<Rightarrow> pe_Snapshots p)"

definition exportConfig :: "ChainNode \<Rightarrow> ExportTarballConfig option" where
  "exportConfig n = (case snapshotsConfig n of None \<Rightarrow> None | Some c \<Rightarrow> vs_ExportTarball c)"

definition ShouldExportTarballs :: "VolumeSnapshotsConfig \<Rightarrow> bool" where
  "ShouldExportTarballs c \<longleftrightarrow> vs_ExportTarball c \<noteq> None"

text \<open>\<open>getTarballName\<close> dereferences the export settings: without them it panics.\<close>

definition getTarballName :: "snap_env \<Rightarrow> ChainNode \<Rightarrow> VolumeSnapshot \<Rightarrow> string option" where
  "getTarballName E n snap =
     map_option (\<lambda>cfg. cns_ChainID (cn_Status n) @ ''-'' @ se_FormatTime E (vsn_CreationTimestamp snap) @
         (case et_Suffix cfg of None \<Rightarrow> [] | Some suf \<Rightarrow> ''-'' @ suf))
       (exportConfig n)"

section \<open>Records\<close>

definition zero_Destination :: SnapshotExportDestination where
  "zero_Destination = \<lparr>ds_Provider = ProviderOther [], ds_Bucket = [], ds_Region = [], ds_Endpoint = [],
     ds_ForcePathStyle = False, ds_CredentialsSecret = None, ds_ServiceAccountName = []\<rparr>"

definition zero_Export :: SnapshotExportStatus where
  "zero_Export = \<lparr>ex_ID = [], ex_SnapshotName = [], ex_SnapshotUID = [], ex_ObjectName = [],
     ex_Destination = zero_Destination, ex_Phase = ExportPhaseOther [], ex_Message = [], ex_Compression = [],
     ex_SizeLimit = [], ex_PartSize = [], ex_ChunkSize = [], ex_BufferSize = [], ex_ConcurrentJobs = 0,
     ex_DeleteOnExpire = False, ex_DeleteAttempts = 0, ex_DeleteExhausted = False, ex_LastDeleteError = [],
     ex_NextDeleteRetryAt = None\<rparr>"

fun providerText :: "SnapshotExportProvider \<Rightarrow> string" where
  "providerText SnapshotExportProviderS3 = ''s3''"
| "providerText SnapshotExportProviderGCS = ''gcs''"
| "providerText SnapshotExportProviderUnknown = ''unknown''"
| "providerText (ProviderOther p) = p"

definition exportID :: "snap_env \<Rightarrow> string list \<Rightarrow> string" where
  "exportID E parts = ''export-'' @ hexEncode (take 8 (se_Sum256 E (Join parts nul)))"

definition s3Export :: "S3ExportConfig \<Rightarrow> SnapshotExportStatus \<Rightarrow> SnapshotExportStatus" where
  "s3Export x st = st\<lparr>
     ex_Destination := \<lparr>ds_Provider = SnapshotExportProviderS3, ds_Bucket = sx_Bucket x, ds_Region = sx_Region x,
       ds_Endpoint = GetEndpoint x, ds_ForcePathStyle = ShouldForcePathStyle x,
       ds_CredentialsSecret = map_option (\<lambda>nm. \<lparr>sr_Name = nm, sr_Key = []\<rparr>) (sx_CredentialsSecret x),
       ds_ServiceAccountName = deref [] (sx_ServiceAccountName x)\<rparr>,
     ex_SizeLimit := S3GetSizeLimit x, ex_PartSize := S3GetPartSize x, ex_ChunkSize := S3GetChunkSize x,
     ex_BufferSize := S3GetBufferSize x, ex_ConcurrentJobs := S3GetConcurrentJobs x\<rparr>"

definition gcsExport :: "GcsExportConfig \<Rightarrow> SnapshotExportStatus \<Rightarrow> SnapshotExportStatus" where
  "gcsExport g st = st\<lparr>
     ex_Destination := zero_Destination\<lparr>ds_Provider := SnapshotExportProviderGCS, ds_Bucket := gx_Bucket g,
       ds_CredentialsSecret := map_option (\<lambda>k. \<lparr>sr_Name = sks_Name k, sr_Key = sks_Key k\<rparr>) (gx_CredentialsSecret g),
       ds_ServiceAccountName := deref [] (gx_ServiceAccountName g)\<rparr>,
     ex_SizeLimit := GcsGetSizeLimit g, ex_PartSize := GcsGetPartSize g, ex_ChunkSize := GcsGetChunkSize g,
     ex_BufferSize := GcsGetBufferSize g, ex_ConcurrentJobs := GcsGetConcurrentJobs g\<rparr>"

definition newSnapshotExportStatus :: "snap_env \<Rightarrow> ChainNode \<Rightarrow> VolumeSnapshot \<Rightarrow> SnapError + SnapshotExportStatus" where
  "newSnapshotExportStatus E n snap =
     (case exportConfig n of
        None \<Rightarrow> Inl ExportNotConfigured
      | Some cfg \<Rightarrow>
        (let base = zero_Export\<lparr>ex_SnapshotName := vsn_Name snap, ex_SnapshotUID := vsn_UID snap,
               ex_ObjectName := the (getTarballName E n snap), ex_Phase := SnapshotExportPhaseUploading,
               ex_Compression := GetCompression cfg, ex_DeleteOnExpire := DeleteWhenExpired cfg\<rparr>;
             st = (case et_S3 cfg of
                     Some x \<Rightarrow> Some (s3Export x base)
                   | None \<Rightarrow> (case et_GCS cfg of Some g \<Rightarrow> Some (gcsExport g base) | None \<Rightarrow> None))
         in case st of
              None \<Rightarrow> Inl NoUploadTarget
            | Some r \<Rightarrow> Inr (r\<lparr>ex_ID := exportID E
                [cn_uid n, vsn_Name snap, vsn_UID snap, ex_ObjectName r, providerText (ds_Provider (ex_Destination r)),
                 ds_Bucket (ex_Destination r), ds_Endpoint (ex_Destination r)]\<rparr>)))"

definition exportOf :: "VolumeSnapshot \<Rightarrow> SnapshotExportStatus \<Rightarrow> bool" where
  "exportOf snap x \<longleftrightarrow> ex_SnapshotName x = vsn_Name snap \<and>
     (ex_SnapshotUID x = [] \<or> vsn_UID snap = [] \<or> ex_SnapshotUID x = vsn_UID snap)"

definition snapshotExportFor :: "ChainNode \<Rightarrow> VolumeSnapshot \<Rightarrow> SnapshotExportStatus option" where
  "snapshotExportFor n snap = find (exportOf snap) (cns_SnapshotExports (cn_Status n))"

definition tarballNameForSnapshot :: "snap_env \<Rightarrow> ChainNode \<Rightarrow> VolumeSnapshot \<Rightarrow> string option" where
  "tarballNameForSnapshot E n snap =
     (case snapshotExportFor n snap of Some x \<Rightarrow> Some (ex_ObjectName x) | None \<Rightarrow> getTarballName E n snap)"

definition snapshotExportUploading :: "ChainNode \<Rightarrow> VolumeSnapshot \<Rightarrow> bool" where
  "snapshotExportUploading n snap =
     (case snapshotExportFor n snap of
        None \<Rightarrow> False
      | Some x \<Rightarrow> ex_Phase x = SnapshotExportPhaseUploading \<and>
          ds_Provider (ex_Destination x) \<noteq> SnapshotExportProviderUnknown)"

definition snapshotExportCleanupAcknowledged :: "ChainNode \<Rightarrow> VolumeSnapshot \<Rightarrow> bool" where
  "snapshotExportCleanupAcknowledged n snap =
     (case snapshotExportFor n snap of None \<Rightarrow> False | Some x \<Rightarrow> ex_Phase x = SnapshotExportPhaseAcknowledged)"

definition snapshotExportByObjectName :: "ChainNode \<Rightarrow> string \<Rightarrow> SnapshotExportStatus option" where
  "snapshotExportByObjectName n objectName =
     find (\<lambda>x. ex_ObjectName x = objectName) (cns_SnapshotExports (cn_Status n))"

fun snapshotExportPhaseTransitionAllowed :: "SnapshotExportPhase \<Rightarrow> SnapshotExportPhase \<Rightarrow> bool" where
  "snapshotExportPhaseTransitionAllowed SnapshotExportPhaseUploading to \<longleftrightarrow>
     to \<in> {SnapshotExportPhaseUploaded, SnapshotExportPhaseDeleting, SnapshotExportPhaseCleanupRequired,
       SnapshotExportPhaseDeleted}"
| "snapshotExportPhaseTransitionAllowed SnapshotExportPhaseUploaded to \<longleftrightarrow>
     to \<in> {SnapshotExportPhaseDeleting, SnapshotExportPhaseCleanupRequired, SnapshotExportPhaseDeleted}"
| "snapshotExportPhaseTransitionAllowed SnapshotExportPhaseDeleting to \<longleftrightarrow>
     to \<in> {SnapshotExportPhaseCleanupRequired, SnapshotExportPhaseDeleted}"
| "snapshotExportPhaseTransitionAllowed SnapshotExportPhaseCleanupRequired to \<longleftrightarrow>
     to \<in> {SnapshotExportPhaseDeleting, SnapshotExportPhaseDeleted, SnapshotExportPhaseAcknowledged}"
| "snapshotExportPhaseTransitionAllowed _ to \<longleftrightarrow> False"

definition snapshotDeleteRetryDelay :: "int \<Rightarrow> int" where
  "snapshotDeleteRetryDelay attempt =
     (if attempt \<le> 1 then tarballDeleteRetryBaseDelay
      else wrap64 (tarballDeleteRetryBaseDelay * wrap64 (2 ^ nat (attempt - 1))))"

definition snapshotExportDeleteTerminal :: "SnapshotExportStatus \<Rightarrow> bool" where
  "snapshotExportDeleteTerminal x = ex_DeleteExhausted x"

definition snapshotExportPreAttemptCleanup :: "SnapshotExportStatus option \<Rightarrow> bool" where
  "snapshotExportPreAttemptCleanup export =
     (case export of None \<Rightarrow> False
      | Some x \<Rightarrow> ex_Phase x = SnapshotExportPhaseCleanupRequired \<and> ex_DeleteAttempts x = 0 \<and> \<not> ex_DeleteExhausted x)"

definition describeSnapshotExport :: "snap_env \<Rightarrow> SnapshotExportStatus \<Rightarrow> string" where
  "describeSnapshotExport E x =
     providerText (ds_Provider (ex_Destination x)) @ '' bucket '' @ se_Quote E (ds_Bucket (ex_Destination x)) @
     '' object '' @ se_Quote E (ex_ObjectName x) @
     (if ds_Endpoint (ex_Destination x) \<noteq> [] then '' at '' @ ds_Endpoint (ex_Destination x) else [])"

section \<open>Changes to the stored records\<close>

text \<open>A change gets the stored node and says whether it changed it; \<open>'x\<close> is what the closure of the code
  leaves in the variables it captures.\<close>

type_synonym 'x mutation = "ChainNode \<Rightarrow> SnapError + (bool \<times> ChainNode \<times> 'x)"

definition setExports :: "SnapshotExportStatus list \<Rightarrow> ChainNode \<Rightarrow> ChainNode" where
  "setExports xs n = n\<lparr>cn_Status := (cn_Status n)\<lparr>cns_SnapshotExports := xs\<rparr>\<rparr>"

definition setConditions :: "Condition list \<Rightarrow> ChainNode \<Rightarrow> ChainNode" where
  "setConditions cs n = n\<lparr>cn_Status := (cn_Status n)\<lparr>cns_Conditions := cs\<rparr>\<rparr>"

fun changeFirst ::
    "string \<Rightarrow> (SnapshotExportStatus \<Rightarrow> SnapError + (bool \<times> SnapshotExportStatus)) \<Rightarrow> SnapshotExportStatus list
      \<Rightarrow> SnapError + (bool \<times> SnapshotExportStatus list)" where
  "changeFirst i f [] = Inr (False, [])"
| "changeFirst i f (x # xs) =
     (if ex_ID x = i then (case f x of Inl e \<Rightarrow> Inl e | Inr (b, y) \<Rightarrow> Inr (b, y # xs))
      else (case changeFirst i f xs of Inl e \<Rightarrow> Inl e | Inr (b, ys) \<Rightarrow> Inr (b, x # ys)))"

definition onExport :: "string \<Rightarrow> (SnapshotExportStatus \<Rightarrow> SnapError + (bool \<times> SnapshotExportStatus)) \<Rightarrow> unit mutation" where
  "onExport i f fresh =
     (case changeFirst i f (cns_SnapshotExports (cn_Status fresh)) of
        Inl e \<Rightarrow> Inl e | Inr (b, xs) \<Rightarrow> Inr (b, setExports xs fresh, ()))"

definition exportPhase :: "SnapshotExportPhase \<Rightarrow> string \<Rightarrow> SnapshotExportStatus \<Rightarrow> SnapError + (bool \<times> SnapshotExportStatus)" where
  "exportPhase phase message x =
     (if ex_Phase x = phase \<and> ex_Message x = message then Inr (False, x)
      else if ex_Phase x \<noteq> phase \<and> \<not> snapshotExportPhaseTransitionAllowed (ex_Phase x) phase
      then Inl (BadTransition (ex_ID x) (ex_Phase x) phase)
      else Inr (True, x\<lparr>ex_Phase := phase, ex_Message := message\<rparr>))"

definition startAttempt :: "int \<Rightarrow> int \<Rightarrow> SnapshotExportStatus \<Rightarrow> SnapError + (bool \<times> SnapshotExportStatus)" where
  "startAttempt expectedAttempts now x =
     (if ex_DeleteAttempts x \<noteq> expectedAttempts then Inr (False, x)
      else if snapshotExportDeleteTerminal x \<or> ex_DeleteAttempts x \<ge> tarballDeleteMaxAttempts then Inr (False, x)
      else if ex_DeleteAttempts x > 0 \<and> ex_NextDeleteRetryAt x = None then Inr (False, x)
      else if (case ex_NextDeleteRetryAt x of None \<Rightarrow> False | Some t \<Rightarrow> now < t) then Inr (False, x)
      else if ex_Phase x \<noteq> SnapshotExportPhaseDeleting \<and>
              \<not> snapshotExportPhaseTransitionAllowed (ex_Phase x) SnapshotExportPhaseDeleting
      then Inl (BadTransition (ex_ID x) (ex_Phase x) SnapshotExportPhaseDeleting)
      else Inr (True, x\<lparr>ex_DeleteAttempts := ex_DeleteAttempts x + 1, ex_NextDeleteRetryAt := None,
             ex_Phase := SnapshotExportPhaseDeleting, ex_Message := []\<rparr>))"

definition resumeAttempt :: "SnapshotExportStatus \<Rightarrow> SnapError + (bool \<times> SnapshotExportStatus)" where
  "resumeAttempt x =
     (if ex_Phase x \<noteq> SnapshotExportPhaseCleanupRequired \<or> ex_DeleteAttempts x = 0 \<or> snapshotExportDeleteTerminal x
      then Inr (False, x)
      else Inr (True, x\<lparr>ex_Phase := SnapshotExportPhaseDeleting, ex_Message := []\<rparr>))"

definition terminalSnapshotExportDeleteMessage :: "snap_env \<Rightarrow> SnapshotExportStatus \<Rightarrow> string" where
  "terminalSnapshotExportDeleteMessage E x =
     ''automatic deletion of '' @ describeSnapshotExport E x @ '' failed after '' @ Itoa (ex_DeleteAttempts x) @
     '' attempts: '' @ ex_LastDeleteError x @
     ''; retries are exhausted, or acknowledge cleanup with annotation '' @
     se_Quote E AnnotationSnapshotExportCleanupAcknowledgement @ ''='' @ se_Quote E (ex_ID x)"

definition recordFailure :: "snap_env \<Rightarrow> string \<Rightarrow> int \<Rightarrow> SnapshotExportStatus \<Rightarrow> SnapError + (bool \<times> SnapshotExportStatus)" where
  "recordFailure E failure now x =
     (if snapshotExportDeleteTerminal x then Inr (False, x)
      else if ex_NextDeleteRetryAt x \<noteq> None then Inr (False, x)
      else
        (let y = x\<lparr>ex_DeleteAttempts := (if ex_DeleteAttempts x = 0 then 1 else ex_DeleteAttempts x),
                   ex_LastDeleteError := failure\<rparr>
         in if ex_DeleteAttempts y \<ge> tarballDeleteMaxAttempts
            then (let z = y\<lparr>ex_DeleteExhausted := True, ex_NextDeleteRetryAt := None,
                            ex_Phase := SnapshotExportPhaseCleanupRequired\<rparr>
                  in Inr (True, z\<lparr>ex_Message := terminalSnapshotExportDeleteMessage E z\<rparr>))
            else (let retryAt = now + snapshotDeleteRetryDelay (ex_DeleteAttempts y)
                  in Inr (True, y\<lparr>ex_NextDeleteRetryAt := Some retryAt, ex_Phase := SnapshotExportPhaseDeleting,
                       ex_Message := ''delete attempt '' @ Itoa (ex_DeleteAttempts y) @ '' failed; retry after '' @
                         se_RFC3339 E retryAt\<rparr>))))"

text \<open>The condition that tells the operator about exports that need a cleanup.\<close>

definition syncSnapshotExportCleanupCondition :: "snap_env \<Rightarrow> ChainNode \<Rightarrow> ChainNode" where
  "syncSnapshotExportCleanupCondition E n =
     (let pending = filter (\<lambda>x. ex_Phase x = SnapshotExportPhaseCleanupRequired) (cns_SnapshotExports (cn_Status n)) in
      if pending = []
      then setConditions (se_RemoveCondition E ConditionSnapshotExportCleanup (cns_Conditions (cn_Status n))) n
      else (let primary = (case find snapshotExportDeleteTerminal pending of Some x \<Rightarrow> x | None \<Rightarrow> hd pending)
            in setConditions (se_SetCondition E
                 \<lparr>co_Type = ConditionSnapshotExportCleanup, co_Status = ''True'',
                  co_ObservedGeneration = m_Generation (cn_Meta n),
                  co_Reason = (if snapshotExportDeleteTerminal primary then ReasonTarballDeleteAttemptsExhausted
                    else ReasonTarballCleanupRequired),
                  co_Message = (if length pending > 1
                    then Itoa (int (length pending)) @ '' snapshot exports require operator cleanup; first: '' @
                      ex_Message primary else ex_Message primary)\<rparr>
                 (cns_Conditions (cn_Status n))) n))"

text \<open>The cleanup condition of the stored node replaces that of the node in memory, in its place.\<close>

fun mergeConditions :: "Condition option \<Rightarrow> Condition list \<Rightarrow> Condition list" where
  "mergeConditions cleanup [] = (case cleanup of None \<Rightarrow> [] | Some c \<Rightarrow> [c])"
| "mergeConditions cleanup (c # cs) =
     (if co_Type c \<noteq> ConditionSnapshotExportCleanup then c # mergeConditions cleanup cs
      else (case cleanup of
              None \<Rightarrow> mergeConditions None cs
            | Some d \<Rightarrow> d # filter (\<lambda>x. co_Type x \<noteq> ConditionSnapshotExportCleanup) cs))"

definition mergeSnapshotExportOwnedStatus :: "snap_env \<Rightarrow> ChainNode \<Rightarrow> ChainNode \<Rightarrow> ChainNode" where
  "mergeSnapshotExportOwnedStatus E latest n =
     setConditions (mergeConditions (se_FindCondition E (cns_Conditions (cn_Status latest)) ConditionSnapshotExportCleanup)
         (cns_Conditions (cn_Status n)))
       (setExports (cns_SnapshotExports (cn_Status latest)) n)"

text \<open>One round of \<open>mutateSnapshotExportStatus\<close>: it returns whether it wrote, the stored node after it and the
  captured value.\<close>

definition mutateRound :: "snap_env \<Rightarrow> 's snap_api \<Rightarrow> 'x mutation \<Rightarrow> ('s, SnapError, bool \<times> ChainNode \<times> 'x) prog" where
  "mutateRound E A mutate =
     seq (call SnapApi (sn_getNode A)) (\<lambda>fresh.
       case mutate fresh of
         Inl e \<Rightarrow> fail e
       | Inr (mutated, fresh1, x) \<Rightarrow>
           (let fresh2 = syncSnapshotExportCleanupCondition E fresh1 in
            if \<not> mutated \<and> cns_Conditions (cn_Status fresh1) = cns_Conditions (cn_Status fresh2)
            then ret (False, fresh2, x)
            else seq (call SnapApi (sn_updateStatus A fresh2)) (\<lambda>latest. ret (True, latest, x))))"

text \<open>\<open>retry.RetryOnConflict\<close>: the function is repeated after a conflict, \<open>k\<close> times at most.\<close>

fun retryOnConflict :: "nat \<Rightarrow> ('s, SnapError, 'a) prog \<Rightarrow> ('s, SnapError, 'a) prog" where
  "retryOnConflict 0 f s = f s"
| "retryOnConflict (Suc k) f s =
     (case f s of
        (Inl e, s1) \<Rightarrow> if e = SnapApi Conflict then retryOnConflict k f s1 else (Inl e, s1)
      | (Inr x, s1) \<Rightarrow> (Inr x, s1))"

definition mutateSnapshotExportStatus :: "snap_env \<Rightarrow> 's snap_api \<Rightarrow> 'x mutation \<Rightarrow> ('s, bool \<times> 'x) snap" where
  "mutateSnapshotExportStatus E A mutate =
     (if \<not> se_HasClient E then fail StatusUnavailable
      else seq (outside id (retryOnConflict (se_Retries E) (mutateRound E A mutate))) (\<lambda>(changed, latest, x).
        seq (modifyNode (mergeSnapshotExportOwnedStatus E latest)) (\<lambda>_. ret (changed, x))))"

abbreviation changeExport ::
    "snap_env \<Rightarrow> 's snap_api \<Rightarrow> string \<Rightarrow> (SnapshotExportStatus \<Rightarrow> SnapError + (bool \<times> SnapshotExportStatus)) \<Rightarrow> ('s, bool) snap" where
  "changeExport E A i f \<equiv> seq (mutateSnapshotExportStatus E A (onExport i f)) (\<lambda>(changed, _). ret changed)"

definition setSnapshotExportPhase :: "snap_env \<Rightarrow> 's snap_api \<Rightarrow> string \<Rightarrow> SnapshotExportPhase \<Rightarrow> string \<Rightarrow> ('s, bool) snap" where
  "setSnapshotExportPhase E A i phase message = changeExport E A i (exportPhase phase message)"

definition startSnapshotExportDeleteAttempt :: "snap_env \<Rightarrow> 's snap_api \<Rightarrow> string \<Rightarrow> int \<Rightarrow> int \<Rightarrow> ('s, bool) snap" where
  "startSnapshotExportDeleteAttempt E A i expectedAttempts now = changeExport E A i (startAttempt expectedAttempts now)"

definition resumeSnapshotExportDeleteAttempt :: "snap_env \<Rightarrow> 's snap_api \<Rightarrow> string \<Rightarrow> ('s, bool) snap" where
  "resumeSnapshotExportDeleteAttempt E A i = changeExport E A i resumeAttempt"

definition recordSnapshotExportDeleteFailure :: "snap_env \<Rightarrow> 's snap_api \<Rightarrow> string \<Rightarrow> string \<Rightarrow> int \<Rightarrow> ('s, bool) snap" where
  "recordSnapshotExportDeleteFailure E A i failure now = changeExport E A i (recordFailure E failure now)"

definition requireSnapshotExportCleanup :: "snap_env \<Rightarrow> 's snap_api \<Rightarrow> SnapshotExportStatus \<Rightarrow> string \<Rightarrow> ('s, unit) snap" where
  "requireSnapshotExportCleanup E A export message =
     seq (setSnapshotExportPhase E A (ex_ID export) SnapshotExportPhaseCleanupRequired message) (\<lambda>_. ret ())"

definition appendExport :: "VolumeSnapshot \<Rightarrow> (ChainNode \<Rightarrow> SnapError + SnapshotExportStatus) \<Rightarrow> unit mutation" where
  "appendExport snap mk fresh =
     (if snapshotExportFor fresh snap \<noteq> None then Inr (False, fresh, ())
      else case mk fresh of
             Inl e \<Rightarrow> Inl e
           | Inr x \<Rightarrow> Inr (True, setExports (cns_SnapshotExports (cn_Status fresh) @ [x]) fresh, ()))"

definition ensureSnapshotExportStatus :: "snap_env \<Rightarrow> 's snap_api \<Rightarrow> VolumeSnapshot \<Rightarrow> ('s, SnapshotExportStatus) snap" where
  "ensureSnapshotExportStatus E A snap =
     seq theNode (\<lambda>n.
       case snapshotExportFor n snap of
         Some x \<Rightarrow> ret x
       | None \<Rightarrow>
           seq (mutateSnapshotExportStatus E A (appendExport snap (\<lambda>fresh. newSnapshotExportStatus E fresh snap))) (\<lambda>_.
             seq theNode (\<lambda>n1. case snapshotExportFor n1 snap of Some x \<Rightarrow> ret x | None \<Rightarrow> fail NotPersisted)))"

text \<open>The record of an upload of an older version of the controller, whose destination is not known.\<close>

definition unknownExport :: "snap_env \<Rightarrow> ChainNode \<Rightarrow> VolumeSnapshot \<Rightarrow> SnapshotExportStatus" where
  "unknownExport E n snap =
     (let i = exportID E [cn_uid n, vsn_Name snap, vsn_UID snap, ''unknown'']
      in zero_Export\<lparr>ex_ID := i, ex_SnapshotName := vsn_Name snap, ex_SnapshotUID := vsn_UID snap,
           ex_Destination := zero_Destination\<lparr>ds_Provider := SnapshotExportProviderUnknown\<rparr>,
           ex_Phase := SnapshotExportPhaseCleanupRequired,
           ex_Message := ''snapshot export '' @ i @
             '' has no controller-owned object name or upload destination; identify and clean up the original object, then acknowledge with annotation '' @
             se_Quote E AnnotationSnapshotExportCleanupAcknowledgement @ ''='' @ se_Quote E i,
           ex_DeleteOnExpire := (case exportConfig n of Some cfg \<Rightarrow> DeleteWhenExpired cfg | None \<Rightarrow> True)\<rparr>)"

text \<open>\<open>snapshotExportFor\<close> after the change may be nil; the callers dereference it.\<close>

definition ensureUnknownSnapshotExportStatus ::
    "snap_env \<Rightarrow> 's snap_api \<Rightarrow> VolumeSnapshot \<Rightarrow> ('s, SnapshotExportStatus option) snap" where
  "ensureUnknownSnapshotExportStatus E A snap =
     seq theNode (\<lambda>n.
       case snapshotExportFor n snap of
         Some x \<Rightarrow> ret (Some x)
       | None \<Rightarrow>
           seq (mutateSnapshotExportStatus E A (appendExport snap (\<lambda>_. Inr (unknownExport E n snap)))) (\<lambda>_.
             seq theNode (\<lambda>n1. ret (snapshotExportFor n1 snap))))"

definition keepExports :: "(SnapshotExportStatus \<Rightarrow> bool) \<Rightarrow> unit mutation" where
  "keepExports keep fresh =
     (let old = cns_SnapshotExports (cn_Status fresh); kept = filter keep old in
      if length kept = length old then Inr (False, fresh, ()) else Inr (True, setExports kept fresh, ()))"

definition removeSnapshotExport :: "snap_env \<Rightarrow> 's snap_api \<Rightarrow> string \<Rightarrow> ('s, unit) snap" where
  "removeSnapshotExport E A i =
     seq (mutateSnapshotExportStatus E A (keepExports (\<lambda>x. ex_ID x \<noteq> i))) (\<lambda>_. ret ())"

definition exportRetained :: "VolumeSnapshot list \<Rightarrow> SnapshotExportStatus \<Rightarrow> bool" where
  "exportRetained snapshots x \<longleftrightarrow>
     (\<exists>s\<in>set snapshots. vsn_Name s = ex_SnapshotName x \<and> (ex_SnapshotUID x = [] \<or> vsn_UID s = ex_SnapshotUID x)) \<or>
     (ex_DeleteOnExpire x \<and> ex_Phase x \<noteq> SnapshotExportPhaseDeleted \<and> ex_Phase x \<noteq> SnapshotExportPhaseAcknowledged)"

definition pruneRetainedSnapshotExports :: "snap_env \<Rightarrow> 's snap_api \<Rightarrow> VolumeSnapshot list \<Rightarrow> ('s, unit) snap" where
  "pruneRetainedSnapshotExports E A snapshots =
     seq (mutateSnapshotExportStatus E A (keepExports (exportRetained snapshots))) (\<lambda>_. ret ())"

definition removeRetainedSnapshotExportIfGone :: "snap_env \<Rightarrow> 's snap_api \<Rightarrow> VolumeSnapshot \<Rightarrow> string \<Rightarrow> ('s, unit) snap" where
  "removeRetainedSnapshotExportIfGone E A snap i ns =
     (case sn_getSnapshot A (vsn_Name snap) (snd ns) of
        (Inr current, s1) \<Rightarrow>
          if vsn_UID current = vsn_UID snap then (Inr (), (fst ns, s1)) else removeSnapshotExport E A i (fst ns, s1)
      | (Inl e, s1) \<Rightarrow>
          if e = NotFound then removeSnapshotExport E A i (fst ns, s1) else (Inl (SnapApi e), (fst ns, s1)))"

section \<open>Acknowledgements\<close>

text \<open>\<open>strings.TrimSpace\<close> on ASCII text.\<close>

definition isSpace :: "char \<Rightarrow> bool" where
  "isSpace c \<longleftrightarrow> (of_char c :: nat) \<in> {9, 10, 11, 12, 13, 32}"

definition TrimSpace :: "string \<Rightarrow> string" where
  "TrimSpace s = rev (dropWhile isSpace (rev (dropWhile isSpace s)))"

definition listedAcknowledgements :: "ChainNode \<Rightarrow> string list" where
  "listedAcknowledgements n =
     filter (\<lambda>i. i \<noteq> []) (map TrimSpace
       (SplitByte (label (m_Annotations (cn_Meta n)) AnnotationSnapshotExportCleanupAcknowledgement) (CHR '','')))"

text \<open>The set is a list without repetitions.\<close>

definition acknowledgedSnapshotExportIDs :: "ChainNode \<Rightarrow> string list" where
  "acknowledgedSnapshotExportIDs n = remdups (listedAcknowledgements n)"

definition acknowledgeExport :: "string list \<Rightarrow> SnapshotExportStatus \<Rightarrow> SnapshotExportStatus" where
  "acknowledgeExport requested x =
     (if ex_ID x \<in> set requested \<and> ex_Phase x = SnapshotExportPhaseCleanupRequired
      then x\<lparr>ex_Phase := SnapshotExportPhaseAcknowledged,
             ex_Message := ''cleanup explicitly acknowledged by operator without deletion proof''\<rparr>
      else x)"

definition acknowledgeExports :: "string list mutation" where
  "acknowledgeExports fresh =
     (let requested = acknowledgedSnapshotExportIDs fresh; old = cns_SnapshotExports (cn_Status fresh) in
      Inr (list_ex (\<lambda>x. ex_ID x \<in> set requested \<and> ex_Phase x = SnapshotExportPhaseCleanupRequired) old,
           setExports (map (acknowledgeExport requested) old) fresh, requested))"

definition annotateNode :: "string \<Rightarrow> string \<Rightarrow> ChainNode \<Rightarrow> ChainNode" where
  "annotateNode k v n = n\<lparr>cn_Meta := (cn_Meta n)\<lparr>m_Annotations := (m_Annotations (cn_Meta n))(k \<mapsto> v)\<rparr>\<rparr>"

definition unannotateNode :: "string \<Rightarrow> ChainNode \<Rightarrow> ChainNode" where
  "unannotateNode k n = n\<lparr>cn_Meta := (cn_Meta n)\<lparr>m_Annotations := (m_Annotations (cn_Meta n))(k := None)\<rparr>\<rparr>"

definition removeAcknowledgementsRound :: "'s snap_api \<Rightarrow> string list \<Rightarrow> ('s, SnapError, unit) prog" where
  "removeAcknowledgementsRound A ids =
     seq (call SnapApi (sn_getNode A)) (\<lambda>fresh.
       let remaining = filter (\<lambda>i. i \<notin> set ids) (listedAcknowledgements fresh) in
       if length remaining = length (acknowledgedSnapshotExportIDs fresh) then ret ()
       else call SnapApi (sn_patchNode A fresh
              (if remaining = [] then unannotateNode AnnotationSnapshotExportCleanupAcknowledgement fresh
               else annotateNode AnnotationSnapshotExportCleanupAcknowledgement (Join remaining '','') fresh)))"

definition removeSnapshotExportAcknowledgementIDs :: "snap_env \<Rightarrow> 's snap_api \<Rightarrow> string list \<Rightarrow> ('s, unit) snap" where
  "removeSnapshotExportAcknowledgementIDs E A ids =
     (if ids = [] then ret ()
      else if \<not> se_HasClient E then fail StatusUnavailable
      else outside id (retryOnConflict (se_Retries E) (removeAcknowledgementsRound A ids)))"

definition reconcileSnapshotExportAcknowledgements :: "snap_env \<Rightarrow> 's snap_api \<Rightarrow> ('s, unit) snap" where
  "reconcileSnapshotExportAcknowledgements E A =
     seq theNode (\<lambda>n.
       if acknowledgedSnapshotExportIDs n = [] then ret ()
       else seq (mutateSnapshotExportStatus E A acknowledgeExports) (\<lambda>(_, requested).
              removeSnapshotExportAcknowledgementIDs E A requested))"

end
