(* ===== verification/Export_Deletion.thy ===== *)
theory Export_Deletion
  imports Snapshot_Exports
begin

text \<open>
  The deletion of exported objects: \<open>reconcileSnapshotExportDeletion\<close> and the functions it calls
  (\<open>src/internal/controllers/chainnode/snapshots.go\<close> and \<open>snapshot_exports.go\<close>), the providers built from a
  configuration or from a record, and the completion of acknowledged records.
\<close>

section \<open>Providers\<close>

definition tarballProviderForConfig :: "ExportTarballConfig option \<Rightarrow> SnapError + provider" where
  "tarballProviderForConfig cfg =
     (case cfg of
        None \<Rightarrow> Inl NoUploadTarget
      | Some c \<Rightarrow> if et_GCS c \<noteq> None then Inr (GcsProvider c)
                  else if et_S3 c \<noteq> None then Inr (S3Provider c) else Inl NoUploadTarget)"

definition getTarballExportProvider :: "ChainNode \<Rightarrow> SnapError + provider" where
  "getTarballExportProvider n =
     (case exportConfig n of None \<Rightarrow> Inl NoUploadTarget | Some c \<Rightarrow> tarballProviderForConfig (Some c))"

definition optional :: "string \<Rightarrow> string option" where
  "optional s = (if s = [] then None else Some s)"

definition exportConfigForStatus :: "SnapshotExportStatus \<Rightarrow> SnapError + ExportTarballConfig" where
  "exportConfigForStatus x =
     (let d = ex_Destination x;
          cfg = \<lparr>et_Suffix = None, et_DeleteOnExpire = None, et_Compression = Some (ex_Compression x),
                 et_GCS = None, et_S3 = None\<rparr>
      in case ds_Provider d of
        SnapshotExportProviderS3 \<Rightarrow>
          Inr (cfg\<lparr>et_S3 := Some \<lparr>sx_Bucket = ds_Bucket d, sx_Region = ds_Region d, sx_Endpoint = optional (ds_Endpoint d),
             sx_ForcePathStyle = Some (ds_ForcePathStyle d),
             sx_CredentialsSecret = map_option sr_Name (ds_CredentialsSecret d),
             sx_ServiceAccountName = optional (ds_ServiceAccountName d), sx_SizeLimit = optional (ex_SizeLimit x),
             sx_PartSize = optional (ex_PartSize x), sx_ChunkSize = optional (ex_ChunkSize x),
             sx_BufferSize = optional (ex_BufferSize x),
             sx_ConcurrentJobs = (if ex_ConcurrentJobs x > 0 then Some (ex_ConcurrentJobs x) else None)\<rparr>\<rparr>)
      | SnapshotExportProviderGCS \<Rightarrow>
          Inr (cfg\<lparr>et_GCS := Some \<lparr>gx_Bucket = ds_Bucket d,
             gx_CredentialsSecret = map_option (\<lambda>r. \<lparr>sks_Name = sr_Name r, sks_Key = sr_Key r\<rparr>) (ds_CredentialsSecret d),
             gx_ServiceAccountName = optional (ds_ServiceAccountName d), gx_SizeLimit = optional (ex_SizeLimit x),
             gx_PartSize = optional (ex_PartSize x), gx_ChunkSize = optional (ex_ChunkSize x),
             gx_BufferSize = optional (ex_BufferSize x),
             gx_ConcurrentJobs = (if ex_ConcurrentJobs x > 0 then Some (ex_ConcurrentJobs x) else None)\<rparr>\<rparr>)
      | _ \<Rightarrow> Inl (UnknownProvider (ex_ID x)))"

definition tarballProviderForExport :: "SnapshotExportStatus \<Rightarrow> SnapError + provider" where
  "tarballProviderForExport x =
     (case exportConfigForStatus x of Inl e \<Rightarrow> Inl e | Inr cfg \<Rightarrow> tarballProviderForConfig (Some cfg))"

definition orFail :: "SnapError + 'a \<Rightarrow> ('s, 'a) snap" where
  "orFail r = (case r of Inl e \<Rightarrow> fail e | Inr x \<Rightarrow> ret x)"

text \<open>A job as the controller names it to a provider.\<close>

definition deletionJob :: "string \<Rightarrow> bool \<Rightarrow> SnapshotJob" where
  "deletionJob objectName bound =
     \<lparr>sj_Name = objectName, sj_Purpose = SnapshotJobDelete, sj_Exporter = [], sj_Failure = [],
      sj_RequireDestinationIdentity = bound, sj_Handle = []\<rparr>"

section \<open>References of a destination\<close>

text \<open>\<open>Some\<close> message when a referenced object is unavailable; other errors end the handler.\<close>

definition requiredKeys :: "SnapshotExportStatus \<Rightarrow> SnapshotExportSecretReference \<Rightarrow> string list" where
  "requiredKeys x ref =
     (case ds_Provider (ex_Destination x) of
        SnapshotExportProviderGCS \<Rightarrow> if sr_Key ref \<noteq> [] then [sr_Key ref] else []
      | SnapshotExportProviderS3 \<Rightarrow> [''AWS_ACCESS_KEY_ID'', ''AWS_SECRET_ACCESS_KEY'']
      | _ \<Rightarrow> [])"

definition unavailable :: "snap_env \<Rightarrow> SnapshotExportStatus \<Rightarrow> string \<Rightarrow> string" where
  "unavailable E x what =
     ''snapshot export '' @ ex_ID x @ '' requires cleanup of '' @ describeSnapshotExport E x @ '', but '' @ what @
     ''; restore it or acknowledge cleanup with annotation '' @
     se_Quote E AnnotationSnapshotExportCleanupAcknowledgement @ ''='' @ se_Quote E (ex_ID x)"

definition secretProblem :: "snap_env \<Rightarrow> 's snap_api \<Rightarrow> SnapshotExportStatus \<Rightarrow> ('s, SnapError, string option) prog" where
  "secretProblem E A x s =
     (case ds_CredentialsSecret (ex_Destination x) of
        None \<Rightarrow> (Inr None, s)
      | Some ref \<Rightarrow>
        (case sn_getSecret A (sr_Name ref) s of
           (Inl e, s1) \<Rightarrow>
             if e = NotFound
             then (Inr (Some (unavailable E x (''credentials Secret '' @ se_Quote E (sr_Name ref) @ '' is unavailable''))), s1)
             else (Inl (SnapApi e), s1)
         | (Inr dat, s1) \<Rightarrow>
             (case find (\<lambda>k. label dat k = []) (requiredKeys x ref) of
                None \<Rightarrow> (Inr None, s1)
              | Some k \<Rightarrow> (Inr (Some (unavailable E x (''credentials Secret '' @ se_Quote E (sr_Name ref) @
                    '' does not contain key '' @ se_Quote E k))), s1))))"

definition serviceAccountProblem :: "snap_env \<Rightarrow> 's snap_api \<Rightarrow> SnapshotExportStatus \<Rightarrow> ('s, SnapError, string option) prog" where
  "serviceAccountProblem E A x s =
     (let sa = ds_ServiceAccountName (ex_Destination x) in
      if sa = [] then (Inr None, s)
      else case sn_getServiceAccount A sa s of
             (Inl e, s1) \<Rightarrow>
               if e = NotFound then (Inr (Some (unavailable E x (''ServiceAccount '' @ se_Quote E sa @ '' is unavailable''))), s1)
               else (Inl (SnapApi e), s1)
           | (Inr _, s1) \<Rightarrow> (Inr None, s1))"

definition validateSnapshotExportReferences :: "snap_env \<Rightarrow> 's snap_api \<Rightarrow> SnapshotExportStatus \<Rightarrow> ('s, SnapError, string option) prog" where
  "validateSnapshotExportReferences E A x =
     (if \<not> se_HasClientSet E then fail StatusUnavailable
      else seq (secretProblem E A x) (\<lambda>p. case p of Some m \<Rightarrow> ret (Some m) | None \<Rightarrow> serviceAccountProblem E A x))"

definition snapshotExportReferencesAvailable :: "snap_env \<Rightarrow> 's snap_api \<Rightarrow> SnapshotExportStatus \<Rightarrow> ('s, bool) snap" where
  "snapshotExportReferencesAvailable E A x =
     seq (outside id (validateSnapshotExportReferences E A x)) (\<lambda>p.
       case p of None \<Rightarrow> ret True | Some m \<Rightarrow> seq (requireSnapshotExportCleanup E A x m) (\<lambda>_. ret False))"

section \<open>Deletion\<close>

definition snapshotDeletionFailure :: "'s snap_api \<Rightarrow> string \<Rightarrow> ('s, string) snap" where
  "snapshotDeletionFailure A objectName =
     seq (outside SnapExport (xp_ListSnapshotDeletionJobs (sn_exports A))) (\<lambda>jobs.
       ret (case find (\<lambda>j. sj_Name j = objectName) jobs of Some j \<Rightarrow> sj_Failure j | None \<Rightarrow> []))"

text \<open>A call of a provider whose error is recorded as a failed attempt before it is returned.\<close>

definition deleteBounded :: "snap_env \<Rightarrow> 's snap_api \<Rightarrow> provider \<Rightarrow> SnapshotExportStatus \<Rightarrow> int \<Rightarrow> ('s, SnapshotStatus) snap" where
  "deleteBounded E A p x now ns =
     (case xp_DeleteSnapshotBounded (sn_exports A) p (ex_ObjectName x) (snd ns) of
        (Inr status, s1) \<Rightarrow> (Inr status, (fst ns, s1))
      | (Inl e, s1) \<Rightarrow>
          seq (recordSnapshotExportDeleteFailure E A (ex_ID x) (se_ErrorText E e) now) (\<lambda>_. fail (SnapExport e))
            (fst ns, s1))"

text \<open>The delete job is active.\<close>

definition deletionActive :: "snap_env \<Rightarrow> 's snap_api \<Rightarrow> SnapshotExportStatus \<Rightarrow> int \<Rightarrow> ('s, SnapshotStatus) snap" where
  "deletionActive E A x now =
     seq (snapshotExportReferencesAvailable E A x) (\<lambda>available.
       seq (if \<not> available then ret False
            else if ex_DeleteAttempts x = 0
            then startSnapshotExportDeleteAttempt E A (ex_ID x) (ex_DeleteAttempts x) now
            else if ex_Phase x = SnapshotExportPhaseCleanupRequired
            then resumeSnapshotExportDeleteAttempt E A (ex_ID x) else ret False)
         (\<lambda>_. ret SnapshotActive))"

text \<open>The delete job has failed.\<close>

definition deletionFailed :: "snap_env \<Rightarrow> 's snap_api \<Rightarrow> provider \<Rightarrow> SnapshotExportStatus \<Rightarrow> int \<Rightarrow> ('s, SnapshotStatus) snap" where
  "deletionFailed E A p x now =
     seq (if ex_DeleteAttempts x = 0
          then startSnapshotExportDeleteAttempt E A (ex_ID x) (ex_DeleteAttempts x) now else ret False) (\<lambda>_.
       seq (snapshotDeletionFailure A (ex_ObjectName x)) (\<lambda>failure.
         seq (recordSnapshotExportDeleteFailure E A (ex_ID x) (if failure = [] then ''delete Job failed'' else failure) now) (\<lambda>_.
           seq (outside SnapExport (xp_CleanupSnapshotDeletion (sn_exports A) p (deletionJob (ex_ObjectName x) True))) (\<lambda>_.
             ret SnapshotFailed))))"

text \<open>There is no delete job. \<open>again\<close> is the call of \<open>reconcileSnapshotExportDeletion\<close> on the record found by the
  object name.\<close>

definition deletionNotFound ::
    "snap_env \<Rightarrow> 's snap_api \<Rightarrow> provider \<Rightarrow> SnapshotExportStatus \<Rightarrow> int
      \<Rightarrow> (SnapshotExportStatus option \<Rightarrow> ('s, SnapshotStatus) snap) \<Rightarrow> ('s, SnapshotStatus) snap" where
  "deletionNotFound E A p x now again =
     (if ex_DeleteAttempts x > 0 \<and> ex_NextDeleteRetryAt x = None \<and> \<not> ex_DeleteExhausted x
      then seq (recordSnapshotExportDeleteFailure E A (ex_ID x)
                 (''delete Job for '' @ describeSnapshotExport E x @ '' disappeared before completion'') now) (\<lambda>_.
             ret SnapshotFailed)
      else seq (snapshotExportReferencesAvailable E A x) (\<lambda>available.
        if \<not> available then ret SnapshotActive
        else if (case ex_NextDeleteRetryAt x of None \<Rightarrow> False | Some t \<Rightarrow> now < t) then ret SnapshotActive
        else seq (startSnapshotExportDeleteAttempt E A (ex_ID x) (ex_DeleteAttempts x) now) (\<lambda>started.
          if \<not> started then ret SnapshotActive
          else seq (deleteBounded E A p x now) (\<lambda>status.
            if status = SnapshotFailed
            then seq theNode (\<lambda>n. again (snapshotExportByObjectName n (ex_ObjectName x)))
            else ret status))))"

text \<open>The fuel bounds the depth of the recursion; without it the result is the error \<open>SnapPanic\<close>, which
  stands for a nil dereference and for a recursion that has not returned.\<close>

fun reconcileSnapshotExportDeletion ::
    "nat \<Rightarrow> snap_env \<Rightarrow> 's snap_api \<Rightarrow> SnapshotExportStatus option \<Rightarrow> ('s, SnapshotStatus) snap" where
  "reconcileSnapshotExportDeletion 0 E A export = fail SnapPanic"
| "reconcileSnapshotExportDeletion (Suc fuel) E A None = fail SnapPanic"
| "reconcileSnapshotExportDeletion (Suc fuel) E A (Some x) =
     seq (orFail (tarballProviderForExport x)) (\<lambda>p.
       if snapshotExportDeleteTerminal x
       then seq (outside SnapExport (xp_CleanupSnapshotDeletion (sn_exports A) p (deletionJob (ex_ObjectName x) True)))
              (\<lambda>_. ret SnapshotFailed)
       else seq (outside SnapExport (xp_GetSnapshotDeletionStatus (sn_exports A) p (deletionJob (ex_ObjectName x) True))) (\<lambda>status.
         seq (clock A) (\<lambda>now.
           case status of
             SnapshotActive \<Rightarrow> deletionActive E A x now
           | SnapshotFailed \<Rightarrow> deletionFailed E A p x now
           | SnapshotNotFound \<Rightarrow> deletionNotFound E A p x now (reconcileSnapshotExportDeletion fuel E A)
           | other \<Rightarrow> ret other)))"

definition completeAcknowledged :: "snap_env \<Rightarrow> 's snap_api \<Rightarrow> SnapshotExportStatus \<Rightarrow> ('s, unit) snap" where
  "completeAcknowledged E A x =
     (if ex_Phase x \<noteq> SnapshotExportPhaseAcknowledged then ret ()
      else seq (if ds_Provider (ex_Destination x) \<noteq> SnapshotExportProviderUnknown
                then seq (orFail (tarballProviderForExport x)) (\<lambda>p.
                  outside SnapExport (xp_CleanupSnapshotDeletion (sn_exports A) p (deletionJob (ex_ObjectName x) False)))
                else ret ())
           (\<lambda>_. removeSnapshotExport E A (ex_ID x)))"

end
