(* ===== verification/Snapshots.thy ===== *)
theory Snapshots
  imports Export_Deletion Pod_Lifecycle
begin

text \<open>
  Volume snapshots of a node: \<open>src/internal/controllers/chainnode/snapshots.go\<close>. \<open>ensureVolumeSnapshots\<close>
  lists the snapshots of the node, repairs what the node records about them, moves each snapshot through
  readiness, integrity check and export, enforces the retention by time and by number, cleans up exported
  objects without a snapshot, and starts a new snapshot when one is due.

  The handlers run on the node in memory and the world, as in \<open>Snapshot_Exports\<close>; \<open>W\<close> holds the pod operations
  of \<open>Pod_Lifecycle\<close>. The integrity check is a job and a claim the controller creates, with the job's counts of
  failed and succeeded pods as its outcome; their specs are left out. The snapshot settings are read from the
  node once: a write of the node returns the spec it was given.
\<close>

section \<open>Settings\<close>

definition AnnotationLastPvcSnapshot :: string where "AnnotationLastPvcSnapshot = ''cosmopilot.voluzi.com/last-pvc-snapshot''"
definition AnnotationSnapshotRetention :: string where
  "AnnotationSnapshotRetention = ''cosmopilot.voluzi.com/snapshot-retention''"
definition AnnotationPvcSnapshotReady :: string where
  "AnnotationPvcSnapshotReady = ''cosmopilot.voluzi.com/snapshot-ready''"
definition AnnotationExportingTarball :: string where
  "AnnotationExportingTarball = ''cosmopilot.voluzi.com/exporting-tarball''"
definition AnnotationTarballExportAttempts :: string where
  "AnnotationTarballExportAttempts = ''cosmopilot.voluzi.com/tarball-export-attempts''"
definition AnnotationTarballDeletionComplete :: string where
  "AnnotationTarballDeletionComplete = ''cosmopilot.voluzi.com/tarball-deletion-complete''"
definition AnnotationTarballDeletionName :: string where
  "AnnotationTarballDeletionName = ''cosmopilot.voluzi.com/tarball-deletion-name''"
definition AnnotationSnapshotIntegrityStatus :: string where
  "AnnotationSnapshotIntegrityStatus = ''cosmopilot.voluzi.com/snapshot-integrity-status''"
definition AnnotationDataHeight :: string where "AnnotationDataHeight = ''cosmopilot.voluzi.com/data-height''"
definition LabelChainNode :: string where "LabelChainNode = ''chain-node''"
definition LabelChainNodeSet :: string where "LabelChainNodeSet = ''nodeset''"
definition tarballUploaded :: string where "tarballUploaded = ''uploaded''"
definition tarballFinished :: string where "tarballFinished = ''finished''"
definition tarballFailed :: string where "tarballFailed = ''failed''"
definition tarballExportMaxAttempts :: int where "tarballExportMaxAttempts = 3"
definition minimumTimeBeforeFirstSnapshot :: int where "minimumTimeBeforeFirstSnapshot = 60 * 10 ^ 9"
definition snapshotIntegrityChecking :: string where "snapshotIntegrityChecking = ''checking''"
definition snapshotIntegrityOk :: string where "snapshotIntegrityOk = ''ok''"
definition snapshotIntegrityCorrupted :: string where "snapshotIntegrityCorrupted = ''corrupted''"

definition ShouldStopNode :: "VolumeSnapshotsConfig \<Rightarrow> bool" where
  "ShouldStopNode c = deref False (vs_StopNode c)"
definition ShouldVerify :: "VolumeSnapshotsConfig \<Rightarrow> bool" where
  "ShouldVerify c = deref False (vs_Verify c)"
definition ShouldDisableWhileSyncing :: "VolumeSnapshotsConfig \<Rightarrow> bool" where
  "ShouldDisableWhileSyncing c = deref True (vs_DisableWhileSyncing c)"
definition ShouldDisableWhileUnhealthy :: "VolumeSnapshotsConfig \<Rightarrow> bool" where
  "ShouldDisableWhileUnhealthy c = deref True (vs_DisableWhileUnhealthy c)"
definition ShouldPreserveLastSnapshot :: "VolumeSnapshotsConfig \<Rightarrow> bool" where
  "ShouldPreserveLastSnapshot c = deref True (vs_PreserveLastSnapshot c)"
definition GetRetainCount :: "VolumeSnapshotsConfig \<Rightarrow> int option" where
  "GetRetainCount c = vs_Retain c"

definition boolText :: "bool \<Rightarrow> string" where
  "boolText b = (if b then ''true'' else ''false'')"

section \<open>Snapshots and the node\<close>

definition annotation :: "VolumeSnapshot \<Rightarrow> string \<Rightarrow> string" where
  "annotation snap k = (case vsn_Annotations snap of None \<Rightarrow> [] | Some m \<Rightarrow> label m k)"

definition annotations :: "VolumeSnapshot \<Rightarrow> labels" where
  "annotations snap = deref Map.empty (vsn_Annotations snap)"

text \<open>An assignment into the map, which panics on the nil map, and one after the code has made sure that
  there is a map.\<close>

definition setAnnotation :: "string \<Rightarrow> string \<Rightarrow> VolumeSnapshot \<Rightarrow> ('s, VolumeSnapshot) snap" where
  "setAnnotation k v snap =
     (case vsn_Annotations snap of None \<Rightarrow> fail SnapPanic | Some m \<Rightarrow> ret (snap\<lparr>vsn_Annotations := Some (m(k \<mapsto> v))\<rparr>))"

definition putAnnotation :: "string \<Rightarrow> string \<Rightarrow> VolumeSnapshot \<Rightarrow> VolumeSnapshot" where
  "putAnnotation k v snap = snap\<lparr>vsn_Annotations := Some ((annotations snap)(k \<mapsto> v))\<rparr>"

definition dropAnnotation :: "string \<Rightarrow> VolumeSnapshot \<Rightarrow> VolumeSnapshot" where
  "dropAnnotation k snap = snap\<lparr>vsn_Annotations := map_option (\<lambda>m. m(k := None)) (vsn_Annotations snap)\<rparr>"

definition isSnapshotReady :: "VolumeSnapshot \<Rightarrow> bool" where
  "isSnapshotReady snap =
     (case vsn_Status snap of None \<Rightarrow> False | Some st \<Rightarrow> vss_ReadyToUse st = Some True)"

definition activeSnap :: "VolumeSnapshot \<Rightarrow> bool" where
  "activeSnap snap \<longleftrightarrow> vsn_DeletionTimestamp snap = None \<and> \<not> isSnapshotReady snap"

definition hasActiveVolumeSnapshot :: "VolumeSnapshot list \<Rightarrow> bool" where
  "hasActiveVolumeSnapshot snaps = list_ex activeSnap snaps"

definition truncateSecond :: "int \<Rightarrow> int" where
  "truncateSecond t = t - t mod 10 ^ 9"

definition latestReadySnapshotTime :: "VolumeSnapshot list \<Rightarrow> int" where
  "latestReadySnapshotTime snaps =
     fold (\<lambda>snap latest.
         let completedAt = truncateSecond (vsn_CreationTimestamp snap)
         in if isSnapshotReady snap \<and> completedAt > latest then completedAt else latest) snaps 0"

definition setSnapshotInProgress :: "bool \<Rightarrow> ChainNode \<Rightarrow> ChainNode" where
  "setSnapshotInProgress b = annotateNode AnnotationPvcSnapshotInProgress (boolText b)"

definition setSnapshotTime :: "snap_env \<Rightarrow> int \<Rightarrow> ChainNode \<Rightarrow> ChainNode" where
  "setSnapshotTime E ts = annotateNode AnnotationLastPvcSnapshot (se_FormatTime E ts)"

definition getLastSnapshotTime :: "snap_env \<Rightarrow> ChainNode \<Rightarrow> int" where
  "getLastSnapshotTime E n =
     (case m_Annotations (cn_Meta n) AnnotationLastPvcSnapshot of
        None \<Rightarrow> 0 | Some s \<Rightarrow> deref 0 (se_ParseTime E s))"

definition getSnapshotName :: "snap_env \<Rightarrow> ChainNode \<Rightarrow> int \<Rightarrow> string" where
  "getSnapshotName E n now =
     (let grp = label (m_Labels (cn_Meta n)) LabelChainNodeSetGroup;
          nodeset = label (m_Labels (cn_Meta n)) LabelChainNodeSet
      in (if grp \<noteq> [] \<and> nodeset \<noteq> [] then nodeset @ ''-'' @ grp else cn_name n) @ ''-'' @ se_FormatTime E now)"

definition getVolumeSnapshotSpec :: "snap_env \<Rightarrow> VolumeSnapshotsConfig \<Rightarrow> ChainNode \<Rightarrow> int \<Rightarrow> VolumeSnapshot" where
  "getVolumeSnapshotSpec E c n now =
     (let base = [AnnotationPvcSnapshotReady \<mapsto> ''false'', AnnotationDataHeight \<mapsto> Itoa (cns_LatestHeight (cn_Status n))]
      in \<lparr>vsn_Name = getSnapshotName E n now, vsn_UID = [],
          vsn_Labels = se_WithLabels E n [LabelChainNode \<mapsto> cn_name n],
          vsn_Annotations = Some (case vs_Retention c of None \<Rightarrow> base | Some r \<Rightarrow> base(AnnotationSnapshotRetention \<mapsto> r)),
          vsn_CreationTimestamp = 0, vsn_DeletionTimestamp = None, vsn_SourcePVC = cn_name n,
          vsn_ClassName = vs_SnapshotClassName c, vsn_Status = None\<rparr>)"

definition shouldSnapshot :: "snap_env \<Rightarrow> VolumeSnapshotsConfig \<Rightarrow> ChainNode \<Rightarrow> bool \<Rightarrow> int \<Rightarrow> bool" where
  "shouldSnapshot E c n nodePodReady now =
     (if ShouldDisableWhileSyncing c \<and> cns_Phase (cn_Status n) = PhaseChainNodeSyncing then False
      else if ShouldDisableWhileUnhealthy c \<and> \<not> nodePodReady then False
      else if ShouldDisableWhileUnhealthy c \<and> cns_Phase (cn_Status n) \<noteq> PhaseChainNodeRunning then False
      else case se_ParseDuration E (vs_Frequency c) of
             None \<Rightarrow> False
           | Some period \<Rightarrow>
               (let t = getLastSnapshotTime E n in
                if t = 0 then m_CreationTimestamp (cn_Meta n) + minimumTimeBeforeFirstSnapshot < now
                else t + period < now))"

definition isSnapshotExpired :: "snap_env \<Rightarrow> int \<Rightarrow> VolumeSnapshot \<Rightarrow> SnapError + bool" where
  "isSnapshotExpired E now snap =
     (case annotations snap AnnotationSnapshotRetention of
        None \<Rightarrow> Inr False
      | Some retention \<Rightarrow>
        (case se_ParseDuration E retention of
           None \<Rightarrow> Inl BadDuration | Some d \<Rightarrow> Inr (vsn_CreationTimestamp snap + d < now)))"

section \<open>Calls\<close>

definition updateNode :: "'s snap_api \<Rightarrow> ('s, unit) snap" where
  "updateNode A = seq theNode (\<lambda>n. seq (outside SnapApi (sn_updateNode A n)) (\<lambda>n1. modifyNode (\<lambda>_. n1)))"

definition writePhase :: "'s snap_api \<Rightarrow> ('s, unit) snap" where
  "writePhase A = seq theNode (\<lambda>n. seq (outside SnapApi (sn_updateStatus A n)) (\<lambda>n1. modifyNode (\<lambda>_. n1)))"

definition updateSnap :: "'s snap_api \<Rightarrow> VolumeSnapshot \<Rightarrow> ('s, VolumeSnapshot) snap" where
  "updateSnap A snap = outside SnapApi (sn_updateSnapshot A snap)"

definition annotateAndUpdate :: "'s snap_api \<Rightarrow> string \<Rightarrow> string \<Rightarrow> VolumeSnapshot \<Rightarrow> ('s, VolumeSnapshot) snap" where
  "annotateAndUpdate A k v snap = seq (setAnnotation k v snap) (updateSnap A)"

fun podError :: "PodError \<Rightarrow> SnapError" where
  "podError (PodApi e) = SnapApi e"
| "podError (PodCall m) = SnapPod m"
| "podError _ = SnapPod []"

text \<open>A handler of the pod reconcile.\<close>

definition handler :: "'s node_act \<Rightarrow> ('s, unit) snap" where
  "handler act ns =
     (case act (fst ns) (snd ns) of
        ((n, Some e), s1) \<Rightarrow> (Inl (podError e), (n, s1)) | ((n, None), s1) \<Rightarrow> (Inr (), (n, s1)))"

definition listNodeSnapshots :: "'s snap_api \<Rightarrow> ('s, VolumeSnapshot list) snap" where
  "listNodeSnapshots A = outside SnapApi (sn_listSnapshots A)"

text \<open>The recovery from a missing status client: \<open>errors.Is(err, errSnapshotExportStatusUnavailable)\<close>.\<close>

definition onUnavailable :: "('s, 'a) snap \<Rightarrow> ('s, 'a) snap \<Rightarrow> ('s, 'a) snap" where
  "onUnavailable m h ns =
     (case m ns of
        (Inl e, ns1) \<Rightarrow> if e = StatusUnavailable then h ns1 else (Inl e, ns1) | (Inr x, ns1) \<Rightarrow> (Inr x, ns1))"

definition orPanic :: "'a option \<Rightarrow> ('s, 'a) snap" where
  "orPanic x = (case x of None \<Rightarrow> fail SnapPanic | Some y \<Rightarrow> ret y)"

section \<open>New snapshots\<close>

text \<open>With \<open>stopNode\<close> the pod is deleted first. A pod that was not found is not waited for.\<close>

definition stopForSnapshot :: "'s pod_world \<Rightarrow> 's snap_api \<Rightarrow> ('s, unit) snap" where
  "stopForSnapshot W A ns =
     (case po_getPodSpec (pw_pod W) (fst ns) [] (snd ns) of
        ((n, Inl e), s1) \<Rightarrow> (Inl (SnapPod e), (n, s1))
      | ((n, Inr _), s1) \<Rightarrow>
        (case sn_deletePod A s1 of
           (Inl e, s2) \<Rightarrow> if e = NotFound then (Inr (), (n, s2)) else (Inl (SnapApi e), (n, s2))
         | (Inr _, s2) \<Rightarrow> outside SnapPod (po_waitDeleted (pw_pod W)) (n, s2)))"

text \<open>The snapshot that was created, or \<^term>\<open>None\<close> when the height of the node could not be read.\<close>

definition createSnapshot :: "snap_env \<Rightarrow> 's pod_world \<Rightarrow> 's snap_api \<Rightarrow> VolumeSnapshotsConfig \<Rightarrow> ('s, VolumeSnapshot option) snap" where
  "createSnapshot E W A c =
     seq (onlyIf (ShouldStopNode c) (stopForSnapshot W A)) (\<lambda>_ ns.
       case handler (updateLatestHeight W) ns of
         (Inl _, ns1) \<Rightarrow> (Inr None, ns1)
       | (Inr _, ns1) \<Rightarrow>
           seq (clock A) (\<lambda>now. seq theNode (\<lambda>n.
             let snap = getVolumeSnapshotSpec E c n now
             in seq (outside SnapApi (sn_createSnapshot A snap)) (\<lambda>_. ret (Some snap)))) ns1)"

definition startNewSnapshot :: "snap_env \<Rightarrow> 's pod_world \<Rightarrow> 's snap_api \<Rightarrow> VolumeSnapshotsConfig \<Rightarrow> ('s, unit) snap" where
  "startNewSnapshot E W A c =
     seq (createSnapshot E W A c) (\<lambda>r.
       case r of
         None \<Rightarrow> ret ()
       | Some _ \<Rightarrow>
           seq (modifyNode (setSnapshotInProgress True)) (\<lambda>_.
             seq (updateNode A) (\<lambda>_. handler (updatePhase W PhaseChainNodeSnapshotting))))"

section \<open>Integrity checks\<close>

text \<open>The job, the claim it mounts, and the mark on the snapshot.\<close>

definition launchIntegrityCheck :: "'s snap_api \<Rightarrow> VolumeSnapshot \<Rightarrow> quantity \<Rightarrow> ('s, VolumeSnapshot) snap" where
  "launchIntegrityCheck A snap restoreSize =
     seq (outside SnapApi (sn_createCheckJob A snap)) (\<lambda>_.
       seq (outside SnapApi (sn_createCheckPVC A snap restoreSize)) (\<lambda>_.
         annotateAndUpdate A AnnotationSnapshotIntegrityStatus snapshotIntegrityChecking snap))"

definition startSnapshotIntegrityCheck :: "'s snap_api \<Rightarrow> VolumeSnapshot \<Rightarrow> ('s, VolumeSnapshot) snap" where
  "startSnapshotIntegrityCheck A snap =
     (case vsn_Status snap of
        None \<Rightarrow> fail SnapPanic
      | Some st \<Rightarrow>
        (case vss_RestoreSize st of None \<Rightarrow> fail RestoreSizeMissing | Some sz \<Rightarrow> launchIntegrityCheck A snap sz))"

definition beginIntegrityCheck :: "'s snap_api \<Rightarrow> VolumeSnapshot \<Rightarrow> ('s, unit) snap" where
  "beginIntegrityCheck A snap =
     seq (startSnapshotIntegrityCheck A snap) (\<lambda>snap1.
       seq (annotateAndUpdate A AnnotationSnapshotIntegrityStatus snapshotIntegrityChecking snap1) (\<lambda>_. ret ()))"

definition cleanUpSnapshotIntegrityCheck :: "'s snap_api \<Rightarrow> VolumeSnapshot \<Rightarrow> ('s, SnapError, unit) prog" where
  "cleanUpSnapshotIntegrityCheck A snap =
     seq (call_ignoring NotFound SnapApi (sn_deleteCheckJob A (vsn_Name snap @ ''-ichk''))) (\<lambda>_.
       call_ignoring NotFound SnapApi (sn_deleteCheckPVC A (vsn_Name snap @ ''-ichk'')))"

text \<open>A cleanup whose error is only logged.\<close>

definition tidyIntegrityCheck :: "'s snap_api \<Rightarrow> VolumeSnapshot \<Rightarrow> ('s, unit) snap" where
  "tidyIntegrityCheck A snap ns = (Inr (), (fst ns, snd (cleanUpSnapshotIntegrityCheck A snap (snd ns))))"

text \<open>The counts of failed and succeeded pods of the first job decide.\<close>

definition getSnapshotIntegrityCheckStatus :: "'s snap_api \<Rightarrow> VolumeSnapshot \<Rightarrow> ('s, string) snap" where
  "getSnapshotIntegrityCheckStatus A snap =
     seq (outside SnapApi (sn_listCheckJobs A (vsn_Name snap))) (\<lambda>jobs.
       ret (case jobs of
              [] \<Rightarrow> []
            | (failed, succeeded) # _ \<Rightarrow>
                if failed > 0 then snapshotIntegrityCorrupted
                else if succeeded > 0 then snapshotIntegrityOk else snapshotIntegrityChecking))"

section \<open>Exports\<close>

definition exportTarballLegacy :: "snap_env \<Rightarrow> 's snap_api \<Rightarrow> VolumeSnapshot \<Rightarrow> ('s, unit) snap" where
  "exportTarballLegacy E A snap =
     seq theNode (\<lambda>n. seq (orFail (getTarballExportProvider n)) (\<lambda>p.
       seq (orPanic (getTarballName E n snap)) (\<lambda>nm.
         outside SnapExport (xp_CreateSnapshot (sn_exports A) p nm snap))))"

definition exportTarball :: "snap_env \<Rightarrow> 's snap_api \<Rightarrow> VolumeSnapshot \<Rightarrow> ('s, unit) snap" where
  "exportTarball E A snap =
     onUnavailable
       (seq (ensureSnapshotExportStatus E A snap) (\<lambda>x.
          seq (orFail (tarballProviderForExport x)) (\<lambda>p.
            outside SnapExport (xp_CreateSnapshot (sn_exports A) p (ex_ObjectName x) snap))))
       (exportTarballLegacy E A snap)"

definition beginExport :: "snap_env \<Rightarrow> 's snap_api \<Rightarrow> VolumeSnapshot \<Rightarrow> ('s, unit) snap" where
  "beginExport E A snap =
     seq (exportTarball E A snap) (\<lambda>_.
       seq (annotateAndUpdate A AnnotationExportingTarball ''true'' snap) (\<lambda>_. ret ()))"

definition cleanUpTarballExport :: "snap_env \<Rightarrow> 's snap_api \<Rightarrow> VolumeSnapshot \<Rightarrow> ('s, unit) snap" where
  "cleanUpTarballExport E A snap =
     seq theNode (\<lambda>n.
       case snapshotExportFor n snap of
         None \<Rightarrow>
           seq (orFail (getTarballExportProvider n)) (\<lambda>p.
             seq (orPanic (getTarballName E n snap)) (\<lambda>nm. outside SnapExport (xp_CleanupSnapshot (sn_exports A) p nm)))
       | Some x \<Rightarrow>
           seq (orFail (tarballProviderForExport x)) (\<lambda>p.
             outside SnapExport (xp_CleanupSnapshot (sn_exports A) p (ex_ObjectName x))))"

text \<open>A failed upload is retried until the limit; then the export is marked as failed for good.\<close>

definition failedAttempt :: "VolumeSnapshot \<Rightarrow> VolumeSnapshot" where
  "failedAttempt snap =
     (let parsed = Atoi (annotation snap AnnotationTarballExportAttempts);
          before = (case parsed of None \<Rightarrow> 0 | Some a \<Rightarrow> if a < 0 then 0 else a);
          attempts = wrap64 (before + 1);
          snap1 = putAnnotation AnnotationTarballExportAttempts (Itoa attempts) snap
      in if attempts < tarballExportMaxAttempts then dropAnnotation AnnotationExportingTarball snap1
         else putAnnotation AnnotationExportingTarball tarballFailed snap1)"

definition recordTarballExportFailure :: "'s snap_api \<Rightarrow> VolumeSnapshot \<Rightarrow> ('s, unit) snap" where
  "recordTarballExportFailure A snap = seq (updateSnap A (failedAttempt snap)) (\<lambda>_. ret ())"

definition resetTarballExport :: "'s snap_api \<Rightarrow> VolumeSnapshot \<Rightarrow> ('s, unit) snap" where
  "resetTarballExport A snap =
     (case vsn_Annotations snap of
        None \<Rightarrow> ret ()
      | Some m \<Rightarrow>
          if m AnnotationExportingTarball = None \<and> m AnnotationTarballExportAttempts = None then ret ()
          else seq (updateSnap A (dropAnnotation AnnotationTarballExportAttempts
                 (dropAnnotation AnnotationExportingTarball snap))) (\<lambda>_. ret ()))"

text \<open>The status of the upload: whether it has succeeded. A job of another exporter that was replaced resets
  the export before the error is returned.\<close>

definition uploadStatus :: "snap_env \<Rightarrow> 's snap_api \<Rightarrow> VolumeSnapshot \<Rightarrow> provider \<Rightarrow> string \<Rightarrow> ('s, bool) snap" where
  "uploadStatus E A snap p nm ns =
     (case xp_GetSnapshotStatus (sn_exports A) p nm (snd ns) of
        (Inl e, s1) \<Rightarrow>
          seq (onlyIf (e = ErrStaleJobReplaced) (resetTarballExport A snap)) (\<lambda>_. fail (SnapExport e)) (fst ns, s1)
      | (Inr status, s1) \<Rightarrow>
          (if status = SnapshotNotFound \<or> status = SnapshotFailed
           then seq (cleanUpTarballExport E A snap) (\<lambda>_. seq (recordTarballExportFailure A snap) (\<lambda>_. ret False))
           else ret (status = SnapshotSucceeded)) (fst ns, s1))"

definition isTarballReadyLegacy :: "snap_env \<Rightarrow> 's snap_api \<Rightarrow> VolumeSnapshot \<Rightarrow> ('s, bool) snap" where
  "isTarballReadyLegacy E A snap =
     seq theNode (\<lambda>n. seq (orFail (getTarballExportProvider n)) (\<lambda>p.
       seq (orPanic (getTarballName E n snap)) (uploadStatus E A snap p)))"

definition uploadReady :: "snap_env \<Rightarrow> 's snap_api \<Rightarrow> VolumeSnapshot \<Rightarrow> SnapshotExportStatus \<Rightarrow> ('s, bool) snap" where
  "uploadReady E A snap x =
     (if ds_Provider (ex_Destination x) = SnapshotExportProviderUnknown
      then seq (if ex_Phase x = SnapshotExportPhaseAcknowledged
                then seq (updateSnap A (dropAnnotation AnnotationTarballExportAttempts
                       (putAnnotation AnnotationExportingTarball tarballFinished snap))) (\<lambda>_. ret ())
                else ret ())
             (\<lambda>_. ret False)
      else seq (orFail (tarballProviderForExport x)) (\<lambda>p. uploadStatus E A snap p (ex_ObjectName x)))"

definition isTarballReady :: "snap_env \<Rightarrow> 's snap_api \<Rightarrow> VolumeSnapshot \<Rightarrow> ('s, bool) snap" where
  "isTarballReady E A snap =
     seq theNode (\<lambda>n.
       case snapshotExportFor n snap of
         Some x \<Rightarrow> uploadReady E A snap x
       | None \<Rightarrow>
           if \<not> se_HasClient E then isTarballReadyLegacy E A snap
           else onUnavailable
             (seq (ensureUnknownSnapshotExportStatus E A snap) (\<lambda>r. seq (orPanic r) (uploadReady E A snap)))
             (isTarballReadyLegacy E A snap))"

definition finishTarballExport :: "snap_env \<Rightarrow> 's snap_api \<Rightarrow> VolumeSnapshot \<Rightarrow> ('s, unit) snap" where
  "finishTarballExport E A snap =
     seq (if annotation snap AnnotationExportingTarball \<noteq> tarballUploaded
          then seq (setAnnotation AnnotationExportingTarball tarballUploaded snap) (\<lambda>snap1.
                 updateSnap A (dropAnnotation AnnotationTarballExportAttempts snap1))
          else ret snap) (\<lambda>snap1.
       seq theNode (\<lambda>n.
         seq (case snapshotExportFor n snap1 of
                Some x \<Rightarrow> if ex_Phase x \<noteq> SnapshotExportPhaseUploaded
                  then seq (setSnapshotExportPhase E A (ex_ID x) SnapshotExportPhaseUploaded []) (\<lambda>_. ret ()) else ret ()
              | None \<Rightarrow> ret ()) (\<lambda>_.
           seq (cleanUpTarballExport E A snap1) (\<lambda>_.
             seq (annotateAndUpdate A AnnotationExportingTarball tarballFinished snap1) (\<lambda>_. ret ())))))"

section \<open>Deletion of exported objects\<close>

text \<open>Two levels of the recursion are enough (\<open>deletion_two_levels\<close> in \<open>Export_Correct\<close>).\<close>

definition reconcileDeletion :: "snap_env \<Rightarrow> 's snap_api \<Rightarrow> SnapshotExportStatus \<Rightarrow> ('s, SnapshotStatus) snap" where
  "reconcileDeletion E A x = reconcileSnapshotExportDeletion 2 E A (Some x)"

definition tarballDeletionComplete :: "VolumeSnapshot \<Rightarrow> string \<Rightarrow> bool \<Rightarrow> bool" where
  "tarballDeletionComplete snap tarballName allowLegacy \<longleftrightarrow>
     annotation snap AnnotationTarballDeletionComplete = ''true'' \<and>
     (annotation snap AnnotationTarballDeletionName = tarballName \<or>
      (allowLegacy \<and> annotation snap AnnotationTarballDeletionName = []))"

definition markDeleted :: "string \<Rightarrow> VolumeSnapshot \<Rightarrow> VolumeSnapshot" where
  "markDeleted tarballName snap =
     putAnnotation AnnotationTarballDeletionName tarballName (putAnnotation AnnotationTarballDeletionComplete ''true'' snap)"

definition shouldDeleteSnapshotTarballOnExpire :: "ChainNode \<Rightarrow> VolumeSnapshot \<Rightarrow> bool" where
  "shouldDeleteSnapshotTarballOnExpire n snap =
     (case snapshotExportFor n snap of
        Some x \<Rightarrow> ex_DeleteOnExpire x
      | None \<Rightarrow> (case exportConfig n of None \<Rightarrow> False | Some cfg \<Rightarrow> DeleteWhenExpired cfg))"

text \<open>Without a client the annotations are set in memory only.\<close>

definition isTarballDeletedLegacy :: "snap_env \<Rightarrow> 's snap_api \<Rightarrow> VolumeSnapshot \<Rightarrow> ('s, bool) snap" where
  "isTarballDeletedLegacy E A snap =
     seq theNode (\<lambda>n. seq (orPanic (getTarballName E n snap)) (\<lambda>nm.
       if tarballDeletionComplete snap nm True then ret True
       else seq (orFail (getTarballExportProvider n)) (\<lambda>p.
         seq (outside SnapExport (xp_DeleteSnapshot (sn_exports A) p nm)) (\<lambda>status.
           if status \<noteq> SnapshotSucceeded then ret False
           else if \<not> se_HasClient E then ret True
           else seq (updateSnap A (markDeleted nm snap)) (\<lambda>_. ret True)))))"

definition setDeleted :: "snap_env \<Rightarrow> 's snap_api \<Rightarrow> SnapshotExportStatus \<Rightarrow> ('s, unit) snap" where
  "setDeleted E A x =
     seq (setSnapshotExportPhase E A (ex_ID x) SnapshotExportPhaseDeleted ''remote deletion proven'') (\<lambda>_. ret ())"

definition exportDeleted :: "snap_env \<Rightarrow> 's snap_api \<Rightarrow> VolumeSnapshot \<Rightarrow> SnapshotExportStatus \<Rightarrow> ('s, bool) snap" where
  "exportDeleted E A snap x =
     (if ex_Phase x = SnapshotExportPhaseAcknowledged \<or> ex_Phase x = SnapshotExportPhaseDeleted then ret True
      else if snapshotExportDeleteTerminal x then seq (reconcileDeletion E A x) (\<lambda>_. ret False)
      else if ds_Provider (ex_Destination x) = SnapshotExportProviderUnknown then ret False
      else if tarballDeletionComplete snap (ex_ObjectName x) False
      then seq (setDeleted E A x) (\<lambda>_. ret True)
      else seq (reconcileDeletion E A x) (\<lambda>status.
        if status = SnapshotActive
        then seq theNode (\<lambda>n. ret (snapshotExportPreAttemptCleanup (snapshotExportByObjectName n (ex_ObjectName x))))
        else if status \<noteq> SnapshotSucceeded then ret False
        else seq (updateSnap A (markDeleted (ex_ObjectName x) snap)) (\<lambda>_. seq (setDeleted E A x) (\<lambda>_. ret True))))"

definition isTarballDeleted :: "snap_env \<Rightarrow> 's snap_api \<Rightarrow> VolumeSnapshot \<Rightarrow> ('s, bool) snap" where
  "isTarballDeleted E A snap =
     seq theNode (\<lambda>n.
       case snapshotExportFor n snap of
         Some x \<Rightarrow> exportDeleted E A snap x
       | None \<Rightarrow>
           seq (orPanic (getTarballName E n snap)) (\<lambda>nm.
             if tarballDeletionComplete snap nm True then ret True
             else if \<not> se_HasClient E then isTarballDeletedLegacy E A snap
             else onUnavailable
               (seq (ensureUnknownSnapshotExportStatus E A snap) (\<lambda>r. seq (orPanic r) (exportDeleted E A snap)))
               (isTarballDeletedLegacy E A snap)))"

definition cleanUpTarballDeletion :: "snap_env \<Rightarrow> 's snap_api \<Rightarrow> VolumeSnapshot \<Rightarrow> ('s, unit) snap" where
  "cleanUpTarballDeletion E A snap =
     seq theNode (\<lambda>n.
       case snapshotExportFor n snap of
         None \<Rightarrow>
           seq (orFail (getTarballExportProvider n)) (\<lambda>p. seq (orPanic (getTarballName E n snap)) (\<lambda>nm.
             outside SnapExport (xp_CleanupSnapshotDeletion (sn_exports A) p (deletionJob nm False))))
       | Some x \<Rightarrow>
           if snapshotExportPreAttemptCleanup (Some x) then ret ()
           else seq (if ex_Phase x = SnapshotExportPhaseAcknowledged \<and>
                        ds_Provider (ex_Destination x) = SnapshotExportProviderUnknown then ret ()
                     else seq (orFail (tarballProviderForExport x)) (\<lambda>p.
                       outside SnapExport (xp_CleanupSnapshotDeletion (sn_exports A) p (deletionJob (ex_ObjectName x) False))))
                  (\<lambda>_. removeSnapshotExport E A (ex_ID x)))"

text \<open>The success of a pending deletion is recorded on the snapshot it belongs to, if that still exists, and in the
  record of the export.\<close>

definition deletionBelongsTo :: "snap_env \<Rightarrow> ChainNode \<Rightarrow> string \<Rightarrow> VolumeSnapshot \<Rightarrow> bool" where
  "deletionBelongsTo E n tarballName snap =
     (let baseName = cns_ChainID (cn_Status n) @ ''-'' @ se_FormatTime E (vsn_CreationTimestamp snap)
      in tarballName = baseName \<or> HasPrefix tarballName (baseName @ ''-''))"

definition persistPendingTarballDeletionSuccess :: "snap_env \<Rightarrow> 's snap_api \<Rightarrow> string \<Rightarrow> ('s, unit) snap" where
  "persistPendingTarballDeletionSuccess E A tarballName =
     seq (listNodeSnapshots A) (\<lambda>snaps. seq theNode (\<lambda>n.
       case find (deletionBelongsTo E n tarballName) snaps of
         Some snap \<Rightarrow>
           seq (if tarballDeletionComplete snap tarballName False then ret snap
                else updateSnap A (markDeleted tarballName snap)) (\<lambda>_.
             case snapshotExportByObjectName n tarballName of
               None \<Rightarrow> ret ()
             | Some x \<Rightarrow>
                 if ex_Phase x = SnapshotExportPhaseAcknowledged then removeSnapshotExport E A (ex_ID x)
                 else if ex_Phase x \<noteq> SnapshotExportPhaseDeleted then setDeleted E A x else ret ())
       | None \<Rightarrow>
           (case snapshotExportByObjectName n tarballName of
              None \<Rightarrow> ret () | Some x \<Rightarrow> removeSnapshotExport E A (ex_ID x))))"

definition pendingJob :: "snap_env \<Rightarrow> 's snap_api \<Rightarrow> SnapshotJob \<Rightarrow> ('s, unit) snap" where
  "pendingJob E A job =
     (if sj_Purpose job \<noteq> SnapshotJobDelete then ret ()
      else seq theNode (\<lambda>n.
        seq (case snapshotExportByObjectName n (sj_Name job) of
               Some x \<Rightarrow> if ex_Phase x \<noteq> SnapshotExportPhaseDeleted \<and> ex_Phase x \<noteq> SnapshotExportPhaseAcknowledged
                 then reconcileDeletion E A x
                 else outside SnapExport (xp_ReconcileSnapshotDeletionJob (sn_exports A) job)
             | None \<Rightarrow> outside SnapExport (xp_ReconcileSnapshotDeletionJob (sn_exports A) job)) (\<lambda>status.
          if status = SnapshotSucceeded
          then seq (persistPendingTarballDeletionSuccess E A (sj_Name job)) (\<lambda>_.
                 outside SnapExport (xp_CleanupSnapshotDeletionResources (sn_exports A) job))
          else ret ())))"

definition pendingExport :: "snap_env \<Rightarrow> 's snap_api \<Rightarrow> string list \<Rightarrow> SnapshotExportStatus \<Rightarrow> ('s, unit) snap" where
  "pendingExport E A seen x =
     (if ex_Phase x \<noteq> SnapshotExportPhaseDeleting \<and>
         (ex_Phase x \<noteq> SnapshotExportPhaseCleanupRequired \<or> ex_DeleteExhausted x) then ret ()
      else if ds_Provider (ex_Destination x) = SnapshotExportProviderUnknown then ret ()
      else if ex_ObjectName x \<in> set seen then ret ()
      else seq (reconcileDeletion E A x) (\<lambda>status.
        if status = SnapshotSucceeded
        then seq (persistPendingTarballDeletionSuccess E A (ex_ObjectName x)) (\<lambda>_.
               seq (orFail (tarballProviderForExport x)) (\<lambda>p.
                 outside SnapExport (xp_CleanupSnapshotDeletion (sn_exports A) p (deletionJob (ex_ObjectName x) False))))
        else ret ()))"

text \<open>The returned flag is not used by the caller and is left out.\<close>

definition reconcilePendingTarballDeletions :: "snap_env \<Rightarrow> 's snap_api \<Rightarrow> ('s, unit) snap" where
  "reconcilePendingTarballDeletions E A =
     (if \<not> se_HasClientSet E then ret ()
      else seq (outside SnapExport (xp_ListSnapshotDeletionJobs (sn_exports A))) (\<lambda>jobs.
        seq (eachOf (pendingJob E A) jobs) (\<lambda>_.
          seq theNode (\<lambda>n.
            eachOf (pendingExport E A (map sj_Name (filter (\<lambda>j. sj_Purpose j = SnapshotJobDelete) jobs)))
              (cns_SnapshotExports (cn_Status n))))))"

text \<open>The loop runs down the indices of the list, which shrinks as records are removed.\<close>

fun completeAcknowledgedFrom :: "snap_env \<Rightarrow> 's snap_api \<Rightarrow> nat \<Rightarrow> ('s, unit) snap" where
  "completeAcknowledgedFrom E A 0 = ret ()"
| "completeAcknowledgedFrom E A (Suc i) =
     seq theNode (\<lambda>n.
       let xs = cns_SnapshotExports (cn_Status n) in
       if i < length xs then seq (completeAcknowledged E A (xs ! i)) (\<lambda>_. completeAcknowledgedFrom E A i)
       else fail SnapPanic)"

definition completeAcknowledgedSnapshotExports :: "snap_env \<Rightarrow> 's snap_api \<Rightarrow> ('s, unit) snap" where
  "completeAcknowledgedSnapshotExports E A =
     seq theNode (\<lambda>n. completeAcknowledgedFrom E A (length (cns_SnapshotExports (cn_Status n))))"

section \<open>Retention\<close>

text \<open>The deletion of a snapshot that is not retained: the exported object first, where it is to be deleted.\<close>

definition retireSnapshot :: "snap_env \<Rightarrow> 's snap_api \<Rightarrow> VolumeSnapshot \<Rightarrow> ('s, unit) snap" where
  "retireSnapshot E A snap =
     seq theNode (\<lambda>n.
       let deleteTarball = shouldDeleteSnapshotTarballOnExpire n snap in
       seq (if deleteTarball then isTarballDeleted E A snap else ret True) (\<lambda>deleted.
         if \<not> deleted then ret ()
         else seq theNode (\<lambda>n1.
           let retained = snapshotExportFor n1 snap in
           seq (outside SnapApi (sn_deleteSnapshot A (vsn_Name snap) (Some (vsn_UID snap)))) (\<lambda>_.
             seq (case retained of
                    Some x \<Rightarrow> if \<not> deleteTarball then removeRetainedSnapshotExportIfGone E A snap (ex_ID x) else ret ()
                  | None \<Rightarrow> ret ()) (\<lambda>_.
               onlyIf deleteTarball (cleanUpTarballDeletion E A snap))))))"

definition retireIfExpired :: "snap_env \<Rightarrow> 's snap_api \<Rightarrow> VolumeSnapshot \<Rightarrow> ('s, unit) snap" where
  "retireIfExpired E A snap =
     (if annotations snap AnnotationSnapshotRetention = None then ret ()
      else seq (clock A) (\<lambda>now.
        seq (orFail (isSnapshotExpired E now snap)) (\<lambda>expired. onlyIf expired (retireSnapshot E A snap))))"

definition toDelete :: "VolumeSnapshotsConfig \<Rightarrow> int \<Rightarrow> int \<Rightarrow> int" where
  "toDelete c count retain =
     (let d = count - retain in if ShouldPreserveLastSnapshot c \<and> d \<ge> count then count - 1 else d)"

text \<open>The retention by number; it returns the list of snapshots the code goes on with.\<close>

definition retainNewest :: "snap_env \<Rightarrow> 's snap_api \<Rightarrow> VolumeSnapshotsConfig \<Rightarrow> VolumeSnapshot list \<Rightarrow> ('s, VolumeSnapshot list) snap" where
  "retainNewest E A c snaps =
     (case GetRetainCount c of
        None \<Rightarrow> ret snaps
      | Some retain \<Rightarrow>
          seq (listNodeSnapshots A) (\<lambda>listed.
            let sorted = se_SortSnapshots E listed in
            seq (eachOf (retireSnapshot E A) (take (nat (toDelete c (int (length sorted)) retain)) sorted)) (\<lambda>_. ret sorted)))"

section \<open>One snapshot\<close>

text \<open>A snapshot that has just become ready.\<close>

definition snapshotReady :: "snap_env \<Rightarrow> 's snap_api \<Rightarrow> VolumeSnapshotsConfig \<Rightarrow> bool \<Rightarrow> int \<Rightarrow> VolumeSnapshot \<Rightarrow> ('s, unit) snap" where
  "snapshotReady E A c active latest snap =
     seq (annotateAndUpdate A AnnotationPvcSnapshotReady ''true'' snap) (\<lambda>snap1.
       seq (modifyNode (\<lambda>n. setSnapshotTime E latest (setSnapshotInProgress active n))) (\<lambda>_.
         seq (updateNode A) (\<lambda>_.
           if ShouldVerify c then beginIntegrityCheck A snap1
           else onlyIf (ShouldExportTarballs c) (beginExport E A snap1))))"

text \<open>A snapshot whose integrity is not decided. The result says whether the whole handler returns.\<close>

definition checkIntegrity :: "snap_env \<Rightarrow> 's pod_world \<Rightarrow> 's snap_api \<Rightarrow> VolumeSnapshotsConfig \<Rightarrow> VolumeSnapshot \<Rightarrow> ('s, bool) snap" where
  "checkIntegrity E W A c snap =
     seq (getSnapshotIntegrityCheckStatus A snap) (\<lambda>status.
       if status = snapshotIntegrityChecking then ret False
       else if status = snapshotIntegrityOk
       then seq (annotateAndUpdate A AnnotationSnapshotIntegrityStatus snapshotIntegrityOk snap) (\<lambda>snap1.
              seq (tidyIntegrityCheck A snap1) (\<lambda>_.
                seq (onlyIf (ShouldExportTarballs c \<and> annotation snap1 AnnotationExportingTarball = [])
                       (beginExport E A snap1)) (\<lambda>_. ret False)))
       else if status = snapshotIntegrityCorrupted
       then seq (annotateAndUpdate A AnnotationSnapshotIntegrityStatus snapshotIntegrityCorrupted snap) (\<lambda>snap1.
              seq (tidyIntegrityCheck A snap1) (\<lambda>_.
                seq (outside SnapApi (sn_deleteSnapshot A (vsn_Name snap1) None)) (\<lambda>_.
                  seq (startNewSnapshot E W A c) (\<lambda>_. ret True))))
       else seq (beginIntegrityCheck A snap) (\<lambda>_. ret False))"

definition processSnapshot ::
    "snap_env \<Rightarrow> 's pod_world \<Rightarrow> 's snap_api \<Rightarrow> VolumeSnapshotsConfig \<Rightarrow> nat \<Rightarrow> bool \<Rightarrow> int \<Rightarrow> VolumeSnapshot \<Rightarrow> ('s, bool) snap" where
  "processSnapshot E W A c count active latest snap =
     seq theNode (\<lambda>n.
       let ready = annotation snap AnnotationPvcSnapshotReady; integrity = annotation snap AnnotationSnapshotIntegrityStatus;
           exporting = annotation snap AnnotationExportingTarball
       in if ready = ''false'' \<and> isSnapshotReady snap
          then seq (snapshotReady E A c active latest snap) (\<lambda>_. ret False)
          else if ShouldVerify c \<and> integrity \<noteq> snapshotIntegrityOk \<and> integrity \<noteq> snapshotIntegrityCorrupted
          then checkIntegrity E W A c snap
          else if (ShouldExportTarballs c \<or> snapshotExportUploading n snap) \<and>
                  (\<not> ShouldVerify c \<or> integrity = snapshotIntegrityOk) \<and> ready = ''true'' \<and> exporting = []
          then seq (beginExport E A snap) (\<lambda>_. ret False)
          else if ready = ''true'' \<and> exporting = ''true''
          then seq (isTarballReady E A snap) (\<lambda>done.
                 seq (onlyIf done (finishTarballExport E A snap)) (\<lambda>_. ret False))
          else if (ShouldExportTarballs c \<or> snapshotExportFor n snap \<noteq> None) \<and> ready = ''true'' \<and> exporting = tarballUploaded
          then seq (finishTarballExport E A snap) (\<lambda>_. ret False)
          else if ShouldPreserveLastSnapshot c \<and> count = 1 then ret False
          else seq (retireIfExpired E A snap) (\<lambda>_. ret False))"

text \<open>The names of objects that belong to a snapshot, and whether an upload of unknown name is running.\<close>

definition noteTarball ::
    "snap_env \<Rightarrow> ChainNode \<Rightarrow> VolumeSnapshot \<Rightarrow> string list \<times> bool \<Rightarrow> string list \<times> bool" where
  "noteTarball E n snap acc =
     (let exporting = (annotation snap AnnotationExportingTarball = ''true'') in
      case snapshotExportFor n snap of
        Some x \<Rightarrow>
          if ex_ObjectName x \<noteq> [] then (fst acc @ [ex_ObjectName x], snd acc)
          else if ds_Provider (ex_Destination x) = SnapshotExportProviderUnknown \<and> exporting then (fst acc, True)
          else acc
      | None \<Rightarrow>
          if exporting then (fst acc, True)
          else (case getTarballName E n snap of None \<Rightarrow> acc | Some nm \<Rightarrow> (fst acc @ [nm], snd acc)))"

text \<open>The loop over the snapshots: \<^term>\<open>None\<close> when the handler returns in it.\<close>

fun snapshotLoop ::
    "snap_env \<Rightarrow> 's pod_world \<Rightarrow> 's snap_api \<Rightarrow> VolumeSnapshotsConfig \<Rightarrow> nat \<Rightarrow> bool \<Rightarrow> int \<Rightarrow> string list \<times> bool
      \<Rightarrow> VolumeSnapshot list \<Rightarrow> ('s, (string list \<times> bool) option) snap" where
  "snapshotLoop E W A c count active latest acc [] = ret (Some acc)"
| "snapshotLoop E W A c count active latest acc (snap # snaps) =
     seq theNode (\<lambda>n.
       seq (processSnapshot E W A c count active latest snap) (\<lambda>returned.
         if returned then ret None
         else snapshotLoop E W A c count active latest (noteTarball E n snap acc) snaps))"

section \<open>Orphans\<close>

definition orphanStatus :: "'s snap_api \<Rightarrow> provider \<Rightarrow> SnapshotJob \<Rightarrow> ('s, (SnapshotJob \<times> SnapshotStatus) option) snap" where
  "orphanStatus A p job =
     (case sj_Purpose job of
        SnapshotJobDelete \<Rightarrow>
          seq (outside SnapExport (xp_GetSnapshotDeletionStatus (sn_exports A) p job)) (\<lambda>st. ret (Some (job, st)))
      | SnapshotJobUpload \<Rightarrow>
          seq (outside SnapExport (if sj_Exporter job \<noteq> [] then xp_DeletePreviousUpload (sn_exports A) job
                 else xp_DeleteSnapshotForUpload (sn_exports A) p job)) (\<lambda>r. ret (Some r))
      | PurposeOther _ \<Rightarrow> ret None)"

definition reconcileOrphan :: "'s snap_api \<Rightarrow> provider \<Rightarrow> string list \<Rightarrow> SnapshotJob \<Rightarrow> ('s, unit) snap" where
  "reconcileOrphan A p names job =
     (if sj_Name job \<in> set names then ret ()
      else seq (orphanStatus A p job) (\<lambda>r.
        case r of
          None \<Rightarrow> ret ()
        | Some (cleanupJob, status) \<Rightarrow>
            onlyIf (status = SnapshotSucceeded) (outside SnapExport (xp_CleanupSnapshotDeletion (sn_exports A) p cleanupJob))))"

definition removeOrphans :: "'s snap_api \<Rightarrow> string list \<Rightarrow> ('s, unit) snap" where
  "removeOrphans A names =
     seq theNode (\<lambda>n. seq (orFail (getTarballExportProvider n)) (\<lambda>p.
       seq (outside SnapExport (xp_ListSnapshots (sn_exports A) p)) (eachOf (reconcileOrphan A p names))))"

section \<open>The handler\<close>

text \<open>What the node records about its snapshots is repaired from the listing.\<close>

definition phaseNeedsRepair :: "VolumeSnapshotsConfig \<Rightarrow> ChainNode \<Rightarrow> bool \<Rightarrow> bool" where
  "phaseNeedsRepair c n active \<longleftrightarrow>
     active \<and> (cns_Phase (cn_Status n) = PhaseChainNodeRunning \<or>
       (cns_Phase (cn_Status n) = PhaseChainNodeSyncing \<and> ShouldStopNode c))"

definition repairNode :: "snap_env \<Rightarrow> 's snap_api \<Rightarrow> VolumeSnapshotsConfig \<Rightarrow> bool \<Rightarrow> int \<Rightarrow> ('s, unit) snap" where
  "repairNode E A c active latest =
     seq theNode (\<lambda>n.
       let timestampNeedsRepair = latest > getLastSnapshotTime E n;
           annotationNeedsRepair = (volumeSnapshotInProgress n \<noteq> active)
       in seq (onlyIf annotationNeedsRepair (modifyNode (setSnapshotInProgress active))) (\<lambda>_.
         seq (onlyIf timestampNeedsRepair (modifyNode (setSnapshotTime E latest))) (\<lambda>_.
           seq (onlyIf (annotationNeedsRepair \<or> timestampNeedsRepair) (updateNode A)) (\<lambda>_.
             onlyIf (phaseNeedsRepair c n active)
               (seq (modifyNode (setPhase PhaseChainNodeSnapshotting)) (\<lambda>_. writePhase A))))))"

definition snapshotsDisabled :: "snap_env \<Rightarrow> 's snap_api \<Rightarrow> ('s, unit) snap" where
  "snapshotsDisabled E A =
     seq (completeAcknowledgedSnapshotExports E A) (\<lambda>_.
       seq theNode (\<lambda>n.
         onlyIf (volumeSnapshotInProgress n)
           (seq (modifyNode (setSnapshotInProgress False)) (\<lambda>_. updateNode A))))"

definition startIfDue :: "snap_env \<Rightarrow> 's pod_world \<Rightarrow> 's snap_api \<Rightarrow> VolumeSnapshotsConfig \<Rightarrow> bool \<Rightarrow> ('s, unit) snap" where
  "startIfDue E W A c nodePodReady =
     seq theNode (\<lambda>n.
       if volumeSnapshotInProgress n then ret ()
       else seq (clock A) (\<lambda>now. onlyIf (shouldSnapshot E c n nodePodReady now) (startNewSnapshot E W A c)))"

definition afterLoop ::
    "snap_env \<Rightarrow> 's pod_world \<Rightarrow> 's snap_api \<Rightarrow> VolumeSnapshotsConfig \<Rightarrow> bool \<Rightarrow> VolumeSnapshot list \<Rightarrow> string list \<times> bool
      \<Rightarrow> ('s, unit) snap" where
  "afterLoop E W A c nodePodReady snaps acc =
     seq (retainNewest E A c snaps) (\<lambda>current.
       seq (pruneRetainedSnapshotExports E A current) (\<lambda>_.
         seq (onlyIf (ShouldExportTarballs c \<and> \<not> snd acc) (removeOrphans A (fst acc))) (\<lambda>_.
           startIfDue E W A c nodePodReady)))"

definition reconcileSnapshots :: "snap_env \<Rightarrow> 's pod_world \<Rightarrow> 's snap_api \<Rightarrow> VolumeSnapshotsConfig \<Rightarrow> bool \<Rightarrow> ('s, unit) snap" where
  "reconcileSnapshots E W A c nodePodReady =
     seq (listNodeSnapshots A) (\<lambda>listed.
       let snaps = se_SortSnapshots E listed; active = hasActiveVolumeSnapshot snaps;
           latest = latestReadySnapshotTime snaps
       in seq (repairNode E A c active latest) (\<lambda>_.
         seq (snapshotLoop E W A c (length snaps) active latest ([], False) snaps) (\<lambda>r.
           case r of None \<Rightarrow> ret () | Some acc \<Rightarrow> afterLoop E W A c nodePodReady snaps acc)))"

definition ensureVolumeSnapshots :: "snap_env \<Rightarrow> 's pod_world \<Rightarrow> 's snap_api \<Rightarrow> bool \<Rightarrow> ('s, unit) snap" where
  "ensureVolumeSnapshots E W A nodePodReady =
     seq (reconcileSnapshotExportAcknowledgements E A) (\<lambda>_.
       seq (reconcilePendingTarballDeletions E A) (\<lambda>_.
         seq theNode (\<lambda>n.
           case snapshotsConfig n of
             None \<Rightarrow> snapshotsDisabled E A
           | Some c \<Rightarrow>
               if cns_PvcSize (cn_Status n) = [] \<or> cns_LatestHeight (cn_Status n) = 0 then ret ()
               else reconcileSnapshots E W A c nodePodReady)))"

end
