(* ===== verification/Snapshot_Rules.thy ===== *)
theory Snapshot_Rules
  imports Snapshots
begin

text \<open>
  Rules for invariants of the snapshot handlers. An invariant is a property of the node in memory and one of the
  outside world; the locale \<open>snapshot_world\<close> says which calls keep it, and its lemmas, one per handler, that the
  handlers keep it, up to \<open>ensureVolumeSnapshots\<close>. The parameters make one development serve several
  invariants: which records of exports are in order, which values of the in-progress flag are, which snapshots
  may be deleted, whether a snapshot may be created, and what is known of a listing.
\<close>

section \<open>Programs that keep an invariant\<close>

named_theorems kept \<open>rules for programs that keep an invariant\<close>

definition keeps_inv :: "('t \<Rightarrow> bool) \<Rightarrow> ('t, 'e, 'a) prog \<Rightarrow> bool" where
  "keeps_inv J m \<longleftrightarrow> (\<forall>t r t'. J t \<longrightarrow> m t = (r, t') \<longrightarrow> J t')"

text \<open>The result of a program that starts under the invariant.\<close>

definition yields :: "('t \<Rightarrow> bool) \<Rightarrow> ('t, 'e, 'a) prog \<Rightarrow> ('a \<Rightarrow> bool) \<Rightarrow> bool" where
  "yields J m Q \<longleftrightarrow> (\<forall>t x t'. J t \<longrightarrow> m t = (Inr x, t') \<longrightarrow> Q x)"

lemma keeps_invI: "(\<And>t r t'. J t \<Longrightarrow> m t = (r, t') \<Longrightarrow> J t') \<Longrightarrow> keeps_inv J m"
  by (auto simp: keeps_inv_def)

lemma keeps_invD: "keeps_inv J m \<Longrightarrow> J t \<Longrightarrow> m t = (r, t') \<Longrightarrow> J t'"
  by (auto simp: keeps_inv_def)

lemma yieldsD: "yields J m Q \<Longrightarrow> J t \<Longrightarrow> m t = (Inr x, t') \<Longrightarrow> Q x"
  by (auto simp: yields_def)

lemma yields_True [kept]: "yields J m (\<lambda>_. True)"
  by (simp add: yields_def)

lemma keeps_ret [kept]: "keeps_inv J (ret x)"
  by (auto simp: keeps_inv_def ret_def)

lemma keeps_fail [kept]: "keeps_inv J (fail e)"
  by (auto simp: keeps_inv_def fail_def)

lemma keeps_seq_if:
  assumes "keeps_inv J m" "yields J m Q" "\<And>x. Q x \<Longrightarrow> keeps_inv J (f x)"
  shows "keeps_inv J (seq m f)"
proof (rule keeps_invI)
  fix t r t' assume J: "J t" and run: "seq m f t = (r, t')"
  obtain r1 t1 where m: "m t = (r1, t1)" by fastforce
  have J1: "J t1" by (rule keeps_invD [OF assms(1) J m])
  show "J t'"
  proof (cases r1)
    case (Inl e)
    then show ?thesis using run m J1 by (simp add: seq_def)
  next
    case (Inr x)
    then have "Q x" using yieldsD [OF assms(2) J] m by blast
    moreover have "f x t1 = (r, t')" using run m Inr by (simp add: seq_def)
    ultimately show ?thesis using keeps_invD [OF assms(3) J1] by blast
  qed
qed

lemma keeps_seq [kept]: "keeps_inv J m \<Longrightarrow> (\<And>x. keeps_inv J (f x)) \<Longrightarrow> keeps_inv J (seq m f)"
  by (rule keeps_seq_if [where Q = "\<lambda>_. True"]) (auto simp: yields_def)

lemma keeps_if [kept]: "(b \<Longrightarrow> keeps_inv J m) \<Longrightarrow> (\<not> b \<Longrightarrow> keeps_inv J k) \<Longrightarrow> keeps_inv J (if b then m else k)"
  by simp

lemma keeps_option [kept]:
  "(x = None \<Longrightarrow> keeps_inv J m) \<Longrightarrow> (\<And>y. x = Some y \<Longrightarrow> keeps_inv J (f y)) \<Longrightarrow>
   keeps_inv J (case x of None \<Rightarrow> m | Some y \<Rightarrow> f y)"
  by (cases x) auto

lemma keeps_Let [kept]: "keeps_inv J (f x) \<Longrightarrow> keeps_inv J (let y = x in f y)"
  by simp

lemma keeps_prod [kept]: "(\<And>a b. keeps_inv J (f a b)) \<Longrightarrow> keeps_inv J (case p of (a, b) \<Rightarrow> f a b)"
  by (cases p) auto

lemma keeps_onlyIf [kept]: "(b \<Longrightarrow> keeps_inv J m) \<Longrightarrow> keeps_inv J (onlyIf b m)"
  by (auto simp: onlyIf_def intro: keeps_ret)

lemma keeps_orFail [kept]: "keeps_inv J (orFail r)"
  by (cases r) (simp_all add: orFail_def keeps_ret keeps_fail)

lemma keeps_orPanic [kept]: "keeps_inv J (orPanic r)"
  by (cases r) (simp_all add: orPanic_def keeps_ret keeps_fail)

lemma keeps_theNode [kept]: "keeps_inv J theNode"
  by (auto simp: keeps_inv_def theNode_def)

lemma keeps_api_call [kept]: "keeps_inv J f \<Longrightarrow> keeps_inv J (call wrap f)"
  by (auto simp: keeps_inv_def call_def split: prod.splits sum.splits)

lemma keeps_call_ignoring [kept]: "keeps_inv J f \<Longrightarrow> keeps_inv J (call_ignoring ign wrap f)"
  by (auto simp: keeps_inv_def call_ignoring_def split: prod.splits sum.splits if_splits)

lemma keeps_eachOf: "(\<And>x. x \<in> set xs \<Longrightarrow> keeps_inv J (f x)) \<Longrightarrow> keeps_inv J (eachOf f xs)"
  by (induction xs) (auto intro: keeps_ret keeps_seq)

lemma keeps_retry [kept]: "keeps_inv J f \<Longrightarrow> keeps_inv J (retryOnConflict k f)"
proof (induction k)
  case 0
  then show ?case by (simp add: keeps_inv_def)
next
  case (Suc k)
  show ?case
  proof (rule keeps_invI)
    fix t r t' assume J: "J t" and run: "retryOnConflict (Suc k) f t = (r, t')"
    obtain r1 t1 where m: "f t = (r1, t1)" by fastforce
    then have "J t1" using Suc.prems J by (blast dest: keeps_invD)
    then show "J t'"
      using run m keeps_invD [OF Suc.IH [OF Suc.prems]] by (auto split: sum.splits if_splits)
  qed
qed

lemma yields_retry: "keeps_inv J f \<Longrightarrow> yields J f Q \<Longrightarrow> yields J (retryOnConflict k f) Q"
proof (induction k)
  case 0
  then show ?case by (simp add: yields_def)
next
  case (Suc k)
  show ?case unfolding yields_def
  proof (intro allI impI)
    fix t x t' assume J: "J t" and run: "retryOnConflict (Suc k) f t = (Inr x, t')"
    obtain r1 t1 where m: "f t = (r1, t1)" by fastforce
    then have "J t1" using Suc.prems(1) J by (blast dest: keeps_invD)
    then show "Q x"
      using run m yieldsD [OF Suc.IH [OF Suc.prems]] yieldsD [OF Suc.prems(2) J]
      by (auto split: sum.splits if_splits)
  qed
qed

lemma keeps_onUnavailable [kept]:
  assumes "keeps_inv J m" "keeps_inv J h"
  shows "keeps_inv J (onUnavailable m h)"
proof (rule keeps_invI)
  fix t r t' assume J: "J t" and run: "onUnavailable m h t = (r, t')"
  obtain r1 t1 where m: "m t = (r1, t1)" by (cases "m t")
  then have "J t1" using assms(1) J by (blast dest: keeps_invD)
  then show "J t'"
    using run m keeps_invD [OF assms(2)] by (auto simp: onUnavailable_def split: sum.splits if_splits)
qed

section \<open>The contract\<close>

definition joint :: "(ChainNode \<Rightarrow> bool) \<Rightarrow> ('s \<Rightarrow> bool) \<Rightarrow> ChainNode \<times> 's \<Rightarrow> bool" where
  "joint G I ns \<longleftrightarrow> G (fst ns) \<and> I (snd ns)"

lemma keeps_outside [kept]: "keeps_inv I f \<Longrightarrow> keeps_inv (joint G I) (outside wrap f)"
  by (fastforce simp: keeps_inv_def joint_def outside_def split: prod.splits sum.splits)

lemma yields_outside: "yields I f Q \<Longrightarrow> yields (joint G I) (outside wrap f) Q"
  by (fastforce simp: yields_def joint_def outside_def split: prod.splits sum.splits)

lemma keeps_modifyNode: "(\<And>n. G n \<Longrightarrow> G (f n)) \<Longrightarrow> keeps_inv (joint G I) (modifyNode f)"
  by (auto simp: keeps_inv_def joint_def modifyNode_def)

lemma yields_theNode: "yields (joint G I) theNode G"
  by (auto simp: yields_def joint_def theNode_def)

text \<open>The records of exports of a node are in order.\<close>

definition recorded :: "(SnapshotExportStatus \<Rightarrow> bool) \<Rightarrow> ChainNode \<Rightarrow> bool" where
  "recorded okx n \<longleftrightarrow> list_all okx (cns_SnapshotExports (cn_Status n))"

lemma recorded_changes [simp]:
  "recorded okx (setConditions cs n) = recorded okx n" "recorded okx (setExports xs n) = list_all okx xs"
  "recorded okx (annotateNode k v n) = recorded okx n" "recorded okx (unannotateNode k n) = recorded okx n"
  "recorded okx (setSnapshotInProgress b n) = recorded okx n" "recorded okx (setSnapshotTime E ts n) = recorded okx n"
  "recorded okx (setPhase ph n) = recorded okx n" "recorded okx (setLatestHeight ht n) = recorded okx n"
  by (simp_all add: recorded_def setConditions_def setExports_def annotateNode_def unannotateNode_def
      setSnapshotInProgress_def setSnapshotTime_def setPhase_def setLatestHeight_def)

text \<open>What is assumed of the calls: each keeps the invariant \<open>I\<close> of the world, the creation of a snapshot only if
  \<open>creatable\<close>, the deletion of the snapshot \<open>m\<close> only if \<open>deletable m\<close>. A node that is written in order is
  returned in order, and an integrity check of a \<open>sound\<close> snapshot has no failed pods.\<close>

locale snapshot_calls =
  fixes A :: "'s snap_api" and W :: "'s pod_world" and I :: "'s \<Rightarrow> bool"
    and okx :: "SnapshotExportStatus \<Rightarrow> bool" and mem :: "ChainNode \<Rightarrow> bool"
    and deletable :: "string \<Rightarrow> bool" and creatable :: bool and sound :: "string \<Rightarrow> bool"
  assumes node_calls:
      "keeps_inv I (sn_getNode A)" "yields I (sn_getNode A) (recorded okx)"
      "recorded okx n \<Longrightarrow> keeps_inv I (sn_updateNode A n)" "recorded okx n \<Longrightarrow> yields I (sn_updateNode A n) (recorded okx)"
      "mem n \<Longrightarrow> yields I (sn_updateNode A n) mem"
      "recorded okx n \<Longrightarrow> keeps_inv I (sn_updateStatus A n)" "recorded okx n \<Longrightarrow> yields I (sn_updateStatus A n) (recorded okx)"
      "mem n \<Longrightarrow> yields I (sn_updateStatus A n) mem"
      "recorded okx n \<Longrightarrow> keeps_inv I (ua_updateStatus (pw_upgrades W) n)"
      "recorded okx n \<Longrightarrow> recorded okx n' \<Longrightarrow> keeps_inv I (sn_patchNode A n n')"
    and snapshot_calls:
      "keeps_inv I (sn_listSnapshots A)" "keeps_inv I (sn_getSnapshot A m)" "keeps_inv I (sn_updateSnapshot A snap)"
      "yields I (sn_updateSnapshot A snap) (\<lambda>snap'. vsn_Name snap' = vsn_Name snap)"
      "deletable m \<Longrightarrow> keeps_inv I (sn_deleteSnapshot A m u)"
      "creatable \<Longrightarrow> keeps_inv I (sn_createSnapshot A snap)"
    and other_calls:
      "keeps_inv I (sn_getSecret A m)" "keeps_inv I (sn_getServiceAccount A m)"
      "keeps_inv I (sn_createCheckJob A snap)" "keeps_inv I (sn_createCheckPVC A snap q)"
      "keeps_inv I (sn_deleteCheckJob A m)" "keeps_inv I (sn_deleteCheckPVC A m)" "keeps_inv I (sn_listCheckJobs A m)"
      "I s \<Longrightarrow> I (snd (sn_now A s))" "keeps_inv I (sn_deletePod A)"
      "keeps_inv I (po_waitDeleted (pw_pod W))" "keeps_inv I (po_latestHeight (pw_pod W))"
      "recorded okx n \<Longrightarrow> mem n \<Longrightarrow> I s \<Longrightarrow> po_getPodSpec (pw_pod W) n h s = ((n', r), s') \<Longrightarrow>
         recorded okx n' \<and> mem n' \<and> I s'"
    and export_calls:
      "keeps_inv I (xp_CreateSnapshot (sn_exports A) p m snap)" "keeps_inv I (xp_GetSnapshotStatus (sn_exports A) p m)"
      "keeps_inv I (xp_GetSnapshotDeletionStatus (sn_exports A) p j)" "keeps_inv I (xp_CleanupSnapshot (sn_exports A) p m)"
      "keeps_inv I (xp_DeleteSnapshot (sn_exports A) p m)" "keeps_inv I (xp_DeleteSnapshotBounded (sn_exports A) p m)"
      "keeps_inv I (xp_DeleteSnapshotForUpload (sn_exports A) p j)" "keeps_inv I (xp_CleanupSnapshotDeletion (sn_exports A) p j)"
      "keeps_inv I (xp_ListSnapshots (sn_exports A) p)" "keeps_inv I (xp_ListSnapshotDeletionJobs (sn_exports A))"
      "keeps_inv I (xp_ReconcileSnapshotDeletionJob (sn_exports A) j)"
      "keeps_inv I (xp_CleanupSnapshotDeletionResources (sn_exports A) j)" "keeps_inv I (xp_DeletePreviousUpload (sn_exports A) j)"
    and verdicts:
      "sound m \<Longrightarrow> yields I (sn_listCheckJobs A m) (\<lambda>jobs. case jobs of [] \<Rightarrow> True | (failed, _) # _ \<Rightarrow> failed \<le> 0)"

text \<open>What is shown of the changes of the controller: they keep a node and a record in order.\<close>

locale snapshot_world = snapshot_calls +
  fixes E :: snap_env and flag :: "bool \<Rightarrow> bool"
  assumes node_changes:
      "mem n \<Longrightarrow> mem (setConditions cs n)" "mem n \<Longrightarrow> mem (setExports xs n)"
      "mem n \<Longrightarrow> flag b \<Longrightarrow> mem (setSnapshotInProgress b n)" "mem n \<Longrightarrow> mem (setSnapshotTime E ts n)"
      "mem n \<Longrightarrow> mem (setPhase ph n)" "mem n \<Longrightarrow> mem (setLatestHeight ht n)"
      "creatable \<Longrightarrow> flag True"
    and records:
      "okx x \<Longrightarrow> xph \<in> {SnapshotExportPhaseUploaded, SnapshotExportPhaseCleanupRequired, SnapshotExportPhaseDeleted} \<Longrightarrow>
         exportPhase xph msg x = Inr (b, y) \<Longrightarrow> okx y"
      "okx x \<Longrightarrow> startAttempt k now x = Inr (b, y) \<Longrightarrow> okx y"
      "okx x \<Longrightarrow> resumeAttempt x = Inr (b, y) \<Longrightarrow> okx y"
      "okx x \<Longrightarrow> recordFailure E failure now x = Inr (b, y) \<Longrightarrow> okx y"
      "okx x \<Longrightarrow> okx (acknowledgeExport ids x)"
      "newSnapshotExportStatus E n snap = Inr x \<Longrightarrow> okx x" "okx (unknownExport E n snap)"

section \<open>Handlers\<close>

context snapshot_world
begin

definition G :: "ChainNode \<Rightarrow> bool" where
  "G n \<longleftrightarrow> recorded okx n \<and> mem n"

lemmas calls [kept] = node_calls(1) snapshot_calls(1-3) other_calls(1-7,9-11) export_calls

lemma good_changes:
  "G n \<Longrightarrow> flag b \<Longrightarrow> G (setSnapshotInProgress b n)" "G n \<Longrightarrow> G (setSnapshotTime E ts n)"
  "G n \<Longrightarrow> G (setPhase ph n)" "G n \<Longrightarrow> G (setLatestHeight ht n)"
  by (simp_all add: G_def node_changes)

definition good_mutation :: "'x mutation \<Rightarrow> bool" where
  "good_mutation mutate \<longleftrightarrow> (\<forall>n b n1 x. recorded okx n \<longrightarrow> mutate n = Inr (b, n1, x) \<longrightarrow> recorded okx n1)"

lemma good_sync: "recorded okx n \<Longrightarrow> recorded okx (syncSnapshotExportCleanupCondition E n)"
  by (simp add: syncSnapshotExportCleanupCondition_def Let_def)

lemma good_merge: "recorded okx latest \<Longrightarrow> G n \<Longrightarrow> G (mergeSnapshotExportOwnedStatus E latest n)"
  by (simp add: mergeSnapshotExportOwnedStatus_def G_def node_changes) (simp add: recorded_def)

lemma mutateRound_run:
  assumes "good_mutation mutate" "I s" "mutateRound E A mutate s = (r, s')"
  shows "I s' \<and> (\<forall>b latest x. r = Inr (b, latest, x) \<longrightarrow> recorded okx latest)"
proof -
  obtain r1 s1 where get: "sn_getNode A s = (r1, s1)" by (cases "sn_getNode A s")
  then have I1: "I s1" using node_calls(1) assms(2) by (blast dest: keeps_invD)
  show ?thesis
  proof (cases r1)
    case (Inl e)
    then show ?thesis using assms(3) get I1 by (auto simp: mutateRound_def seq_def call_def)
  next
    case (Inr fresh)
    then have G: "recorded okx fresh" using node_calls(2) assms(2) get by (blast dest: yieldsD)
    show ?thesis
    proof (cases "mutate fresh")
      case (Inl e)
      then show ?thesis using assms(3) get Inr I1 by (auto simp: mutateRound_def seq_def call_def fail_def)
    next
      case mut: (Inr y)
      obtain b fresh1 x where y: "y = (b, fresh1, x)" by (cases y)
      let ?f = "syncSnapshotExportCleanupCondition E fresh1"
      have Gf: "recorded okx ?f" using assms(1) G mut y by (auto simp: good_mutation_def intro: good_sync)
      obtain r2 s2 where upd: "sn_updateStatus A ?f s1 = (r2, s2)" by (cases "sn_updateStatus A ?f s1")
      have "I s2" "\<And>n. r2 = Inr n \<Longrightarrow> recorded okx n"
        using keeps_invD [OF node_calls(6) [OF Gf] I1 upd] yieldsD [OF node_calls(7) [OF Gf] I1] upd by auto
      then show ?thesis
        using assms(3) get Inr mut y I1 Gf upd
        by (auto simp: mutateRound_def seq_def call_def ret_def Let_def split: if_splits sum.splits)
    qed
  qed
qed

lemma keeps_mutate [kept]:
  fixes mutate :: "'x mutation"
  assumes "good_mutation mutate"
  shows "keeps_inv (joint G I) (mutateSnapshotExportStatus E A mutate)"
proof -
  have k: "keeps_inv I (mutateRound E A mutate)" "yields I (mutateRound E A mutate) (\<lambda>(b, latest, x). recorded okx latest)"
    using mutateRound_run [OF assms] by (fastforce simp: keeps_inv_def yields_def)+
  let ?m = "outside id (retryOnConflict (se_Retries E) (mutateRound E A mutate))"
  have "keeps_inv (joint G I) (seq ?m (\<lambda>(changed, latest, x).
          seq (modifyNode (mergeSnapshotExportOwnedStatus E latest)) (\<lambda>_. ret (changed, x))))"
  proof (rule keeps_seq_if [OF keeps_outside [OF keeps_retry [OF k(1)]] yields_outside [OF yields_retry [OF k]]])
    fix r :: "bool \<times> ChainNode \<times> 'x" assume "case r of (b, latest, x) \<Rightarrow> recorded okx latest"
    then show "keeps_inv (joint G I) (case r of (changed, latest, x) \<Rightarrow>
          seq (modifyNode (mergeSnapshotExportOwnedStatus E latest)) (\<lambda>_. ret (changed, x)))"
      by (cases r) (simp add: keeps_seq keeps_ret keeps_modifyNode good_merge)
  qed
  then show ?thesis unfolding mutateSnapshotExportStatus_def by (simp add: keeps_fail)
qed

lemma changeFirst_okx:
  assumes "\<And>x b y. okx x \<Longrightarrow> f x = Inr (b, y) \<Longrightarrow> okx y"
  shows "changeFirst i f xs = Inr (b, ys) \<Longrightarrow> list_all okx xs \<Longrightarrow> list_all okx ys"
  by (induction xs arbitrary: b ys) (auto split: if_splits sum.splits dest: assms)

lemma good_onExport:
  assumes "\<And>x b y. okx x \<Longrightarrow> f x = Inr (b, y) \<Longrightarrow> okx y"
  shows "good_mutation (onExport i f)"
  unfolding good_mutation_def
proof (intro allI impI)
  fix n b n1 x assume G: "recorded okx n" and run: "onExport i f n = Inr (b, n1, x)"
  then obtain ys where ys: "changeFirst i f (cns_SnapshotExports (cn_Status n)) = Inr (b, ys)" "n1 = setExports ys n"
    by (auto simp: onExport_def split: sum.splits)
  have "list_all okx ys"
    by (rule changeFirst_okx [OF _ ys(1)]) (use assms G in \<open>auto simp: recorded_def\<close>)
  then show "recorded okx n1" using ys(2) by simp
qed

lemma good_append:
  "(\<And>n x. mk n = Inr x \<Longrightarrow> okx x) \<Longrightarrow> good_mutation (appendExport snap mk)"
  by (auto simp: good_mutation_def appendExport_def split: if_splits sum.splits) (auto simp: recorded_def)

lemma good_keep: "good_mutation (keepExports keep)"
  by (auto simp: good_mutation_def keepExports_def Let_def split: if_splits) (auto simp: recorded_def list_all_iff)

lemma good_acknowledge: "good_mutation acknowledgeExports"
  by (auto simp: good_mutation_def acknowledgeExports_def Let_def) (auto simp: recorded_def list_all_iff intro: records(5))

lemmas good = good_onExport good_append good_keep good_acknowledge

lemma keeps_setPhase:
  "ph \<in> {SnapshotExportPhaseUploaded, SnapshotExportPhaseCleanupRequired, SnapshotExportPhaseDeleted} \<Longrightarrow>
   keeps_inv (joint G I) (setSnapshotExportPhase E A i ph msg)"
  unfolding setSnapshotExportPhase_def by (intro kept good) (rule records(1))

lemmas keeps_setPhases [kept] =
  keeps_setPhase [of SnapshotExportPhaseUploaded, simplified]
  keeps_setPhase [of SnapshotExportPhaseCleanupRequired, simplified]
  keeps_setPhase [of SnapshotExportPhaseDeleted, simplified]

lemma keeps_start [kept]: "keeps_inv (joint G I) (startSnapshotExportDeleteAttempt E A i k now)"
  unfolding startSnapshotExportDeleteAttempt_def by (intro kept good) (rule records(2))

lemma keeps_resume [kept]: "keeps_inv (joint G I) (resumeSnapshotExportDeleteAttempt E A i)"
  unfolding resumeSnapshotExportDeleteAttempt_def by (intro kept good) (rule records(3))

lemma keeps_recordFailure [kept]: "keeps_inv (joint G I) (recordSnapshotExportDeleteFailure E A i f now)"
  unfolding recordSnapshotExportDeleteFailure_def by (intro kept good) (rule records(4))

lemma keeps_ensureExport [kept]: "keeps_inv (joint G I) (ensureSnapshotExportStatus E A snap)"
  unfolding ensureSnapshotExportStatus_def by (intro kept good) (rule records(6))

lemma keeps_ensureUnknown [kept]: "keeps_inv (joint G I) (ensureUnknownSnapshotExportStatus E A snap)"
  unfolding ensureUnknownSnapshotExportStatus_def by (intro kept good) (auto intro: records(7))

lemma keeps_removeExport [kept]: "keeps_inv (joint G I) (removeSnapshotExport E A i)"
  unfolding removeSnapshotExport_def by (intro kept good)

lemma keeps_prune [kept]: "keeps_inv (joint G I) (pruneRetainedSnapshotExports E A snaps)"
  unfolding pruneRetainedSnapshotExports_def by (intro kept good)

lemma keeps_removeRetained [kept]: "keeps_inv (joint G I) (removeRetainedSnapshotExportIfGone E A snap i)"
proof (rule keeps_invI)
  fix ns r ns' assume J: "joint G I ns" and run: "removeRetainedSnapshotExportIfGone E A snap i ns = (r, ns')"
  obtain r1 s1 where get: "sn_getSnapshot A (vsn_Name snap) (snd ns) = (r1, s1)" by fastforce
  then have J1: "joint G I (fst ns, s1)" using J snapshot_calls(2) by (auto simp: joint_def dest: keeps_invD)
  show "joint G I ns'"
    using run get J1 keeps_invD [OF keeps_removeExport J1]
    by (auto simp: removeRetainedSnapshotExportIfGone_def split: sum.splits if_splits)
qed

lemma keeps_clock [kept]: "keeps_inv (joint G I) (clock A)"
  using other_calls(8) by (fastforce simp: keeps_inv_def joint_def clock_def split: prod.splits)

lemma keeps_updateNode [kept]: "keeps_inv (joint G I) (updateNode A)"
  unfolding updateNode_def
proof (rule keeps_seq_if [OF keeps_theNode yields_theNode])
  fix n assume n: "G n"
  have k: "keeps_inv I (sn_updateNode A n)" "yields I (sn_updateNode A n) G"
    using node_calls(3,4,5) n by (auto simp: G_def yields_def)
  show "keeps_inv (joint G I) (seq (outside SnapApi (sn_updateNode A n)) (\<lambda>n1. modifyNode (\<lambda>_. n1)))"
    by (intro keeps_seq_if [OF keeps_outside [OF k(1)] yields_outside [OF k(2)]] keeps_modifyNode)
qed

lemma keeps_writePhase [kept]: "keeps_inv (joint G I) (writePhase A)"
  unfolding writePhase_def
proof (rule keeps_seq_if [OF keeps_theNode yields_theNode])
  fix n assume n: "G n"
  have k: "keeps_inv I (sn_updateStatus A n)" "yields I (sn_updateStatus A n) G"
    using node_calls(6,7,8) n by (auto simp: G_def yields_def)
  show "keeps_inv (joint G I) (seq (outside SnapApi (sn_updateStatus A n)) (\<lambda>n1. modifyNode (\<lambda>_. n1)))"
    by (intro keeps_seq_if [OF keeps_outside [OF k(1)] yields_outside [OF k(2)]] keeps_modifyNode)
qed

lemma keeps_setAnnotation [kept]: "keeps_inv J (setAnnotation k v snap)"
  unfolding setAnnotation_def by (intro kept)

lemma keeps_updateSnap [kept]: "keeps_inv (joint G I) (updateSnap A snap)"
  unfolding updateSnap_def by (intro kept)

lemma keeps_annotate [kept]: "keeps_inv (joint G I) (annotateAndUpdate A k v snap)"
  unfolding annotateAndUpdate_def by (intro kept)

lemma yields_annotate: "yields (joint G I) (annotateAndUpdate A k v snap) (\<lambda>snap'. vsn_Name snap' = vsn_Name snap)"
  unfolding yields_def
proof (intro allI impI)
  fix ns snap' ns' assume J: "joint G I ns" and run: "annotateAndUpdate A k v snap ns = (Inr snap', ns')"
  then obtain m where "vsn_Annotations snap = Some m"
      "updateSnap A (snap\<lparr>vsn_Annotations := Some (m(k \<mapsto> v))\<rparr>) ns = (Inr snap', ns')"
    by (auto simp: annotateAndUpdate_def setAnnotation_def seq_def ret_def fail_def split: option.splits)
  then show "vsn_Name snap' = vsn_Name snap"
    using yieldsD [OF yields_outside [OF snapshot_calls(4)] J] unfolding updateSnap_def by fastforce
qed

lemma keeps_list [kept]: "keeps_inv (joint G I) (listNodeSnapshots A)"
  unfolding listNodeSnapshots_def by (intro kept)

subsection \<open>New snapshots\<close>

lemma writeStatus_run:
  assumes "recorded okx n" "I s" "writeStatus W n s = ((n', r), s')"
  shows "n' = n \<and> I s'"
  using assms keeps_invD [OF node_calls(9) [OF assms(1)] assms(2)]
  by (auto simp: writeStatus_def split: prod.splits sum.splits)

lemma keeps_handler:
  assumes "\<And>n s n' r s'. G n \<Longrightarrow> I s \<Longrightarrow> act n s = ((n', r), s') \<Longrightarrow> G n' \<and> I s'"
  shows "keeps_inv (joint G I) (handler act)"
proof (rule keeps_invI)
  fix ns r ns' assume J: "joint G I ns" and run: "handler act ns = (r, ns')"
  obtain n r1 s1 where act: "act (fst ns) (snd ns) = ((n, r1), s1)" by (metis surj_pair)
  then have "G n \<and> I s1" using assms J unfolding joint_def by blast
  then show "joint G I ns'" using run act by (auto simp: joint_def handler_def split: option.splits)
qed

lemma keeps_updatePhase [kept]: "keeps_inv (joint G I) (handler (updatePhase W ph))"
proof (rule keeps_handler)
  fix n s n' r s' assume "G n" "I s" "updatePhase W ph n s = ((n', r), s')"
  then show "G n' \<and> I s'"
    using good_changes(3) [of n ph] writeStatus_run [of "setPhase ph n" s n' r s']
    by (auto simp: updatePhase_def act_return_def G_def split: if_splits)
qed

lemma keeps_updateHeight [kept]: "keeps_inv (joint G I) (handler (updateLatestHeight W))"
proof (rule keeps_handler)
  fix n s n' r s' assume n: "G n" and s: "I s" and run: "updateLatestHeight W n s = ((n', r), s')"
  obtain r1 s1 where call: "po_latestHeight (pw_pod W) s = (r1, s1)" by fastforce
  then have s1: "I s1" using other_calls(11) s by (blast dest: keeps_invD)
  show "G n' \<and> I s'"
  proof (cases r1)
    case (Inl e)
    then show ?thesis using run call n s1 by (simp add: updateLatestHeight_def act_call_def)
  next
    case (Inr h)
    then show ?thesis
      using run call n s1 good_changes(4) [of n h] writeStatus_run [of "setLatestHeight h n" s1 n' r s']
      by (auto simp: updateLatestHeight_def act_call_def act_return_def G_def split: if_splits)
  qed
qed

lemma keeps_stop [kept]: "keeps_inv (joint G I) (stopForSnapshot W A)"
proof (rule keeps_invI)
  fix ns r ns' assume J: "joint G I ns" and run: "stopForSnapshot W A ns = (r, ns')"
  obtain n r1 s1 where spec: "po_getPodSpec (pw_pod W) (fst ns) [] (snd ns) = ((n, r1), s1)"
    by (metis surj_pair)
  then have 1: "G n" "I s1" using J other_calls(12) [of "fst ns" "snd ns"] by (auto simp: joint_def G_def)
  obtain r2 s2 where del: "sn_deletePod A s1 = (r2, s2)" by fastforce
  then have 2: "joint G I (n, s2)" using 1 other_calls(9) by (auto simp: joint_def dest: keeps_invD)
  show "joint G I ns'"
    using run spec del 1 2 keeps_invD [OF keeps_outside [OF other_calls(10)] 2]
    by (auto simp: stopForSnapshot_def joint_def split: sum.splits if_splits)
qed

lemma keeps_create [kept]: "creatable \<Longrightarrow> keeps_inv (joint G I) (createSnapshot E W A c)"
  unfolding createSnapshot_def
proof (intro kept keeps_invI)
  fix u ns r ns'
  assume c: "creatable" and J: "joint G I ns"
    and run: "(case handler (updateLatestHeight W) ns of
         (Inl _, ns1) \<Rightarrow> (Inr None, ns1)
       | (Inr _, ns1) \<Rightarrow>
           seq (clock A) (\<lambda>now. seq theNode (\<lambda>n.
             let snap = getVolumeSnapshotSpec E c n now
             in seq (outside SnapApi (sn_createSnapshot A snap)) (\<lambda>_. ret (Some snap)))) ns1) = (r, ns')"
  obtain r1 ns1 where up: "handler (updateLatestHeight W) ns = (r1, ns1)"
    by (cases "handler (updateLatestHeight W) ns")
  then have J1: "joint G I ns1" using J by (blast dest: keeps_invD [OF keeps_updateHeight])
  have "keeps_inv (joint G I) (seq (clock A) (\<lambda>now. seq theNode (\<lambda>n.
             let snap = getVolumeSnapshotSpec E c n now
             in seq (outside SnapApi (sn_createSnapshot A snap)) (\<lambda>_. ret (Some snap)))))"
    by (intro kept snapshot_calls(6) c)
  then show "joint G I ns'" using run up J1 by (auto split: sum.splits dest: keeps_invD)
qed

lemma keeps_startNew [kept]: "creatable \<Longrightarrow> keeps_inv (joint G I) (startNewSnapshot E W A c)"
  unfolding startNewSnapshot_def by (intro kept keeps_modifyNode good_changes(1) node_changes(7))

subsection \<open>Integrity checks\<close>

lemma keeps_startCheck [kept]: "keeps_inv (joint G I) (startSnapshotIntegrityCheck A snap)"
  unfolding startSnapshotIntegrityCheck_def launchIntegrityCheck_def by (intro kept)

lemma keeps_beginCheck [kept]: "keeps_inv (joint G I) (beginIntegrityCheck A snap)"
  unfolding beginIntegrityCheck_def by (intro kept)

lemma keeps_tidy [kept]: "keeps_inv (joint G I) (tidyIntegrityCheck A snap)"
proof -
  have "keeps_inv I (cleanUpSnapshotIntegrityCheck A snap)"
    unfolding cleanUpSnapshotIntegrityCheck_def by (intro kept)
  then show ?thesis
    by (auto simp: keeps_inv_def joint_def tidyIntegrityCheck_def) (metis surj_pair snd_conv)
qed

lemma keeps_checkStatus [kept]: "keeps_inv (joint G I) (getSnapshotIntegrityCheckStatus A snap)"
  unfolding getSnapshotIntegrityCheckStatus_def by (intro kept)

lemma yields_checkStatus:
  assumes "sound (vsn_Name snap)"
  shows "yields (joint G I) (getSnapshotIntegrityCheckStatus A snap) (\<lambda>st. st \<noteq> snapshotIntegrityCorrupted)"
  unfolding yields_def
proof (intro allI impI)
  fix ns st ns' assume J: "joint G I ns" and run: "getSnapshotIntegrityCheckStatus A snap ns = (Inr st, ns')"
  obtain r s1 where list: "sn_listCheckJobs A (vsn_Name snap) (snd ns) = (r, s1)" by fastforce
  with run obtain jobs where r: "r = Inr jobs"
    by (cases r) (auto simp: getSnapshotIntegrityCheckStatus_def seq_def outside_def)
  have "case jobs of [] \<Rightarrow> True | (failed, _) # _ \<Rightarrow> failed \<le> 0"
    using J list r by (intro yieldsD [OF verdicts [OF assms]]) (auto simp: joint_def)
  then show "st \<noteq> snapshotIntegrityCorrupted"
    using run list r
    by (auto simp: getSnapshotIntegrityCheckStatus_def seq_def outside_def ret_def snapshotIntegrityCorrupted_def
        snapshotIntegrityOk_def snapshotIntegrityChecking_def split: list.splits prod.splits if_splits)
qed

subsection \<open>Exports\<close>

lemma keeps_exportLegacy [kept]: "keeps_inv (joint G I) (exportTarballLegacy E A snap)"
  unfolding exportTarballLegacy_def by (intro kept)

lemma keeps_export [kept]: "keeps_inv (joint G I) (exportTarball E A snap)"
  unfolding exportTarball_def by (intro kept)

lemma keeps_beginExport [kept]: "keeps_inv (joint G I) (beginExport E A snap)"
  unfolding beginExport_def by (intro kept)

lemma keeps_cleanUpExport [kept]: "keeps_inv (joint G I) (cleanUpTarballExport E A snap)"
  unfolding cleanUpTarballExport_def by (intro kept)

lemma keeps_recordTarballFailure [kept]: "keeps_inv (joint G I) (recordTarballExportFailure A snap)"
  unfolding recordTarballExportFailure_def by (intro kept)

lemma keeps_reset [kept]: "keeps_inv (joint G I) (resetTarballExport A snap)"
  unfolding resetTarballExport_def by (intro kept)

text \<open>A call of a provider whose outcome picks the rest of the handler.\<close>

lemma keeps_outcome:
  assumes "keeps_inv I f" "\<And>e. keeps_inv (joint G I) (m e)" "\<And>x. keeps_inv (joint G I) (k x)"
  shows "keeps_inv (joint G I)
    (\<lambda>ns. case f (snd ns) of (Inl e, s1) \<Rightarrow> m e (fst ns, s1) | (Inr x, s1) \<Rightarrow> k x (fst ns, s1))"
proof (rule keeps_invI)
  fix ns r ns' assume J: "joint G I ns"
    and run: "(case f (snd ns) of (Inl e, s1) \<Rightarrow> m e (fst ns, s1) | (Inr x, s1) \<Rightarrow> k x (fst ns, s1)) = (r, ns')"
  obtain r1 s1 where f: "f (snd ns) = (r1, s1)" by (cases "f (snd ns)")
  then have "joint G I (fst ns, s1)" using J assms(1) by (auto simp: joint_def dest: keeps_invD)
  then show "joint G I ns'" using run f assms(2,3) by (auto split: sum.splits dest: keeps_invD)
qed

lemma keeps_uploadStatus [kept]: "keeps_inv (joint G I) (uploadStatus E A snap p nm)"
proof -
  have "keeps_inv (joint G I) (\<lambda>ns. case xp_GetSnapshotStatus (sn_exports A) p nm (snd ns) of
      (Inl e, s1) \<Rightarrow> seq (onlyIf (e = ErrStaleJobReplaced) (resetTarballExport A snap)) (\<lambda>_. fail (SnapExport e)) (fst ns, s1)
    | (Inr status, s1) \<Rightarrow>
        (if status = SnapshotNotFound \<or> status = SnapshotFailed
         then seq (cleanUpTarballExport E A snap) (\<lambda>_. seq (recordTarballExportFailure A snap) (\<lambda>_. ret False))
         else ret (status = SnapshotSucceeded)) (fst ns, s1))"
    by (rule keeps_outcome; intro kept)
  then show ?thesis by (simp only: uploadStatus_def [abs_def])
qed

lemma keeps_readyLegacy [kept]: "keeps_inv (joint G I) (isTarballReadyLegacy E A snap)"
  unfolding isTarballReadyLegacy_def by (intro kept)

lemma keeps_uploadReady [kept]: "keeps_inv (joint G I) (uploadReady E A snap x)"
  unfolding uploadReady_def by (intro kept)

lemma keeps_ready [kept]: "keeps_inv (joint G I) (isTarballReady E A snap)"
  unfolding isTarballReady_def by (intro kept)

lemma keeps_finish [kept]: "keeps_inv (joint G I) (finishTarballExport E A snap)"
  unfolding finishTarballExport_def by (intro kept)

subsection \<open>Deletion of exported objects\<close>

lemma keeps_references [kept]: "keeps_inv (joint G I) (snapshotExportReferencesAvailable E A x)"
proof -
  have "keeps_inv I (secretProblem E A x)"
    using other_calls(1) by (fastforce simp: keeps_inv_def secretProblem_def split: option.splits prod.splits sum.splits if_splits)
  moreover have "keeps_inv I (serviceAccountProblem E A x)"
    using other_calls(2)
    by (fastforce simp: keeps_inv_def serviceAccountProblem_def Let_def split: prod.splits sum.splits if_splits)
  ultimately have "keeps_inv I (validateSnapshotExportReferences E A x)"
    unfolding validateSnapshotExportReferences_def by (intro kept)
  then show ?thesis
    unfolding snapshotExportReferencesAvailable_def requireSnapshotExportCleanup_def by (intro kept)
qed

lemma keeps_deletionFailure [kept]: "keeps_inv (joint G I) (snapshotDeletionFailure A nm)"
  unfolding snapshotDeletionFailure_def by (intro kept)

lemma keeps_deleteBounded [kept]: "keeps_inv (joint G I) (deleteBounded E A p x now)"
proof -
  have "keeps_inv (joint G I) (\<lambda>ns. case xp_DeleteSnapshotBounded (sn_exports A) p (ex_ObjectName x) (snd ns) of
      (Inl e, s1) \<Rightarrow>
        seq (recordSnapshotExportDeleteFailure E A (ex_ID x) (se_ErrorText E e) now) (\<lambda>_. fail (SnapExport e)) (fst ns, s1)
    | (Inr status, s1) \<Rightarrow> ret status (fst ns, s1))"
    by (rule keeps_outcome; intro kept)
  then show ?thesis unfolding deleteBounded_def [abs_def] ret_def .
qed

lemma keeps_reconcileExport [kept]: "keeps_inv (joint G I) (reconcileSnapshotExportDeletion fuel E A export)"
proof (induction fuel arbitrary: export)
  case 0
  then show ?case by (simp add: keeps_fail)
next
  case (Suc fuel)
  have again: "keeps_inv (joint G I) (deletionNotFound E A p x now (reconcileSnapshotExportDeletion fuel E A))" for p x now
    unfolding deletionNotFound_def by (intro kept Suc.IH)
  show ?case
  proof (cases export)
    case None
    then show ?thesis by (simp add: keeps_fail)
  next
    case (Some x)
    have "keeps_inv (joint G I) (case st of
             SnapshotActive \<Rightarrow> deletionActive E A x now
           | SnapshotFailed \<Rightarrow> deletionFailed E A p x now
           | SnapshotNotFound \<Rightarrow> deletionNotFound E A p x now (reconcileSnapshotExportDeletion fuel E A)
           | other \<Rightarrow> ret other)" for st p now
      by (cases st) (auto simp: deletionActive_def deletionFailed_def intro!: kept again)
    then show ?thesis unfolding Some by (simp) (intro kept)
  qed
qed

lemma keeps_reconcileDeletion [kept]: "keeps_inv (joint G I) (reconcileDeletion E A x)"
  unfolding reconcileDeletion_def by (intro kept)

lemma keeps_deletedLegacy [kept]: "keeps_inv (joint G I) (isTarballDeletedLegacy E A snap)"
  unfolding isTarballDeletedLegacy_def by (intro kept)

lemma keeps_setDeleted [kept]: "keeps_inv (joint G I) (setDeleted E A x)"
  unfolding setDeleted_def by (intro kept)

lemma keeps_exportDeleted [kept]: "keeps_inv (joint G I) (exportDeleted E A snap x)"
  unfolding exportDeleted_def by (intro kept)

lemma keeps_deleted [kept]: "keeps_inv (joint G I) (isTarballDeleted E A snap)"
  unfolding isTarballDeleted_def by (intro kept)

lemma keeps_cleanUpDeletion [kept]: "keeps_inv (joint G I) (cleanUpTarballDeletion E A snap)"
  unfolding cleanUpTarballDeletion_def by (intro kept)

lemma keeps_persist [kept]: "keeps_inv (joint G I) (persistPendingTarballDeletionSuccess E A nm)"
  unfolding persistPendingTarballDeletionSuccess_def by (intro kept)

lemma keeps_pendingJob [kept]: "keeps_inv (joint G I) (pendingJob E A job)"
  unfolding pendingJob_def by (intro kept)

lemma keeps_pendingExport [kept]: "keeps_inv (joint G I) (pendingExport E A seen x)"
  unfolding pendingExport_def by (intro kept)

lemma keeps_pending [kept]: "keeps_inv (joint G I) (reconcilePendingTarballDeletions E A)"
  unfolding reconcilePendingTarballDeletions_def by (intro kept keeps_eachOf)

lemma keeps_completeAcknowledged [kept]: "keeps_inv (joint G I) (completeAcknowledged E A x)"
  unfolding completeAcknowledged_def by (intro kept)

lemma keeps_completeFrom [kept]: "keeps_inv (joint G I) (completeAcknowledgedFrom E A k)"
  by (induction k) (simp_all only: completeAcknowledgedFrom.simps, (intro kept | assumption)+)

lemma keeps_completeExports [kept]: "keeps_inv (joint G I) (completeAcknowledgedSnapshotExports E A)"
  unfolding completeAcknowledgedSnapshotExports_def by (intro kept)

lemma keeps_removeAcknowledgements [kept]: "keeps_inv (joint G I) (removeSnapshotExportAcknowledgementIDs E A ids)"
proof -
  have "keeps_inv I (removeAcknowledgementsRound A ids)"
    unfolding removeAcknowledgementsRound_def
  proof (rule keeps_seq_if)
    show "keeps_inv I (call SnapApi (sn_getNode A))" by (intro kept)
    show "yields I (call SnapApi (sn_getNode A)) (recorded okx)"
      using node_calls(2) by (fastforce simp: yields_def call_def split: prod.splits sum.splits)
  qed (auto simp: Let_def intro!: kept node_calls(10))
  then show ?thesis unfolding removeSnapshotExportAcknowledgementIDs_def by (intro kept)
qed

lemma keeps_acknowledgements [kept]: "keeps_inv (joint G I) (reconcileSnapshotExportAcknowledgements E A)"
  unfolding reconcileSnapshotExportAcknowledgements_def by (intro kept good)

subsection \<open>Snapshots\<close>

lemma keeps_retire: "deletable (vsn_Name snap) \<Longrightarrow> keeps_inv (joint G I) (retireSnapshot E A snap)"
  unfolding retireSnapshot_def by (intro kept snapshot_calls(5))

lemma keeps_retireIfExpired:
  "deletable (vsn_Name snap) \<or> annotations snap AnnotationSnapshotRetention = None \<Longrightarrow>
   keeps_inv (joint G I) (retireIfExpired E A snap)"
  unfolding retireIfExpired_def by (intro kept keeps_retire) blast

lemma keeps_checkIntegrity:
  assumes "sound (vsn_Name snap) \<or> deletable (vsn_Name snap) \<and> creatable"
  shows "keeps_inv (joint G I) (checkIntegrity E W A c snap)"
  unfolding checkIntegrity_def
proof (rule keeps_seq_if [where Q = "\<lambda>st. st = snapshotIntegrityCorrupted \<longrightarrow> deletable (vsn_Name snap) \<and> creatable"])
  show "yields (joint G I) (getSnapshotIntegrityCheckStatus A snap)
      (\<lambda>st. st = snapshotIntegrityCorrupted \<longrightarrow> deletable (vsn_Name snap) \<and> creatable)"
    using assms yields_checkStatus [of snap] unfolding yields_def by metis
qed (auto intro!: kept keeps_seq_if [OF keeps_annotate yields_annotate] snapshot_calls(5))

lemma keeps_snapshotReady: "flag active \<Longrightarrow> keeps_inv (joint G I) (snapshotReady E A c active latest snap)"
  unfolding snapshotReady_def by (intro kept keeps_modifyNode good_changes)

lemma keeps_process:
  assumes "flag active" "deletable (vsn_Name snap) \<or> annotations snap AnnotationSnapshotRetention = None"
    "sound (vsn_Name snap) \<or> deletable (vsn_Name snap) \<and> creatable"
  shows "keeps_inv (joint G I) (processSnapshot E W A c k active latest snap)"
  unfolding processSnapshot_def by (intro kept keeps_snapshotReady keeps_retireIfExpired keeps_checkIntegrity assms)

lemma keeps_loop:
  assumes "flag active" "\<And>m. sound m \<or> deletable m \<and> creatable"
  shows "(\<And>snap. snap \<in> set snaps \<Longrightarrow> deletable (vsn_Name snap) \<or> annotations snap AnnotationSnapshotRetention = None) \<Longrightarrow>
    keeps_inv (joint G I) (snapshotLoop E W A c k active latest acc snaps)"
proof (induction snaps arbitrary: acc)
  case (Cons snap snaps)
  then show ?case by (simp only: snapshotLoop.simps) (intro kept keeps_process assms; simp)
qed (simp add: keeps_ret)

lemma keeps_removeOrphans [kept]: "keeps_inv (joint G I) (removeOrphans A names)"
proof -
  have "keeps_inv (joint G I) (orphanStatus A p job)" for p job
    unfolding orphanStatus_def by (cases "sj_Purpose job") (auto intro!: kept)
  then show ?thesis unfolding removeOrphans_def reconcileOrphan_def by (intro kept keeps_eachOf)
qed

lemma keeps_repair: "flag active \<Longrightarrow> keeps_inv (joint G I) (repairNode E A c active latest)"
  unfolding repairNode_def by (intro kept keeps_modifyNode good_changes)

lemma keeps_disabled: "flag False \<Longrightarrow> keeps_inv (joint G I) (snapshotsDisabled E A)"
  unfolding snapshotsDisabled_def by (intro kept keeps_modifyNode good_changes)

lemma keeps_startIfDue:
  assumes "creatable \<or> (\<forall>n. mem n \<longrightarrow> volumeSnapshotInProgress n)"
  shows "keeps_inv (joint G I) (startIfDue E W A c nodePodReady)"
  unfolding startIfDue_def
  by (rule keeps_seq_if [OF keeps_theNode yields_theNode]) (use assms in \<open>auto simp: G_def intro!: kept\<close>)

end

section \<open>The whole handler\<close>

text \<open>The listings satisfy \<open>L\<close> and the settings \<open>cfg\<close>; what they entail for the snapshots that expire and for those
  beyond the number to retain. A snapshot is started only if \<open>creatable\<close> or if no node in order asks for one.\<close>

locale snapshot_policy = snapshot_world +
  fixes L :: "VolumeSnapshot list \<Rightarrow> bool" and cfg :: "VolumeSnapshotsConfig \<Rightarrow> bool"
  assumes replaceable: "sound m \<or> deletable m \<and> creatable"
    and listing: "yields I (sn_listSnapshots A) L"
    and expiring: "L xs \<Longrightarrow> snap \<in> set (se_SortSnapshots E xs) \<Longrightarrow>
      deletable (vsn_Name snap) \<or> annotations snap AnnotationSnapshotRetention = None"
    and surplus: "L xs \<Longrightarrow> cfg c \<Longrightarrow> GetRetainCount c = Some retain \<Longrightarrow>
      snap \<in> set (take (nat (toDelete c (int (length (se_SortSnapshots E xs))) retain)) (se_SortSnapshots E xs)) \<Longrightarrow>
      deletable (vsn_Name snap)"
    and due: "creatable \<or> (\<forall>n. mem n \<longrightarrow> volumeSnapshotInProgress n)"

context snapshot_policy
begin

lemma yields_list: "yields (joint G I) (listNodeSnapshots A) L"
  unfolding listNodeSnapshots_def by (rule yields_outside [OF listing])

lemma keeps_retainNewest: "cfg c \<Longrightarrow> keeps_inv (joint G I) (retainNewest E A c snaps)"
  unfolding retainNewest_def
  by (intro kept keeps_seq_if [OF keeps_list yields_list] keeps_eachOf keeps_retire surplus)

lemma keeps_afterLoop: "cfg c \<Longrightarrow> keeps_inv (joint G I) (afterLoop E W A c nodePodReady snaps acc)"
  unfolding afterLoop_def by (intro kept keeps_retainNewest keeps_startIfDue due)

lemma keeps_rest:
  assumes "cfg c" "L xs" "flag active"
  shows "keeps_inv (joint G I)
    (seq (snapshotLoop E W A c k active latest acc (se_SortSnapshots E xs)) (\<lambda>r.
       case r of None \<Rightarrow> ret () | Some acc \<Rightarrow> afterLoop E W A c nodePodReady snaps acc))"
  using assms by (intro kept keeps_loop keeps_afterLoop expiring replaceable)

lemma keeps_reconcile:
  assumes "cfg c" "\<And>b. flag b"
  shows "keeps_inv (joint G I) (reconcileSnapshots E W A c nodePodReady)"
  unfolding reconcileSnapshots_def Let_def
  by (intro keeps_seq_if [OF keeps_list yields_list] keeps_seq keeps_repair keeps_rest assms)

lemma keeps_ensure:
  assumes "\<And>b. flag b" "\<And>n c. mem n \<Longrightarrow> snapshotsConfig n = Some c \<Longrightarrow> cfg c"
  shows "keeps_inv (joint G I) (ensureVolumeSnapshots E W A nodePodReady)"
  unfolding ensureVolumeSnapshots_def
  by (intro keeps_seq keeps_acknowledgements keeps_pending keeps_seq_if [OF keeps_theNode yields_theNode]
      kept keeps_disabled keeps_reconcile assms) (simp_all add: G_def)

end

end
