(* ===== verification/Snapshot_Store.thy ===== *)
theory Snapshot_Store
  imports Snapshot_Rules Pod_Correct
begin

text \<open>
  A concrete API server for the snapshot handlers: the stored node, the snapshots, the delete jobs and the
  integrity checks, with a script that says which of the next calls fail. It answers the write of a status with
  the node it was given; a write of the node keeps the stored status; a write of a snapshot changes its
  annotations only, and not the one for its retention, which the controller never rewrites. Every contract of \<open>Snapshot_Rules\<close> is interpreted on it, and the examples run on it.
\<close>

record snap_store =
  ss_Node :: ChainNode
  ss_Snapshots :: "VolumeSnapshot list"
  ss_Created :: nat
  ss_Jobs :: "(string \<times> SnapshotStatus) list"
  ss_Checks :: "(string \<times> (int \<times> int)) list"
  ss_Clock :: int
  ss_Fails :: "bool list"

definition ss_do :: "'e \<Rightarrow> (snap_store \<Rightarrow> ('e + 'a) \<times> snap_store) \<Rightarrow> snap_store \<Rightarrow> ('e + 'a) \<times> snap_store" where
  "ss_do e oper s =
     (case ss_Fails s of
        [] \<Rightarrow> oper s
      | True # fs \<Rightarrow> (Inl e, s\<lparr>ss_Fails := fs\<rparr>)
      | False # fs \<Rightarrow> oper (s\<lparr>ss_Fails := fs\<rparr>))"

definition ss_get :: "'e \<Rightarrow> (snap_store \<Rightarrow> 'e + 'a) \<Rightarrow> snap_store \<Rightarrow> ('e + 'a) \<times> snap_store" where
  "ss_get e f = ss_do e (\<lambda>s. (f s, s))"

definition ss_put :: "'e \<Rightarrow> (snap_store \<Rightarrow> snap_store) \<Rightarrow> 'a \<Rightarrow> snap_store \<Rightarrow> ('e + 'a) \<times> snap_store" where
  "ss_put e f x = ss_do e (\<lambda>s. (Inr x, f s))"

definition jobStatus :: "(string \<times> SnapshotStatus) list \<Rightarrow> string \<Rightarrow> SnapshotStatus" where
  "jobStatus jobs nm = (case map_of jobs nm of None \<Rightarrow> SnapshotNotFound | Some st \<Rightarrow> st)"

definition dropJob :: "string \<Rightarrow> snap_store \<Rightarrow> snap_store" where
  "dropJob nm s = s\<lparr>ss_Jobs := filter (\<lambda>j. fst j \<noteq> nm) (ss_Jobs s)\<rparr>"

definition withAnnotations :: "VolumeSnapshot \<Rightarrow> VolumeSnapshot \<Rightarrow> VolumeSnapshot" where
  "withAnnotations snap y =
     (if vsn_Name y = vsn_Name snap
      then y\<lparr>vsn_Annotations := map_option (\<lambda>m. m(AnnotationSnapshotRetention := annotations y AnnotationSnapshotRetention))
             (vsn_Annotations snap)\<rparr>
      else y)"

definition ss_newJob :: "string \<Rightarrow> snap_store \<Rightarrow> snap_store" where
  "ss_newJob nm s = s\<lparr>ss_Jobs := (nm, SnapshotActive) # ss_Jobs s\<rparr>"

definition store_exports :: "snap_store export_api" where
  "store_exports =
     \<lparr>xp_CreateSnapshot = (\<lambda>p m snap. ss_put (ExportOther []) id ()),
      xp_GetSnapshotStatus = (\<lambda>p m. ss_get (ExportOther []) (\<lambda>s. Inr SnapshotActive)),
      xp_GetSnapshotDeletionStatus = (\<lambda>p j. ss_get (ExportOther []) (\<lambda>s. Inr (jobStatus (ss_Jobs s) (sj_Name j)))),
      xp_CleanupSnapshot = (\<lambda>p m. ss_put (ExportOther []) id ()),
      xp_DeleteSnapshot = (\<lambda>p m. ss_get (ExportOther []) (\<lambda>s. Inr SnapshotSucceeded)),
      xp_DeleteSnapshotBounded = (\<lambda>p m. ss_put (ExportOther []) (ss_newJob m) SnapshotActive),
      xp_DeleteSnapshotForUpload = (\<lambda>p j. ss_get (ExportOther []) (\<lambda>s. Inr (j, SnapshotSucceeded))),
      xp_CleanupSnapshotDeletion = (\<lambda>p j. ss_put (ExportOther []) (dropJob (sj_Name j)) ()),
      xp_ListSnapshots = (\<lambda>p. ss_get (ExportOther []) (\<lambda>s. Inr [])),
      xp_ListSnapshotDeletionJobs = ss_get (ExportOther []) (\<lambda>s. Inr (map (\<lambda>j. deletionJob (fst j) False) (ss_Jobs s))),
      xp_ReconcileSnapshotDeletionJob = (\<lambda>j. ss_get (ExportOther []) (\<lambda>s. Inr (jobStatus (ss_Jobs s) (sj_Name j)))),
      xp_CleanupSnapshotDeletionResources = (\<lambda>j. ss_put (ExportOther []) (dropJob (sj_Name j)) ()),
      xp_DeletePreviousUpload = (\<lambda>j. ss_get (ExportOther []) (\<lambda>s. Inr (j, SnapshotSucceeded)))\<rparr>"

definition ss_writeNode :: "ChainNode \<Rightarrow> snap_store \<Rightarrow> (api_error + ChainNode) \<times> snap_store" where
  "ss_writeNode n = ss_do Conflict (\<lambda>s.
     let n1 = n\<lparr>cn_Status := cn_Status (ss_Node s)\<rparr> in (Inr n1, s\<lparr>ss_Node := n1\<rparr>))"

definition ss_writeStatus :: "ChainNode \<Rightarrow> snap_store \<Rightarrow> snap_store" where
  "ss_writeStatus n s = s\<lparr>ss_Node := (ss_Node s)\<lparr>cn_Status := cn_Status n\<rparr>\<rparr>"

text \<open>The patch replaces the acknowledgement annotation.\<close>

definition ss_patch :: "ChainNode \<Rightarrow> snap_store \<Rightarrow> snap_store" where
  "ss_patch n s = s\<lparr>ss_Node :=
     (case m_Annotations (cn_Meta n) AnnotationSnapshotExportCleanupAcknowledgement of
        None \<Rightarrow> unannotateNode AnnotationSnapshotExportCleanupAcknowledgement (ss_Node s)
      | Some v \<Rightarrow> annotateNode AnnotationSnapshotExportCleanupAcknowledgement v (ss_Node s))\<rparr>"

definition store_api :: "snap_store snap_api" where
  "store_api =
     \<lparr>sn_getNode = ss_get Conflict (\<lambda>s. Inr (ss_Node s)),
      sn_updateNode = ss_writeNode,
      sn_updateStatus = (\<lambda>n. ss_put Conflict (ss_writeStatus n) n),
      sn_patchNode = (\<lambda>n n'. ss_put Conflict (ss_patch n') ()),
      sn_listSnapshots = ss_get Conflict (\<lambda>s. Inr (ss_Snapshots s)),
      sn_getSnapshot = (\<lambda>m. ss_get Conflict (\<lambda>s.
        case find (\<lambda>x. vsn_Name x = m) (ss_Snapshots s) of None \<Rightarrow> Inl NotFound | Some x \<Rightarrow> Inr x)),
      sn_createSnapshot = (\<lambda>snap. ss_put Conflict (\<lambda>s. s\<lparr>ss_Snapshots := ss_Snapshots s @ [snap\<lparr>vsn_CreationTimestamp := ss_Clock s\<rparr>],
        ss_Created := Suc (ss_Created s)\<rparr>) ()),
      sn_updateSnapshot = (\<lambda>snap. ss_put Conflict (\<lambda>s. s\<lparr>ss_Snapshots := map (withAnnotations snap) (ss_Snapshots s)\<rparr>) snap),
      sn_deleteSnapshot = (\<lambda>m u. ss_put Conflict (\<lambda>s. s\<lparr>ss_Snapshots := filter (\<lambda>x. vsn_Name x \<noteq> m) (ss_Snapshots s)\<rparr>) ()),
      sn_getSecret = (\<lambda>m. ss_get Conflict (\<lambda>s. Inl NotFound)),
      sn_getServiceAccount = (\<lambda>m. ss_get Conflict (\<lambda>s. Inr ())),
      sn_createCheckJob = (\<lambda>snap. ss_put Conflict id ()),
      sn_createCheckPVC = (\<lambda>snap q. ss_put Conflict id ()),
      sn_deleteCheckJob = (\<lambda>m. ss_put Conflict id ()),
      sn_deleteCheckPVC = (\<lambda>m. ss_put Conflict id ()),
      sn_listCheckJobs = (\<lambda>m. ss_get Conflict (\<lambda>s. Inr (case map_of (ss_Checks s) m of None \<Rightarrow> [] | Some j \<Rightarrow> [j]))),
      sn_deletePod = ss_put Conflict id (),
      sn_now = (\<lambda>s. (ss_Clock s, s)),
      sn_exports = store_exports\<rparr>"

definition store_pods :: "snap_store pod_world" where
  "store_pods =
     \<lparr>pw_pod =
        \<lparr>po_getPodSpec = (\<lambda>n c s. case ss_put [] id new_pod s of (r, s1) \<Rightarrow> ((n, r), s1)),
         po_forceConfigs = (\<lambda>n s. ((n, Inr []), s)),
         po_getPod = ss_get Conflict (\<lambda>s. Inl NotFound),
         po_patchPod = (\<lambda>p q. ss_put [] id q),
         po_createPod = (\<lambda>p. ss_put [] id ()),
         po_deletePod = ss_put [] id (), po_waitDeleted = ss_put [] id (), po_waitStarted = ss_put [] id (),
         po_listPods = (\<lambda>l. ss_put Conflict id []),
         po_latestHeight = ss_get [] (\<lambda>s. Inr (cns_LatestHeight (cn_Status (ss_Node s)))), po_requiresUpgrade = ss_put [] id True,
         po_shutdownNodeUtils = ss_put [] id (),
         po_chainClient = ss_put [] id (), po_stateSyncing = ss_put [] id False, po_nodeSyncing = ss_put [] id False\<rparr>,
      pw_upgrades =
        \<lparr>ua_nextUpgrade = (\<lambda>s. (Inr None, s)), ua_getConfig = ss_get Conflict (\<lambda>s. Inl NotFound),
         ua_createConfig = (\<lambda>m. ss_put Conflict id ()), ua_updateConfig = (\<lambda>m. ss_put Conflict id ()),
         ua_updateStatus = (\<lambda>n. ss_put Conflict (ss_writeStatus n) ())\<rparr>,
      pw_marshal = (\<lambda>us. []), pw_env = plain_env,
      pw_vpa =
        \<lparr>vp_now = (\<lambda>s. (0, s)), vp_cpuStats = (\<lambda>d. ss_put [] id 0), vp_memStats = (\<lambda>d. ss_put [] id 0),
         vp_getPod = (\<lambda>s. (Inl NotFound, s)), vp_update = (\<lambda>n. ss_put Conflict id ())\<rparr>,
      pw_DisruptionCheckEnabled = True, pw_DisruptionMaxUnavailable = 1, pw_nodeLabels = (\<lambda>n. Map.empty)\<rparr>"

section \<open>What the calls leave alone\<close>

definition unscripted :: "(snap_store \<Rightarrow> bool) \<Rightarrow> bool" where
  "unscripted J \<longleftrightarrow> (\<forall>s fs. J (s\<lparr>ss_Fails := fs\<rparr>) = J s)"

lemma keeps_ss_do:
  assumes "unscripted J" "keeps_inv J oper"
  shows "keeps_inv J (ss_do e oper)"
proof (rule keeps_invI)
  fix s r s' assume J: "J s" and run: "ss_do e oper s = (r, s')"
  have "J (s\<lparr>ss_Fails := fs\<rparr>)" for fs using J assms(1) by (simp add: unscripted_def)
  then show "J s'" using J run keeps_invD [OF assms(2)] by (auto simp: ss_do_def split: list.splits bool.splits)
qed

lemma yields_ss_do:
  assumes "unscripted J" "yields J oper Q"
  shows "yields J (ss_do e oper) Q"
  using assms by (fastforce simp: yields_def unscripted_def ss_do_def split: list.splits bool.splits)

lemma keeps_ss_get: "unscripted J \<Longrightarrow> keeps_inv J (ss_get e f)"
  unfolding ss_get_def by (rule keeps_ss_do) (auto simp: keeps_inv_def)

lemma keeps_ss_put: "unscripted J \<Longrightarrow> (\<And>s. J s \<Longrightarrow> J (f s)) \<Longrightarrow> keeps_inv J (ss_put e f x)"
  unfolding ss_put_def by (rule keeps_ss_do) (auto simp: keeps_inv_def)

lemma yields_ss_get: "unscripted J \<Longrightarrow> (\<And>s y. J s \<Longrightarrow> f s = Inr y \<Longrightarrow> Q y) \<Longrightarrow> yields J (ss_get e f) Q"
  unfolding ss_get_def by (rule yields_ss_do) (auto simp: yields_def)

lemma yields_ss_put: "unscripted J \<Longrightarrow> Q x \<Longrightarrow> yields J (ss_put e f x) Q"
  unfolding ss_put_def by (rule yields_ss_do) (auto simp: yields_def)

text \<open>An invariant of the store under which the contract holds: it depends neither on the script nor on the jobs, and
  is kept by the writes of nodes and snapshots in order.\<close>

lemma store_calls:
  assumes u: "unscripted J" and jobs: "\<And>s js. J s \<Longrightarrow> J (s\<lparr>ss_Jobs := js\<rparr>)"
    and node: "\<And>s. J s \<Longrightarrow> recorded okx (ss_Node s)"
    and wr: "\<And>s n. J s \<Longrightarrow> recorded okx n \<Longrightarrow> J (s\<lparr>ss_Node := n\<rparr>)"
    and snaps: "\<And>s snap. J s \<Longrightarrow> J (s\<lparr>ss_Snapshots := map (withAnnotations snap) (ss_Snapshots s)\<rparr>)"
    and del: "\<And>s m. J s \<Longrightarrow> deletable m \<Longrightarrow> J (s\<lparr>ss_Snapshots := filter (\<lambda>x. vsn_Name x \<noteq> m) (ss_Snapshots s)\<rparr>)"
    and new: "\<And>s snap. J s \<Longrightarrow> creatable \<Longrightarrow>
      J (s\<lparr>ss_Snapshots := ss_Snapshots s @ [snap\<lparr>vsn_CreationTimestamp := ss_Clock s\<rparr>], ss_Created := Suc (ss_Created s)\<rparr>)"
    and mem: "\<And>n st. mem n \<Longrightarrow> mem (n\<lparr>cn_Status := st\<rparr>)"
    and checks: "\<And>s m j. J s \<Longrightarrow> sound m \<Longrightarrow> map_of (ss_Checks s) m = Some j \<Longrightarrow> fst j \<le> 0"
  shows "snapshot_calls store_api store_pods J okx mem deletable creatable sound"
proof -
  have st: "J s \<Longrightarrow> recorded okx n \<Longrightarrow> J (ss_writeStatus n s)" for s n
    unfolding ss_writeStatus_def by (rule wr) (auto simp: recorded_def)
  have patch: "J s \<Longrightarrow> J (ss_patch n s)" for s n
    unfolding ss_patch_def by (rule wr) (auto simp: node split: option.split)
  have k: "keeps_inv J (ss_put e id x)" for e :: 'e and x :: 'x by (rule keeps_ss_put [OF u]) simp
  have wn: "keeps_inv J (ss_writeNode n)" "yields J (ss_writeNode n) (recorded okx)" for n
    unfolding ss_writeNode_def
    by (rule keeps_ss_do [OF u] yields_ss_do [OF u]; auto simp: keeps_inv_def yields_def Let_def recorded_def dest: node intro!: wr)+
  have wm: "mem n \<Longrightarrow> yields J (ss_writeNode n) mem" for n
    unfolding ss_writeNode_def by (rule yields_ss_do [OF u]) (auto simp: yields_def Let_def mem)
  have spec: "recorded okx n' \<and> mem n' \<and> J s'"
    if "recorded okx n" "mem n" "J s" "po_getPodSpec (pw_pod store_pods) n h s = ((n', r), s')" for n h s n' r s'
    using that keeps_invD [OF k, of s "[]" new_pod] by (auto simp: store_pods_def split: prod.splits)
  note simps = store_api_def store_pods_def store_exports_def ss_newJob_def dropJob_def
  note rules = keeps_ss_get [OF u] keeps_ss_put [OF u] yields_ss_get [OF u] yields_ss_put [OF u] k wn wm
  show ?thesis
  proof unfold_locales
    fix n h s n' r s'
    assume "recorded okx n" "mem n" "J s" "po_getPodSpec (pw_pod store_pods) n h s = ((n', r), s')"
    then show "recorded okx n' \<and> mem n' \<and> J s'" by (rule spec)
  next
    fix m assume "sound m"
    then show "yields J (sn_listCheckJobs store_api m) (\<lambda>jobs. case jobs of [] \<Rightarrow> True | (failed, _) # _ \<Rightarrow> failed \<le> 0)"
      using checks by (fastforce simp: store_api_def intro!: rules split: option.splits)
  qed (auto simp: simps intro!: rules intro: jobs st patch snaps del new node split: option.splits)
qed

section \<open>Examples\<close>

definition hour :: int where "hour = 3600 * 10 ^ 9"

text \<open>Times are written in hours.\<close>

definition calm_env :: snap_env where
  "calm_env =
     \<lparr>se_Sum256 = (\<lambda>s. take 8 (s @ replicate 8 (CHR ''0''))), se_Quote = (\<lambda>s. s), se_RFC3339 = (\<lambda>t. ''later''),
      se_FormatTime = (\<lambda>t. Itoa (t div hour)), se_ParseTime = (\<lambda>s. map_option (\<lambda>h. h * hour) (Atoi s)),
      se_ParseDuration = (\<lambda>s. if s = ''24h'' then Some (24 * 3600 * 10 ^ 9) else None),
      se_ErrorText = (\<lambda>_. ''error''), se_SetCondition = (\<lambda>c cs. filter (\<lambda>x. co_Type x \<noteq> co_Type c) cs @ [c]),
      se_RemoveCondition = (\<lambda>t. filter (\<lambda>x. co_Type x \<noteq> t)), se_FindCondition = (\<lambda>cs t. find (\<lambda>x. co_Type x = t) cs),
      se_SortSnapshots = sort_key vsn_CreationTimestamp, se_WithLabels = (\<lambda>n l. l), se_Retries = 4,
      se_HasClient = True, se_HasClientSet = True\<rparr>"

definition s3_settings :: ExportTarballConfig where
  "s3_settings = \<lparr>et_Suffix = None, et_DeleteOnExpire = Some True, et_Compression = None, et_GCS = None,
     et_S3 = Some \<lparr>sx_Bucket = ''archive'', sx_Region = ''eu'', sx_Endpoint = None, sx_ForcePathStyle = None,
       sx_CredentialsSecret = None, sx_ServiceAccountName = Some ''uploader'', sx_SizeLimit = None, sx_PartSize = None,
       sx_ChunkSize = Some ''16MB'', sx_BufferSize = None, sx_ConcurrentJobs = None\<rparr>\<rparr>"

definition daily :: VolumeSnapshotsConfig where
  "daily = \<lparr>vs_Frequency = ''24h'', vs_Retention = None, vs_Retain = None, vs_PreserveLastSnapshot = None,
     vs_SnapshotClassName = None, vs_StopNode = None, vs_ExportTarball = None, vs_Verify = None,
     vs_DisableWhileSyncing = None, vs_DisableWhileUnhealthy = None\<rparr>"

definition snap_node :: "VolumeSnapshotsConfig \<Rightarrow> ChainNode" where
  "snap_node c = zero_ChainNode\<lparr>
     cn_Spec := (cn_Spec zero_ChainNode)\<lparr>cn_Persistence := Some \<lparr>pe_Size = None, pe_AutoResize = None,
       pe_AutoResizeThreshold = None, pe_AutoResizeIncrement = None, pe_AutoResizeMaxSize = None,
       pe_Snapshots = Some c, pe_RestoreFromSnapshot = None\<rparr>\<rparr>,
     cn_Status := (cn_Status zero_ChainNode)\<lparr>cns_Phase := PhaseChainNodeRunning, cns_ChainID := ''chain'', cns_PvcSize := ''100Gi'',
       cns_LatestHeight := 10\<rparr>\<rparr>"

text \<open>A snapshot of a given name and time of creation, ready or not.\<close>

definition snap_at :: "string \<Rightarrow> int \<Rightarrow> bool \<Rightarrow> VolumeSnapshot" where
  "snap_at nm t ready = \<lparr>vsn_Name = nm, vsn_UID = nm, vsn_Labels = Map.empty,
     vsn_Annotations = Some [AnnotationPvcSnapshotReady \<mapsto> boolText ready], vsn_CreationTimestamp = t,
     vsn_DeletionTimestamp = None, vsn_SourcePVC = [], vsn_ClassName = None,
     vsn_Status = Some \<lparr>vss_ReadyToUse = Some ready, vss_RestoreSize = Some 0\<rparr>\<rparr>"

definition store_of :: "ChainNode \<Rightarrow> VolumeSnapshot list \<Rightarrow> int \<Rightarrow> snap_store" where
  "store_of n snaps now = \<lparr>ss_Node = n, ss_Snapshots = snaps, ss_Created = 0, ss_Jobs = [], ss_Checks = [], ss_Clock = now,
     ss_Fails = []\<rparr>"

end
