(* ===== verification/Export_Correct.thy ===== *)
theory Export_Correct
  imports Snapshot_Store
begin

text \<open>
  Properties of the records of exported snapshots: the invariant of a record and that the whole handler keeps it,
  the number and the spacing of delete attempts, that a record holds the destination it was made from, and that the
  recursion of the deletion ends after two levels.
\<close>

section \<open>The invariant of a record\<close>

definition valid_export :: "SnapshotExportStatus \<Rightarrow> bool" where
  "valid_export x \<longleftrightarrow> 0 \<le> ex_DeleteAttempts x \<and> ex_DeleteAttempts x \<le> tarballDeleteMaxAttempts \<and>
     (ex_DeleteExhausted x \<longrightarrow> ex_DeleteAttempts x = tarballDeleteMaxAttempts \<and> ex_NextDeleteRetryAt x = None \<and>
        ex_Phase x \<in> {SnapshotExportPhaseCleanupRequired, SnapshotExportPhaseDeleted, SnapshotExportPhaseAcknowledged}) \<and>
     (ex_NextDeleteRetryAt x \<noteq> None \<longrightarrow> 0 < ex_DeleteAttempts x \<and> ex_DeleteAttempts x < tarballDeleteMaxAttempts) \<and>
     (ex_Phase x \<in> {SnapshotExportPhaseUploading, SnapshotExportPhaseUploaded} \<longrightarrow> ex_DeleteAttempts x = 0)"

lemmas export_changes = exportPhase_def startAttempt_def resumeAttempt_def recordFailure_def acknowledgeExport_def
  snapshotExportDeleteTerminal_def tarballDeleteMaxAttempts_def Let_def

lemma exportPhase_valid:
  assumes "valid_export x" "ph \<in> {SnapshotExportPhaseUploaded, SnapshotExportPhaseCleanupRequired, SnapshotExportPhaseDeleted}"
    "exportPhase ph msg x = Inr (b, y)"
  shows "valid_export y"
  using assms by (cases "ex_Phase x") (auto simp: valid_export_def export_changes split: if_splits)

lemma startAttempt_valid: "valid_export x \<Longrightarrow> startAttempt k now x = Inr (b, y) \<Longrightarrow> valid_export y"
  by (auto simp: valid_export_def export_changes split: if_splits)

lemma resumeAttempt_valid: "valid_export x \<Longrightarrow> resumeAttempt x = Inr (b, y) \<Longrightarrow> valid_export y"
  by (auto simp: valid_export_def export_changes split: if_splits)

lemma recordFailure_valid: "valid_export x \<Longrightarrow> recordFailure E failure now x = Inr (b, y) \<Longrightarrow> valid_export y"
  by (auto simp: valid_export_def export_changes split: if_splits)

lemma acknowledge_valid: "valid_export x \<Longrightarrow> valid_export (acknowledgeExport ids x)"
  by (auto simp: valid_export_def export_changes)

lemma new_valid: "newSnapshotExportStatus E n snap = Inr x \<Longrightarrow> valid_export x"
  by (auto simp: newSnapshotExportStatus_def Let_def valid_export_def zero_Export_def s3Export_def gcsExport_def
      tarballDeleteMaxAttempts_def split: option.splits)

lemma unknown_valid: "valid_export (unknownExport E n snap)"
  by (simp add: unknownExport_def Let_def valid_export_def zero_Export_def tarballDeleteMaxAttempts_def)

lemmas valid_changes = exportPhase_valid startAttempt_valid resumeAttempt_valid recordFailure_valid acknowledge_valid
  new_valid unknown_valid

text \<open>Every call may do anything to the world that keeps the stored records valid.\<close>

abbreviation record_calls :: "'s snap_api \<Rightarrow> 's pod_world \<Rightarrow> ('s \<Rightarrow> bool) \<Rightarrow> bool" where
  "record_calls A W I \<equiv> snapshot_calls A W I valid_export (\<lambda>_. True) (\<lambda>_. True) True (\<lambda>_. False)"

lemma record_policy:
  assumes "record_calls A W I"
  shows "snapshot_policy A W I valid_export (\<lambda>_. True) (\<lambda>_. True) True (\<lambda>_. False) E (\<lambda>_. True) (\<lambda>_. True) (\<lambda>_. True)"
  using assms unfolding snapshot_policy_def snapshot_policy_axioms_def snapshot_world_def snapshot_world_axioms_def
  by (auto simp: yields_def intro: valid_changes)

interpretation st: snapshot_policy store_api store_pods "\<lambda>s. recorded valid_export (ss_Node s)" valid_export "\<lambda>_. True"
    "\<lambda>_. True" True "\<lambda>_. False" E "\<lambda>_. True" "\<lambda>_. True" "\<lambda>_. True" for E
  by (rule record_policy, rule store_calls) (auto simp: unscripted_def)

section \<open>Attempts\<close>

text \<open>The life of a record, with what happened to it, the latest event first: an attempt that was started at a
  time, and a failure recorded at a time as that of the k-th attempt.\<close>

datatype export_event = Started int | Failed int int

inductive export_run :: "snap_env \<Rightarrow> SnapshotExportStatus \<Rightarrow> export_event list \<Rightarrow> bool" for E :: snap_env where
  fresh: "newSnapshotExportStatus E n snap = Inr x \<Longrightarrow> export_run E x []"
| unknown: "export_run E (unknownExport E n snap) []"
| phase: "export_run E x h \<Longrightarrow> exportPhase ph msg x = Inr (b, y) \<Longrightarrow>
    ph \<in> {SnapshotExportPhaseUploaded, SnapshotExportPhaseCleanupRequired, SnapshotExportPhaseDeleted} \<Longrightarrow> export_run E y h"
| start: "export_run E x h \<Longrightarrow> startAttempt k now x = Inr (True, y) \<Longrightarrow> export_run E y (Started now # h)"
| resume: "export_run E x h \<Longrightarrow> resumeAttempt x = Inr (b, y) \<Longrightarrow> export_run E y h"
| failure: "export_run E x h \<Longrightarrow> recordFailure E msg now x = Inr (True, y) \<Longrightarrow>
    export_run E y (Failed now (ex_DeleteAttempts y) # h)"
| acknowledge: "export_run E x h \<Longrightarrow> export_run E (acknowledgeExport ids x) h"

fun starts :: "export_event list \<Rightarrow> int" where
  "starts [] = 0"
| "starts (Started t # h) = starts h + 1"
| "starts (Failed t k # h) = starts h"

fun lastFailure :: "export_event list \<Rightarrow> (int \<times> int) option" where
  "lastFailure [] = None"
| "lastFailure (Started t # h) = lastFailure h"
| "lastFailure (Failed t k # h) = Some (t, k)"

text \<open>No attempt starts before the delay after the latest failure has passed.\<close>

fun spaced :: "export_event list \<Rightarrow> bool" where
  "spaced [] = True"
| "spaced (Started t # h) \<longleftrightarrow>
     (case lastFailure h of None \<Rightarrow> True | Some (t0, k) \<Rightarrow> t0 + snapshotDeleteRetryDelay k \<le> t) \<and> spaced h"
| "spaced (Failed t k # h) \<longleftrightarrow> spaced h"

text \<open>What the record knows of its history.\<close>

definition remembers :: "SnapshotExportStatus \<Rightarrow> export_event list \<Rightarrow> bool" where
  "remembers x h \<longleftrightarrow> starts h \<le> ex_DeleteAttempts x \<and> (ex_DeleteAttempts x = 0 \<longrightarrow> lastFailure h = None) \<and>
     (\<forall>t. ex_NextDeleteRetryAt x = Some t \<longrightarrow> lastFailure h = Some (t - snapshotDeleteRetryDelay (ex_DeleteAttempts x), ex_DeleteAttempts x))"

lemma remembers_frame:
  assumes "remembers x h" "ex_DeleteAttempts y = ex_DeleteAttempts x" "ex_NextDeleteRetryAt y = ex_NextDeleteRetryAt x"
  shows "remembers y h"
  using assms by (simp add: remembers_def)

lemma startAttempt_remembers:
  assumes "remembers x h" "spaced h" "0 \<le> ex_DeleteAttempts x" "startAttempt k now x = Inr (True, y)"
  shows "remembers y (Started now # h) \<and> spaced (Started now # h)"
  using assms
  by (auto simp: remembers_def startAttempt_def snapshotExportDeleteTerminal_def split: if_splits option.splits)

lemma recordFailure_remembers:
  assumes "remembers x h" "valid_export x" "recordFailure E msg now x = Inr (True, y)"
  shows "remembers y (Failed now (ex_DeleteAttempts y) # h)"
  using assms
  by (auto simp: remembers_def valid_export_def recordFailure_def snapshotExportDeleteTerminal_def Let_def split: if_splits)

lemma new_frame:
  "newSnapshotExportStatus E n snap = Inr x \<Longrightarrow> ex_DeleteAttempts x = 0 \<and> ex_NextDeleteRetryAt x = None"
  "ex_DeleteAttempts (unknownExport E n snap) = 0 \<and> ex_NextDeleteRetryAt (unknownExport E n snap) = None"
  by (auto simp: newSnapshotExportStatus_def unknownExport_def Let_def zero_Export_def s3Export_def gcsExport_def split: option.splits)

lemma change_frame:
  "exportPhase ph msg x = Inr (b, y) \<Longrightarrow>
     ex_DeleteAttempts y = ex_DeleteAttempts x \<and> ex_NextDeleteRetryAt y = ex_NextDeleteRetryAt x"
  "resumeAttempt x = Inr (b, y) \<Longrightarrow>
     ex_DeleteAttempts y = ex_DeleteAttempts x \<and> ex_NextDeleteRetryAt y = ex_NextDeleteRetryAt x"
  "ex_DeleteAttempts (acknowledgeExport ids x) = ex_DeleteAttempts x \<and>
     ex_NextDeleteRetryAt (acknowledgeExport ids x) = ex_NextDeleteRetryAt x"
  by (auto simp: exportPhase_def resumeAttempt_def acknowledgeExport_def split: if_splits)

lemma export_run_invariant: "export_run E x h \<Longrightarrow> valid_export x \<and> remembers x h \<and> spaced h"
proof (induction rule: export_run.induct)
  case (fresh n snap x)
  then show ?case using new_frame(1) [OF fresh] by (simp add: new_valid remembers_def)
next
  case (unknown n snap)
  then show ?case using new_frame(2) by (simp add: unknown_valid remembers_def)
next
  case (phase x h ph msg b y)
  then show ?case
    using exportPhase_valid [OF _ phase.hyps(3,2)] change_frame(1) [OF phase.hyps(2)] remembers_frame [of x h y] by simp
next
  case (start x h k now y)
  then show ?case
    using startAttempt_valid [OF _ start.hyps(2)] startAttempt_remembers [OF _ _ _ start.hyps(2), of h]
    by (simp add: valid_export_def)
next
  case (resume x h b y)
  then show ?case
    using resumeAttempt_valid [OF _ resume.hyps(2)] change_frame(2) [OF resume.hyps(2)] remembers_frame [of x h y] by simp
next
  case (failure x h msg now y)
  then show ?case
    using recordFailure_valid [OF _ failure.hyps(2)] recordFailure_remembers [OF _ _ failure.hyps(2), of h] by simp
next
  case (acknowledge x h ids)
  then show ?case
    using acknowledge_valid change_frame(3) [of ids x] remembers_frame [of x h "acknowledgeExport ids x"] by simp
qed


lemma retry_delays: "snapshotDeleteRetryDelay 1 = 60 * 10 ^ 9" "snapshotDeleteRetryDelay 2 = 120 * 10 ^ 9"
  by (simp_all add: snapshotDeleteRetryDelay_def tarballDeleteRetryBaseDelay_def wrap64_def)

text \<open>C35: Whatever the calls do and whichever of them fail, one run of the snapshot handler keeps the records of
  exports valid, those of the node in memory and those of the stored node: at most three attempts, a retry time only
  between attempts, exhausted records without a retry time and in a phase that no longer deletes.\<close>

theorem export_records_stay_valid:
  assumes "record_calls A W I" "I s" "recorded valid_export n"
    "ensureVolumeSnapshots E W A nodePodReady (n, s) = (r, (n', s'))"
  shows "I s' \<and> recorded valid_export n'"
proof -
  note p = record_policy [OF assms(1), of E]
  note w = snapshot_policy.axioms(1) [OF p]
  have "keeps_inv (joint (snapshot_world.G valid_export (\<lambda>_. True)) I) (ensureVolumeSnapshots E W A nodePodReady)"
    by (rule snapshot_policy.keeps_ensure [OF p]) auto
  from keeps_invD [OF this _ assms(4)] show ?thesis
    using assms(2,3) by (simp add: joint_def snapshot_world.G_def [OF w])
qed

section \<open>Destinations\<close>

text \<open>Settings a record can hold: one store, no empty strings and a positive number of jobs.\<close>

definition storable :: "ExportTarballConfig \<Rightarrow> bool" where
  "storable cfg \<longleftrightarrow> (et_GCS cfg = None \<longleftrightarrow> et_S3 cfg \<noteq> None) \<and>
     (case et_GCS cfg of None \<Rightarrow> True
      | Some g \<Rightarrow> gx_ServiceAccountName g \<noteq> Some [] \<and> GcsGetSizeLimit g \<noteq> [] \<and> GcsGetPartSize g \<noteq> [] \<and>
          GcsGetChunkSize g \<noteq> [] \<and> GcsGetBufferSize g \<noteq> [] \<and> 0 < GcsGetConcurrentJobs g) \<and>
     (case et_S3 cfg of None \<Rightarrow> True
      | Some x \<Rightarrow> sx_ServiceAccountName x \<noteq> Some [] \<and> sx_Endpoint x \<noteq> Some [] \<and> S3GetSizeLimit x \<noteq> [] \<and>
          S3GetPartSize x \<noteq> [] \<and> S3GetChunkSize x \<noteq> [] \<and> S3GetBufferSize x \<noteq> [] \<and> 0 < S3GetConcurrentJobs x)"

definition same_gcs :: "GcsExportConfig \<Rightarrow> GcsExportConfig \<Rightarrow> bool" where
  "same_gcs g h \<longleftrightarrow> gx_Bucket g = gx_Bucket h \<and> gx_CredentialsSecret g = gx_CredentialsSecret h \<and>
     gx_ServiceAccountName g = gx_ServiceAccountName h \<and> GcsGetSizeLimit g = GcsGetSizeLimit h \<and>
     GcsGetPartSize g = GcsGetPartSize h \<and> GcsGetChunkSize g = GcsGetChunkSize h \<and>
     GcsGetBufferSize g = GcsGetBufferSize h \<and> GcsGetConcurrentJobs g = GcsGetConcurrentJobs h"

definition same_s3 :: "S3ExportConfig \<Rightarrow> S3ExportConfig \<Rightarrow> bool" where
  "same_s3 x y \<longleftrightarrow> sx_Bucket x = sx_Bucket y \<and> sx_Region x = sx_Region y \<and> sx_Endpoint x = sx_Endpoint y \<and>
     ShouldForcePathStyle x = ShouldForcePathStyle y \<and> sx_CredentialsSecret x = sx_CredentialsSecret y \<and>
     sx_ServiceAccountName x = sx_ServiceAccountName y \<and> S3GetSizeLimit x = S3GetSizeLimit y \<and>
     S3GetPartSize x = S3GetPartSize y \<and> S3GetChunkSize x = S3GetChunkSize y \<and>
     S3GetBufferSize x = S3GetBufferSize y \<and> S3GetConcurrentJobs x = S3GetConcurrentJobs y"

definition same_target :: "ExportTarballConfig \<Rightarrow> ExportTarballConfig \<Rightarrow> bool" where
  "same_target a b \<longleftrightarrow> GetCompression a = GetCompression b \<and>
     rel_option same_gcs (et_GCS a) (et_GCS b) \<and> rel_option same_s3 (et_S3 a) (et_S3 b)"

lemmas gcs_getters = GcsGetSizeLimit_def GcsGetPartSize_def GcsGetChunkSize_def GcsGetBufferSize_def GcsGetConcurrentJobs_def
lemmas s3_getters = S3GetSizeLimit_def S3GetPartSize_def S3GetChunkSize_def S3GetBufferSize_def S3GetConcurrentJobs_def
  GetEndpoint_def ShouldForcePathStyle_def

lemma deref_optional: "deref d (optional s) = (if s = [] then d else s)"
  by (simp add: optional_def)

lemma optional_deref: "x \<noteq> Some [] \<Longrightarrow> optional (deref [] x) = x"
  by (cases x) (auto simp: optional_def)

lemma gcs_target:
  assumes "storable cfg" "et_GCS cfg = Some g" "ex_Compression st = GetCompression cfg"
  shows "\<exists>cfg'. exportConfigForStatus (gcsExport g st) = Inr cfg' \<and> same_target cfg cfg'"
proof -
  have "et_S3 cfg = None" using assms(1,2) by (auto simp: storable_def)
  moreover have "map_option (\<lambda>r. \<lparr>sks_Name = sr_Name r, sks_Key = sr_Key r\<rparr>)
      (map_option (\<lambda>k. \<lparr>sr_Name = sks_Name k, sr_Key = sks_Key k\<rparr>) v) = v" for v :: "SecretKeySelector option"
    by (cases v) auto
  ultimately show ?thesis
    using assms
    by (auto simp: exportConfigForStatus_def gcsExport_def Let_def same_target_def same_gcs_def storable_def
        GetCompression_def gcs_getters deref_optional optional_deref)
qed

lemma s3_target:
  assumes "storable cfg" "et_S3 cfg = Some x" "ex_Compression st = GetCompression cfg"
  shows "\<exists>cfg'. exportConfigForStatus (s3Export x st) = Inr cfg' \<and> same_target cfg cfg'"
proof -
  have "et_GCS cfg = None" using assms(1,2) by (auto simp: storable_def)
  moreover have "map_option sr_Name (map_option (\<lambda>nm. \<lparr>sr_Name = nm, sr_Key = []\<rparr>) v) = v" for v :: "string option"
    by (cases v) auto
  ultimately show ?thesis
    using assms
    by (auto simp: exportConfigForStatus_def s3Export_def Let_def same_target_def same_s3_def storable_def
        GetCompression_def s3_getters deref_optional optional_deref)
qed

text \<open>C38: The configuration that is read back from the record of an export names the same bucket, credentials, sizes
  and compression as the settings the record was made from, whatever the settings of the node become later.\<close>

theorem export_config_roundtrip:
  assumes "exportConfig n = Some cfg" "storable cfg" "newSnapshotExportStatus E n snap = Inr x"
  shows "\<exists>cfg'. exportConfigForStatus x = Inr cfg' \<and> same_target cfg cfg'"
proof -
  let ?base = "zero_Export\<lparr>ex_SnapshotName := vsn_Name snap, ex_SnapshotUID := vsn_UID snap,
               ex_ObjectName := the (getTarballName E n snap), ex_Phase := SnapshotExportPhaseUploading,
               ex_Compression := GetCompression cfg, ex_DeleteOnExpire := DeleteWhenExpired cfg\<rparr>"
  have idfree: "exportConfigForStatus (y\<lparr>ex_ID := i\<rparr>) = exportConfigForStatus y"
    if "\<exists>c. exportConfigForStatus y = Inr c" for y i
    using that by (auto simp: exportConfigForStatus_def Let_def split: SnapshotExportProvider.splits)
  consider (s3) y i where "et_S3 cfg = Some y" "x = (s3Export y ?base)\<lparr>ex_ID := i\<rparr>"
    | (gcs) g i where "et_GCS cfg = Some g" "x = (gcsExport g ?base)\<lparr>ex_ID := i\<rparr>"
    using assms by (auto simp: newSnapshotExportStatus_def Let_def split: option.splits)
  then show ?thesis
  proof cases
    case s3
    then show ?thesis using s3_target [OF assms(2) s3(1), of ?base] idfree by fastforce
  next
    case gcs
    then show ?thesis using gcs_target [OF assms(2) gcs(1), of ?base] idfree by fastforce
  qed
qed

section \<open>The recursion of the deletion\<close>

text \<open>An attempt is under way: it was started and has neither failed nor been given up.\<close>

definition underway :: "SnapshotExportStatus \<Rightarrow> bool" where
  "underway x \<longleftrightarrow> 0 < ex_DeleteAttempts x \<and> ex_NextDeleteRetryAt x = None \<and> \<not> ex_DeleteExhausted x"

text \<open>A write of the status is answered with the records it was given; every read of the stored node finds the record
  \<open>x\<close> as it was or with an attempt under way, and no other record has its identifier or its object.\<close>

definition echoes :: "'s snap_api \<Rightarrow> bool" where
  "echoes A \<longleftrightarrow> (\<forall>m s latest s1. sn_updateStatus A m s = (Inr latest, s1) \<longrightarrow>
     cns_SnapshotExports (cn_Status latest) = cns_SnapshotExports (cn_Status m))"

definition reads_only :: "'s snap_api \<Rightarrow> SnapshotExportStatus \<Rightarrow> bool" where
  "reads_only A x \<longleftrightarrow> (\<forall>s fresh s1. sn_getNode A s = (Inr fresh, s1) \<longrightarrow> (\<forall>y\<in>set (cns_SnapshotExports (cn_Status fresh)).
     (ex_ID y = ex_ID x \<longleftrightarrow> ex_ObjectName y = ex_ObjectName x) \<and> (ex_ID y = ex_ID x \<longrightarrow> y = x \<or> underway y)))"

lemma retry_success: "retryOnConflict k f s = (Inr r, s') \<Longrightarrow> \<exists>s0. f s0 = (Inr r, s')"
  by (induction k arbitrary: s) (auto split: prod.splits sum.splits if_splits)

lemma mutate_success:
  assumes "echoes A"
    and "mutateSnapshotExportStatus E A mutate ns = (Inr (changed, v), ns')"
  obtains s0 fresh s1 b fresh1 where "sn_getNode A s0 = (Inr fresh, s1)" "mutate fresh = Inr (b, fresh1, v)"
    "cns_SnapshotExports (cn_Status (fst ns')) = cns_SnapshotExports (cn_Status fresh1)"
proof -
  obtain latest s2 where round: "retryOnConflict (se_Retries E) (mutateRound E A mutate) (snd ns) = (Inr (changed, latest, v), s2)"
      and merged: "fst ns' = mergeSnapshotExportOwnedStatus E latest (fst ns)"
    using assms(2)
    by (auto simp: mutateSnapshotExportStatus_def seq_def outside_def modifyNode_def ret_def fail_def
        split: if_splits prod.splits sum.splits)
  obtain s0 where "mutateRound E A mutate s0 = (Inr (changed, latest, v), s2)" using retry_success [OF round] by blast
  then obtain fresh s1 b fresh1 where 1: "sn_getNode A s0 = (Inr fresh, s1)" "mutate fresh = Inr (b, fresh1, v)"
      and 2: "latest = syncSnapshotExportCleanupCondition E fresh1 \<or>
        (\<exists>s3. sn_updateStatus A (syncSnapshotExportCleanupCondition E fresh1) s1 = (Inr latest, s3))"
    by (auto simp: mutateRound_def seq_def call_def ret_def fail_def Let_def split: sum.splits prod.splits if_splits)
  have sync: "cns_SnapshotExports (cn_Status (syncSnapshotExportCleanupCondition E n)) = cns_SnapshotExports (cn_Status n)" for n
    by (simp add: syncSnapshotExportCleanupCondition_def setConditions_def Let_def)
  have "cns_SnapshotExports (cn_Status latest) = cns_SnapshotExports (cn_Status fresh1)" using 2 assms(1) sync unfolding echoes_def by metis
  then have "cns_SnapshotExports (cn_Status (fst ns')) = cns_SnapshotExports (cn_Status fresh1)"
    by (simp add: merged mergeSnapshotExportOwnedStatus_def setConditions_def setExports_def)
  with 1 show thesis by (rule that)
qed

lemma changeFirst_find:
  assumes "changeFirst i f xs = Inr (b, ys)" "\<forall>y\<in>set xs. ex_ID y = i \<longleftrightarrow> ex_ObjectName y = nm"
    "\<And>x b y. f x = Inr (b, y) \<Longrightarrow> ex_ObjectName y = ex_ObjectName x"
  shows "find (\<lambda>x. ex_ObjectName x = nm) ys = None \<or>
    (\<exists>x y. x \<in> set xs \<and> ex_ID x = i \<and> f x = Inr (b, y) \<and> find (\<lambda>x. ex_ObjectName x = nm) ys = Some y)"
  using assms(1,2)
proof (induction xs arbitrary: b ys)
  case (Cons x xs)
  show ?case
  proof (cases "ex_ID x = i")
    case True
    then obtain y where y: "f x = Inr (b, y)" "ys = y # xs" using Cons.prems(1) by (auto split: sum.splits)
    then have "ex_ObjectName y = nm" using Cons.prems(2) True assms(3) by simp
    then show ?thesis using True y by auto
  next
    case False
    then obtain zs where zs: "changeFirst i f xs = Inr (b, zs)" "ys = x # zs"
      using Cons.prems(1) by (auto split: sum.splits)
    have "find (\<lambda>x. ex_ObjectName x = nm) ys = find (\<lambda>x. ex_ObjectName x = nm) zs"
      using Cons.prems(2) False zs(2) by auto
    then show ?thesis using Cons.IH [OF zs(1)] Cons.prems(2) by (metis list.set_intros(2))
  qed
qed simp

lemma startAttempt_name: "startAttempt k now x = Inr (b, y) \<Longrightarrow> ex_ObjectName y = ex_ObjectName x"
  by (auto simp: startAttempt_def split: if_splits)

lemma startAttempt_underway:
  assumes "valid_export x" "\<not> underway x" "\<not> snapshotExportDeleteTerminal x"
    "\<not> (case ex_NextDeleteRetryAt x of None \<Rightarrow> False | Some t \<Rightarrow> now < t)"
    "startAttempt (ex_DeleteAttempts x) now x = Inr (b, y)"
  shows "underway y"
proof -
  have "0 \<le> ex_DeleteAttempts x" "\<not> tarballDeleteMaxAttempts \<le> ex_DeleteAttempts x"
      "\<not> (0 < ex_DeleteAttempts x \<and> ex_NextDeleteRetryAt x = None)"
    using assms(1-3)
    by (auto simp: valid_export_def underway_def snapshotExportDeleteTerminal_def tarballDeleteMaxAttempts_def)
  then show ?thesis
    using assms(3-5) by (auto simp: startAttempt_def underway_def snapshotExportDeleteTerminal_def split: if_splits)
qed

text \<open>What the deletion finds under the name of the object after it has started an attempt.\<close>

lemma start_finds:
  assumes echo: "echoes A"
    and reads: "reads_only A x"
    and x: "valid_export x" "\<not> underway x" "\<not> snapshotExportDeleteTerminal x"
      "\<not> (case ex_NextDeleteRetryAt x of None \<Rightarrow> False | Some t \<Rightarrow> now < t)"
    and run: "startSnapshotExportDeleteAttempt E A (ex_ID x) (ex_DeleteAttempts x) now ns = (Inr started, ns')"
  shows "case snapshotExportByObjectName (fst ns') (ex_ObjectName x) of None \<Rightarrow> True | Some y \<Rightarrow> underway y"
proof -
  let ?f = "startAttempt (ex_DeleteAttempts x) now"
  have "mutateSnapshotExportStatus E A (onExport (ex_ID x) ?f) ns = (Inr (started, ()), ns')"
    using run by (auto simp: startSnapshotExportDeleteAttempt_def seq_def ret_def split: prod.splits sum.splits)
  then obtain s0 fresh s1 b fresh1 where get: "sn_getNode A s0 = (Inr fresh, s1)"
      and mut: "onExport (ex_ID x) ?f fresh = Inr (b, fresh1, ())"
      and ns': "cns_SnapshotExports (cn_Status (fst ns')) = cns_SnapshotExports (cn_Status fresh1)"
    by (rule mutate_success [OF echo])
  obtain ys where ys: "changeFirst (ex_ID x) ?f (cns_SnapshotExports (cn_Status fresh)) = Inr (b, ys)" "fresh1 = setExports ys fresh"
    using mut by (auto simp: onExport_def split: sum.splits)
  have "underway z" if "y \<in> set (cns_SnapshotExports (cn_Status fresh))" "ex_ID y = ex_ID x" "?f y = Inr (b, z)" for y z
  proof (cases "underway y")
    case True
    then show ?thesis using that(3) by (auto simp: startAttempt_def underway_def split: if_splits)
  next
    case False
    then have "y = x" using reads get that(1,2) unfolding reads_only_def by blast
    then show ?thesis using startAttempt_underway [OF x] that(3) by blast
  qed
  moreover have "find (\<lambda>y. ex_ObjectName y = ex_ObjectName x) ys = None \<or>
      (\<exists>y z. y \<in> set (cns_SnapshotExports (cn_Status fresh)) \<and> ex_ID y = ex_ID x \<and> ?f y = Inr (b, z) \<and>
        find (\<lambda>y. ex_ObjectName y = ex_ObjectName x) ys = Some z)"
    using reads get by (intro changeFirst_find [OF ys(1)] startAttempt_name) (auto simp: reads_only_def)
  ultimately show ?thesis
    using ns' ys(2) by (auto simp: snapshotExportByObjectName_def setExports_def)
qed

text \<open>A second level returns without a third.\<close>

lemma underway_returns:
  assumes "underway y"
  shows "reconcileSnapshotExportDeletion (Suc fuel) E A (Some y) = reconcileSnapshotExportDeletion (Suc 0) E A (Some y)"
proof -
  have "deletionNotFound E A p y now again = seq (recordSnapshotExportDeleteFailure E A (ex_ID y)
      (''delete Job for '' @ describeSnapshotExport E y @ '' disappeared before completion'') now) (\<lambda>_. ret SnapshotFailed)"
    for p now again
    using assms by (simp add: deletionNotFound_def underway_def)
  then show ?thesis by (simp only: reconcileSnapshotExportDeletion.simps)
qed

lemma deleteBounded_node: "deleteBounded E A p x now ns = (Inr status, ns') \<Longrightarrow> fst ns' = fst ns"
  by (auto simp: deleteBounded_def seq_def fail_def split: prod.splits sum.splits)


section \<open>Examples\<close>

definition exporting :: VolumeSnapshotsConfig where
  "exporting = daily\<lparr>vs_ExportTarball := Some s3_settings\<rparr>"

definition first_export :: SnapshotExportStatus where
  "first_export = projr (newSnapshotExportStatus calm_env (snap_node exporting) (snap_at ''s1'' 0 True))"

lemma first_export: "newSnapshotExportStatus calm_env (snap_node exporting) (snap_at ''s1'' 0 True) = Inr first_export"
proof -
  have "isl (newSnapshotExportStatus calm_env (snap_node exporting) (snap_at ''s1'' 0 True)) = False" by code_simp
  then show ?thesis by (cases "newSnapshotExportStatus calm_env (snap_node exporting) (snap_at ''s1'' 0 True)") (auto simp: first_export_def)
qed


text \<open>A node with a record of a failed deletion; the first call of the handler fails.\<close>

definition exported_node :: ChainNode where
  "exported_node = setExports [snd (projr (startAttempt 0 0 first_export))] (snap_node exporting)"

theorem export_records_stay_valid_witness:
  "recorded valid_export (fst (snd (ensureVolumeSnapshots calm_env store_pods store_api True
     (exported_node, (store_of exported_node [snap_at ''s1'' 0 True] hour)\<lparr>ss_Fails := [False, True]\<rparr>))))"
proof -
  let ?s = "(store_of exported_node [snap_at ''s1'' 0 True] hour)\<lparr>ss_Fails := [False, True]\<rparr>"
  have v: "recorded valid_export exported_node" by code_simp
  have "recorded valid_export (ss_Node ?s)" using v by (simp add: store_of_def)
  from export_records_stay_valid [OF st.snapshot_calls_axioms this v, of calm_env True]
  show ?thesis by (metis prod.collapse)
qed

theorem export_config_roundtrip_witness:
  "\<exists>cfg'. exportConfigForStatus first_export = Inr cfg' \<and> same_target s3_settings cfg'"
proof (rule export_config_roundtrip [OF _ _ first_export])
  show "exportConfig (snap_node exporting) = Some s3_settings"
    by (simp add: exportConfig_def snapshotsConfig_def snap_node_def exporting_def)
  show "storable s3_settings" by code_simp
qed

text \<open>A server with one stored node that nobody else changes.\<close>

definition fixed_api :: "ChainNode \<Rightarrow> snap_store snap_api" where
  "fixed_api n = store_api\<lparr>sn_getNode := (\<lambda>s. (Inr n, s)), sn_updateStatus := (\<lambda>m s. (Inr m, s))\<rparr>"


section \<open>A refused attempt that is reported as started\<close>

text \<open>When the cleanup condition of the stored node is out of date, here because the generation of the node has grown,
  \<open>startSnapshotExportDeleteAttempt\<close> reports an attempt as started although the stored record refuses it: the write of
  the condition counts as the change. The caller then deletes the object once more, uncounted.\<close>

definition given_up :: SnapshotExportStatus where
  "given_up = first_export\<lparr>ex_DeleteAttempts := 3, ex_DeleteExhausted := True, ex_Phase := SnapshotExportPhaseCleanupRequired\<rparr>"

theorem refused_start_reported:
  "startAttempt 2 0 given_up = Inr (False, given_up) \<and>
   fst (startSnapshotExportDeleteAttempt calm_env store_api (ex_ID given_up) 2 0
     (snap_node exporting, store_of (setExports [given_up] (snap_node exporting)) [] 0)) = Inr True"
  by code_simp

end
