(* ===== verification/Snapshot_Correct.thy ===== *)
theory Snapshot_Correct
  imports Snapshot_Store "HOL-Library.Multiset"
begin

text \<open>
  Properties of the snapshot handler: while a snapshot is being taken no other one is created, and the newest
  snapshots are not deleted. Then what the handler does where a comment or its settings promise something else.
\<close>

section \<open>No second snapshot\<close>

text \<open>No call but the creation of a snapshot breaks \<open>I\<close>, under \<open>I\<close> the integrity checks have no failed pods, and a
  node that is marked as being snapshotted is returned so when it is written.\<close>

abbreviation quiet_calls :: "'s snap_api \<Rightarrow> 's pod_world \<Rightarrow> ('s \<Rightarrow> bool) \<Rightarrow> bool" where
  "quiet_calls A W I \<equiv> snapshot_calls A W I (\<lambda>_. True) volumeSnapshotInProgress (\<lambda>_. True) False (\<lambda>_. True)"

lemma recorded_True [simp]: "recorded (\<lambda>_. True) n"
  by (simp add: recorded_def list_all_iff)

lemma inProgress_changes:
  "volumeSnapshotInProgress (setConditions cs n) = volumeSnapshotInProgress n"
  "volumeSnapshotInProgress (setExports xs n) = volumeSnapshotInProgress n"
  "volumeSnapshotInProgress (setSnapshotInProgress b n) = b"
  "volumeSnapshotInProgress (setSnapshotTime E ts n) = volumeSnapshotInProgress n"
  "volumeSnapshotInProgress (setPhase ph n) = volumeSnapshotInProgress n"
  "volumeSnapshotInProgress (setLatestHeight ht n) = volumeSnapshotInProgress n"
  by (simp_all add: volumeSnapshotInProgress_def setConditions_def setExports_def setSnapshotInProgress_def
      setSnapshotTime_def setPhase_def setLatestHeight_def annotateNode_def boolText_def
      AnnotationPvcSnapshotInProgress_def AnnotationLastPvcSnapshot_def)

lemma quiet_policy:
  assumes "quiet_calls A W I"
  shows "snapshot_policy A W I (\<lambda>_. True) volumeSnapshotInProgress (\<lambda>_. True) False (\<lambda>_. True) E (\<lambda>b. b) (\<lambda>_. True) (\<lambda>_. True)"
  using assms unfolding snapshot_policy_def snapshot_policy_axioms_def snapshot_world_def snapshot_world_axioms_def
  by (auto simp: yields_def inProgress_changes)

text \<open>The number of created snapshots on the store, while no integrity check has failed pods.\<close>

definition made :: "nat \<Rightarrow> snap_store \<Rightarrow> bool" where
  "made k s \<longleftrightarrow> ss_Created s = k \<and> list_all (\<lambda>(_, failed, _). failed \<le> 0) (ss_Checks s)"

interpretation qt: snapshot_policy store_api store_pods "made k" "\<lambda>_. True" volumeSnapshotInProgress
    "\<lambda>_. True" False "\<lambda>_. True" E "\<lambda>b. b" "\<lambda>_. True" "\<lambda>_. True" for k E
proof (rule quiet_policy, rule store_calls)
  show "\<And>s m j. made k s \<Longrightarrow> map_of (ss_Checks s) m = Some j \<Longrightarrow> fst j \<le> 0"
    by (auto simp: made_def list_all_iff dest!: map_of_SomeD)
qed (auto simp: unscripted_def made_def volumeSnapshotInProgress_def)

lemma repair_marks:
  assumes w: "quiet_calls A W I"
    and run: "repairNode E A c True latest (n, s) = (r, (n', s'))" and s: "I s"
  shows "I s' \<and> volumeSnapshotInProgress n'"
proof -
  note p = snapshot_policy.axioms(1) [OF quiet_policy [OF w, of E]]
  let ?n = "if volumeSnapshotInProgress n then n else setSnapshotInProgress True n"
  let ?ts = "latest > getLastSnapshotTime E n"
  let ?rest = "seq (onlyIf ?ts (modifyNode (setSnapshotTime E latest))) (\<lambda>_.
    seq (onlyIf (\<not> volumeSnapshotInProgress n \<or> ?ts) (updateNode A)) (\<lambda>_.
      onlyIf (phaseNeedsRepair c n True) (seq (modifyNode (setPhase PhaseChainNodeSnapshotting)) (\<lambda>_. writePhase A))))"
  let ?J = "joint (snapshot_world.G (\<lambda>_. True) volumeSnapshotInProgress) I"
  have "repairNode E A c True latest (n, s) = ?rest (?n, s)"
    by (simp add: repairNode_def seq_def theNode_def onlyIf_def modifyNode_def ret_def Let_def)
  moreover have "keeps_inv ?J ?rest"
    by (intro kept keeps_modifyNode snapshot_world.good_changes [OF p] snapshot_world.keeps_updateNode [OF p]
        snapshot_world.keeps_writePhase [OF p])
  moreover have "?J (?n, s)"
    using s by (simp add: joint_def snapshot_world.G_def [OF p] inProgress_changes)
  ultimately have "?J (n', s')" using run keeps_invD by metis
  then show ?thesis by (simp add: joint_def snapshot_world.G_def [OF p])
qed

text \<open>C34: When the listing shows a snapshot that is still being taken, and no integrity check has failed, the reconcile
  creates no snapshot, whatever the settings and whichever calls fail.\<close>

theorem no_concurrent_snapshot:
  assumes calls: "quiet_calls A W I" and listed: "sn_listSnapshots A s = (Inr xs, s1)" "hasActiveVolumeSnapshot xs"
    and E: "set (se_SortSnapshots E xs) = set xs" and s: "I s"
    and run: "reconcileSnapshots E W A c nodePodReady (n, s) = (r, (n', s'))"
  shows "I s'"
proof -
  note p = quiet_policy [OF calls, of E]
  note w = snapshot_policy.axioms(1) [OF p]
  let ?xs = "se_SortSnapshots E xs" and ?latest = "latestReadySnapshotTime (se_SortSnapshots E xs)"
  let ?J = "joint (snapshot_world.G (\<lambda>_. True) volumeSnapshotInProgress) I"
  have active: "hasActiveVolumeSnapshot ?xs" using listed(2) E by (simp add: hasActiveVolumeSnapshot_def list_ex_iff)
  have s1: "I s1" using keeps_invD [OF snapshot_calls.snapshot_calls(1) [OF calls] s listed(1)] .
  obtain r1 n1 s2 where rep: "repairNode E A c True ?latest (n, s1) = (r1, (n1, s2))" by (metis surj_pair)
  have J: "?J (n1, s2)"
    using repair_marks [OF calls rep s1] by (simp add: joint_def snapshot_world.G_def [OF w])
  let ?rest = "seq (snapshotLoop E W A c (length ?xs) True ?latest ([], False) ?xs) (\<lambda>r.
      case r of None \<Rightarrow> ret () | Some acc \<Rightarrow> afterLoop E W A c nodePodReady ?xs acc)"
  have "keeps_inv ?J ?rest" by (rule snapshot_policy.keeps_rest [OF p]) simp_all
  moreover have "(case r1 of Inl e \<Rightarrow> (Inl e, (n1, s2)) | Inr _ \<Rightarrow> ?rest (n1, s2)) = (r, (n', s'))"
    using run listed active rep
    by (simp add: reconcileSnapshots_def listNodeSnapshots_def outside_def seq_def Let_def split: sum.splits)
  ultimately have "?J (n', s')" using J by (auto split: sum.splits dest: keeps_invD)
  then show ?thesis by (simp add: joint_def)
qed

section \<open>The newest snapshots stay\<close>

text \<open>A handler that keeps \<open>I\<close> while it goes on and may weaken it to \<open>P\<close> with its last step.\<close>

definition until :: "('t \<Rightarrow> bool) \<Rightarrow> ('t \<Rightarrow> bool) \<Rightarrow> ('a \<Rightarrow> bool) \<Rightarrow> ('t, 'e, 'a) prog \<Rightarrow> bool" where
  "until I P again m \<longleftrightarrow> (\<forall>t r t'. I t \<longrightarrow> m t = (r, t') \<longrightarrow> P t' \<and> (\<forall>x. r = Inr x \<longrightarrow> again x \<longrightarrow> I t'))"

lemma untilI: "(\<And>t r t'. I t \<Longrightarrow> m t = (r, t') \<Longrightarrow> P t' \<and> (\<forall>x. r = Inr x \<longrightarrow> again x \<longrightarrow> I t')) \<Longrightarrow> until I P again m"
  unfolding until_def by blast

lemma untilD: "until I P again m \<Longrightarrow> I t \<Longrightarrow> m t = (r, t') \<Longrightarrow> P t' \<and> (\<forall>x. r = Inr x \<longrightarrow> again x \<longrightarrow> I t')"
  unfolding until_def by blast

lemma until_keeps: "keeps_inv I m \<Longrightarrow> (\<And>t. I t \<Longrightarrow> P t) \<Longrightarrow> until I P again m"
  unfolding until_def keeps_inv_def by blast

lemma until_last: "keeps_inv P m \<Longrightarrow> yields P m (\<lambda>x. \<not> again x) \<Longrightarrow> (\<And>t. I t \<Longrightarrow> P t) \<Longrightarrow> until I P again m"
  unfolding until_def keeps_inv_def yields_def by blast

lemma until_seq:
  assumes "until I P go m" "\<And>x. go x \<Longrightarrow> until I P again (f x)" "\<And>x. \<not> go x \<Longrightarrow> keeps_inv P (f x)"
    "\<And>x y. \<not> go x \<Longrightarrow> again y \<Longrightarrow> yields P (f x) (\<lambda>z. z \<noteq> y)"
  shows "until I P again (seq m f)"
proof (rule untilI)
  fix t r t' assume I: "I t" and run: "seq m f t = (r, t')"
  obtain r1 t1 where m: "m t = (r1, t1)" by (cases "m t")
  note m' = untilD [OF assms(1) I m]
  show "P t' \<and> (\<forall>x. r = Inr x \<longrightarrow> again x \<longrightarrow> I t')"
  proof (cases r1)
    case (Inl e)
    then show ?thesis using run m m' by (auto simp: seq_def)
  next
    case (Inr x)
    then have f: "f x t1 = (r, t')" using run m by (simp add: seq_def)
    show ?thesis
    proof (cases "go x")
      case True
      then show ?thesis using untilD [OF assms(2) _ f] m' Inr by blast
    next
      case False
      have P: "P t1" using m' by blast
      have "r = Inr y \<Longrightarrow> \<not> again y" for y using yieldsD [OF assms(4) [OF False, of y] P] f by blast
      then show ?thesis using keeps_invD [OF assms(3) [OF False] P f] by blast
    qed
  qed
qed

lemma until_step:
  assumes "keeps_inv I m" "yields I m Q" "\<And>t. I t \<Longrightarrow> P t" "\<And>x. Q x \<Longrightarrow> until I P again (f x)"
  shows "until I P again (seq m f)"
proof (rule untilI)
  fix t r t' assume I: "I t" and run: "seq m f t = (r, t')"
  obtain r1 t1 where m: "m t = (r1, t1)" by (cases "m t")
  have I1: "I t1" by (rule keeps_invD [OF assms(1) I m])
  show "P t' \<and> (\<forall>x. r = Inr x \<longrightarrow> again x \<longrightarrow> I t')"
  proof (cases r1)
    case (Inl e)
    then show ?thesis using run m I1 assms(3) by (auto simp: seq_def)
  next
    case (Inr x)
    have f: "f x t1 = (r, t')" using run m Inr by (simp add: seq_def)
    have "Q x" using yieldsD [OF assms(2) I] m Inr by blast
    then show ?thesis using untilD [OF assms(4) I1 f] by blast
  qed
qed

lemmas until_next = until_step [OF _ yields_True]

lemma until_ret: "(\<And>t. I t \<Longrightarrow> P t) \<Longrightarrow> until I P again (ret x)"
  by (rule until_keeps [OF keeps_ret])

lemma until_if: "(b \<Longrightarrow> until I P again m) \<Longrightarrow> (\<not> b \<Longrightarrow> until I P again k) \<Longrightarrow> until I P again (if b then m else k)"
  by simp

lemma yields_last: "yields J (seq m (\<lambda>_. ret x)) (\<lambda>y. y = x)"
  by (auto simp: yields_def seq_def ret_def split: prod.splits sum.splits)

text \<open>The invariant \<open>I\<close> says that a snapshot is among the newest and is broken by the creation of another one, after
  which the handler ends; \<open>P\<close> is what remains then.\<close>

locale snapshot_retention =
  now: snapshot_world A W I okx mem deletable False sound E flag +
  final: snapshot_world A W P okx mem deletable True unsound E flag
  for A :: "'s snap_api" and W :: "'s pod_world" and I P :: "'s \<Rightarrow> bool" and okx mem deletable sound unsound E flag +
  fixes L :: "VolumeSnapshot list \<Rightarrow> bool" and cfg :: "VolumeSnapshotsConfig \<Rightarrow> bool"
  assumes weaker: "I s \<Longrightarrow> P s" and checked: "sound m \<or> deletable m" and flags: "flag b"
    and listing: "yields I (sn_listSnapshots A) L"
    and expiring: "L xs \<Longrightarrow> snap \<in> set (se_SortSnapshots E xs) \<Longrightarrow>
      deletable (vsn_Name snap) \<or> annotations snap AnnotationSnapshotRetention = None"
    and surplus: "L xs \<Longrightarrow> cfg c \<Longrightarrow> GetRetainCount c = Some retain \<Longrightarrow>
      snap \<in> set (take (nat (toDelete c (int (length (se_SortSnapshots E xs))) retain)) (se_SortSnapshots E xs)) \<Longrightarrow>
      deletable (vsn_Name snap)"

context snapshot_retention
begin

lemma weak: "joint now.G I t \<Longrightarrow> joint now.G P t"
  by (simp add: joint_def weaker)

lemma until_check: "until (joint now.G I) (joint now.G P) Not (checkIntegrity E W A c snap)"
  unfolding checkIntegrity_def
proof (rule until_step [where Q = "\<lambda>st. st = snapshotIntegrityCorrupted \<longrightarrow> deletable (vsn_Name snap)"])
  show "yields (joint now.G I) (getSnapshotIntegrityCheckStatus A snap)
      (\<lambda>st. st = snapshotIntegrityCorrupted \<longrightarrow> deletable (vsn_Name snap))"
    using checked [of "vsn_Name snap"] now.yields_checkStatus [of snap] unfolding yields_def by metis
  have new: "until (joint now.G I) (joint now.G P) Not (seq (startNewSnapshot E W A c) (\<lambda>_. ret True))"
    using yields_last [of "joint now.G P" "startNewSnapshot E W A c" True]
    by (intro until_last kept weak final.keeps_startNew) (auto simp: yields_def)
  have replaced: "until (joint now.G I) (joint now.G P) Not
      (seq (annotateAndUpdate A AnnotationSnapshotIntegrityStatus snapshotIntegrityCorrupted snap) (\<lambda>snap1.
         seq (tidyIntegrityCheck A snap1) (\<lambda>_.
           seq (outside SnapApi (sn_deleteSnapshot A (vsn_Name snap1) None)) (\<lambda>_.
             seq (startNewSnapshot E W A c) (\<lambda>_. ret True)))))" if "deletable (vsn_Name snap)"
    using that
    by (intro until_step [OF now.keeps_annotate now.yields_annotate weak] until_next [OF now.keeps_tidy weak]
        until_next [OF keeps_outside [OF now.snapshot_calls(5)] weak] new) simp_all
  fix st assume "st = snapshotIntegrityCorrupted \<longrightarrow> deletable (vsn_Name snap)"
  then have corrupted: "st = snapshotIntegrityCorrupted \<Longrightarrow> deletable (vsn_Name snap)" by blast
  show "until (joint now.G I) (joint now.G P) Not
     (if st = snapshotIntegrityChecking then ret False
      else if st = snapshotIntegrityOk
      then seq (annotateAndUpdate A AnnotationSnapshotIntegrityStatus snapshotIntegrityOk snap) (\<lambda>snap1.
             seq (tidyIntegrityCheck A snap1) (\<lambda>_.
               seq (onlyIf (ShouldExportTarballs c \<and> annotation snap1 AnnotationExportingTarball = [])
                      (beginExport E A snap1)) (\<lambda>_. ret False)))
      else if st = snapshotIntegrityCorrupted
      then seq (annotateAndUpdate A AnnotationSnapshotIntegrityStatus snapshotIntegrityCorrupted snap) (\<lambda>snap1.
             seq (tidyIntegrityCheck A snap1) (\<lambda>_.
               seq (outside SnapApi (sn_deleteSnapshot A (vsn_Name snap1) None)) (\<lambda>_.
                 seq (startNewSnapshot E W A c) (\<lambda>_. ret True))))
      else seq (beginIntegrityCheck A snap) (\<lambda>_. ret False))"
    by (intro until_if; (rule replaced [OF corrupted], assumption | intro until_keeps [OF _ weak] kept))
qed (intro kept, rule weak)

lemma until_process:
  assumes "deletable (vsn_Name snap) \<or> annotations snap AnnotationSnapshotRetention = None"
  shows "until (joint now.G I) (joint now.G P) Not (processSnapshot E W A c k active latest snap)"
  unfolding processSnapshot_def Let_def
  by (intro until_next [OF keeps_theNode weak] until_if;
      (assumption | rule until_check |
       intro until_keeps [OF _ weak] kept now.keeps_snapshotReady now.keeps_retireIfExpired flags assms))

lemma until_loop:
  "(\<And>snap. snap \<in> set snaps \<Longrightarrow> deletable (vsn_Name snap) \<or> annotations snap AnnotationSnapshotRetention = None) \<Longrightarrow>
   until (joint now.G I) (joint now.G P) (\<lambda>r. r \<noteq> None) (snapshotLoop E W A c k active latest acc snaps)"
proof (induction snaps arbitrary: acc)
  case Nil
  then show ?case by (simp add: until_ret weak)
next
  case (Cons snap snaps)
  show ?case unfolding snapshotLoop.simps
  proof (rule until_next [OF keeps_theNode weak], assumption, rule until_seq [where go = Not])
    show "until (joint now.G I) (joint now.G P) Not (processSnapshot E W A c k active latest snap)"
      using Cons.prems by (intro until_process) simp
  qed (use Cons in \<open>auto intro: kept simp: yields_def ret_def\<close>)
qed

lemma until_afterLoop:
  assumes "cfg c"
  shows "until (joint now.G I) (joint now.G P) (\<lambda>_. False) (afterLoop E W A c nodePodReady snaps acc)"
proof -
  have "keeps_inv (joint now.G I) (retainNewest E A c snaps)"
    unfolding retainNewest_def listNodeSnapshots_def using assms
    by (intro kept keeps_seq_if [OF _ yields_outside [OF listing]] keeps_eachOf now.keeps_retire surplus)
  moreover have "until (joint now.G I) (joint now.G P) (\<lambda>_. False) (startIfDue E W A c nodePodReady)"
    by (rule until_last [OF final.keeps_startIfDue _ weak]) (auto simp: yields_def)
  ultimately show ?thesis unfolding afterLoop_def by (intro until_next [OF _ weak]) (auto intro: kept)
qed

lemma until_reconcile:
  assumes "cfg c"
  shows "until (joint now.G I) (joint now.G P) (\<lambda>_. False) (reconcileSnapshots E W A c nodePodReady)"
  unfolding reconcileSnapshots_def Let_def listNodeSnapshots_def
proof (rule until_step [OF _ yields_outside [OF listing] weak])
  fix xs assume L: "L xs"
  let ?xs = "se_SortSnapshots E xs"
  let ?active = "hasActiveVolumeSnapshot ?xs" and ?latest = "latestReadySnapshotTime ?xs"
  have "until (joint now.G I) (joint now.G P) (\<lambda>_. False)
      (seq (snapshotLoop E W A c (length ?xs) ?active ?latest ([], False) ?xs)
        (\<lambda>r. case r of None \<Rightarrow> ret () | Some acc \<Rightarrow> afterLoop E W A c nodePodReady ?xs acc))"
    by (rule until_seq [OF until_loop [OF expiring [OF L]]])
      (auto intro: until_afterLoop assms kept split: option.split)
  then show "until (joint now.G I) (joint now.G P) (\<lambda>_. False)
      (seq (repairNode E A c ?active ?latest) (\<lambda>_.
        seq (snapshotLoop E W A c (length ?xs) ?active ?latest ([], False) ?xs)
          (\<lambda>r. case r of None \<Rightarrow> ret () | Some acc \<Rightarrow> afterLoop E W A c nodePodReady ?xs acc)))"
    by (intro until_next [OF now.keeps_repair weak] flags)
qed (intro kept)

lemma until_ensure:
  assumes "\<And>n c. mem n \<Longrightarrow> snapshotsConfig n = Some c \<Longrightarrow> cfg c"
  shows "until (joint now.G I) (joint now.G P) (\<lambda>_. False) (ensureVolumeSnapshots E W A nodePodReady)"
  unfolding ensureVolumeSnapshots_def
proof (intro until_next [OF now.keeps_acknowledgements weak] until_next [OF now.keeps_pending weak]
    until_step [OF keeps_theNode yields_theNode weak])
  fix n assume "now.G n"
  then have "snapshotsConfig n = Some c \<Longrightarrow> cfg c" for c using assms unfolding now.G_def by blast
  then show "until (joint now.G I) (joint now.G P) (\<lambda>_. False)
      (case snapshotsConfig n of
         None \<Rightarrow> snapshotsDisabled E A
       | Some c \<Rightarrow> if cns_PvcSize (cn_Status n) = [] \<or> cns_LatestHeight (cn_Status n) = 0 then ret ()
           else reconcileSnapshots E W A c nodePodReady)"
    by (auto intro!: until_reconcile until_ret until_keeps [OF _ weak] now.keeps_disabled weak flags split: option.split)
qed

end

text \<open>How many of the newest snapshots the retention by number keeps.\<close>

definition keepCount :: "VolumeSnapshotsConfig \<Rightarrow> int \<Rightarrow> int" where
  "keepCount c retain = (if ShouldPreserveLastSnapshot c \<and> retain \<le> 0 then 1 else retain)"

lemma toDelete_keepCount: "toDelete c k retain = k - keepCount c retain"
  by (simp add: toDelete_def keepCount_def Let_def)

definition sorts_snapshots :: "snap_env \<Rightarrow> bool" where
  "sorts_snapshots E \<longleftrightarrow> (\<forall>xs. mset (se_SortSnapshots E xs) = mset xs \<and> sorted (map vsn_CreationTimestamp (se_SortSnapshots E xs)))"

text \<open>In a listing the snapshot named \<open>m\<close> does not expire, and it is among the newest that are kept.\<close>

definition among_newest :: "VolumeSnapshotsConfig \<Rightarrow> string \<Rightarrow> VolumeSnapshot list \<Rightarrow> bool" where
  "among_newest c m xs \<longleftrightarrow> (\<forall>x\<in>set xs. vsn_Name x = m \<longrightarrow> annotations x AnnotationSnapshotRetention = None \<and>
     (case GetRetainCount c of None \<Rightarrow> True
      | Some retain \<Rightarrow> int (length (filter (\<lambda>y. vsn_CreationTimestamp x \<le> vsn_CreationTimestamp y) xs)) \<le> keepCount c retain))"

lemma take_oldest:
  assumes "sorted (map f ys)" "x \<in> set (take d ys)"
  shows "length ys - d < length (filter (\<lambda>y. f x \<le> f y) ys)"
proof -
  obtain i where i: "i < d" "i < length ys" "x = ys ! i" using assms(2) by (auto simp: in_set_conv_nth)
  have "\<forall>y\<in>set (drop i ys). f x \<le> f y"
    using assms(1) i by (auto simp: in_set_conv_nth sorted_iff_nth_mono)
  then have "filter (\<lambda>y. f x \<le> f y) (drop i ys) = drop i ys" by simp
  moreover have "length (filter (\<lambda>y. f x \<le> f y) ys) \<ge> length (filter (\<lambda>y. f x \<le> f y) (drop i ys))"
    by (metis append_take_drop_id filter_append le_add2 length_append)
  ultimately show ?thesis using i by simp
qed

lemma newest_not_surplus:
  assumes "sorts_snapshots E" "among_newest c m xs" "GetRetainCount c = Some retain"
    "x \<in> set (take (nat (toDelete c (int (length (se_SortSnapshots E xs))) retain)) (se_SortSnapshots E xs))"
  shows "vsn_Name x \<noteq> m"
proof
  assume m: "vsn_Name x = m"
  let ?ys = "se_SortSnapshots E xs" and ?newer = "\<lambda>y. vsn_CreationTimestamp x \<le> vsn_CreationTimestamp y"
  have perm: "mset ?ys = mset xs" and sorted: "sorted (map vsn_CreationTimestamp ?ys)"
    using assms(1) by (auto simp: sorts_snapshots_def)
  have "x \<in> set xs" using assms(4) mset_eq_setD [OF perm] in_set_takeD by fastforce
  then have "int (length (filter ?newer xs)) \<le> keepCount c retain" using assms(2,3) m by (auto simp: among_newest_def)
  moreover have "length (filter ?newer xs) = length (filter ?newer ?ys)" using perm by (metis mset_filter size_mset)
  ultimately show False
    using take_oldest [OF sorted assms(4)] length_filter_le [of ?newer ?ys] unfolding toDelete_keepCount by arith
qed

lemma retention_locale:
  assumes "snapshot_calls A W I (\<lambda>_. True) (\<lambda>n. snapshotsConfig n = Some c) (\<lambda>k. k \<noteq> m) False (\<lambda>k. k = m)"
    "snapshot_calls A W P (\<lambda>_. True) (\<lambda>n. snapshotsConfig n = Some c) (\<lambda>k. k \<noteq> m) True (\<lambda>_. False)"
    "\<And>s. I s \<Longrightarrow> P s" "yields I (sn_listSnapshots A) (among_newest c m)" "sorts_snapshots E"
  shows "snapshot_retention A W I P (\<lambda>_. True) (\<lambda>n. snapshotsConfig n = Some c) (\<lambda>k. k \<noteq> m) (\<lambda>k. k = m) (\<lambda>_. False) E
    (\<lambda>_. True) (among_newest c m) (\<lambda>d. d = c)"
proof -
  have settings: "snapshotsConfig (setConditions cs n) = snapshotsConfig n" "snapshotsConfig (setExports xs n) = snapshotsConfig n"
    "snapshotsConfig (setSnapshotInProgress b n) = snapshotsConfig n" "snapshotsConfig (setSnapshotTime E ts n) = snapshotsConfig n"
    "snapshotsConfig (setPhase ph n) = snapshotsConfig n" "snapshotsConfig (setLatestHeight ht n) = snapshotsConfig n"
    for cs xs b ts ph ht n
    by (simp_all add: snapshotsConfig_def setConditions_def setExports_def setSnapshotInProgress_def setSnapshotTime_def
        setPhase_def setLatestHeight_def annotateNode_def)
  have sorted: "set (se_SortSnapshots E xs) = set xs" for xs using assms(5) mset_eq_setD unfolding sorts_snapshots_def by blast
  have lasting: "among_newest c m xs \<Longrightarrow> x \<in> set xs \<Longrightarrow> vsn_Name x = m \<Longrightarrow> annotations x AnnotationSnapshotRetention = None"
    for xs x by (simp add: among_newest_def)
  show ?thesis
    using assms(1-4) lasting
    unfolding snapshot_retention_def snapshot_retention_axioms_def snapshot_world_def snapshot_world_axioms_def sorted
    by (auto simp: settings dest!: newest_not_surplus [OF assms(5)])
qed


section \<open>Examples\<close>

theorem no_concurrent_snapshot_witness:
  "made 0 (snd (snd (reconcileSnapshots calm_env store_pods store_api daily True
     (snap_node daily, store_of (snap_node daily) [snap_at ''s1'' 0 False] (48 * hour)))))"
proof -
  let ?s = "store_of (snap_node daily) [snap_at ''s1'' 0 False] (48 * hour)"
  have l: "sn_listSnapshots store_api ?s = (Inr [snap_at ''s1'' 0 False], ?s)"
    by (simp add: store_api_def ss_get_def ss_do_def store_of_def)
  have a: "hasActiveVolumeSnapshot [snap_at ''s1'' 0 False]" by code_simp
  have e: "set (se_SortSnapshots calm_env [snap_at ''s1'' 0 False]) = set [snap_at ''s1'' 0 False]"
    by (simp add: calm_env_def)
  have m: "made 0 ?s" by (simp add: made_def store_of_def)
  show ?thesis
    using no_concurrent_snapshot [OF qt.snapshot_calls_axioms l a e m, of daily True "snap_node daily"] by (metis prod.collapse)
qed

text \<open>The store with the snapshot \<open>m\<close> among the newest.\<close>

definition present :: "string \<Rightarrow> snap_store \<Rightarrow> bool" where
  "present m s \<longleftrightarrow> m \<in> vsn_Name ` set (ss_Snapshots s)"

definition kept_newest :: "VolumeSnapshotsConfig \<Rightarrow> string \<Rightarrow> snap_store \<Rightarrow> bool" where
  "kept_newest c m s \<longleftrightarrow> present m s \<and> among_newest c m (ss_Snapshots s) \<and> list_all (\<lambda>(_, failed, _). failed \<le> 0) (ss_Checks s)"

lemma calm_sorts: "sorts_snapshots calm_env"
  by (simp add: sorts_snapshots_def calm_env_def)

lemma withAnnotations_kept:
  "vsn_Name (withAnnotations snap y) = vsn_Name y" "vsn_CreationTimestamp (withAnnotations snap y) = vsn_CreationTimestamp y"
  "annotations y AnnotationSnapshotRetention = None \<Longrightarrow> annotations (withAnnotations snap y) AnnotationSnapshotRetention = None"
  by (auto simp: withAnnotations_def annotations_def split: option.splits)

lemma among_newest_annotated: "among_newest c m xs \<Longrightarrow> among_newest c m (map (withAnnotations snap) xs)"
  by (auto simp: among_newest_def withAnnotations_kept filter_map o_def split: option.splits)

lemma among_newest_filter:
  assumes "among_newest c m xs"
  shows "among_newest c m (filter q xs)"
proof -
  have "filter p (filter q xs) = filter q (filter p xs)" for p by (simp add: conj_commute)
  then have "int (length (filter p (filter q xs))) \<le> int (length (filter p xs))" for p
    using length_filter_le [of q "filter p xs"] by simp
  from order_trans [OF this] show ?thesis
    using assms by (cases "GetRetainCount c") (simp_all add: among_newest_def)
qed

interpretation nr: snapshot_retention store_api store_pods "kept_newest c m" "present m" "\<lambda>_. True"
    "\<lambda>n. snapshotsConfig n = Some c" "\<lambda>k. k \<noteq> m" "\<lambda>k. k = m" "\<lambda>_. False" calm_env "\<lambda>_. True" "among_newest c m" "\<lambda>d. d = c"
  for c m
proof (rule retention_locale)
  show "snapshot_calls store_api store_pods (kept_newest c m) (\<lambda>_. True) (\<lambda>n. snapshotsConfig n = Some c) (\<lambda>k. k \<noteq> m) False (\<lambda>k. k = m)"
  proof (rule store_calls)
    show "\<And>s k j. kept_newest c m s \<Longrightarrow> k = m \<Longrightarrow> map_of (ss_Checks s) k = Some j \<Longrightarrow> fst j \<le> 0"
      by (auto simp: kept_newest_def list_all_iff dest!: map_of_SomeD)
  qed (auto simp: unscripted_def kept_newest_def present_def snapshotsConfig_def withAnnotations_kept image_image
      intro: among_newest_annotated among_newest_filter)
  show "snapshot_calls store_api store_pods (present m) (\<lambda>_. True) (\<lambda>n. snapshotsConfig n = Some c) (\<lambda>k. k \<noteq> m) True (\<lambda>_. False)"
    by (rule store_calls)
      (auto simp: unscripted_def present_def snapshotsConfig_def withAnnotations_kept image_image)
  show "kept_newest c m s \<Longrightarrow> present m s" for s by (simp add: kept_newest_def)
  have "unscripted (kept_newest c m)" by (simp add: unscripted_def kept_newest_def present_def)
  then show "yields (kept_newest c m) (sn_listSnapshots store_api) (among_newest c m)"
    by (auto simp: store_api_def kept_newest_def intro!: yields_ss_get)
qed (rule calm_sorts)

definition retain_two :: VolumeSnapshotsConfig where
  "retain_two = daily\<lparr>vs_Retain := Some 2\<rparr>"

definition three_snaps :: "VolumeSnapshot list" where
  "three_snaps = [snap_at ''s1'' 0 True, snap_at ''s2'' hour True, snap_at ''s3'' (2 * hour) True]"


section \<open>Where the handler does not do what it says\<close>

text \<open>\<open>preserveLastSnapshot\<close> (on by default) is documented to ensure that at least one snapshot is always available. The
  check compares the number of snapshots at the start with one, so two that expire in the same reconcile are both
  deleted.\<close>

definition expiring_snap :: "string \<Rightarrow> int \<Rightarrow> VolumeSnapshot" where
  "expiring_snap nm t = putAnnotation AnnotationSnapshotRetention ''24h'' (snap_at nm t True)"

theorem last_snapshots_expire_together:
  "ShouldPreserveLastSnapshot daily \<and>
   ss_Snapshots (snd (snd (ensureVolumeSnapshots calm_env store_pods store_api False
     (snap_node daily, store_of (snap_node daily) [expiring_snap ''s1'' 0, expiring_snap ''s2'' hour] (48 * hour))))) = []"
  by code_simp

text \<open>With \<open>retain: 1\<close> the only snapshot that can be restored is deleted as soon as the next one is begun.\<close>

theorem only_ready_snapshot_deleted:
  "list_all (\<lambda>x. \<not> isSnapshotReady x) (ss_Snapshots (snd (snd (ensureVolumeSnapshots calm_env store_pods store_api False
     (snap_node (daily\<lparr>vs_Retain := Some 1\<rparr>),
      store_of (snap_node (daily\<lparr>vs_Retain := Some 1\<rparr>)) [snap_at ''s1'' 0 True, snap_at ''s2'' hour False] hour)))))"
  by code_simp

text \<open>After a failed integrity check a new snapshot is begun although another one is being taken: the check that there is
  only one at a time stands on the other path only.\<close>

theorem replacement_beside_active:
  "(let s' = snd (snd (ensureVolumeSnapshots calm_env store_pods store_api False
      (snap_node (daily\<lparr>vs_Verify := Some True\<rparr>),
       (store_of (snap_node (daily\<lparr>vs_Verify := Some True\<rparr>)) [snap_at ''s1'' 0 True, snap_at ''s2'' hour False] hour)
         \<lparr>ss_Checks := [(''s1'', 1, 0)]\<rparr>)))
    in ss_Created s' = 1 \<and> length (filter (\<lambda>x. \<not> isSnapshotReady x) (ss_Snapshots s')) = 2)"
  by code_simp

text \<open>C39: With integrity checks on, a snapshot that has no status yet, as every snapshot right after its creation, makes
  the handler panic: the check is begun although the snapshot is not ready, and reads the status.\<close>

theorem unready_snapshot_panics:
  assumes "ShouldVerify c" "vsn_Status snap = None" "annotation snap AnnotationSnapshotIntegrityStatus = []"
    "sn_listCheckJobs A (vsn_Name snap) s = (Inr [], s1)"
  shows "processSnapshot E W A c k active latest snap (n, s) = (Inl SnapPanic, (n, s1))"
proof -
  have "annotation snap AnnotationSnapshotIntegrityStatus \<noteq> snapshotIntegrityOk"
    "annotation snap AnnotationSnapshotIntegrityStatus \<noteq> snapshotIntegrityCorrupted"
    using assms(3) by (simp_all add: snapshotIntegrityOk_def snapshotIntegrityCorrupted_def)
  then show ?thesis
    using assms
    by (simp add: processSnapshot_def checkIntegrity_def getSnapshotIntegrityCheckStatus_def beginIntegrityCheck_def
        startSnapshotIntegrityCheck_def isSnapshotReady_def seq_def theNode_def outside_def ret_def fail_def Let_def
        snapshotIntegrityChecking_def snapshotIntegrityOk_def snapshotIntegrityCorrupted_def)
qed

definition new_snap :: VolumeSnapshot where
  "new_snap = getVolumeSnapshotSpec calm_env daily (snap_node daily) hour"

theorem unready_snapshot_panics_witness:
  "fst (processSnapshot calm_env store_pods store_api (daily\<lparr>vs_Verify := Some True\<rparr>) 1 True 0 new_snap
     (snap_node daily, store_of (snap_node daily) [new_snap] hour)) = Inl SnapPanic"
proof -
  let ?s = "store_of (snap_node daily) [new_snap] hour"
  have 1: "ShouldVerify (daily\<lparr>vs_Verify := Some True\<rparr>)" by (simp add: ShouldVerify_def)
  have 2: "vsn_Status new_snap = None" by (simp add: new_snap_def getVolumeSnapshotSpec_def Let_def)
  have 3: "annotation new_snap AnnotationSnapshotIntegrityStatus = []"
    by (simp add: new_snap_def getVolumeSnapshotSpec_def Let_def annotation_def label_def daily_def
        AnnotationSnapshotIntegrityStatus_def AnnotationPvcSnapshotReady_def AnnotationDataHeight_def)
  have 4: "sn_listCheckJobs store_api (vsn_Name new_snap) ?s = (Inr [], ?s)"
    by (simp add: store_api_def ss_get_def ss_do_def store_of_def)
  show ?thesis using unready_snapshot_panics [OF 1 2 3 4] by simp
qed

end
