(* ===== verification/Cluster_History.thy ===== *)
theory Cluster_History
  imports Kube_Api "HOL-Library.Sublist"
begin

text \<open>
  The client of controller-runtime as the teardown code calls it, and histories of calls. A \<open>client\<close> holds the
  operations on one kind of object, \<open>cluster_api\<close> one client per kind. The server is an argument: its state,
  its answers and what other clients do between two calls are unconstrained. Options of a call that the model
  does not read (propagation policies) are left out.

  \<open>logged\<close> runs a program against a server while every call and its answer are appended to a history. What the
  code promises about the order of its calls is stated about that history, for every server, in two forms: an
  answer was seen before a call was made (\<open>guarded\<close>), and a result was returned only after answers were seen
  in an order (\<open>after\<close>, \<open>seen\<close>). \<open>wp\<close> is the weakest precondition of a logged program with respect to an
  invariant of the history and a postcondition, with one rule per construct of a program.
\<close>

section \<open>Clients\<close>

record ('s, 'o) client =
  cl_get :: "string \<Rightarrow> string \<Rightarrow> 's \<Rightarrow> (api_error + 'o) \<times> 's"
  cl_list :: "string \<Rightarrow> 's \<Rightarrow> (api_error + 'o list) \<times> 's"
  cl_create :: "'o \<Rightarrow> 's \<Rightarrow> (api_error + 'o) \<times> 's"
  cl_update :: "'o \<Rightarrow> 's \<Rightarrow> (api_error + 'o) \<times> 's"
  cl_patch :: "'o \<Rightarrow> 'o \<Rightarrow> 's \<Rightarrow> (api_error + 'o) \<times> 's"
  cl_delete :: "'o \<Rightarrow> uid option \<Rightarrow> 's \<Rightarrow> (api_error + unit) \<times> 's"

text \<open>The data of a Secret is an association list.\<close>

record Secret =
  sec_Meta :: ObjectMeta
  sec_Data :: "(string \<times> string) list"

record Service =
  svc_Meta :: ObjectMeta
  svc_ClusterIP :: string

record 's cluster_api =
  w_pods :: "('s, Pod) client"
  w_statefulSets :: "('s, StatefulSet) client"
  w_claims :: "('s, PersistentVolumeClaim) client"
  w_secrets :: "('s, Secret) client"
  w_jobs :: "('s, Job) client"
  w_services :: "('s, Service) client"
  w_configMaps :: "('s, ObjectMeta) client"
  w_policies :: "('s, ObjectMeta) client"
  w_nodes :: "('s, ChainNode) client"
  w_nodeStatus :: "('s, ChainNode) client"
  w_nodeSets :: "('s, ChainNodeSet) client"
  w_namespaces :: "('s, ObjectMeta) client"

section \<open>Loops\<close>

text \<open>A loop whose body may leave the surrounding function with a value (\<open>Return\<close>) or go on with the variables
  it assigns (\<open>Next\<close>).\<close>

datatype ('r, 'b) ctl = Return 'r | Next 'b

fun forEach :: "('x \<Rightarrow> 'b \<Rightarrow> ('s, 'e, ('r, 'b) ctl) prog) \<Rightarrow> 'x list \<Rightarrow> 'b \<Rightarrow> ('s, 'e, ('r, 'b) ctl) prog" where
  "forEach body [] b = ret (Next b)"
| "forEach body (x # xs) b =
     seq (body x b) (\<lambda>c. case c of Return r \<Rightarrow> ret (Return r) | Next b' \<Rightarrow> forEach body xs b')"

text \<open>What follows the loop.\<close>

definition loopThen :: "('s, 'e, ('r, 'b) ctl) prog \<Rightarrow> ('b \<Rightarrow> ('s, 'e, 'r) prog) \<Rightarrow> ('s, 'e, 'r) prog" where
  "loopThen m k = seq m (\<lambda>c. case c of Return r \<Rightarrow> ret r | Next b \<Rightarrow> k b)"

text \<open>\<open>done, err := f(); if err != nil || !done { return false, err }\<close>.\<close>

definition doneOr :: "'a \<Rightarrow> ('s, 'e, bool) prog \<Rightarrow> ('s, 'e, 'a) prog \<Rightarrow> ('s, 'e, 'a) prog" where
  "doneOr x m k = seq m (\<lambda>d. if d then k else ret x)"

abbreviation whenDone :: "('s, 'e, bool) prog \<Rightarrow> ('s, 'e, bool) prog \<Rightarrow> ('s, 'e, bool) prog" where
  "whenDone \<equiv> doneOr False"

text \<open>\<open>if err := op(...); err != nil && !IsX(err) { return err }\<close>: \<^term>\<open>None\<close> where the error was tolerated.\<close>

definition tolerate ::
    "api_error \<Rightarrow> (api_error \<Rightarrow> 'e) \<Rightarrow> ('s \<Rightarrow> (api_error + 'a) \<times> 's) \<Rightarrow> ('s, 'e, 'a option) prog" where
  "tolerate ign wrap oper s =
     (case oper s of
        (Inr x, s1) \<Rightarrow> (Inr (Some x), s1)
      | (Inl e, s1) \<Rightarrow> if e = ign then (Inr None, s1) else (Inl (wrap e), s1))"

text \<open>\<open>if err := m(); err != nil { return h(err) }\<close>.\<close>

definition rescue :: "('s, 'e, 'a) prog \<Rightarrow> ('e \<Rightarrow> ('s, 'e, 'a) prog) \<Rightarrow> ('s, 'e, 'a) prog" where
  "rescue m h s = (case m s of (Inl e, s1) \<Rightarrow> h e s1 | (Inr x, s1) \<Rightarrow> (Inr x, s1))"

text \<open>\<open>return fmt.Errorf("...: %w", err)\<close>.\<close>

definition wrapErr :: "('e \<Rightarrow> 'f) \<Rightarrow> ('s, 'e, 'a) prog \<Rightarrow> ('s, 'f, 'a) prog" where
  "wrapErr f m s = (case m s of (Inl e, s1) \<Rightarrow> (Inl (f e), s1) | (Inr x, s1) \<Rightarrow> (Inr x, s1))"

text \<open>A result that is an error or a value.\<close>

definition lift :: "'e + 'a \<Rightarrow> ('s, 'e, 'a) prog" where
  "lift r = (case r of Inl e \<Rightarrow> fail e | Inr x \<Rightarrow> ret x)"

section \<open>Histories\<close>

datatype 'o event =
    Got string string "api_error + 'o"
  | Listed string "api_error + 'o list"
  | Created 'o "api_error + 'o"
  | Updated 'o "api_error + 'o"
  | Patched 'o 'o "api_error + 'o"
  | Deleted 'o "uid option" "api_error + unit"

datatype act =
    PodEv "Pod event"
  | StsEv "StatefulSet event"
  | ClaimEv "PersistentVolumeClaim event"
  | SecretEv "Secret event"
  | JobEv "Job event"
  | ServiceEv "Service event"
  | ConfigEv "ObjectMeta event"
  | PolicyEv "ObjectMeta event"
  | NodeEv "ChainNode event"
  | NodeStatusEv "ChainNode event"
  | SetEv "ChainNodeSet event"
  | NamespaceEv "ObjectMeta event"
  | ReservationDeleted string uid "api_error + unit"

text \<open>The newest event comes last.\<close>

definition snoc :: "act list \<Rightarrow> act \<Rightarrow> act list" where
  "snoc h e = h @ [e]"

definition logging :: "(('r \<Rightarrow> act)) \<Rightarrow> ('s \<Rightarrow> 'r \<times> 's) \<Rightarrow> 's \<times> act list \<Rightarrow> 'r \<times> 's \<times> act list" where
  "logging tag f sh = (case f (fst sh) of (r, s) \<Rightarrow> (r, (s, snoc (snd sh) (tag r))))"

definition logged_client :: "('o event \<Rightarrow> act) \<Rightarrow> ('s, 'o) client \<Rightarrow> ('s \<times> act list, 'o) client" where
  "logged_client tag c =
     \<lparr>cl_get = (\<lambda>ns n. logging (\<lambda>r. tag (Got ns n r)) (cl_get c ns n)),
      cl_list = (\<lambda>ns. logging (\<lambda>r. tag (Listed ns r)) (cl_list c ns)),
      cl_create = (\<lambda>x. logging (\<lambda>r. tag (Created x r)) (cl_create c x)),
      cl_update = (\<lambda>x. logging (\<lambda>r. tag (Updated x r)) (cl_update c x)),
      cl_patch = (\<lambda>x y. logging (\<lambda>r. tag (Patched x y r)) (cl_patch c x y)),
      cl_delete = (\<lambda>x u. logging (\<lambda>r. tag (Deleted x u r)) (cl_delete c x u))\<rparr>"

definition logged :: "'s cluster_api \<Rightarrow> ('s \<times> act list) cluster_api" where
  "logged K =
     \<lparr>w_pods = logged_client PodEv (w_pods K), w_statefulSets = logged_client StsEv (w_statefulSets K),
      w_claims = logged_client ClaimEv (w_claims K), w_secrets = logged_client SecretEv (w_secrets K),
      w_jobs = logged_client JobEv (w_jobs K), w_services = logged_client ServiceEv (w_services K),
      w_configMaps = logged_client ConfigEv (w_configMaps K), w_policies = logged_client PolicyEv (w_policies K),
      w_nodes = logged_client NodeEv (w_nodes K),
      w_nodeStatus = logged_client NodeStatusEv (w_nodeStatus K), w_nodeSets = logged_client SetEv (w_nodeSets K),
      w_namespaces = logged_client NamespaceEv (w_namespaces K)\<rparr>"

lemma logged_sel [simp]:
  "w_pods (logged K) = logged_client PodEv (w_pods K)"
  "w_statefulSets (logged K) = logged_client StsEv (w_statefulSets K)"
  "w_claims (logged K) = logged_client ClaimEv (w_claims K)"
  "w_secrets (logged K) = logged_client SecretEv (w_secrets K)"
  "w_jobs (logged K) = logged_client JobEv (w_jobs K)"
  "w_services (logged K) = logged_client ServiceEv (w_services K)"
  "w_configMaps (logged K) = logged_client ConfigEv (w_configMaps K)"
  "w_policies (logged K) = logged_client PolicyEv (w_policies K)"
  "w_nodes (logged K) = logged_client NodeEv (w_nodes K)"
  "w_nodeStatus (logged K) = logged_client NodeStatusEv (w_nodeStatus K)"
  "w_nodeSets (logged K) = logged_client SetEv (w_nodeSets K)"
  "w_namespaces (logged K) = logged_client NamespaceEv (w_namespaces K)"
  by (simp_all add: logged_def)

lemma logged_client_sel [simp]:
  "cl_get (logged_client tag c) ns n = logging (\<lambda>r. tag (Got ns n r)) (cl_get c ns n)"
  "cl_list (logged_client tag c) ns = logging (\<lambda>r. tag (Listed ns r)) (cl_list c ns)"
  "cl_create (logged_client tag c) x = logging (\<lambda>r. tag (Created x r)) (cl_create c x)"
  "cl_update (logged_client tag c) x = logging (\<lambda>r. tag (Updated x r)) (cl_update c x)"
  "cl_patch (logged_client tag c) x y = logging (\<lambda>r. tag (Patched x y r)) (cl_patch c x y)"
  "cl_delete (logged_client tag c) x u = logging (\<lambda>r. tag (Deleted x u r)) (cl_delete c x u)"
  by (simp_all add: logged_client_def)

text \<open>Of the calls on reservations only the deletions are put in the history.\<close>

definition unlogged :: "('s \<Rightarrow> 'r \<times> 's) \<Rightarrow> 's \<times> act list \<Rightarrow> 'r \<times> 's \<times> act list" where
  "unlogged f sh = (case f (fst sh) of (r, s) \<Rightarrow> (r, (s, snd sh)))"

definition logged_kube :: "'s kube \<Rightarrow> ('s \<times> act list) kube" where
  "logged_kube K =
     \<lparr>k_getReservation = (\<lambda>n. unlogged (k_getReservation K n)), k_listReservations = unlogged (k_listReservations K),
      k_createReservation = (\<lambda>r. unlogged (k_createReservation K r)),
      k_deleteReservation = (\<lambda>n u. logging (ReservationDeleted n u) (k_deleteReservation K n u)),
      k_getChainNode = (\<lambda>ns n. unlogged (k_getChainNode K ns n)), k_listChainNodes = (\<lambda>ns. unlogged (k_listChainNodes K ns)),
      k_getChainNodeSet = (\<lambda>ns n. unlogged (k_getChainNodeSet K ns n)),
      k_listChainNodeSets = (\<lambda>ns. unlogged (k_listChainNodeSets K ns)), k_getNamespace = (\<lambda>n. unlogged (k_getNamespace K n)),
      k_listStatefulSets = (\<lambda>ns. unlogged (k_listStatefulSets K ns)), k_listJobs = (\<lambda>ns. unlogged (k_listJobs K ns)),
      k_listPods = (\<lambda>ns. unlogged (k_listPods K ns))\<rparr>"

lemma logged_kube_sel [simp]:
  "k_listReservations (logged_kube K) = unlogged (k_listReservations K)"
  "k_getReservation (logged_kube K) n = unlogged (k_getReservation K n)"
  "k_deleteReservation (logged_kube K) n u = logging (ReservationDeleted n u) (k_deleteReservation K n u)"
  by (simp_all add: logged_kube_def)

text \<open>An event with the property is in the history; one is, and the rest of the history has a property.\<close>

definition seen :: "(act \<Rightarrow> bool) \<Rightarrow> act list \<Rightarrow> bool" where
  "seen P h = list_ex P h"

fun after :: "(act \<Rightarrow> bool) \<Rightarrow> (act list \<Rightarrow> bool) \<Rightarrow> act list \<Rightarrow> bool" where
  "after P F [] = False"
| "after P F (e # h) = ((P e \<and> F h) \<or> after P F h)"

text \<open>An answer is in the history, and the rest of the history has a property that depends on it.\<close>

fun afterAnswer :: "(act \<Rightarrow> 'a option) \<Rightarrow> ('a \<Rightarrow> act list \<Rightarrow> bool) \<Rightarrow> act list \<Rightarrow> bool" where
  "afterAnswer f F [] = False"
| "afterAnswer f F (e # h) = ((\<exists>x \<in> set_option (f e). F x h) \<or> afterAnswer f F h)"

text \<open>Before every event with the property \<open>D\<close> the history satisfied the guard.\<close>

fun guardedFrom :: "act list \<Rightarrow> (act \<Rightarrow> bool) \<Rightarrow> (act \<Rightarrow> act list \<Rightarrow> bool) \<Rightarrow> act list \<Rightarrow> bool" where
  "guardedFrom h D G [] = True"
| "guardedFrom h D G (e # k) = ((D e \<longrightarrow> G e h) \<and> guardedFrom (h @ [e]) D G k)"

definition guarded :: "(act \<Rightarrow> bool) \<Rightarrow> (act \<Rightarrow> act list \<Rightarrow> bool) \<Rightarrow> act list \<Rightarrow> bool" where
  "guarded D G h = guardedFrom [] D G h"

text \<open>A property of a part of the history that holds of every longer part: more calls do not undo it.\<close>

definition lasting :: "(act list \<Rightarrow> bool) \<Rightarrow> bool" where
  "lasting F \<longleftrightarrow> (\<forall>g h k. F h \<longrightarrow> F (g @ h @ k))"

named_theorems lasts \<open>properties of histories that more calls do not undo\<close>

text \<open>The part of a history after another.\<close>

definition since :: "act list \<Rightarrow> act list \<Rightarrow> act list" where
  "since h k = drop (length h) k"

lemma since_self [simp]: "since h h = []"
  by (simp add: since_def)

lemma since_append [simp]: "since h (h @ k) = k"
  by (simp add: since_def)

lemma since_trans: "prefix h k \<Longrightarrow> prefix k l \<Longrightarrow> since h l = since h k @ since k l"
  by (auto simp: prefix_def since_def)

lemma since_split: "prefix h k \<Longrightarrow> k = h @ since h k"
  by (auto simp: prefix_def since_def)

lemma lastingD: "lasting F \<Longrightarrow> F h \<Longrightarrow> prefix h k \<Longrightarrow> F k"
  unfolding lasting_def prefix_def by (metis append_Nil)

lemma lasting_within: "lasting F \<Longrightarrow> F (since k l) \<Longrightarrow> prefix h k \<Longrightarrow> prefix k l \<Longrightarrow> F (since h l)"
  unfolding lasting_def by (metis append_Nil2 since_trans)

lemma lasting_earlier: "lasting F \<Longrightarrow> F (since h k) \<Longrightarrow> prefix h k \<Longrightarrow> prefix k l \<Longrightarrow> F (since h l)"
  unfolding lasting_def by (metis append_Nil since_trans)

lemma lasting_whole: "lasting F \<Longrightarrow> F (since h k) \<Longrightarrow> prefix h k \<Longrightarrow> F k"
  unfolding lasting_def by (metis append_Nil2 since_split)

lemma snoc_simps [simp]: "prefix h (snoc h e)" "snoc h e \<noteq> []" "length (snoc h e) = Suc (length h)"
  by (simp_all add: snoc_def)

lemma snoc_list [simp]: "snoc [] e = [e]" "snoc (x # h) e = x # snoc h e"
  by (simp_all add: snoc_def)

text \<open>A longer starting point is read off the part since the shorter one.\<close>

lemma prefix_snoc_iff [simp]: "prefix (snoc h e) k \<longleftrightarrow> prefix h k \<and> (\<exists>l. since h k = e # l)"
  by (auto simp: snoc_def prefix_def since_def)

lemma since_longer [simp]: "since (snoc h e) k = tl (since h k)"
  by (simp add: snoc_def since_def drop_Suc tl_drop)

lemma prefix_snoc [simp]: "prefix h k \<Longrightarrow> prefix h (snoc k e)"
  by (auto simp: snoc_def prefix_def)

lemma seen_append [simp]: "seen P (h @ k) \<longleftrightarrow> seen P h \<or> seen P k"
  by (simp add: seen_def)

lemma seen_Cons [simp]: "seen P (e # h) \<longleftrightarrow> P e \<or> seen P h" "\<not> seen P []"
  by (simp_all add: seen_def)

lemma seen_snoc [simp]: "seen P (snoc h e) \<longleftrightarrow> seen P h \<or> P e"
  by (auto simp: snoc_def)

lemma seen_lasting [lasts]: "lasting (seen P)"
  by (simp add: lasting_def)

lemma since_snoc [simp]: "prefix h k \<Longrightarrow> since h (snoc k e) = snoc (since h k) e"
  by (auto simp: prefix_def snoc_def since_def)

lemma seenE: "seen P h \<Longrightarrow> (\<And>e. e \<in> set h \<Longrightarrow> P e \<Longrightarrow> Q) \<Longrightarrow> Q"
  by (auto simp: seen_def list_ex_iff)

lemma after_append: "lasting F \<Longrightarrow> after P F h \<Longrightarrow> after P F (h @ k)"
  by (induction h) (auto intro: lastingD)

lemma after_right: "after P F k \<Longrightarrow> after P F (h @ k)"
  by (induction h) auto

lemma after_lasting [lasts]: "lasting F \<Longrightarrow> lasting (after P F)"
  using after_append after_right unfolding lasting_def [of "after P F"] by blast

lemma after_seen_snoc [simp]: "after P (seen Q) (snoc h e) \<longleftrightarrow> after P (seen Q) h \<or> (Q e \<and> seen P h)"
  unfolding snoc_def by (induction h) auto

lemma after_snocI: "lasting F \<Longrightarrow> after P F h \<Longrightarrow> after P F (snoc h e)"
  by (simp add: snoc_def after_append)

lemma after_iff: "after P F h \<longleftrightarrow> (\<exists>h1 e h2. h = h1 @ e # h2 \<and> P e \<and> F h2)"
proof (induction h)
  case (Cons e h)
  have "(\<exists>h1 x h2. e # h = h1 @ x # h2 \<and> P x \<and> F h2) \<longleftrightarrow> (P e \<and> F h) \<or> (\<exists>h1 x h2. h = h1 @ x # h2 \<and> P x \<and> F h2)"
    by (auto simp: Cons_eq_append_conv)
  then show ?case using Cons.IH by simp
qed simp

text \<open>One part of a run sees the first event, a later part has the property.\<close>

lemma after_parts:
  assumes "lasting F" "seen P (since h k)" "F (since k l)" "prefix h k" "prefix k l"
  shows "after P F (since h l)"
proof -
  obtain xs e ys where k: "since h k = xs @ e # ys" and "P e"
    using assms(2) by (auto simp: seen_def list_ex_iff in_set_conv_decomp)
  have "F (ys @ since k l)" using assms(1,3) unfolding lasting_def by (metis append_Nil2)
  moreover have "since h l = xs @ e # ys @ since k l" using assms(4,5) k by (simp add: since_trans [of h k l])
  ultimately show ?thesis unfolding after_iff using \<open>P e\<close> by blast
qed

lemma lasting_conj [lasts]: "lasting F \<Longrightarrow> lasting G \<Longrightarrow> lasting (\<lambda>h. F h \<and> G h)"
  by (simp add: lasting_def)

lemma lasting_ex [lasts]: "(\<And>x. lasting (F x)) \<Longrightarrow> lasting (\<lambda>h. \<exists>x. F x h)"
  unfolding lasting_def by blast

lemma lasting_all [lasts]: "(\<And>x. lasting (F x)) \<Longrightarrow> lasting (\<lambda>h. \<forall>x. F x h)"
  by (auto simp: lasting_def)

lemma lasting_ball [lasts]: "(\<And>x. x \<in> A \<Longrightarrow> lasting (F x)) \<Longrightarrow> lasting (\<lambda>h. \<forall>x\<in>A. F x h)"
  by (auto simp: lasting_def)

lemma lasting_imp [lasts]: "lasting F \<Longrightarrow> lasting (\<lambda>h. b \<longrightarrow> F h)"
  by (auto simp: lasting_def)

lemma afterAnswer_right: "afterAnswer f F k \<Longrightarrow> afterAnswer f F (h @ k)"
  by (induction h) auto

lemma afterAnswer_append: "(\<And>x. lasting (F x)) \<Longrightarrow> afterAnswer f F h \<Longrightarrow> afterAnswer f F (h @ k)"
  by (induction h) (auto intro: lastingD)

lemma afterAnswer_lasting [lasts]: "(\<And>x. lasting (F x)) \<Longrightarrow> lasting (afterAnswer f F)"
  using afterAnswer_append afterAnswer_right unfolding lasting_def [of "afterAnswer f F"] by blast

lemma lasting_list_all [lasts]: "(\<And>x. lasting (F x)) \<Longrightarrow> lasting (\<lambda>h. list_all (\<lambda>x. F x h) xs)"
  by (auto simp: lasting_def list_all_iff)

lemma lasting_disj [lasts]: "lasting F \<Longrightarrow> lasting G \<Longrightarrow> lasting (\<lambda>h. F h \<or> G h)"
  by (auto simp: lasting_def)

lemma lasting_if [lasts]: "lasting F \<Longrightarrow> lasting G \<Longrightarrow> lasting (\<lambda>h. if b then F h else G h)"
  by (auto simp: lasting_def)

lemma lasting_case [lasts]: "lasting F \<Longrightarrow> (\<And>y. lasting (G y)) \<Longrightarrow> lasting (\<lambda>h. case x of None \<Rightarrow> F h | Some y \<Rightarrow> G y h)"
  by (cases x) auto

text \<open>An answer, and what was seen since.\<close>

lemma seenI: "since h k = e # l \<Longrightarrow> prefix h k \<Longrightarrow> P e \<Longrightarrow> seen P k"
  using since_split [of h k] seen_append [of P h] by simp

lemma afterAnswerI:
  assumes "since h k = e # l" "prefix h k" "f e = Some x" "F x l"
  shows "afterAnswer f F k"
  using since_split [OF assms(2)] assms(1,3,4) by (metis afterAnswer.simps(2) afterAnswer_right option.set_intros)

lemma lasting_const [lasts]: "lasting (\<lambda>h. b)"
  by (simp add: lasting_def)

lemma guardedFrom_append: "guardedFrom h D G (k @ l) \<longleftrightarrow> guardedFrom h D G k \<and> guardedFrom (h @ k) D G l"
  by (induction k arbitrary: h) auto

lemma guarded_snoc [simp]: "guarded D G (snoc h e) \<longleftrightarrow> guarded D G h \<and> (D e \<longrightarrow> G e h)"
  by (simp add: snoc_def guarded_def guardedFrom_append)

text \<open>What a run appends to the empty history.\<close>

definition trail :: "('s \<times> act list, 'e, 'a) prog \<Rightarrow> 's \<Rightarrow> act list" where
  "trail m s = snd (snd (m (s, [])))"

lemma guarded_Nil [simp]: "guarded D G []"
  by (simp add: guarded_def)

text \<open>The guard, at any occurrence.\<close>

lemma guardedD: "guarded D G (h @ e # k) \<Longrightarrow> D e \<Longrightarrow> G e h"
  by (simp add: guarded_def guardedFrom_append)

section \<open>Weakest preconditions\<close>

definition wp :: "(act list \<Rightarrow> bool) \<Rightarrow> ('s \<times> act list, 'e, 'a) prog \<Rightarrow> ('a \<Rightarrow> act list \<Rightarrow> bool) \<Rightarrow> act list \<Rightarrow> bool" where
  "wp J m Q h \<longleftrightarrow> (\<forall>s r s' h'. m (s, h) = (r, s', h') \<longrightarrow> prefix h h' \<and> J h' \<and> (\<forall>x. r = Inr x \<longrightarrow> Q x h'))"

named_theorems wps \<open>rules for weakest preconditions\<close>

lemma wpI: "(\<And>s r s' h'. m (s, h) = (r, s', h') \<Longrightarrow> prefix h h' \<and> J h' \<and> (\<forall>x. r = Inr x \<longrightarrow> Q x h')) \<Longrightarrow> wp J m Q h"
  by (simp add: wp_def)

lemma wp_run: "wp J m Q h \<Longrightarrow> m (s, h) = (r, s', h') \<Longrightarrow> prefix h h' \<and> J h'"
  by (simp add: wp_def)

lemma wp_trail: "wp J m Q [] \<Longrightarrow> J (trail m s)"
  unfolding wp_def trail_def by (metis prod.collapse)

lemma wp_ending:
  "wp J m Q [] \<Longrightarrow> J (trail m s) \<and> (case fst (m (s, [])) of Inl e \<Rightarrow> True | Inr x \<Rightarrow> Q x (trail m s))"
  unfolding wp_def trail_def by (auto split: sum.splits) (metis prod.collapse)+

lemma wp_value: "wp J m Q h \<Longrightarrow> m (s, h) = (Inr x, s', h') \<Longrightarrow> Q x h'"
  by (simp add: wp_def)

lemma wp_continue:
  "wp J m Q k \<Longrightarrow> prefix h k \<Longrightarrow> m (s, k) = (r, s', h') \<Longrightarrow> prefix h h' \<and> J h' \<and> (\<forall>x. r = Inr x \<longrightarrow> Q x h')"
  using prefix_order.trans [of h k h'] by (simp add: wp_def)

lemma wp_mono:
  "wp J m Q h \<Longrightarrow> (\<And>x k. prefix h k \<Longrightarrow> J k \<Longrightarrow> Q x k \<Longrightarrow> R x k) \<Longrightarrow> wp J m R h"
  by (auto simp: wp_def)

text \<open>What was seen once may be kept in the invariant for the rest of the run.\<close>

lemma wp_knowing: "wp (\<lambda>h. J h \<and> B h) m Q h \<Longrightarrow> wp J m Q h"
  by (simp add: wp_def)

lemma wp_ret [wps]: "J h \<Longrightarrow> Q x h \<Longrightarrow> wp J (ret x) Q h"
  by (simp add: wp_def ret_def)

lemma wp_fail [wps]: "J h \<Longrightarrow> wp J (fail e) Q h"
  by (simp add: wp_def fail_def)

lemma wp_seq [wps]:
  assumes "wp J m (\<lambda>x. wp J (f x) Q) h"
  shows "wp J (seq m f) Q h"
proof (rule wpI)
  fix s r s' h' assume run: "seq m f (s, h) = (r, s', h')"
  obtain r1 s1 h1 where m: "m (s, h) = (r1, s1, h1)" by (cases "m (s, h)") auto
  have m1: "prefix h h1 \<and> J h1" by (rule wp_run [OF assms m])
  show "prefix h h' \<and> J h' \<and> (\<forall>x. r = Inr x \<longrightarrow> Q x h')"
  proof (cases r1)
    case (Inl e)
    then show ?thesis using run m m1 by (auto simp: seq_def)
  next
    case (Inr x)
    then have f: "wp J (f x) Q h1" using wp_value [OF assms] m by blast
    have "f x (s1, h1) = (r, s', h')" using run m Inr by (simp add: seq_def)
    then show ?thesis using m1 by (intro wp_continue [OF f]) simp_all
  qed
qed

text \<open>The specification of a part of a program, in front of the rest.\<close>

lemma wp_step:
  assumes "wp J m Q h" "\<And>x k. prefix h k \<Longrightarrow> J k \<Longrightarrow> Q x k \<Longrightarrow> wp J (f x) R k"
  shows "wp J (seq m f) R h"
  by (rule wp_seq, rule wp_mono [OF assms(1)]) (rule assms(2))

lemma wp_if [wps]: "(b \<Longrightarrow> wp J m Q h) \<Longrightarrow> (\<not> b \<Longrightarrow> wp J k Q h) \<Longrightarrow> wp J (if b then m else k) Q h"
  by simp

lemma wp_Let [wps]: "wp J (f x) Q h \<Longrightarrow> wp J (let y = x in f y) Q h"
  by simp

lemma wp_option [wps]:
  "(x = None \<Longrightarrow> wp J m Q h) \<Longrightarrow> (\<And>y. x = Some y \<Longrightarrow> wp J (f y) Q h) \<Longrightarrow>
   wp J (case x of None \<Rightarrow> m | Some y \<Rightarrow> f y) Q h"
  by (cases x) auto

lemma wp_prod [wps]: "(\<And>a b. p = (a, b) \<Longrightarrow> wp J (f a b) Q h) \<Longrightarrow> wp J (case p of (a, b) \<Rightarrow> f a b) Q h"
  by (cases p) auto

lemma wp_ctl [wps]:
  "(\<And>r. c = Return r \<Longrightarrow> wp J (f r) Q h) \<Longrightarrow> (\<And>b. c = Next b \<Longrightarrow> wp J (g b) Q h) \<Longrightarrow>
   wp J (case c of Return r \<Rightarrow> f r | Next b \<Rightarrow> g b) Q h"
  by (cases c) auto

lemma wp_call [wps]:
  "(\<And>r. J (snoc h (tag r))) \<Longrightarrow> (\<And>x. J (snoc h (tag (Inr x))) \<Longrightarrow> Q x (snoc h (tag (Inr x)))) \<Longrightarrow>
   wp J (call wrap (logging tag f)) Q h"
  by (auto simp: wp_def call_def logging_def split: prod.splits sum.splits)

lemma wp_call_unlogged [wps]: "J h \<Longrightarrow> (\<And>x. Q x h) \<Longrightarrow> wp J (call wrap (unlogged f)) Q h"
  by (auto simp: wp_def call_def unlogged_def split: prod.splits sum.splits)

lemma wp_get_unlogged [wps]:
  "J h \<Longrightarrow> (\<And>x. wp J (F x) Q h) \<Longrightarrow> wp J A Q h \<Longrightarrow> wp J (get_or wrap (unlogged f) F A) Q h"
  by (auto simp: wp_def get_or_def unlogged_def split: prod.splits sum.splits if_splits)

lemma wp_call_ignoring [wps]:
  "(\<And>r. J (snoc h (tag r))) \<Longrightarrow> (\<And>r. J (snoc h (tag r)) \<Longrightarrow> Q () (snoc h (tag r))) \<Longrightarrow>
   wp J (call_ignoring ign wrap (logging tag f)) Q h"
  by (auto simp: wp_def call_ignoring_def logging_def split: prod.splits sum.splits if_splits)

lemma wp_tolerate [wps]:
  "(\<And>r. J (snoc h (tag r))) \<Longrightarrow> (\<And>x. J (snoc h (tag (Inr x))) \<Longrightarrow> Q (Some x) (snoc h (tag (Inr x)))) \<Longrightarrow>
   (J (snoc h (tag (Inl ign))) \<Longrightarrow> Q None (snoc h (tag (Inl ign)))) \<Longrightarrow>
   wp J (tolerate ign wrap (logging tag f)) Q h"
  by (auto simp: wp_def tolerate_def logging_def split: prod.splits sum.splits if_splits)

lemma wp_get_or [wps]:
  assumes "\<And>r. J (snoc h (tag r))"
    and "\<And>x. J (snoc h (tag (Inr x))) \<Longrightarrow> wp J (F x) Q (snoc h (tag (Inr x)))"
    and "J (snoc h (tag (Inl NotFound))) \<Longrightarrow> wp J A Q (snoc h (tag (Inl NotFound)))"
  shows "wp J (get_or wrap (logging tag f) F A) Q h"
proof (rule wpI)
  fix s r s' h' assume run: "get_or wrap (logging tag f) F A (s, h) = (r, s', h')"
  obtain r1 s1 where f: "f s = (r1, s1)" by (cases "f s")
  have pre: "prefix h (snoc h (tag r1))" by simp
  note w = assms(2) [OF assms(1)] assms(3) [OF assms(1)]
  show "prefix h h' \<and> J h' \<and> (\<forall>x. r = Inr x \<longrightarrow> Q x h')"
  proof (cases r1)
    case (Inl e)
    show ?thesis
    proof (cases "e = NotFound")
      case True
      then have "A (s1, snoc h (tag r1)) = (r, s', h')" using run f Inl by (simp add: get_or_def logging_def)
      then show ?thesis by (intro wp_continue [OF w(2), of h]) (use Inl True in simp_all)
    next
      case False
      then have "h' = snoc h (tag r1)" "\<forall>x. r \<noteq> Inr x" using run f Inl by (auto simp: get_or_def logging_def)
      then show ?thesis using assms(1) pre by simp
    qed
  next
    case (Inr x)
    then have "F x (s1, snoc h (tag r1)) = (r, s', h')" using run f by (simp add: get_or_def logging_def)
    then show ?thesis by (intro wp_continue [OF w(1), of h]) (use Inr in simp_all)
  qed
qed

lemma wp_rescue:
  assumes "wp J m Q h" "\<And>e k. prefix h k \<Longrightarrow> J k \<Longrightarrow> wp J (f e) Q k"
  shows "wp J (rescue m f) Q h"
proof (rule wpI)
  fix s r s' h' assume run: "rescue m f (s, h) = (r, s', h')"
  obtain r1 s1 h1 where m: "m (s, h) = (r1, s1, h1)" by (cases "m (s, h)") auto
  have m1: "prefix h h1" "J h1" using wp_run [OF assms(1) m] by auto
  show "prefix h h' \<and> J h' \<and> (\<forall>x. r = Inr x \<longrightarrow> Q x h')"
  proof (cases r1)
    case (Inl e)
    then have "f e (s1, h1) = (r, s', h')" using run m by (simp add: rescue_def)
    then show ?thesis by (intro wp_continue [OF assms(2) [OF m1] m1(1)])
  next
    case (Inr x)
    then show ?thesis using run m m1 wp_value [OF assms(1)] by (auto simp: rescue_def)
  qed
qed

lemma wp_wrapErr [wps]: "wp J m Q h \<Longrightarrow> wp J (wrapErr f m) Q h"
  by (auto simp: wp_def wrapErr_def split: prod.splits sum.splits)

lemma wp_lift [wps]: "J h \<Longrightarrow> (\<And>x. r = Inr x \<Longrightarrow> Q x h) \<Longrightarrow> wp J (lift r) Q h"
  by (cases r) (simp_all add: lift_def wp_ret wp_fail)

text \<open>A loop with an invariant over the elements done and the variables it assigns.\<close>

lemma wp_forEach:
  assumes "\<And>ys x zs b k. xs = ys @ x # zs \<Longrightarrow> J k \<Longrightarrow> I ys b k \<Longrightarrow>
             wp J (body x b) (\<lambda>c k'. case c of Return r \<Rightarrow> R r k' | Next b' \<Rightarrow> I (ys @ [x]) b' k') k"
    and "J h" "I [] b h"
  shows "wp J (forEach body xs b) (\<lambda>c k. case c of Return r \<Rightarrow> R r k | Next b' \<Rightarrow> I xs b' k) h"
proof -
  have "\<forall>ys b h. xs = ys @ zs \<longrightarrow> J h \<longrightarrow> I ys b h \<longrightarrow>
      wp J (forEach body zs b) (\<lambda>c k. case c of Return r \<Rightarrow> R r k | Next b' \<Rightarrow> I xs b' k) h" for zs
  proof (induction zs)
    case Nil
    then show ?case by (simp add: wp_ret)
  next
    case (Cons z zs)
    show ?case
    proof (intro allI impI)
      fix ys b h assume xs: "xs = ys @ z # zs" and J: "J h" and I: "I ys b h"
      let ?Q = "\<lambda>c k. case c of Return r \<Rightarrow> R r k | Next b' \<Rightarrow> I xs b' k"
      show "wp J (forEach body (z # zs) b) ?Q h"
        unfolding forEach.simps
      proof (rule wp_step [OF assms(1) [OF xs J I]])
        fix c k assume "prefix h k" "J k" and c: "case c of Return r \<Rightarrow> R r k | Next b' \<Rightarrow> I (ys @ [z]) b' k"
        then show "wp J (case c of Return r \<Rightarrow> ret (Return r) | Next b' \<Rightarrow> forEach body zs b') ?Q k"
          using Cons.IH xs by (cases c) (auto intro!: wp_ret)
      qed
    qed
  qed
  then show ?thesis using assms(2,3) by blast
qed

lemma wp_loop:
  assumes "J h" "I [] b h"
    and step: "\<And>ys x zs b k. xs = ys @ x # zs \<Longrightarrow> J k \<Longrightarrow> prefix h k \<Longrightarrow> I ys b k \<Longrightarrow>
      wp J (body x b) (\<lambda>c k'. case c of Return r \<Rightarrow> Q (Return r) k' | Next b' \<Rightarrow> I (ys @ [x]) b' k') k"
    and stop: "\<And>b k. J k \<Longrightarrow> prefix h k \<Longrightarrow> I xs b k \<Longrightarrow> Q (Next b) k"
  shows "wp J (forEach body xs b) Q h"
proof -
  let ?I = "\<lambda>ys b k. prefix h k \<and> I ys b k"
  have "wp J (forEach body xs b) (\<lambda>c k. case c of Return r \<Rightarrow> Q (Return r) k | Next b' \<Rightarrow> ?I xs b' k) h"
  proof (rule wp_forEach [where R = "\<lambda>r. Q (Return r)" and I = ?I])
    fix ys x zs b k assume *: "xs = ys @ x # zs" "J k" "?I ys b k"
    then show "wp J (body x b) (\<lambda>c k'. case c of Return r \<Rightarrow> Q (Return r) k' | Next b' \<Rightarrow> ?I (ys @ [x]) b' k') k"
      using prefix_order.trans [of h k] by (intro wp_mono [OF step]) (auto split: ctl.splits)
  qed (use assms(1,2) in auto)
  then show ?thesis by (rule wp_mono) (auto split: ctl.splits intro: stop)
qed

text \<open>A loop of which only the invariant is used.\<close>

lemma wp_each:
  assumes "J h" "\<And>x b k. x \<in> set xs \<Longrightarrow> J k \<Longrightarrow> prefix h k \<Longrightarrow> wp J (body x b) (\<lambda>c k'. True) k"
    "\<And>c k. J k \<Longrightarrow> prefix h k \<Longrightarrow> Q c k"
  shows "wp J (forEach body xs b) Q h"
proof (rule wp_loop [where I = "\<lambda>ys b k. True"])
  fix ys x zs b k assume *: "xs = ys @ x # zs" "J k" "prefix h k"
  show "wp J (body x b) (\<lambda>c k'. case c of Return r \<Rightarrow> Q (Return r) k' | Next b' \<Rightarrow> True) k"
    using * prefix_order.trans [of h k] by (intro wp_mono [OF assms(2)]) (auto split: ctl.splits intro: assms(3))
qed (auto intro: assms)

text \<open>A loop that sees something lasting for every element unless a variable says otherwise; \<open>I\<close> is an invariant of
  its variables.\<close>

lemma wp_gather:
  assumes "J h" "I b" and F: "\<And>x. lasting (F x)"
    and step: "\<And>x b k. x \<in> set xs \<Longrightarrow> J k \<Longrightarrow> I b \<Longrightarrow> prefix h k \<Longrightarrow>
      wp J (body x b) (\<lambda>c k'. case c of Return r \<Rightarrow> Q (Return r) k' | Next b' \<Rightarrow> I b' \<and> (ok b' \<longrightarrow> ok b \<and> F x (since k k'))) k"
    and stop: "\<And>b k. J k \<Longrightarrow> I b \<Longrightarrow> prefix h k \<Longrightarrow> (ok b \<longrightarrow> (\<forall>x \<in> set xs. F x (since h k))) \<Longrightarrow> Q (Next b) k"
  shows "wp J (forEach body xs b) Q h"
proof (rule wp_loop [where I = "\<lambda>ys b k. I b \<and> (ok b \<longrightarrow> (\<forall>x \<in> set ys. F x (since h k)))"])
  fix ys x zs b k
  assume *: "xs = ys @ x # zs" "J k" "prefix h k" "I b \<and> (ok b \<longrightarrow> (\<forall>x \<in> set ys. F x (since h k)))"
  show "wp J (body x b) (\<lambda>c k'. case c of Return r \<Rightarrow> Q (Return r) k'
      | Next b' \<Rightarrow> I b' \<and> (ok b' \<longrightarrow> (\<forall>x \<in> set (ys @ [x]). F x (since h k')))) k"
  proof (rule wp_mono [OF step])
    fix c k' assume k': "prefix k k'" and
      c: "case c of Return r \<Rightarrow> Q (Return r) k' | Next b' \<Rightarrow> I b' \<and> (ok b' \<longrightarrow> ok b \<and> F x (since k k'))"
    then show "case c of Return r \<Rightarrow> Q (Return r) k' | Next b' \<Rightarrow> I b' \<and> (ok b' \<longrightarrow> (\<forall>x \<in> set (ys @ [x]). F x (since h k')))"
      using * lasting_earlier [OF F _ *(3) k'] lasting_within [OF F _ *(3) k'] by (auto split: ctl.splits)
  qed (use * in auto)
qed (use assms in auto)

lemma wp_collect:
  assumes "J h" "\<And>x. lasting (F x)"
    and "\<And>x b k. x \<in> set xs \<Longrightarrow> J k \<Longrightarrow> prefix h k \<Longrightarrow>
      wp J (body x b) (\<lambda>c k'. case c of Return r \<Rightarrow> Q (Return r) k' | Next b' \<Rightarrow> ok b' \<longrightarrow> ok b \<and> F x (since k k')) k"
    and "\<And>b k. J k \<Longrightarrow> prefix h k \<Longrightarrow> (ok b \<longrightarrow> (\<forall>x \<in> set xs. F x (since h k))) \<Longrightarrow> Q (Next b) k"
  shows "wp J (forEach body xs b) Q h"
  by (rule wp_gather [where F = F and ok = ok and I = "\<lambda>b. True"]) (use assms in \<open>simp_all cong: ctl.case_cong\<close>)

lemma wp_loopThen:
  assumes "wp J m (\<lambda>c k. case c of Return r \<Rightarrow> Q r k | Next b \<Rightarrow> I b k) h"
    and "\<And>b k. prefix h k \<Longrightarrow> J k \<Longrightarrow> I b k \<Longrightarrow> wp J (f b) Q k"
  shows "wp J (loopThen m f) Q h"
  unfolding loopThen_def
proof (rule wp_step [OF assms(1)])
  fix c k assume k: "prefix h k" "J k" and c: "case c of Return r \<Rightarrow> Q r k | Next b \<Rightarrow> I b k"
  then show "wp J (case c of Return r \<Rightarrow> ret r | Next b \<Rightarrow> f b) Q k"
    using assms(2) by (cases c) (auto intro!: wp_ret)
qed

lemma wp_doneOr:
  assumes "wp J m (\<lambda>d k. d \<longrightarrow> P k) h"
    and "\<And>k. prefix h k \<Longrightarrow> J k \<Longrightarrow> P k \<Longrightarrow> wp J f Q k" "\<And>k. prefix h k \<Longrightarrow> J k \<Longrightarrow> Q x k"
  shows "wp J (doneOr x m f) Q h"
  unfolding doneOr_def
proof (rule wp_step [OF assms(1)])
  fix d k assume "prefix h k" "J k" "d \<longrightarrow> P k"
  then show "wp J (if d then f else ret x) Q k" using assms(2,3) by (auto intro!: wp_ret)
qed

end
