(* ===== verification/Resource_Cleanup.thy ===== *)
theory Resource_Cleanup
  imports Cluster_History Reservation_Match
begin

text \<open>
  Durable resources of a deleted root: \<open>src/internal/resourcecleanup/cleanup.go\<close> and the deletion policies of
  \<open>src/api/v1/common_helper.go\<close>. A claim or a Secret that the controllers generate carries annotations naming its
  root and its class; when the root is deleted, \<open>FinalizeClass\<close> deletes or releases the objects of a class. The
  handling of finalizers is that of \<open>controllerutil\<close>.
\<close>

section \<open>Policies\<close>

definition GetDataVolumes :: "DeletionPolicy option \<Rightarrow> DeletionPolicyType" where
  "GetDataVolumes p = (case p of None \<Rightarrow> DeletionPolicyRetain | Some q \<Rightarrow> deref DeletionPolicyRetain (dp_DataVolumes q))"

definition GetGeneratedKeys :: "DeletionPolicy option \<Rightarrow> DeletionPolicyType" where
  "GetGeneratedKeys p = (case p of None \<Rightarrow> DeletionPolicyRetain | Some q \<Rightarrow> deref DeletionPolicyRetain (dp_GeneratedKeys q))"

definition GetCosmosignerState :: "DeletionPolicy option \<Rightarrow> DeletionPolicyType" where
  "GetCosmosignerState p =
     (case p of None \<Rightarrow> DeletionPolicyRetain | Some q \<Rightarrow> deref DeletionPolicyRetain (dp_CosmosignerState q))"

section \<open>Attribution\<close>

definition cleanupFinalizer :: string where "cleanupFinalizer = ''cosmopilot.voluzi.com/resource-cleanup''"
definition AnnotationRootOwnerAPIVersion :: string where
  "AnnotationRootOwnerAPIVersion = ''cosmopilot.voluzi.com/root-owner-api-version''"
definition AnnotationRootOwnerKind :: string where "AnnotationRootOwnerKind = ''cosmopilot.voluzi.com/root-owner-kind''"
definition AnnotationRootOwnerName :: string where "AnnotationRootOwnerName = ''cosmopilot.voluzi.com/root-owner-name''"
definition AnnotationRootOwnerNamespace :: string where
  "AnnotationRootOwnerNamespace = ''cosmopilot.voluzi.com/root-owner-namespace''"
definition AnnotationRootOwnerUID :: string where "AnnotationRootOwnerUID = ''cosmopilot.voluzi.com/root-owner-uid''"
definition AnnotationResourceClass :: string where "AnnotationResourceClass = ''cosmopilot.voluzi.com/resource-class''"
definition AnnotationResourceOwnerUID :: string where
  "AnnotationResourceOwnerUID = ''cosmopilot.voluzi.com/resource-owner-uid''"

datatype ResourceClass = ClassDataVolumes | ClassGeneratedKeys | ClassCosmosignerState

fun classText :: "ResourceClass \<Rightarrow> string" where
  "classText ClassDataVolumes = ''dataVolumes''"
| "classText ClassGeneratedKeys = ''generatedKeys''"
| "classText ClassCosmosignerState = ''cosmosignerState''"

definition mnemonicSecretDataKey :: string where "mnemonicSecretDataKey = ''mnemonic''"
definition consensusSecretDataKey :: string where "consensusSecretDataKey = ''priv_validator_key.json''"

definition IsLegacyGeneratedKeySecret :: "Secret \<Rightarrow> string list \<Rightarrow> bool" where
  "IsLegacyGeneratedKeySecret secret knownNames =
     (list_ex (\<lambda>name. m_Name (sec_Meta secret) = name) knownNames \<or>
      map_of (sec_Data secret) mnemonicSecretDataKey \<noteq> None \<or> map_of (sec_Data secret) consensusSecretDataKey \<noteq> None)"

record RootOwner =
  ro_APIVersion :: string
  ro_Kind :: string
  ro_Name :: string
  ro_Namespace :: string
  ro_UID :: uid

definition groupVersion :: string where "groupVersion = ''cosmopilot.voluzi.com/v1''"

definition RootOwnerFor :: "owner_object \<Rightarrow> RootOwner" where
  "RootOwnerFor ow =
     (let self = \<lambda>kind. \<lparr>ro_APIVersion = groupVersion, ro_Kind = kind, ro_Name = owner_name ow,
                          ro_Namespace = m_Namespace (owner_meta ow), ro_UID = owner_uid ow\<rparr>
      in case ow of
           OwnerNode node \<Rightarrow>
             (case GetControllerOf (cn_Meta node) of
                None \<Rightarrow> self ''ChainNode''
              | Some c \<Rightarrow>
                  if or_APIVersion c = groupVersion \<and> or_Kind c = ''ChainNodeSet''
                  then \<lparr>ro_APIVersion = or_APIVersion c, ro_Kind = or_Kind c, ro_Name = or_Name c,
                        ro_Namespace = m_Namespace (cn_Meta node), ro_UID = or_UID c\<rparr>
                  else self ''ChainNode'')
         | _ \<Rightarrow> self ''ChainNodeSet'')"

text \<open>The annotations an attributed object carries.\<close>

definition rootAnnotations :: "RootOwner \<Rightarrow> ResourceClass \<Rightarrow> (string \<times> string) list" where
  "rootAnnotations root cls =
     [(AnnotationRootOwnerAPIVersion, ro_APIVersion root), (AnnotationRootOwnerKind, ro_Kind root),
      (AnnotationRootOwnerName, ro_Name root), (AnnotationRootOwnerNamespace, ro_Namespace root),
      (AnnotationRootOwnerUID, ro_UID root), (AnnotationResourceClass, classText cls)]"

definition Stamp :: "ObjectMeta \<Rightarrow> RootOwner \<Rightarrow> ResourceClass \<Rightarrow> ObjectMeta \<times> bool" where
  "Stamp m root cls =
     fold (\<lambda>(k, v) (m', changed).
         if label (m_Annotations m') k \<noteq> v then (m'\<lparr>m_Annotations := (m_Annotations m')(k \<mapsto> v)\<rparr>, True)
         else (m', changed)) (rootAnnotations root cls) (m, False)"

definition StampResourceOwner :: "ObjectMeta \<Rightarrow> uid \<Rightarrow> ObjectMeta \<times> bool" where
  "StampResourceOwner m ownerUID =
     (if label (m_Annotations m) AnnotationResourceOwnerUID = ownerUID then (m, False)
      else (m\<lparr>m_Annotations := (m_Annotations m)(AnnotationResourceOwnerUID \<mapsto> ownerUID)\<rparr>, True))"

definition IsAttributed :: "ObjectMeta \<Rightarrow> RootOwner \<Rightarrow> ResourceClass \<Rightarrow> bool" where
  "IsAttributed m root cls =
     list_all (\<lambda>(k, v). label (m_Annotations m) k = v) (rootAnnotations root cls)"

definition removeMatchingControllerReference :: "ObjectMeta \<Rightarrow> uid \<Rightarrow> ObjectMeta \<times> bool" where
  "removeMatchingControllerReference m controllerUID =
     (let filtered = filter (\<lambda>r. \<not> (or_UID r = controllerUID \<and> or_Controller r = Some True)) (m_OwnerReferences m);
          changed = (length filtered \<noteq> length (m_OwnerReferences m))
      in if changed then (m\<lparr>m_OwnerReferences := filtered\<rparr>, True) else (m, False))"

text \<open>The result is the object as it was changed, whether it is managed, and whether it was changed.\<close>

definition PrepareGeneratedResource ::
    "ObjectMeta \<Rightarrow> owner_object \<Rightarrow> ResourceClass \<Rightarrow> bool \<Rightarrow> ObjectMeta \<times> bool \<times> bool" where
  "PrepareGeneratedResource m controller cls creating =
     (let root = RootOwnerFor controller;
          managed = (creating \<or> IsAttributed m root cls \<or> IsControlledBy m controller)
      in if \<not> managed then (m, False, False)
         else case Stamp m root cls of (m1, c1) \<Rightarrow>
              case StampResourceOwner m1 (owner_uid controller) of (m2, c2) \<Rightarrow>
              case removeMatchingControllerReference m2 (owner_uid controller) of (m3, c3) \<Rightarrow>
                (m3, True, c1 \<or> c2 \<or> c3))"

section \<open>Finalizers\<close>

definition ContainsFinalizer :: "ObjectMeta \<Rightarrow> string \<Rightarrow> bool" where
  "ContainsFinalizer m f = (f \<in> set (m_Finalizers m))"

definition AddFinalizer :: "ObjectMeta \<Rightarrow> string \<Rightarrow> ObjectMeta" where
  "AddFinalizer m f = (if ContainsFinalizer m f then m else m\<lparr>m_Finalizers := m_Finalizers m @ [f]\<rparr>)"

definition RemoveFinalizer :: "ObjectMeta \<Rightarrow> string \<Rightarrow> ObjectMeta" where
  "RemoveFinalizer m f = m\<lparr>m_Finalizers := filter (\<lambda>g. g \<noteq> f) (m_Finalizers m)\<rparr>"

text \<open>\<open>for _, f := range finalizers { if ContainsFinalizer(o, f) { RemoveFinalizer(o, f); changed = true } }\<close>.\<close>

definition dropFinalizers :: "string list \<Rightarrow> ObjectMeta \<Rightarrow> ObjectMeta \<times> bool" where
  "dropFinalizers fs m =
     fold (\<lambda>f (m', changed). if ContainsFinalizer m' f then (RemoveFinalizer m' f, True) else (m', changed)) fs (m, False)"

section \<open>Finalizing a class\<close>

datatype CleanupError =
    CleanupApi api_error
  | Refused string string
  | UnsafeRetainedState string string
  | QuiesceFailed CleanupError string api_error
  | LatchedAtZero CleanupError string
  | BadMigrationPhase string
  | InconsistentReservation string

text \<open>A \<open>client.Object\<close> of a durable class.\<close>

datatype durable = DurableClaim PersistentVolumeClaim | DurableSecret Secret

fun durable_meta :: "durable \<Rightarrow> ObjectMeta" where
  "durable_meta (DurableClaim c) = pvc_Meta c"
| "durable_meta (DurableSecret x) = sec_Meta x"

fun withMeta :: "ObjectMeta \<Rightarrow> durable \<Rightarrow> durable" where
  "withMeta m (DurableClaim c) = DurableClaim (c\<lparr>pvc_Meta := m\<rparr>)"
| "withMeta m (DurableSecret x) = DurableSecret (x\<lparr>sec_Meta := m\<rparr>)"

definition quietly :: "('s, 'e, 'a) prog \<Rightarrow> ('s, 'e, unit) prog" where
  "quietly m = seq m (\<lambda>_. ret ())"

text \<open>\<open>c.Update(ctx, object)\<close> and \<open>c.Delete(ctx, object, UID)\<close> tolerating \<open>NotFound\<close>, and whether a \<open>Get\<close> finds it.\<close>

fun updateDurable :: "'s cluster_api \<Rightarrow> durable \<Rightarrow> ('s, CleanupError, unit) prog" where
  "updateDurable K (DurableClaim c) = quietly (tolerate NotFound CleanupApi (cl_update (w_claims K) c))"
| "updateDurable K (DurableSecret x) = quietly (tolerate NotFound CleanupApi (cl_update (w_secrets K) x))"

fun deleteDurable :: "'s cluster_api \<Rightarrow> durable \<Rightarrow> ('s, CleanupError, unit) prog" where
  "deleteDurable K (DurableClaim c) =
     quietly (tolerate NotFound CleanupApi (cl_delete (w_claims K) c (Some (m_UID (pvc_Meta c)))))"
| "deleteDurable K (DurableSecret x) =
     quietly (tolerate NotFound CleanupApi (cl_delete (w_secrets K) x (Some (m_UID (sec_Meta x)))))"

fun durableGone :: "'s cluster_api \<Rightarrow> durable \<Rightarrow> ('s, CleanupError, bool) prog" where
  "durableGone K (DurableClaim c) =
     get_or CleanupApi (cl_get (w_claims K) (m_Namespace (pvc_Meta c)) (m_Name (pvc_Meta c))) (\<lambda>_. ret False) (ret True)"
| "durableGone K (DurableSecret x) =
     get_or CleanupApi (cl_get (w_secrets K) (m_Namespace (sec_Meta x)) (m_Name (sec_Meta x))) (\<lambda>_. ret False) (ret True)"

definition deleteExact :: "'s cluster_api \<Rightarrow> durable \<Rightarrow> ('s, CleanupError, bool) prog" where
  "deleteExact K obj =
     seq (if m_DeletionTimestamp (durable_meta obj) = None then deleteDurable K obj else ret ())
       (\<lambda>_. durableGone K obj)"

definition listAttributed :: "'s cluster_api \<Rightarrow> RootOwner \<Rightarrow> ResourceClass \<Rightarrow> ('s, CleanupError, durable list) prog" where
  "listAttributed K root cls =
     (if cls = ClassGeneratedKeys
      then seq (call CleanupApi (cl_list (w_secrets K) (ro_Namespace root)))
             (\<lambda>items. ret (map DurableSecret (filter (\<lambda>x. IsAttributed (sec_Meta x) root cls) items)))
      else seq (call CleanupApi (cl_list (w_claims K) (ro_Namespace root)))
             (\<lambda>items. ret (map DurableClaim (filter (\<lambda>c. IsAttributed (pvc_Meta c) root cls) items))))"

definition finalizeObject ::
    "'s cluster_api \<Rightarrow> RootOwner \<Rightarrow> DeletionPolicyType \<Rightarrow> uid \<Rightarrow> string list \<Rightarrow> durable \<Rightarrow> bool
      \<Rightarrow> ('s, CleanupError, (bool, bool) ctl) prog" where
  "finalizeObject K root policy controllerUID ownedFinalizers obj allDone =
     (if controllerUID \<noteq> ro_UID root \<and>
         label (m_Annotations (durable_meta obj)) AnnotationResourceOwnerUID \<noteq> controllerUID
      then ret (Next allDone)
      else if policy = DeletionPolicyDelete
      then (case dropFinalizers ownedFinalizers (durable_meta obj) of (m, finalizerRemoved) \<Rightarrow>
              if finalizerRemoved
              then seq (updateDurable K (withMeta m obj)) (\<lambda>_. ret (Next False))
              else seq (deleteExact K obj) (\<lambda>gone. ret (Next (allDone \<and> gone))))
      else (case removeMatchingControllerReference (durable_meta obj) controllerUID of (m1, c1) \<Rightarrow>
            case dropFinalizers ownedFinalizers m1 of (m2, c2) \<Rightarrow>
              if c1 \<or> c2 then seq (updateDurable K (withMeta m2 obj)) (\<lambda>_. ret (Next allDone))
              else ret (Next allDone)))"

definition FinalizeClass ::
    "'s cluster_api \<Rightarrow> RootOwner \<Rightarrow> ResourceClass \<Rightarrow> DeletionPolicyType \<Rightarrow> uid \<Rightarrow> string list
      \<Rightarrow> ('s, CleanupError, bool) prog" where
  "FinalizeClass K root cls policy controllerUID ownedFinalizers =
     seq (listAttributed K root cls)
       (\<lambda>objects. loopThen (forEach (finalizeObject K root policy controllerUID ownedFinalizers) objects True) ret)"

end
