(* ===== verification/Signer_Workload.thy ===== *)
theory Signer_Workload
  imports Resource_Cleanup
begin

text \<open>
  The workload of a managed signer: \<open>src/internal/cosmosigner/apply.go\<close>, \<open>migration.go\<close>, \<open>lock.go\<close> and the claim
  handling of \<open>cleanup.go\<close>. A signer is a StatefulSet whose pods keep their slash-protection history in one claim
  per replica. Deploying it refuses claims of another owner and lost or unprotected history; tearing it down
  retains the claims, stops the pods, deletes the StatefulSet and only then touches the claims; a migration goes
  through these steps one persisted phase at a time.

  Arguments: \<open>K\<close> is the API; \<open>apply_env\<close> holds the functions of third-party packages \<open>ApplyOwned\<close> calls. Of
  \<open>ApplyOwned\<close> the path of StatefulSets is modelled, the only kind with guards of its own.
\<close>

section \<open>Names\<close>

definition labelAppName :: string where "labelAppName = ''app.kubernetes.io/name''"
definition labelInstance :: string where "labelInstance = ''app.kubernetes.io/instance''"
definition appNameCosmosigner :: string where "appNameCosmosigner = ''cosmosigner''"
definition RetainedStateFinalizer :: string where
  "RetainedStateFinalizer = ''cosmopilot.voluzi.com/cosmosigner-retained-state''"
definition OwnerFinalizer :: string where "OwnerFinalizer = ''cosmopilot.voluzi.com/cosmosigner-cleanup''"
definition EverRolledOutAnnotation :: string where
  "EverRolledOutAnnotation = ''cosmopilot.voluzi.com/cosmosigner-ever-rolled-out''"
definition retainedStateLostAnnotation :: string where
  "retainedStateLostAnnotation = ''cosmopilot.voluzi.com/cosmosigner-retained-state-lost''"
definition LifecycleDigestAnnotation :: string where
  "LifecycleDigestAnnotation = ''cosmopilot.voluzi.com/cosmosigner-lifecycle-digest''"
definition discoveryServiceSuffix :: string where "discoveryServiceSuffix = ''-privval''"
definition ClusterIPNone :: string where "ClusterIPNone = ''None''"
definition RetainClaims :: string where "RetainClaims = ''Retain''"

definition foreignObjectErr :: "string \<Rightarrow> string \<Rightarrow> CleanupError" where
  "foreignObjectErr kind name = Refused kind name"

definition stsAnnotation :: "StatefulSet \<Rightarrow> string \<Rightarrow> string" where
  "stsAnnotation sts k = label (m_Annotations (sts_Meta sts)) k"

definition annotateSts :: "string \<Rightarrow> string \<Rightarrow> StatefulSet \<Rightarrow> StatefulSet" where
  "annotateSts k v sts =
     sts\<lparr>sts_Meta := (sts_Meta sts)\<lparr>m_Annotations := (m_Annotations (sts_Meta sts))(k \<mapsto> v)\<rparr>\<rparr>"

definition getSts :: "'s cluster_api \<Rightarrow> string \<Rightarrow> string \<Rightarrow> (StatefulSet \<Rightarrow> ('s, CleanupError, 'a) prog)
    \<Rightarrow> ('s, CleanupError, 'a) prog \<Rightarrow> ('s, CleanupError, 'a) prog" where
  "getSts K ns name = get_or CleanupApi (cl_get (w_statefulSets K) ns name)"

section \<open>Lifecycle digest and rollout\<close>

definition SetLifecycleDigest :: "string \<Rightarrow> StatefulSet \<Rightarrow> StatefulSet" where
  "SetLifecycleDigest digest = annotateSts LifecycleDigestAnnotation digest"

definition ReadLifecycleDigest :: "'s cluster_api \<Rightarrow> string \<Rightarrow> string \<Rightarrow> ('s, CleanupError, string \<times> bool) prog" where
  "ReadLifecycleDigest K ns name =
     getSts K ns name
       (\<lambda>sts. let digest = stsAnnotation sts LifecycleDigestAnnotation in ret (digest, digest \<noteq> []))
       (ret ([], False))"

definition statefulSetRolledOut :: "StatefulSet \<Rightarrow> int \<Rightarrow> bool" where
  "statefulSetRolledOut sts desired \<longleftrightarrow> desired > 0 \<and> sts_ObservedGeneration sts = m_Generation (sts_Meta sts) \<and>
     sts_UpdatedReplicas sts = desired \<and> sts_ReadyReplicas sts = desired"

definition statefulSetEverRolledOut :: "StatefulSet \<Rightarrow> bool" where
  "statefulSetEverRolledOut sts \<longleftrightarrow>
     stsAnnotation sts EverRolledOutAnnotation = ''true'' \<or> statefulSetRolledOut sts (deref 1 (sts_Replicas sts))"

definition IsRolledOut :: "'s cluster_api \<Rightarrow> string \<Rightarrow> string \<Rightarrow> int \<Rightarrow> ('s, CleanupError, bool) prog" where
  "IsRolledOut K ns name desired =
     getSts K ns name (\<lambda>sts. ret (statefulSetRolledOut sts desired)) (ret False)"

definition MarkEverRolledOut :: "'s cluster_api \<Rightarrow> string \<Rightarrow> string \<Rightarrow> int \<Rightarrow> ('s, CleanupError, bool) prog" where
  "MarkEverRolledOut K ns name desired =
     getSts K ns name
       (\<lambda>sts. if \<not> statefulSetRolledOut sts desired then ret False
               else if stsAnnotation sts EverRolledOutAnnotation = ''true'' then ret True
               else seq (call CleanupApi (cl_update (w_statefulSets K) (annotateSts EverRolledOutAnnotation ''true'' sts)))
                      (\<lambda>_. ret True))
       (ret False)"

section \<open>Tearing down\<close>

definition signerPod :: "string \<Rightarrow> Pod \<Rightarrow> bool" where
  "signerPod name pod \<longleftrightarrow>
     (label (m_Labels (pod_Meta pod)) labelAppName = appNameCosmosigner \<and>
      label (m_Labels (pod_Meta pod)) labelInstance = name) \<or>
     isStatefulSetReplicaPodName (m_Name (pod_Meta pod)) name"

definition SignerPodsGone :: "'s cluster_api \<Rightarrow> string \<Rightarrow> string \<Rightarrow> ('s, CleanupError, bool) prog" where
  "SignerPodsGone K ns name =
     seq (call CleanupApi (cl_list (w_pods K) ns)) (\<lambda>pods. ret (\<not> list_ex (signerPod name) pods))"

definition ScaleDown :: "'s cluster_api \<Rightarrow> owner_object \<Rightarrow> string \<Rightarrow> string \<Rightarrow> ('s, CleanupError, bool) prog" where
  "ScaleDown K ow ns name =
     getSts K ns name
       (\<lambda>sts. if \<not> IsControlledBy (sts_Meta sts) ow then ret True
               else if sts_Replicas sts \<noteq> Some 0
               then seq (call CleanupApi (cl_update (w_statefulSets K) (sts\<lparr>sts_Replicas := Some 0\<rparr>))) (\<lambda>_. ret False)
               else if sts_ObservedGeneration sts < m_Generation (sts_Meta sts) \<or> sts_StatusReplicas sts \<noteq> 0 then ret False
               else SignerPodsGone K ns name)
       (SignerPodsGone K ns name)"

definition retainStatefulSetPVCs ::
    "'s cluster_api \<Rightarrow> owner_object \<Rightarrow> string \<Rightarrow> string \<Rightarrow> ('s, CleanupError, bool) prog" where
  "retainStatefulSetPVCs K ow ns name =
     getSts K ns name
       (\<lambda>sts. if \<not> IsControlledBy (sts_Meta sts) ow then fail (foreignObjectErr ''StatefulSet'' name)
               else if sts_Retention sts \<noteq> Some (RetainClaims, RetainClaims)
               then seq (call CleanupApi (cl_update (w_statefulSets K)
                           (sts\<lparr>sts_Retention := Some (RetainClaims, RetainClaims)\<rparr>))) (\<lambda>_. ret False)
               else ret (sts_ObservedGeneration sts \<ge> m_Generation (sts_Meta sts)))
       (ret True)"

definition DeleteStatefulSet ::
    "'s cluster_api \<Rightarrow> owner_object \<Rightarrow> string \<Rightarrow> string \<Rightarrow> ('s, CleanupError, bool) prog" where
  "DeleteStatefulSet K ow ns name =
     whenDone (retainStatefulSetPVCs K ow ns name)
       (getSts K ns name
          (\<lambda>sts. if \<not> IsControlledBy (sts_Meta sts) ow then fail (foreignObjectErr ''StatefulSet'' name)
                  else whenDone (ScaleDown K ow ns name)
                    (if m_UID (sts_Meta sts) = [] then fail (Refused ''delete without UID'' (m_Name (sts_Meta sts)))
                     else seq (tolerate NotFound CleanupApi (cl_delete (w_statefulSets K) sts (Some (m_UID (sts_Meta sts)))))
                            (\<lambda>_. getSts K ns name (\<lambda>_. ret False) (SignerPodsGone K ns name))))
          (SignerPodsGone K ns name))"

definition DeleteDiscoveryService ::
    "'s cluster_api \<Rightarrow> owner_object \<Rightarrow> string \<Rightarrow> string \<Rightarrow> ('s, CleanupError, bool) prog" where
  "DeleteDiscoveryService K ow ns name =
     (let get = cl_get (w_services K) ns (name @ discoveryServiceSuffix) in
      get_or CleanupApi get
        (\<lambda>svc. if \<not> IsControlledBy (svc_Meta svc) ow then fail (foreignObjectErr ''discovery Service'' (m_Name (svc_Meta svc)))
                else seq (tolerate NotFound CleanupApi (cl_delete (w_services K) svc None))
                       (\<lambda>_. get_or CleanupApi get (\<lambda>_. ret False) (ret True)))
        (ret True))"

definition DeletePVCs :: "'s cluster_api \<Rightarrow> uid \<Rightarrow> string \<Rightarrow> string \<Rightarrow> ('s, CleanupError, unit) prog" where
  "DeletePVCs K ownerUID ns name =
     seq (call CleanupApi (cl_list (w_claims K) ns))
       (\<lambda>pvcs. loopThen (forEach (\<lambda>pvc _.
           if \<not> isOwnedStatefulSetDataPVC pvc ownerUID name then ret (Next ())
           else seq (if ContainsFinalizer (pvc_Meta pvc) RetainedStateFinalizer
                     then tolerate NotFound CleanupApi
                            (cl_update (w_claims K) (pvc\<lparr>pvc_Meta := RemoveFinalizer (pvc_Meta pvc) RetainedStateFinalizer\<rparr>))
                     else ret (Some pvc))
             (\<lambda>updated. case updated of
                 None \<Rightarrow> ret (Next ())
               | Some pvc' \<Rightarrow>
                   if m_DeletionTimestamp (pvc_Meta pvc') \<noteq> None then ret (Next ())
                   else seq (tolerate NotFound CleanupApi (cl_delete (w_claims K) pvc' (Some (m_UID (pvc_Meta pvc')))))
                          (\<lambda>_. ret (Next ())))) pvcs ()) ret)"

definition OwnedPVCsGone :: "'s cluster_api \<Rightarrow> uid \<Rightarrow> string \<Rightarrow> string \<Rightarrow> ('s, CleanupError, bool) prog" where
  "OwnedPVCsGone K ownerUID ns name =
     seq (call CleanupApi (cl_list (w_claims K) ns))
       (\<lambda>pvcs. ret (\<not> list_ex (\<lambda>pvc. isOwnedStatefulSetDataPVC pvc ownerUID name) pvcs))"

text \<open>One named object of \<open>Undeploy\<close>: deleted when the owner controls it.\<close>

definition deleteControlled ::
    "('s, 'o) client \<Rightarrow> ('o \<Rightarrow> ObjectMeta) \<Rightarrow> owner_object \<Rightarrow> string \<Rightarrow> string \<Rightarrow> ('s, CleanupError, unit) prog" where
  "deleteControlled c meta ow ns name =
     get_or CleanupApi (cl_get c ns name)
       (\<lambda>obj. if \<not> IsControlledBy (meta obj) ow then ret ()
               else quietly (tolerate NotFound CleanupApi (cl_delete c obj None)))
       (ret ())"

definition jobPodName :: "string \<Rightarrow> string \<Rightarrow> string" where
  "jobPodName name sfx = name @ ''-'' @ sfx"

definition undeployObjects :: "'s cluster_api \<Rightarrow> owner_object \<Rightarrow> string \<Rightarrow> string \<Rightarrow> ('s, CleanupError, unit) prog" where
  "undeployObjects K ow ns name =
     seq (deleteControlled (w_pods K) pod_Meta ow ns (jobPodName name importJobSuffix)) (\<lambda>_.
     seq (deleteControlled (w_pods K) pod_Meta ow ns (jobPodName name pubkeyJobSuffix)) (\<lambda>_.
     seq (deleteControlled (w_configMaps K) id ow ns name) (\<lambda>_.
     seq (deleteControlled (w_services K) svc_Meta ow ns name) (\<lambda>_.
     seq (deleteControlled (w_services K) svc_Meta ow ns (name @ discoveryServiceSuffix)) (\<lambda>_.
     deleteControlled (w_policies K) id ow ns name)))))"

definition Undeploy :: "'s cluster_api \<Rightarrow> owner_object \<Rightarrow> string \<Rightarrow> string \<Rightarrow> ('s, CleanupError, unit) prog" where
  "Undeploy K ow ns name =
     seq (getSts K ns name
            (\<lambda>sts. if IsControlledBy (sts_Meta sts) ow then DeleteStatefulSet K ow ns name else SignerPodsGone K ns name)
            (SignerPodsGone K ns name))
       (\<lambda>gone. if \<not> gone then ret ()
                else seq (undeployObjects K ow ns name) (\<lambda>_. DeletePVCs K (owner_uid ow) ns name))"

text \<open>Whether an object of the owner is still there.\<close>

definition stillControlled ::
    "('s, 'o) client \<Rightarrow> ('o \<Rightarrow> ObjectMeta) \<Rightarrow> owner_object \<Rightarrow> string \<Rightarrow> string \<Rightarrow> ('s, CleanupError, bool) prog" where
  "stillControlled c meta ow ns name =
     get_or CleanupApi (cl_get c ns name) (\<lambda>obj. ret (IsControlledBy (meta obj) ow)) (ret False)"

definition IsTornDown :: "'s cluster_api \<Rightarrow> owner_object \<Rightarrow> string \<Rightarrow> string \<Rightarrow> ('s, CleanupError, bool) prog" where
  "IsTornDown K ow ns name =
     seq (stillControlled (w_pods K) pod_Meta ow ns (jobPodName name importJobSuffix)) (\<lambda>b1. if b1 then ret False else
     seq (stillControlled (w_pods K) pod_Meta ow ns (jobPodName name pubkeyJobSuffix)) (\<lambda>b2. if b2 then ret False else
     seq (stillControlled (w_policies K) id ow ns name) (\<lambda>b3. if b3 then ret False else
     seq (stillControlled (w_statefulSets K) sts_Meta ow ns name) (\<lambda>b4. if b4 then ret False else
     whenDone (SignerPodsGone K ns name)
       (seq (call CleanupApi (cl_list (w_claims K) ns))
          (\<lambda>pvcs. ret (\<not> list_ex (\<lambda>pvc. isOwnedStatefulSetDataPVC pvc (owner_uid ow) name \<or>
                                     isAmbiguousLegacyDataPVC pvc name) pvcs)))))))"

section \<open>Migration\<close>

definition RetainedStateRequired :: "bool \<Rightarrow> CosmosignerMigrationStatus option \<Rightarrow> bool" where
  "RetainedStateRequired established migration =
     (case migration of
        None \<Rightarrow> established
      | Some m \<Rightarrow>
          if \<not> ms_ResetState m then True
          else (case ms_Phase m of
                  CosmosignerMigrationResettingState \<Rightarrow> False
                | CosmosignerMigrationRetargeting \<Rightarrow> False
                | CosmosignerMigrationRecreating \<Rightarrow> False
                | CosmosignerMigrationRollingOut \<Rightarrow> False
                | _ \<Rightarrow> True))"

record applyGuard =
  ag_RequireRetainedState :: bool
  ag_RetainedStateReplicas :: int

definition StatefulSetApplyGuard ::
    "bool \<Rightarrow> CosmosignerMigrationStatus option \<Rightarrow> int option \<Rightarrow> int \<Rightarrow> CleanupError + applyGuard" where
  "StatefulSetApplyGuard established migration lockedReplicas desiredReplicas =
     (if (\<exists>m \<in> set_option migration. ms_Phase m \<noteq> CosmosignerMigrationRollingOut)
      then Inl (BadMigrationPhase ''cannot be applied'')
      else if \<not> RetainedStateRequired established migration
      then Inr \<lparr>ag_RequireRetainedState = False, ag_RetainedStateReplicas = desiredReplicas\<rparr>
      else (case lockedReplicas of
              None \<Rightarrow> Inl (Refused ''replica lock'' [])
            | Some n \<Rightarrow> if n \<le> 0 then Inl (Refused ''replica lock'' [])
                        else Inr \<lparr>ag_RequireRetainedState = True, ag_RetainedStateReplicas = n\<rparr>))"

text \<open>The result is (ready, next).\<close>

definition ReconcileStatefulSetMigration ::
    "'s cluster_api \<Rightarrow> owner_object \<Rightarrow> string \<Rightarrow> string \<Rightarrow> CosmosignerMigrationPhase \<Rightarrow> bool
      \<Rightarrow> ('s, CleanupError, bool \<times> CosmosignerMigrationPhase) prog" where
  "ReconcileStatefulSetMigration K ow ns name phase resetState =
     (case phase of
        CosmosignerMigrationQuiescing \<Rightarrow>
          seq (retainStatefulSetPVCs K ow ns name) (\<lambda>retained. if \<not> retained then ret (False, phase) else
          seq (ScaleDown K ow ns name) (\<lambda>quiesced. if \<not> quiesced then ret (False, phase) else
          ret (False, CosmosignerMigrationDeleting)))
      | CosmosignerMigrationDeleting \<Rightarrow>
          seq (DeleteStatefulSet K ow ns name) (\<lambda>deleted. if \<not> deleted then ret (False, phase) else
          ret (False, CosmosignerMigrationResettingState))
      | CosmosignerMigrationResettingState \<Rightarrow>
          (if resetState
           then seq (DeletePVCs K (owner_uid ow) ns name) (\<lambda>_.
                seq (OwnedPVCsGone K (owner_uid ow) ns name) (\<lambda>gone. if \<not> gone then ret (False, phase) else
                ret (False, CosmosignerMigrationRecreating)))
           else ret (False, CosmosignerMigrationRecreating))
      | CosmosignerMigrationRecreating \<Rightarrow>
          seq (DeleteStatefulSet K ow ns name) (\<lambda>gone. if \<not> gone then ret (False, phase) else ret (True, phase))
      | _ \<Rightarrow> fail (BadMigrationPhase ''invalid''))"

section \<open>Deploying\<close>

definition ensureNoForeignDataPVCs :: "'s cluster_api \<Rightarrow> uid \<Rightarrow> string \<Rightarrow> string \<Rightarrow> ('s, CleanupError, unit) prog" where
  "ensureNoForeignDataPVCs K ownerUID ns name =
     seq (call CleanupApi (cl_list (w_claims K) ns))
       (\<lambda>pvcs. case find (\<lambda>pvc. isStatefulSetDataPVC (m_Name (pvc_Meta pvc)) name \<and>
                              label (m_Labels (pvc_Meta pvc)) labelOwnerUID \<noteq> ownerUID) pvcs of
                  None \<Rightarrow> ret ()
                | Some pvc \<Rightarrow> fail (UnsafeRetainedState ''foreign claim'' (m_Name (pvc_Meta pvc))))"

definition dataClaimName :: "string \<Rightarrow> int \<Rightarrow> string" where
  "dataClaimName name ordinal = dataVolumeName @ ''-'' @ name @ ''-'' @ Itoa ordinal"

text \<open>What is wrong with a retained claim.\<close>

definition retainedClaimFault :: "uid \<Rightarrow> PersistentVolumeClaim \<Rightarrow> string option" where
  "retainedClaimFault ownerUID pvc =
     (if label (m_Labels (pvc_Meta pvc)) labelOwnerUID \<noteq> ownerUID then Some ''not attributed''
      else if m_DeletionTimestamp (pvc_Meta pvc) \<noteq> None then Some ''terminating''
      else if \<not> pvc_Bound pvc \<or> pvc_VolumeName pvc = [] then Some ''not bound''
      else if \<not> ContainsFinalizer (pvc_Meta pvc) RetainedStateFinalizer then Some ''not protected''
      else None)"

definition ensureRetainedDataPVCs ::
    "'s cluster_api \<Rightarrow> uid \<Rightarrow> string \<Rightarrow> string \<Rightarrow> int \<Rightarrow> ('s, CleanupError, unit) prog" where
  "ensureRetainedDataPVCs K ownerUID ns name replicas =
     loopThen (forEach (\<lambda>ordinal _.
         get_or CleanupApi (cl_get (w_claims K) ns (dataClaimName name (int ordinal)))
           (\<lambda>pvc. case retainedClaimFault ownerUID pvc of
                     Some fault \<Rightarrow> fail (UnsafeRetainedState fault (dataClaimName name (int ordinal)))
                   | None \<Rightarrow> ret (Next ()))
           (fail (UnsafeRetainedState ''missing'' (dataClaimName name (int ordinal))))) [0..<nat replicas] ()) ret"

definition ensureNoForeignObject ::
    "('s, 'o) client \<Rightarrow> ('o \<Rightarrow> ObjectMeta) \<Rightarrow> owner_object \<Rightarrow> string \<Rightarrow> string \<Rightarrow> string \<Rightarrow> ('s, CleanupError, unit) prog" where
  "ensureNoForeignObject c meta ow ns kind name =
     get_or CleanupApi (cl_get c ns name)
       (\<lambda>obj. if \<not> IsControlledBy (meta obj) ow then fail (foreignObjectErr kind (m_Name (meta obj))) else ret ())
       (ret ())"

definition ensureHeadlessServiceDeployable ::
    "'s cluster_api \<Rightarrow> owner_object \<Rightarrow> string \<Rightarrow> string \<Rightarrow> string \<Rightarrow> ('s, CleanupError, unit) prog" where
  "ensureHeadlessServiceDeployable K ow ns kind name =
     get_or CleanupApi (cl_get (w_services K) ns name)
       (\<lambda>svc. if \<not> IsControlledBy (svc_Meta svc) ow then fail (foreignObjectErr kind name)
               else if svc_ClusterIP svc \<noteq> ClusterIPNone then fail (Refused ''not headless'' name)
               else ret ())
       (ret ())"

definition replicaPodName :: "string \<Rightarrow> int \<Rightarrow> string" where
  "replicaPodName name ordinal = name @ ''-'' @ Itoa ordinal"

definition ensureReplicaPodNamesAvailable ::
    "'s cluster_api \<Rightarrow> string \<Rightarrow> string \<Rightarrow> int \<Rightarrow> StatefulSet option \<Rightarrow> ('s, CleanupError, unit) prog" where
  "ensureReplicaPodNamesAvailable K ns name replicas sts =
     loopThen (forEach (\<lambda>ordinal _.
         get_or CleanupApi (cl_get (w_pods K) ns (replicaPodName name (int ordinal)))
           (\<lambda>pod. if (case sts of None \<Rightarrow> True | Some x \<Rightarrow> \<not> controlledByUID (pod_Meta pod) (m_UID (sts_Meta x)))
                   then fail (Refused ''replica pod'' (replicaPodName name (int ordinal)))
                   else ret (Next ()))
           (ret (Next ()))) [0..<nat replicas] ()) ret"

fun isUnsafe :: "CleanupError \<Rightarrow> bool" where
  "isUnsafe (UnsafeRetainedState _ _) = True"
| "isUnsafe (QuiesceFailed e _ _) = isUnsafe e"
| "isUnsafe (LatchedAtZero e _) = isUnsafe e"
| "isUnsafe _ = False"

definition quiesceUnsafeRetainedState ::
    "'s cluster_api \<Rightarrow> StatefulSet \<Rightarrow> CleanupError \<Rightarrow> ('s, CleanupError, 'a) prog" where
  "quiesceUnsafeRetainedState K sts cause =
     (if \<not> isUnsafe cause then fail cause
      else if stsAnnotation sts retainedStateLostAnnotation = ''true'' \<and> sts_Replicas sts = Some 0 then fail cause
      else seq (call (QuiesceFailed cause (m_Name (sts_Meta sts)))
                 (cl_update (w_statefulSets K) (annotateSts retainedStateLostAnnotation ''true'' (sts\<lparr>sts_Replicas := Some 0\<rparr>))))
             (\<lambda>_. fail (LatchedAtZero cause (m_Name (sts_Meta sts)))))"

definition preflightObjects ::
    "'s cluster_api \<Rightarrow> owner_object \<Rightarrow> string \<Rightarrow> string \<Rightarrow> bool \<Rightarrow> bool \<Rightarrow> ('s, CleanupError, unit) prog" where
  "preflightObjects K ow ns name usesImportPod usesPubkeyPod =
     seq (ensureNoForeignObject (w_configMaps K) id ow ns ''ConfigMap'' name) (\<lambda>_.
     seq (ensureNoForeignObject (w_policies K) id ow ns ''NetworkPolicy'' name) (\<lambda>_.
     seq (if usesPubkeyPod then ensureNoForeignObject (w_pods K) pod_Meta ow ns ''pubkey pod'' (jobPodName name pubkeyJobSuffix)
          else ret ()) (\<lambda>_.
     seq (if usesImportPod then ensureNoForeignObject (w_pods K) pod_Meta ow ns ''import pod'' (jobPodName name importJobSuffix)
          else ret ()) (\<lambda>_.
     seq (ensureHeadlessServiceDeployable K ow ns ''raft Service'' name) (\<lambda>_.
     ensureHeadlessServiceDeployable K ow ns ''discovery Service'' (name @ discoveryServiceSuffix))))))"

definition PreflightDeployable ::
    "'s cluster_api \<Rightarrow> owner_object \<Rightarrow> string \<Rightarrow> string \<Rightarrow> int \<Rightarrow> bool \<Rightarrow> bool \<Rightarrow> bool \<Rightarrow> ('s, CleanupError, unit) prog" where
  "PreflightDeployable K ow ns name replicas usesImportPod usesPubkeyPod requireRetainedState =
     seq (preflightObjects K ow ns name usesImportPod usesPubkeyPod) (\<lambda>_.
     seq (getSts K ns name
            (\<lambda>sts. if \<not> IsControlledBy (sts_Meta sts) ow then fail (foreignObjectErr ''StatefulSet'' name)
                    else seq (ensureReplicaPodNamesAvailable K ns name replicas (Some sts))
                           (\<lambda>_. ret (Some sts,
                              if stsAnnotation sts retainedStateLostAnnotation = ''true'' then False
                              else statefulSetEverRolledOut sts \<or> requireRetainedState)))
            (seq (ensureReplicaPodNamesAvailable K ns name replicas None) (\<lambda>_. ret (None, requireRetainedState))))
       (\<lambda>(live, required).
          let quiesce = (\<lambda>err. case live of Some sts \<Rightarrow> quiesceUnsafeRetainedState K sts err | None \<Rightarrow> fail err)
          in seq (rescue (ensureNoForeignDataPVCs K (owner_uid ow) ns name) quiesce)
               (\<lambda>_. if required then rescue (ensureRetainedDataPVCs K (owner_uid ow) ns name replicas) quiesce else ret ())))"

definition statefulSetPVCTemplateRetainsState :: "StatefulSet \<Rightarrow> bool" where
  "statefulSetPVCTemplateRetainsState sts =
     (case find (\<lambda>claim. m_Name (pvc_Meta claim) = dataVolumeName) (sts_ClaimTemplates sts) of
        None \<Rightarrow> False | Some claim \<Rightarrow> ContainsFinalizer (pvc_Meta claim) RetainedStateFinalizer)"

definition ensureStatefulSetPVCsForApply ::
    "'s cluster_api \<Rightarrow> owner_object \<Rightarrow> StatefulSet \<Rightarrow> StatefulSet option \<Rightarrow> applyGuard \<Rightarrow> ('s, CleanupError, unit) prog" where
  "ensureStatefulSetPVCsForApply K ow sts live guard =
     (let name = m_Name (sts_Meta sts); ns = m_Namespace (sts_Meta sts) in
      if (\<exists>l \<in> set_option live. stsAnnotation l retainedStateLostAnnotation = ''true'')
      then fail (UnsafeRetainedState ''previously lost'' name)
      else if (\<exists>l \<in> set_option live. deref 1 (sts_Replicas sts) > deref 1 (sts_Replicas l) \<and>
                 \<not> statefulSetPVCTemplateRetainsState l)
      then fail (UnsafeRetainedState ''unprotected template'' name)
      else seq (ensureNoForeignDataPVCs K (owner_uid ow) ns name)
        (\<lambda>_. let guard' = (case live of
                   None \<Rightarrow> guard
                 | Some l \<Rightarrow>
                     if statefulSetEverRolledOut l
                     then \<lparr>ag_RequireRetainedState = True,
                           ag_RetainedStateReplicas = (if ag_RetainedStateReplicas guard \<le> 0 then deref 1 (sts_Replicas l)
                                                       else ag_RetainedStateReplicas guard)\<rparr>
                     else guard)
              in if \<not> ag_RequireRetainedState guard' then ret ()
                 else if ag_RetainedStateReplicas guard' \<le> 0 then fail (UnsafeRetainedState ''replica lock'' name)
                 else ensureRetainedDataPVCs K (owner_uid ow) ns name (ag_RetainedStateReplicas guard')))"

record apply_env =
  ap_SetControllerReference :: "owner_object \<Rightarrow> StatefulSet \<Rightarrow> CleanupError + StatefulSet"
  ap_SetLastApplied :: "StatefulSet \<Rightarrow> CleanupError + StatefulSet"
  ap_PatchEmpty :: "StatefulSet \<Rightarrow> StatefulSet \<Rightarrow> CleanupError + bool"

definition PreserveImmutableStatefulSetFields :: "StatefulSet \<Rightarrow> StatefulSet \<Rightarrow> StatefulSet" where
  "PreserveImmutableStatefulSetFields desired live = desired\<lparr>sts_ClaimTemplates := sts_ClaimTemplates live\<rparr>"

text \<open>\<open>ApplyOwned\<close> of a StatefulSet with its guard; the result is the object as the caller sees it.\<close>

definition ApplyOwnedStatefulSet ::
    "apply_env \<Rightarrow> 's cluster_api \<Rightarrow> owner_object \<Rightarrow> StatefulSet \<Rightarrow> applyGuard \<Rightarrow> ('s, CleanupError, StatefulSet) prog" where
  "ApplyOwnedStatefulSet E K ow desired guard =
     seq (lift (ap_SetControllerReference E ow desired)) (\<lambda>sts.
     getSts K (m_Namespace (sts_Meta sts)) (m_Name (sts_Meta sts))
       (\<lambda>live.
          if \<not> IsControlledBy (sts_Meta live) ow then fail (foreignObjectErr ''StatefulSet'' (m_Name (sts_Meta sts)))
          else let sts1 = PreserveImmutableStatefulSetFields sts live in
            seq (rescue (ensureStatefulSetPVCsForApply K ow sts1 (Some live) guard) (quiesceUnsafeRetainedState K live)) (\<lambda>_.
            let sts2 = (if stsAnnotation live EverRolledOutAnnotation = ''true''
                        then annotateSts EverRolledOutAnnotation ''true'' sts1 else sts1) in
            seq (lift (ap_PatchEmpty E live sts2)) (\<lambda>same.
            if same \<and> m_Labels (sts_Meta live) = m_Labels (sts_Meta sts2) then ret live
            else seq (lift (ap_SetLastApplied E sts2)) (\<lambda>sts3. call CleanupApi (cl_update (w_statefulSets K) sts3)))))
       (seq (lift (ap_SetLastApplied E sts)) (\<lambda>sts1.
        seq (ensureStatefulSetPVCsForApply K ow sts1 None guard) (\<lambda>_.
        call CleanupApi (cl_create (w_statefulSets K) sts1)))))"

section \<open>The replica lock\<close>

record signer_lock =
  sl_Replicas :: int
  sl_StorageSize :: "quantity option"
  sl_StorageClass :: "string option"
  sl_FoundReplicas :: bool
  sl_FoundStorage :: bool

definition noLock :: signer_lock where
  "noLock = \<lparr>sl_Replicas = 0, sl_StorageSize = None, sl_StorageClass = None, sl_FoundReplicas = False, sl_FoundStorage = False\<rparr>"

definition ownedStatefulSetDataPVCOrdinal :: "PersistentVolumeClaim \<Rightarrow> uid \<Rightarrow> string \<Rightarrow> int option" where
  "ownedStatefulSetDataPVCOrdinal pvc ownerUID name =
     (if label (m_Labels (pvc_Meta pvc)) labelOwnerUID \<noteq> ownerUID then None
      else statefulSetDataPVCOrdinal (m_Name (pvc_Meta pvc)) name)"

definition ReadSignerLock :: "'s cluster_api \<Rightarrow> owner_object \<Rightarrow> string \<Rightarrow> string \<Rightarrow> ('s, CleanupError, signer_lock) prog" where
  "ReadSignerLock K ow ns name =
     getSts K ns name
       (\<lambda>sts. if \<not> IsControlledBy (sts_Meta sts) ow then ret noLock
               else let replicas = deref 1 (sts_Replicas sts) in
                 if replicas = 0 then fail (Refused ''quiesced'' name)
                 else ret (case find (\<lambda>t. m_Name (pvc_Meta t) = dataVolumeName) (sts_ClaimTemplates sts) of
                       None \<Rightarrow> noLock\<lparr>sl_Replicas := replicas, sl_FoundReplicas := True\<rparr>
                     | Some t \<Rightarrow> \<lparr>sl_Replicas = replicas, sl_StorageSize = pvc_Storage t,
                                  sl_StorageClass = pvc_StorageClass t, sl_FoundReplicas = True, sl_FoundStorage = True\<rparr>))
       (seq (call CleanupApi (cl_list (w_claims K) ns))
          (\<lambda>pvcs. case find (\<lambda>pvc. ownedStatefulSetDataPVCOrdinal pvc (owner_uid ow) name \<noteq> None \<or>
                                 isAmbiguousLegacyDataPVC pvc name) pvcs of
                     Some pvc \<Rightarrow> fail (Refused ''orphaned claim'' (m_Name (pvc_Meta pvc)))
                   | None \<Rightarrow> ret noLock))"

end
