(* ===== verification/Signer_Cleanup.thy ===== *)
theory Signer_Cleanup
  imports Signer_Workload
begin

text \<open>
  Removing the signers of a deleted root: \<open>src/internal/cosmosigner/cleanup.go\<close>. \<open>FinalizeOwner\<close> attributes the
  claims of the root, stops key jobs and signers (\<open>QuiesceOwner\<close>) and then applies the policy for signer state.
  \<open>QuiesceOwnerForNamespaceTermination\<close> and \<open>ReleaseOwnerStateFinalizers\<close> are the path of a namespace that is
  going away. \<open>ProtectRetainedStatePVCs\<close> puts the deletion guard on the claims of live signers.
\<close>

section \<open>Which StatefulSets and claims belong to an owner\<close>

definition ownerClaimTemplate :: "StatefulSet \<Rightarrow> uid \<Rightarrow> PersistentVolumeClaim \<Rightarrow> bool" where
  "ownerClaimTemplate sts ownerUID claim \<longleftrightarrow>
     label (m_Labels (pvc_Meta claim)) labelAppName = appNameCosmosigner \<and>
     label (m_Labels (pvc_Meta claim)) labelInstance = m_Name (sts_Meta sts) \<and>
     label (m_Labels (pvc_Meta claim)) labelOwnerUID = ownerUID"

definition IsOwnedSignerStatefulSet :: "StatefulSet \<Rightarrow> owner_object \<Rightarrow> bool" where
  "IsOwnedSignerStatefulSet sts ow \<longleftrightarrow> IsControlledBy (sts_Meta sts) ow \<and>
     ((label (sts_TemplateLabels sts) labelAppName = appNameCosmosigner \<and>
       label (sts_TemplateLabels sts) labelInstance = m_Name (sts_Meta sts)) \<or>
      list_ex (\<lambda>claim. m_Name (pvc_Meta claim) = dataVolumeName \<and> ownerClaimTemplate sts (owner_uid ow) claim)
        (sts_ClaimTemplates sts))"

definition statefulSetPVCTemplateReadyForCleanup :: "StatefulSet \<Rightarrow> RootOwner \<Rightarrow> bool" where
  "statefulSetPVCTemplateReadyForCleanup sts root =
     (case find (\<lambda>claim. m_Name (pvc_Meta claim) = dataVolumeName) (sts_ClaimTemplates sts) of
        None \<Rightarrow> False
      | Some claim \<Rightarrow> ContainsFinalizer (pvc_Meta claim) RetainedStateFinalizer \<and>
                      IsAttributed (pvc_Meta claim) root ClassCosmosignerState)"

definition isAttributedSignerStatefulSet :: "StatefulSet \<Rightarrow> owner_object \<Rightarrow> bool" where
  "isAttributedSignerStatefulSet sts ow =
     list_ex (\<lambda>claim. m_Name (pvc_Meta claim) = dataVolumeName \<and>
         (ownerClaimTemplate sts (owner_uid ow) claim \<or>
          IsAttributed (pvc_Meta claim) (RootOwnerFor ow) ClassCosmosignerState)) (sts_ClaimTemplates sts)"

text \<open>The stable attribution of a state claim, with the owner that generated it.\<close>

definition attributedState :: "owner_object \<Rightarrow> PersistentVolumeClaim \<Rightarrow> bool" where
  "attributedState ow pvc \<longleftrightarrow> IsAttributed (pvc_Meta pvc) (RootOwnerFor ow) ClassCosmosignerState \<and>
     label (m_Annotations (pvc_Meta pvc)) AnnotationResourceOwnerUID = owner_uid ow"

definition ownerLabelled :: "owner_object \<Rightarrow> PersistentVolumeClaim \<Rightarrow> bool" where
  "ownerLabelled ow pvc \<longleftrightarrow> label (m_Labels (pvc_Meta pvc)) labelOwnerUID = owner_uid ow"

section \<open>Protection of live claims\<close>

definition protectClaim ::
    "'s cluster_api \<Rightarrow> owner_object \<Rightarrow> PersistentVolumeClaim \<Rightarrow> bool \<Rightarrow> ('s, CleanupError, (bool, bool) ctl) prog" where
  "protectClaim K ow pvc changed =
     (if label (m_Labels (pvc_Meta pvc)) labelAppName \<noteq> appNameCosmosigner \<or> \<not> ownerLabelled ow pvc \<or>
         \<not> isStatefulSetDataPVC (m_Name (pvc_Meta pvc)) (label (m_Labels (pvc_Meta pvc)) labelInstance) \<or>
         m_DeletionTimestamp (pvc_Meta pvc) \<noteq> None
      then ret (Next changed)
      else case Stamp (pvc_Meta pvc) (RootOwnerFor ow) ClassCosmosignerState of (m1, c1) \<Rightarrow>
           case PrepareGeneratedResource m1 ow ClassCosmosignerState False of (m2, managed, c2) \<Rightarrow>
             let guard = pvc_Bound pvc \<and> pvc_VolumeName pvc \<noteq> [] \<and> \<not> ContainsFinalizer m2 RetainedStateFinalizer;
                 m3 = (if guard then AddFinalizer m2 RetainedStateFinalizer else m2)
             in if c1 \<or> c2 \<or> guard
                then seq (call CleanupApi (cl_update (w_claims K) (pvc\<lparr>pvc_Meta := m3\<rparr>))) (\<lambda>_. ret (Next True))
                else ret (Next changed))"

definition ProtectRetainedStatePVCs :: "'s cluster_api \<Rightarrow> owner_object \<Rightarrow> string \<Rightarrow> ('s, CleanupError, bool) prog" where
  "ProtectRetainedStatePVCs K ow ns =
     seq (call CleanupApi (cl_list (w_claims K) ns)) (\<lambda>pvcs.
     loopThen (forEach (protectClaim K ow) pvcs False) (\<lambda>changed.
     seq (call CleanupApi (cl_list (w_statefulSets K) ns)) (\<lambda>stss.
     case find (\<lambda>sts. IsOwnedSignerStatefulSet sts ow \<and> \<not> statefulSetPVCTemplateReadyForCleanup sts (RootOwnerFor ow)) stss of
       None \<Rightarrow> ret changed
     | Some sts \<Rightarrow> seq (DeleteStatefulSet K ow ns (m_Name (sts_Meta sts))) (\<lambda>_. ret True))))"

definition HasOwnedSignerState :: "'s cluster_api \<Rightarrow> owner_object \<Rightarrow> string \<Rightarrow> ('s, CleanupError, bool) prog" where
  "HasOwnedSignerState K ow ns =
     seq (call CleanupApi (cl_list (w_statefulSets K) ns)) (\<lambda>stss.
     if list_ex (\<lambda>sts. IsOwnedSignerStatefulSet sts ow) stss then ret True
     else seq (call CleanupApi (cl_list (w_claims K) ns)) (\<lambda>pvcs.
       ret (list_ex (\<lambda>pvc. label (m_Labels (pvc_Meta pvc)) labelAppName = appNameCosmosigner \<and> ownerLabelled ow pvc) pvcs)))"

section \<open>Key jobs\<close>

definition signerNamesAttributedToOwner :: "'s cluster_api \<Rightarrow> owner_object \<Rightarrow> string \<Rightarrow> ('s, CleanupError, string list) prog" where
  "signerNamesAttributedToOwner K ow ns =
     seq (call CleanupApi (cl_list (w_statefulSets K) ns)) (\<lambda>stss.
     seq (call CleanupApi (cl_list (w_claims K) ns)) (\<lambda>pvcs.
     ret (map (\<lambda>sts. m_Name (sts_Meta sts))
            (filter (\<lambda>sts. IsOwnedSignerStatefulSet sts ow \<or> isAttributedSignerStatefulSet sts ow) stss) @
          List.map_filter (\<lambda>pvc. if \<not> ownerLabelled ow pvc \<and> \<not> attributedState ow pvc then None
                                 else statefulSetNameFromDataPVC (m_Name (pvc_Meta pvc))) pvcs)))"

text \<open>Delete a pod unless it is terminating, and look whether it is gone.\<close>

definition deletePodExact :: "'s cluster_api \<Rightarrow> Pod \<Rightarrow> ('s, CleanupError, bool) prog" where
  "deletePodExact K pod =
     seq (if m_DeletionTimestamp (pod_Meta pod) = None
          then quietly (tolerate NotFound CleanupApi (cl_delete (w_pods K) pod (Some (m_UID (pod_Meta pod)))))
          else ret ())
       (\<lambda>_. get_or CleanupApi (cl_get (w_pods K) (m_Namespace (pod_Meta pod)) (m_Name (pod_Meta pod))) (\<lambda>_. ret False) (ret True))"

definition deleteOwnedKeyJobPods :: "'s cluster_api \<Rightarrow> owner_object \<Rightarrow> string \<Rightarrow> ('s, CleanupError, bool) prog" where
  "deleteOwnedKeyJobPods K ow ns =
     seq (signerNamesAttributedToOwner K ow ns) (\<lambda>expected.
     seq (call CleanupApi (cl_list (w_pods K) ns)) (\<lambda>pods.
     loopThen (forEach (\<lambda>pod allDone.
         case keyJobSignerName (m_Name (pod_Meta pod)) of
           None \<Rightarrow> ret (Next allDone)
         | Some signerName \<Rightarrow>
             if \<not> IsControlledBy (pod_Meta pod) ow
             then (if signerName \<notin> set expected then ret (Next allDone)
                   else fail (Refused ''key-job pod'' (m_Name (pod_Meta pod))))
             else seq (deletePodExact K pod) (\<lambda>gone. ret (Next (allDone \<and> gone)))) pods True) ret))"

section \<open>Quiescing\<close>

definition quiesceSts ::
    "'s cluster_api \<Rightarrow> owner_object \<Rightarrow> string \<Rightarrow> StatefulSet \<Rightarrow> unit \<Rightarrow> ('s, CleanupError, (bool, unit) ctl) prog" where
  "quiesceSts K ow ns sts u =
     (if \<not> IsOwnedSignerStatefulSet sts ow
      then (if isAttributedSignerStatefulSet sts ow then fail (Refused ''attributed StatefulSet'' (m_Name (sts_Meta sts)))
            else ret (Next ()))
      else if m_DeletionTimestamp (sts_Meta sts) \<noteq> None then ret (Return False)
      else seq (DeleteStatefulSet K ow ns (m_Name (sts_Meta sts)))
             (\<lambda>deleted. if \<not> deleted then ret (Return False) else ret (Next ())))"

definition QuiesceOwner :: "'s cluster_api \<Rightarrow> owner_object \<Rightarrow> string \<Rightarrow> ('s, CleanupError, bool) prog" where
  "QuiesceOwner K ow ns =
     whenDone (deleteOwnedKeyJobPods K ow ns)
       (seq (call CleanupApi (cl_list (w_statefulSets K) ns)) (\<lambda>stss.
        loopThen (forEach (quiesceSts K ow ns) stss ()) (\<lambda>_. ret True)))"

section \<open>Signer state\<close>

text \<open>One claim of \<open>FinalizeState\<close>: a claim of the owner needs its signer's pods gone.\<close>

definition checkStateClaim ::
    "'s cluster_api \<Rightarrow> owner_object \<Rightarrow> string \<Rightarrow> PersistentVolumeClaim \<Rightarrow> unit \<Rightarrow> ('s, CleanupError, (bool, unit) ctl) prog" where
  "checkStateClaim K ow ns pvc u =
     (let inst = label (m_Labels (pvc_Meta pvc)) labelInstance;
          labelOwned = (ownerLabelled ow pvc \<and> isStatefulSetDataPVC (m_Name (pvc_Meta pvc)) inst);
          check = (\<lambda>name. seq (SignerPodsGone K ns name) (\<lambda>gone. if \<not> gone then ret (Return False) else ret (Next ())))
      in if \<not> labelOwned \<and> \<not> attributedState ow pvc then ret (Next ())
         else if labelOwned then check inst
         else (case statefulSetNameFromDataPVC (m_Name (pvc_Meta pvc)) of
                 None \<Rightarrow> fail (Refused ''invalid claim name'' (m_Name (pvc_Meta pvc)))
               | Some name \<Rightarrow> check name))"

definition FinalizeState ::
    "'s cluster_api \<Rightarrow> owner_object \<Rightarrow> string \<Rightarrow> DeletionPolicyType \<Rightarrow> ('s, CleanupError, bool) prog" where
  "FinalizeState K ow ns policy =
     seq (call CleanupApi (cl_list (w_claims K) ns)) (\<lambda>pvcs.
     loopThen (forEach (checkStateClaim K ow ns) pvcs ())
       (\<lambda>_. FinalizeClass K (RootOwnerFor ow) ClassCosmosignerState policy (owner_uid ow) [RetainedStateFinalizer]))"

definition attributeClaim ::
    "'s cluster_api \<Rightarrow> owner_object \<Rightarrow> PersistentVolumeClaim \<Rightarrow> bool \<Rightarrow> ('s, CleanupError, (bool, bool) ctl) prog" where
  "attributeClaim K ow pvc changed =
     (if \<not> ownerLabelled ow pvc \<or> statefulSetNameFromDataPVC (m_Name (pvc_Meta pvc)) = None then ret (Next changed)
      else case Stamp (pvc_Meta pvc) (RootOwnerFor ow) ClassCosmosignerState of (m1, c1) \<Rightarrow>
           case StampResourceOwner m1 (owner_uid ow) of (m2, c2) \<Rightarrow>
             if c1 \<or> c2
             then seq (tolerate NotFound CleanupApi (cl_update (w_claims K) (pvc\<lparr>pvc_Meta := m2\<rparr>)))
                    (\<lambda>r. ret (Next (changed \<or> r \<noteq> None)))
             else ret (Next changed))"

definition attributeOwnedStatePVCs :: "'s cluster_api \<Rightarrow> owner_object \<Rightarrow> string \<Rightarrow> ('s, CleanupError, bool) prog" where
  "attributeOwnedStatePVCs K ow ns =
     seq (call CleanupApi (cl_list (w_claims K) ns))
       (\<lambda>pvcs. loopThen (forEach (attributeClaim K ow) pvcs False) ret)"

definition FinalizeOwner ::
    "'s cluster_api \<Rightarrow> owner_object \<Rightarrow> string \<Rightarrow> DeletionPolicyType \<Rightarrow> ('s, CleanupError, bool) prog" where
  "FinalizeOwner K ow ns policy =
     seq (attributeOwnedStatePVCs K ow ns)
       (\<lambda>attributed. if attributed then ret False
                      else whenDone (QuiesceOwner K ow ns) (FinalizeState K ow ns policy))"

section \<open>A namespace that is going away\<close>

text \<open>The names of the owner's signers with the UIDs of their StatefulSets (empty when only a claim names the
  signer), and the claims of the owner.\<close>

definition terminationNames :: "owner_object \<Rightarrow> StatefulSet list \<Rightarrow> PersistentVolumeClaim list \<Rightarrow> (string \<times> uid) list" where
  "terminationNames ow stss pvcs =
     (let live = map (\<lambda>sts. (m_Name (sts_Meta sts), m_UID (sts_Meta sts))) (filter (\<lambda>sts. IsOwnedSignerStatefulSet sts ow) stss)
      in fold (\<lambda>pvc names.
            if \<not> ownerLabelled ow pvc \<and> \<not> attributedState ow pvc then names
            else let name = deref (label (m_Labels (pvc_Meta pvc)) labelInstance) (statefulSetNameFromDataPVC (m_Name (pvc_Meta pvc)))
                 in if isStatefulSetDataPVC (m_Name (pvc_Meta pvc)) name \<and> map_of names name = None
                    then names @ [(name, [])] else names) pvcs (rev live))"

definition terminationClaims :: "owner_object \<Rightarrow> PersistentVolumeClaim list \<Rightarrow> string list" where
  "terminationClaims ow pvcs =
     map (\<lambda>pvc. m_Name (pvc_Meta pvc)) (filter (\<lambda>pvc.
         (ownerLabelled ow pvc \<or> attributedState ow pvc) \<and>
         isStatefulSetDataPVC (m_Name (pvc_Meta pvc))
           (deref (label (m_Labels (pvc_Meta pvc)) labelInstance) (statefulSetNameFromDataPVC (m_Name (pvc_Meta pvc))))) pvcs)"

definition podMountsAnyClaim :: "Pod \<Rightarrow> string list \<Rightarrow> bool" where
  "podMountsAnyClaim pod claims = list_ex (\<lambda>claim. claim \<in> set claims) (pod_Claims pod)"

text \<open>The signer a pod belongs to: (instance, UID of the StatefulSet, matched by its name only). A pod name has at
  most one reading as a replica name, so the order in which the map of names is searched does not matter.\<close>

definition podInstance :: "(string \<times> uid) list \<Rightarrow> Pod \<Rightarrow> (string \<times> uid \<times> bool) option" where
  "podInstance names pod =
     (let inst = label (m_Labels (pod_Meta pod)) labelInstance in
      case map_of names inst of
        Some u \<Rightarrow> Some (inst, u, False)
      | None \<Rightarrow> (case find (\<lambda>(name, u). isStatefulSetReplicaPodName (m_Name (pod_Meta pod)) name) names of
                   None \<Rightarrow> None
                 | Some (name, u) \<Rightarrow> Some (name, deref u (map_of names name), True)))"

definition controlledByStatefulSet :: "Pod \<Rightarrow> string \<Rightarrow> bool" where
  "controlledByStatefulSet pod name =
     (case GetControllerOf (pod_Meta pod) of None \<Rightarrow> False | Some c \<Rightarrow> or_Kind c = ''StatefulSet'' \<and> or_Name c = name)"

definition terminatePod ::
    "'s cluster_api \<Rightarrow> (string \<times> uid) list \<Rightarrow> string list \<Rightarrow> Pod \<Rightarrow> bool \<Rightarrow> ('s, CleanupError, (bool, bool) ctl) prog" where
  "terminatePod K names claims pod allGone =
     (case podInstance names pod of
        None \<Rightarrow> ret (Next allGone)
      | Some (inst, stsUID, matchedByName) \<Rightarrow>
          if label (m_Labels (pod_Meta pod)) labelAppName \<noteq> appNameCosmosigner \<and>
             \<not> isStatefulSetReplicaPodName (m_Name (pod_Meta pod)) inst
          then ret (Next allGone)
          else if matchedByName \<and> stsUID = [] \<and> \<not> controlledByStatefulSet pod inst
          then ret (Next (if podMountsAnyClaim pod claims then False else allGone))
          else if stsUID = [] \<or> \<not> controlledByStatefulSet pod inst \<or> \<not> controlledByUID (pod_Meta pod) stsUID
          then ret (Next False)
          else seq (deletePodExact K pod) (\<lambda>gone. ret (Next (allGone \<and> gone))))"

definition terminateSts ::
    "'s cluster_api \<Rightarrow> owner_object \<Rightarrow> StatefulSet \<Rightarrow> bool \<Rightarrow> ('s, CleanupError, (bool, bool) ctl) prog" where
  "terminateSts K ow sts allGone =
     (if \<not> IsOwnedSignerStatefulSet sts ow then ret (Next allGone)
      else seq (if m_DeletionTimestamp (sts_Meta sts) = None
                then quietly (tolerate NotFound CleanupApi (cl_delete (w_statefulSets K) sts (Some (m_UID (sts_Meta sts)))))
                else ret ())
             (\<lambda>_. getSts K (m_Namespace (sts_Meta sts)) (m_Name (sts_Meta sts)) (\<lambda>_. ret (Next False)) (ret (Next allGone))))"

definition QuiesceOwnerForNamespaceTermination ::
    "'s cluster_api \<Rightarrow> owner_object \<Rightarrow> string \<Rightarrow> ('s, CleanupError, bool) prog" where
  "QuiesceOwnerForNamespaceTermination K ow ns =
     whenDone (deleteOwnedKeyJobPods K ow ns)
       (seq (call CleanupApi (cl_list (w_statefulSets K) ns)) (\<lambda>stss.
        seq (call CleanupApi (cl_list (w_claims K) ns)) (\<lambda>pvcs.
        seq (call CleanupApi (cl_list (w_pods K) ns)) (\<lambda>pods.
        loopThen (forEach (terminatePod K (terminationNames ow stss pvcs) (terminationClaims ow pvcs)) pods True)
          (\<lambda>allGone. if \<not> allGone then ret False
                      else loopThen (forEach (terminateSts K ow) stss True) ret)))))"

definition ReleaseOwnerStateFinalizers :: "'s cluster_api \<Rightarrow> owner_object \<Rightarrow> string \<Rightarrow> ('s, CleanupError, unit) prog" where
  "ReleaseOwnerStateFinalizers K ow ns =
     seq (call CleanupApi (cl_list (w_claims K) ns)) (\<lambda>pvcs.
     loopThen (forEach (\<lambda>pvc u.
         let inst = label (m_Labels (pvc_Meta pvc)) labelInstance;
             labelOwned = (ownerLabelled ow pvc \<and>
               (isStatefulSetDataPVC (m_Name (pvc_Meta pvc)) inst \<or> statefulSetNameFromDataPVC (m_Name (pvc_Meta pvc)) \<noteq> None))
         in if (\<not> labelOwned \<and> \<not> attributedState ow pvc) \<or> \<not> ContainsFinalizer (pvc_Meta pvc) RetainedStateFinalizer
            then ret (Next ())
            else seq (tolerate NotFound CleanupApi
                   (cl_update (w_claims K) (pvc\<lparr>pvc_Meta := RemoveFinalizer (pvc_Meta pvc) RetainedStateFinalizer\<rparr>)))
                 (\<lambda>_. ret (Next ()))) pvcs ()) ret)"

end
