(* ===== verification/Signing_Paths.thy ===== *)
theory Signing_Paths
  imports Signer_Cleanup
begin

text \<open>
  The signing paths of a root: \<open>FinalizeConsensusKeySigningPaths\<close>, \<open>CleanupManagedSigningPath\<close> and the owner
  finalizer of \<open>src/internal/cosmosigner/reservation_lifecycle.go\<close>. Before the reservations of a root are released,
  its signers, key jobs and pods are deleted and seen to be absent. \<open>R\<close> is the uncached reader, \<open>K\<close> the client.
\<close>

section \<open>Exact names\<close>

text \<open>\<open>ManagedSigningPathCleanupResult\<close>: complete, waiting for an object, or blocked by one that is not ours.\<close>

datatype path_result = PathDone | PathWaiting string | PathBlocked string

definition ReservationOwnerFinalizer :: string where
  "ReservationOwnerFinalizer = ''cosmopilot.voluzi.com/consensus-key-reservation-cleanup''"

record ManagedSigningPath =
  mp_StatefulSetNames :: "string list"
  mp_OneShotNames :: "string list"
  mp_PodNames :: "string list"

definition managedSigningJobPodsGone :: "'s cluster_api \<Rightarrow> string \<Rightarrow> string \<Rightarrow> ('s, CleanupError, path_result) prog" where
  "managedSigningJobPodsGone R ns name =
     seq (call CleanupApi (cl_list (w_pods R) ns)) (\<lambda>pods.
       case find (\<lambda>pod. HasPrefix (m_Name (pod_Meta pod)) (name @ ''-'')) pods of
         None \<Rightarrow> ret PathDone
       | Some pod \<Rightarrow> ret (PathWaiting (m_Name (pod_Meta pod))))"

text \<open>A pod named like the pods of the job but not controlled by it.\<close>

definition foreignJobPod :: "Job \<Rightarrow> string \<Rightarrow> Pod \<Rightarrow> bool" where
  "foreignJobPod job name pod \<longleftrightarrow> HasPrefix (m_Name (pod_Meta pod)) (name @ ''-'') \<and>
     (case GetControllerOf (pod_Meta pod) of
        None \<Rightarrow> True
      | Some c \<Rightarrow> or_Kind c \<noteq> ''Job'' \<or> or_Name c \<noteq> m_Name (job_Meta job) \<or> or_UID c \<noteq> m_UID (job_Meta job))"

definition cleanupManagedSigningJob ::
    "'s cluster_api \<Rightarrow> 's cluster_api \<Rightarrow> owner_object \<Rightarrow> string \<Rightarrow> string \<Rightarrow> ('s, CleanupError, path_result) prog" where
  "cleanupManagedSigningJob R K ow ns name =
     get_or CleanupApi (cl_get (w_jobs R) ns name)
       (\<lambda>job. if \<not> IsControlledBy (job_Meta job) ow then ret (PathBlocked name)
               else if m_UID (job_Meta job) = [] then fail (Refused ''delete without UID'' name)
               else seq (call CleanupApi (cl_list (w_pods R) ns)) (\<lambda>pods.
                 case find (foreignJobPod job name) pods of
                   Some pod \<Rightarrow> ret (PathBlocked (m_Name (pod_Meta pod)))
                 | None \<Rightarrow>
                     seq (if m_DeletionTimestamp (job_Meta job) = None
                          then quietly (tolerate NotFound CleanupApi (cl_delete (w_jobs K) job (Some (m_UID (job_Meta job)))))
                          else ret ())
                       (\<lambda>_. get_or CleanupApi (cl_get (w_jobs R) ns name) (\<lambda>_. ret (PathWaiting name))
                              (managedSigningJobPodsGone R ns name))))
       (managedSigningJobPodsGone R ns name)"

definition cleanupDirectOwnedPod ::
    "'s cluster_api \<Rightarrow> 's cluster_api \<Rightarrow> owner_object \<Rightarrow> string \<Rightarrow> string \<Rightarrow> ('s, CleanupError, path_result) prog" where
  "cleanupDirectOwnedPod R K ow ns name =
     get_or CleanupApi (cl_get (w_pods R) ns name)
       (\<lambda>pod. if \<not> IsControlledBy (pod_Meta pod) ow then ret (PathBlocked name)
               else if m_UID (pod_Meta pod) = [] then fail (Refused ''delete without UID'' name)
               else seq (if m_DeletionTimestamp (pod_Meta pod) = None
                         then quietly (tolerate NotFound CleanupApi (cl_delete (w_pods K) pod (Some (m_UID (pod_Meta pod)))))
                         else ret ())
                      (\<lambda>_. get_or CleanupApi (cl_get (w_pods R) ns name) (\<lambda>_. ret (PathWaiting name)) (ret PathDone)))
       (ret PathDone)"

text \<open>Run the next part of a cleanup once this part is done.\<close>

definition onDone :: "('s, CleanupError, path_result) prog \<Rightarrow> ('s, CleanupError, (path_result, unit) ctl) prog" where
  "onDone m = seq m (\<lambda>r. case r of PathDone \<Rightarrow> ret (Next ()) | _ \<Rightarrow> ret (Return r))"

definition cleanupSigner ::
    "'s cluster_api \<Rightarrow> 's cluster_api \<Rightarrow> owner_object \<Rightarrow> string \<Rightarrow> string \<Rightarrow> ('s, CleanupError, path_result) prog" where
  "cleanupSigner R K ow ns name =
     (let podsGone = seq (SignerPodsGone R ns name) (\<lambda>gone. ret (if gone then PathDone else PathWaiting name)) in
      getSts R ns name
        (\<lambda>sts. if \<not> IsControlledBy (sts_Meta sts) ow then ret (PathBlocked name)
                else if m_DeletionTimestamp (sts_Meta sts) \<noteq> None then ret (PathWaiting name)
                else seq (DeleteStatefulSet K ow ns name) (\<lambda>deleted.
                  if \<not> deleted then ret (PathWaiting name)
                  else getSts R ns name (\<lambda>_. ret (PathWaiting name)) podsGone))
        podsGone)"

definition CleanupManagedSigningPath ::
    "'s cluster_api \<Rightarrow> 's cluster_api \<Rightarrow> owner_object \<Rightarrow> string \<Rightarrow> ManagedSigningPath
      \<Rightarrow> ('s, CleanupError, path_result) prog" where
  "CleanupManagedSigningPath R K ow ns path =
     loopThen (forEach (\<lambda>name u. onDone (cleanupSigner R K ow ns name)) (sortedUnique (mp_StatefulSetNames path)) ()) (\<lambda>_.
     loopThen (forEach (\<lambda>name u.
         seq (onDone (cleanupManagedSigningJob R K ow ns name)) (\<lambda>c.
           case c of Return r \<Rightarrow> ret (Return r) | Next _ \<Rightarrow> onDone (cleanupDirectOwnedPod R K ow ns name)))
       (sortedUnique (mp_OneShotNames path)) ()) (\<lambda>_.
     loopThen (forEach (\<lambda>name u. onDone (cleanupDirectOwnedPod R K ow ns name)) (sortedUnique (mp_PodNames path)) ())
       (\<lambda>_. ret PathDone)))"

section \<open>All paths of a root\<close>

definition childUIDs :: "owner_object \<Rightarrow> ChainNode list \<Rightarrow> uid list" where
  "childUIDs ow children =
     map cn_uid (filter (\<lambda>c. IsControlledBy (cn_Meta c) ow \<and> cn_uid c \<noteq> []) children)"

text \<open>One StatefulSet; the names of the signers found so far are the variable of the loop.\<close>

definition finalizeSignerSts ::
    "'s cluster_api \<Rightarrow> 's cluster_api \<Rightarrow> owner_object \<Rightarrow> string \<Rightarrow> StatefulSet \<Rightarrow> string list
      \<Rightarrow> ('s, CleanupError, (bool, string list) ctl) prog" where
  "finalizeSignerSts R K ow ns sts names =
     (if \<not> IsOwnedSignerStatefulSet sts ow \<and> \<not> IsOwnedDeterministicSignerStatefulSet sts ow then ret (Next names)
      else if m_DeletionTimestamp (sts_Meta sts) \<noteq> None then ret (Return False)
      else seq (DeleteStatefulSet K ow ns (m_Name (sts_Meta sts))) (\<lambda>deleted.
        if \<not> deleted then ret (Return False)
        else getSts R (m_Namespace (sts_Meta sts)) (m_Name (sts_Meta sts)) (\<lambda>_. ret (Return False))
          (seq (SignerPodsGone R ns (m_Name (sts_Meta sts))) (\<lambda>gone.
             if \<not> gone then ret (Return False) else ret (Next (names @ [m_Name (sts_Meta sts)]))))))"

text \<open>One job: (UIDs of the jobs of children, names of one-shot workloads).\<close>

definition classifyJob ::
    "owner_object \<Rightarrow> uid list \<Rightarrow> Job \<Rightarrow> uid list \<times> string list
      \<Rightarrow> ('s, CleanupError, (bool, uid list \<times> string list) ctl) prog" where
  "classifyJob ow children job acc =
     (case acc of (jobUIDs, oneShots) \<Rightarrow>
        if controlledByAnyUID (job_Meta job) (set children)
        then ret (Next (if m_UID (job_Meta job) \<noteq> [] then jobUIDs @ [m_UID (job_Meta job)] else jobUIDs, oneShots))
        else if \<not> managedSigningOneShotBelongsToRoot (m_Name (job_Meta job)) (m_Labels (job_Meta job)) ow
        then ret (Next (jobUIDs, oneShots))
        else if \<not> IsControlledBy (job_Meta job) ow then fail (Refused ''Job'' (m_Name (job_Meta job)))
        else ret (Next (jobUIDs, oneShots @ [m_Name (job_Meta job)])))"

text \<open>One pod: (names of one-shot workloads, names of pods).\<close>

definition classifyPod ::
    "owner_object \<Rightarrow> uid set \<Rightarrow> Pod \<Rightarrow> string list \<times> string list \<Rightarrow> string list \<times> string list" where
  "classifyPod ow ofChildren pod acc =
     (let (oneShots, podNames) = acc; name = m_Name (pod_Meta pod); ls = m_Labels (pod_Meta pod);
          jobName = managedSigningOneShotPodJobName name
      in if controlledByAnyUID (pod_Meta pod) ofChildren then acc
         else if (\<exists>j \<in> set_option jobName. managedSigningOneShotBelongsToRoot j ls ow) then (oneShots @ [the jobName], podNames)
         else if managedSigningOneShotBelongsToRoot name ls ow then (oneShots @ [name], podNames)
         else if \<not> IsControlledBy (pod_Meta pod) ow then acc
         else if isManagedSigningOneShotName name then (oneShots @ [name], podNames)
         else if signerPodBelongsToRoot pod ow then (oneShots, podNames @ [name])
         else acc)"

definition signingPodLeft :: "owner_object \<Rightarrow> uid set \<Rightarrow> string list \<Rightarrow> Pod \<Rightarrow> bool" where
  "signingPodLeft ow ofChildren names pod \<longleftrightarrow> \<not> controlledByAnyUID (pod_Meta pod) ofChildren \<and>
     (signerPodBelongsToRoot pod ow \<or> podMatchesSignerNames pod names)"

definition FinalizeConsensusKeySigningPaths ::
    "'s cluster_api \<Rightarrow> 's cluster_api \<Rightarrow> owner_object \<Rightarrow> string \<Rightarrow> ('s, CleanupError, bool) prog" where
  "FinalizeConsensusKeySigningPaths R K ow ns =
     seq (case ow of OwnerSet _ \<Rightarrow> seq (call CleanupApi (cl_list (w_nodes R) ns)) (\<lambda>children. ret (childUIDs ow children))
                   | _ \<Rightarrow> ret []) (\<lambda>children.
     seq (call CleanupApi (cl_list (w_statefulSets R) ns)) (\<lambda>stss.
     loopThen (forEach (finalizeSignerSts R K ow ns) stss (reservationOwnerSignerNames ow)) (\<lambda>signerNames.
     seq (call CleanupApi (cl_list (w_jobs R) ns)) (\<lambda>jobs.
     loopThen (forEach (classifyJob ow children) jobs ([], [])) (\<lambda>(jobUIDs, jobNames).
     seq (call CleanupApi (cl_list (w_pods R) ns)) (\<lambda>ownedPods.
     let ofChildren = set children \<union> set jobUIDs;
         (oneShots, podNames) = fold (classifyPod ow ofChildren) ownedPods (jobNames, [])
     in seq (CleanupManagedSigningPath R K ow ns
               \<lparr>mp_StatefulSetNames = signerNames, mp_OneShotNames = oneShots, mp_PodNames = podNames\<rparr>) (\<lambda>result.
        case result of
          PathBlocked name \<Rightarrow> fail (Refused ''blocked'' name)
        | PathWaiting _ \<Rightarrow> ret False
        | PathDone \<Rightarrow>
            seq (call CleanupApi (cl_list (w_pods R) ns)) (\<lambda>pods.
              ret (\<not> list_ex (signingPodLeft ow ofChildren signerNames) pods)))))))))"

section \<open>The owner finalizer\<close>

text \<open>\<open>replaceReservationOwnerWithFreshCopy\<close> is the owner in the result; the boolean says whether it was written. The
  callers pass a ChainNode or a ChainNodeSet; any other object fails at once.\<close>

definition checkFreshOwner :: "owner_object \<Rightarrow> owner_object \<Rightarrow> CleanupError option" where
  "checkFreshOwner ow fresh =
     (if owner_uid fresh \<noteq> owner_uid ow then Some (Refused ''changed UID'' (owner_name ow))
      else if m_DeletionTimestamp (owner_meta fresh) \<noteq> None then Some (Refused ''already terminating'' (owner_name ow))
      else None)"

fun withOwnerMeta :: "ObjectMeta \<Rightarrow> owner_object \<Rightarrow> owner_object" where
  "withOwnerMeta m (OwnerNode n) = OwnerNode (n\<lparr>cn_Meta := m\<rparr>)"
| "withOwnerMeta m (OwnerSet x) = OwnerSet (x\<lparr>ns_Meta := m\<rparr>)"
| "withOwnerMeta m (OwnerOther _) = OwnerOther m"

fun getOwner :: "'s cluster_api \<Rightarrow> owner_object \<Rightarrow> ('s, CleanupError, owner_object) prog" where
  "getOwner R (OwnerNode n) =
     seq (call CleanupApi (cl_get (w_nodes R) (m_Namespace (cn_Meta n)) (cn_name n))) (\<lambda>x. ret (OwnerNode x))"
| "getOwner R (OwnerSet x) =
     seq (call CleanupApi (cl_get (w_nodeSets R) (m_Namespace (ns_Meta x)) (ns_name x))) (\<lambda>y. ret (OwnerSet y))"
| "getOwner R (OwnerOther m) = fail (Refused ''unsupported owner'' (m_Name m))"

fun patchOwner :: "'s cluster_api \<Rightarrow> owner_object \<Rightarrow> owner_object \<Rightarrow> ('s, CleanupError, unit) prog" where
  "patchOwner K (OwnerNode base) (OwnerNode n) = quietly (call CleanupApi (cl_patch (w_nodes K) base n))"
| "patchOwner K (OwnerSet base) (OwnerSet x) = quietly (call CleanupApi (cl_patch (w_nodeSets K) base x))"
| "patchOwner K base ow = fail (Refused ''unsupported owner'' (owner_name ow))"

definition EnsureConsensusKeyReservationOwnerFinalizer ::
    "'s cluster_api \<Rightarrow> 's cluster_api \<Rightarrow> owner_object \<Rightarrow> ('s, CleanupError, owner_object \<times> bool) prog" where
  "EnsureConsensusKeyReservationOwnerFinalizer R K ow =
     (if owner_uid ow = [] then fail (Refused ''no UID'' (owner_name ow))
      else seq (getOwner R ow) (\<lambda>fresh.
        case checkFreshOwner ow fresh of
          Some err \<Rightarrow> fail err
        | None \<Rightarrow>
            if ContainsFinalizer (owner_meta fresh) ReservationOwnerFinalizer then ret (fresh, False)
            else seq (patchOwner K fresh (withOwnerMeta (AddFinalizer (owner_meta fresh) ReservationOwnerFinalizer) fresh)) (\<lambda>_.
              seq (getOwner R ow) (\<lambda>confirmed.
                if owner_uid confirmed \<noteq> owner_uid ow \<or> \<not> ContainsFinalizer (owner_meta confirmed) ReservationOwnerFinalizer
                then fail (Refused ''finalizer was not persisted'' (owner_name ow))
                else ret (confirmed, True)))))"

end
