(* ===== verification/Node_Finalize.thy ===== *)
theory Node_Finalize
  imports Signing_Paths Reservation
begin

text \<open>
  Deletion of a ChainNode: \<open>src/internal/controllers/chainnode/resource_cleanup.go\<close>,
  \<open>src/internal/controllers/chainnode/reservation_lifecycle.go\<close>, the deletion branch of \<open>Reconcile\<close> in
  \<open>controller.go\<close>, and the names of \<open>src/internal/controllers/pod_names.go\<close> and \<open>predicate.go\<close>. The pods of the
  node and its signers are stopped before a durable resource is touched, and the consensus-key reservations are
  released last. \<open>R\<close> is the uncached reader, \<open>K\<close> the client, \<open>Q\<close> the API of reservations; \<open>H\<close> is SHA-256 in
  hexadecimal. Events are left out.
\<close>

section \<open>Names\<close>

definition deterministicChainNodePodSuffixes :: "string list" where
  "deterministicChainNodePodSuffixes =
     [''-init-data'', ''-config-generator'', ''-genesis-init'', ''-write-file'', ''-download-genesis'',
      ''-create-validator'', ''-tmkms-generate-identity'', ''-tmkms-vault-upload'']"

definition IsDeterministicChainNodePodName :: "string \<Rightarrow> string \<Rightarrow> bool" where
  "IsDeterministicChainNodePodName podName nodeName =
     (podName = nodeName \<or> list_ex (\<lambda>sfx. podName = nodeName @ sfx) deterministicChainNodePodSuffixes)"

definition temporaryPodSuffixes :: "string list" where
  "temporaryPodSuffixes =
     [''config-generator'', ''data-init'', ''init-data'', ''genesis-init'', ''tmkms-vault-upload'',
      ''tmkms-generate-identity'', ''write-file'', ''create-validator'', ''signer-pubkey'', ''signer-import'']"

definition isChainNodeSigningPodName :: "string \<Rightarrow> string \<Rightarrow> bool" where
  "isChainNodeSigningPodName name chainNodeName =
     (name = chainNodeName \<or>
      list_ex (\<lambda>sfx. let baseName = chainNodeName @ ''-'' @ sfx in name = baseName \<or> HasPrefix name (baseName @ ''-''))
        temporaryPodSuffixes)"

definition GetAccountSecretName :: "ValidatorConfig \<Rightarrow> string \<Rightarrow> string" where
  "GetAccountSecretName v objName =
     (case Option.bind (vc_Init v) gc_AccountMnemonicSecret of
        Some s \<Rightarrow> s
      | None \<Rightarrow> deref (objName @ ''-account'') (Option.bind (vc_CreateValidator v) cv_AccountMnemonicSecret))"

definition cosmosignerName :: "ChainNode \<Rightarrow> string" where
  "cosmosignerName n = cn_name n @ ''-signer''"

abbreviation cn_ns :: "ChainNode \<Rightarrow> string" where "cn_ns n \<equiv> m_Namespace (cn_Meta n)"

section \<open>Policy, root and legacy resources\<close>

definition effectiveDeletionPolicy :: "'s cluster_api \<Rightarrow> ChainNode \<Rightarrow> ('s, CleanupError, DeletionPolicy option) prog" where
  "effectiveDeletionPolicy K n =
     (let own = cn_DeletionPolicy (cn_Spec n) in
      case GetControllerOf (cn_Meta n) of
        None \<Rightarrow> ret own
      | Some c \<Rightarrow>
          if or_APIVersion c \<noteq> groupVersion \<or> or_Kind c \<noteq> ''ChainNodeSet'' then ret own
          else get_or CleanupApi (cl_get (w_nodeSets K) (cn_ns n) (or_Name c))
                 (\<lambda>nodeSet. ret (if ns_uid nodeSet = or_UID c then ns_DeletionPolicy (ns_Spec nodeSet) else own))
                 (ret own))"

definition refuseOrphanedRecordedChild :: "'s cluster_api \<Rightarrow> ChainNode \<Rightarrow> ('s, CleanupError, unit) prog" where
  "refuseOrphanedRecordedChild K n =
     seq (call CleanupApi (cl_list (w_nodeSets K) (cn_ns n))) (\<lambda>nodeSets.
       case find (\<lambda>nodeSet. ClaimsChild nodeSet n \<and> RootOwnerFor (OwnerNode n) \<noteq> RootOwnerFor (OwnerSet nodeSet)) nodeSets of
         None \<Rightarrow> ret ()
       | Some nodeSet \<Rightarrow> fail (Refused ''recorded by'' (ns_name nodeSet)))"

definition isLegacyGeneratedKeySecret :: "ChainNode \<Rightarrow> Secret \<Rightarrow> bool" where
  "isLegacyGeneratedKeySecret n secret =
     IsLegacyGeneratedKeySecret secret
       (cn_name n # (case cn_Validator (cn_Spec n) of
          None \<Rightarrow> [] | Some v \<Rightarrow> [GetAccountSecretName v (cn_name n), GetPrivKeySecretName v (cn_name n)]))"

text \<open>Attribution of an object the node controls.\<close>

definition adoptSecret :: "'s cluster_api \<Rightarrow> ChainNode \<Rightarrow> Secret \<Rightarrow> ('s, CleanupError, unit) prog" where
  "adoptSecret K n secret =
     (case PrepareGeneratedResource (sec_Meta secret) (OwnerNode n) ClassGeneratedKeys False of (m, managed, changed) \<Rightarrow>
        if managed \<and> changed then quietly (call CleanupApi (cl_update (w_secrets K) (secret\<lparr>sec_Meta := m\<rparr>))) else ret ())"

definition adoptClaim :: "'s cluster_api \<Rightarrow> ChainNode \<Rightarrow> PersistentVolumeClaim \<Rightarrow> ('s, CleanupError, unit) prog" where
  "adoptClaim K n pvc =
     (case PrepareGeneratedResource (pvc_Meta pvc) (OwnerNode n) ClassDataVolumes False of (m, managed, changed) \<Rightarrow>
        if managed \<and> changed then quietly (call CleanupApi (cl_update (w_claims K) (pvc\<lparr>pvc_Meta := m\<rparr>))) else ret ())"

definition forAll :: "('x \<Rightarrow> ('s, 'e, unit) prog) \<Rightarrow> 'x list \<Rightarrow> ('s, 'e, unit) prog" where
  "forAll body xs = loopThen (forEach (\<lambda>x u. seq (body x) (\<lambda>_. ret (Next ()))) xs ()) ret"

definition attributeControlledLegacyKeys :: "'s cluster_api \<Rightarrow> ChainNode \<Rightarrow> ('s, CleanupError, unit) prog" where
  "attributeControlledLegacyKeys K n =
     seq (call CleanupApi (cl_list (w_secrets K) (cn_ns n))) (\<lambda>secrets.
       forAll (\<lambda>secret.
         if \<not> IsControlledBy (sec_Meta secret) (OwnerNode n) \<or>
            IsAttributed (sec_Meta secret) (RootOwnerFor (OwnerNode n)) ClassGeneratedKeys \<or>
            \<not> isLegacyGeneratedKeySecret n secret
         then ret () else adoptSecret K n secret) secrets)"

definition attributeControlledLegacyDataVolumes :: "'s cluster_api \<Rightarrow> ChainNode \<Rightarrow> ('s, CleanupError, unit) prog" where
  "attributeControlledLegacyDataVolumes K n =
     seq (call CleanupApi (cl_list (w_claims K) (cn_ns n))) (\<lambda>pvcs.
       forAll (\<lambda>pvc.
         if IsAttributed (pvc_Meta pvc) (RootOwnerFor (OwnerNode n)) ClassDataVolumes \<or>
            \<not> IsControlledBy (pvc_Meta pvc) (OwnerNode n)
         then ret () else adoptClaim K n pvc) pvcs)"

definition migrateExistingGeneratedKeySecret :: "'s cluster_api \<Rightarrow> ChainNode \<Rightarrow> string \<Rightarrow> ('s, CleanupError, unit) prog" where
  "migrateExistingGeneratedKeySecret K n name =
     get_or CleanupApi (cl_get (w_secrets K) (cn_ns n) name) (adoptSecret K n) (ret ())"

section \<open>Pods\<close>

definition quiescePod ::
    "'s cluster_api \<Rightarrow> ChainNode \<Rightarrow> Pod \<Rightarrow> bool \<Rightarrow> ('s, CleanupError, (bool, bool) ctl) prog" where
  "quiescePod K n pod allDone =
     (if \<not> IsControlledBy (pod_Meta pod) (OwnerNode n)
      then (if IsDeterministicChainNodePodName (m_Name (pod_Meta pod)) (cn_name n)
            then fail (Refused ''pod'' (m_Name (pod_Meta pod))) else ret (Next allDone))
      else if m_DeletionTimestamp (pod_Meta pod) \<noteq> None then ret (Next False)
      else seq (deletePodExact K pod) (\<lambda>gone. ret (Next (allDone \<and> gone))))"

definition quiesceNodePod :: "'s cluster_api \<Rightarrow> ChainNode \<Rightarrow> ('s, CleanupError, bool) prog" where
  "quiesceNodePod K n =
     seq (get_or CleanupApi (cl_get (w_pods K) (cn_ns n) (cn_name n))
            (\<lambda>mainPod. if \<not> IsControlledBy (pod_Meta mainPod) (OwnerNode n)
                        then fail (Refused ''pod'' (m_Name (pod_Meta mainPod))) else ret ())
            (ret ())) (\<lambda>_.
     seq (call CleanupApi (cl_list (w_pods K) (cn_ns n))) (\<lambda>pods.
     loopThen (forEach (quiescePod K n) pods True) ret))"

section \<open>Finalizing the resources\<close>

text \<open>The last step drops the finalizers of the node; the result is the node when done, \<^term>\<open>None\<close> to come back.\<close>

definition dropNodeFinalizers :: "'s cluster_api \<Rightarrow> ChainNode \<Rightarrow> ('s, CleanupError, ChainNode option) prog" where
  "dropNodeFinalizers K n =
     (case dropFinalizers [cleanupFinalizer, OwnerFinalizer] (cn_Meta n) of (m, changed) \<Rightarrow>
        if changed then seq (call CleanupApi (cl_update (w_nodes K) (n\<lparr>cn_Meta := m\<rparr>))) (\<lambda>n'. ret (Some n'))
        else ret (Some n))"

definition finalizeDurables ::
    "'s cluster_api \<Rightarrow> owner_object \<Rightarrow> DeletionPolicy option \<Rightarrow> ('s, CleanupError, bool) prog" where
  "finalizeDurables K ow policy =
     seq (FinalizeClass K (RootOwnerFor ow) ClassDataVolumes (GetDataVolumes policy) (owner_uid ow) []) (\<lambda>dataDone.
     seq (FinalizeClass K (RootOwnerFor ow) ClassGeneratedKeys (GetGeneratedKeys policy) (owner_uid ow) []) (\<lambda>keysDone.
     ret (dataDone \<and> keysDone)))"

definition finalizeResources :: "'s cluster_api \<Rightarrow> ChainNode \<Rightarrow> ('s, CleanupError, ChainNode option) prog" where
  "finalizeResources K n =
     seq (effectiveDeletionPolicy K n) (\<lambda>policy.
     seq (refuseOrphanedRecordedChild K n) (\<lambda>_.
     doneOr None (quiesceNodePod K n) (
     doneOr None (FinalizeOwner K (OwnerNode n) (cn_ns n) (GetCosmosignerState policy)) (
     seq (attributeControlledLegacyDataVolumes K n) (\<lambda>_.
     seq (attributeControlledLegacyKeys K n) (\<lambda>_.
     doneOr None (finalizeDurables K (OwnerNode n) policy) (dropNodeFinalizers K n)))))))"

definition namespaceTerminating :: "'s cluster_api \<Rightarrow> string \<Rightarrow> ('s, CleanupError, bool) prog" where
  "namespaceTerminating K ns =
     get_or CleanupApi (cl_get (w_namespaces K) [] ns) (\<lambda>m. ret (m_DeletionTimestamp m \<noteq> None)) (ret True)"

definition finalizeTerminatingNamespace :: "'s cluster_api \<Rightarrow> ChainNode \<Rightarrow> ('s, CleanupError, ChainNode option) prog" where
  "finalizeTerminatingNamespace K n =
     doneOr None (quiesceNodePod K n) (
     doneOr None (QuiesceOwnerForNamespaceTermination K (OwnerNode n) (cn_ns n)) (
     seq (ReleaseOwnerStateFinalizers K (OwnerNode n) (cn_ns n)) (\<lambda>_. dropNodeFinalizers K n)))"

section \<open>Reservations\<close>

datatype FinalizeError = FromCleanup CleanupError | FromReservation ReservationError

definition hasReservations :: "'s kube \<Rightarrow> owner_object \<Rightarrow> ('s, FinalizeError, bool) prog" where
  "hasReservations Q ow = wrapErr FromReservation (HasConsensusKeyReservationsForOwner Q ow)"

definition releaseReservations :: "'s kube \<Rightarrow> owner_object \<Rightarrow> ('s, FinalizeError, bool) prog" where
  "releaseReservations Q ow s =
     (case ReleaseConsensusKeyReservations Q ow s of
        ((released, Inl e), s1) \<Rightarrow> (Inl (FromReservation e), s1) | ((released, Inr d), s1) \<Rightarrow> (Inr d, s1))"

definition finalizeSigningPod ::
    "'s cluster_api \<Rightarrow> 's cluster_api \<Rightarrow> ChainNode \<Rightarrow> Pod \<Rightarrow> unit \<Rightarrow> ('s, CleanupError, (bool, unit) ctl) prog" where
  "finalizeSigningPod R K n pod u =
     (let owned = controlledByUID (pod_Meta pod) (cn_uid n); name = m_Name (pod_Meta pod) in
      if isChainNodeSigningPodName name (cn_name n) \<and> \<not> owned then fail (Refused ''signing-path pod'' name)
      else if \<not> owned then ret (Next ())
      else if m_UID (pod_Meta pod) = [] then fail (Refused ''delete without UID'' name)
      else seq (if m_DeletionTimestamp (pod_Meta pod) = None
                then quietly (tolerate NotFound CleanupApi (cl_delete (w_pods K) pod (Some (m_UID (pod_Meta pod)))))
                else ret ())
             (\<lambda>_. get_or CleanupApi (cl_get (w_pods R) (m_Namespace (pod_Meta pod)) name) (\<lambda>_. ret (Return False)) (ret (Next ()))))"

definition finalizeOwnedSigningPods :: "'s cluster_api \<Rightarrow> 's cluster_api \<Rightarrow> ChainNode \<Rightarrow> ('s, CleanupError, bool) prog" where
  "finalizeOwnedSigningPods R K n =
     seq (call CleanupApi (cl_list (w_pods R) (cn_ns n))) (\<lambda>pods.
     loopThen (forEach (finalizeSigningPod R K n) pods ()) (\<lambda>_. ret True))"

definition removeConsensusKeyReservationFinalizer ::
    "'s cluster_api \<Rightarrow> 's cluster_api \<Rightarrow> ChainNode \<Rightarrow> ('s, CleanupError, unit) prog" where
  "removeConsensusKeyReservationFinalizer R K n =
     get_or CleanupApi (cl_get (w_nodes R) (cn_ns n) (cn_name n))
       (\<lambda>fresh. if cn_uid fresh \<noteq> cn_uid n then fail (Refused ''changed UID'' (cn_name n))
                 else if \<not> ContainsFinalizer (cn_Meta fresh) ReservationOwnerFinalizer then ret ()
                 else quietly (call CleanupApi (cl_update (w_nodes K)
                        (fresh\<lparr>cn_Meta := RemoveFinalizer (cn_Meta fresh) ReservationOwnerFinalizer\<rparr>))))
       (ret ())"

definition finalizeConsensusKeyReservationOwner ::
    "'s kube \<Rightarrow> 's cluster_api \<Rightarrow> 's cluster_api \<Rightarrow> ChainNode \<Rightarrow> ('s, FinalizeError, bool) prog" where
  "finalizeConsensusKeyReservationOwner Q R K n =
     seq (if ContainsFinalizer (cn_Meta n) ReservationOwnerFinalizer then ret True else hasReservations Q (OwnerNode n)) (\<lambda>needed.
     if \<not> needed then ret True
     else doneOr False (wrapErr FromCleanup (FinalizeConsensusKeySigningPaths R K (OwnerNode n) (cn_ns n))) (
          doneOr False (wrapErr FromCleanup (finalizeOwnedSigningPods R K n)) (
          doneOr False (releaseReservations Q (OwnerNode n)) (
          seq (wrapErr FromCleanup (removeConsensusKeyReservationFinalizer R K n)) (\<lambda>_. ret True)))))"

text \<open>The deletion branch of \<open>Reconcile\<close>: true when the node is finished, false to come back.\<close>

definition reconcileNodeDeletion ::
    "'s kube \<Rightarrow> 's cluster_api \<Rightarrow> 's cluster_api \<Rightarrow> ChainNode \<Rightarrow> ('s, FinalizeError, bool) prog" where
  "reconcileNodeDeletion Q R K n =
     doneOr False (if ContainsFinalizer (cn_Meta n) ReservationOwnerFinalizer then ret True
                   else finalizeConsensusKeyReservationOwner Q R K n) (
     seq (wrapErr FromCleanup (namespaceTerminating K (cn_ns n))) (\<lambda>terminating.
     seq (wrapErr FromCleanup (if terminating then finalizeTerminatingNamespace K n else finalizeResources K n)) (\<lambda>finished.
     case finished of None \<Rightarrow> ret False | Some n' \<Rightarrow> finalizeConsensusKeyReservationOwner Q R K n')))"

section \<open>Claims of a standalone signer\<close>

definition consensusKeyReservationRoot :: "'s cluster_api \<Rightarrow> ChainNode \<Rightarrow> ('s, CleanupError, owner_object \<times> bool) prog" where
  "consensusKeyReservationRoot R n =
     (case GetControllerOf (cn_Meta n) of
        None \<Rightarrow> ret (OwnerNode n, False)
      | Some c \<Rightarrow>
          if or_Kind c \<noteq> ''ChainNodeSet'' then ret (OwnerNode n, False)
          else seq (call CleanupApi (cl_get (w_nodeSets R) (cn_ns n) (or_Name c))) (\<lambda>root.
            if ns_uid root \<noteq> or_UID c then fail (Refused ''changed UID'' (ns_name root)) else ret (OwnerSet root, True)))"

definition prepareConsensusKeyReservationOwner ::
    "'s kube \<Rightarrow> 's cluster_api \<Rightarrow> 's cluster_api \<Rightarrow> ChainNode \<Rightarrow> ('s, FinalizeError, bool) prog" where
  "prepareConsensusKeyReservationOwner Q R K n =
     seq (wrapErr FromCleanup (consensusKeyReservationRoot R n)) (\<lambda>(root, managedChild).
     let ensure = seq (wrapErr FromCleanup (EnsureConsensusKeyReservationOwnerFinalizer R K root)) (\<lambda>(root', written). ret written)
     in if managedChild
        then (if \<not> IsValidator n \<or> cn_RemoteSignerTarget (cn_Spec n) then ret False else ensure)
        else seq (if IsValidator n \<or> cn_Cosmosigner (cn_Spec n) \<noteq> None \<or> cns_CosmosignerPublicKey (cn_Status n) \<noteq> [] \<or>
                     cns_TmKMSReservationIdentity (cn_Status n) \<noteq> []
                  then ret True else hasReservations Q root)
               (\<lambda>needsFinalizer. if \<not> needsFinalizer then ret False else ensure))"

definition standaloneCosmosignerReservationClaim :: "(string \<Rightarrow> string) \<Rightarrow> ChainNode \<Rightarrow> string" where
  "standaloneCosmosignerReservationClaim H n =
     (if IsValidator n then cn_name n else ''signer-'' @ H (CosmosignerSigningIdentity n))"

definition isStandaloneCosmosignerReservationClaim :: "string \<Rightarrow> bool" where
  "isStandaloneCosmosignerReservationClaim claim =
     (length claim = length ''signer-'' + 64 \<and> HasPrefix claim ''signer-'' \<and>
      list_all (\<lambda>c. (CHR ''0'' \<le> c \<and> c \<le> CHR ''9'') \<or> (CHR ''a'' \<le> c \<and> c \<le> CHR ''f'')) (drop (length ''signer-'') claim))"

definition standaloneManagedSigningOneShotNames :: "ChainNode \<Rightarrow> string list" where
  "standaloneManagedSigningOneShotNames n =
     [cn_name n @ ''-tmkms-generate-identity'', cn_name n @ ''-tmkms-vault-upload'',
      cosmosignerName n @ ''-import'', cosmosignerName n @ ''-pubkey'']"

definition standaloneManagedSigningOneShotName :: "string \<Rightarrow> ChainNode \<Rightarrow> bool" where
  "standaloneManagedSigningOneShotName name n = list_ex (\<lambda>exact. name = exact) (standaloneManagedSigningOneShotNames n)"

definition standaloneManagedSigningOneShotPodName :: "string \<Rightarrow> ChainNode \<Rightarrow> bool" where
  "standaloneManagedSigningOneShotPodName name n =
     list_ex (\<lambda>exact. name = exact \<or> HasPrefix name (exact @ ''-'')) (standaloneManagedSigningOneShotNames n)"

definition standaloneSignerReplicaPodName :: "string \<Rightarrow> string \<Rightarrow> bool" where
  "standaloneSignerReplicaPodName name signerName =
     (let pre = signerName @ ''-'' in
      HasPrefix name pre \<and> length name \<noteq> length pre \<and> list_all is_digit (drop (length pre) name))"

text \<open>A pod that keeps an obsolete claim alive; the UID is that of the StatefulSet of the wanted signer.\<close>

definition obsoletePod :: "ChainNode \<Rightarrow> bool \<Rightarrow> uid \<Rightarrow> Pod \<Rightarrow> bool" where
  "obsoletePod n desired currentUID pod \<longleftrightarrow>
     standaloneManagedSigningOneShotPodName (m_Name (pod_Meta pod)) n \<or>
     (standaloneSignerReplicaPodName (m_Name (pod_Meta pod)) (cosmosignerName n) \<and>
      \<not> (desired \<and> currentUID \<noteq> [] \<and> controlledByStatefulSet pod (cosmosignerName n) \<and>
         controlledByUID (pod_Meta pod) currentUID))"

definition standaloneCosmosignerReservationSigningPathsGone ::
    "'s cluster_api \<Rightarrow> ChainNode \<Rightarrow> bool \<Rightarrow> ('s, CleanupError, bool) prog" where
  "standaloneCosmosignerReservationSigningPathsGone R n desired =
     seq (getSts R (cn_ns n) (cosmosignerName n)
            (\<lambda>sts. if \<not> desired then fail (Refused ''obsolete StatefulSet'' (m_Name (sts_Meta sts)))
                    else if \<not> IsControlledBy (sts_Meta sts) (OwnerNode n) then fail (Refused ''StatefulSet'' (m_Name (sts_Meta sts)))
                    else if m_UID (sts_Meta sts) = [] then fail (Refused ''no UID'' (m_Name (sts_Meta sts)))
                    else ret (m_UID (sts_Meta sts)))
            (ret [])) (\<lambda>currentUID.
     seq (call CleanupApi (cl_list (w_jobs R) (cn_ns n))) (\<lambda>jobs.
     case find (\<lambda>job. standaloneManagedSigningOneShotName (m_Name (job_Meta job)) n) jobs of
       Some job \<Rightarrow> fail (Refused ''Job'' (m_Name (job_Meta job)))
     | None \<Rightarrow>
         seq (call CleanupApi (cl_list (w_pods R) (cn_ns n))) (\<lambda>pods.
         case find (obsoletePod n desired currentUID) pods of
           Some pod \<Rightarrow> fail (Refused ''Pod'' (m_Name (pod_Meta pod)))
         | None \<Rightarrow> ret True)))"

definition retireClaim ::
    "'s kube \<Rightarrow> 's cluster_api \<Rightarrow> ChainNode \<Rightarrow> string \<Rightarrow> ConsensusKeyReservation \<Rightarrow> unit
      \<Rightarrow> ('s, FinalizeError, (bool, unit) ctl) prog" where
  "retireClaim Q R n desiredClaim r u =
     (let sp = ckr_Spec r in
      if rs_OwnerUID sp \<noteq> cn_uid n then ret (Next ())
      else if rs_OwnerKind sp \<noteq> ''ChainNode'' \<or> rs_Namespace sp \<noteq> cn_ns n \<or> rs_OwnerName sp \<noteq> cn_name n \<or> rs_Claim sp = []
      then fail (FromCleanup (InconsistentReservation (m_Name (ckr_Meta r))))
      else if rs_Claim sp = cn_name n \<or> rs_Claim sp = desiredClaim \<or> \<not> isStandaloneCosmosignerReservationClaim (rs_Claim sp)
      then ret (Next ())
      else seq (wrapErr FromCleanup (standaloneCosmosignerReservationSigningPathsGone R n (desiredClaim \<noteq> []))) (\<lambda>gone.
        if \<not> gone then ret (Return False)
        else seq (wrapErr FromReservation (ReleaseConsensusKeyReservationClaim Q (OwnerNode n) r)) (\<lambda>released.
          if \<not> released then ret (Return False) else ret (Next ()))))"

definition IsControlledByChainNodeSet :: "ChainNode \<Rightarrow> bool" where
  "IsControlledByChainNodeSet n =
     list_ex (\<lambda>ref. or_Kind ref = ''ChainNodeSet'' \<and> or_APIVersion ref = groupVersion \<and> or_Controller ref = Some True \<and>
                   or_UID ref \<noteq> []) (m_OwnerReferences (cn_Meta n))"

definition reconcileConsensusKeyReservationClaims ::
    "(string \<Rightarrow> string) \<Rightarrow> 's kube \<Rightarrow> 's cluster_api \<Rightarrow> ChainNode \<Rightarrow> ('s, FinalizeError, bool) prog" where
  "reconcileConsensusKeyReservationClaims H Q R n =
     (if IsValidator n \<or> IsControlledByChainNodeSet n then ret True
      else if cn_Cosmosigner (cn_Spec n) \<noteq> None \<and> cns_CosmosignerMigration (cn_Status n) \<noteq> None then ret True
      else let desiredClaim = (if cn_Cosmosigner (cn_Spec n) \<noteq> None then standaloneCosmosignerReservationClaim H n else [])
           in seq (wrapErr FromReservation (call ApiFailure (k_listReservations Q))) (\<lambda>items.
              loopThen (forEach (retireClaim Q R n desiredClaim) (sort_key (\<lambda>r. m_Name (ckr_Meta r)) items) ())
                (\<lambda>_. ret True)))"

end
