(* ===== verification/Teardown_Rules.thy ===== *)
theory Teardown_Rules
  imports Signing_Paths
begin

text \<open>
  Histories of the teardown code. The locales say which events an invariant \<open>J\<close> of the history admits; their lemmas,
  one per function, are rules for weakest preconditions that also give what was seen when the function reports
  completion. The server is arbitrary in every lemma.
\<close>

section \<open>Events\<close>

fun readsOnly :: "'o event \<Rightarrow> bool" where
  "readsOnly (Got ns n r) = True"
| "readsOnly (Listed ns r) = True"
| "readsOnly _ = False"

fun isRead :: "act \<Rightarrow> bool" where
  "isRead (PodEv e) = readsOnly e"
| "isRead (StsEv e) = readsOnly e"
| "isRead (ClaimEv e) = readsOnly e"
| "isRead (SecretEv e) = readsOnly e"
| "isRead (JobEv e) = readsOnly e"
| "isRead (ServiceEv e) = readsOnly e"
| "isRead (ConfigEv e) = readsOnly e"
| "isRead (PolicyEv e) = readsOnly e"
| "isRead (NodeEv e) = readsOnly e"
| "isRead (NodeStatusEv e) = readsOnly e"
| "isRead (SetEv e) = readsOnly e"
| "isRead (NamespaceEv e) = readsOnly e"
| "isRead (ReservationDeleted n u r) = False"

text \<open>Answers that show something: no StatefulSet of that name; no pod of the signer; a StatefulSet whose claims are
  retained; one that is stopped; one of another owner.\<close>

fun stsAbsent :: "string \<Rightarrow> string \<Rightarrow> act \<Rightarrow> bool" where
  "stsAbsent ns name (StsEv (Got ns' n (Inl NotFound))) \<longleftrightarrow> ns' = ns \<and> n = name"
| "stsAbsent ns name _ = False"

fun noSignerPods :: "string \<Rightarrow> string \<Rightarrow> act \<Rightarrow> bool" where
  "noSignerPods ns name (PodEv (Listed ns' (Inr pods))) \<longleftrightarrow> ns' = ns \<and> \<not> list_ex (signerPod name) pods"
| "noSignerPods ns name _ = False"

fun retainShown :: "string \<Rightarrow> string \<Rightarrow> act \<Rightarrow> bool" where
  "retainShown ns name (StsEv (Got ns' n r)) \<longleftrightarrow> ns' = ns \<and> n = name \<and>
     (case r of Inl e \<Rightarrow> e = NotFound
              | Inr sts \<Rightarrow> sts_Retention sts = Some (RetainClaims, RetainClaims) \<and>
                           sts_ObservedGeneration sts \<ge> m_Generation (sts_Meta sts))"
| "retainShown ns name _ = False"

fun zeroShown :: "string \<Rightarrow> string \<Rightarrow> act \<Rightarrow> bool" where
  "zeroShown ns name (StsEv (Got ns' n r)) \<longleftrightarrow> ns' = ns \<and> n = name \<and>
     (case r of Inl e \<Rightarrow> e = NotFound
              | Inr sts \<Rightarrow> sts_Replicas sts = Some 0 \<and> sts_ObservedGeneration sts \<ge> m_Generation (sts_Meta sts) \<and>
                           sts_StatusReplicas sts = 0)"
| "zeroShown ns name _ = False"

fun foreignShown :: "owner_object \<Rightarrow> string \<Rightarrow> string \<Rightarrow> act \<Rightarrow> bool" where
  "foreignShown ow ns name (StsEv (Got ns' n (Inr sts))) \<longleftrightarrow> ns' = ns \<and> n = name \<and> \<not> IsControlledBy (sts_Meta sts) ow"
| "foreignShown ow ns name _ = False"

fun gotSts :: "string \<Rightarrow> string \<Rightarrow> StatefulSet \<Rightarrow> act \<Rightarrow> bool" where
  "gotSts ns name sts (StsEv (Got ns' n (Inr x))) \<longleftrightarrow> ns' = ns \<and> n = name \<and> x = sts"
| "gotSts ns name sts _ = False"

text \<open>The signer is gone: its StatefulSet was seen absent, and then no pod of it was left.\<close>

definition signerGone :: "string \<Rightarrow> string \<Rightarrow> act list \<Rightarrow> bool" where
  "signerGone ns name = after (stsAbsent ns name) (seen (noSignerPods ns name))"

text \<open>The signer is stopped: its StatefulSet was seen at zero replicas (or absent) and then no pod of it was left, or
  the StatefulSet was seen to belong to another owner.\<close>

definition stopped :: "owner_object \<Rightarrow> string \<Rightarrow> string \<Rightarrow> act list \<Rightarrow> bool" where
  "stopped ow ns name h \<longleftrightarrow>
     after (zeroShown ns name) (seen (noSignerPods ns name)) h \<or> seen (foreignShown ow ns name) h"

text \<open>What precedes the deletion of a StatefulSet: it was read as the owner's, after it was seen to retain its claims
  and before the signer was seen to be stopped.\<close>

definition stsRetired :: "owner_object \<Rightarrow> string \<Rightarrow> StatefulSet \<Rightarrow> act list \<Rightarrow> bool" where
  "stsRetired ow ns sts h \<longleftrightarrow> IsControlledBy (sts_Meta sts) ow \<and> m_UID (sts_Meta sts) \<noteq> [] \<and>
     (\<exists>name. after (retainShown ns name) (after (gotSts ns name sts) (stopped ow ns name)) h)"

text \<open>The only updates of a StatefulSet: it is told to retain its claims, or to stop.\<close>

definition stsHeld :: "owner_object \<Rightarrow> StatefulSet \<Rightarrow> bool" where
  "stsHeld ow sts \<longleftrightarrow> IsControlledBy (sts_Meta sts) ow \<and>
     (sts_Retention sts = Some (RetainClaims, RetainClaims) \<or> sts_Replicas sts = Some 0)"

lemma signerGone_lasting [lasts]: "lasting (signerGone ns name)"
  unfolding signerGone_def by (rule after_lasting [OF seen_lasting])

lemma stopped_lasting [lasts]: "lasting (stopped ow ns name)"
  using after_lasting [OF seen_lasting] seen_lasting unfolding lasting_def stopped_def by blast

lemma signerGone_list [simp]:
  "\<not> signerGone ns name []"
  "signerGone ns name (e # h) \<longleftrightarrow> (stsAbsent ns name e \<and> seen (noSignerPods ns name) h) \<or> signerGone ns name h"
  by (simp_all add: signerGone_def)

lemma stopped_list [simp]:
  "\<not> stopped ow ns name []"
  "stopped ow ns name (e # h) \<longleftrightarrow> (zeroShown ns name e \<and> seen (noSignerPods ns name) h) \<or> foreignShown ow ns name e \<or> stopped ow ns name h"
  by (auto simp: stopped_def)

lemma signerGone_snoc [simp]:
  "signerGone ns name (snoc h e) \<longleftrightarrow> signerGone ns name h \<or> (noSignerPods ns name e \<and> seen (stsAbsent ns name) h)"
  by (auto simp: signerGone_def)

lemma stopped_snoc [simp]:
  "stopped ow ns name (snoc h e) \<longleftrightarrow> stopped ow ns name h \<or> foreignShown ow ns name e \<or>
     (noSignerPods ns name e \<and> seen (zeroShown ns name) h)"
  by (auto simp: stopped_def)

lemma retired_parts:
  assumes "prefix h k" "since h k = e # StsEv (Got ns name (Inr x)) # l" "retainShown ns name e" "stopped ow ns name l"
    "IsControlledBy (sts_Meta x) ow" "m_UID (sts_Meta x) \<noteq> []"
  shows "stsRetired ow ns x k"
proof -
  have "k = h @ e # StsEv (Got ns name (Inr x)) # l" using since_split [OF assms(1)] assms(2) by simp
  then have "after (retainShown ns name) (after (gotSts ns name x) (stopped ow ns name)) k"
    using assms(3,4) by (simp add: after_right)
  then show ?thesis using assms(5,6) by (auto simp: stsRetired_def)
qed

lemmas run_defs = logged_sel logged_client_sel doneOr_def loopThen_def quietly_def

text \<open>The rule held before every write.\<close>

definition ruled :: "(act \<Rightarrow> act list \<Rightarrow> bool) \<Rightarrow> act list \<Rightarrow> bool" where
  "ruled G = guarded (\<lambda>e. \<not> isRead e) G"

lemma ruled_simps [simp]: "ruled G []" "ruled G (snoc h e) \<longleftrightarrow> ruled G h \<and> (isRead e \<or> G e h)"
  by (auto simp: ruled_def)

section \<open>Reads\<close>

locale read_history =
  fixes J :: "act list \<Rightarrow> bool"
  assumes J_read: "J h \<Longrightarrow> isRead e \<Longrightarrow> J (snoc h e)"
begin

lemma wp_SignerPodsGone [wps]:
  "J h \<Longrightarrow> (\<And>gone e. J (snoc h e) \<Longrightarrow> (gone \<longrightarrow> noSignerPods ns name e) \<Longrightarrow> Q gone (snoc h e)) \<Longrightarrow>
   wp J (SignerPodsGone (logged K) ns name) Q h"
  unfolding SignerPodsGone_def run_defs by (intro wps) (auto simp: J_read)

end

section \<open>Signers\<close>

locale signer_history = read_history +
  fixes ow :: owner_object and ns :: string
  assumes J_sts_update: "J h \<Longrightarrow> stsHeld ow sts \<Longrightarrow> J (snoc h (StsEv (Updated sts r)))"
    and J_sts_delete: "J h \<Longrightarrow> stsRetired ow ns sts h \<Longrightarrow>
      J (snoc h (StsEv (Deleted sts (Some (m_UID (sts_Meta sts))) d)))"
begin

lemma wp_retainStatefulSetPVCs [wps]:
  assumes "J h" "\<And>d k. J k \<Longrightarrow> prefix h k \<Longrightarrow> (d \<longrightarrow> (\<exists>e. k = snoc h e \<and> retainShown ns name e)) \<Longrightarrow> Q d k"
  shows "wp J (retainStatefulSetPVCs (logged K) ow ns name) Q h"
  unfolding retainStatefulSetPVCs_def getSts_def run_defs
  by (intro wps) (auto intro!: assms(2) simp: assms(1) J_read J_sts_update stsHeld_def)

lemma wp_ScaleDown [wps]:
  "J h \<Longrightarrow> (\<And>d k. J k \<Longrightarrow> prefix h k \<Longrightarrow> (d \<longrightarrow> stopped ow ns name (since h k)) \<Longrightarrow> Q d k) \<Longrightarrow>
   wp J (ScaleDown (logged K) ow ns name) Q h"
  unfolding ScaleDown_def getSts_def run_defs
  by (intro wps) (auto simp: J_read J_sts_update stsHeld_def)

lemma wp_DeleteStatefulSet [wps]:
  assumes "J h" "\<And>d k. J k \<Longrightarrow> prefix h k \<Longrightarrow> (d \<longrightarrow> signerGone ns name (since h k)) \<Longrightarrow> Q d k"
  shows "wp J (DeleteStatefulSet (logged K) ow ns name) Q h"
  unfolding DeleteStatefulSet_def getSts_def run_defs
  by (intro wps) (auto intro!: assms(2) J_sts_delete simp: assms(1) J_read, blast intro: retired_parts)

end

section \<open>Durable classes\<close>

definition responsible :: "RootOwner \<Rightarrow> uid \<Rightarrow> ObjectMeta \<Rightarrow> bool" where
  "responsible root controllerUID m \<longleftrightarrow>
     controllerUID = ro_UID root \<or> label (m_Annotations m) AnnotationResourceOwnerUID = controllerUID"

text \<open>The writes of \<open>FinalizeClass\<close>: objects attributed to the root and class; deletions under the policy only.\<close>

fun classEvent :: "RootOwner \<Rightarrow> ResourceClass \<Rightarrow> DeletionPolicyType \<Rightarrow> uid \<Rightarrow> act \<Rightarrow> bool" where
  "classEvent root cls policy u (ClaimEv (Updated c r)) \<longleftrightarrow> cls \<noteq> ClassGeneratedKeys \<and>
     IsAttributed (pvc_Meta c) root cls \<and> responsible root u (pvc_Meta c)"
| "classEvent root cls policy u (ClaimEv (Deleted c p r)) \<longleftrightarrow> cls \<noteq> ClassGeneratedKeys \<and>
     IsAttributed (pvc_Meta c) root cls \<and> responsible root u (pvc_Meta c) \<and>
     policy = DeletionPolicyDelete \<and> p = Some (m_UID (pvc_Meta c))"
| "classEvent root cls policy u (SecretEv (Updated x r)) \<longleftrightarrow> cls = ClassGeneratedKeys \<and>
     IsAttributed (sec_Meta x) root cls \<and> responsible root u (sec_Meta x)"
| "classEvent root cls policy u (SecretEv (Deleted x p r)) \<longleftrightarrow> cls = ClassGeneratedKeys \<and>
     IsAttributed (sec_Meta x) root cls \<and> responsible root u (sec_Meta x) \<and>
     policy = DeletionPolicyDelete \<and> p = Some (m_UID (sec_Meta x))"
| "classEvent root cls policy u _ \<longleftrightarrow> False"

fun durableOf :: "ResourceClass \<Rightarrow> durable \<Rightarrow> bool" where
  "durableOf cls (DurableClaim c) \<longleftrightarrow> cls \<noteq> ClassGeneratedKeys"
| "durableOf cls (DurableSecret x) \<longleftrightarrow> cls = ClassGeneratedKeys"

lemma dropFinalizers_only: "\<exists>gs. fst (dropFinalizers fs m) = m\<lparr>m_Finalizers := gs\<rparr>"
proof -
  have "\<exists>gs'. fst (fold (\<lambda>f (m', changed). if ContainsFinalizer m' f then (RemoveFinalizer m' f, True) else (m', changed))
      fs (m\<lparr>m_Finalizers := gs\<rparr>, b)) = m\<lparr>m_Finalizers := gs'\<rparr>" for gs b
  proof (induction fs arbitrary: gs b)
    case (Cons f fs)
    then show ?case by (simp add: RemoveFinalizer_def)
  qed auto
  from this [of "m_Finalizers m" False] show ?thesis by (simp add: dropFinalizers_def)
qed

lemma dropFinalizers_keeps [simp]:
  "m_Annotations (fst (dropFinalizers fs m)) = m_Annotations m" "m_UID (fst (dropFinalizers fs m)) = m_UID m"
  using dropFinalizers_only [of fs m] by auto

lemma dropController_annotations [simp]: "m_Annotations (fst (removeMatchingControllerReference m u)) = m_Annotations m"
  by (simp add: removeMatchingControllerReference_def Let_def)

lemma attributed_annotations: "m_Annotations m = m_Annotations m' \<Longrightarrow> IsAttributed m root cls = IsAttributed m' root cls"
  "m_Annotations m = m_Annotations m' \<Longrightarrow> responsible root u m = responsible root u m'"
  by (simp_all add: IsAttributed_def responsible_def)

locale class_history = read_history +
  fixes root :: RootOwner and cls :: ResourceClass and policy :: DeletionPolicyType and u :: uid
  assumes J_class: "J h \<Longrightarrow> classEvent root cls policy u e \<Longrightarrow> J (snoc h e)"
begin

lemma wp_updateDurable [wps]:
  assumes "J h" "durableOf cls obj" "IsAttributed (durable_meta obj) root cls" "responsible root u (durable_meta obj)"
    "m_Annotations m = m_Annotations (durable_meta obj)"
    and Q: "\<And>k. J k \<Longrightarrow> prefix h k \<Longrightarrow> Q () k"
  shows "wp J (updateDurable (logged K) (withMeta m obj)) Q h"
  using assms(2-5) attributed_annotations [OF assms(5)]
  by (cases obj; simp add: run_defs; intro wps; auto intro!: Q J_class simp: assms(1))

lemma wp_deleteDurable [wps]:
  assumes "J h" "durableOf cls obj" "IsAttributed (durable_meta obj) root cls" "responsible root u (durable_meta obj)"
    "policy = DeletionPolicyDelete" and Q: "\<And>k. J k \<Longrightarrow> prefix h k \<Longrightarrow> Q () k"
  shows "wp J (deleteDurable (logged K) obj) Q h"
  using assms(2-5) by (cases obj; simp add: run_defs; intro wps; auto intro!: Q J_class simp: assms(1))

lemma wp_durableGone [wps]:
  "J h \<Longrightarrow> (\<And>d k. J k \<Longrightarrow> prefix h k \<Longrightarrow> Q d k) \<Longrightarrow> wp J (durableGone (logged K) obj) Q h"
  by (cases obj; simp add: run_defs; intro wps; auto simp: J_read)

lemma wp_finalizeObject:
  assumes "J h" "durableOf cls obj" "IsAttributed (durable_meta obj) root cls"
    and Q: "\<And>c k. J k \<Longrightarrow> prefix h k \<Longrightarrow> Q c k"
  shows "wp J (finalizeObject (logged K) root policy u fs obj allDone) Q h"
proof -
  obtain m b where m: "dropFinalizers fs (durable_meta obj) = (m, b)" by fastforce
  obtain m1 b1 where m1: "removeMatchingControllerReference (durable_meta obj) u = (m1, b1)" by fastforce
  obtain m2 b2 where m2: "dropFinalizers fs m1 = (m2, b2)" by fastforce
  have ann: "m_Annotations m = m_Annotations (durable_meta obj)" "m_Annotations m2 = m_Annotations (durable_meta obj)"
    using dropFinalizers_keeps(1) dropController_annotations m m1 m2 by (metis fst_conv)+
  show ?thesis
    unfolding finalizeObject_def deleteExact_def m m1 m2 prod.case
    by (intro wps) (auto simp: assms(1-3) ann responsible_def Let_def intro!: Q dest: prefix_order.trans)
qed

lemma wp_FinalizeClass [wps]:
  assumes "J h" and Q: "\<And>d k. J k \<Longrightarrow> prefix h k \<Longrightarrow> Q d k"
  shows "wp J (FinalizeClass (logged K) root cls policy u fs) Q h"
proof -
  have loop: "wp J (forEach (finalizeObject (logged K) root policy u fs) objs b) R k"
    if "J k" "\<forall>obj \<in> set objs. durableOf cls obj \<and> IsAttributed (durable_meta obj) root cls"
      "\<And>c k'. J k' \<Longrightarrow> prefix k k' \<Longrightarrow> R c k'" for objs b R k
    by (rule wp_each) (use that in \<open>auto intro!: wp_finalizeObject\<close>)
  show ?thesis
    unfolding FinalizeClass_def listAttributed_def run_defs
    by (intro wps loop) (auto simp: assms(1) J_read intro!: Q)
qed

end

section \<open>Claims and objects of a signer\<close>

text \<open>The answer to the update of a claim of the signer.\<close>

fun updatedTo :: "uid \<Rightarrow> string \<Rightarrow> PersistentVolumeClaim \<Rightarrow> act \<Rightarrow> bool" where
  "updatedTo u name c (ClaimEv (Updated c' (Inr x))) \<longleftrightarrow> x = c \<and> isOwnedStatefulSetDataPVC c' u name"
| "updatedTo u name c _ \<longleftrightarrow> False"

text \<open>The writes of \<open>DeletePVCs\<close>: claims with the name of the signer and the label of the owner.\<close>

fun claimEvent :: "uid \<Rightarrow> string \<Rightarrow> act list \<Rightarrow> act \<Rightarrow> bool" where
  "claimEvent u name h (ClaimEv (Updated c r)) \<longleftrightarrow> isOwnedStatefulSetDataPVC c u name"
| "claimEvent u name h (ClaimEv (Deleted c p r)) \<longleftrightarrow> p = Some (m_UID (pvc_Meta c)) \<and>
     (isOwnedStatefulSetDataPVC c u name \<or> seen (updatedTo u name c) h)"
| "claimEvent u name h _ \<longleftrightarrow> False"

lemma owned_RemoveFinalizer [simp]:
  "isOwnedStatefulSetDataPVC (c\<lparr>pvc_Meta := RemoveFinalizer (pvc_Meta c) f\<rparr>) u name = isOwnedStatefulSetDataPVC c u name"
  by (simp add: isOwnedStatefulSetDataPVC_def RemoveFinalizer_def)

locale claim_history = read_history +
  fixes u :: uid and name :: string
  assumes J_claim: "J h \<Longrightarrow> claimEvent u name h e \<Longrightarrow> J (snoc h e)"
begin

lemma wp_DeletePVCs [wps]:
  assumes "J h" and Q: "\<And>k. J k \<Longrightarrow> prefix h k \<Longrightarrow> Q () k"
  shows "wp J (DeletePVCs (logged K) u ns name) Q h"
  unfolding DeletePVCs_def run_defs
  by (intro wps wp_each) (auto simp: assms(1) J_read intro!: Q J_claim)

lemma wp_OwnedPVCsGone [wps]:
  assumes "J h" and Q: "\<And>d k. J k \<Longrightarrow> prefix h k \<Longrightarrow> Q d k"
  shows "wp J (OwnedPVCsGone (logged K) u ns name) Q h"
  unfolding OwnedPVCsGone_def run_defs by (intro wps) (auto simp: assms(1) J_read intro!: Q)

end

text \<open>The other deletions of \<open>Undeploy\<close>: objects the owner controls.\<close>

fun objectEvent :: "owner_object \<Rightarrow> act \<Rightarrow> bool" where
  "objectEvent ow (PodEv (Deleted x p r)) \<longleftrightarrow> IsControlledBy (pod_Meta x) ow"
| "objectEvent ow (ConfigEv (Deleted x p r)) \<longleftrightarrow> IsControlledBy x ow"
| "objectEvent ow (ServiceEv (Deleted x p r)) \<longleftrightarrow> IsControlledBy (svc_Meta x) ow"
| "objectEvent ow (PolicyEv (Deleted x p r)) \<longleftrightarrow> IsControlledBy x ow"
| "objectEvent ow _ \<longleftrightarrow> False"

locale object_history = read_history +
  fixes ow :: owner_object
  assumes J_object: "J h \<Longrightarrow> objectEvent ow e \<Longrightarrow> J (snoc h e)"
begin

lemma wp_undeployObjects [wps]:
  assumes "J h" and Q: "\<And>k. J k \<Longrightarrow> prefix h k \<Longrightarrow> Q () k"
  shows "wp J (undeployObjects (logged K) ow ns name) Q h"
proof -
  have del: "wp J (deleteControlled (logged_client tag c) meta ow ns n) R k"
    if "J k" "\<And>e. readsOnly e \<Longrightarrow> isRead (tag e)" "\<And>x r. IsControlledBy (meta x) ow \<Longrightarrow> objectEvent ow (tag (Deleted x None r))"
      "\<And>k'. J k' \<Longrightarrow> prefix k k' \<Longrightarrow> R () k'" for tag c meta n R k
    unfolding deleteControlled_def run_defs by (intro wps) (use that in \<open>auto simp: J_read intro: J_object\<close>)
  show ?thesis
    unfolding undeployObjects_def logged_sel
    by (intro wps del) (use assms in \<open>auto intro: Q prefix_order.trans\<close>)
qed

end

end
