(* ===== verification/Owner_Rules.thy ===== *)
theory Owner_Rules
  imports Teardown_Rules
begin

text \<open>
  Rules for the functions that remove all signers of an owner (\<open>src/internal/cosmosigner/cleanup.go\<close>): what was
  seen when they report completion, and the writes an invariant has to admit for them.
\<close>

section \<open>What was seen\<close>

fun listedSts :: "string \<Rightarrow> act \<Rightarrow> StatefulSet list option" where
  "listedSts ns (StsEv (Listed ns' (Inr xs))) = (if ns' = ns then Some xs else None)"
| "listedSts ns _ = None"

fun listedClaims :: "string \<Rightarrow> act \<Rightarrow> PersistentVolumeClaim list option" where
  "listedClaims ns (ClaimEv (Listed ns' (Inr xs))) = (if ns' = ns then Some xs else None)"
| "listedClaims ns _ = None"

fun listedPods :: "string \<Rightarrow> act \<Rightarrow> Pod list option" where
  "listedPods ns (PodEv (Listed ns' (Inr xs))) = (if ns' = ns then Some xs else None)"
| "listedPods ns _ = None"

fun podAbsent :: "Pod \<Rightarrow> act \<Rightarrow> bool" where
  "podAbsent p (PodEv (Got ns' n (Inl NotFound))) \<longleftrightarrow> ns' = m_Namespace (pod_Meta p) \<and> n = m_Name (pod_Meta p)"
| "podAbsent p _ \<longleftrightarrow> False"

text \<open>A listing shows the claim with these finalizers.\<close>

fun listsClaim :: "PersistentVolumeClaim \<Rightarrow> act \<Rightarrow> bool" where
  "listsClaim c (ClaimEv (Listed ns (Inr cs))) \<longleftrightarrow>
     list_ex (\<lambda>x. m_Name (pvc_Meta x) = m_Name (pvc_Meta c) \<and> m_UID (pvc_Meta x) = m_UID (pvc_Meta c) \<and>
                  m_Finalizers (pvc_Meta x) = m_Finalizers (pvc_Meta c)) cs"
| "listsClaim c _ \<longleftrightarrow> False"

text \<open>The key jobs of the owner are gone; its signers are gone, and no StatefulSet with its claims has another
  owner; no pod is left of a signer that one of its claims names.\<close>

definition keyJobsGone :: "owner_object \<Rightarrow> string \<Rightarrow> act list \<Rightarrow> bool" where
  "keyJobsGone ow ns = afterAnswer (listedPods ns) (\<lambda>pods h.
     \<forall>p \<in> set pods. keyJobSignerName (m_Name (pod_Meta p)) \<noteq> None \<and> IsControlledBy (pod_Meta p) ow \<longrightarrow> seen (podAbsent p) h)"

definition signersGone :: "owner_object \<Rightarrow> string \<Rightarrow> act list \<Rightarrow> bool" where
  "signersGone ow ns = afterAnswer (listedSts ns) (\<lambda>stss h.
     \<forall>sts \<in> set stss. (IsOwnedSignerStatefulSet sts ow \<longrightarrow> signerGone ns (m_Name (sts_Meta sts)) h) \<and>
                      (isAttributedSignerStatefulSet sts ow \<longrightarrow> IsOwnedSignerStatefulSet sts ow))"

text \<open>The signer a claim of the owner belongs to.\<close>

definition stateSigner :: "owner_object \<Rightarrow> PersistentVolumeClaim \<Rightarrow> string option" where
  "stateSigner ow c =
     (if ownerLabelled ow c \<and> isStatefulSetDataPVC (m_Name (pvc_Meta c)) (label (m_Labels (pvc_Meta c)) labelInstance)
      then Some (label (m_Labels (pvc_Meta c)) labelInstance)
      else if attributedState ow c then statefulSetNameFromDataPVC (m_Name (pvc_Meta c)) else None)"

definition statePodsGone :: "owner_object \<Rightarrow> string \<Rightarrow> act list \<Rightarrow> bool" where
  "statePodsGone ow ns = afterAnswer (listedClaims ns) (\<lambda>cs h.
     \<forall>c \<in> set cs. (\<forall>name \<in> set_option (stateSigner ow c). seen (noSignerPods ns name) h) \<and>
                  (attributedState ow c \<longrightarrow> stateSigner ow c \<noteq> None))"

definition ownerDown :: "owner_object \<Rightarrow> string \<Rightarrow> act list \<Rightarrow> bool" where
  "ownerDown ow ns h \<longleftrightarrow> keyJobsGone ow ns h \<and> signersGone ow ns h \<and> statePodsGone ow ns h"

lemma ownerDown_lasting [lasts]:
  "lasting (keyJobsGone ow ns)" "lasting (signersGone ow ns)" "lasting (statePodsGone ow ns)" "lasting (ownerDown ow ns)"
proof -
  show k: "lasting (keyJobsGone ow ns)" unfolding keyJobsGone_def by (intro lasts)
  show s: "lasting (signersGone ow ns)" unfolding signersGone_def by (intro lasts)
  show p: "lasting (statePodsGone ow ns)" unfolding statePodsGone_def by (intro lasts)
  show "lasting (ownerDown ow ns)" unfolding ownerDown_def [abs_def] by (intro lasts k s p)
qed

section \<open>Removing the signers\<close>

text \<open>Pods are deleted under their UID when the owner controls them.\<close>

fun podEvent :: "owner_object \<Rightarrow> act \<Rightarrow> bool" where
  "podEvent ow (PodEv (Deleted p u r)) \<longleftrightarrow> IsControlledBy (pod_Meta p) ow \<and> u = Some (m_UID (pod_Meta p))"
| "podEvent ow _ \<longleftrightarrow> False"

text \<open>Attribution of a claim with the owner's label leaves its finalizers.\<close>

fun attributeEvent :: "owner_object \<Rightarrow> act list \<Rightarrow> act \<Rightarrow> bool" where
  "attributeEvent ow h (ClaimEv (Updated c r)) \<longleftrightarrow> ownerLabelled ow c \<and> seen (listsClaim c) h"
| "attributeEvent ow h _ \<longleftrightarrow> False"

lemma Stamp_annotates: "\<exists>a. fst (Stamp m root cls) = m\<lparr>m_Annotations := a\<rparr>"
proof -
  have "\<exists>a'. fst (fold (\<lambda>(k, v) (m', changed).
      if label (m_Annotations m') k \<noteq> v then (m'\<lparr>m_Annotations := (m_Annotations m')(k \<mapsto> v)\<rparr>, True)
      else (m', changed)) kvs (m\<lparr>m_Annotations := a\<rparr>, b)) = m\<lparr>m_Annotations := a'\<rparr>" for kvs a b
  proof (induction kvs arbitrary: a b)
    case (Cons kv kvs)
    then show ?case by (cases kv) (simp split: if_split)
  qed auto
  from this [of "rootAnnotations root cls" "m_Annotations m" False] show ?thesis by (simp add: Stamp_def)
qed

lemma Stamp_keeps:
  "m_Finalizers (fst (Stamp m root cls)) = m_Finalizers m" "m_Labels (fst (Stamp m root cls)) = m_Labels m"
  "m_Name (fst (Stamp m root cls)) = m_Name m" "m_UID (fst (Stamp m root cls)) = m_UID m"
  using Stamp_annotates [of m root cls] by auto

lemma StampResourceOwner_keeps:
  "m_Finalizers (fst (StampResourceOwner m u)) = m_Finalizers m" "m_Labels (fst (StampResourceOwner m u)) = m_Labels m"
  "m_Name (fst (StampResourceOwner m u)) = m_Name m" "m_UID (fst (StampResourceOwner m u)) = m_UID m"
  by (simp_all add: StampResourceOwner_def)

lemma attribute_part:
  assumes "since h k = ClaimEv (Listed ns (Inr cs)) # l" "prefix h k" "c \<in> set cs" "ownerLabelled ow c"
    "Stamp (pvc_Meta c) root cls = (m1, b1)" "StampResourceOwner m1 u = (m2, b2)"
  shows "attributeEvent ow k (ClaimEv (Updated (c\<lparr>pvc_Meta := m2\<rparr>) r))"
proof -
  have m2: "m_Finalizers m2 = m_Finalizers (pvc_Meta c)" "m_Labels m2 = m_Labels (pvc_Meta c)"
    "m_Name m2 = m_Name (pvc_Meta c)" "m_UID m2 = m_UID (pvc_Meta c)"
    using Stamp_keeps [of "pvc_Meta c" root cls] StampResourceOwner_keeps [of m1 u] assms(5,6) by auto
  have "seen (listsClaim (c\<lparr>pvc_Meta := m2\<rparr>)) k"
    by (rule seenI [OF assms(1,2)]) (use assms(3) m2 in \<open>auto simp: list_ex_iff\<close>)
  then show ?thesis using assms(4) m2 by (simp add: ownerLabelled_def)
qed

lemma keyJobsGoneI:
  "since h k = PodEv (Listed ns (Inr pods)) # l \<Longrightarrow> prefix h k \<Longrightarrow>
   (\<forall>p \<in> set pods. keyJobSignerName (m_Name (pod_Meta p)) \<noteq> None \<and> IsControlledBy (pod_Meta p) ow \<longrightarrow> seen (podAbsent p) l) \<Longrightarrow>
   keyJobsGone ow ns k"
  unfolding keyJobsGone_def by (rule afterAnswerI) auto

lemma signersGoneI:
  "since h k = StsEv (Listed ns (Inr stss)) # l \<Longrightarrow> prefix h k \<Longrightarrow>
   (\<forall>sts \<in> set stss. (IsOwnedSignerStatefulSet sts ow \<longrightarrow> signerGone ns (m_Name (sts_Meta sts)) l) \<and>
                      (isAttributedSignerStatefulSet sts ow \<longrightarrow> IsOwnedSignerStatefulSet sts ow)) \<Longrightarrow>
   signersGone ow ns k"
  unfolding signersGone_def by (rule afterAnswerI) auto

lemma statePodsGoneI:
  "since h k = ClaimEv (Listed ns (Inr cs)) # l \<Longrightarrow> prefix h k \<Longrightarrow>
   (\<forall>c \<in> set cs. (\<forall>name \<in> set_option (stateSigner ow c). seen (noSignerPods ns name) l) \<and>
                  (attributedState ow c \<longrightarrow> stateSigner ow c \<noteq> None)) \<Longrightarrow>
   statePodsGone ow ns k"
  unfolding statePodsGone_def by (rule afterAnswerI) auto

lemmas goneI = keyJobsGoneI signersGoneI statePodsGoneI

locale owner_history = signer_history +
  assumes J_pod: "J h \<Longrightarrow> podEvent ow e \<Longrightarrow> J (snoc h e)"
    and J_attribute: "J h \<Longrightarrow> attributeEvent ow h e \<Longrightarrow> J (snoc h e)"
begin

lemma wp_deletePodExact [wps]:
  assumes "J h" "IsControlledBy (pod_Meta p) ow"
    "\<And>d k. J k \<Longrightarrow> prefix h k \<Longrightarrow> (d \<longrightarrow> seen (podAbsent p) (since h k)) \<Longrightarrow> Q d k"
  shows "wp J (deletePodExact (logged K) p) Q h"
  unfolding deletePodExact_def run_defs
  by (intro wps) (use assms in \<open>auto simp: J_read intro: J_pod\<close>)

lemma wp_signerNames [wps]:
  "J h \<Longrightarrow> (\<And>x k. J k \<Longrightarrow> prefix h k \<Longrightarrow> Q x k) \<Longrightarrow> wp J (signerNamesAttributedToOwner (logged K) ow ns') Q h"
  unfolding signerNamesAttributedToOwner_def run_defs by (intro wps) (auto simp: J_read)

lemma wp_deleteOwnedKeyJobPods [wps]:
  assumes "J h" and Q: "\<And>d k. J k \<Longrightarrow> prefix h k \<Longrightarrow> (d \<longrightarrow> keyJobsGone ow ns k) \<Longrightarrow> Q d k"
  shows "wp J (deleteOwnedKeyJobPods (logged K) ow ns) Q h"
proof -
  let ?F = "\<lambda>p h. keyJobSignerName (m_Name (pod_Meta p)) \<noteq> None \<and> IsControlledBy (pod_Meta p) ow \<longrightarrow> seen (podAbsent p) h"
  have "lasting (?F p)" for p by (intro lasts)
  then show ?thesis
    unfolding deleteOwnedKeyJobPods_def run_defs
    by (intro wps wp_collect [where F = ?F and ok = "\<lambda>b. b"])
      (auto simp: assms(1) J_read intro!: Q intro: goneI)
qed

lemma wp_QuiesceOwner [wps]:
  assumes "J h" and Q: "\<And>d k. J k \<Longrightarrow> prefix h k \<Longrightarrow> (d \<longrightarrow> keyJobsGone ow ns k \<and> signersGone ow ns k) \<Longrightarrow> Q d k"
  shows "wp J (QuiesceOwner (logged K) ow ns) Q h"
proof -
  let ?F = "\<lambda>sts h. (IsOwnedSignerStatefulSet sts ow \<longrightarrow> signerGone ns (m_Name (sts_Meta sts)) h) \<and>
                     (isAttributedSignerStatefulSet sts ow \<longrightarrow> IsOwnedSignerStatefulSet sts ow)"
  have "lasting (?F sts)" for sts by (intro lasts)
  then show ?thesis
    unfolding QuiesceOwner_def quiesceSts_def run_defs
    by (intro wps wp_collect [where F = ?F and ok = "\<lambda>b. True"])
      (auto simp: assms(1) J_read intro!: Q wp_ret intro: goneI lastingD [OF ownerDown_lasting(1)])
qed

lemma wp_attributeOwnedStatePVCs [wps]:
  assumes "J h" and Q: "\<And>d k. J k \<Longrightarrow> prefix h k \<Longrightarrow> Q d k"
  shows "wp J (attributeOwnedStatePVCs (logged K) ow ns) Q h"
  unfolding attributeOwnedStatePVCs_def attributeClaim_def run_defs
  by (intro wps wp_each) (auto simp: assms(1) J_read intro!: Q J_attribute attribute_part simp del: attributeEvent.simps)

lemma wp_checkStateClaims [wps]:
  assumes "J h" and Q: "\<And>c k. J k \<Longrightarrow> prefix h k \<Longrightarrow> c \<noteq> Return True \<Longrightarrow> (c = Next () \<longrightarrow>
      (\<forall>c \<in> set cs. (\<forall>name \<in> set_option (stateSigner ow c). seen (noSignerPods ns name) (since h k)) \<and>
                  (attributedState ow c \<longrightarrow> stateSigner ow c \<noteq> None))) \<Longrightarrow> Q c k"
  shows "wp J (forEach (checkStateClaim (logged K) ow ns) cs ()) Q h"
proof (rule wp_collect [where ok = "\<lambda>b. True" and
      F = "\<lambda>c h. (\<forall>name \<in> set_option (stateSigner ow c). seen (noSignerPods ns name) h) \<and>
                   (attributedState ow c \<longrightarrow> stateSigner ow c \<noteq> None)"])
  show "lasting (\<lambda>h. (\<forall>name \<in> set_option (stateSigner ow c). seen (noSignerPods ns name) h) \<and>
                   (attributedState ow c \<longrightarrow> stateSigner ow c \<noteq> None))" for c
    by (intro lasts)
  show "wp J (checkStateClaim (logged K) ow ns c b) (\<lambda>r k'. case r of Return r \<Rightarrow> Q (Return r) k'
      | Next b' \<Rightarrow> True \<longrightarrow> True \<and> ((\<forall>name \<in> set_option (stateSigner ow c). seen (noSignerPods ns name) (since k k')) \<and>
                   (attributedState ow c \<longrightarrow> stateSigner ow c \<noteq> None))) k"
    if "J k" "prefix h k" for c b k
    unfolding checkStateClaim_def by (intro wps) (use that in \<open>auto simp: stateSigner_def intro!: Q\<close>)
qed (use assms in auto)

end

text \<open>The claims of the owner are released or deleted once its signers are down.\<close>

locale finalize_history = owner_history +
  fixes policy :: DeletionPolicyType
  assumes J_state: "J h \<Longrightarrow> ownerDown ow ns h \<Longrightarrow>
      classEvent (RootOwnerFor ow) ClassCosmosignerState policy (owner_uid ow) e \<Longrightarrow> J (snoc h e)"

sublocale finalize_history < state: class_history
  "\<lambda>h. J h \<and> ownerDown ow ns h" "RootOwnerFor ow" ClassCosmosignerState policy "owner_uid ow"
  by unfold_locales (auto intro: J_read J_state lastingD [OF ownerDown_lasting(4)])

context finalize_history
begin

lemma wp_FinalizeState [wps]:
  assumes "J h" "keyJobsGone ow ns h" "signersGone ow ns h"
    and Q: "\<And>d k. J k \<Longrightarrow> prefix h k \<Longrightarrow> (d \<longrightarrow> ownerDown ow ns k) \<Longrightarrow> Q d k"
  shows "wp J (FinalizeState (logged K) ow ns policy) Q h"
proof -
  have run: "wp J (FinalizeClass (logged K) (RootOwnerFor ow) ClassCosmosignerState policy (owner_uid ow) fs) Q k"
    if "J k" "prefix h k" "statePodsGone ow ns k" for k fs
  proof (rule wp_knowing [where B = "ownerDown ow ns"], rule state.wp_FinalizeClass)
    show "J k \<and> ownerDown ow ns k"
      using that lastingD [OF ownerDown_lasting(1) assms(2)] lastingD [OF ownerDown_lasting(2) assms(3)] by (simp add: ownerDown_def)
  qed (use that prefix_order.trans [of h k] in \<open>auto intro!: Q\<close>)
  show ?thesis
    unfolding FinalizeState_def run_defs
    by (intro wps run) (auto simp: assms(1) J_read intro!: Q wp_ret run intro: goneI split: ctl.splits)
qed

lemma wp_FinalizeOwner [wps]:
  assumes "J h" and Q: "\<And>d k. J k \<Longrightarrow> prefix h k \<Longrightarrow> (d \<longrightarrow> ownerDown ow ns k) \<Longrightarrow> Q d k"
  shows "wp J (FinalizeOwner (logged K) ow ns policy) Q h"
  unfolding FinalizeOwner_def run_defs
  by (intro wps) (auto simp: assms(1) intro!: Q intro: prefix_order.trans)

end

end
