(* ===== verification/Teardown_Safety.thy ===== *)
theory Teardown_Safety
  imports Owner_Rules
begin

text \<open>
  What every run of the teardown code satisfies, for every server: which writes it makes, and what it has seen
  before each of them.
\<close>

section \<open>Removing a signer\<close>

text \<open>Its StatefulSet was seen absent, or another owner's, and then no pod of the signer was left.\<close>

definition signerAway :: "owner_object \<Rightarrow> string \<Rightarrow> string \<Rightarrow> act list \<Rightarrow> bool" where
  "signerAway ow ns name =
     after (\<lambda>e. stsAbsent ns name e \<or> foreignShown ow ns name e) (seen (noSignerPods ns name))"

fun undeployRule :: "owner_object \<Rightarrow> string \<Rightarrow> string \<Rightarrow> act \<Rightarrow> act list \<Rightarrow> bool" where
  "undeployRule ow ns name (StsEv (Updated sts r)) h \<longleftrightarrow> stsHeld ow sts"
| "undeployRule ow ns name (StsEv (Deleted sts p r)) h \<longleftrightarrow> p = Some (m_UID (sts_Meta sts)) \<and> stsRetired ow ns sts h"
| "undeployRule ow ns name e h \<longleftrightarrow>
     signerAway ow ns name h \<and> (claimEvent (owner_uid ow) name h e \<or> objectEvent ow e)"

lemma signerAway_lasting [lasts]: "lasting (signerAway ow ns name)"
  unfolding signerAway_def by (rule after_lasting [OF seen_lasting])

lemma signerAway_snoc [simp]: "signerAway ow ns name (snoc h e) \<longleftrightarrow>
    signerAway ow ns name h \<or> (noSignerPods ns name e \<and> seen (\<lambda>e. stsAbsent ns name e \<or> foreignShown ow ns name e) h)"
  by (auto simp: signerAway_def)

lemma gone_away: "signerGone ns name h \<Longrightarrow> signerAway ow ns name h"
  by (induction h) (auto simp: signerAway_def)

lemma gone_part:
  assumes "prefix h k" "since h k = e # l" "signerGone ns name l"
  shows "signerAway ow ns name k"
  by (rule gone_away, rule lasting_whole [OF signerGone_lasting _ assms(1)]) (use assms in simp)

lemma undeploy_claim: "signerAway ow ns name h \<Longrightarrow> claimEvent (owner_uid ow) name h e \<Longrightarrow> undeployRule ow ns name e h"
  by (cases "(ow, ns, name, e, h)" rule: undeployRule.cases) auto

lemma undeploy_object: "signerAway ow ns name h \<Longrightarrow> objectEvent ow e \<Longrightarrow> undeployRule ow ns name e h"
  by (cases "(ow, ns, name, e, h)" rule: undeployRule.cases) auto

interpretation undeploy: signer_history "ruled (undeployRule ow ns name)" ow ns for ow ns name
  by unfold_locales auto

interpretation undeploy_claims: claim_history "\<lambda>h. ruled (undeployRule ow ns name) h \<and> signerAway ow ns name h" "owner_uid ow" name for ow ns name
  by unfold_locales (auto intro: undeploy_claim)

interpretation undeploy_objects: object_history "\<lambda>h. ruled (undeployRule ow ns name) h \<and> signerAway ow ns name h" ow for ow ns name
  by unfold_locales (auto intro: undeploy_object)

lemma wp_undeploy_rest [wps]:
  assumes "ruled (undeployRule ow ns name) h" "signerAway ow ns name h"
    "\<And>k. ruled (undeployRule ow ns name) k \<Longrightarrow> signerAway ow ns name k \<Longrightarrow> prefix h k \<Longrightarrow> Q () k"
  shows "wp (ruled (undeployRule ow ns name)) (undeployObjects (logged K) ow ns name) Q h"
    and "wp (ruled (undeployRule ow ns name)) (DeletePVCs (logged K) (owner_uid ow) ns name) Q h"
  by (rule wp_knowing [where B = "signerAway ow ns name"], intro wps; use assms in auto)+

lemma wp_Undeploy [wps]:
  assumes "ruled (undeployRule ow ns name) h" "\<And>k. ruled (undeployRule ow ns name) k \<Longrightarrow> prefix h k \<Longrightarrow> Q () k"
  shows "wp (ruled (undeployRule ow ns name)) (Undeploy (logged K) ow ns name) Q h"
  unfolding Undeploy_def getSts_def run_defs
  by (intro wps) (auto simp: assms(1) intro!: assms(2) intro: gone_part)

text \<open>\<open>Undeploy\<close> deletes the StatefulSet of a signer only after it was seen to retain its claims and to be
  stopped, and touches claims (its own, by name and owner label) and other objects (those the owner controls) only
  after the StatefulSet was seen absent or another owner's and then no pod of the signer was left; it makes no other
  write, whatever the server answers.\<close>

theorem undeploy_after_signer_gone:
  "ruled (undeployRule ow ns name) (trail (Undeploy (logged K) ow ns name) s)"
  by (rule wp_trail, rule wp_Undeploy) auto

section \<open>Removing all signers of an owner\<close>

fun finalizeRule :: "owner_object \<Rightarrow> string \<Rightarrow> DeletionPolicyType \<Rightarrow> act \<Rightarrow> act list \<Rightarrow> bool" where
  "finalizeRule ow ns policy (StsEv (Updated sts r)) h \<longleftrightarrow> stsHeld ow sts"
| "finalizeRule ow ns policy (StsEv (Deleted sts p r)) h \<longleftrightarrow> p = Some (m_UID (sts_Meta sts)) \<and> stsRetired ow ns sts h"
| "finalizeRule ow ns policy e h \<longleftrightarrow> podEvent ow e \<or> attributeEvent ow h e \<or>
     (ownerDown ow ns h \<and> classEvent (RootOwnerFor ow) ClassCosmosignerState policy (owner_uid ow) e)"

lemma finalize_other:
  "podEvent ow e \<Longrightarrow> finalizeRule ow ns policy e h" "attributeEvent ow h e \<Longrightarrow> finalizeRule ow ns policy e h"
  "ownerDown ow ns h \<Longrightarrow> classEvent (RootOwnerFor ow) ClassCosmosignerState policy (owner_uid ow) e \<Longrightarrow>
     finalizeRule ow ns policy e h"
  by (cases "(ow, ns, policy, e, h)" rule: finalizeRule.cases; auto)+

interpretation finalize: finalize_history "ruled (finalizeRule ow ns policy)" ow ns policy for ow ns policy
  by unfold_locales (auto intro: finalize_other)

text \<open>C8: \<open>FinalizeOwner\<close> removes the deletion guard of a state claim or deletes it only when the claim is attributed to the
  owner, the policy is to delete for a deletion, and only after it has seen the key jobs of the owner gone, all its
  StatefulSets absent with no pod left, and no pod of a signer that one of the owner's claims names; it makes no write
  besides these, the deletion of pods it controls, the attribution of claims and the guarded retirement of
  StatefulSets. When it reports completion, all of this was seen.\<close>

theorem state_finalized_last:
  "ruled (finalizeRule ow ns policy) (trail (FinalizeOwner (logged K) ow ns policy) s) \<and>
   (case fst (FinalizeOwner (logged K) ow ns policy (s, [])) of
      Inr True \<Rightarrow> ownerDown ow ns (trail (FinalizeOwner (logged K) ow ns policy) s) | _ \<Rightarrow> True)"
proof -
  have "wp (ruled (finalizeRule ow ns policy)) (FinalizeOwner (logged K) ow ns policy) (\<lambda>d k. d \<longrightarrow> ownerDown ow ns k) []"
    by (rule finalize.wp_FinalizeOwner) auto
  from wp_ending [OF this, of s] show ?thesis by (auto split: sum.splits bool.splits)
qed

end
