(* ===== verification/Node_Teardown.thy ===== *)
theory Node_Teardown
  imports Node_Finalize Teardown_Safety
begin

text \<open>
  What every run of the deletion of a ChainNode satisfies: which durable resources it touches, and what it has seen
  before (\<open>src/internal/controllers/chainnode/resource_cleanup.go\<close>).
\<close>

section \<open>What was seen\<close>

text \<open>Every pod of the node was seen gone, and no pod with one of its names belongs to somebody else.\<close>

definition nodePodsGone :: "ChainNode \<Rightarrow> act list \<Rightarrow> bool" where
  "nodePodsGone n = afterAnswer (listedPods (cn_ns n)) (\<lambda>pods h.
     \<forall>p \<in> set pods. (IsControlledBy (pod_Meta p) (OwnerNode n) \<longrightarrow> seen (podAbsent p) h) \<and>
       (IsDeterministicChainNodePodName (m_Name (pod_Meta p)) (cn_name n) \<longrightarrow> IsControlledBy (pod_Meta p) (OwnerNode n)))"

text \<open>The policy that applies: that of the controlling ChainNodeSet, read with the UID of the controller, or the node's.\<close>

fun setPolicy :: "ChainNode \<Rightarrow> DeletionPolicy option \<Rightarrow> act \<Rightarrow> bool" where
  "setPolicy n p (SetEv (Got ns name (Inr x))) \<longleftrightarrow> ns = cn_ns n \<and> p = ns_DeletionPolicy (ns_Spec x) \<and>
     (\<exists>c \<in> set_option (GetControllerOf (cn_Meta n)). or_Kind c = ''ChainNodeSet'' \<and> or_Name c = name \<and> or_UID c = ns_uid x)"
| "setPolicy n p _ \<longleftrightarrow> False"

definition policySeen :: "ChainNode \<Rightarrow> DeletionPolicy option \<Rightarrow> act list \<Rightarrow> bool" where
  "policySeen n p h \<longleftrightarrow> p = cn_DeletionPolicy (cn_Spec n) \<or> seen (setPolicy n p) h"

fun policyFor :: "ResourceClass \<Rightarrow> DeletionPolicy option \<Rightarrow> DeletionPolicyType" where
  "policyFor ClassDataVolumes p = GetDataVolumes p"
| "policyFor ClassGeneratedKeys p = GetGeneratedKeys p"
| "policyFor ClassCosmosignerState p = GetCosmosignerState p"

definition nodeDown :: "ChainNode \<Rightarrow> act list \<Rightarrow> bool" where
  "nodeDown n h \<longleftrightarrow> nodePodsGone n h \<and> ownerDown (OwnerNode n) (cn_ns n) h"

lemma nodeDown_lasting [lasts]: "lasting (nodePodsGone n)" "lasting (policySeen n p)" "lasting (nodeDown n)"
proof -
  show g: "lasting (nodePodsGone n)" unfolding nodePodsGone_def by (intro lasts)
  show "lasting (policySeen n p)" unfolding policySeen_def [abs_def] by (intro lasts)
  show "lasting (nodeDown n)" unfolding nodeDown_def [abs_def] by (intro lasts g)
qed

text \<open>A listing shows the object under the control of the node, a claim with these finalizers.\<close>

fun showsControlled :: "ChainNode \<Rightarrow> act \<Rightarrow> act \<Rightarrow> bool" where
  "showsControlled n (SecretEv (Updated x r)) (SecretEv (Listed ns (Inr xs))) \<longleftrightarrow>
     list_ex (\<lambda>y. IsControlledBy (sec_Meta y) (OwnerNode n) \<and> m_Name (sec_Meta y) = m_Name (sec_Meta x) \<and>
                  m_UID (sec_Meta y) = m_UID (sec_Meta x) \<and> sec_Data y = sec_Data x) xs"
| "showsControlled n (ClaimEv (Updated c r)) (ClaimEv (Listed ns (Inr cs))) \<longleftrightarrow>
     list_ex (\<lambda>y. IsControlledBy (pvc_Meta y) (OwnerNode n) \<and> m_Name (pvc_Meta y) = m_Name (pvc_Meta c) \<and>
                  m_UID (pvc_Meta y) = m_UID (pvc_Meta c) \<and> m_Finalizers (pvc_Meta y) = m_Finalizers (pvc_Meta c)) cs"
| "showsControlled n _ _ \<longleftrightarrow> False"

section \<open>The rule\<close>

definition durableEvent :: "ChainNode \<Rightarrow> act list \<Rightarrow> act \<Rightarrow> bool" where
  "durableEvent n h e \<longleftrightarrow> nodeDown n h \<and>
     (\<exists>cls p. policySeen n p h \<and> classEvent (RootOwnerFor (OwnerNode n)) cls (policyFor cls p) (cn_uid n) e)"

fun nodeRule :: "ChainNode \<Rightarrow> act \<Rightarrow> act list \<Rightarrow> bool" where
  "nodeRule n (StsEv (Updated sts r)) h \<longleftrightarrow> stsHeld (OwnerNode n) sts"
| "nodeRule n (StsEv (Deleted sts p r)) h \<longleftrightarrow> p = Some (m_UID (sts_Meta sts)) \<and> stsRetired (OwnerNode n) (cn_ns n) sts h"
| "nodeRule n (NodeEv (Updated x r)) h \<longleftrightarrow> nodeDown n h \<and> m_UID (cn_Meta x) = cn_uid n"
| "nodeRule n e h \<longleftrightarrow> podEvent (OwnerNode n) e \<or> attributeEvent (OwnerNode n) h e \<or> seen (showsControlled n e) h \<or> durableEvent n h e"

lemma node_other:
  "podEvent (OwnerNode n) e \<Longrightarrow> nodeRule n e h" "attributeEvent (OwnerNode n) h e \<Longrightarrow> nodeRule n e h"
  "durableEvent n h e \<Longrightarrow> nodeRule n e h"
  by (cases "(n, e, h)" rule: nodeRule.cases; auto simp: durableEvent_def)+

lemma node_durable:
  "policySeen n p h \<Longrightarrow> nodeDown n h \<Longrightarrow> classEvent (RootOwnerFor (OwnerNode n)) cls (policyFor cls p) (cn_uid n) e \<Longrightarrow>
   nodeRule n e h"
  by (rule node_other) (auto simp: durableEvent_def)

lemma node_state:
  "policySeen n p h \<Longrightarrow> nodePodsGone n h \<Longrightarrow> ownerDown (OwnerNode n) (cn_ns n) h \<Longrightarrow>
   classEvent (RootOwnerFor (OwnerNode n)) ClassCosmosignerState (GetCosmosignerState p) (cn_uid n) e \<Longrightarrow> nodeRule n e h"
  by (rule node_durable [where cls = ClassCosmosignerState]) (auto simp: nodeDown_def)

lemmas node_lasting = lastingD [OF nodeDown_lasting(1)] lastingD [OF nodeDown_lasting(2)] lastingD [OF nodeDown_lasting(3)]

interpretation node: finalize_history
  "\<lambda>h. ruled (nodeRule n) h \<and> policySeen n p h \<and> nodePodsGone n h" "OwnerNode n" "cn_ns n" "GetCosmosignerState p" for n p
  by unfold_locales (auto intro: node_other node_state node_lasting)

interpretation node_pods: owner_history "ruled (nodeRule n)" "OwnerNode n" "cn_ns n" for n
  by unfold_locales (auto intro: node_other)

interpretation node_class: class_history
  "\<lambda>h. ruled (nodeRule n) h \<and> policySeen n p h \<and> nodeDown n h" "RootOwnerFor (OwnerNode n)" cls "policyFor cls p" "cn_uid n"
  for n p cls
  by unfold_locales (auto intro: node_durable node_lasting)

section \<open>The functions\<close>

lemma Prepare_keeps:
  assumes "PrepareGeneratedResource m ow cls b = (m', managed, changed)"
  shows "m_Name m' = m_Name m" "m_UID m' = m_UID m" "m_Finalizers m' = m_Finalizers m"
  using assms Stamp_keeps [of m "RootOwnerFor ow" cls] StampResourceOwner_keeps [of "fst (Stamp m (RootOwnerFor ow) cls)" "owner_uid ow"]
  by (auto simp: PrepareGeneratedResource_def removeMatchingControllerReference_def Let_def split: if_splits prod.splits)

lemma adopt_claim:
  assumes "since h k = ClaimEv (Listed ns (Inr cs)) # l" "prefix h k" "c \<in> set cs" "IsControlledBy (pvc_Meta c) (OwnerNode n)"
    "PrepareGeneratedResource (pvc_Meta c) ow cls b = (m, x, y)"
  shows "nodeRule n (ClaimEv (Updated (c\<lparr>pvc_Meta := m\<rparr>) r)) k"
proof -
  have "seen (showsControlled n (ClaimEv (Updated (c\<lparr>pvc_Meta := m\<rparr>) r))) k"
    by (rule seenI [OF assms(1,2)]) (use assms(3,4) Prepare_keeps [OF assms(5)] in \<open>auto simp: list_ex_iff\<close>)
  then show ?thesis by simp
qed

lemma adopt_secret:
  assumes "since h k = SecretEv (Listed ns (Inr xs)) # l" "prefix h k" "c \<in> set xs" "IsControlledBy (sec_Meta c) (OwnerNode n)"
    "PrepareGeneratedResource (sec_Meta c) ow cls b = (m, x, y)"
  shows "nodeRule n (SecretEv (Updated (c\<lparr>sec_Meta := m\<rparr>) r)) k"
proof -
  have "seen (showsControlled n (SecretEv (Updated (c\<lparr>sec_Meta := m\<rparr>) r))) k"
    by (rule seenI [OF assms(1,2)]) (use assms(3,4) Prepare_keeps [OF assms(5)] in \<open>auto simp: list_ex_iff\<close>)
  then show ?thesis by simp
qed

lemma nodePodsGoneI:
  assumes "since h k = e # PodEv (Listed (cn_ns n) (Inr pods)) # l" "prefix h k"
    "\<forall>p \<in> set pods. (IsControlledBy (pod_Meta p) (OwnerNode n) \<longrightarrow> seen (podAbsent p) l) \<and>
       (IsDeterministicChainNodePodName (m_Name (pod_Meta p)) (cn_name n) \<longrightarrow> IsControlledBy (pod_Meta p) (OwnerNode n))"
  shows "nodePodsGone n k"
  by (rule lasting_whole [OF nodeDown_lasting(1) _ assms(2)]) (use assms(1,3) in \<open>simp add: nodePodsGone_def\<close>)

lemma wp_quiesceNodePod [wps]:
  assumes "ruled (nodeRule n) h" and Q: "\<And>d k. ruled (nodeRule n) k \<Longrightarrow> prefix h k \<Longrightarrow> (d \<longrightarrow> nodePodsGone n k) \<Longrightarrow> Q d k"
  shows "wp (ruled (nodeRule n)) (quiesceNodePod (logged K) n) Q h"
proof -
  let ?F = "\<lambda>p h. (IsControlledBy (pod_Meta p) (OwnerNode n) \<longrightarrow> seen (podAbsent p) h) \<and>
       (IsDeterministicChainNodePodName (m_Name (pod_Meta p)) (cn_name n) \<longrightarrow> IsControlledBy (pod_Meta p) (OwnerNode n))"
  have "lasting (?F p)" for p by (intro lasts)
  then show ?thesis
    unfolding quiesceNodePod_def quiescePod_def run_defs
    by (intro wps wp_collect [where F = ?F and ok = "\<lambda>b. b"]) (auto simp: assms(1) intro!: Q intro: nodePodsGoneI)
qed

lemma wp_effectiveDeletionPolicy [wps]:
  assumes "ruled (nodeRule n) h" and Q: "\<And>p k. ruled (nodeRule n) k \<Longrightarrow> prefix h k \<Longrightarrow> policySeen n p k \<Longrightarrow> Q p k"
  shows "wp (ruled (nodeRule n)) (effectiveDeletionPolicy (logged K) n) Q h"
  unfolding effectiveDeletionPolicy_def run_defs Let_def
  by (intro wps) (auto simp: assms(1) policySeen_def intro!: Q)

lemma wp_refuseOrphanedRecordedChild [wps]:
  assumes "ruled (nodeRule n) h" and Q: "\<And>k. ruled (nodeRule n) k \<Longrightarrow> prefix h k \<Longrightarrow> Q () k"
  shows "wp (ruled (nodeRule n)) (refuseOrphanedRecordedChild (logged K) n) Q h"
  unfolding refuseOrphanedRecordedChild_def run_defs
  by (intro wps) (auto simp: assms(1) intro!: Q)

lemma wp_attributeVolumes [wps]:
  assumes "ruled (nodeRule n) h" and Q: "\<And>k. ruled (nodeRule n) k \<Longrightarrow> prefix h k \<Longrightarrow> Q () k"
  shows "wp (ruled (nodeRule n)) (attributeControlledLegacyDataVolumes (logged K) n) Q h"
  unfolding attributeControlledLegacyDataVolumes_def adoptClaim_def forAll_def run_defs
  by (intro wps wp_each) (auto simp: assms(1) simp del: nodeRule.simps intro!: Q wp_ret intro: adopt_claim split: ctl.splits)

lemma wp_attributeKeys [wps]:
  assumes "ruled (nodeRule n) h" and Q: "\<And>k. ruled (nodeRule n) k \<Longrightarrow> prefix h k \<Longrightarrow> Q () k"
  shows "wp (ruled (nodeRule n)) (attributeControlledLegacyKeys (logged K) n) Q h"
  unfolding attributeControlledLegacyKeys_def adoptSecret_def forAll_def run_defs
  by (intro wps wp_each) (auto simp: assms(1) simp del: nodeRule.simps intro!: Q wp_ret intro: adopt_secret split: ctl.splits)

lemma wp_nodeOwner [wps]:
  assumes "ruled (nodeRule n) h" "policySeen n p h" "nodePodsGone n h"
    and Q: "\<And>d k. ruled (nodeRule n) k \<Longrightarrow> prefix h k \<Longrightarrow> policySeen n p k \<Longrightarrow> (d \<longrightarrow> nodeDown n k) \<Longrightarrow> Q d k"
  shows "wp (ruled (nodeRule n)) (FinalizeOwner (logged K) (OwnerNode n) (cn_ns n) (GetCosmosignerState p)) Q h"
  by (rule wp_knowing [where B = "\<lambda>h. policySeen n p h \<and> nodePodsGone n h"], rule node.wp_FinalizeOwner)
    (use assms in \<open>auto simp: nodeDown_def\<close>)

lemma wp_nodeClass:
  assumes "ruled (nodeRule n) h" "policySeen n p h" "nodeDown n h" "policyFor cls p = pol" "cn_uid n = u"
    and Q: "\<And>d k. ruled (nodeRule n) k \<Longrightarrow> prefix h k \<Longrightarrow> policySeen n p k \<Longrightarrow> nodeDown n k \<Longrightarrow> Q d k"
  shows "wp (ruled (nodeRule n)) (FinalizeClass (logged K) (RootOwnerFor (OwnerNode n)) cls pol u fs) Q h"
  unfolding assms(4,5) [symmetric]
  by (rule wp_knowing [where B = "\<lambda>h. policySeen n p h \<and> nodeDown n h"], rule node_class.wp_FinalizeClass) (use assms in auto)

lemma wp_finalizeDurables [wps]:
  assumes "ruled (nodeRule n) h" "policySeen n p h" "nodeDown n h"
    and Q: "\<And>d k. ruled (nodeRule n) k \<Longrightarrow> prefix h k \<Longrightarrow> nodeDown n k \<Longrightarrow> Q d k"
  shows "wp (ruled (nodeRule n)) (finalizeDurables (logged K) (OwnerNode n) p) Q h"
  unfolding finalizeDurables_def
  by (intro wps wp_nodeClass [where p = p]) (use assms prefix_order.trans [of h] in \<open>auto intro!: Q\<close>)

lemma wp_dropNodeFinalizers [wps]:
  assumes "ruled (nodeRule n) h" "nodeDown n h" and Q: "\<And>x k. ruled (nodeRule n) k \<Longrightarrow> prefix h k \<Longrightarrow> nodeDown n k \<Longrightarrow> Q x k"
  shows "wp (ruled (nodeRule n)) (dropNodeFinalizers (logged K) n) Q h"
  unfolding dropNodeFinalizers_def run_defs
  by (intro wps) (use assms dropFinalizers_keeps(2) [of "[cleanupFinalizer, OwnerFinalizer]" "cn_Meta n"] in
    \<open>auto intro!: Q intro: lastingD [OF nodeDown_lasting(3)]\<close>)

lemma wp_finalizeResources [wps]:
  assumes "ruled (nodeRule n) h" and Q: "\<And>x k. ruled (nodeRule n) k \<Longrightarrow> prefix h k \<Longrightarrow> (x \<noteq> None \<longrightarrow> nodeDown n k) \<Longrightarrow> Q x k"
  shows "wp (ruled (nodeRule n)) (finalizeResources (logged K) n) Q h"
  unfolding finalizeResources_def doneOr_def
  by (intro wps) (use assms(1) in \<open>auto intro!: Q intro: node_lasting prefix_order.trans\<close>)


end
