(* ===== verification/Release_Safety.thy ===== *)
theory Release_Safety
  imports Node_Teardown
begin

text \<open>
  What every run of \<open>finalizeConsensusKeyReservationOwner\<close> of a ChainNode satisfies
  (\<open>src/internal/controllers/chainnode/reservation_lifecycle.go\<close> and
  \<open>src/internal/cosmosigner/reservation_lifecycle.go\<close>): a consensus key is released only after every path that could
  sign with it was seen gone.
\<close>

section \<open>What was seen\<close>

fun listedJobs :: "string \<Rightarrow> act \<Rightarrow> Job list option" where
  "listedJobs ns (JobEv (Listed ns' (Inr xs))) = (if ns' = ns then Some xs else None)"
| "listedJobs ns _ = None"

fun jobAbsent :: "string \<Rightarrow> string \<Rightarrow> act \<Rightarrow> bool" where
  "jobAbsent ns name (JobEv (Got ns' n (Inl NotFound))) \<longleftrightarrow> ns' = ns \<and> n = name"
| "jobAbsent ns name _ \<longleftrightarrow> False"

fun noJobPods :: "string \<Rightarrow> string \<Rightarrow> act \<Rightarrow> bool" where
  "noJobPods ns name (PodEv (Listed ns' (Inr pods))) \<longleftrightarrow>
     ns' = ns \<and> \<not> list_ex (\<lambda>pod. HasPrefix (m_Name (pod_Meta pod)) (name @ ''-'')) pods"
| "noJobPods ns name _ \<longleftrightarrow> False"

text \<open>The job was seen absent, and then no pod of it was left.\<close>

definition jobGone :: "string \<Rightarrow> string \<Rightarrow> act list \<Rightarrow> bool" where
  "jobGone ns name = after (jobAbsent ns name) (seen (noJobPods ns name))"

definition rootSigner :: "ChainNode \<Rightarrow> StatefulSet \<Rightarrow> bool" where
  "rootSigner n sts \<longleftrightarrow> IsOwnedSignerStatefulSet sts (OwnerNode n) \<or> IsOwnedDeterministicSignerStatefulSet sts (OwnerNode n)"

definition rootJob :: "ChainNode \<Rightarrow> Job \<Rightarrow> bool" where
  "rootJob n job \<longleftrightarrow> managedSigningOneShotBelongsToRoot (m_Name (job_Meta job)) (m_Labels (job_Meta job)) (OwnerNode n)"

text \<open>A listing without a pod of a signer of the node, by label or by name.\<close>

fun noRootPods :: "ChainNode \<Rightarrow> act \<Rightarrow> bool" where
  "noRootPods n (PodEv (Listed ns (Inr pods))) \<longleftrightarrow> ns = cn_ns n \<and>
     \<not> list_ex (\<lambda>pod. signerPodBelongsToRoot pod (OwnerNode n) \<or>
                     isStatefulSetReplicaPodName (m_Name (pod_Meta pod)) (cosmosignerName n)) pods"
| "noRootPods n _ \<longleftrightarrow> False"

definition rootSignersGone :: "ChainNode \<Rightarrow> act list \<Rightarrow> bool" where
  "rootSignersGone n = afterAnswer (listedSts (cn_ns n))
     (\<lambda>stss h. \<forall>sts \<in> set stss. rootSigner n sts \<longrightarrow> signerGone (cn_ns n) (m_Name (sts_Meta sts)) h)"

definition rootJobsGone :: "ChainNode \<Rightarrow> act list \<Rightarrow> bool" where
  "rootJobsGone n = afterAnswer (listedJobs (cn_ns n))
     (\<lambda>jobs h. \<forall>job \<in> set jobs. rootJob n job \<longrightarrow> jobGone (cn_ns n) (m_Name (job_Meta job)) h)"

text \<open>The signer of the node is gone, and so are all signers and one-shot workloads it was seen to have; at the end no
  pod of them was left.\<close>

definition pathsGone :: "ChainNode \<Rightarrow> act list \<Rightarrow> bool" where
  "pathsGone n h \<longleftrightarrow> signerGone (cn_ns n) (cosmosignerName n) h \<and> rootSignersGone n h \<and> rootJobsGone n h \<and> seen (noRootPods n) h"

text \<open>Every pod of the node is gone, and none that is named like one of its signing pods belongs to somebody else.\<close>

definition signingPodsGone :: "ChainNode \<Rightarrow> act list \<Rightarrow> bool" where
  "signingPodsGone n = afterAnswer (listedPods (cn_ns n)) (\<lambda>pods h.
     \<forall>p \<in> set pods. (IsControlledBy (pod_Meta p) (OwnerNode n) \<longrightarrow> seen (podAbsent p) h) \<and>
       (isChainNodeSigningPodName (m_Name (pod_Meta p)) (cn_name n) \<longrightarrow> IsControlledBy (pod_Meta p) (OwnerNode n)))"

lemma jobGone_list [simp]:
  "\<not> jobGone ns name []"
  "jobGone ns name (e # h) \<longleftrightarrow> (jobAbsent ns name e \<and> seen (noJobPods ns name) h) \<or> jobGone ns name h"
  "jobGone ns name (snoc h e) \<longleftrightarrow> jobGone ns name h \<or> (noJobPods ns name e \<and> seen (jobAbsent ns name) h)"
  by (auto simp: jobGone_def)

lemma jobGone_lasting [lasts]: "lasting (jobGone ns name)"
  unfolding jobGone_def by (intro lasts)

lemma pathsGone_lasting [lasts]:
  "lasting (rootSignersGone n)" "lasting (rootJobsGone n)" "lasting (pathsGone n)" "lasting (signingPodsGone n)"
proof -
  show s: "lasting (rootSignersGone n)" unfolding rootSignersGone_def by (intro lasts)
  show j: "lasting (rootJobsGone n)" unfolding rootJobsGone_def by (intro lasts)
  show "lasting (pathsGone n)" unfolding pathsGone_def [abs_def] by (intro lasts s j)
  show "lasting (signingPodsGone n)" unfolding signingPodsGone_def by (intro lasts)
qed

section \<open>The rule\<close>

fun releaseRule :: "ChainNode \<Rightarrow> act \<Rightarrow> act list \<Rightarrow> bool" where
  "releaseRule n (StsEv (Updated sts r)) h \<longleftrightarrow> stsHeld (OwnerNode n) sts"
| "releaseRule n (StsEv (Deleted sts p r)) h \<longleftrightarrow> p = Some (m_UID (sts_Meta sts)) \<and> stsRetired (OwnerNode n) (cn_ns n) sts h"
| "releaseRule n (PodEv (Deleted x p r)) h \<longleftrightarrow> IsControlledBy (pod_Meta x) (OwnerNode n) \<and> p = Some (m_UID (pod_Meta x)) \<and> m_UID (pod_Meta x) \<noteq> []"
| "releaseRule n (JobEv (Deleted x p r)) h \<longleftrightarrow> IsControlledBy (job_Meta x) (OwnerNode n) \<and> p = Some (m_UID (job_Meta x)) \<and> m_UID (job_Meta x) \<noteq> []"
| "releaseRule n (ReservationDeleted name u r) h \<longleftrightarrow> pathsGone n h \<and> signingPodsGone n h \<and> u \<noteq> []"
| "releaseRule n (NodeEv (Updated x r)) h \<longleftrightarrow> pathsGone n h \<and> signingPodsGone n h \<and> cn_uid x = cn_uid n"
| "releaseRule n e h \<longleftrightarrow> False"

interpretation release: signer_history "ruled (releaseRule n)" "OwnerNode n" "cn_ns n" for n
  by unfold_locales auto

section \<open>Signing paths\<close>

lemma set_sortedUnique [simp]: "set (sortedUnique xs) = set xs - {[]}"
proof -
  have "set (fold (\<lambda>v acc. if v = [] \<or> v \<in> set acc then acc else v # acc) xs acc) = set acc \<union> (set xs - {[]})" for acc :: "string list"
    by (induction xs arbitrary: acc) auto
  then show ?thesis by (simp add: sortedUnique_def)
qed

lemma wp_onDone:
  "wp J m (\<lambda>r k. Q (case r of PathDone \<Rightarrow> Next () | _ \<Rightarrow> Return r) k) h \<Longrightarrow> wp J (onDone m) Q h"
  unfolding onDone_def by (rule wp_seq, erule wp_mono) (auto intro!: wp_ret split: path_result.splits)

lemma wp_cleanupSigner [wps]:
  assumes "ruled (releaseRule n) h"
    "\<And>r k. ruled (releaseRule n) k \<Longrightarrow> prefix h k \<Longrightarrow> (r = PathDone \<longrightarrow> signerGone (cn_ns n) name (since h k)) \<Longrightarrow> Q r k"
  shows "wp (ruled (releaseRule n)) (cleanupSigner (logged R) (logged K) (OwnerNode n) (cn_ns n) name) Q h"
  unfolding cleanupSigner_def getSts_def run_defs Let_def
  by (intro wps) (use assms in auto)

lemma wp_cleanupManagedSigningJob [wps]:
  assumes "ruled (releaseRule n) h"
    "\<And>r k. ruled (releaseRule n) k \<Longrightarrow> prefix h k \<Longrightarrow> (r = PathDone \<longrightarrow> jobGone (cn_ns n) name (since h k)) \<Longrightarrow> Q r k"
  shows "wp (ruled (releaseRule n)) (cleanupManagedSigningJob (logged R) (logged K) (OwnerNode n) (cn_ns n) name) Q h"
  unfolding cleanupManagedSigningJob_def managedSigningJobPodsGone_def run_defs Let_def
  by (intro wps) (use assms in \<open>auto simp: find_None_iff list_ex_iff\<close>)

lemma wp_cleanupDirectOwnedPod [wps]:
  assumes "ruled (releaseRule n) h" "\<And>r k. ruled (releaseRule n) k \<Longrightarrow> prefix h k \<Longrightarrow> Q r k"
  shows "wp (ruled (releaseRule n)) (cleanupDirectOwnedPod (logged R) (logged K) (OwnerNode n) ns name) Q h"
  unfolding cleanupDirectOwnedPod_def run_defs Let_def
  by (intro wps) (use assms in auto)

lemma wp_names:
  assumes "J h" "\<And>x. lasting (F x)"
    and body: "\<And>x b k. J k \<Longrightarrow> wp J (body x b) (\<lambda>c k'. c \<noteq> Return PathDone \<and> (c = Next () \<longrightarrow> F x (since k k'))) k"
    and Q: "\<And>c k. J k \<Longrightarrow> prefix h k \<Longrightarrow> c \<noteq> Return PathDone \<Longrightarrow> (c = Next () \<longrightarrow> (\<forall>x \<in> set xs. F x (since h k))) \<Longrightarrow> Q c k"
  shows "wp J (forEach body xs ()) Q h"
proof (rule wp_collect [where F = F and ok = "\<lambda>b. True"])
  fix x b k assume *: "J k" "prefix h k"
  show "wp J (body x b) (\<lambda>c k'. case c of Return r \<Rightarrow> Q (Return r) k' | Next b' \<Rightarrow> True \<longrightarrow> True \<and> F x (since k k')) k"
    using * prefix_order.trans [of h k] by (intro wp_mono [OF body]) (auto intro!: Q split: ctl.splits)
qed (use assms in auto)

lemma wp_signers_loop [wps]:
  assumes "ruled (releaseRule n) h"
    and "\<And>c k. ruled (releaseRule n) k \<Longrightarrow> prefix h k \<Longrightarrow> c \<noteq> Return PathDone \<Longrightarrow>
      (c = Next () \<longrightarrow> (\<forall>name \<in> set names. signerGone (cn_ns n) name (since h k))) \<Longrightarrow> Q c k"
  shows "wp (ruled (releaseRule n))
    (forEach (\<lambda>name u. onDone (cleanupSigner (logged R) (logged K) (OwnerNode n) (cn_ns n) name)) names ()) Q h"
  by (rule wp_names [where F = "signerGone (cn_ns n)"])
    (use assms in \<open>auto intro!: wps wp_onDone intro: lasts split: path_result.splits\<close>)

lemma wp_jobs_loop [wps]:
  assumes "ruled (releaseRule n) h"
    and "\<And>c k. ruled (releaseRule n) k \<Longrightarrow> prefix h k \<Longrightarrow> c \<noteq> Return PathDone \<Longrightarrow>
      (c = Next () \<longrightarrow> (\<forall>name \<in> set names. jobGone (cn_ns n) name (since h k))) \<Longrightarrow> Q c k"
  shows "wp (ruled (releaseRule n))
    (forEach (\<lambda>name u. seq (onDone (cleanupManagedSigningJob (logged R) (logged K) (OwnerNode n) (cn_ns n) name)) (\<lambda>c.
           case c of Return r \<Rightarrow> ret (Return r)
           | Next _ \<Rightarrow> onDone (cleanupDirectOwnedPod (logged R) (logged K) (OwnerNode n) (cn_ns n) name))) names ()) Q h"
  by (rule wp_names [where F = "jobGone (cn_ns n)"])
    (use assms in \<open>auto intro!: wps wp_onDone intro: lasts lasting_earlier [OF jobGone_lasting] split: path_result.splits\<close>)

lemma wp_pods_loop [wps]:
  assumes "ruled (releaseRule n) h" and "\<And>c k. ruled (releaseRule n) k \<Longrightarrow> prefix h k \<Longrightarrow> c \<noteq> Return PathDone \<Longrightarrow> Q c k"
  shows "wp (ruled (releaseRule n))
    (forEach (\<lambda>name u. onDone (cleanupDirectOwnedPod (logged R) (logged K) (OwnerNode n) (cn_ns n) name)) names ()) Q h"
  by (rule wp_names [where F = "\<lambda>x h. True"])
    (use assms in \<open>auto intro!: wps wp_onDone intro: lasts split: path_result.splits\<close>)

lemma lasting_parts:
  assumes "\<And>x. lasting (F x)" "\<And>x. lasting (G x)" "prefix h k" "prefix k l" "prefix l m"
    "\<forall>x \<in> A. F x (since h k)" "\<forall>x \<in> B. G x (since k l)"
  shows "prefix h m \<and> (\<forall>x \<in> A. F x (since h m)) \<and> (\<forall>x \<in> B. G x (since h m))"
proof -
  have km: "prefix k m" and hm: "prefix h m" using assms(3-5) prefix_order.trans by blast+
  have "\<forall>x \<in> A. F x (since h m)" using assms(6) lasting_earlier [OF assms(1) _ assms(3) km] by blast
  moreover have "\<forall>x \<in> B. G x (since k m)" using assms(7) lasting_earlier [OF assms(2) _ assms(4,5)] by blast
  then have "\<forall>x \<in> B. G x (since h m)" using lasting_within [OF assms(2) _ assms(3) km] by blast
  ultimately show ?thesis using hm by blast
qed

lemma wp_CleanupManagedSigningPath [wps]:
  assumes "ruled (releaseRule n) h"
    and Q: "\<And>r k. ruled (releaseRule n) k \<Longrightarrow> prefix h k \<Longrightarrow>
      (r = PathDone \<longrightarrow> (\<forall>name \<in> set (mp_StatefulSetNames path) - {[]}. signerGone (cn_ns n) name (since h k)) \<and>
                        (\<forall>name \<in> set (mp_OneShotNames path) - {[]}. jobGone (cn_ns n) name (since h k))) \<Longrightarrow> Q r k"
  shows "wp (ruled (releaseRule n)) (CleanupManagedSigningPath (logged R) (logged K) (OwnerNode n) (cn_ns n) path) Q h"
proof -
  have early: "Q r m" if "ruled (releaseRule n) m" "r \<noteq> PathDone" "prefix h k" "prefix k l" "prefix l m" for r k l m
    by (rule Q) (use that prefix_order.trans [of h] in blast)+
  have final: "Q PathDone m" if "ruled (releaseRule n) m" "prefix h k" "prefix k l" "prefix l m"
    "\<forall>name \<in> set (mp_StatefulSetNames path) - {[]}. signerGone (cn_ns n) name (since h k)"
    "\<forall>name \<in> set (mp_OneShotNames path) - {[]}. jobGone (cn_ns n) name (since k l)" for k l m
    by (rule Q) (use that lasting_parts [OF signerGone_lasting jobGone_lasting that(2-6)] in simp_all)
  show ?thesis
    unfolding CleanupManagedSigningPath_def run_defs
    by (intro wps) (auto simp: assms(1) intro: early [where k = h and l = h] early [where l = h] early final)
qed

lemma classifyPod_keeps: "set (fst acc) \<subseteq> set (fst (fold (classifyPod ow uids) pods acc))"
proof (induction pods arbitrary: acc)
  case (Cons p pods)
  have "set (fst acc) \<subseteq> set (fst (classifyPod ow uids p acc))" by (auto simp: classifyPod_def Let_def split: prod.splits)
  then show ?case using Cons.IH [of "classifyPod ow uids p acc"] by simp
qed simp

lemma wp_finalizeSignerSts [wps]:
  assumes "ruled (releaseRule n) h" "\<And>c k. ruled (releaseRule n) k \<Longrightarrow> prefix h k \<Longrightarrow>
      (case c of Return d \<Rightarrow> \<not> d
       | Next names' \<Rightarrow> set names \<subseteq> set names' \<and> (rootSigner n sts \<longrightarrow> signerGone (cn_ns n) (m_Name (sts_Meta sts)) (since h k))) \<Longrightarrow> Q c k"
  shows "wp (ruled (releaseRule n)) (finalizeSignerSts (logged R) (logged K) (OwnerNode n) (cn_ns n) sts names) Q h"
  unfolding finalizeSignerSts_def getSts_def run_defs
  by (intro wps) (auto simp: assms(1) rootSigner_def intro!: assms(2))

lemma wp_signer_sts_loop [wps]:
  assumes "ruled (releaseRule n) h" and Q: "\<And>c k. ruled (releaseRule n) k \<Longrightarrow> prefix h k \<Longrightarrow>
      (case c of Return d \<Rightarrow> \<not> d
       | Next names' \<Rightarrow> set names \<subseteq> set names' \<and>
           (\<forall>sts \<in> set stss. rootSigner n sts \<longrightarrow> signerGone (cn_ns n) (m_Name (sts_Meta sts)) (since h k))) \<Longrightarrow> Q c k"
  shows "wp (ruled (releaseRule n)) (forEach (finalizeSignerSts (logged R) (logged K) (OwnerNode n) (cn_ns n)) stss names) Q h"
proof (rule wp_gather [where I = "\<lambda>names'. set names \<subseteq> set names'" and ok = "\<lambda>b. True" and
      F = "\<lambda>sts h. rootSigner n sts \<longrightarrow> signerGone (cn_ns n) (m_Name (sts_Meta sts)) h"])
qed (use assms(1) in \<open>auto intro!: wps Q intro: prefix_order.trans lasts split: ctl.splits\<close>, blast+)

lemma wp_jobs_classified [wps]:
  assumes "ruled (releaseRule n) h" and Q: "\<And>names. (\<forall>job \<in> set jobs. rootJob n job \<longrightarrow> m_Name (job_Meta job) \<in> set names) \<Longrightarrow> Q (Next ([], names)) h"
  shows "wp (ruled (releaseRule n)) (forEach (classifyJob (OwnerNode n) []) jobs ([], [])) Q h"
proof (rule wp_loop [where I = "\<lambda>ys b k. k = h \<and> fst b = [] \<and> (\<forall>job \<in> set ys. rootJob n job \<longrightarrow> m_Name (job_Meta job) \<in> set (snd b))"])
qed (use assms(1) in \<open>auto simp: classifyJob_def rootJob_def controlledByAnyUID_def intro!: wps Q split: option.splits\<close>)

lemma rootJob_named: "rootJob n job \<Longrightarrow> m_Name (job_Meta job) \<noteq> []"
  by (auto simp: rootJob_def managedSigningOneShotBelongsToRoot_def isManagedSigningOneShotName_def HasSuffix_def split: if_splits)

text \<open>The parts of \<open>FinalizeConsensusKeySigningPaths\<close>, in order.\<close>

lemma pathsGoneI:
  assumes "prefix h k" "since h k = StsEv (Listed (cn_ns n) (Inr stss)) # l1"
    "\<forall>sts \<in> set stss. rootSigner n sts \<longrightarrow> signerGone (cn_ns n) (m_Name (sts_Meta sts)) l1"
    "prefix k p" "since k p = JobEv (Listed (cn_ns n) (Inr jobs)) # e # l2"
    and names: "set (reservationOwnerSignerNames (OwnerNode n)) \<subseteq> set names"
    and jobs: "\<forall>job \<in> set jobs. rootJob n job \<longrightarrow> m_Name (job_Meta job) \<in> set jobNames"
      "fold (classifyPod (OwnerNode n) {}) ps (jobNames, []) = (oneShots, podNames)"
    and l2: "\<forall>name \<in> set names - {[]}. signerGone (cn_ns n) name l2" "\<forall>name \<in> set oneShots - {[]}. jobGone (cn_ns n) name l2"
    and pods: "\<not> list_ex (signingPodLeft (OwnerNode n) {} names) pods"
  shows "pathsGone n (snoc p (PodEv (Listed (cn_ns n) (Inr pods))))"
proof -
  have own: "cosmosignerName n \<in> set names - {[]}"
    using names by (simp add: reservationOwnerSignerNames_def cosmosignerName_def)
  have "signerGone (cn_ns n) (cosmosignerName n) (since k p)" using l2(1) own assms(5) by simp
  then have "signerGone (cn_ns n) (cosmosignerName n) p" by (rule lasting_whole [OF signerGone_lasting _ assms(4)])
  moreover have "rootSignersGone n k"
    unfolding rootSignersGone_def by (rule afterAnswerI [OF assms(2,1)]) (use assms(3) in simp_all)
  then have "rootSignersGone n p" by (rule lastingD [OF pathsGone_lasting(1) _ assms(4)])
  moreover have "\<forall>job \<in> set jobs. rootJob n job \<longrightarrow> jobGone (cn_ns n) (m_Name (job_Meta job)) (e # l2)"
    using jobs l2(2) rootJob_named classifyPod_keeps [of "(jobNames, [])" "OwnerNode n" "{}" ps] by auto
  then have "rootJobsGone n p"
    unfolding rootJobsGone_def by (intro afterAnswerI [OF assms(5,4)]) simp_all
  moreover have "noRootPods n (PodEv (Listed (cn_ns n) (Inr pods)))"
    using pods own by (auto simp: list_ex_iff signingPodLeft_def podMatchesSignerNames_def controlledByAnyUID_def split: option.splits)
  ultimately show ?thesis
    using lastingD [OF pathsGone_lasting(1)] lastingD [OF pathsGone_lasting(2)] snoc_simps(1) by (fastforce simp: pathsGone_def)
qed

lemma wp_path_result [wps]:
  "(r = PathDone \<Longrightarrow> wp J m Q h) \<Longrightarrow> (\<And>x. r = PathWaiting x \<Longrightarrow> wp J (f x) Q h) \<Longrightarrow> (\<And>x. r = PathBlocked x \<Longrightarrow> wp J (g x) Q h) \<Longrightarrow>
   wp J (case r of PathDone \<Rightarrow> m | PathWaiting x \<Rightarrow> f x | PathBlocked x \<Rightarrow> g x) Q h"
  by (cases r) auto

lemma wp_FinalizeConsensusKeySigningPaths [wps]:
  assumes "ruled (releaseRule n) h" and Q: "\<And>d k. ruled (releaseRule n) k \<Longrightarrow> prefix h k \<Longrightarrow> (d \<longrightarrow> pathsGone n k) \<Longrightarrow> Q d k"
  shows "wp (ruled (releaseRule n)) (FinalizeConsensusKeySigningPaths (logged R) (logged K) (OwnerNode n) (cn_ns n)) Q h"
  unfolding FinalizeConsensusKeySigningPaths_def run_defs Let_def owner_object.case
  by (intro wps) (auto simp: assms(1) intro!: Q, rule pathsGoneI, assumption+)

section \<open>Pods and reservations\<close>

lemma signingPodsGoneI:
  "since h k = PodEv (Listed (cn_ns n) (Inr pods)) # l \<Longrightarrow> prefix h k \<Longrightarrow>
   (\<forall>p \<in> set pods. (IsControlledBy (pod_Meta p) (OwnerNode n) \<longrightarrow> seen (podAbsent p) l) \<and>
       (isChainNodeSigningPodName (m_Name (pod_Meta p)) (cn_name n) \<longrightarrow> IsControlledBy (pod_Meta p) (OwnerNode n))) \<Longrightarrow>
   signingPodsGone n k"
  unfolding signingPodsGone_def by (rule afterAnswerI) auto

lemma wp_finalizeOwnedSigningPods [wps]:
  assumes "ruled (releaseRule n) h" and Q: "\<And>d k. ruled (releaseRule n) k \<Longrightarrow> prefix h k \<Longrightarrow> (d \<longrightarrow> signingPodsGone n k) \<Longrightarrow> Q d k"
  shows "wp (ruled (releaseRule n)) (finalizeOwnedSigningPods (logged R) (logged K) n) Q h"
proof -
  let ?F = "\<lambda>p h. (IsControlledBy (pod_Meta p) (OwnerNode n) \<longrightarrow> seen (podAbsent p) h) \<and>
       (isChainNodeSigningPodName (m_Name (pod_Meta p)) (cn_name n) \<longrightarrow> IsControlledBy (pod_Meta p) (OwnerNode n))"
  have "lasting (?F p)" for p by (intro lasts)
  moreover have "controlledByUID (pod_Meta p) (cn_uid n) = IsControlledBy (pod_Meta p) (OwnerNode n)" for p
    by (simp add: IsControlledBy_def)
  ultimately show ?thesis
    unfolding finalizeOwnedSigningPods_def finalizeSigningPod_def Let_def run_defs
    by (intro wps wp_collect [where F = ?F and ok = "\<lambda>b. True"]) (auto simp: assms(1) intro!: Q wp_ret intro: signingPodsGoneI)
qed

lemma wp_ReleaseClaim [wps]:
  assumes "ruled (releaseRule n) h" "pathsGone n h" "signingPodsGone n h"
    and Q: "\<And>d k. ruled (releaseRule n) k \<Longrightarrow> prefix h k \<Longrightarrow> Q d k"
  shows "wp (ruled (releaseRule n)) (ReleaseConsensusKeyReservationClaim (logged_kube C) (OwnerNode n) r) Q h"
  unfolding ReleaseConsensusKeyReservationClaim_def logged_kube_sel Let_def
  by (intro wps) (auto simp: assms(1-3) intro!: Q)

text \<open>The loop of \<open>ReleaseConsensusKeyReservations\<close>, whose result also has the names released so far.\<close>

lemma releaseLoop_ruled:
  assumes "ruled (releaseRule n) h" "pathsGone n h" "signingPodsGone n h"
    "releaseLoop (logged_kube C) (OwnerNode n) kind released rs (s, h) = (r, s', h')"
  shows "ruled (releaseRule n) h' \<and> prefix h h'"
  using assms
proof (induction rs arbitrary: released s h)
  case Nil
  then show ?case by (auto simp: unlogged_def split: prod.splits sum.splits)
next
  case (Cons x rs)
  show ?case
  proof (cases "rs_OwnerUID (ckr_Spec x) \<noteq> cn_uid n \<or> rs_OwnerKind (ckr_Spec x) \<noteq> kind")
    case True
    then show ?thesis using Cons by (auto split: if_splits)
  next
    case False
    obtain d s1 h1 where d: "ReleaseConsensusKeyReservationClaim (logged_kube C) (OwnerNode n) x (s, h) = (d, s1, h1)"
      by (cases "ReleaseConsensusKeyReservationClaim (logged_kube C) (OwnerNode n) x (s, h)") auto
    have h1: "prefix h h1 \<and> ruled (releaseRule n) h1"
      by (rule wp_run [OF wp_ReleaseClaim [where Q = "\<lambda>d k. True"] d]) (use Cons.prems in auto)
    then have "pathsGone n h1" "signingPodsGone n h1"
      using Cons.prems(2,3) lastingD [OF pathsGone_lasting(3)] lastingD [OF pathsGone_lasting(4)] by blast+
    then show ?thesis
      using Cons.prems(4) Cons.IH [of h1] d h1 False prefix_order.trans [of h h1] by (auto split: sum.splits if_splits)
  qed
qed

lemma wp_releaseReservations [wps]:
  assumes "ruled (releaseRule n) h" "pathsGone n h" "signingPodsGone n h"
    and Q: "\<And>d k. ruled (releaseRule n) k \<Longrightarrow> prefix h k \<Longrightarrow> Q d k"
  shows "wp (ruled (releaseRule n)) (releaseReservations (logged_kube C) (OwnerNode n)) Q h"
proof (rule wpI)
  fix s r s' h' assume run: "releaseReservations (logged_kube C) (OwnerNode n) (s, h) = (r, s', h')"
  have "ruled (releaseRule n) h' \<and> prefix h h'"
    using run assms(1)
    by (auto simp: releaseReservations_def ReleaseConsensusKeyReservations_def unlogged_def
        split: prod.splits sum.splits option.splits dest: releaseLoop_ruled [OF assms(1-3)])
  then show "prefix h h' \<and> ruled (releaseRule n) h' \<and> (\<forall>x. r = Inr x \<longrightarrow> Q x h')" using Q by blast
qed

lemma wp_removeReservationFinalizer [wps]:
  assumes "ruled (releaseRule n) h" "pathsGone n h" "signingPodsGone n h"
    and Q: "\<And>k. ruled (releaseRule n) k \<Longrightarrow> prefix h k \<Longrightarrow> Q () k"
  shows "wp (ruled (releaseRule n)) (removeConsensusKeyReservationFinalizer (logged R) (logged K) n) Q h"
  unfolding removeConsensusKeyReservationFinalizer_def run_defs
  by (intro wps) (use lastingD [OF pathsGone_lasting(3) assms(2)] lastingD [OF pathsGone_lasting(4) assms(3)] in
    \<open>auto simp: assms(1) RemoveFinalizer_def intro!: Q\<close>)

lemma wp_hasReservations [wps]:
  assumes "ruled (releaseRule n) h" and Q: "\<And>d. Q d h"
  shows "wp (ruled (releaseRule n)) (hasReservations (logged_kube C) ow) Q h"
  unfolding hasReservations_def HasConsensusKeyReservationsForOwner_def logged_kube_sel
  by (intro wps) (auto simp: assms(1) intro!: Q)

lemma wp_finalizeReservationOwner:
  assumes "ruled (releaseRule n) h" and Q: "\<And>d k. ruled (releaseRule n) k \<Longrightarrow> prefix h k \<Longrightarrow> Q d k"
  shows "wp (ruled (releaseRule n)) (finalizeConsensusKeyReservationOwner (logged_kube C) (logged R) (logged K) n) Q h"
  unfolding finalizeConsensusKeyReservationOwner_def doneOr_def
  by (intro wps) (auto simp: assms(1) intro!: Q intro: lastingD [OF pathsGone_lasting(3)] lastingD [OF pathsGone_lasting(4)])

text \<open>C6: The consensus-key reservations of a ChainNode are deleted, each under its UID, and the finalizer that keeps the node
  until then is dropped, only after every signer of the node was seen absent with no pod left, every key job of it absent with
  no pod left, no signer pod by label or name, and every pod of the node absent with none of its signing pod names taken by
  somebody else; until then the only writes are the guarded retirement of its StatefulSets and the deletion, under their
  UIDs, of pods and jobs it controls.\<close>

theorem reservation_released_last:
  "ruled (releaseRule n) (trail (finalizeConsensusKeyReservationOwner (logged_kube C) (logged R) (logged K) n) s)"
  by (rule wp_trail, rule wp_finalizeReservationOwner) auto

end
