(* ===== verification/Node_Signer.thy ===== *)
theory Node_Signer
  imports Node_Finalize Cosmosigner_Helper Pod_Lifecycle
begin

text \<open>
  The managed signer of a standalone ChainNode: the parts of
  \<open>src/internal/controllers/chainnode/cosmosigner.go\<close> that write its status and its StatefulSet: the owner's
  finalizer, the backfill of legacy status, the locks on replicas and storage, the migration, the record of the
  applied state, the application of the StatefulSet and the teardown.

  Arguments: \<open>K\<close> is the API, with the status subresource as a client of its own; \<open>signer_env\<close> has SHA-256 in
  hexadecimal and parsing and printing of a \<open>resource.Quantity\<close>. Of \<open>cosmosigner.Params\<close> the fields read here are a
  record; the digest of the rendered configuration is a function of the signing digest. A function returns the node
  as the caller sees it after the call.
\<close>

section \<open>Parameters\<close>

record signer_env =
  se_Hash :: "string \<Rightarrow> string"
  se_ParseQuantity :: "string \<Rightarrow> quantity option"
  se_QuantityString :: "quantity \<Rightarrow> string"

record SignerParams =
  pa_Name :: string
  pa_Replicas :: int
  pa_ExpectedPublicKey :: string
  pa_LifecycleDigest :: "string \<Rightarrow> CleanupError + string"

definition LabelCosmosignerTarget :: string where "LabelCosmosignerTarget = ''cosmosigner-target''"
definition StringValueTrue :: string where "StringValueTrue = ''true''"
definition StringValueFalse :: string where "StringValueFalse = ''false''"

abbreviation onStatus :: "(ChainNodeStatus \<Rightarrow> ChainNodeStatus) \<Rightarrow> ChainNode \<Rightarrow> ChainNode" where
  "onStatus f n \<equiv> n\<lparr>cn_Status := f (cn_Status n)\<rparr>"

text \<open>\<open>r.Status().Update(ctx, chainNode)\<close>; the server's answer replaces the node.\<close>

definition updateStatus :: "'s cluster_api \<Rightarrow> ChainNode \<Rightarrow> ('s, CleanupError, ChainNode) prog" where
  "updateStatus K n = call CleanupApi (cl_update (w_nodeStatus K) n)"

definition cosmosignerTargetLabelValue :: "ChainNode \<Rightarrow> string option" where
  "cosmosignerTargetLabelValue n =
     (if cn_Cosmosigner (cn_Spec n) \<noteq> None then Some (cosmosignerName n)
      else if cn_RemoteSignerTarget (cn_Spec n)
      then (let v = label (m_Labels (cn_Meta n)) LabelCosmosignerTarget in if v \<noteq> [] then Some v else None)
      else None)"

section \<open>Owner and legacy status\<close>

definition prepareCosmosignerOwner :: "'s cluster_api \<Rightarrow> ChainNode \<Rightarrow> ('s, CleanupError, bool \<times> ChainNode) prog" where
  "prepareCosmosignerOwner K n =
     (let st = cn_Status n in
      seq (if cn_Cosmosigner (cn_Spec n) \<noteq> None \<or> cns_CosmosignerReplicas st \<noteq> None \<or> cns_CosmosignerAppliedDigest st \<noteq> [] \<or>
              cns_CosmosignerSigningDigest st \<noteq> [] \<or> cns_CosmosignerPublicKey st \<noteq> [] \<or> cns_CosmosignerMigration st \<noteq> None
           then ret True else HasOwnedSignerState K (OwnerNode n) (cn_ns n)) (\<lambda>needsFinalizer.
      seq (if needsFinalizer \<and> \<not> ContainsFinalizer (cn_Meta n) OwnerFinalizer
           then call CleanupApi (cl_update (w_nodes K) (n\<lparr>cn_Meta := AddFinalizer (cn_Meta n) OwnerFinalizer\<rparr>))
           else ret n) (\<lambda>n1.
      if \<not> ContainsFinalizer (cn_Meta n1) OwnerFinalizer then ret (False, n1)
      else seq (ProtectRetainedStatePVCs K (OwnerNode n1) (cn_ns n1)) (\<lambda>changed. ret (changed, n1)))))"

definition recoverStandaloneValidatorTarget :: "'s cluster_api \<Rightarrow> ChainNode \<Rightarrow> ('s, CleanupError, bool) prog" where
  "recoverStandaloneValidatorTarget K n =
     get_or CleanupApi (cl_get (w_pods K) (cn_ns n) (cn_name n))
       (\<lambda>pod. let ls = m_Labels (pod_Meta pod); value = label ls LabelValidator in
          if \<not> IsControlledBy (pod_Meta pod) (OwnerNode n) \<or> label ls LabelCosmosignerTarget \<noteq> cosmosignerName n
          then fail (Refused ''target pod'' (cosmosignerName n))
          else if value \<noteq> StringValueTrue \<and> value \<noteq> StringValueFalse
          then fail (Refused ''validator marker'' (cosmosignerName n))
          else ret (value = StringValueTrue))
       (fail (Refused ''target pod is missing'' (cosmosignerName n)))"

definition backfillIdentities :: "ChainNode \<Rightarrow> ChainNode \<times> bool" where
  "backfillIdentities n =
     (let st = cn_Status n; identity = CosmosignerValidatorTargetedIdentity n;
          serving = cns_CosmosignerSigningDigest st \<noteq> [] \<and> cns_CosmosignerServingIdentity st = [] \<and> identity \<noteq> [];
          n1 = (if serving then onStatus (cns_CosmosignerServingIdentity_update (\<lambda>_. identity)) n else n);
          marker = cns_CosmosignerAtEstablishment st = None;
          n2 = (if marker then onStatus (cns_CosmosignerAtEstablishment_update (\<lambda>_.
                  Some (if cns_CosmosignerSigningDigest st \<noteq> [] then identity else []))) n1 else n1)
      in (n2, serving \<or> marker))"

text \<open>The target as it is backfilled: \<^term>\<open>None\<close> where nothing has to be.\<close>

definition backfillTarget :: "'s cluster_api \<Rightarrow> ChainNode \<Rightarrow> ('s, CleanupError, bool option) prog" where
  "backfillTarget K n =
     (let st = cn_Status n in
      if cns_CosmosignerValidatorTargeted st \<noteq> None \<or> cn_Cosmosigner (cn_Spec n) = None \<or>
         (cns_CosmosignerReplicas st = None \<and> cns_CosmosignerStateStorageSize st = [] \<and>
          cns_CosmosignerSigningDigest st = [] \<and> cns_CosmosignerServingIdentity st = [])
      then ret None
      else if cns_CosmosignerSigningDigest st \<noteq> [] \<or> cns_CosmosignerServingIdentity st \<noteq> [] then ret (Some True)
      else getSts K (cn_ns n) (cosmosignerName n)
             (\<lambda>sts. if IsControlledBy (sts_Meta sts) (OwnerNode n)
                     then seq (recoverStandaloneValidatorTarget K n) (\<lambda>t. ret (Some t))
                     else ret (Some (IsValidator n)))
             (ret (Some (IsValidator n))))"

definition backfillCosmosignerLegacyStatus :: "'s cluster_api \<Rightarrow> ChainNode \<Rightarrow> ('s, CleanupError, bool \<times> ChainNode) prog" where
  "backfillCosmosignerLegacyStatus K n =
     (if cns_ChainID (cn_Status n) = [] then ret (False, n)
      else case backfillIdentities n of (n1, changed) \<Rightarrow>
        seq (backfillTarget K n1) (\<lambda>target.
          let n2 = (case target of None \<Rightarrow> n1 | Some t \<Rightarrow> onStatus (cns_CosmosignerValidatorTargeted_update (\<lambda>_. Some t)) n1) in
          if changed \<or> target \<noteq> None then seq (updateStatus K n2) (\<lambda>n3. ret (True, n3)) else ret (False, n2)))"

section \<open>Locks\<close>

text \<open>The locks of the live signer, or those of the spec on a first rollout.\<close>

definition lockStatus :: "signer_env \<Rightarrow> signer_lock \<Rightarrow> ChainNode \<Rightarrow> ChainNodeStatus \<Rightarrow> ChainNodeStatus" where
  "lockStatus E lock n st =
     (let c = cn_Cosmosigner (cn_Spec n);
          st1 = (if cns_CosmosignerReplicas st = None
                 then st\<lparr>cns_CosmosignerReplicas := Some (if sl_FoundReplicas lock then sl_Replicas lock else GetReplicas c)\<rparr> else st)
      in if cns_CosmosignerStateStorageSize st1 \<noteq> [] then st1
         else if sl_FoundStorage lock
         then st1\<lparr>cns_CosmosignerStateStorageSize := (case sl_StorageSize lock of None \<Rightarrow> [] | Some q \<Rightarrow> se_QuantityString E q),
                  cns_CosmosignerStateStorageClassName := sl_StorageClass lock\<rparr>
         else st1\<lparr>cns_CosmosignerStateStorageSize := GetStateStorageSize c,
                  cns_CosmosignerStateStorageClassName := Option.bind c cs_StorageClassName\<rparr>)"

definition initCosmosignerLocks :: "signer_env \<Rightarrow> 's cluster_api \<Rightarrow> ChainNode \<Rightarrow> ('s, CleanupError, bool \<times> ChainNode) prog" where
  "initCosmosignerLocks E K n =
     (let st = cn_Status n in
      if cns_CosmosignerReplicas st \<noteq> None \<and> cns_CosmosignerStateStorageSize st \<noteq> [] \<and> cns_CosmosignerValidatorTargeted st \<noteq> None
      then ret (False, n)
      else seq (ReadSignerLock K (OwnerNode n) (cn_ns n) (cosmosignerName n)) (\<lambda>lock.
        let n1 = onStatus (lockStatus E lock n) n in
        seq (if cns_CosmosignerValidatorTargeted st \<noteq> None then ret n1
             else seq (if sl_FoundReplicas lock then recoverStandaloneValidatorTarget K n1 else ret (IsValidator n))
                    (\<lambda>t. ret (onStatus (cns_CosmosignerValidatorTargeted_update (\<lambda>_. Some t)) n1)))
          (\<lambda>n2. seq (updateStatus K n2) (\<lambda>n3. ret (True, n3)))))"

definition validateRecordedCosmosignerLocks :: "signer_env \<Rightarrow> ChainNode \<Rightarrow> CleanupError + unit" where
  "validateRecordedCosmosignerLocks E n =
     (let st = cn_Status n; c = cn_Cosmosigner (cn_Spec n) in
      case c of
        None \<Rightarrow> Inr ()
      | Some signer \<Rightarrow>
          if (\<exists>r \<in> set_option (cns_CosmosignerReplicas st). r \<noteq> GetReplicas c) then Inl (Refused ''replicas are immutable'' [])
          else if cns_CosmosignerStateStorageSize st \<noteq> [] \<and>
                  \<not> CosmosignerStateStorageEqual (se_ParseQuantity E) (cns_CosmosignerStateStorageSize st)
                      (cns_CosmosignerStateStorageClassName st) (GetStateStorageSize c) (cs_StorageClassName signer)
          then Inl (Refused ''state storage is immutable'' [])
          else Inr ())"

definition quiesceManagedCosmosigner ::
    "'s cluster_api \<Rightarrow> ChainNode \<Rightarrow> string \<Rightarrow> CleanupError \<Rightarrow> ('s, CleanupError, 'a) prog" where
  "quiesceManagedCosmosigner K n name cause =
     seq (wrapErr (\<lambda>e. QuiesceFailed cause name (case e of CleanupApi a \<Rightarrow> a | _ \<Rightarrow> ApiOther []))
            (ScaleDown K (OwnerNode n) (cn_ns n) name)) (\<lambda>_. fail cause)"

section \<open>Migration\<close>

definition startMigration :: "string \<Rightarrow> string \<Rightarrow> ChainNodeStatus \<Rightarrow> ChainNodeStatus" where
  "startMigration desiredDigest publicKey st =
     st\<lparr>cns_CosmosignerMigration := Some \<lparr>ms_DesiredDigest = desiredDigest, ms_DesiredPublicKey = publicKey,
         ms_Phase = CosmosignerMigrationQuiescing, ms_ResetState = (publicKey \<noteq> cns_CosmosignerPublicKey st),
         ms_RolloutObservedAt = None\<rparr>\<rparr>"

definition setMigrationPhase :: "CosmosignerMigrationPhase \<Rightarrow> CosmosignerMigrationStatus \<Rightarrow> ChainNodeStatus \<Rightarrow> ChainNodeStatus" where
  "setMigrationPhase phase m st = st\<lparr>cns_CosmosignerMigration := Some (m\<lparr>ms_Phase := phase\<rparr>)\<rparr>"

text \<open>A signer whose applied configuration was never recorded: it is, once the signer has rolled out.\<close>

definition recordFirstRollout ::
    "'s cluster_api \<Rightarrow> ChainNode \<Rightarrow> SignerParams \<Rightarrow> string \<Rightarrow> ('s, CleanupError, bool \<times> ChainNode) prog" where
  "recordFirstRollout K n params signingDigest =
     (let ns = cn_ns n; name = pa_Name params in
      if cns_CosmosignerSigningDigest (cn_Status n) \<noteq> [] \<and> cns_CosmosignerSigningDigest (cn_Status n) \<noteq> signingDigest
      then fail (Refused ''applied public key was not recorded'' name)
      else seq (IsRolledOut K ns name (pa_Replicas params)) (\<lambda>rolledOut.
        if \<not> rolledOut then ret (False, n)
        else seq (ReadLifecycleDigest K ns name) (\<lambda>(digest, found).
          let liveDigest = (if found then digest else ''legacy:'' @ signingDigest) in
          seq (MarkEverRolledOut K ns name (pa_Replicas params)) (\<lambda>marked.
            if \<not> marked then ret (False, n)
            else seq (updateStatus K (onStatus (\<lambda>st. st\<lparr>cns_CosmosignerAppliedDigest := liveDigest,
                        cns_CosmosignerPublicKey := pa_ExpectedPublicKey params\<rparr>) n)) (\<lambda>n1. ret (True, n1))))))"

definition reconcileCosmosignerMigration ::
    "signer_env \<Rightarrow> 's cluster_api \<Rightarrow> ChainNode \<Rightarrow> SignerParams \<Rightarrow> ('s, CleanupError, bool \<times> ChainNode) prog" where
  "reconcileCosmosignerMigration E K n params =
     (let st = cn_Status n; signingDigest = CosmosignerSigningDigest (se_Hash E) n; key = pa_ExpectedPublicKey params;
          save = (\<lambda>f. seq (updateStatus K (onStatus f n)) (\<lambda>n1. ret (True, n1)))
      in seq (lift (pa_LifecycleDigest params signingDigest)) (\<lambda>desiredDigest.
         if cns_CosmosignerAppliedDigest st = [] then recordFirstRollout K n params signingDigest
         else case cns_CosmosignerMigration st of
           None \<Rightarrow>
             if cns_CosmosignerAppliedDigest st = desiredDigest \<and> cns_CosmosignerPublicKey st = key then ret (False, n)
             else if cns_CosmosignerPublicKey st = [] then fail (Refused ''applied public key is missing'' (pa_Name params))
             else save (startMigration desiredDigest key)
         | Some m \<Rightarrow>
             if ms_DesiredDigest m \<noteq> desiredDigest \<or> ms_DesiredPublicKey m \<noteq> key
             then (if cns_CosmosignerPublicKey st = [] then fail (Refused ''applied public key is missing'' (pa_Name params))
                   else save (startMigration desiredDigest key))
             else if ms_Phase m = CosmosignerMigrationRollingOut then ret (False, n)
             else seq (ReconcileStatefulSetMigration K (OwnerNode n) (cn_ns n) (pa_Name params) (ms_Phase m) (ms_ResetState m))
               (\<lambda>(ready, next).
                  if next \<noteq> ms_Phase m then save (setMigrationPhase next m)
                  else if ready \<and> ms_Phase m = CosmosignerMigrationRecreating
                  then save (setMigrationPhase CosmosignerMigrationRollingOut m)
                  else ret (\<not> ready, n))))"

definition recordCosmosignerAppliedState ::
    "signer_env \<Rightarrow> 's cluster_api \<Rightarrow> ChainNode \<Rightarrow> SignerParams \<Rightarrow> ('s, CleanupError, bool \<times> ChainNode) prog" where
  "recordCosmosignerAppliedState E K n params =
     (let st = cn_Status n; signingDigest = CosmosignerSigningDigest (se_Hash E) n; key = pa_ExpectedPublicKey params
      in seq (lift (pa_LifecycleDigest params signingDigest)) (\<lambda>desiredDigest.
         if cns_CosmosignerAppliedDigest st = desiredDigest \<and> cns_CosmosignerPublicKey st = key \<and> cns_CosmosignerMigration st = None
         then ret (False, n)
         else let publicKey = (case cns_CosmosignerMigration st of
                     Some m \<Rightarrow> if ms_DesiredDigest m = desiredDigest then ms_DesiredPublicKey m else key
                   | None \<Rightarrow> key);
                  st1 = st\<lparr>cns_CosmosignerAppliedDigest := desiredDigest, cns_CosmosignerPublicKey := publicKey,
                           cns_CosmosignerMigration := None\<rparr>;
                  st2 = (if IsValidator n
                         then st1\<lparr>cns_CosmosignerSigningDigest := signingDigest,
                                  cns_CosmosignerServingIdentity := CosmosignerValidatorTargetedIdentity n\<rparr>
                         else st1)
              in seq (updateStatus K (n\<lparr>cn_Status := st2\<rparr>)) (\<lambda>n1. ret (True, n1))))"

section \<open>Teardown and application\<close>

definition signerStatusClear :: "ChainNodeStatus \<Rightarrow> bool" where
  "signerStatusClear st \<longleftrightarrow> cns_CosmosignerReplicas st = None \<and> cns_CosmosignerSigningDigest st = [] \<and>
     cns_CosmosignerStateStorageSize st = [] \<and> cns_CosmosignerStateStorageClassName st = None \<and>
     cns_CosmosignerAppliedDigest st = [] \<and> cns_CosmosignerPublicKey st = [] \<and> cns_CosmosignerMigration st = None \<and>
     cns_CosmosignerKeyImported st = [] \<and> cns_CosmosignerImportedKeyVersion st = [] \<and>
     cns_CosmosignerServingIdentity st = [] \<and> cns_CosmosignerValidatorTargeted st = None"

definition clearSignerStatus :: "ChainNodeStatus \<Rightarrow> ChainNodeStatus" where
  "clearSignerStatus st =
     st\<lparr>cns_CosmosignerReplicas := None, cns_CosmosignerValidatorTargeted := None, cns_CosmosignerStateStorageSize := [],
        cns_CosmosignerStateStorageClassName := None, cns_CosmosignerSigningDigest := [], cns_CosmosignerAppliedDigest := [],
        cns_CosmosignerPublicKey := [], cns_CosmosignerMigration := None, cns_CosmosignerKeyImported := [],
        cns_CosmosignerImportedKeyVersion := [], cns_CosmosignerServingIdentity := []\<rparr>"

definition undeployCosmosigner :: "'s cluster_api \<Rightarrow> ChainNode \<Rightarrow> ('s, CleanupError, bool \<times> ChainNode) prog" where
  "undeployCosmosigner K n =
     seq (Undeploy K (OwnerNode n) (cn_ns n) (cosmosignerName n)) (\<lambda>_.
     seq (IsTornDown K (OwnerNode n) (cn_ns n) (cosmosignerName n)) (\<lambda>tornDown.
     if \<not> tornDown then ret (False, n)
     else if signerStatusClear (cn_Status n) then ret (True, n)
     else let n1 = onStatus clearSignerStatus n in
       seq (tolerate Conflict CleanupApi (cl_update (w_nodeStatus K) n1)) (\<lambda>answer.
         ret (True, deref n1 answer))))"

definition signerEstablished :: "ChainNodeStatus \<Rightarrow> bool" where
  "signerEstablished st \<longleftrightarrow> cns_CosmosignerAppliedDigest st \<noteq> [] \<or> cns_CosmosignerSigningDigest st \<noteq> [] \<or>
     cns_CosmosignerPublicKey st \<noteq> [] \<or> cns_CosmosignerServingIdentity st \<noteq> []"

text \<open>\<open>applyCosmosignerObject\<close> for the StatefulSet, the kind with guards of its own.\<close>

definition applyCosmosignerObject ::
    "apply_env \<Rightarrow> 's cluster_api \<Rightarrow> ChainNode \<Rightarrow> StatefulSet \<Rightarrow> ('s, CleanupError, StatefulSet) prog" where
  "applyCosmosignerObject A K n sts =
     (let st = cn_Status n in
      seq (lift (StatefulSetApplyGuard (signerEstablished st) (cns_CosmosignerMigration st) (cns_CosmosignerReplicas st)
                   (deref 0 (sts_Replicas sts))))
        (\<lambda>guard. ApplyOwnedStatefulSet A K (OwnerNode n) sts guard))"

end
