(* ===== verification/Deploy_Safety.thy ===== *)
theory Deploy_Safety
  imports Node_Signer Teardown_Safety
begin

text \<open>
  What every run that deploys or removes the managed signer of a ChainNode satisfies
  (\<open>applyCosmosignerObject\<close> and \<open>undeployCosmosigner\<close> of
  \<open>src/internal/controllers/chainnode/cosmosigner.go\<close>).
\<close>

section \<open>Chains of observations\<close>

fun chain :: "(act \<Rightarrow> bool) list \<Rightarrow> act list \<Rightarrow> bool" where
  "chain [] h = True"
| "chain (P # Ps) [] = False"
| "chain (P # Ps) (e # h) = ((P e \<and> chain Ps h) \<or> chain (P # Ps) h)"

lemma chain_right: "chain Ps k \<Longrightarrow> chain Ps (h @ k)"
  by (induction h) (cases Ps; auto)+

lemma chain_left: "chain Ps h \<Longrightarrow> chain Ps (h @ k)"
  by (induction Ps h rule: chain.induct) auto

lemma chain_lasting [lasts]: "lasting (chain Ps)"
  using chain_left chain_right unfolding lasting_def by blast

lemma chain_append: "chain Ps h \<Longrightarrow> chain Qs k \<Longrightarrow> chain (Ps @ Qs) (h @ k)"
proof (induction Ps h rule: chain.induct)
  case (1 h)
  then show ?case by (simp add: chain_right)
qed auto

lemma chain_after: "chain Ps g \<Longrightarrow> chain Qs (since g h) \<Longrightarrow> prefix g h \<Longrightarrow> chain (Ps @ Qs) h"
  using chain_append [of Ps g Qs "since g h"] since_split [of g h] by simp

lemma chain_seen: "chain [P] h = seen P h"
  by (induction h) auto

lemma chain_snoc: "chain Ps h \<Longrightarrow> prefix h k \<Longrightarrow> P e \<Longrightarrow> chain (Ps @ [P]) (snoc k e)"
  using chain_append [of Ps h "[P]"] by (auto simp: prefix_def snoc_def chain_seen)

lemma chain_pair: "chain [P, R] h = after P (seen R) h"
  by (induction h) (auto simp: chain_seen)

section \<open>Reads\<close>

text \<open>No claim of the signer's name belongs to another owner; a claim of the signer is its owner's, bound, protected and
  not being deleted.\<close>

fun noForeignClaims :: "string \<Rightarrow> string \<Rightarrow> uid \<Rightarrow> act \<Rightarrow> bool" where
  "noForeignClaims ns name u (ClaimEv (Listed ns' (Inr pvcs))) \<longleftrightarrow> ns' = ns \<and>
     (\<forall>pvc \<in> set pvcs. isStatefulSetDataPVC (m_Name (pvc_Meta pvc)) name \<longrightarrow> label (m_Labels (pvc_Meta pvc)) labelOwnerUID = u)"
| "noForeignClaims ns name u _ \<longleftrightarrow> False"

fun claimShown :: "string \<Rightarrow> string \<Rightarrow> uid \<Rightarrow> nat \<Rightarrow> act \<Rightarrow> bool" where
  "claimShown ns name u i (ClaimEv (Got ns' n (Inr pvc))) \<longleftrightarrow>
     ns' = ns \<and> n = dataClaimName name (int i) \<and> retainedClaimFault u pvc = None"
| "claimShown ns name u i _ \<longleftrightarrow> False"

definition claimsShown :: "string \<Rightarrow> string \<Rightarrow> uid \<Rightarrow> int \<Rightarrow> act list \<Rightarrow> bool" where
  "claimsShown ns name u replicas h \<longleftrightarrow> replicas > 0 \<and> (\<forall>i \<in> {0..<nat replicas}. seen (claimShown ns name u i) h)"

lemma claimsShown_lasting [lasts]: "lasting (claimsShown ns name u replicas)"
  unfolding claimsShown_def [abs_def] by (intro lasts)

text \<open>What a guard asks for before a StatefulSet of the name is applied.\<close>

definition guardMet :: "applyGuard \<Rightarrow> string \<Rightarrow> string \<Rightarrow> uid \<Rightarrow> act list \<Rightarrow> bool" where
  "guardMet guard ns name u h \<longleftrightarrow> seen (noForeignClaims ns name u) h \<and>
     (ag_RequireRetainedState guard \<and> ag_RetainedStateReplicas guard > 0 \<longrightarrow> claimsShown ns name u (ag_RetainedStateReplicas guard) h)"

text \<open>The StatefulSet absent or another owner's, then no pod of the signer, then no state claim of it, labelled or not.\<close>

fun noStateClaims :: "string \<Rightarrow> string \<Rightarrow> uid \<Rightarrow> act \<Rightarrow> bool" where
  "noStateClaims ns name u (ClaimEv (Listed ns' (Inr pvcs))) \<longleftrightarrow> ns' = ns \<and>
     \<not> list_ex (\<lambda>pvc. isOwnedStatefulSetDataPVC pvc u name \<or> isAmbiguousLegacyDataPVC pvc name) pvcs"
| "noStateClaims ns name u _ \<longleftrightarrow> False"

definition tornDown :: "owner_object \<Rightarrow> string \<Rightarrow> string \<Rightarrow> act list \<Rightarrow> bool" where
  "tornDown ow ns name = chain [\<lambda>e. stsAbsent ns name e \<or> foreignShown ow ns name e, noSignerPods ns name, noStateClaims ns name (owner_uid ow)]"

lemma tornDown_lasting [lasts]: "lasting (tornDown ow ns name)"
  unfolding tornDown_def by (rule chain_lasting)

lemma tornDown_end:
  "stsAbsent ns name a \<or> foreignShown ow ns name a \<Longrightarrow> noSignerPods ns name b \<Longrightarrow> noStateClaims ns name (owner_uid ow) c \<Longrightarrow>
   tornDown ow ns name (snoc (snoc (snoc h a) b) c)"
  unfolding tornDown_def snoc_def append_assoc by (rule chain_right) simp

context read_history
begin

lemma wp_IsRolledOut [wps]:
  "J h \<Longrightarrow> (\<And>x k. J k \<Longrightarrow> prefix h k \<Longrightarrow> Q x k) \<Longrightarrow> wp J (IsRolledOut (logged K) ns name desired) Q h"
  unfolding IsRolledOut_def getSts_def run_defs by (intro wps) (auto simp: J_read)

lemma wp_ReadLifecycleDigest [wps]:
  "J h \<Longrightarrow> (\<And>x k. J k \<Longrightarrow> prefix h k \<Longrightarrow> Q x k) \<Longrightarrow> wp J (ReadLifecycleDigest (logged K) ns name) Q h"
  unfolding ReadLifecycleDigest_def getSts_def run_defs Let_def by (intro wps) (auto simp: J_read)

lemma wp_recoverTarget [wps]:
  "J h \<Longrightarrow> (\<And>x k. J k \<Longrightarrow> prefix h k \<Longrightarrow> Q x k) \<Longrightarrow> wp J (recoverStandaloneValidatorTarget (logged K) n) Q h"
  unfolding recoverStandaloneValidatorTarget_def run_defs Let_def by (intro wps) (auto simp: J_read)

lemma wp_ReadSignerLock [wps]:
  "J h \<Longrightarrow> (\<And>x k. J k \<Longrightarrow> prefix h k \<Longrightarrow> Q x k) \<Longrightarrow> wp J (ReadSignerLock (logged K) ow ns name) Q h"
  unfolding ReadSignerLock_def getSts_def run_defs Let_def by (intro wps) (auto simp: J_read)

lemma wp_stillControlled:
  assumes "J h" "\<And>e. readsOnly e \<Longrightarrow> isRead (tag e)" "\<And>b k e. J k \<Longrightarrow> k = snoc h (tag e) \<Longrightarrow> Q b k"
  shows "wp J (stillControlled (logged_client tag c) meta ow ns name) Q h"
  unfolding stillControlled_def run_defs by (intro wps) (use assms in \<open>auto simp: J_read\<close>)

lemma wp_stillControlled_sts [wps]:
  "J h \<Longrightarrow> (\<And>b e. J (snoc h e) \<Longrightarrow> (\<not> b \<longrightarrow> stsAbsent ns name e \<or> foreignShown ow ns name e) \<Longrightarrow> Q b (snoc h e)) \<Longrightarrow>
   wp J (stillControlled (logged_client StsEv c) sts_Meta ow ns name) Q h"
  unfolding stillControlled_def run_defs by (intro wps) (auto simp: J_read)

lemma wp_IsTornDown [wps]:
  assumes "J h" and Q: "\<And>d k. J k \<Longrightarrow> prefix h k \<Longrightarrow> (d \<longrightarrow> tornDown ow ns name k) \<Longrightarrow> Q d k"
  shows "wp J (IsTornDown (logged K) ow ns name) Q h"
  unfolding IsTornDown_def logged_sel logged_client_sel doneOr_def
  by (intro wps wp_stillControlled) (auto simp: assms(1) J_read intro!: Q tornDown_end)

lemma wp_ensureNoForeignDataPVCs [wps]:
  "J h \<Longrightarrow> (\<And>k. J k \<Longrightarrow> prefix h k \<Longrightarrow> seen (noForeignClaims ns name u) k \<Longrightarrow> Q () k) \<Longrightarrow>
   wp J (ensureNoForeignDataPVCs (logged K) u ns name) Q h"
  unfolding ensureNoForeignDataPVCs_def run_defs by (intro wps) (auto simp: J_read find_None_iff)

lemma wp_ensureRetainedDataPVCs [wps]:
  assumes "J h" and Q: "\<And>k. J k \<Longrightarrow> prefix h k \<Longrightarrow> (\<forall>i \<in> {0..<nat replicas}. seen (claimShown ns name u i) k) \<Longrightarrow> Q () k"
  shows "wp J (ensureRetainedDataPVCs (logged K) u ns name replicas) Q h"
  unfolding ensureRetainedDataPVCs_def run_defs
  by (intro wps wp_collect [where F = "\<lambda>i. seen (claimShown ns name u i)" and ok = "\<lambda>b. True"])
    (auto simp: assms(1) J_read seen_lasting intro!: Q intro: lasting_whole [OF seen_lasting])

lemma wp_ensureClaimsForApply [wps]:
  assumes "J h" and Q: "\<And>k. J k \<Longrightarrow> prefix h k \<Longrightarrow>
      guardMet guard (m_Namespace (sts_Meta sts)) (m_Name (sts_Meta sts)) (owner_uid ow) k \<Longrightarrow>
      (\<forall>l \<in> set_option live. stsAnnotation l retainedStateLostAnnotation \<noteq> ''true'') \<Longrightarrow> Q () k"
  shows "wp J (ensureStatefulSetPVCsForApply (logged K) ow sts live guard) Q h"
  unfolding ensureStatefulSetPVCsForApply_def Let_def
  by (cases live; intro wps)
    (auto simp: assms(1) guardMet_def claimsShown_def intro!: Q intro: lastingD [OF seen_lasting] split: if_splits)

end

section \<open>Removing the signer\<close>

fun clearRule :: "ChainNode \<Rightarrow> act \<Rightarrow> act list \<Rightarrow> bool" where
  "clearRule n (NodeStatusEv (Updated x r)) h \<longleftrightarrow> tornDown (OwnerNode n) (cn_ns n) (cosmosignerName n) h \<and>
     x = onStatus clearSignerStatus n"
| "clearRule n e h \<longleftrightarrow> undeployRule (OwnerNode n) (cn_ns n) (cosmosignerName n) e h"

lemma clear_rules:
  "signerAway (OwnerNode n) (cn_ns n) (cosmosignerName n) h \<Longrightarrow> claimEvent (cn_uid n) (cosmosignerName n) h e \<Longrightarrow> clearRule n e h"
  "signerAway (OwnerNode n) (cn_ns n) (cosmosignerName n) h \<Longrightarrow> objectEvent (OwnerNode n) e \<Longrightarrow> clearRule n e h"
  by (cases "(n, e, h)" rule: clearRule.cases; auto intro: undeploy_claim undeploy_object)+

interpretation clear: signer_history "ruled (clearRule n)" "OwnerNode n" "cn_ns n" for n
  by unfold_locales auto

interpretation clear_claims: claim_history
  "\<lambda>h. ruled (clearRule n) h \<and> signerAway (OwnerNode n) (cn_ns n) (cosmosignerName n) h" "cn_uid n" "cosmosignerName n" for n
  by unfold_locales (auto intro: clear_rules)

interpretation clear_objects: object_history
  "\<lambda>h. ruled (clearRule n) h \<and> signerAway (OwnerNode n) (cn_ns n) (cosmosignerName n) h" "OwnerNode n" for n
  by unfold_locales (auto intro: clear_rules)

lemma wp_clear_rest [wps]:
  assumes "ruled (clearRule n) h" "signerAway (OwnerNode n) (cn_ns n) (cosmosignerName n) h"
    "\<And>k. ruled (clearRule n) k \<Longrightarrow> signerAway (OwnerNode n) (cn_ns n) (cosmosignerName n) k \<Longrightarrow> prefix h k \<Longrightarrow> Q () k"
  shows "wp (ruled (clearRule n)) (undeployObjects (logged K) (OwnerNode n) (cn_ns n) (cosmosignerName n)) Q h"
    and "wp (ruled (clearRule n)) (DeletePVCs (logged K) (cn_uid n) (cn_ns n) (cosmosignerName n)) Q h"
  by (rule wp_knowing [where B = "signerAway (OwnerNode n) (cn_ns n) (cosmosignerName n)"], intro wps; use assms in auto)+

lemma wp_clear_Undeploy [wps]:
  assumes "ruled (clearRule n) h" "\<And>k. ruled (clearRule n) k \<Longrightarrow> prefix h k \<Longrightarrow> Q () k"
  shows "wp (ruled (clearRule n)) (Undeploy (logged K) (OwnerNode n) (cn_ns n) (cosmosignerName n)) Q h"
  unfolding Undeploy_def getSts_def run_defs owner_meta.simps
  by (intro wps) (auto simp: assms(1) intro!: assms(2) intro: gone_part)

lemma wp_undeployCosmosigner:
  assumes "ruled (clearRule n) h" and Q: "\<And>d x k. ruled (clearRule n) k \<Longrightarrow> prefix h k \<Longrightarrow>
      (d \<longrightarrow> tornDown (OwnerNode n) (cn_ns n) (cosmosignerName n) k) \<Longrightarrow> Q (d, x) k"
  shows "wp (ruled (clearRule n)) (undeployCosmosigner (logged K) n) Q h"
  unfolding undeployCosmosigner_def run_defs Let_def
  by (intro wps) (auto simp: assms(1) intro!: Q intro: lastingD [OF tornDown_lasting])

text \<open>C10: The locks and records of a managed signer are cleared from the status of its ChainNode only after its StatefulSet was
  seen absent or another owner's, then no pod of it, then no state claim of it, labelled or not; the removal is reported
  complete only then, and it makes no other write than \<open>Undeploy\<close> may.\<close>

theorem signer_record_cleared_last:
  "ruled (clearRule n) (trail (undeployCosmosigner (logged K) n) s) \<and>
   (case fst (undeployCosmosigner (logged K) n (s, [])) of
      Inr (True, x) \<Rightarrow> tornDown (OwnerNode n) (cn_ns n) (cosmosignerName n) (trail (undeployCosmosigner (logged K) n) s) | _ \<Rightarrow> True)"
proof -
  have "wp (ruled (clearRule n)) (undeployCosmosigner (logged K) n)
      (\<lambda>y k. fst y \<longrightarrow> tornDown (OwnerNode n) (cn_ns n) (cosmosignerName n) k) []"
    by (rule wp_undeployCosmosigner) auto
  from wp_ending [OF this, of s] show ?thesis by (auto split: sum.splits prod.splits bool.splits)
qed

section \<open>Deploying the signer\<close>

text \<open>The StatefulSet as it was read: the owner's, without the mark of lost state.\<close>

fun liveShown :: "owner_object \<Rightarrow> act \<Rightarrow> bool" where
  "liveShown ow (StsEv (Got ns name (Inr live))) \<longleftrightarrow> IsControlledBy (sts_Meta live) ow \<and>
     stsAnnotation live retainedStateLostAnnotation \<noteq> ''true''"
| "liveShown ow _ \<longleftrightarrow> False"

definition latched :: "StatefulSet \<Rightarrow> bool" where
  "latched sts \<longleftrightarrow> sts_Replicas sts = Some 0 \<and> stsAnnotation sts retainedStateLostAnnotation = ''true''"

text \<open>No claim of another owner, and for a signer whose state has to be there, every claim its replicas are locked to.\<close>

definition stateReady :: "ChainNode \<Rightarrow> StatefulSet \<Rightarrow> act list \<Rightarrow> bool" where
  "stateReady n sts h \<longleftrightarrow>
     (let ns = m_Namespace (sts_Meta sts); name = m_Name (sts_Meta sts); st = cn_Status n in
      seen (noForeignClaims ns name (cn_uid n)) h \<and>
      (RetainedStateRequired (signerEstablished st) (cns_CosmosignerMigration st) \<longrightarrow>
         (\<exists>r. cns_CosmosignerReplicas st = Some r \<and> claimsShown ns name (cn_uid n) r h)))"

fun deployRule :: "ChainNode \<Rightarrow> act \<Rightarrow> act list \<Rightarrow> bool" where
  "deployRule n (StsEv (Created sts r)) h \<longleftrightarrow> stateReady n sts h"
| "deployRule n (StsEv (Updated sts r)) h \<longleftrightarrow> latched sts \<or> (stateReady n sts h \<and> seen (liveShown (OwnerNode n)) h)"
| "deployRule n e h \<longleftrightarrow> False"

interpretation deploy: read_history "ruled (deployRule n)" for n
  by unfold_locales auto

lemma annotateSts_simps [simp]:
  "stsAnnotation (annotateSts k v sts) k = v" "m_Name (sts_Meta (annotateSts k v sts)) = m_Name (sts_Meta sts)"
  "m_Namespace (sts_Meta (annotateSts k v sts)) = m_Namespace (sts_Meta sts)" "sts_Replicas (annotateSts k v sts) = sts_Replicas sts"
  by (simp_all add: annotateSts_def stsAnnotation_def label_def)

text \<open>A guard that asks for the retained state asks for the claims of all locked replicas.\<close>

lemma guard_replicas:
  assumes "StatefulSetApplyGuard b m l d = Inr guard"
  shows "ag_RequireRetainedState guard = RetainedStateRequired b m"
    "RetainedStateRequired b m \<Longrightarrow> l = Some (ag_RetainedStateReplicas guard) \<and> ag_RetainedStateReplicas guard > 0"
  using assms by (auto simp: StatefulSetApplyGuard_def split: if_splits option.splits)

lemma stateReadyI:
  assumes "guardMet guard ns name (cn_uid n) h"
    "StatefulSetApplyGuard (signerEstablished (cn_Status n)) (cns_CosmosignerMigration (cn_Status n))
      (cns_CosmosignerReplicas (cn_Status n)) d = Inr guard"
    "m_Namespace (sts_Meta sts) = ns" "m_Name (sts_Meta sts) = name"
  shows "stateReady n sts h"
  using assms guard_replicas [OF assms(2)] by (auto simp: stateReady_def guardMet_def Let_def)

lemma deployed_name:
  "sts_Meta (PreserveImmutableStatefulSetFields x y) = sts_Meta x"
  "m_Name (sts_Meta (if b then annotateSts k v x else x)) = m_Name (sts_Meta x)"
  "m_Namespace (sts_Meta (if b then annotateSts k v x else x)) = m_Namespace (sts_Meta x)"
  by (simp_all add: PreserveImmutableStatefulSetFields_def)

lemma wp_deploy_quiesce [wps]:
  "ruled (deployRule n) h \<Longrightarrow> wp (ruled (deployRule n)) (quiesceUnsafeRetainedState (logged K) sts cause) Q h"
  unfolding quiesceUnsafeRetainedState_def run_defs by (intro wps) (auto simp: latched_def)

lemma wp_applyCosmosignerObject:
  assumes "ruled (deployRule n) h" and Q: "\<And>x k. ruled (deployRule n) k \<Longrightarrow> prefix h k \<Longrightarrow> Q x k"
    and A: "\<And>x y. ap_SetLastApplied A x = Inr y \<Longrightarrow> m_Name (sts_Meta y) = m_Name (sts_Meta x) \<and> m_Namespace (sts_Meta y) = m_Namespace (sts_Meta x)"
  shows "wp (ruled (deployRule n)) (applyCosmosignerObject A (logged K) n sts) Q h"
  unfolding applyCosmosignerObject_def ApplyOwnedStatefulSet_def getSts_def run_defs Let_def
  by (intro wps wp_rescue)
    (auto simp: assms(1) deployed_name intro!: Q dest!: A intro: stateReadyI seenI)


section \<open>A run\<close>

text \<open>A cluster without objects that accepts every write.\<close>

definition emptyClient :: "(unit, 'o) client" where
  "emptyClient = \<lparr>cl_get = (\<lambda>ns n s. (Inl NotFound, s)), cl_list = (\<lambda>ns s. (Inr [], s)), cl_create = (\<lambda>x s. (Inr x, s)),
     cl_update = (\<lambda>x s. (Inr x, s)), cl_patch = (\<lambda>x y s. (Inr y, s)), cl_delete = (\<lambda>x u s. (Inr (), s))\<rparr>"

definition emptyCluster :: "unit cluster_api" where
  "emptyCluster = \<lparr>w_pods = emptyClient, w_statefulSets = emptyClient, w_claims = emptyClient, w_secrets = emptyClient,
     w_jobs = emptyClient, w_services = emptyClient, w_configMaps = emptyClient, w_policies = emptyClient,
     w_nodes = emptyClient, w_nodeStatus = emptyClient, w_nodeSets = emptyClient, w_namespaces = emptyClient\<rparr>"

definition labApply :: apply_env where
  "labApply = \<lparr>ap_SetControllerReference = (\<lambda>ow sts. Inr sts), ap_SetLastApplied = Inr, ap_PatchEmpty = (\<lambda>x y. Inr False)\<rparr>"

definition labSts :: StatefulSet where
  "labSts = \<lparr>sts_Meta = zero_Meta, sts_TemplateLabels = Map.empty, sts_ClaimTemplates = [], sts_Replicas = Some 1,
     sts_Retention = None, sts_ObservedGeneration = 0, sts_StatusReplicas = 0, sts_UpdatedReplicas = 0, sts_ReadyReplicas = 0\<rparr>"

lemma emptyCluster_sel:
  "w_pods emptyCluster = emptyClient" "w_statefulSets emptyCluster = emptyClient" "w_claims emptyCluster = emptyClient"
  "w_nodeStatus emptyCluster = emptyClient" "cl_get emptyClient ns n s = (Inl NotFound, s)" "cl_list emptyClient ns s = (Inr [], s)"
  "cl_create emptyClient x s = (Inr x, s)" "cl_update emptyClient x s = (Inr x, s)"
  by (simp_all add: emptyCluster_def emptyClient_def)

lemma since_Nil: "since [] h = h"
  by (simp add: since_def)


end
