(* ===== verification/Migration_Safety.thy ===== *)
theory Migration_Safety
  imports Deploy_Safety
begin

text \<open>
  The managed signer of a ChainNode over any sequence of reconciles: a migration replaces the signer only after the
  old one was seen gone, and resets its state only in between. The reconciles may be interleaved with changes of the
  spec, every API call may fail, a status write that fails may have been stored or not, and the server is arbitrary.
\<close>

section \<open>What a migration has seen\<close>

fun noOwnedClaims :: "string \<Rightarrow> string \<Rightarrow> uid \<Rightarrow> act \<Rightarrow> bool" where
  "noOwnedClaims ns name u (ClaimEv (Listed ns' (Inr pvcs))) \<longleftrightarrow>
     ns' = ns \<and> \<not> list_ex (\<lambda>pvc. isOwnedStatefulSetDataPVC pvc u name) pvcs"
| "noOwnedClaims ns name u _ \<longleftrightarrow> False"

text \<open>The signer absent and then no pod of it; for a different key, no claim of it.\<close>

definition gone :: "ChainNode \<Rightarrow> (act \<Rightarrow> bool) list" where
  "gone n = [stsAbsent (cn_ns n) (cosmosignerName n), noSignerPods (cn_ns n) (cosmosignerName n)]"

definition reset :: "ChainNode \<Rightarrow> CosmosignerMigrationStatus \<Rightarrow> (act \<Rightarrow> bool) list" where
  "reset n m = (if ms_ResetState m then [noOwnedClaims (cn_ns n) (cosmosignerName n) (cn_uid n)] else [])"

definition progress :: "ChainNode \<Rightarrow> CosmosignerMigrationStatus \<Rightarrow> act list \<Rightarrow> bool" where
  "progress n m h =
     (case ms_Phase m of
        CosmosignerMigrationQuiescing \<Rightarrow> True
      | CosmosignerMigrationDeleting \<Rightarrow> True
      | CosmosignerMigrationResettingState \<Rightarrow> chain (gone n) h
      | CosmosignerMigrationRecreating \<Rightarrow> chain (gone n @ reset n m) h
      | CosmosignerMigrationRollingOut \<Rightarrow> chain (gone n @ reset n m @ gone n) h
      | _ \<Rightarrow> False)"

lemma reset_phase [simp]: "reset n (m\<lparr>ms_Phase := phase\<rparr>) = reset n m"
  by (simp add: reset_def)

lemma progress_lasting [lasts]: "lasting (progress n m)"
  unfolding progress_def [abs_def]
  by (cases "ms_Phase m") (auto intro: chain_lasting lasting_const)

lemma gone_chain: "signerGone (cn_ns n) (cosmosignerName n) h \<longleftrightarrow> chain (gone n) h"
  by (simp add: signerGone_def gone_def chain_pair)

section \<open>Sequences of reconciles\<close>

abbreviation migration :: "ChainNode \<Rightarrow> CosmosignerMigrationStatus option" where
  "migration n \<equiv> cns_CosmosignerMigration (cn_Status n)"

datatype signer_op =
    MigrateOp SignerParams
  | RecordOp SignerParams
  | ApplyOp StatefulSet
  | LocksOp
  | BackfillOp
  | UndeployOp

fun signerStep :: "signer_env \<Rightarrow> apply_env \<Rightarrow> 's cluster_api \<Rightarrow> ChainNode \<Rightarrow> signer_op \<Rightarrow> ('s, CleanupError, unit) prog" where
  "signerStep E A K n (MigrateOp p) = quietly (reconcileCosmosignerMigration E K n (p\<lparr>pa_Name := cosmosignerName n\<rparr>))"
| "signerStep E A K n (RecordOp p) = quietly (recordCosmosignerAppliedState E K n p)"
| "signerStep E A K n (ApplyOp sts) = quietly (applyCosmosignerObject A K n sts)"
| "signerStep E A K n LocksOp = quietly (initCosmosignerLocks E K n)"
| "signerStep E A K n BackfillOp = quietly (backfillCosmosignerLegacyStatus K n)"
| "signerStep E A K n UndeployOp = quietly (undeployCosmosigner K n)"

text \<open>The node as the server may have it after the calls.\<close>

definition stored :: "ChainNode \<Rightarrow> act list \<Rightarrow> ChainNode set" where
  "stored n k = insert n {x. \<exists>r. NodeStatusEv (Updated x r) \<in> set k}"

definition begins :: "ChainNode \<Rightarrow> ChainNode \<Rightarrow> bool" where
  "begins n x \<longleftrightarrow> migration x \<noteq> migration n \<and> (\<exists>m \<in> set_option (migration x). ms_Phase m = CosmosignerMigrationQuiescing)"

definition sameNode :: "ChainNode \<Rightarrow> ChainNode \<Rightarrow> bool" where
  "sameNode n x \<longleftrightarrow> cn_name x = cn_name n \<and> cn_ns x = cn_ns n \<and> cn_uid x = cn_uid n"

text \<open>The history restarts where a migration begins.\<close>

inductive signerRun :: "signer_env \<Rightarrow> apply_env \<Rightarrow> 's cluster_api \<Rightarrow> ChainNode \<Rightarrow> act list \<Rightarrow> bool" for E A K where
  Begin: "migration n = None \<Longrightarrow> signerRun E A K n []"
| Step: "signerRun E A K n g \<Longrightarrow> sameNode n n' \<Longrightarrow> cn_Status n' = cn_Status n \<Longrightarrow>
    signerStep E A (logged K) n' oper (s, g) = (r, s', h) \<Longrightarrow> x \<in> stored n' (since g h) \<Longrightarrow>
    signerRun E A K x (if begins n' x then [] else h)"

section \<open>The rule of one step\<close>

definition mayRecord :: "ChainNode \<Rightarrow> ChainNode \<Rightarrow> act list \<Rightarrow> bool" where
  "mayRecord n x h \<longleftrightarrow> sameNode n x \<and>
     (migration x = None \<or> migration x = migration n \<or> begins n x \<or>
      (\<exists>m phase. migration n = Some m \<and> migration x = Some (m\<lparr>ms_Phase := phase\<rparr>) \<and> progress n (m\<lparr>ms_Phase := phase\<rparr>) h))"

fun stepRule :: "ChainNode \<Rightarrow> act \<Rightarrow> act list \<Rightarrow> bool" where
  "stepRule n (NodeStatusEv (Updated x r)) h \<longleftrightarrow> mayRecord n x h"
| "stepRule n (StsEv (Created sts r)) h \<longleftrightarrow> (\<forall>m \<in> set_option (migration n). ms_Phase m = CosmosignerMigrationRollingOut)"
| "stepRule n (StsEv (Deleted sts p r)) h \<longleftrightarrow> p = Some (m_UID (sts_Meta sts)) \<and> stsRetired (OwnerNode n) (cn_ns n) sts h"
| "stepRule n (ClaimEv (Deleted c p r)) h \<longleftrightarrow> signerAway (OwnerNode n) (cn_ns n) (cosmosignerName n) h \<and>
     claimEvent (cn_uid n) (cosmosignerName n) h (ClaimEv (Deleted c p r))"
| "stepRule n (ClaimEv (Created c r)) h \<longleftrightarrow> False"
| "stepRule n (NodeStatusEv _) h \<longleftrightarrow> False"
| "stepRule n e h \<longleftrightarrow> True"

text \<open>The rule held before every write since a point.\<close>

definition ruledSince :: "act list \<Rightarrow> (act \<Rightarrow> act list \<Rightarrow> bool) \<Rightarrow> act list \<Rightarrow> bool" where
  "ruledSince g G h \<longleftrightarrow> prefix g h \<and> guardedFrom g (\<lambda>e. \<not> isRead e) G (since g h)"

lemma ruledSince_refl [simp]: "ruledSince g G g"
  by (simp add: ruledSince_def)

lemma ruledSince_snoc [simp]:
  assumes "ruledSince g G h"
  shows "ruledSince g G (snoc h e) \<longleftrightarrow> isRead e \<or> G e h"
proof -
  obtain l where h: "h = g @ l" using assms by (auto simp: ruledSince_def prefix_def)
  have "snoc h e = g @ l @ [e]" by (simp add: h snoc_def)
  then show ?thesis using assms unfolding h ruledSince_def by (auto simp: guardedFrom_append)
qed

section \<open>The functions\<close>

lemma step_claim:
  "signerAway (OwnerNode n) (cn_ns n) (cosmosignerName n) h \<Longrightarrow> claimEvent (cn_uid n) (cosmosignerName n) h e \<Longrightarrow> stepRule n e h"
  by (cases "(n, e, h)" rule: stepRule.cases) auto

lemma step_object: "objectEvent ow e \<Longrightarrow> stepRule n e h"
  by (cases "(n, e, h)" rule: stepRule.cases) auto

interpretation step: signer_history "ruledSince g (stepRule n)" "OwnerNode n" "cn_ns n" for g n
  by unfold_locales auto

interpretation step_claims: claim_history
  "\<lambda>h. ruledSince g (stepRule n) h \<and> signerAway (OwnerNode n) (cn_ns n) (cosmosignerName n) h" "cn_uid n" "cosmosignerName n" for g n
  by unfold_locales (auto intro: step_claim)

interpretation step_objects: object_history
  "\<lambda>h. ruledSince g (stepRule n) h \<and> signerAway (OwnerNode n) (cn_ns n) (cosmosignerName n) h" "OwnerNode n" for g n
  by unfold_locales (auto intro: step_object)

lemma wp_step_rest [wps]:
  assumes "ruledSince g (stepRule n) h" "signerAway (OwnerNode n) (cn_ns n) (cosmosignerName n) h"
    "\<And>k. ruledSince g (stepRule n) k \<Longrightarrow> signerAway (OwnerNode n) (cn_ns n) (cosmosignerName n) k \<Longrightarrow> prefix h k \<Longrightarrow> Q () k"
  shows "wp (ruledSince g (stepRule n)) (undeployObjects (logged K) (OwnerNode n) (cn_ns n) (cosmosignerName n)) Q h"
    and "wp (ruledSince g (stepRule n)) (DeletePVCs (logged K) (cn_uid n) (cn_ns n) (cosmosignerName n)) Q h"
  by (rule wp_knowing [where B = "signerAway (OwnerNode n) (cn_ns n) (cosmosignerName n)"], intro wps; use assms in auto)+

lemma wp_updateStatus [wps]:
  "ruledSince g (stepRule n) h \<Longrightarrow> mayRecord n x h \<Longrightarrow> (\<And>y k. ruledSince g (stepRule n) k \<Longrightarrow> prefix h k \<Longrightarrow> Q y k) \<Longrightarrow>
   wp (ruledSince g (stepRule n)) (updateStatus (logged K) x) Q h"
  unfolding updateStatus_def run_defs by (intro wps) auto

lemma wp_MarkEverRolledOut [wps]:
  "ruledSince g (stepRule n) h \<Longrightarrow> (\<And>y k. ruledSince g (stepRule n) k \<Longrightarrow> prefix h k \<Longrightarrow> Q y k) \<Longrightarrow>
   wp (ruledSince g (stepRule n)) (MarkEverRolledOut (logged K) ns name desired) Q h"
  unfolding MarkEverRolledOut_def getSts_def run_defs by (intro wps) auto

lemma chain_gone_away: "chain (gone n) h \<Longrightarrow> signerAway (OwnerNode n) (cn_ns n) (cosmosignerName n) h"
  using gone_away gone_chain by blast

lemma wp_migration_phase [wps]:
  assumes "ruledSince g (stepRule n) h" "progress n m h" "phase = ms_Phase m" "b = ms_ResetState m"
    and Q: "\<And>ready next k. ruledSince g (stepRule n) k \<Longrightarrow> prefix h k \<Longrightarrow>
      (next \<noteq> phase \<longrightarrow> progress n (m\<lparr>ms_Phase := next\<rparr>) k) \<Longrightarrow>
      (ready \<longrightarrow> progress n (m\<lparr>ms_Phase := CosmosignerMigrationRollingOut\<rparr>) k) \<Longrightarrow> Q (ready, next) k"
  shows "wp (ruledSince g (stepRule n))
    (ReconcileStatefulSetMigration (logged K) (OwnerNode n) (cn_ns n) (cosmosignerName n) phase b) Q h"
proof (cases "ms_Phase m")
  case CosmosignerMigrationQuiescing
  then show ?thesis unfolding ReconcileStatefulSetMigration_def assms(3,4)
    by (simp only: CosmosignerMigrationPhase.case, intro wps) (auto simp: assms progress_def intro!: Q)
next
  case CosmosignerMigrationDeleting
  then show ?thesis unfolding ReconcileStatefulSetMigration_def assms(3,4)
    by (simp only: CosmosignerMigrationPhase.case, intro wps)
      (auto simp: assms progress_def gone_chain intro!: Q intro: lasting_whole [OF chain_lasting])
next
  case CosmosignerMigrationResettingState
  have "signerAway (OwnerNode n) (cn_ns n) (cosmosignerName n) h" "chain (gone n) h"
    using assms(2) CosmosignerMigrationResettingState by (simp_all add: progress_def chain_gone_away)
  then show ?thesis using CosmosignerMigrationResettingState
    unfolding ReconcileStatefulSetMigration_def OwnedPVCsGone_def run_defs assms(3,4)
    by (simp only: CosmosignerMigrationPhase.case owner_meta.simps, intro wps)
      (auto simp: assms progress_def reset_def intro!: Q, erule chain_snoc, assumption, simp)
next
  case CosmosignerMigrationRecreating
  have "chain (gone n @ reset n m) h" using assms(2) CosmosignerMigrationRecreating by (simp add: progress_def)
  then show ?thesis using CosmosignerMigrationRecreating unfolding ReconcileStatefulSetMigration_def assms(3,4)
    by (simp only: CosmosignerMigrationPhase.case, intro wps)
      (auto simp: assms progress_def gone_chain intro!: Q intro: chain_after [where Ps = "gone n @ reset n m", simplified])
next
  case CosmosignerMigrationRollingOut
  then show ?thesis unfolding ReconcileStatefulSetMigration_def assms(3,4)
    by (simp only: CosmosignerMigrationPhase.case, intro wps) (rule assms(1))
qed (use assms(2) in \<open>auto simp: progress_def\<close>)

lemma mayRecord_status:
  "cns_CosmosignerMigration st = migration n \<or> cns_CosmosignerMigration st = None \<Longrightarrow> mayRecord n (n\<lparr>cn_Status := st\<rparr>) h"
  by (auto simp: mayRecord_def sameNode_def)

lemma mayRecord_same: "sameNode n x \<Longrightarrow> migration x = migration n \<Longrightarrow> mayRecord n x h"
  by (simp add: mayRecord_def)

lemma mayRecord_start:
  "(\<forall>m \<in> set_option (migration n). ms_DesiredDigest m \<noteq> d \<or> ms_DesiredPublicKey m \<noteq> key) \<Longrightarrow>
   mayRecord n (onStatus (startMigration d key) n) h"
  by (auto simp: mayRecord_def sameNode_def begins_def startMigration_def)

lemma mayRecord_phase:
  "migration n = Some m \<Longrightarrow> progress n (m\<lparr>ms_Phase := phase\<rparr>) h \<Longrightarrow> mayRecord n (onStatus (setMigrationPhase phase m) n) h"
  by (auto simp: mayRecord_def sameNode_def setMigrationPhase_def)

lemma wp_reconcileMigration [wps]:
  assumes "ruledSince g (stepRule n) h" "\<forall>m \<in> set_option (migration n). progress n m h" "pa_Name p = cosmosignerName n"
    and Q: "\<And>x k. ruledSince g (stepRule n) k \<Longrightarrow> prefix h k \<Longrightarrow> Q x k"
  shows "wp (ruledSince g (stepRule n)) (reconcileCosmosignerMigration E (logged K) n p) Q h"
  unfolding reconcileCosmosignerMigration_def recordFirstRollout_def Let_def assms(3)
  by (intro wps) (auto simp: assms(1,2) intro!: Q mayRecord_start mayRecord_phase intro: mayRecord_status)

lemma wp_recordApplied [wps]:
  assumes "ruledSince g (stepRule n) h" and Q: "\<And>x k. ruledSince g (stepRule n) k \<Longrightarrow> prefix h k \<Longrightarrow> Q x k"
  shows "wp (ruledSince g (stepRule n)) (recordCosmosignerAppliedState E (logged K) n p) Q h"
  unfolding recordCosmosignerAppliedState_def Let_def
  by (intro wps) (auto simp: assms(1) intro!: Q mayRecord_status)

lemma wp_initLocks [wps]:
  assumes "ruledSince g (stepRule n) h" and Q: "\<And>x k. ruledSince g (stepRule n) k \<Longrightarrow> prefix h k \<Longrightarrow> Q x k"
  shows "wp (ruledSince g (stepRule n)) (initCosmosignerLocks E (logged K) n) Q h"
  unfolding initCosmosignerLocks_def Let_def
  by (intro wps) (auto simp: assms(1) lockStatus_def Let_def intro!: Q mayRecord_status)

lemma backfill_keeps:
  assumes "backfillIdentities n = (n1, changed)"
  shows "sameNode n n1 \<and> migration n1 = migration n"
  using assms by (auto simp: backfillIdentities_def sameNode_def Let_def split: if_splits)

lemma wp_backfill [wps]:
  assumes "ruledSince g (stepRule n) h" and Q: "\<And>x k. ruledSince g (stepRule n) k \<Longrightarrow> prefix h k \<Longrightarrow> Q x k"
  shows "wp (ruledSince g (stepRule n)) (backfillCosmosignerLegacyStatus (logged K) n) Q h"
  unfolding backfillCosmosignerLegacyStatus_def backfillTarget_def getSts_def run_defs Let_def
  by (intro wps) (auto simp: assms(1) sameNode_def dest!: backfill_keeps intro!: Q mayRecord_same)

lemma wp_step_Undeploy [wps]:
  assumes "ruledSince g (stepRule n) h" "\<And>k. ruledSince g (stepRule n) k \<Longrightarrow> prefix h k \<Longrightarrow> Q () k"
  shows "wp (ruledSince g (stepRule n)) (Undeploy (logged K) (OwnerNode n) (cn_ns n) (cosmosignerName n)) Q h"
  unfolding Undeploy_def getSts_def run_defs owner_meta.simps
  by (intro wps) (auto simp: assms(1) intro!: assms(2) intro: gone_part)

lemma wp_signerUndeploy [wps]:
  assumes "ruledSince g (stepRule n) h" and Q: "\<And>x k. ruledSince g (stepRule n) k \<Longrightarrow> prefix h k \<Longrightarrow> Q x k"
  shows "wp (ruledSince g (stepRule n)) (undeployCosmosigner (logged K) n) Q h"
  unfolding undeployCosmosigner_def run_defs Let_def
  by (intro wps) (auto simp: assms(1) clearSignerStatus_def intro!: Q mayRecord_status)

lemma wp_quiesceUnsafe [wps]:
  "ruledSince g (stepRule n) h \<Longrightarrow> wp (ruledSince g (stepRule n)) (quiesceUnsafeRetainedState (logged K) sts cause) Q h"
  unfolding quiesceUnsafeRetainedState_def run_defs by (intro wps) auto

lemma guard_phase:
  "StatefulSetApplyGuard b (migration n) l d = Inr guard \<Longrightarrow> \<forall>m \<in> set_option (migration n). ms_Phase m = CosmosignerMigrationRollingOut"
  by (auto simp: StatefulSetApplyGuard_def split: if_splits)

lemma wp_signerApply [wps]:
  assumes "ruledSince g (stepRule n) h" and Q: "\<And>x k. ruledSince g (stepRule n) k \<Longrightarrow> prefix h k \<Longrightarrow> Q x k"
  shows "wp (ruledSince g (stepRule n)) (applyCosmosignerObject A (logged K) n sts) Q h"
  unfolding applyCosmosignerObject_def ApplyOwnedStatefulSet_def getSts_def run_defs Let_def
  by (intro wps wp_rescue) (auto simp: assms(1) dest!: guard_phase intro!: Q)

section \<open>The invariant\<close>

fun isCreate :: "act \<Rightarrow> bool" where
  "isCreate (StsEv (Created sts r)) = True"
| "isCreate _ = False"

fun isClaimDelete :: "act \<Rightarrow> bool" where
  "isClaimDelete (ClaimEv (Deleted c p r)) = True"
| "isClaimDelete _ = False"

text \<open>The progress a StatefulSet is created on.\<close>

abbreviation rolledProgress :: "ChainNode \<Rightarrow> CosmosignerMigrationStatus \<Rightarrow> act list \<Rightarrow> bool" where
  "rolledProgress n m \<equiv> progress n (m\<lparr>ms_Phase := CosmosignerMigrationRollingOut\<rparr>)"

definition migrated :: "ChainNode \<Rightarrow> act list \<Rightarrow> bool" where
  "migrated n g \<longleftrightarrow> guarded isClaimDelete (\<lambda>e. signerAway (OwnerNode n) (cn_ns n) (cosmosignerName n)) g \<and>
     (\<forall>m \<in> set_option (migration n). progress n m g \<and> guarded isCreate (\<lambda>e. rolledProgress n m) g)"

lemma wp_signerStep:
  assumes "\<forall>m \<in> set_option (migration n). progress n m g"
  shows "wp (ruledSince g (stepRule n)) (signerStep E A (logged K) n oper) (\<lambda>x k. True) g"
  by (cases oper; simp add: quietly_def; intro wps; use assms in auto)

lemma guardedFrom_mono:
  "guardedFrom g D G l \<Longrightarrow> (\<And>e k. prefix g k \<Longrightarrow> prefix k (g @ l) \<Longrightarrow> D' e \<Longrightarrow> D e \<and> (G e k \<longrightarrow> G' e k)) \<Longrightarrow> guardedFrom g D' G' l"
proof (induction l arbitrary: g)
  case (Cons e l)
  have "guardedFrom (g @ [e]) D' G' l"
  proof (rule Cons.IH)
    show "guardedFrom (g @ [e]) D G l" using Cons.prems(1) by simp
    show "D x \<and> (G x k \<longrightarrow> G' x k)" if "prefix (g @ [e]) k" "prefix k ((g @ [e]) @ l)" "D' x" for x k
      using Cons.prems(2) [of k x] that by (auto intro: append_prefixD)
  qed
  then show ?case using Cons.prems(1) Cons.prems(2) [of g e] by auto
qed simp

lemma ruledSince_guarded:
  assumes "ruledSince g G h" "guarded D B g"
    and "\<And>e k. prefix g k \<Longrightarrow> D e \<Longrightarrow> \<not> isRead e \<and> (G e k \<longrightarrow> B e k)"
  shows "guarded D B h"
proof -
  have "guardedFrom g D B (since g h)"
    by (rule guardedFrom_mono [where D = "\<lambda>e. \<not> isRead e" and G = G]) (use assms in \<open>auto simp: ruledSince_def\<close>)
  moreover have "h = g @ since g h" using assms(1) by (simp add: ruledSince_def since_split)
  ultimately show ?thesis using assms(2) unfolding guarded_def by (metis append_Nil guardedFrom_append)
qed

lemma ruledSince_event:
  assumes "ruledSince g G h" "e \<in> set (since g h)" "\<not> isRead e"
  obtains k where "prefix g k" "prefix k h" "G e k"
proof -
  obtain l1 l2 where l: "since g h = l1 @ e # l2" using assms(2) by (auto simp: in_set_conv_decomp)
  have "guardedFrom g (\<lambda>e. \<not> isRead e) G (l1 @ e # l2)" using assms(1) l by (simp add: ruledSince_def)
  then have "G e (g @ l1)" using assms(3) by (simp add: guardedFrom_append)
  moreover have "h = g @ l1 @ e # l2" using assms(1) l since_split [of g h] by (simp add: ruledSince_def)
  ultimately show thesis using that [of "g @ l1"] by (simp add: prefix_def)
qed

text \<open>What was seen of a node does not depend on the rest of the object.\<close>

lemma sameNode_parts:
  assumes "sameNode n x"
  shows "cosmosignerName x = cosmosignerName n" "progress x = progress n"
    "signerAway (OwnerNode x) = signerAway (OwnerNode n)"
proof -
  show name: "cosmosignerName x = cosmosignerName n" using assms by (simp add: cosmosignerName_def sameNode_def)
  have "gone x = gone n" "reset x = reset n" using assms name by (auto simp: gone_def reset_def sameNode_def)
  then show "progress x = progress n" by (intro ext) (simp add: progress_def split: CosmosignerMigrationPhase.split)
  have "foreignShown (OwnerNode x) ns sgn e = foreignShown (OwnerNode n) ns sgn e" for ns sgn e
    using assms by (cases "(OwnerNode n, ns, sgn, e)" rule: foreignShown.cases) (auto simp: IsControlledBy_def sameNode_def)
  then show "signerAway (OwnerNode x) = signerAway (OwnerNode n)" by (intro ext) (simp add: signerAway_def)
qed

lemma migrated_same:
  assumes "sameNode n x" "migration x = migration n"
  shows "migrated x g = migrated n g"
  using assms(2) sameNode_parts [OF assms(1)] assms(1) by (simp add: migrated_def sameNode_def)

lemma migrated_extend:
  assumes "migrated n g" "ruledSince g (stepRule n) h"
  shows "guarded isClaimDelete (\<lambda>e. signerAway (OwnerNode n) (cn_ns n) (cosmosignerName n)) h"
    and "migration n = Some m \<Longrightarrow> progress n m h \<and> guarded isCreate (\<lambda>e. rolledProgress n m) h"
proof -
  show "guarded isClaimDelete (\<lambda>e. signerAway (OwnerNode n) (cn_ns n) (cosmosignerName n)) h"
  proof (rule ruledSince_guarded [OF assms(2)])
    show "\<not> isRead e \<and> (stepRule n e k \<longrightarrow> signerAway (OwnerNode n) (cn_ns n) (cosmosignerName n) k)" if "isClaimDelete e" for e k
      using that by (cases e rule: isClaimDelete.cases) auto
  qed (use assms(1) in \<open>simp add: migrated_def\<close>)
  assume m: "migration n = Some m"
  have g: "progress n m g" using assms(1) m by (simp add: migrated_def)
  have gh: "prefix g h" using assms(2) by (simp add: ruledSince_def)
  have "guarded isCreate (\<lambda>e. rolledProgress n m) h"
  proof (rule ruledSince_guarded [OF assms(2)])
    show "\<not> isRead e \<and> (stepRule n e k \<longrightarrow> rolledProgress n m k)" if "isCreate e" "prefix g k" for e k
      using that m lastingD [OF progress_lasting g that(2)] by (cases e rule: isCreate.cases) (auto simp: progress_def)
  qed (use assms(1) m in \<open>simp add: migrated_def\<close>)
  then show "progress n m h \<and> guarded isCreate (\<lambda>e. rolledProgress n m) h"
    using lastingD [OF progress_lasting g gh] by blast
qed

lemma stored_recorded:
  assumes "ruledSince g (stepRule n) h" "x \<in> stored n (since g h)" "x \<noteq> n"
  obtains k where "mayRecord n x k" "prefix k h"
proof -
  obtain r where "NodeStatusEv (Updated x r) \<in> set (since g h)" using assms(2,3) by (auto simp: stored_def)
  from ruledSince_event [OF assms(1) this] obtain k where "prefix k h" "stepRule n (NodeStatusEv (Updated x r)) k" by auto
  then show thesis using that by simp
qed

lemma migrated_stored:
  assumes "migrated n g" "ruledSince g (stepRule n) h" "x \<in> stored n (since g h)"
  shows "migrated x (if begins n x then [] else h)"
proof (cases "begins n x")
  case True
  then show ?thesis by (auto simp: begins_def migrated_def progress_def)
next
  case False
  note extend = migrated_extend [OF assms(1,2)]
  have mn: "migrated n h" using extend by (auto simp: migrated_def)
  have "x = n \<or> (\<exists>k. mayRecord n x k \<and> prefix k h)" using stored_recorded [OF assms(2,3)] by blast
  then consider "x = n" | "sameNode n x" "migration x = None" | "sameNode n x" "migration x = migration n"
    | k m phase where "sameNode n x" "prefix k h" "migration n = Some m" "migration x = Some (m\<lparr>ms_Phase := phase\<rparr>)"
        "progress n (m\<lparr>ms_Phase := phase\<rparr>) k"
    using False unfolding mayRecord_def by (elim disjE exE conjE) blast+
  then have "migrated x h"
  proof cases
    case 2
    then show ?thesis using extend(1) sameNode_parts [OF 2(1)] by (simp add: migrated_def sameNode_def)
  next
    case 4
    then show ?thesis
      using extend sameNode_parts [OF 4(1)] lastingD [OF progress_lasting 4(5,2)] by (simp add: migrated_def sameNode_def)
  qed (use mn migrated_same in auto)
  then show ?thesis using False by simp
qed

lemma signerRun_migrated: "signerRun E A K n g \<Longrightarrow> migrated n g"
proof (induction rule: signerRun.induct)
  case (Begin n)
  then show ?case by (simp add: migrated_def)
next
  case (Step n g n' oper s r s' h x)
  have n': "migrated n' g" using Step by (simp add: migrated_same)
  have w: "wp (ruledSince g (stepRule n')) (signerStep E A (logged K) n' oper) (\<lambda>x k. True) g"
    by (rule wp_signerStep) (use n' in \<open>auto simp: migrated_def\<close>)
  have "ruledSince g (stepRule n') h" using wp_run [OF w Step.hyps(4)] by simp
  then show ?case by (rule migrated_stored [OF n' _ Step.hyps(5)])
qed

text \<open>C5: Over any sequence of reconciles of a managed signer (migrations, records of the applied state, locks, backfills,
  applications, teardowns, with changes of the spec in between, failing calls and status writes that may be lost), a
  migration that is recorded as past its deletion phase has, since it began, seen the StatefulSet of the signer absent and
  then no pod of it; for a different key it is recorded as past its reset only after no state claim was left; and it is
  recorded as rolling out only after the signer was then seen absent and without pods again. A StatefulSet is
  created during a migration only after all of this was seen, and a state claim is deleted only after the signer was seen away.\<close>

theorem migration_breaks_before_making:
  assumes "signerRun E A K n g" "migration n = Some m"
  shows "progress n m g \<and> guarded isCreate (\<lambda>e. rolledProgress n m) g \<and>
    guarded isClaimDelete (\<lambda>e. signerAway (OwnerNode n) (cn_ns n) (cosmosignerName n)) g"
  using signerRun_migrated [OF assms(1)] assms(2) by (simp add: migrated_def)

section \<open>A run\<close>

definition labEnv :: signer_env where
  "labEnv = \<lparr>se_Hash = id, se_ParseQuantity = (\<lambda>q. None), se_QuantityString = (\<lambda>q. [])\<rparr>"

definition labParams :: "string \<Rightarrow> string \<Rightarrow> SignerParams" where
  "labParams digest key = \<lparr>pa_Name = [], pa_Replicas = 1, pa_ExpectedPublicKey = key, pa_LifecycleDigest = (\<lambda>d. Inr digest)\<rparr>"

definition labNode :: "CosmosignerMigrationStatus option \<Rightarrow> ChainNode" where
  "labNode m = onStatus (\<lambda>st. st\<lparr>cns_CosmosignerAppliedDigest := ''old'', cns_CosmosignerPublicKey := ''A'',
     cns_CosmosignerMigration := m\<rparr>) zero_ChainNode"

definition labMigration :: "CosmosignerMigrationPhase \<Rightarrow> CosmosignerMigrationStatus" where
  "labMigration phase = \<lparr>ms_DesiredDigest = ''new'', ms_DesiredPublicKey = ''B'', ms_Phase = phase, ms_ResetState = True,
     ms_RolloutObservedAt = None\<rparr>"

lemma labNode_status:
  "migration (labNode m) = m" "cns_CosmosignerAppliedDigest (cn_Status (labNode m)) = ''old''"
  "cns_CosmosignerPublicKey (cn_Status (labNode m)) = ''A''"
  "onStatus (startMigration ''new'' ''B'') (labNode m) = labNode (Some (labMigration CosmosignerMigrationQuiescing))"
  "onStatus (setMigrationPhase phase m') (labNode m) = labNode (Some (m'\<lparr>ms_Phase := phase\<rparr>))"
  by (simp_all add: labNode_def labMigration_def startMigration_def setMigrationPhase_def)

lemma labMigration_sel:
  "ms_DesiredDigest (labMigration phase) = ''new''" "ms_DesiredPublicKey (labMigration phase) = ''B''"
  "ms_Phase (labMigration phase) = phase" "ms_ResetState (labMigration phase)"
  "(labMigration phase)\<lparr>ms_Phase := phase'\<rparr> = labMigration phase'"
  "labMigration phase = labMigration phase' \<longleftrightarrow> phase = phase'"
  by (simp_all add: labMigration_def)

lemmas lab_simps = emptyCluster_sel labNode_status labMigration_sel labEnv_def labApply_def labParams_def since_Nil

lemmas run_simps = signerStep.simps reconcileCosmosignerMigration_def ReconcileStatefulSetMigration_def retainStatefulSetPVCs_def
  ScaleDown_def DeleteStatefulSet_def SignerPodsGone_def DeletePVCs_def OwnedPVCsGone_def updateStatus_def getSts_def
  applyCosmosignerObject_def ApplyOwnedStatefulSet_def StatefulSetApplyGuard_def RetainedStateRequired_def signerEstablished_def
  ensureStatefulSetPVCsForApply_def ensureNoForeignDataPVCs_def
  logged_sel logged_client_sel logging_def quietly_def seq_def ret_def fail_def call_def get_or_def lift_def doneOr_def
  loopThen_def Let_def stored_def begins_def

text \<open>One step, with the node the server has afterwards.\<close>

lemma signerRun_next:
  assumes "signerRun E A K n g" "h = snd (snd (signerStep E A (logged K) n oper (s, g)))" "x \<in> stored n (since g h)"
  shows "signerRun E A K x (if begins n x then [] else h)"
proof (rule Step [OF assms(1)])
  show "signerStep E A (logged K) n oper (s, g) =
      (fst (signerStep E A (logged K) n oper (s, g)), fst (snd (signerStep E A (logged K) n oper (s, g))), h)"
    using assms(2) by simp
qed (use assms(3) in \<open>simp_all add: sameNode_def\<close>)

definition labStep :: "ChainNode \<Rightarrow> signer_op \<Rightarrow> act list \<Rightarrow> act list" where
  "labStep n oper g = snd (snd (signerStep labEnv labApply (logged emptyCluster) n oper ((), g)))"

abbreviation labRun :: "ChainNode \<Rightarrow> act list \<Rightarrow> bool" where
  "labRun \<equiv> signerRun labEnv labApply emptyCluster"

lemma labRun_next:
  "labRun n g \<Longrightarrow> x \<in> stored n (since g (labStep n oper g)) \<Longrightarrow> labRun x (if begins n x then [] else labStep n oper g)"
  by (rule signerRun_next) (auto simp: labStep_def)

abbreviation labAt :: "CosmosignerMigrationPhase \<Rightarrow> ChainNode" where
  "labAt phase \<equiv> labNode (Some (labMigration phase))"

abbreviation labMigrate :: signer_op where
  "labMigrate \<equiv> MigrateOp (labParams ''new'' ''B'')"

lemma lab_start: "labRun (labAt CosmosignerMigrationQuiescing) []"
proof -
  have n: "labRun (labNode None) []" by (rule Begin) (simp add: labNode_def)
  show ?thesis using labRun_next [OF n, of "labAt CosmosignerMigrationQuiescing" labMigrate]
    by (simp add: run_simps labStep_def lab_simps)
qed

lemma lab_phases:
  "labRun (labAt CosmosignerMigrationQuiescing) g \<Longrightarrow>
     labRun (labAt CosmosignerMigrationDeleting) (labStep (labAt CosmosignerMigrationQuiescing) labMigrate g)"
  "labRun (labAt CosmosignerMigrationDeleting) g \<Longrightarrow>
     labRun (labAt CosmosignerMigrationResettingState) (labStep (labAt CosmosignerMigrationDeleting) labMigrate g)"
  "labRun (labAt CosmosignerMigrationResettingState) g \<Longrightarrow>
     labRun (labAt CosmosignerMigrationRecreating) (labStep (labAt CosmosignerMigrationResettingState) labMigrate g)"
  "labRun (labAt CosmosignerMigrationRecreating) g \<Longrightarrow>
     labRun (labAt CosmosignerMigrationRollingOut) (labStep (labAt CosmosignerMigrationRecreating) labMigrate g)"
  subgoal using labRun_next [of "labAt CosmosignerMigrationQuiescing" g "labAt CosmosignerMigrationDeleting" labMigrate]
    by (simp add: run_simps labStep_def lab_simps)
  subgoal using labRun_next [of "labAt CosmosignerMigrationDeleting" g "labAt CosmosignerMigrationResettingState" labMigrate]
    by (simp add: run_simps labStep_def lab_simps)
  subgoal using labRun_next [of "labAt CosmosignerMigrationResettingState" g "labAt CosmosignerMigrationRecreating" labMigrate]
    by (simp add: run_simps labStep_def lab_simps)
  subgoal using labRun_next [of "labAt CosmosignerMigrationRecreating" g "labAt CosmosignerMigrationRollingOut" labMigrate]
    by (simp add: run_simps labStep_def lab_simps)
  done

lemma lab_applied:
  assumes "labRun (labAt CosmosignerMigrationRollingOut) g"
  shows "\<exists>h. labRun (labAt CosmosignerMigrationRollingOut) h \<and> list_ex isCreate h"
proof -
  let ?n = "labAt CosmosignerMigrationRollingOut"
  let ?h = "labStep ?n (ApplyOp labSts) g"
  have "list_ex isCreate ?h" by (simp add: run_simps labStep_def lab_simps snoc_def)
  moreover have "labRun ?n ?h" using labRun_next [OF assms, of ?n "ApplyOp labSts"] by (simp add: stored_def begins_def)
  ultimately show ?thesis by blast
qed

lemma lab_deployed: "\<exists>h. labRun (labAt CosmosignerMigrationRollingOut) h \<and> list_ex isCreate h"
  by (rule lab_applied [OF lab_phases(4) [OF lab_phases(3) [OF lab_phases(2) [OF lab_phases(1) [OF lab_start]]]]])

theorem migration_breaks_before_making_witness:
  "\<exists>g. labRun (labAt CosmosignerMigrationRollingOut) g \<and> list_ex isCreate g \<and>
     guarded isCreate (\<lambda>e. rolledProgress (labAt CosmosignerMigrationRollingOut) (labMigration CosmosignerMigrationRollingOut)) g"
proof -
  obtain g where g: "labRun (labAt CosmosignerMigrationRollingOut) g" "list_ex isCreate g" using lab_deployed by blast
  then show ?thesis
    using migration_breaks_before_making [OF g(1), of "labMigration CosmosignerMigrationRollingOut"] labNode_status(1) by blast
qed

section \<open>A migration that is taken back\<close>

text \<open>C40: A migration to another key that is taken back, after the state of the applied key was reset and the signer of the other
  key was rolled out but before that was recorded, is replaced by a migration that does not reset the state: its
  \<open>ResetState\<close> compares the key with the recorded one. The signer of the first key is then deployed only on the claims
  that are there, those of the other key.\<close>

theorem reverted_migration_keeps_state:
  assumes "pa_LifecycleDigest p (CosmosignerSigningDigest (se_Hash E) n) = Inr d"
    "cns_CosmosignerAppliedDigest (cn_Status n) = d" "cns_CosmosignerPublicKey (cn_Status n) = pa_ExpectedPublicKey p"
    "d \<noteq> []" "pa_ExpectedPublicKey p \<noteq> []"
    "migration n = Some m" "ms_DesiredPublicKey m \<noteq> pa_ExpectedPublicKey p" "ms_Phase m = CosmosignerMigrationRollingOut" "ms_ResetState m"
  shows "\<exists>x r. trail (reconcileCosmosignerMigration E (logged K) n p) s = [NodeStatusEv (Updated x r)] \<and>
    migration x = Some (m\<lparr>ms_DesiredDigest := d, ms_DesiredPublicKey := pa_ExpectedPublicKey p,
      ms_Phase := CosmosignerMigrationQuiescing, ms_ResetState := False, ms_RolloutObservedAt := None\<rparr>) \<and>
    RetainedStateRequired True (migration x)"
  using assms
  by (auto simp: reconcileCosmosignerMigration_def trail_def updateStatus_def startMigration_def RetainedStateRequired_def
      lift_def seq_def ret_def call_def logging_def Let_def split: prod.splits sum.splits)

theorem reverted_migration_keeps_state_witness:
  "\<exists>x r. trail (reconcileCosmosignerMigration labEnv (logged emptyCluster) (labAt CosmosignerMigrationRollingOut) (labParams ''old'' ''A'')) () =
      [NodeStatusEv (Updated x r)] \<and> (\<exists>m. migration x = Some m \<and> \<not> ms_ResetState m) \<and> RetainedStateRequired True (migration x)"
  using reverted_migration_keeps_state [of "labParams ''old'' ''A''" labEnv "labAt CosmosignerMigrationRollingOut" "''old''"
      "labMigration CosmosignerMigrationRollingOut" emptyCluster "()"]
  by (fastforce simp: lab_simps)

end
